(* ===== verification/Prelude.thy ===== *)
theory Prelude
  imports Main "HOL-Library.Word" "HOL-Library.Multiset"
begin

text \<open>
  Shared types, control structure and library lemmas of the development.

  \<^item> Machine integers of the Rust code are words (\<open>u8\<close>, \<open>u32\<close>, \<open>u64\<close>); \<open>i32\<close> and \<open>i64\<close> columns
    of the database are \<open>int\<close>, with the wrap-around written out where the code computes with them.
  \<^item> A Rust \<open>Result\<close> is a sum, \<open>Inl\<close> for \<open>Err\<close> and \<open>Inr\<close> for \<open>Ok\<close>; the operator \<open>?\<close> is
    \<open>try_bind\<close>.
  \<^item> A Rust \<open>&str\<close> whose operations are byte-wise (ASCII delimiters) is a \<open>string\<close>; where the code
    walks over \<open>chars()\<close> it is a list of Unicode scalar values (\<open>uchar\<close>).
  \<^item> The relational tables the server keeps are lists of rows; the statements the code issues are
    \<open>tbl_first\<close>, \<open>tbl_select\<close>, \<open>tbl_delete\<close>, \<open>tbl_update\<close> and \<open>tbl_upsert\<close>.
\<close>

unbundle bit_operations_syntax

type_synonym u8 = "8 word"
type_synonym u32 = "32 word"
type_synonym u64 = "64 word"
type_synonym bytes = "u8 list"
type_synonym uchar = nat
type_synonym ustring = "uchar list"

named_theorems result_simps \<open>evaluation of the result type and of the operator ?\<close>
named_theorems tbl_simps \<open>how the table statements act on each other\<close>

section \<open>Words\<close>

lemma word_xor_eq_0_iff: "x XOR y = 0 \<longleftrightarrow> x = (y :: 'a::len word)"
proof
  assume "x XOR y = 0"
  then have "(x XOR y) XOR y = y" by simp
  then show "x = y" by (simp add: xor.assoc)
qed simp

lemma u8_lt [simp]: "unat (b :: u8) < 256"
  using unsigned_less [of b] by simp

lemma u8_unat_of_nat: "n < 256 \<Longrightarrow> unat (of_nat n :: u8) = n"
  by (simp add: unat_of_nat)

lemma u32_lt: "unat (b :: u32) < 2 ^ 32"
  using unsigned_less [of b] by simp

lemma of_nat_unat_div_mod: "of_nat (unat b div 16 * 16 + unat b mod 16) = (b :: u8)"
  unfolding div_mult_mod_eq by simp

lemma u8_div_16 [simp]: "unat (b :: u8) div 16 < 16"
  by (rule less_mult_imp_div_less) simp

section \<open>Results\<close>

definition try_bind :: "'e + 'a \<Rightarrow> ('a \<Rightarrow> 'e + 'b) \<Rightarrow> 'e + 'b" where
  "try_bind r f = (case r of Inl e \<Rightarrow> Inl e | Inr a \<Rightarrow> f a)"

definition map_err :: "('e \<Rightarrow> 'f) \<Rightarrow> 'e + 'a \<Rightarrow> 'f + 'a" where
  "map_err f r = (case r of Inl e \<Rightarrow> Inl (f e) | Inr a \<Rightarrow> Inr a)"

definition ok_or :: "'e \<Rightarrow> 'a option \<Rightarrow> 'e + 'a" where
  "ok_or e x = (case x of None \<Rightarrow> Inl e | Some a \<Rightarrow> Inr a)"

lemma try_bind_simps [simp, result_simps]:
  "try_bind (Inl e) f = Inl e" "try_bind (Inr a) f = f a"
  by (simp_all add: try_bind_def)

lemma map_err_simps [simp, result_simps]:
  "map_err g (Inl e) = Inl (g e)" "map_err g (Inr a) = Inr a"
  by (simp_all add: map_err_def)

lemma ok_or_simps [simp, result_simps]:
  "ok_or e None = Inl e" "ok_or e (Some a) = Inr a"
  by (simp_all add: ok_or_def)

lemma try_bind_eq_Inr [result_simps]:
  "try_bind r f = Inr b \<longleftrightarrow> (\<exists>a. r = Inr a \<and> f a = Inr b)"
  by (cases r) auto

lemma try_bind_eq_Inl [result_simps]:
  "try_bind r f = Inl e \<longleftrightarrow> r = Inl e \<or> (\<exists>a. r = Inr a \<and> f a = Inl e)"
  by (cases r) auto

lemma map_err_eq_Inr [simp, result_simps]: "map_err g r = Inr a \<longleftrightarrow> r = Inr a"
  by (cases r) auto

lemma map_err_eq_Inl [result_simps]: "map_err g r = Inl e \<longleftrightarrow> (\<exists>d. r = Inl d \<and> e = g d)"
  by (cases r) auto

lemma ok_or_eq_Inr [simp, result_simps]: "ok_or e x = Inr a \<longleftrightarrow> x = Some a"
  by (cases x) auto

lemma Inl_eq_ok_or [simp, result_simps]: "Inl d = ok_or e x \<longleftrightarrow> x = None \<and> d = e"
  by (cases x) auto

lemma ok_or_eq_Inl [simp, result_simps]: "ok_or e x = Inl d \<longleftrightarrow> x = None \<and> d = e"
  by (cases x) auto

text \<open>Collecting an iterator of results: the first error ends it.\<close>

fun collect_results :: "('e + 'a) list \<Rightarrow> 'e + 'a list" where
  "collect_results [] = Inr []"
| "collect_results (r # rs) = try_bind r (\<lambda>x. try_bind (collect_results rs) (\<lambda>xs. Inr (x # xs)))"

lemma collect_results_Inr: "collect_results rs = Inr xs \<longleftrightarrow> rs = map Inr xs"
  by (induction rs arbitrary: xs) (auto simp: try_bind_eq_Inr)

lemma collect_results_map_Inr [simp]: "collect_results (map Inr xs) = Inr xs"
  by (simp add: collect_results_Inr)

lemma collect_results_Inl: "collect_results rs = Inl e \<Longrightarrow> Inl e \<in> set rs"
  by (induction rs) (auto simp: try_bind_eq_Inl)

section \<open>Characters of the standard library\<close>

definition ascii :: "string \<Rightarrow> ustring" where
  "ascii s = map of_char s"

definition is_ascii :: "uchar \<Rightarrow> bool" where
  "is_ascii c \<longleftrightarrow> c < 128"

definition is_ascii_digit :: "uchar \<Rightarrow> bool" where
  "is_ascii_digit c \<longleftrightarrow> 48 \<le> c \<and> c \<le> 57"

definition is_ascii_hexdigit :: "uchar \<Rightarrow> bool" where
  "is_ascii_hexdigit c \<longleftrightarrow> is_ascii_digit c \<or> 65 \<le> c \<and> c \<le> 70 \<or> 97 \<le> c \<and> c \<le> 102"

text \<open>\<open>char::is_whitespace\<close>: the code points with the Unicode property White\_Space.\<close>

definition is_whitespace :: "uchar \<Rightarrow> bool" where
  "is_whitespace c \<longleftrightarrow>
     9 \<le> c \<and> c \<le> 13 \<or> c = 32 \<or> c = 133 \<or> c = 160 \<or> c = 5760 \<or> 8192 \<le> c \<and> c \<le> 8202
     \<or> c = 8232 \<or> c = 8233 \<or> c = 8239 \<or> c = 8287 \<or> c = 12288"

text \<open>\<open>str::len\<close> counts the bytes of the UTF-8 encoding.\<close>

definition utf8_len :: "ustring \<Rightarrow> nat" where
  "utf8_len s = sum_list (map (\<lambda>c. if c < 128 then 1 else if c < 2048 then 2
                                    else if c < 65536 then 3 else 4) s)"

definition ascii_upper :: "uchar \<Rightarrow> uchar" where
  "ascii_upper c = (if 97 \<le> c \<and> c \<le> 122 then c - 32 else c)"

text \<open>
  \<open>str::to_uppercase\<close> maps each character on its own; a character outside ASCII may become several,
  given by the Unicode tables (the parameter \<open>tbl\<close>).
\<close>

definition to_uppercase :: "(uchar \<Rightarrow> ustring) \<Rightarrow> ustring \<Rightarrow> ustring" where
  "to_uppercase tbl s = concat (map (\<lambda>c. if is_ascii c then [ascii_upper c] else tbl c) s)"

lemma utf8_len_ascii: "list_all is_ascii s \<Longrightarrow> utf8_len s = length s"
  by (induction s) (auto simp: utf8_len_def is_ascii_def)

lemma utf8_len_ge: "length s \<le> utf8_len s"
  by (induction s) (auto simp: utf8_len_def)

lemma hexdigit_ascii: "is_ascii_hexdigit c \<Longrightarrow> is_ascii c"
  by (auto simp: is_ascii_hexdigit_def is_ascii_digit_def is_ascii_def)

lemma hexdigit_not_whitespace: "is_ascii_hexdigit c \<Longrightarrow> \<not> is_whitespace c"
  by (auto simp: is_ascii_hexdigit_def is_ascii_digit_def is_whitespace_def)

lemma to_uppercase_ascii:
  "list_all is_ascii s \<Longrightarrow> to_uppercase tbl s = map ascii_upper s"
  by (induction s) (auto simp: to_uppercase_def)

section \<open>Lists\<close>

text \<open>\<open>slice::chunks(n)\<close>: consecutive pieces of length \<open>n\<close>, the last one possibly shorter.\<close>

function chunks :: "nat \<Rightarrow> 'a list \<Rightarrow> 'a list list" where
  "chunks n xs = (if n = 0 \<or> xs = [] then [] else take n xs # chunks n (drop n xs))"
  by pat_completeness auto
termination
  by (relation "measure (\<lambda>(n, xs). length xs)") auto

declare chunks.simps [simp del]

lemma chunks_Nil [simp]: "chunks n [] = []"
  by (simp add: chunks.simps)

lemma chunks_append:
  "0 < n \<Longrightarrow> length xs = n \<Longrightarrow> chunks n (xs @ ys) = xs # chunks n ys"
  by (subst chunks.simps) auto

lemma concat_chunks: "0 < n \<Longrightarrow> concat (chunks n xs) = xs"
proof (induction n xs rule: chunks.induct)
  case (1 n xs)
  then show ?case by (cases "xs = []") (auto simp: chunks.simps [of n xs])
qed

lemma chunks_lengths:
  "0 < n \<Longrightarrow> n dvd length xs \<Longrightarrow> c \<in> set (chunks n xs) \<Longrightarrow> length c = n"
proof (induction n xs rule: chunks.induct)
  case (1 n xs)
  show ?case
  proof (cases "xs = []")
    case False
    with 1 have le: "n \<le> length xs" by (auto intro: dvd_imp_le)
    from 1 have d: "n dvd length (drop n xs)" by (simp add: dvd_minus_self)
    from "1.prems"(3) False "1.prems"(1) have "c = take n xs \<or> c \<in> set (chunks n (drop n xs))"
      by (subst (asm) chunks.simps) auto
    then show ?thesis
    proof
      assume "c = take n xs" with le show ?thesis by simp
    next
      assume "c \<in> set (chunks n (drop n xs))"
      with 1 False d show ?thesis by blast
    qed
  qed (use 1 in simp)
qed

lemma length_chunks:
  assumes "0 < n" "n dvd length xs"
  shows "length (chunks n xs) * n = length xs"
proof -
  have "length xs = length (concat (chunks n xs))"
    using assms(1) by (simp add: concat_chunks)
  also have "\<dots> = sum_list (map length (chunks n xs))"
    by (simp add: length_concat)
  also have "map length (chunks n xs) = map (\<lambda>_. n) (chunks n xs)"
    using chunks_lengths [OF assms] by simp
  finally show ?thesis by (simp add: sum_list_triv)
qed

text \<open>Reading the \<open>i\<close>-th of the equal-sized blocks that make up a list.\<close>

lemma take_drop_concat:
  assumes "\<And>x. x \<in> set xs \<Longrightarrow> length (f x) = n" "i < length xs"
  shows "take n (drop (i * n) (concat (map f xs))) = f (xs ! i)"
  using assms
proof (induction xs arbitrary: i)
  case (Cons x xs)
  then show ?case by (cases i) auto
qed simp

lemma slices_eq_iff:
  assumes "length xs = n * k" "length ys = n * k" "0 < k"
  shows "xs = ys \<longleftrightarrow> (\<forall>i<n. take k (drop (i * k) xs) = take k (drop (i * k) ys))"
proof
  assume sl: "\<forall>i<n. take k (drop (i * k) xs) = take k (drop (i * k) ys)"
  show "xs = ys"
  proof (rule nth_equalityI)
    show "length xs = length ys" using assms by simp
    fix j assume "j < length xs"
    then have j: "j < n * k" using assms by simp
    then have "j div k < n" by (simp add: less_mult_imp_div_less)
    with sl have "take k (drop (j div k * k) xs) ! (j mod k) = take k (drop (j div k * k) ys) ! (j mod k)"
      by simp
    moreover have "j div k * k + j mod k = j" by simp
    moreover have "j div k * k \<le> length xs" "j div k * k \<le> length ys"
      using j assms div_times_less_eq_dividend [of j k] by linarith+
    ultimately show "xs ! j = ys ! j" using assms(3) by (simp add: nth_drop)
  qed
qed simp

text \<open>\<open>[T]::join(sep)\<close>.\<close>

fun join_with :: "'a list \<Rightarrow> 'a list list \<Rightarrow> 'a list" where
  "join_with sep [] = []"
| "join_with sep [x] = x"
| "join_with sep (x # y # zs) = x @ sep @ join_with sep (y # zs)"

lemma filter_join_with:
  assumes "filter P sep = []"
  shows "filter P (join_with sep xs) = filter P (concat xs)"
  using assms by (induction sep xs rule: join_with.induct) auto

section \<open>Decimal numbers\<close>

definition digit_char :: "nat \<Rightarrow> char" where
  "digit_char d = char_of (48 + d)"

definition digit_val :: "char \<Rightarrow> nat option" where
  "digit_val c = (let n = of_char c :: nat in if 48 \<le> n \<and> n \<le> 57 then Some (n - 48) else None)"

text \<open>The \<open>Display\<close> form of an unsigned integer.\<close>

fun nat_to_dec :: "nat \<Rightarrow> string" where
  "nat_to_dec n = (if n < 10 then [digit_char n] else nat_to_dec (n div 10) @ [digit_char (n mod 10)])"

declare nat_to_dec.simps [simp del]

text \<open>
  \<open>str::parse::<u8>\<close>: an optional plus sign, then at least one digit; every step of the
  accumulation is checked against the width.
\<close>

fun parse_digits :: "nat \<Rightarrow> nat \<Rightarrow> string \<Rightarrow> nat option" where
  "parse_digits bound acc [] = Some acc"
| "parse_digits bound acc (c # cs) =
     (case digit_val c of None \<Rightarrow> None
      | Some d \<Rightarrow> if bound < acc * 10 + d then None else parse_digits bound (acc * 10 + d) cs)"

definition u8_from_str :: "string \<Rightarrow> u8 option" where
  "u8_from_str s =
     (case s of [] \<Rightarrow> None
      | c # cs \<Rightarrow> map_option of_nat
          (if c = CHR ''+'' then (if cs = [] then None else parse_digits 255 0 cs)
           else parse_digits 255 0 s))"

lemma digit_val_digit_char [simp]: "d < 10 \<Longrightarrow> digit_val (digit_char d) = Some d"
  by (simp add: digit_val_def digit_char_def of_char_of Let_def)

lemma nat_to_dec_nonempty [simp]: "nat_to_dec n \<noteq> []"
  by (subst nat_to_dec.simps) simp

lemma nat_to_dec_digits: "c \<in> set (nat_to_dec n) \<Longrightarrow> \<exists>d<10. c = digit_char d"
proof (induction n rule: nat_to_dec.induct)
  case (1 n)
  show ?case
  proof (cases "n < 10")
    case True
    with 1 show ?thesis by (subst (asm) (2) nat_to_dec.simps) auto
  next
    case False
    with "1.prems" have "c \<in> set (nat_to_dec (n div 10)) \<or> c = digit_char (n mod 10)"
      by (subst (asm) nat_to_dec.simps) auto
    moreover have "n mod 10 < 10" by simp
    ultimately show ?thesis using 1 False by blast
  qed
qed

lemma nat_to_dec_length: "n < 10 ^ k \<Longrightarrow> 0 < k \<Longrightarrow> length (nat_to_dec n) \<le> k"
proof (induction k arbitrary: n)
  case (Suc k)
  show ?case
  proof (cases "n < 10")
    case True then show ?thesis by (subst nat_to_dec.simps) simp
  next
    case False
    with Suc.prems have "n div 10 < 10 ^ k" "0 < k"
      by (auto simp: less_mult_imp_div_less mult.commute intro: gr0I)
    with Suc.IH have "length (nat_to_dec (n div 10)) \<le> k" by blast
    with False show ?thesis by (subst nat_to_dec.simps) simp
  qed
qed simp

section \<open>Splitting strings at a delimiter\<close>

definition split_once :: "char \<Rightarrow> string \<Rightarrow> (string \<times> string) option" where
  "split_once c s =
     (if c \<in> set s then Some (takeWhile (\<lambda>x. x \<noteq> c) s, tl (dropWhile (\<lambda>x. x \<noteq> c) s)) else None)"

text \<open>\<open>str::splitn(n, c)\<close>: at most \<open>n\<close> pieces, the last one unsplit.\<close>

fun splitn :: "nat \<Rightarrow> char \<Rightarrow> string \<Rightarrow> string list" where
  "splitn 0 c s = []"
| "splitn (Suc 0) c s = [s]"
| "splitn (Suc (Suc n)) c s =
     (case split_once c s of None \<Rightarrow> [s] | Some (a, b) \<Rightarrow> a # splitn (Suc n) c b)"

lemma split_once_append [simp]:
  "c \<notin> set a \<Longrightarrow> split_once c (a @ c # b) = Some (a, b)"
  by (induction a) (auto simp: split_once_def)

lemma split_once_None: "split_once c s = None \<longleftrightarrow> c \<notin> set s"
  by (simp add: split_once_def)

lemma split_once_Some: "split_once c s = Some (a, b) \<longleftrightarrow> s = a @ c # b \<and> c \<notin> set a"
proof
  assume "split_once c s = Some (a, b)"
  then have c: "c \<in> set s" and a: "a = takeWhile (\<lambda>x. x \<noteq> c) s"
    and b: "b = tl (dropWhile (\<lambda>x. x \<noteq> c) s)"
    by (auto simp: split_once_def split: if_splits)
  from c have ne: "dropWhile (\<lambda>x. x \<noteq> c) s \<noteq> []" by simp
  then have "hd (dropWhile (\<lambda>x. x \<noteq> c) s) = c" using hd_dropWhile by blast
  with ne b have "dropWhile (\<lambda>x. x \<noteq> c) s = c # b" by (cases "dropWhile (\<lambda>x. x \<noteq> c) s") auto
  then have "s = a @ c # b" using a takeWhile_dropWhile_id [of "\<lambda>x. x \<noteq> c" s] by simp
  moreover have "c \<notin> set a" using a by (auto dest: set_takeWhileD)
  ultimately show "s = a @ c # b \<and> c \<notin> set a" ..
qed auto

end
