(* ===== verification/EncString.thy ===== *)
theory EncString
  imports Prelude
begin

text \<open>
  The encrypted payload format of \<open>crates/crypto-core/src/enc_string.rs\<close> and the error type of
  \<open>error.rs\<close>. Encrypt-then-MAC with AES-256-CBC and HMAC-SHA256, the textual form
  \<open>2.{iv}|{ct}|{mac}\<close>, its parser and its printer.

  The cryptographic crates and the base64 crate are not part of the repository: they are the
  fields of \<open>crypto_lib\<close>, an argument of every definition that calls them. What the code relies
  on is stated by the predicates \<open>aes_cbc_ok\<close>, \<open>hmac_ok\<close> and \<open>b64_ok\<close>, each a documented
  behaviour of the crate. \<open>demo_lib\<close> is a concrete library that satisfies all of them.
  Random bytes drawn by \<open>fill_bytes\<close> are an explicit argument.
\<close>

section \<open>Errors and the third-party interface\<close>

datatype CryptoError =
    Kdf string
  | Encryption
  | Decryption
  | MacMismatch
  | InvalidEncString string
  | InvalidKeyLength nat nat
  | Rsa string
  | InvalidRecoveryPhrase
  | Base64 string
  | Serde string

record crypto_lib =
  hmac_sha256 :: "bytes \<Rightarrow> bytes \<Rightarrow> bytes"
  hmac_sha1 :: "bytes \<Rightarrow> bytes \<Rightarrow> bytes"
  aes_cbc_new :: "bytes \<Rightarrow> bytes \<Rightarrow> bool"
  aes_cbc_encrypt :: "bytes \<Rightarrow> bytes \<Rightarrow> bytes \<Rightarrow> bytes"
  aes_cbc_decrypt :: "bytes \<Rightarrow> bytes \<Rightarrow> bytes \<Rightarrow> bytes option"
  b64_encode :: "bytes \<Rightarrow> string"
  b64_decode :: "string \<Rightarrow> string + bytes"
  hkdf_from_prk :: "bytes \<Rightarrow> string + bytes"
  hkdf_expand :: "bytes \<Rightarrow> bytes \<Rightarrow> nat \<Rightarrow> string + bytes"
  argon2_params :: "u32 \<Rightarrow> u32 \<Rightarrow> u32 \<Rightarrow> nat \<Rightarrow> string + unit"
  argon2id :: "u32 \<Rightarrow> u32 \<Rightarrow> u32 \<Rightarrow> bytes \<Rightarrow> bytes \<Rightarrow> nat \<Rightarrow> string + bytes"
  pbkdf2_sha256 :: "bytes \<Rightarrow> bytes \<Rightarrow> u32 \<Rightarrow> nat \<Rightarrow> bytes"
  rsa_public_from_der :: "bytes \<Rightarrow> string + bytes"
  rsa_private_from_der :: "bytes \<Rightarrow> string + bytes"
  rsa_oaep_encrypt :: "bytes \<Rightarrow> bytes \<Rightarrow> bytes \<Rightarrow> string + bytes"
  rsa_oaep_decrypt :: "bytes \<Rightarrow> bytes \<Rightarrow> string + bytes"
  rsa_generate :: "bytes \<Rightarrow> string + bytes"
  rsa_to_public :: "bytes \<Rightarrow> bytes"
  rsa_private_to_der :: "bytes \<Rightarrow> string + bytes"
  rsa_public_to_der :: "bytes \<Rightarrow> string + bytes"
  str_to_lowercase :: "string \<Rightarrow> string"

text \<open>
  AES-CBC with PKCS7 padding: a 32-byte key and a 16-byte IV are accepted and decryption under the
  same key and IV inverts encryption.
\<close>

definition aes_cbc_ok :: "crypto_lib \<Rightarrow> bool" where
  "aes_cbc_ok L \<longleftrightarrow> (\<forall>k iv m. length k = 32 \<longrightarrow> length iv = 16 \<longrightarrow>
     aes_cbc_new L k iv \<and> aes_cbc_decrypt L k iv (aes_cbc_encrypt L k iv m) = Some m)"

text \<open>HMAC-SHA256 returns 32 bytes.\<close>

definition hmac_ok :: "crypto_lib \<Rightarrow> bool" where
  "hmac_ok L \<longleftrightarrow> (\<forall>k m. length (hmac_sha256 L k m) = 32)"

text \<open>The standard base64 engine: decoding inverts encoding, and the alphabet has no \<open>|\<close>.\<close>

definition b64_ok :: "crypto_lib \<Rightarrow> bool" where
  "b64_ok L \<longleftrightarrow> (\<forall>bs. b64_decode L (b64_encode L bs) = Inr bs \<and> CHR ''|'' \<notin> set (b64_encode L bs))"

section \<open>Data\<close>

definition ENC_TYPE_AES256_CBC_HMAC :: u8 where
  "ENC_TYPE_AES256_CBC_HMAC = 2"

record EncString =
  enc_type :: u8
  iv :: bytes
  ct :: bytes
  mac :: bytes

record SymmetricKey =
  enc_key :: bytes
  mac_key :: bytes

text \<open>The array lengths that the Rust types fix, and the only type byte \<open>parse\<close> lets through.\<close>

definition EncString_wf :: "EncString \<Rightarrow> bool" where
  "EncString_wf e \<longleftrightarrow>
     enc_type e = ENC_TYPE_AES256_CBC_HMAC \<and> length (iv e) = 16 \<and> length (mac e) = 32"

definition SymmetricKey_wf :: "SymmetricKey \<Rightarrow> bool" where
  "SymmetricKey_wf k \<longleftrightarrow> length (enc_key k) = 32 \<and> length (mac_key k) = 32"

section \<open>Operations\<close>

definition compute_mac :: "crypto_lib \<Rightarrow> bytes \<Rightarrow> bytes \<Rightarrow> bytes \<Rightarrow> bytes" where
  "compute_mac L mk v c = hmac_sha256 L mk (v @ c)"

text \<open>The loop folds \<open>diff |= x ^ y\<close> over the zipped arrays.\<close>

definition constant_time_eq :: "bytes \<Rightarrow> bytes \<Rightarrow> bool" where
  "constant_time_eq a b = (fold (\<lambda>(x, y) diff. diff OR (x XOR y)) (zip a b) 0 = 0)"

definition EncString_encrypt ::
  "crypto_lib \<Rightarrow> bytes \<Rightarrow> bytes \<Rightarrow> SymmetricKey \<Rightarrow> CryptoError + EncString" where
  "EncString_encrypt L rnd plaintext k =
     (if \<not> aes_cbc_new L (enc_key k) rnd then Inl Encryption
      else let c = aes_cbc_encrypt L (enc_key k) rnd plaintext;
               m = compute_mac L (mac_key k) rnd c
           in Inr \<lparr>enc_type = ENC_TYPE_AES256_CBC_HMAC, iv = rnd, ct = c, mac = m\<rparr>)"

definition EncString_decrypt :: "crypto_lib \<Rightarrow> EncString \<Rightarrow> SymmetricKey \<Rightarrow> CryptoError + bytes" where
  "EncString_decrypt L e k =
     (if \<not> constant_time_eq (compute_mac L (mac_key k) (iv e) (ct e)) (mac e) then Inl MacMismatch
      else if \<not> aes_cbc_new L (enc_key k) (iv e) then Inl Decryption
      else ok_or Decryption (aes_cbc_decrypt L (enc_key k) (iv e) (ct e)))"

definition EncString_parse :: "crypto_lib \<Rightarrow> string \<Rightarrow> CryptoError + EncString" where
  "EncString_parse L s =
     try_bind (ok_or (InvalidEncString ''missing type prefix'') (split_once CHR ''.'' s)) (\<lambda>(type_str, rest).
     try_bind (ok_or (InvalidEncString ''invalid type byte'') (u8_from_str type_str)) (\<lambda>ty.
     if ty \<noteq> ENC_TYPE_AES256_CBC_HMAC
     then Inl (InvalidEncString (''unsupported enc type '' @ nat_to_dec (unat ty)))
     else let parts = splitn 3 CHR ''|'' rest in
     if length parts \<noteq> 3 then Inl (InvalidEncString ''expected 3 parts'')
     else
     try_bind (map_err Base64 (b64_decode L (parts ! 0))) (\<lambda>iv_bytes.
     try_bind (map_err Base64 (b64_decode L (parts ! 1))) (\<lambda>c.
     try_bind (map_err Base64 (b64_decode L (parts ! 2))) (\<lambda>mac_bytes.
     if length iv_bytes \<noteq> 16 then Inl (InvalidEncString ''IV must be 16 bytes'')
     else if length mac_bytes \<noteq> 32 then Inl (InvalidEncString ''MAC must be 32 bytes'')
     else Inr \<lparr>enc_type = ty, iv = iv_bytes, ct = c, mac = mac_bytes\<rparr>)))))"

definition EncString_display :: "crypto_lib \<Rightarrow> EncString \<Rightarrow> string" where
  "EncString_display L e =
     nat_to_dec (unat (enc_type e)) @ ''.'' @ b64_encode L (iv e) @ ''|'' @ b64_encode L (ct e)
     @ ''|'' @ b64_encode L (mac e)"

definition SymmetricKey_from_bytes :: "bytes \<Rightarrow> CryptoError + SymmetricKey" where
  "SymmetricKey_from_bytes bs =
     (if length bs \<noteq> 64 then Inl (InvalidKeyLength 64 (length bs))
      else Inr \<lparr>enc_key = take 32 bs, mac_key = drop 32 bs\<rparr>)"

definition SymmetricKey_generate :: "bytes \<Rightarrow> SymmetricKey" where
  "SymmetricKey_generate rnd = \<lparr>enc_key = take 32 rnd, mac_key = drop 32 rnd\<rparr>"

section \<open>Constant-time comparison\<close>

lemma or_fold_zero:
  "fold (\<lambda>(x, y) diff. diff OR (x XOR y)) ps (d :: u8) = 0 \<longleftrightarrow> d = 0 \<and> (\<forall>(x, y) \<in> set ps. x = y)"
proof (induction ps arbitrary: d)
  case (Cons p ps)
  obtain x y where p: "p = (x, y)" by force
  have "d OR (x XOR y) = 0 \<longleftrightarrow> d = 0 \<and> x = y"
    by (simp add: or_eq_0_iff word_xor_eq_0_iff)
  with Cons p show ?case by auto
qed simp

lemma constant_time_eq_iff:
  assumes "length a = length b"
  shows "constant_time_eq a b \<longleftrightarrow> a = b"
proof -
  have "constant_time_eq a b \<longleftrightarrow> (\<forall>(x, y) \<in> set (zip a b). x = y)"
    by (simp add: constant_time_eq_def or_fold_zero)
  also have "\<dots> \<longleftrightarrow> a = b"
    using assms by (induction a b rule: list_induct2) auto
  finally show ?thesis .
qed

section \<open>Encryption and decryption\<close>

lemma length_compute_mac: "hmac_ok L \<Longrightarrow> length (compute_mac L mk v c) = 32"
  by (simp add: compute_mac_def hmac_ok_def)

text \<open>What \<open>encrypt\<close> returns with a 32-byte key and 16 random bytes.\<close>

lemma encrypt_ok:
  assumes "aes_cbc_ok L" "length (enc_key k) = 32" "length rnd = 16"
  shows "EncString_encrypt L rnd m k =
    Inr \<lparr>enc_type = ENC_TYPE_AES256_CBC_HMAC, iv = rnd, ct = aes_cbc_encrypt L (enc_key k) rnd m,
         mac = compute_mac L (mac_key k) rnd (aes_cbc_encrypt L (enc_key k) rnd m)\<rparr>"
  using assms by (simp add: EncString_encrypt_def aes_cbc_ok_def Let_def)

lemma encrypt_wf:
  assumes "aes_cbc_ok L" "hmac_ok L" "SymmetricKey_wf k" "length rnd = 16"
    and "EncString_encrypt L rnd m k = Inr e"
  shows "EncString_wf e"
  using assms by (auto simp: encrypt_ok SymmetricKey_wf_def EncString_wf_def length_compute_mac)

lemma decrypt_encrypt:
  assumes "aes_cbc_ok L" "hmac_ok L" "SymmetricKey_wf k" "length rnd = 16"
    and "EncString_encrypt L rnd m k = Inr e"
  shows "EncString_decrypt L e k = Inr m"
  using assms
  by (auto simp: encrypt_ok SymmetricKey_wf_def EncString_decrypt_def constant_time_eq_iff aes_cbc_ok_def)

text \<open>
  Decryption looks at the key material only after the tag has been compared: with a stored tag of
  32 bytes it answers \<open>MacMismatch\<close> exactly when the tag is not the one of this key.
\<close>

lemma decrypt_mac_mismatch_iff:
  assumes "hmac_ok L" "length (mac e) = 32"
  shows "EncString_decrypt L e k = Inl MacMismatch \<longleftrightarrow>
    mac e \<noteq> compute_mac L (mac_key k) (iv e) (ct e)"
  using assms by (auto simp: EncString_decrypt_def constant_time_eq_iff length_compute_mac)

lemma decrypt_Inr_iff:
  assumes "hmac_ok L" "length (mac e) = 32"
  shows "EncString_decrypt L e k = Inr m \<longleftrightarrow>
    mac e = compute_mac L (mac_key k) (iv e) (ct e) \<and> aes_cbc_new L (enc_key k) (iv e)
    \<and> aes_cbc_decrypt L (enc_key k) (iv e) (ct e) = Some m"
  using assms by (auto simp: EncString_decrypt_def constant_time_eq_iff length_compute_mac)

section \<open>Printing and parsing\<close>

lemma dec_2 [simp]: "nat_to_dec 2 = ''2''"
  by code_simp

lemma u8_from_str_2 [simp]: "u8_from_str ''2'' = Some 2"
  by (simp add: u8_from_str_def digit_val_def Let_def)

lemma splitn_3:
  "c \<notin> set a \<Longrightarrow> c \<notin> set b \<Longrightarrow> splitn 3 c (a @ c # b @ c # d) = [a, b, d]"
  by (simp add: numeral_3_eq_3)

lemma parse_display:
  assumes "b64_ok L" "EncString_wf e"
  shows "EncString_parse L (EncString_display L e) = Inr e"
proof -
  have wf: "enc_type e = 2" "length (iv e) = 16" "length (mac e) = 32"
    using assms(2) by (auto simp: EncString_wf_def ENC_TYPE_AES256_CBC_HMAC_def)
  have dot: "split_once CHR ''.'' (EncString_display L e) =
    Some (''2'', b64_encode L (iv e) @ CHR ''|'' # b64_encode L (ct e) @ CHR ''|'' # b64_encode L (mac e))"
    using wf split_once_append [of "CHR ''.''" "''2''"] by (simp add: EncString_display_def)
  have bar: "splitn 3 CHR ''|''
      (b64_encode L (iv e) @ CHR ''|'' # b64_encode L (ct e) @ CHR ''|'' # b64_encode L (mac e)) =
      [b64_encode L (iv e), b64_encode L (ct e), b64_encode L (mac e)]"
    using assms(1) by (intro splitn_3) (auto simp: b64_ok_def)
  show ?thesis
    using assms(1) wf
    by (simp add: EncString_parse_def dot bar ENC_TYPE_AES256_CBC_HMAC_def b64_ok_def Let_def)
qed

lemma parse_wf: "EncString_parse L s = Inr e \<Longrightarrow> EncString_wf e"
  by (auto simp: EncString_parse_def EncString_wf_def try_bind_eq_Inr Let_def split: if_splits prod.splits)

lemma splitn_3_parts:
  "length (splitn 3 c s) = 3 \<Longrightarrow> \<exists>a b d. s = a @ [c] @ b @ [c] @ d \<and> c \<notin> set a \<and> c \<notin> set b"
  by (fastforce simp: numeral_3_eq_3 split_once_Some split: option.splits prod.splits)

section \<open>Keys\<close>

lemma from_bytes_wf: "SymmetricKey_from_bytes bs = Inr k \<Longrightarrow> SymmetricKey_wf k"
  by (auto simp: SymmetricKey_from_bytes_def SymmetricKey_wf_def split: if_splits)

lemma from_bytes_ok:
  "length bs = 64 \<Longrightarrow> SymmetricKey_from_bytes bs = Inr \<lparr>enc_key = take 32 bs, mac_key = drop 32 bs\<rparr>"
  by (simp add: SymmetricKey_from_bytes_def)

lemma generate_from_bytes:
  "length rnd = 64 \<Longrightarrow> SymmetricKey_from_bytes rnd = Inr (SymmetricKey_generate rnd)"
  by (simp add: SymmetricKey_from_bytes_def SymmetricKey_generate_def)

lemma from_bytes_inj:
  assumes "SymmetricKey_from_bytes a = Inr k" "SymmetricKey_from_bytes b = Inr k"
  shows "a = b"
proof -
  have "take 32 a = take 32 b" "drop 32 a = drop 32 b"
    using assms by (auto simp: SymmetricKey_from_bytes_def split: if_splits)
  then show ?thesis by (metis append_take_drop_id)
qed

end
