(* ===== verification/DemoLib.thy ===== *)
theory DemoLib
  imports EncString
begin

text \<open>
  A concrete \<open>crypto_lib\<close>. It is no cryptography: it only shows that the documented behaviour the
  theorems assume of the third-party crates can hold, so that their witnesses can be evaluated.
  Bytes are printed as two letters \<open>A\<close> to \<open>P\<close>, encryption is the identity, a tag is the key's
  first 32 bytes padded with zeros, the key derivations pad to the requested length.
\<close>

definition demo_encode :: "bytes \<Rightarrow> string" where
  "demo_encode bs = concat (map (\<lambda>b. [char_of (65 + unat b div 16), char_of (65 + unat b mod 16)]) bs)"

definition demo_byte :: "char \<Rightarrow> char \<Rightarrow> u8" where
  "demo_byte c d = of_nat ((of_char c - 65) * 16 + (of_char d - 65))"

fun demo_decode :: "string \<Rightarrow> string + bytes" where
  "demo_decode [] = Inr []"
| "demo_decode [c] = Inl ''Invalid input length''"
| "demo_decode (c # d # s) =
     try_bind (demo_decode s) (\<lambda>bs. Inr (demo_byte c d # bs))"

definition pad_to :: "nat \<Rightarrow> bytes \<Rightarrow> bytes" where
  "pad_to n bs = take n (bs @ replicate n 0)"

lemma length_pad_to [simp]: "length (pad_to n bs) = n"
  by (simp add: pad_to_def)

definition demo_lib :: crypto_lib where
  "demo_lib = \<lparr>
     hmac_sha256 = (\<lambda>k m. pad_to 32 k),
     hmac_sha1 = (\<lambda>k m. pad_to 20 (m @ k)),
     aes_cbc_new = (\<lambda>k v. length k = 32 \<and> length v = 16),
     aes_cbc_encrypt = (\<lambda>k v m. m),
     aes_cbc_decrypt = (\<lambda>k v c. Some c),
     b64_encode = demo_encode,
     b64_decode = demo_decode,
     hkdf_from_prk = (\<lambda>p. if length p < 32 then Inl ''invalid prk'' else Inr p),
     hkdf_expand = (\<lambda>p info n. if 8160 < n then Inl ''invalid length'' else Inr (pad_to n (info @ p))),
     argon2_params = (\<lambda>m t p n. if m = 0 \<or> t = 0 \<or> p = 0 then Inl ''invalid params'' else Inr ()),
     argon2id = (\<lambda>m t p pw salt n. Inr (pad_to n (pw @ salt))),
     pbkdf2_sha256 = (\<lambda>pw salt c n. pad_to n (pw @ salt)),
     rsa_public_from_der = (\<lambda>d. Inr d),
     rsa_private_from_der = (\<lambda>d. Inr d),
     rsa_oaep_encrypt = (\<lambda>pk r m. Inr m),
     rsa_oaep_decrypt = (\<lambda>sk c. Inr c),
     rsa_generate = (\<lambda>r. Inr r),
     rsa_to_public = (\<lambda>s. s),
     rsa_private_to_der = (\<lambda>s. Inr s),
     rsa_public_to_der = (\<lambda>s. Inr s),
     str_to_lowercase = (\<lambda>s. map (\<lambda>c. let n = of_char c :: nat in
        if 65 \<le> n \<and> n \<le> 90 then char_of (n + 32) else c) s)\<rparr>"

lemma demo_nibbles: "demo_byte (char_of (65 + unat b div 16)) (char_of (65 + unat b mod 16)) = b"
proof -
  have "unat b div 16 < 191" by (rule less_trans [OF u8_div_16]) simp
  then have "(65 + unat b div 16) mod 256 = 65 + unat b div 16"
    "(65 + unat b mod 16) mod 256 = 65 + unat b mod 16"
    by simp_all
  then have "demo_byte (char_of (65 + unat b div 16)) (char_of (65 + unat b mod 16))
      = of_nat (unat b div 16 * 16 + unat b mod 16)"
    unfolding demo_byte_def of_char_of by simp
  then show ?thesis by (simp only: of_nat_unat_div_mod)
qed

lemma demo_decode_encode: "demo_decode (demo_encode bs) = Inr bs"
proof (induction bs)
  case (Cons b bs)
  then show ?case by (simp add: demo_encode_def demo_nibbles)
qed (simp add: demo_encode_def)

lemma demo_encode_no_bar: "CHR ''|'' \<notin> set (demo_encode bs)"
proof
  assume "CHR ''|'' \<in> set (demo_encode bs)"
  then obtain b :: u8 where "CHR ''|'' = char_of (65 + unat b div 16) \<or> CHR ''|'' = char_of (65 + unat b mod 16)"
    by (auto simp: demo_encode_def)
  then have "(of_char CHR ''|'' :: nat) = (65 + unat b div 16) mod 256
      \<or> (of_char CHR ''|'' :: nat) = (65 + unat b mod 16) mod 256"
    by (metis of_char_of)
  moreover have "unat b div 16 < 16" "unat b mod 16 < 16" by simp_all
  ultimately show False by simp
qed

lemma demo_b64_ok: "b64_ok demo_lib"
  by (simp add: b64_ok_def demo_lib_def demo_decode_encode demo_encode_no_bar)

lemma demo_aes_ok: "aes_cbc_ok demo_lib"
  by (simp add: aes_cbc_ok_def demo_lib_def)

lemma demo_hmac_ok: "hmac_ok demo_lib"
  by (simp add: hmac_ok_def demo_lib_def)

lemmas demo_ok = demo_b64_ok demo_aes_ok demo_hmac_ok

end
