(* ===== verification/Keys.thy ===== *)
theory Keys
  imports EncString DemoLib
begin

text \<open>
  The key hierarchy: \<open>crates/crypto-core/src/kdf.rs\<close> (master password to master key) and
  \<open>keys.rs\<close> (master key to stretched key, user key and organization key, RSA transport of the
  organization key), with the desktop commands of
  \<open>clients/desktop/src-tauri/src/commands/vault.rs\<close> that call them.
  The locale \<open>sealer\<close> is the contract of a key that encrypts payloads; symmetric keys, user keys
  and organization keys all provide it.
\<close>

section \<open>Key derivation\<close>

record Argon2idParams =
  m_cost :: u32
  t_cost :: u32
  p_cost :: u32

record Pbkdf2Params =
  iterations :: u32

datatype KdfAlg = Argon2id Argon2idParams | Pbkdf2 Pbkdf2Params

definition ARGON2_DEFAULT_M_COST :: u32 where "ARGON2_DEFAULT_M_COST = 65536"
definition ARGON2_DEFAULT_T_COST :: u32 where "ARGON2_DEFAULT_T_COST = 3"
definition ARGON2_DEFAULT_P_COST :: u32 where "ARGON2_DEFAULT_P_COST = 4"
definition PBKDF2_DEFAULT_ITERATIONS :: u32 where "PBKDF2_DEFAULT_ITERATIONS = 600000"

definition Argon2idParams_default :: Argon2idParams where
  "Argon2idParams_default =
     \<lparr>m_cost = ARGON2_DEFAULT_M_COST, t_cost = ARGON2_DEFAULT_T_COST, p_cost = ARGON2_DEFAULT_P_COST\<rparr>"

definition Kdf_default :: KdfAlg where
  "Kdf_default = Argon2id Argon2idParams_default"

record KdfParams =
  min_argon2_m_cost :: u32
  min_argon2_t_cost :: u32
  min_pbkdf2_iterations :: u32

definition KdfParams_default :: KdfParams where
  "KdfParams_default =
     \<lparr>min_argon2_m_cost = 65536, min_argon2_t_cost = 3, min_pbkdf2_iterations = 600000\<rparr>"

definition bstr :: "string \<Rightarrow> bytes" where
  "bstr s = map of_char s"

definition derive_master_key :: "crypto_lib \<Rightarrow> bytes \<Rightarrow> string \<Rightarrow> KdfAlg \<Rightarrow> CryptoError + bytes" where
  "derive_master_key L password email kdf =
     (let salt = bstr (str_to_lowercase L email) in
      case kdf of
        Argon2id p \<Rightarrow>
          try_bind (map_err Kdf (argon2_params L (m_cost p) (t_cost p) (p_cost p) 32)) (\<lambda>_.
          map_err Kdf (argon2id L (m_cost p) (t_cost p) (p_cost p) password salt 32))
      | Pbkdf2 p \<Rightarrow> Inr (pbkdf2_sha256 L password salt (iterations p) 32))"

definition derive_auth_hash :: "crypto_lib \<Rightarrow> bytes \<Rightarrow> bytes \<Rightarrow> bytes" where
  "derive_auth_hash L master_key password = pbkdf2_sha256 L master_key password 1 32"

section \<open>Master key, user key, organization key\<close>

datatype MasterKey = MasterKey bytes
datatype UserKey = UserKey bytes
datatype OrgKey = OrgKey bytes

definition stretch_master_key :: "crypto_lib \<Rightarrow> bytes \<Rightarrow> CryptoError + bytes" where
  "stretch_master_key L master_key =
     try_bind (map_err Kdf (hkdf_from_prk L master_key)) (\<lambda>hk.
     try_bind (map_err Kdf (hkdf_expand L hk (bstr ''enc'') 32)) (\<lambda>e.
     try_bind (map_err Kdf (hkdf_expand L hk (bstr ''mac'') 32)) (\<lambda>m.
     Inr (e @ m))))"

definition master_key_to_sym :: "bytes \<Rightarrow> CryptoError + SymmetricKey" where
  "master_key_to_sym stretched = SymmetricKey_from_bytes stretched"

definition UserKey_generate :: "bytes \<Rightarrow> UserKey" where
  "UserKey_generate rnd = UserKey rnd"

definition UserKey_from_bytes :: "bytes \<Rightarrow> CryptoError + UserKey" where
  "UserKey_from_bytes bs =
     (if length bs \<noteq> 64 then Inl (InvalidKeyLength 64 (length bs)) else Inr (UserKey bs))"

fun UserKey_raw_bytes :: "UserKey \<Rightarrow> bytes" where
  "UserKey_raw_bytes (UserKey b) = b"

definition UserKey_to_symmetric_key :: "UserKey \<Rightarrow> CryptoError + SymmetricKey" where
  "UserKey_to_symmetric_key k = SymmetricKey_from_bytes (UserKey_raw_bytes k)"

definition UserKey_encrypt :: "crypto_lib \<Rightarrow> UserKey \<Rightarrow> bytes \<Rightarrow> bytes \<Rightarrow> CryptoError + EncString" where
  "UserKey_encrypt L k rnd plaintext =
     try_bind (UserKey_to_symmetric_key k) (\<lambda>sym. EncString_encrypt L rnd plaintext sym)"

definition UserKey_decrypt :: "crypto_lib \<Rightarrow> UserKey \<Rightarrow> EncString \<Rightarrow> CryptoError + bytes" where
  "UserKey_decrypt L k e = try_bind (UserKey_to_symmetric_key k) (\<lambda>sym. EncString_decrypt L e sym)"

text \<open>Random input: 64 bytes for the key, 16 for the IV.\<close>

fun MasterKey_generate_user_key ::
  "crypto_lib \<Rightarrow> MasterKey \<Rightarrow> bytes \<Rightarrow> bytes \<Rightarrow> CryptoError + (UserKey \<times> EncString)" where
  "MasterKey_generate_user_key L (MasterKey mk) rnd_key rnd_iv =
     try_bind (stretch_master_key L mk) (\<lambda>stretched.
     try_bind (SymmetricKey_from_bytes stretched) (\<lambda>sym.
     let user_key = UserKey_generate rnd_key in
     try_bind (EncString_encrypt L rnd_iv (UserKey_raw_bytes user_key) sym) (\<lambda>user_key_enc.
     Inr (user_key, user_key_enc))))"

fun MasterKey_decrypt_user_key :: "crypto_lib \<Rightarrow> MasterKey \<Rightarrow> EncString \<Rightarrow> CryptoError + UserKey" where
  "MasterKey_decrypt_user_key L (MasterKey mk) e =
     try_bind (stretch_master_key L mk) (\<lambda>stretched.
     try_bind (SymmetricKey_from_bytes stretched) (\<lambda>sym.
     try_bind (EncString_decrypt L e sym) UserKey_from_bytes))"

definition OrgKey_generate :: "bytes \<Rightarrow> OrgKey" where
  "OrgKey_generate rnd = OrgKey rnd"

definition OrgKey_from_bytes :: "bytes \<Rightarrow> CryptoError + OrgKey" where
  "OrgKey_from_bytes bs =
     (if length bs \<noteq> 64 then Inl (InvalidKeyLength 64 (length bs)) else Inr (OrgKey bs))"

fun OrgKey_raw_bytes :: "OrgKey \<Rightarrow> bytes" where
  "OrgKey_raw_bytes (OrgKey b) = b"

definition OrgKey_to_symmetric_key :: "OrgKey \<Rightarrow> CryptoError + SymmetricKey" where
  "OrgKey_to_symmetric_key k = SymmetricKey_from_bytes (OrgKey_raw_bytes k)"

definition OrgKey_encrypt_to_member :: "crypto_lib \<Rightarrow> OrgKey \<Rightarrow> bytes \<Rightarrow> bytes \<Rightarrow> CryptoError + bytes" where
  "OrgKey_encrypt_to_member L k rnd public_key_der =
     try_bind (map_err Rsa (rsa_public_from_der L public_key_der)) (\<lambda>pub_key.
     map_err Rsa (rsa_oaep_encrypt L pub_key rnd (OrgKey_raw_bytes k)))"

definition OrgKey_decrypt_from_member :: "crypto_lib \<Rightarrow> bytes \<Rightarrow> bytes \<Rightarrow> CryptoError + OrgKey" where
  "OrgKey_decrypt_from_member L enc_org_key private_key_der =
     try_bind (map_err Rsa (rsa_private_from_der L private_key_der)) (\<lambda>priv_key.
     try_bind (map_err Rsa (rsa_oaep_decrypt L priv_key enc_org_key)) OrgKey_from_bytes)"

definition OrgKey_encrypt :: "crypto_lib \<Rightarrow> OrgKey \<Rightarrow> bytes \<Rightarrow> bytes \<Rightarrow> CryptoError + EncString" where
  "OrgKey_encrypt L k rnd plaintext =
     try_bind (OrgKey_to_symmetric_key k) (\<lambda>sym. EncString_encrypt L rnd plaintext sym)"

definition OrgKey_decrypt :: "crypto_lib \<Rightarrow> OrgKey \<Rightarrow> EncString \<Rightarrow> CryptoError + bytes" where
  "OrgKey_decrypt L k e = try_bind (OrgKey_to_symmetric_key k) (\<lambda>sym. EncString_decrypt L e sym)"

definition generate_rsa_key_pair :: "crypto_lib \<Rightarrow> bytes \<Rightarrow> CryptoError + (bytes \<times> bytes)" where
  "generate_rsa_key_pair L rnd =
     try_bind (map_err Rsa (rsa_generate L rnd)) (\<lambda>priv_key.
     let pub_key = rsa_to_public L priv_key in
     try_bind (map_err Rsa (rsa_private_to_der L priv_key)) (\<lambda>priv_der.
     try_bind (map_err Rsa (rsa_public_to_der L pub_key)) (\<lambda>pub_der.
     Inr (priv_der, pub_der))))"

section \<open>Desktop commands\<close>

fun CryptoError_display :: "CryptoError \<Rightarrow> string" where
  "CryptoError_display (Kdf m) = ''KDF error: '' @ m"
| "CryptoError_display Encryption = ''Encryption error''"
| "CryptoError_display Decryption =
     ''Decryption error '' @ [CHR 0xE2, CHR 0x80, CHR 0x94] @ '' wrong key or corrupt ciphertext''"
| "CryptoError_display MacMismatch = ''HMAC verification failed''"
| "CryptoError_display (InvalidEncString m) = ''Invalid EncString format: '' @ m"
| "CryptoError_display (InvalidKeyLength n g) =
     ''Invalid key length: expected '' @ nat_to_dec n @ '', got '' @ nat_to_dec g"
| "CryptoError_display (Rsa m) = ''RSA error: '' @ m"
| "CryptoError_display InvalidRecoveryPhrase = ''Invalid recovery phrase''"
| "CryptoError_display (Base64 m) = ''Base64 decode error: '' @ m"
| "CryptoError_display (Serde m) = ''Serialization error: '' @ m"

record DeriveKeyRequest =
  req_password :: string
  req_email :: string
  req_m_cost :: "u32 option"
  req_t_cost :: "u32 option"
  req_p_cost :: "u32 option"

definition unwrap_or :: "'a \<Rightarrow> 'a option \<Rightarrow> 'a" where
  "unwrap_or d x = (case x of None \<Rightarrow> d | Some v \<Rightarrow> v)"

definition cmd_derive_master_key :: "crypto_lib \<Rightarrow> DeriveKeyRequest \<Rightarrow> string + string" where
  "cmd_derive_master_key L req =
     (let kdf = Argon2id \<lparr>m_cost = unwrap_or 65536 (req_m_cost req),
                          t_cost = unwrap_or 3 (req_t_cost req),
                          p_cost = unwrap_or 4 (req_p_cost req)\<rparr> in
      try_bind (map_err CryptoError_display
        (derive_master_key L (bstr (req_password req)) (req_email req) kdf)) (\<lambda>k.
      Inr (b64_encode L k)))"

definition cmd_generate_user_key :: "crypto_lib \<Rightarrow> string \<Rightarrow> bytes \<Rightarrow> bytes \<Rightarrow> string + string" where
  "cmd_generate_user_key L master_key_b64 rnd_key rnd_iv =
     try_bind (b64_decode L master_key_b64) (\<lambda>bs.
     if length bs \<noteq> 32 then Inl ''master key must be 32 bytes''
     else try_bind (map_err CryptoError_display
            (MasterKey_generate_user_key L (MasterKey bs) rnd_key rnd_iv)) (\<lambda>(user_key, enc).
          Inr (EncString_display L enc)))"

section \<open>What the code relies on in the derivation and RSA crates\<close>

text \<open>HKDF-SHA256: a pseudo-random key of at least 32 bytes is accepted, and up to 255 blocks of
  32 bytes can be expanded.\<close>

definition hkdf_ok :: "crypto_lib \<Rightarrow> bool" where
  "hkdf_ok L \<longleftrightarrow> (\<forall>prk. 32 \<le> length prk \<longrightarrow> (\<exists>h. hkdf_from_prk L prk = Inr h \<and>
     (\<forall>info n. n \<le> 255 * 32 \<longrightarrow> (\<exists>okm. hkdf_expand L h info n = Inr okm \<and> length okm = n))))"

text \<open>The password hashes fill the 32-byte output buffer.\<close>

definition kdf_ok :: "crypto_lib \<Rightarrow> bool" where
  "kdf_ok L \<longleftrightarrow> (\<forall>pw s c n. length (pbkdf2_sha256 L pw s c n) = n)
     \<and> (\<forall>m t p pw s n k. argon2id L m t p pw s n = Inr k \<longrightarrow> length k = n)"

text \<open>RSA: DER decoding inverts DER encoding and OAEP decryption inverts OAEP encryption for a
  generated key pair.\<close>

definition rsa_ok :: "crypto_lib \<Rightarrow> bool" where
  "rsa_ok L \<longleftrightarrow>
     (\<forall>s d. rsa_private_to_der L s = Inr d \<longrightarrow> rsa_private_from_der L d = Inr s) \<and>
     (\<forall>p d. rsa_public_to_der L p = Inr d \<longrightarrow> rsa_public_from_der L d = Inr p) \<and>
     (\<forall>rnd s r m c. rsa_generate L rnd = Inr s \<longrightarrow> rsa_oaep_encrypt L (rsa_to_public L s) r m = Inr c
        \<longrightarrow> rsa_oaep_decrypt L s c = Inr m)"

lemma demo_hkdf_ok: "hkdf_ok demo_lib"
  by (auto simp: hkdf_ok_def demo_lib_def)

lemma demo_kdf_ok: "kdf_ok demo_lib"
  by (simp add: kdf_ok_def demo_lib_def)

lemma demo_rsa_ok: "rsa_ok demo_lib"
  by (simp add: rsa_ok_def demo_lib_def)

section \<open>The contract of a sealing key\<close>

definition aead_ok :: "crypto_lib \<Rightarrow> bool" where
  "aead_ok L \<longleftrightarrow> aes_cbc_ok L \<and> hmac_ok L"

lemma demo_aead_ok: "aead_ok demo_lib"
  by (simp add: aead_ok_def demo_ok)

locale sealer =
  fixes key_ok :: "'k \<Rightarrow> bool"
    and seal :: "crypto_lib \<Rightarrow> 'k \<Rightarrow> bytes \<Rightarrow> bytes \<Rightarrow> CryptoError + EncString"
    and unseal :: "crypto_lib \<Rightarrow> 'k \<Rightarrow> EncString \<Rightarrow> CryptoError + bytes"
  assumes seal_total:
      "aead_ok L \<Longrightarrow> key_ok k \<Longrightarrow> length rnd = 16 \<Longrightarrow> \<exists>e. seal L k rnd m = Inr e"
    and seal_wf:
      "aead_ok L \<Longrightarrow> key_ok k \<Longrightarrow> length rnd = 16 \<Longrightarrow> seal L k rnd m = Inr e \<Longrightarrow> EncString_wf e"
    and unseal_seal:
      "aead_ok L \<Longrightarrow> key_ok k \<Longrightarrow> length rnd = 16 \<Longrightarrow> seal L k rnd m = Inr e \<Longrightarrow> unseal L k e = Inr m"
begin

lemma seal_inj:
  assumes "aead_ok L" "key_ok k" "length r = 16" "length r' = 16"
    and "seal L k r m = Inr e" "seal L k r' m' = Inr e"
  shows "m = m'"
  using unseal_seal [OF assms(1,2,3,5)] unseal_seal [OF assms(1,2,4,6)] by simp

text \<open>The payload survives the way through the textual form kept by the server.\<close>

lemma stored_payload:
  assumes "aead_ok L" "b64_ok L" "key_ok k" "length rnd = 16"
  shows "\<exists>e. seal L k rnd m = Inr e
    \<and> try_bind (EncString_parse L (EncString_display L e)) (unseal L k) = Inr m"
proof -
  obtain e where e: "seal L k rnd m = Inr e" using seal_total assms by blast
  then have "EncString_wf e" using seal_wf assms by blast
  with e show ?thesis using assms unseal_seal by (auto simp: parse_display)
qed

end

lemma UserKey_to_sym_ok:
  "length (UserKey_raw_bytes k) = 64 \<Longrightarrow>
   \<exists>s. UserKey_to_symmetric_key k = Inr s \<and> SymmetricKey_wf s"
  by (auto simp: UserKey_to_symmetric_key_def from_bytes_ok SymmetricKey_wf_def)

lemma OrgKey_to_sym_ok:
  "length (OrgKey_raw_bytes k) = 64 \<Longrightarrow>
   \<exists>s. OrgKey_to_symmetric_key k = Inr s \<and> SymmetricKey_wf s"
  by (auto simp: OrgKey_to_symmetric_key_def from_bytes_ok SymmetricKey_wf_def)

interpretation sym: sealer SymmetricKey_wf "\<lambda>L k rnd m. EncString_encrypt L rnd m k" "\<lambda>L k e. EncString_decrypt L e k"
proof unfold_locales
  fix L k and rnd m :: bytes
  assume "aead_ok L" "SymmetricKey_wf k" "length rnd = 16"
  then show "\<exists>e. EncString_encrypt L rnd m k = Inr e"
    by (auto simp: encrypt_ok aead_ok_def SymmetricKey_wf_def)
qed (auto simp: aead_ok_def intro: encrypt_wf decrypt_encrypt)

interpretation user: sealer "\<lambda>k. length (UserKey_raw_bytes k) = 64" UserKey_encrypt UserKey_decrypt
proof unfold_locales
  fix L k and rnd m :: bytes
  assume "aead_ok L" "length (UserKey_raw_bytes k) = 64" "length rnd = 16"
  then show "\<exists>e. UserKey_encrypt L k rnd m = Inr e"
    by (auto simp: UserKey_encrypt_def dest!: UserKey_to_sym_ok intro: sym.seal_total)
qed (auto simp: UserKey_encrypt_def UserKey_decrypt_def dest!: UserKey_to_sym_ok
       intro: sym.seal_wf sym.unseal_seal)

interpretation org: sealer "\<lambda>k. length (OrgKey_raw_bytes k) = 64" OrgKey_encrypt OrgKey_decrypt
proof unfold_locales
  fix L k and rnd m :: bytes
  assume "aead_ok L" "length (OrgKey_raw_bytes k) = 64" "length rnd = 16"
  then show "\<exists>e. OrgKey_encrypt L k rnd m = Inr e"
    by (auto simp: OrgKey_encrypt_def dest!: OrgKey_to_sym_ok intro: sym.seal_total)
qed (auto simp: OrgKey_encrypt_def OrgKey_decrypt_def dest!: OrgKey_to_sym_ok
       intro: sym.seal_wf sym.unseal_seal)

section \<open>The key hierarchy\<close>

lemma hkdf_okE:
  assumes "hkdf_ok L" "32 \<le> length prk"
  obtains h where "hkdf_from_prk L prk = Inr h"
    and "\<And>info n. n \<le> 8160 \<Longrightarrow> \<exists>okm. hkdf_expand L h info n = Inr okm \<and> length okm = n"
  using assms unfolding hkdf_ok_def by (simp, blast)

lemma stretch_ok:
  assumes "hkdf_ok L" "length mk = 32"
  shows "\<exists>st. stretch_master_key L mk = Inr st \<and> length st = 64"
proof -
  obtain h where h: "hkdf_from_prk L mk = Inr h"
    and ex: "\<And>info n. n \<le> 8160 \<Longrightarrow> \<exists>okm. hkdf_expand L h info n = Inr okm \<and> length okm = n"
    using hkdf_okE [OF assms(1), of mk] assms(2) by auto
  from ex [of 32 "bstr ''enc''"] ex [of 32 "bstr ''mac''"] h show ?thesis
    by (auto simp: stretch_master_key_def)
qed

lemma stretched_sym:
  assumes "hkdf_ok L" "length mk = 32"
  obtains st sym where "stretch_master_key L mk = Inr st" "SymmetricKey_from_bytes st = Inr sym"
    "SymmetricKey_wf sym"
  using stretch_ok [OF assms] from_bytes_ok from_bytes_wf by metis

lemma generate_user_key_decrypts:
  assumes "hkdf_ok L" "aead_ok L" "length mk = 32" "length rk = 64" "length ri = 16"
  shows "\<exists>e. MasterKey_generate_user_key L (MasterKey mk) rk ri = Inr (UserKey rk, e)
    \<and> EncString_wf e \<and> MasterKey_decrypt_user_key L (MasterKey mk) e = Inr (UserKey rk)"
proof -
  obtain st k where st: "stretch_master_key L mk = Inr st" "SymmetricKey_from_bytes st = Inr k"
    and k: "SymmetricKey_wf k" using stretched_sym assms(1,3) by blast
  obtain e where e: "EncString_encrypt L ri rk k = Inr e"
    using sym.seal_total [OF assms(2) k assms(5)] by blast
  have "EncString_decrypt L e k = Inr rk" "EncString_wf e"
    using sym.unseal_seal [OF assms(2) k assms(5) e] sym.seal_wf [OF assms(2) k assms(5) e] by auto
  with st e assms(4) show ?thesis
    by (simp add: UserKey_generate_def UserKey_from_bytes_def)
qed

lemma decrypt_user_key_length:
  "MasterKey_decrypt_user_key L mk e = Inr uk \<Longrightarrow> length (UserKey_raw_bytes uk) = 64"
  by (cases mk) (auto simp: try_bind_eq_Inr UserKey_from_bytes_def split: if_splits)

lemma derive_master_key_length:
  assumes "kdf_ok L" "derive_master_key L pw email kdf = Inr k"
  shows "length k = 32"
  using assms by (auto simp: derive_master_key_def kdf_ok_def try_bind_eq_Inr Let_def split: KdfAlg.splits)

lemma org_key_rsa_roundtrip:
  assumes "rsa_ok L" "generate_rsa_key_pair L rnd = Inr (priv_der, pub_der)"
    and "length (OrgKey_raw_bytes k) = 64" "OrgKey_encrypt_to_member L k r pub_der = Inr c"
  shows "OrgKey_decrypt_from_member L c priv_der = Inr k"
proof -
  from assms(2) obtain s where s: "rsa_generate L rnd = Inr s"
      "rsa_private_to_der L s = Inr priv_der" "rsa_public_to_der L (rsa_to_public L s) = Inr pub_der"
    by (auto simp: generate_rsa_key_pair_def try_bind_eq_Inr Let_def)
  then have "rsa_oaep_encrypt L (rsa_to_public L s) r (OrgKey_raw_bytes k) = Inr c"
    using assms(1,4) by (auto simp: OrgKey_encrypt_to_member_def try_bind_eq_Inr rsa_ok_def)
  then have "rsa_oaep_decrypt L s c = Inr (OrgKey_raw_bytes k)"
    using assms(1) s(1) by (auto simp: rsa_ok_def)
  then show ?thesis
    using assms(1,3) s(2)
    by (cases k) (auto simp: OrgKey_decrypt_from_member_def OrgKey_from_bytes_def rsa_ok_def)
qed

end
