(* ===== verification/Recovery.thy ===== *)
theory Recovery
  imports Keys
begin

text \<open>
  \<open>crates/crypto-core/src/recovery.rs\<close>: the recovery phrase (32 random bytes shown as eight groups
  of eight hexadecimal digits), its parser, and the wrapping of the user key under a key expanded
  from the phrase's entropy.
\<close>

section \<open>Hexadecimal text\<close>

definition hex_lower :: "nat \<Rightarrow> uchar" where
  "hex_lower n = (if n < 10 then 48 + n else 87 + n)"

definition hex_val :: "uchar \<Rightarrow> nat option" where
  "hex_val c = (if 48 \<le> c \<and> c \<le> 57 then Some (c - 48)
     else if 65 \<le> c \<and> c \<le> 70 then Some (c - 55)
     else if 97 \<le> c \<and> c \<le> 102 then Some (c - 87) else None)"

text \<open>\<open>format!("{b:02x}")\<close>.\<close>

definition format_02x :: "u8 \<Rightarrow> ustring" where
  "format_02x b = [hex_lower (unat b div 16), hex_lower (unat b mod 16)]"

text \<open>\<open>u8::from_str_radix(s, 16)\<close>: an optional plus sign and digits, checked at eight bits.\<close>

fun parse_hex :: "nat \<Rightarrow> ustring \<Rightarrow> nat option" where
  "parse_hex acc [] = Some acc"
| "parse_hex acc (c # cs) =
     (case hex_val c of None \<Rightarrow> None
      | Some d \<Rightarrow> if 255 < acc * 16 + d then None else parse_hex (acc * 16 + d) cs)"

definition u8_from_str_radix_16 :: "ustring \<Rightarrow> u8 option" where
  "u8_from_str_radix_16 s =
     (case s of [] \<Rightarrow> None
      | c # cs \<Rightarrow> map_option of_nat
          (if c = 43 then (if cs = [] then None else parse_hex 0 cs) else parse_hex 0 s))"

section \<open>Phrase and entropy\<close>

definition RECOVERY_INFO :: bytes where
  "RECOVERY_INFO = bstr ''nadsafe-recovery-v1''"

definition generate_recovery_entropy :: "bytes \<Rightarrow> bytes" where
  "generate_recovery_entropy rnd = rnd"

definition entropy_to_phrase :: "bytes \<Rightarrow> ustring" where
  "entropy_to_phrase entropy =
     (let hex = concat (map format_02x entropy) in join_with [32] (chunks 8 hex))"

definition phrase_to_entropy :: "ustring \<Rightarrow> CryptoError + bytes" where
  "phrase_to_entropy phrase =
     (let hex = filter (\<lambda>c. \<not> is_whitespace c) phrase in
      if utf8_len hex \<noteq> 64 \<or> \<not> list_all is_ascii_hexdigit hex then Inl InvalidRecoveryPhrase
      else collect_results (map (\<lambda>i.
        ok_or InvalidRecoveryPhrase (u8_from_str_radix_16 (take 2 (drop (i * 2) hex)))) [0..<32]))"

section \<open>Wrapping the user key\<close>

definition recovery_key_from_entropy :: "crypto_lib \<Rightarrow> bytes \<Rightarrow> CryptoError + bytes" where
  "recovery_key_from_entropy L entropy =
     try_bind (map_err Kdf (hkdf_from_prk L entropy)) (\<lambda>hk.
     map_err Kdf (hkdf_expand L hk RECOVERY_INFO 64))"

definition wrap_user_key_with_recovery ::
  "crypto_lib \<Rightarrow> UserKey \<Rightarrow> bytes \<Rightarrow> bytes \<Rightarrow> CryptoError + EncString" where
  "wrap_user_key_with_recovery L user_key entropy rnd =
     try_bind (recovery_key_from_entropy L entropy) (\<lambda>kb.
     try_bind (SymmetricKey_from_bytes kb) (\<lambda>sym.
     EncString_encrypt L rnd (UserKey_raw_bytes user_key) sym))"

definition unwrap_user_key_with_recovery ::
  "crypto_lib \<Rightarrow> EncString \<Rightarrow> ustring \<Rightarrow> CryptoError + UserKey" where
  "unwrap_user_key_with_recovery L enc_user_key phrase =
     try_bind (phrase_to_entropy phrase) (\<lambda>entropy.
     try_bind (recovery_key_from_entropy L entropy) (\<lambda>kb.
     try_bind (SymmetricKey_from_bytes kb) (\<lambda>sym.
     try_bind (EncString_decrypt L enc_user_key sym) UserKey_from_bytes)))"

section \<open>Hexadecimal digits\<close>

lemma hex_val_lower [simp]: "n < 16 \<Longrightarrow> hex_val (hex_lower n) = Some n"
  by (auto simp: hex_val_def hex_lower_def)

lemma hexdigit_lower: "n < 16 \<Longrightarrow> is_ascii_hexdigit (hex_lower n)"
  by (auto simp: is_ascii_hexdigit_def is_ascii_digit_def hex_lower_def)

lemma hexdigit_iff: "is_ascii_hexdigit c \<longleftrightarrow> (\<exists>n<16. hex_val c = Some n)"
  by (auto simp: is_ascii_hexdigit_def is_ascii_digit_def hex_val_def)

text \<open>Two hexadecimal digits have the same value exactly when they differ at most in case.\<close>

lemma hex_val_case:
  assumes "is_ascii_hexdigit d"
  shows "ascii_upper c = ascii_upper d \<longleftrightarrow> is_ascii_hexdigit c \<and> hex_val c = hex_val d"
  using assms
  by (auto simp: ascii_upper_def hex_val_def is_ascii_hexdigit_def is_ascii_digit_def split: if_splits)

lemma format_02x_hexdigits: "list_all is_ascii_hexdigit (format_02x b)"
  by (simp add: format_02x_def hexdigit_lower)

lemma length_format_02x [simp]: "length (format_02x b) = 2"
  by (simp add: format_02x_def)

lemma radix_two_digits:
  assumes "hex_val c = Some m" "hex_val d = Some n" "m < 16" "n < 16"
  shows "u8_from_str_radix_16 [c, d] = Some (of_nat (m * 16 + n))"
proof -
  have "c \<noteq> 43" using assms(1) by (auto simp: hex_val_def)
  moreover have "m * 16 + n \<le> 255" using assms(3,4) by simp
  ultimately show ?thesis using assms by (simp add: u8_from_str_radix_16_def)
qed

lemma div_mod_16: "n < 16 \<Longrightarrow> m * 16 + n = (u :: nat) \<longleftrightarrow> m = u div 16 \<and> n = u mod 16"
  by auto

lemma radix_Some_iff:
  assumes "is_ascii_hexdigit c" "is_ascii_hexdigit d"
  shows "u8_from_str_radix_16 [c, d] = Some b \<longleftrightarrow>
    map ascii_upper [c, d] = map ascii_upper (format_02x b)"
proof -
  obtain m n where mn: "hex_val c = Some m" "hex_val d = Some n" "m < 16" "n < 16"
    using assms by (auto simp: hexdigit_iff)
  have "u8_from_str_radix_16 [c, d] = Some b \<longleftrightarrow> of_nat (m * 16 + n) = b"
    using radix_two_digits [OF mn] by simp
  also have "\<dots> \<longleftrightarrow> m * 16 + n = unat b"
  proof -
    have "m * 16 + n < 256" using mn(3,4) by simp
    then have "unat (of_nat (m * 16 + n) :: u8) = m * 16 + n" by (rule u8_unat_of_nat)
    then show ?thesis by (metis word_unat_eq_iff)
  qed
  also have "\<dots> \<longleftrightarrow> m = unat b div 16 \<and> n = unat b mod 16"
    using mn(4) by (auto simp: div_mod_16)
  also have "\<dots> \<longleftrightarrow> map ascii_upper [c, d] = map ascii_upper (format_02x b)"
    using mn assms by (auto simp: format_02x_def hex_val_case hexdigit_lower)
  finally show ?thesis .
qed

section \<open>The phrase determines the entropy\<close>

lemma hexdigits_concat_format: "list_all is_ascii_hexdigit (concat (map format_02x e))"
  using format_02x_hexdigits by (induction e) auto

lemma length_concat_format: "length (concat (map format_02x e)) = 2 * length e"
  by (induction e) auto

lemma case_variant_hexdigits:
  assumes "map ascii_upper s = map ascii_upper t" "list_all is_ascii_hexdigit t"
  shows "list_all is_ascii_hexdigit s"
proof -
  have "list_all2 (\<lambda>c d. ascii_upper c = ascii_upper d) s t"
    using assms(1) by (simp add: list_all2_map1 list_all2_map2 list.rel_eq [symmetric])
  then show ?thesis using assms(2)
    by (induction rule: list_all2_induct) (auto simp: hex_val_case)
qed

lemma hexdigits_utf8_len: "list_all is_ascii_hexdigit s \<Longrightarrow> utf8_len s = length s"
  by (metis utf8_len_ascii hexdigit_ascii list.pred_mono_strong)

lemma hexdigit_slice:
  assumes "length hex = 64" "list_all is_ascii_hexdigit hex" "i < 32"
  shows "\<exists>c d. take 2 (drop (i * 2) hex) = [c, d] \<and> is_ascii_hexdigit c \<and> is_ascii_hexdigit d"
proof -
  from assms have l: "length (take 2 (drop (i * 2) hex)) = 2" by simp
  then obtain c d where cd: "take 2 (drop (i * 2) hex) = [c, d]"
    by (metis length_0_conv length_Suc_conv numeral_2_eq_2)
  moreover have "set [c, d] \<subseteq> set hex"
    using cd by (metis set_take_subset set_drop_subset subset_trans)
  ultimately show ?thesis using assms(2) by (auto simp: list_all_iff)
qed

text \<open>The conversion loop on a well-formed digit string.\<close>

lemma hex_loop_iff:
  assumes "length hex = 64" "list_all is_ascii_hexdigit hex"
  shows "collect_results (map (\<lambda>i.
        ok_or InvalidRecoveryPhrase (u8_from_str_radix_16 (take 2 (drop (i * 2) hex)))) [0..<32]) = Inr e
    \<longleftrightarrow> length e = 32 \<and> map ascii_upper hex = map ascii_upper (concat (map format_02x e))"
    (is "?L \<longleftrightarrow> _")
proof -
  define H where "H = concat (map format_02x e)"
  have "?L \<longleftrightarrow> length e = 32 \<and>
      (\<forall>i<32. u8_from_str_radix_16 (take 2 (drop (i * 2) hex)) = Some (e ! i))"
    by (auto simp: list_eq_iff_nth_eq collect_results_Inr)
  also have "\<dots> \<longleftrightarrow> length e = 32 \<and>
      (\<forall>i<32. map ascii_upper (take 2 (drop (i * 2) hex)) = map ascii_upper (format_02x (e ! i)))"
    using hexdigit_slice [OF assms] by (metis radix_Some_iff)
  also have "\<dots> \<longleftrightarrow> length e = 32 \<and>
      (\<forall>i<32. take 2 (drop (i * 2) (map ascii_upper hex)) = take 2 (drop (i * 2) (map ascii_upper H)))"
    by (auto simp: take_map drop_map H_def take_drop_concat)
  also have "\<dots> \<longleftrightarrow> length e = 32 \<and> map ascii_upper hex = map ascii_upper H"
    using slices_eq_iff [of "map ascii_upper hex" 32 2 "map ascii_upper H"] assms(1)
    by (auto simp: H_def length_concat_format)
  finally show ?thesis by (simp add: H_def)
qed

text \<open>
  The parser accepts exactly the texts that, up to white space and the case of the digits, are the
  64 hexadecimal digits of the entropy it returns.
\<close>

lemma phrase_to_entropy_iff:
  "phrase_to_entropy p = Inr e \<longleftrightarrow> length e = 32 \<and>
     map ascii_upper (filter (\<lambda>c. \<not> is_whitespace c) p) = map ascii_upper (concat (map format_02x e))"
  (is "?L \<longleftrightarrow> ?R")
proof -
  define hex where "hex = filter (\<lambda>c. \<not> is_whitespace c) p"
  show ?thesis
  proof (cases "length hex = 64 \<and> list_all is_ascii_hexdigit hex")
    case True
    then have "?L \<longleftrightarrow> length e = 32 \<and> map ascii_upper hex = map ascii_upper (concat (map format_02x e))"
      by (simp add: phrase_to_entropy_def hex_def [symmetric] hexdigits_utf8_len hex_loop_iff)
    then show ?thesis by (simp add: hex_def)
  next
    case False
    then have "\<not> ?L"
      by (auto simp: phrase_to_entropy_def hex_def [symmetric] hexdigits_utf8_len)
    moreover have "\<not> ?R"
    proof
      assume R: ?R
      then have R': "map ascii_upper hex = map ascii_upper (concat (map format_02x e))"
        by (simp add: hex_def)
      then have "list_all is_ascii_hexdigit hex"
        using case_variant_hexdigits hexdigits_concat_format by blast
      moreover have "length hex = 64"
        using R map_eq_imp_length_eq [OF R'] by (simp add: length_concat_format)
      ultimately show False using False by simp
    qed
    ultimately show ?thesis by simp
  qed
qed

lemma phrase_to_entropy_error: "phrase_to_entropy p = Inl err \<Longrightarrow> err = InvalidRecoveryPhrase"
  by (auto simp: phrase_to_entropy_def Let_def split: if_splits dest!: collect_results_Inl)

lemma phrase_digits:
  "filter (\<lambda>c. \<not> is_whitespace c) (entropy_to_phrase e) = concat (map format_02x e)"
proof -
  have "filter (\<lambda>c. \<not> is_whitespace c) (entropy_to_phrase e)
      = filter (\<lambda>c. \<not> is_whitespace c) (concat (map format_02x e))"
    by (simp add: entropy_to_phrase_def filter_join_with concat_chunks is_whitespace_def)
  also have "\<dots> = concat (map format_02x e)"
    using hexdigits_concat_format [of e] hexdigit_not_whitespace
    by (auto simp: filter_id_conv list_all_iff)
  finally show ?thesis .
qed

lemma phrase_roundtrip: "length e = 32 \<Longrightarrow> phrase_to_entropy (entropy_to_phrase e) = Inr e"
  by (simp add: phrase_to_entropy_iff phrase_digits)

text \<open>The display form: eight groups of eight hexadecimal digits, separated by single spaces.\<close>

lemma phrase_groups:
  assumes "length e = 32"
  shows "\<exists>gs. entropy_to_phrase e = join_with [32] gs \<and> length gs = 8
    \<and> (\<forall>g \<in> set gs. length g = 8 \<and> list_all is_ascii_hexdigit g)"
proof -
  define hex where "hex = concat (map format_02x e)"
  have len: "length hex = 64" using assms by (simp add: hex_def length_concat_format)
  have all8: "length g = 8" if "g \<in> set (chunks 8 hex)" for g
    using chunks_lengths [of 8 hex g] that len by simp
  moreover have "length (chunks 8 hex) = 8" using length_chunks [of 8 hex] len by simp
  moreover have "list_all is_ascii_hexdigit g" if "g \<in> set (chunks 8 hex)" for g
  proof -
    have "set g \<subseteq> set (concat (chunks 8 hex))" using that by auto
    then show ?thesis using hexdigits_concat_format [of e]
      by (auto simp: list_all_iff concat_chunks hex_def)
  qed
  ultimately show ?thesis by (auto simp: entropy_to_phrase_def hex_def [symmetric] Let_def)
qed

section \<open>Recovering the user key\<close>

lemma recovery_sym:
  assumes "hkdf_ok L" "length e = 32"
  obtains kb sym where "recovery_key_from_entropy L e = Inr kb" "SymmetricKey_from_bytes kb = Inr sym"
    "SymmetricKey_wf sym"
proof -
  obtain h where h: "hkdf_from_prk L e = Inr h"
    and ex: "\<And>info n. n \<le> 8160 \<Longrightarrow> \<exists>okm. hkdf_expand L h info n = Inr okm \<and> length okm = n"
    using hkdf_okE [OF assms(1), of e] assms(2) by auto
  from ex [of 64 RECOVERY_INFO] obtain okm
    where "hkdf_expand L h RECOVERY_INFO 64 = Inr okm" "length okm = 64" by auto
  with h show ?thesis using that [of okm] from_bytes_ok [of okm] from_bytes_wf
    by (auto simp: recovery_key_from_entropy_def)
qed

lemma recovery_unwraps:
  assumes "hkdf_ok L" "aead_ok L" "length e = 32" "length rnd = 16"
    and "length (UserKey_raw_bytes uk) = 64" "phrase_to_entropy p = Inr e"
  shows "\<exists>w. wrap_user_key_with_recovery L uk e rnd = Inr w \<and> unwrap_user_key_with_recovery L w p = Inr uk"
proof -
  obtain kb k where k: "recovery_key_from_entropy L e = Inr kb" "SymmetricKey_from_bytes kb = Inr k"
      "SymmetricKey_wf k" using recovery_sym assms(1,3) by blast
  obtain w where w: "EncString_encrypt L rnd (UserKey_raw_bytes uk) k = Inr w"
    using sym.seal_total [OF assms(2) k(3) assms(4)] by blast
  have "EncString_decrypt L w k = Inr (UserKey_raw_bytes uk)"
    using sym.unseal_seal [OF assms(2) k(3) assms(4) w] .
  moreover have "UserKey_from_bytes (UserKey_raw_bytes uk) = Inr uk"
    using assms(5) by (cases uk) (simp add: UserKey_from_bytes_def)
  ultimately show ?thesis using k w assms(6)
    by (simp add: wrap_user_key_with_recovery_def unwrap_user_key_with_recovery_def)
qed

end
