(* ===== verification/Totp.thy ===== *)
theory Totp
  imports Keys
begin

text \<open>
  \<open>crates/crypto-core/src/totp.rs\<close>: base32 decoding of the shared secret with 32-bit accumulators,
  the HOTP truncation and the six-digit TOTP code. HMAC-SHA1 is a field of \<open>crypto_lib\<close>; the
  upper-case mapping of characters outside ASCII is the parameter \<open>tbl\<close> (Unicode data).
\<close>

datatype TotpError = InvalidBase32

definition DEFAULT_PERIOD :: u64 where "DEFAULT_PERIOD = 30"
definition DEFAULT_DIGITS :: nat where "DEFAULT_DIGITS = 6"

section \<open>Base32\<close>

fun position :: "'a \<Rightarrow> 'a list \<Rightarrow> nat option" where
  "position x [] = None"
| "position x (y # ys) = (if y = x then Some 0 else map_option Suc (position x ys))"

definition b32_alphabet :: ustring where
  "b32_alphabet = ascii ''ABCDEFGHIJKLMNOPQRSTUVWXYZ234567''"

text \<open>The decoding loop; its state is \<open>bits\<close>, \<open>bit_count\<close> and \<open>output\<close>.\<close>

fun base32_loop :: "u32 \<Rightarrow> u32 \<Rightarrow> bytes \<Rightarrow> ustring \<Rightarrow> TotpError + bytes" where
  "base32_loop bits bit_count output [] = Inr output"
| "base32_loop bits bit_count output (ch # cs) =
     (if \<not> is_ascii ch then Inl InvalidBase32
      else case position ch b32_alphabet of
        None \<Rightarrow> Inl InvalidBase32
      | Some v \<Rightarrow>
          let bits = push_bit 5 bits OR of_nat v;
              bit_count = bit_count + 5
          in if 8 \<le> bit_count then
               let bit_count = bit_count - 8;
                   output = output @ [ucast (drop_bit (unat bit_count) bits)];
                   bits = bits AND (push_bit (unat bit_count) 1 - 1)
               in base32_loop bits bit_count output cs
             else base32_loop bits bit_count output cs)"

definition trim_end_matches :: "'a \<Rightarrow> 'a list \<Rightarrow> 'a list" where
  "trim_end_matches x xs = rev (dropWhile (\<lambda>y. y = x) (rev xs))"

definition base32_decode :: "(uchar \<Rightarrow> ustring) \<Rightarrow> ustring \<Rightarrow> TotpError + bytes" where
  "base32_decode tbl input =
     (let input = to_uppercase tbl (trim_end_matches 61 (filter (\<lambda>c. \<not> is_whitespace c) input))
      in base32_loop 0 0 [] input)"

section \<open>HOTP and TOTP\<close>

definition be_val :: "bytes \<Rightarrow> nat" where
  "be_val bs = foldl (\<lambda>a b. a * 256 + unat b) 0 bs"

definition u64_to_be_bytes :: "u64 \<Rightarrow> bytes" where
  "u64_to_be_bytes c = map (\<lambda>i. ucast (drop_bit (56 - 8 * i) c)) [0..<8]"

definition u32_from_be_bytes :: "bytes \<Rightarrow> u32" where
  "u32_from_be_bytes bs = of_nat (be_val bs)"

definition hotp :: "crypto_lib \<Rightarrow> bytes \<Rightarrow> u64 \<Rightarrow> nat \<Rightarrow> u32" where
  "hotp L secret counter digits =
     (let result = hmac_sha1 L secret (u64_to_be_bytes counter);
          offset = unat (result ! 19 AND 0x0f);
          code = u32_from_be_bytes [result ! offset AND 0x7f, result ! (offset + 1),
                                    result ! (offset + 2), result ! (offset + 3)]
      in code mod 10 ^ digits)"

text \<open>\<open>format!("{:0>width$}", code)\<close>.\<close>

definition pad_left :: "char \<Rightarrow> nat \<Rightarrow> string \<Rightarrow> string" where
  "pad_left c w s = replicate (w - length s) c @ s"

definition generate_totp ::
  "crypto_lib \<Rightarrow> (uchar \<Rightarrow> ustring) \<Rightarrow> ustring \<Rightarrow> u64 \<Rightarrow> TotpError + string" where
  "generate_totp L tbl secret_b32 timestamp_secs =
     try_bind (base32_decode tbl secret_b32) (\<lambda>secret.
     let counter = timestamp_secs div DEFAULT_PERIOD;
         code = hotp L secret counter DEFAULT_DIGITS
     in Inr (pad_left CHR ''0'' DEFAULT_DIGITS (nat_to_dec (unat code))))"

section \<open>The base32 decoder computes the number its digits denote\<close>

definition digits32 :: "ustring \<Rightarrow> nat list option" where
  "digits32 s = (if list_all (\<lambda>c. position c b32_alphabet \<noteq> None) s
     then Some (map (\<lambda>c. the (position c b32_alphabet)) s) else None)"

definition val32 :: "nat list \<Rightarrow> nat" where
  "val32 vs = foldl (\<lambda>a v. a * 32 + v) 0 vs"

lemma position_less: "position x xs = Some i \<Longrightarrow> i < length xs"
  by (induction xs arbitrary: i) (auto split: if_splits)

lemma position_mem: "position x xs = Some i \<Longrightarrow> x \<in> set xs"
  by (induction xs arbitrary: i) (auto split: if_splits)

lemma length_b32_alphabet [simp]: "length b32_alphabet = 32"
  by (simp add: b32_alphabet_def ascii_def)

lemma b32_alphabet_ascii: "c \<in> set b32_alphabet \<Longrightarrow> is_ascii c"
  by (auto simp: b32_alphabet_def ascii_def is_ascii_def)

lemma be_val_append: "be_val (bs @ [b]) = be_val bs * 256 + unat b"
  by (simp add: be_val_def)

lemma val32_append: "val32 (vs @ [v]) = val32 vs * 32 + v"
  by (simp add: val32_def)

lemma or_low_bits_nat:
  assumes "(v :: nat) < 32"
  shows "push_bit 5 a OR v = a * 32 + v"
proof -
  have "take_bit 5 v = v" using assms by (simp add: take_bit_nat_eq_self)
  then have "\<not> bit v n" if "5 \<le> n" for n
    using that by (metis bit_take_bit_iff not_less)
  then have "\<And>n. \<not> bit (push_bit 5 a) n \<or> \<not> bit v n"
    by (auto simp: bit_push_bit_iff)
  then have "push_bit 5 a + v = push_bit 5 a OR v" by (rule disjunctive_add)
  then show ?thesis by (simp add: push_bit_eq_mult)
qed

lemma push_or_unat:
  assumes "unat (bits :: u32) < 2 ^ 7" "v < 32"
  shows "unat (push_bit 5 bits OR of_nat v) = unat bits * 32 + v"
proof -
  have "unat (push_bit 5 bits) = push_bit 5 (unat bits)"
    using assms(1) by (simp add: push_bit_eq_mult unat_word_ariths)
  moreover have "unat (of_nat v :: u32) = v" using assms(2) by (simp add: unat_of_nat)
  ultimately show ?thesis using assms(2) by (simp add: unsigned_or_eq or_low_bits_nat)
qed

lemma mask_unat: "k < 32 \<Longrightarrow> unat ((b :: u32) AND (push_bit k 1 - 1)) = unat b mod 2 ^ k"
proof -
  have "push_bit k (1 :: u32) - 1 = mask k"
    by (simp add: mask_eq_exp_minus_1)
  then have "b AND (push_bit k 1 - 1) = take_bit k b"
    by (simp add: take_bit_eq_mask)
  then show ?thesis by (simp only: unsigned_take_bit_eq) (simp only: take_bit_eq_mod)
qed

lemma byte_unat:
  assumes "unat (b :: u32) div 2 ^ k < 256"
  shows "unat (ucast (drop_bit k b) :: u8) = unat b div 2 ^ k"
proof -
  have "unat (drop_bit k b) = unat b div 2 ^ k"
    unfolding unat_drop_bit_eq by (rule drop_bit_eq_div)
  then show ?thesis using assms
    by (simp only: unsigned_ucast_eq) (simp add: take_bit_nat_eq_self)
qed

text \<open>
  The loop invariant: fewer than eight bits are pending, they fit in \<open>bit_count\<close> bits, and the
  bytes written followed by the pending bits are the number read so far.
\<close>

definition base32_inv :: "u32 \<Rightarrow> u32 \<Rightarrow> bytes \<Rightarrow> nat list \<Rightarrow> bool" where
  "base32_inv bits bc out vs \<longleftrightarrow> unat bc < 8 \<and> unat bits < 2 ^ unat bc
     \<and> length out * 8 + unat bc = 5 * length vs
     \<and> be_val out * 2 ^ unat bc + unat bits = val32 vs"

lemma base32_inv_init: "base32_inv 0 0 [] []"
  by (simp add: base32_inv_def be_val_def val32_def)

lemma pending_small:
  assumes "base32_inv bits bc out vs"
  shows "unat bits < 2 ^ 7"
proof -
  have "unat bits < 2 ^ unat bc" "unat bc \<le> 7" using assms by (auto simp: base32_inv_def)
  moreover have "(2 :: nat) ^ unat bc \<le> 2 ^ 7" using calculation(2) by (rule power_increasing) simp
  ultimately show ?thesis by linarith
qed

lemma unat_count_add: "base32_inv bits bc out vs \<Longrightarrow> unat (bc + 5) = unat bc + 5"
  by (simp add: base32_inv_def unat_word_ariths)

lemma unat_count_sub:
  "base32_inv bits bc out vs \<Longrightarrow> 8 \<le> bc + 5 \<Longrightarrow> unat (bc + 5 - 8) = unat bc - 3"
  by (simp only: unat_sub unat_count_add) simp

lemma base32_inv_keep:
  assumes inv: "base32_inv bits bc out vs" and v: "v < 32" and small: "\<not> 8 \<le> bc + 5"
  shows "base32_inv (push_bit 5 bits OR of_nat v) (bc + 5) out (vs @ [v])"
proof -
  have b1: "unat (push_bit 5 bits OR of_nat v) = unat bits * 32 + v"
    using push_or_unat [OF pending_small [OF inv] v] .
  have c1: "unat (bc + 5) = unat bc + 5" using unat_count_add [OF inv] .
  have lt: "unat bc + 5 < 8" using small c1 by (simp add: word_le_nat_alt)
  have "unat bits * 32 + v < 2 ^ unat bc * 32"
    using inv v by (auto simp: base32_inv_def)
  then show ?thesis
    using inv lt by (simp add: base32_inv_def b1 c1 val32_append power_add algebra_simps)
qed

lemma base32_inv_emit:
  assumes inv: "base32_inv bits bc out vs" and v: "v < 32" and big: "8 \<le> bc + 5"
  defines "b1 \<equiv> push_bit 5 bits OR of_nat v" and "k \<equiv> unat (bc + 5 - 8)"
  shows "base32_inv (b1 AND (push_bit k 1 - 1)) (bc + 5 - 8) (out @ [ucast (drop_bit k b1)]) (vs @ [v])"
proof -
  have b1: "unat b1 = unat bits * 32 + v"
    using push_or_unat [OF pending_small [OF inv] v] by (simp add: b1_def)
  have k: "k = unat bc - 3" using unat_count_sub [OF inv big] by (simp add: k_def)
  have bc: "3 \<le> unat bc" "unat bc < 8"
    using inv big unat_count_add [OF inv] by (auto simp: base32_inv_def word_le_nat_alt)
  then have "unat bc = k + 3" using k by simp
  then have pw: "2 ^ unat bc * 32 = (2 ^ k * 256 :: nat)" by (simp add: power_add)
  have "unat b1 < 2 ^ unat bc * 32" using inv v by (auto simp: base32_inv_def b1)
  then have "unat b1 div 2 ^ k < 256" unfolding pw by (simp add: less_mult_imp_div_less mult.commute)
  then have byte: "unat (ucast (drop_bit k b1) :: u8) = unat b1 div 2 ^ k" by (rule byte_unat)
  have low: "unat (b1 AND (push_bit k 1 - 1)) = unat b1 mod 2 ^ k"
    using bc by (intro mask_unat) (simp add: k)
  have "be_val (out @ [ucast (drop_bit k b1)]) * 2 ^ k + unat b1 mod 2 ^ k
      = be_val out * (2 ^ k * 256) + unat b1"
    by (simp add: be_val_append byte algebra_simps)
  also have "\<dots> = (be_val out * 2 ^ unat bc + unat bits) * 32 + v"
    unfolding pw [symmetric] b1 by (simp add: algebra_simps)
  also have "\<dots> = val32 (vs @ [v])" using inv by (simp add: base32_inv_def val32_append)
  finally have "be_val (out @ [ucast (drop_bit k b1)]) * 2 ^ k + unat b1 mod 2 ^ k = val32 (vs @ [v])" .
  moreover have "length (out @ [ucast (drop_bit k b1)]) * 8 + k = 5 * length (vs @ [v])" "k < 8"
    using inv bc k by (auto simp: base32_inv_def)
  ultimately show ?thesis
    unfolding base32_inv_def low k_def [symmetric] by simp
qed

lemma digits32_Nil [simp]: "digits32 [] = Some []"
  by (simp add: digits32_def)

lemma digits32_Cons:
  "digits32 (c # s) = (case position c b32_alphabet of None \<Rightarrow> None
     | Some v \<Rightarrow> map_option (Cons v) (digits32 s))"
  by (auto simp: digits32_def split: option.splits)

lemma base32_loop_digits:
  assumes "base32_inv bits bc out vs" "digits32 s = Some ws"
  shows "\<exists>bits' bc' out'. base32_loop bits bc out s = Inr out' \<and> base32_inv bits' bc' out' (vs @ ws)"
  using assms
proof (induction s arbitrary: bits bc out vs ws)
  case (Cons c s)
  then obtain v ws' where v: "position c b32_alphabet = Some v" and ws: "ws = v # ws'"
      and d: "digits32 s = Some ws'"
    by (auto simp: digits32_Cons split: option.splits)
  have v32: "v < 32" using position_less [OF v] by simp
  have asc: "is_ascii c" using b32_alphabet_ascii position_mem [OF v] by blast
  show ?case
  proof (cases "8 \<le> bc + 5")
    case True
    from Cons.IH [OF base32_inv_emit [OF Cons.prems(1) v32 True] d] show ?thesis
      using v asc True by (simp add: ws Let_def del: push_bit_of_1)
  next
    case False
    from Cons.IH [OF base32_inv_keep [OF Cons.prems(1) v32 False] d] show ?thesis
      using v asc False by (simp add: ws Let_def)
  qed
qed auto

lemma base32_loop_invalid: "digits32 s = None \<Longrightarrow> base32_loop bits bc out s = Inl InvalidBase32"
  by (induction s arbitrary: bits bc out) (auto simp: digits32_Cons Let_def split: option.splits)

text \<open>Normalisation before decoding: white space and trailing padding removed, upper case.\<close>

definition base32_normal :: "(uchar \<Rightarrow> ustring) \<Rightarrow> ustring \<Rightarrow> ustring" where
  "base32_normal tbl input = to_uppercase tbl (trim_end_matches 61 (filter (\<lambda>c. \<not> is_whitespace c) input))"

lemma base32_decode_normal: "base32_decode tbl input = base32_loop 0 0 [] (base32_normal tbl input)"
  by (simp add: base32_decode_def base32_normal_def)

lemma base32_decode_value:
  assumes "digits32 (base32_normal tbl input) = Some vs"
  shows "\<exists>out. base32_decode tbl input = Inr out \<and> length out = 5 * length vs div 8
    \<and> be_val out = val32 vs div 2 ^ (5 * length vs mod 8)"
proof -
  obtain bits bc out where o: "base32_decode tbl input = Inr out" and inv: "base32_inv bits bc out vs"
    using base32_loop_digits [OF base32_inv_init assms] by (auto simp: base32_decode_normal)
  from inv have bc: "unat bc < 8" and len: "length out * 8 + unat bc = 5 * length vs"
      and val: "be_val out * 2 ^ unat bc + unat bits = val32 vs" and small: "unat bits < 2 ^ unat bc"
    by (auto simp: base32_inv_def)
  have "length out = 5 * length vs div 8" "unat bc = 5 * length vs mod 8"
    unfolding len [symmetric] using bc by simp_all
  moreover have "be_val out = val32 vs div 2 ^ unat bc"
    using small unfolding val [symmetric] by simp
  ultimately show ?thesis using o by auto
qed

lemma base32_decode_invalid:
  "digits32 (base32_normal tbl input) = None \<Longrightarrow> base32_decode tbl input = Inl InvalidBase32"
  by (simp add: base32_decode_normal base32_loop_invalid)

section \<open>HOTP and TOTP codes\<close>

definition hmac_sha1_ok :: "crypto_lib \<Rightarrow> bool" where
  "hmac_sha1_ok L \<longleftrightarrow> (\<forall>k m. length (hmac_sha1 L k m) = 20)"

lemma demo_hmac_sha1_ok: "hmac_sha1_ok demo_lib"
  by (simp add: hmac_sha1_ok_def demo_lib_def)

text \<open>The dynamic offset never leaves the 20-byte digest.\<close>

lemma hotp_offset: "unat ((b :: u8) AND 0x0f) + 3 < 20"
proof -
  have "b AND 0x0f \<le> 0x0f" by (rule word_and_le1)
  then have "unat (b AND 0x0f) \<le> 15" by (simp add: word_le_nat_alt)
  then show ?thesis by simp
qed

lemma hotp_bound: "unat (hotp L secret counter 6) < 10 ^ 6"
proof -
  have "(x :: u32) mod 10 ^ 6 < 10 ^ 6" for x by (rule word_mod_less_divisor) simp
  then have "hotp L secret counter 6 < 10 ^ 6" by (simp add: hotp_def Let_def)
  then show ?thesis by (simp add: word_less_nat_alt)
qed

lemma pad_left_length: "length s \<le> w \<Longrightarrow> length (pad_left c w s) = w"
  by (simp add: pad_left_def)

lemma generate_totp_digits:
  assumes "generate_totp L tbl secret t = Inr code"
  shows "length code = 6 \<and> (\<forall>c \<in> set code. \<exists>d<10. c = digit_char d)"
proof -
  obtain s where code: "code = pad_left CHR ''0'' 6 (nat_to_dec (unat (hotp L s (t div 30) 6)))"
    using assms by (auto simp: generate_totp_def try_bind_eq_Inr DEFAULT_DIGITS_def DEFAULT_PERIOD_def)
  have "CHR ''0'' = digit_char 0" by code_simp
  then have "\<exists>d<10. c = digit_char d" if "c \<in> set code" for c
    using that nat_to_dec_digits unfolding code pad_left_def by fastforce
  moreover have "length code = 6"
    unfolding code by (intro pad_left_length nat_to_dec_length hotp_bound) simp
  ultimately show ?thesis by blast
qed

lemma generate_totp_window:
  assumes "unat t div 30 = unat t' div 30"
  shows "generate_totp L tbl secret t = generate_totp L tbl secret t'"
proof -
  have "unat (t div 30) = unat (t' div 30)" using assms by (simp add: unat_div)
  then have "t div 30 = t' div 30" by (simp add: word_unat_eq_iff)
  then show ?thesis by (simp add: generate_totp_def DEFAULT_PERIOD_def)
qed

end
