(* ===== verification/PasswordGen.thy ===== *)
theory PasswordGen
  imports Prelude
begin

text \<open>
  \<open>crates/crypto-core/src/password_gen.rs\<close> with its WebAssembly entry point and the desktop command
  of \<open>commands/vault.rs\<close>. The random generator is the parameter \<open>draw\<close> (the \<open>n\<close>-th call of
  \<open>gen_range(0..max)\<close>) and the slice shuffle the parameter \<open>shuf\<close>; \<open>draw_ok\<close> and \<open>shuffle_ok\<close>
  state their documented behaviour: a draw lies in its range and a shuffle permutes.
  Lengths are \<open>usize\<close>: natural numbers, with the sum of the minima taken modulo \<open>2 ^ 64\<close>.
\<close>

section \<open>The generator\<close>

definition UPPERCASE :: string where "UPPERCASE = ''ABCDEFGHIJKLMNOPQRSTUVWXYZ''"
definition LOWERCASE :: string where "LOWERCASE = ''abcdefghijklmnopqrstuvwxyz''"
definition DIGITS :: string where "DIGITS = ''0123456789''"
definition SYMBOLS :: string where "SYMBOLS = ''!@#$%^&*()_+-=[]{}|;:,.<>?''"
definition AMBIGUOUS :: string where "AMBIGUOUS = ''Il1O0''"

record PasswordConfig =
  pc_length :: nat
  uppercase :: bool
  lowercase :: bool
  numbers :: bool
  symbols :: bool
  avoid_ambiguous :: bool
  min_uppercase :: nat
  min_lowercase :: nat
  min_numbers :: nat
  min_special :: nat

definition PasswordConfig_default :: PasswordConfig where
  "PasswordConfig_default =
     \<lparr>pc_length = 20, uppercase = True, lowercase = True, numbers = True, symbols = True,
      avoid_ambiguous = False, min_uppercase = 1, min_lowercase = 1, min_numbers = 1, min_special = 1\<rparr>"

datatype GenError = NoCharset | TooShort nat

definition filter_ambiguous :: "string \<Rightarrow> bool \<Rightarrow> string" where
  "filter_ambiguous pool avoid = (if \<not> avoid then pool else filter (\<lambda>b. b \<notin> set AMBIGUOUS) pool)"

definition random_usize :: "(nat \<Rightarrow> nat \<Rightarrow> nat) \<Rightarrow> nat \<Rightarrow> nat \<Rightarrow> nat" where
  "random_usize draw n bound = draw n bound"

text \<open>The closure \<open>push_required\<close>; the state is the buffer and the number of draws so far.\<close>

fun push_loop :: "(nat \<Rightarrow> nat \<Rightarrow> nat) \<Rightarrow> string \<Rightarrow> nat \<Rightarrow> string \<times> nat \<Rightarrow> string \<times> nat" where
  "push_loop draw pool 0 st = st"
| "push_loop draw pool (Suc k) (buf, n) =
     push_loop draw pool k
       (if pool \<noteq> [] then (buf @ [pool ! random_usize draw n (length pool)], Suc n) else (buf, n))"

definition push_required ::
  "(nat \<Rightarrow> nat \<Rightarrow> nat) \<Rightarrow> bool \<Rightarrow> string \<Rightarrow> nat \<Rightarrow> string \<times> nat \<Rightarrow> string \<times> nat" where
  "push_required draw avoid pool k st = push_loop draw (filter_ambiguous pool avoid) k st"

function fill_loop :: "(nat \<Rightarrow> nat \<Rightarrow> nat) \<Rightarrow> string \<Rightarrow> nat \<Rightarrow> string \<times> nat \<Rightarrow> string \<times> nat" where
  "fill_loop draw charset len (password, n) =
     (if length password < len
      then fill_loop draw charset len (password @ [charset ! random_usize draw n (length charset)], Suc n)
      else (password, n))"
  by pat_completeness auto
termination
  by (relation "measure (\<lambda>(draw, charset, len, password, n). len - length password)") auto

declare fill_loop.simps [simp del]

definition charset_of :: "PasswordConfig \<Rightarrow> string" where
  "charset_of cfg =
     (if uppercase cfg then filter_ambiguous UPPERCASE (avoid_ambiguous cfg) else [])
     @ (if lowercase cfg then filter_ambiguous LOWERCASE (avoid_ambiguous cfg) else [])
     @ (if numbers cfg then filter_ambiguous DIGITS (avoid_ambiguous cfg) else [])
     @ (if symbols cfg then SYMBOLS else [])"

definition min_total :: "PasswordConfig \<Rightarrow> nat" where
  "min_total cfg = (min_uppercase cfg + min_lowercase cfg + min_numbers cfg + min_special cfg) mod 2 ^ 64"

definition required_of :: "(nat \<Rightarrow> nat \<Rightarrow> nat) \<Rightarrow> PasswordConfig \<Rightarrow> string \<times> nat" where
  "required_of draw cfg =
     (let push = push_required draw (avoid_ambiguous cfg);
          s0 = ([], 0);
          s1 = (if uppercase cfg then push UPPERCASE (min_uppercase cfg) s0 else s0);
          s2 = (if lowercase cfg then push LOWERCASE (min_lowercase cfg) s1 else s1);
          s3 = (if numbers cfg then push DIGITS (min_numbers cfg) s2 else s2)
      in if symbols cfg then push SYMBOLS (min_special cfg) s3 else s3)"

definition generate_password ::
  "(nat \<Rightarrow> nat \<Rightarrow> nat) \<Rightarrow> (string \<Rightarrow> string) \<Rightarrow> PasswordConfig \<Rightarrow> GenError + string" where
  "generate_password draw shuf cfg =
     (let charset = charset_of cfg in
      if charset = [] then Inl NoCharset
      else if pc_length cfg < min_total cfg then Inl (TooShort (pc_length cfg))
      else let password = fst (fill_loop draw charset (pc_length cfg) (required_of draw cfg))
           in Inr (shuf password))"

definition config_with_classes :: "nat \<Rightarrow> bool \<Rightarrow> bool \<Rightarrow> bool \<Rightarrow> bool \<Rightarrow> bool \<Rightarrow> PasswordConfig" where
  "config_with_classes len up lo nu sy av =
     \<lparr>pc_length = len, uppercase = up, lowercase = lo, numbers = nu, symbols = sy, avoid_ambiguous = av,
      min_uppercase = (if up then 1 else 0), min_lowercase = (if lo then 1 else 0),
      min_numbers = (if nu then 1 else 0), min_special = (if sy then 1 else 0)\<rparr>"

fun GenError_display :: "GenError \<Rightarrow> string" where
  "GenError_display NoCharset = ''no character classes enabled''"
| "GenError_display (TooShort n) = ''length '' @ nat_to_dec n @ '' too short for minimum requirements''"

definition generate_password_wasm ::
  "(nat \<Rightarrow> nat \<Rightarrow> nat) \<Rightarrow> (string \<Rightarrow> string) \<Rightarrow> nat \<Rightarrow> bool \<Rightarrow> bool \<Rightarrow> bool \<Rightarrow> bool \<Rightarrow> bool
   \<Rightarrow> string + string" where
  "generate_password_wasm draw shuf len up lo nu sy av =
     map_err GenError_display (generate_password draw shuf (config_with_classes len up lo nu sy av))"

text \<open>The desktop command builds the same configuration from its request record.\<close>

record PasswordGenRequest =
  rq_length :: nat
  rq_uppercase :: bool
  rq_lowercase :: bool
  rq_numbers :: bool
  rq_symbols :: bool
  rq_avoid_ambiguous :: bool

definition cmd_generate_password ::
  "(nat \<Rightarrow> nat \<Rightarrow> nat) \<Rightarrow> (string \<Rightarrow> string) \<Rightarrow> PasswordGenRequest \<Rightarrow> string + string" where
  "cmd_generate_password draw shuf req =
     (let cfg = \<lparr>pc_length = rq_length req, uppercase = rq_uppercase req, lowercase = rq_lowercase req,
                 numbers = rq_numbers req, symbols = rq_symbols req,
                 avoid_ambiguous = rq_avoid_ambiguous req,
                 min_uppercase = (if rq_uppercase req then 1 else 0),
                 min_lowercase = (if rq_lowercase req then 1 else 0),
                 min_numbers = (if rq_numbers req then 1 else 0),
                 min_special = (if rq_symbols req then 1 else 0)\<rparr>
      in map_err GenError_display (generate_password draw shuf cfg))"

section \<open>Behaviour of the random source\<close>

definition draw_ok :: "(nat \<Rightarrow> nat \<Rightarrow> nat) \<Rightarrow> bool" where
  "draw_ok draw \<longleftrightarrow> (\<forall>n m. 0 < m \<longrightarrow> draw n m < m)"

definition shuffle_ok :: "(string \<Rightarrow> string) \<Rightarrow> bool" where
  "shuffle_ok shuf \<longleftrightarrow> (\<forall>xs. mset (shuf xs) = mset xs)"

section \<open>The loops\<close>

lemma push_loop_ok:
  assumes "draw_ok draw" "pool \<noteq> []"
  shows "\<exists>xs n'. push_loop draw pool k (buf, n) = (buf @ xs, n') \<and> length xs = k \<and> set xs \<subseteq> set pool"
proof (induction k arbitrary: buf n)
  case (Suc k)
  let ?c = "pool ! random_usize draw n (length pool)"
  obtain xs n' where "push_loop draw pool k (buf @ [?c], Suc n) = ((buf @ [?c]) @ xs, n')"
      "length xs = k" "set xs \<subseteq> set pool" using Suc.IH by blast
  moreover have "?c \<in> set pool" using assms by (simp add: random_usize_def draw_ok_def)
  ultimately show ?case using assms(2) by (intro exI [of _ "?c # xs"] exI [of _ n']) simp
qed simp

lemma fill_loop_ok:
  assumes "draw_ok draw" "charset \<noteq> []"
  shows "\<exists>ys. fst (fill_loop draw charset len (pw, n)) = pw @ ys
    \<and> length ys = len - length pw \<and> set ys \<subseteq> set charset"
proof (induction "len - length pw" arbitrary: pw n)
  case 0
  then show ?case by (subst fill_loop.simps) simp
next
  case (Suc d)
  let ?c = "charset ! random_usize draw n (length charset)"
  have "d = len - length (pw @ [?c])" using Suc.hyps(2) by simp
  then obtain ys where ys: "fst (fill_loop draw charset len (pw @ [?c], Suc n)) = (pw @ [?c]) @ ys"
      "length ys = len - length (pw @ [?c])" "set ys \<subseteq> set charset" using Suc.hyps(1) by blast
  have "?c \<in> set charset" using assms by (simp add: random_usize_def draw_ok_def)
  moreover have "length pw < len" using Suc.hyps(2) by simp
  ultimately show ?case using ys
    by (subst fill_loop.simps) (auto intro!: exI [of _ "?c # ys"])
qed

section \<open>The password\<close>

lemma pools_nonempty:
  "filter_ambiguous UPPERCASE b \<noteq> []" "filter_ambiguous LOWERCASE b \<noteq> []"
  "filter_ambiguous DIGITS b \<noteq> []" "filter_ambiguous SYMBOLS b \<noteq> []"
  by (simp_all add: filter_ambiguous_def UPPERCASE_def LOWERCASE_def DIGITS_def SYMBOLS_def AMBIGUOUS_def)

lemma filter_ambiguous_subset: "set (filter_ambiguous pool b) \<subseteq> set pool"
  by (auto simp: filter_ambiguous_def)

lemma symbols_not_ambiguous: "filter_ambiguous SYMBOLS b = SYMBOLS"
  by (simp add: filter_ambiguous_def SYMBOLS_def AMBIGUOUS_def)

text \<open>One conditional call of \<open>push_required\<close>: it appends the required number of characters of
  the pool when the class is enabled and nothing otherwise.\<close>

definition picks :: "bool \<Rightarrow> nat \<Rightarrow> string \<Rightarrow> string \<Rightarrow> bool" where
  "picks b k pool xs \<longleftrightarrow> length xs = (if b then k else 0) \<and> set xs \<subseteq> set pool"

lemma push_if_ok:
  assumes "draw_ok draw" "filter_ambiguous pool av \<noteq> []"
  shows "\<exists>xs n'. (if b then push_required draw av pool k (buf, n) else (buf, n)) = (buf @ xs, n')
    \<and> picks b k (filter_ambiguous pool av) xs"
proof (cases b)
  case True
  then show ?thesis using push_loop_ok [OF assms, of k buf n]
    by (auto simp: push_required_def picks_def)
qed (auto simp: picks_def)

lemma required_of_ok:
  assumes d: "draw_ok draw"
  shows "\<exists>u l m s n. required_of draw cfg = (u @ l @ m @ s, n)
    \<and> picks (uppercase cfg) (min_uppercase cfg) (filter_ambiguous UPPERCASE (avoid_ambiguous cfg)) u
    \<and> picks (lowercase cfg) (min_lowercase cfg) (filter_ambiguous LOWERCASE (avoid_ambiguous cfg)) l
    \<and> picks (numbers cfg) (min_numbers cfg) (filter_ambiguous DIGITS (avoid_ambiguous cfg)) m
    \<and> picks (symbols cfg) (min_special cfg) (filter_ambiguous SYMBOLS (avoid_ambiguous cfg)) s"
proof -
  let ?av = "avoid_ambiguous cfg"
  note step = push_if_ok [OF d pools_nonempty(1), of "uppercase cfg" ?av "min_uppercase cfg" "[]" 0]
  obtain u n1 where 1: "(if uppercase cfg then push_required draw ?av UPPERCASE (min_uppercase cfg) ([], 0) else ([], 0)) = (u, n1)"
    "picks (uppercase cfg) (min_uppercase cfg) (filter_ambiguous UPPERCASE ?av) u" using step by auto
  obtain l n2 where 2: "(if lowercase cfg then push_required draw ?av LOWERCASE (min_lowercase cfg) (u, n1) else (u, n1)) = (u @ l, n2)"
    "picks (lowercase cfg) (min_lowercase cfg) (filter_ambiguous LOWERCASE ?av) l"
    using push_if_ok [OF d pools_nonempty(2)] by blast
  obtain m n3 where 3: "(if numbers cfg then push_required draw ?av DIGITS (min_numbers cfg) (u @ l, n2) else (u @ l, n2)) = ((u @ l) @ m, n3)"
    "picks (numbers cfg) (min_numbers cfg) (filter_ambiguous DIGITS ?av) m"
    using push_if_ok [OF d pools_nonempty(3)] by blast
  obtain s n4 where 4: "(if symbols cfg then push_required draw ?av SYMBOLS (min_special cfg) ((u @ l) @ m, n3) else ((u @ l) @ m, n3)) = (((u @ l) @ m) @ s, n4)"
    "picks (symbols cfg) (min_special cfg) (filter_ambiguous SYMBOLS ?av) s"
    using push_if_ok [OF d pools_nonempty(4)] by blast
  have "required_of draw cfg = (((u @ l) @ m) @ s, n4)"
    unfolding required_of_def Let_def 1(1) 2(1) 3(1) 4(1) ..
  with 1(2) 2(2) 3(2) 4(2) show ?thesis by auto
qed

lemma picks_in_charset:
  "picks (uppercase cfg) k (filter_ambiguous UPPERCASE (avoid_ambiguous cfg)) u \<Longrightarrow> set u \<subseteq> set (charset_of cfg)"
  "picks (lowercase cfg) k (filter_ambiguous LOWERCASE (avoid_ambiguous cfg)) u \<Longrightarrow> set u \<subseteq> set (charset_of cfg)"
  "picks (numbers cfg) k (filter_ambiguous DIGITS (avoid_ambiguous cfg)) u \<Longrightarrow> set u \<subseteq> set (charset_of cfg)"
  "picks (symbols cfg) k (filter_ambiguous SYMBOLS (avoid_ambiguous cfg)) u \<Longrightarrow> set u \<subseteq> set (charset_of cfg)"
  by (auto simp: picks_def charset_of_def symbols_not_ambiguous split: if_splits)

text \<open>
  Every generated password: its length, its alphabet, and the required number of characters of
  every enabled class.
\<close>

definition class_count :: "string \<Rightarrow> string \<Rightarrow> nat" where
  "class_count pool pw = length (filter (\<lambda>c. c \<in> set pool) pw)"

lemma class_count_pos: "Suc 0 \<le> class_count pool pw \<longleftrightarrow> set pw \<inter> set pool \<noteq> {}"
  by (auto simp: class_count_def Suc_le_eq filter_empty_conv simp flip: neq_Nil_conv)

lemma class_count_append: "class_count p (a @ b) = class_count p a + class_count p b"
  by (simp add: class_count_def)

lemma class_count_picks: "picks b k (filter_ambiguous pool av) xs \<Longrightarrow> b \<Longrightarrow> class_count pool xs = k"
  using filter_ambiguous_subset [of pool av] by (auto simp: picks_def class_count_def subset_iff filter_id_conv)

lemma class_count_mset: "mset a = mset b \<Longrightarrow> class_count p a = class_count p b"
  unfolding class_count_def by (metis mset_filter size_mset)

definition meets_config :: "PasswordConfig \<Rightarrow> string \<Rightarrow> bool" where
  "meets_config cfg pw \<longleftrightarrow> length pw = pc_length cfg \<and> set pw \<subseteq> set (charset_of cfg)
     \<and> (uppercase cfg \<longrightarrow> min_uppercase cfg \<le> class_count UPPERCASE pw)
     \<and> (lowercase cfg \<longrightarrow> min_lowercase cfg \<le> class_count LOWERCASE pw)
     \<and> (numbers cfg \<longrightarrow> min_numbers cfg \<le> class_count DIGITS pw)
     \<and> (symbols cfg \<longrightarrow> min_special cfg \<le> class_count SYMBOLS pw)"

lemma meets_config_mset: "mset a = mset b \<Longrightarrow> meets_config cfg a = meets_config cfg b"
  unfolding meets_config_def by (metis class_count_mset mset_eq_length mset_eq_setD)

lemma unshuffled_meets_config:
  assumes "draw_ok draw" "charset_of cfg \<noteq> []" "min_total cfg \<le> pc_length cfg"
    and "min_uppercase cfg + min_lowercase cfg + min_numbers cfg + min_special cfg < 2 ^ 64"
  shows "meets_config cfg (fst (fill_loop draw (charset_of cfg) (pc_length cfg) (required_of draw cfg)))"
proof -
  obtain u l m s n where r: "required_of draw cfg = (u @ l @ m @ s, n)"
    and p: "picks (uppercase cfg) (min_uppercase cfg) (filter_ambiguous UPPERCASE (avoid_ambiguous cfg)) u"
      "picks (lowercase cfg) (min_lowercase cfg) (filter_ambiguous LOWERCASE (avoid_ambiguous cfg)) l"
      "picks (numbers cfg) (min_numbers cfg) (filter_ambiguous DIGITS (avoid_ambiguous cfg)) m"
      "picks (symbols cfg) (min_special cfg) (filter_ambiguous SYMBOLS (avoid_ambiguous cfg)) s"
    using required_of_ok [OF assms(1)] by blast
  define req where "req = u @ l @ m @ s"
  obtain ys where ys: "fst (fill_loop draw (charset_of cfg) (pc_length cfg) (req, n)) = req @ ys"
      "length ys = pc_length cfg - length req" "set ys \<subseteq> set (charset_of cfg)"
    using fill_loop_ok [OF assms(1,2)] by blast
  have "length req \<le> min_total cfg"
    using p assms(4) by (auto simp: req_def picks_def min_total_def)
  then have len: "length (req @ ys) = pc_length cfg" using ys(2) assms(3) by simp
  have sub: "set (req @ ys) \<subseteq> set (charset_of cfg)"
    using p(1) [THEN picks_in_charset(1)] p(2) [THEN picks_in_charset(2)] p(3) [THEN picks_in_charset(3)]
      p(4) [THEN picks_in_charset(4)] ys(3) by (auto simp: req_def)
  have "meets_config cfg (req @ ys)"
    using len sub p [THEN class_count_picks] by (auto simp: meets_config_def req_def class_count_append)
  then show ?thesis by (simp add: r req_def [symmetric] ys(1))
qed

lemma generate_password_meets_config:
  assumes "draw_ok draw" "shuffle_ok shuf" "generate_password draw shuf cfg = Inr pw"
    and "min_uppercase cfg + min_lowercase cfg + min_numbers cfg + min_special cfg < 2 ^ 64"
  shows "meets_config cfg pw"
proof -
  let ?p = "fst (fill_loop draw (charset_of cfg) (pc_length cfg) (required_of draw cfg))"
  from assms(3) have "charset_of cfg \<noteq> []" "min_total cfg \<le> pc_length cfg" "pw = shuf ?p"
    by (auto simp: generate_password_def Let_def split: if_splits)
  with assms unshuffled_meets_config [of draw cfg] show ?thesis
    by (metis meets_config_mset shuffle_ok_def)
qed

lemma charset_empty_iff:
  "charset_of cfg = [] \<longleftrightarrow> \<not> uppercase cfg \<and> \<not> lowercase cfg \<and> \<not> numbers cfg \<and> \<not> symbols cfg"
  using pools_nonempty by (auto simp: charset_of_def SYMBOLS_def)

lemma charset_unambiguous:
  "avoid_ambiguous cfg \<Longrightarrow> set (charset_of cfg) \<inter> set AMBIGUOUS = {}"
  using symbols_not_ambiguous [of True]
  by (auto simp: charset_of_def filter_ambiguous_def filter_id_conv split: if_splits)

lemma class_config_min_total: "min_total (config_with_classes len up lo nu sy av) =
    (if up then 1 else 0) + (if lo then 1 else 0) + (if nu then 1 else 0) + (if sy then 1 else 0)"
  by (simp add: min_total_def config_with_classes_def)

end
