(* ===== verification/CryptoProps.thy ===== *)
theory CryptoProps
  imports Recovery Totp PasswordGen
begin

text \<open>
  The properties of the shared crypto crate: payloads, key hierarchy, recovery phrases, one-time
  codes and generated passwords. Each is stated over the definitions of the component theories,
  with the documented behaviour of the third-party crates as named hypotheses, and evaluated on
  \<open>demo_lib\<close> in its witness.
\<close>

section \<open>Payloads\<close>

text \<open>C1. A payload sealed with a 64-byte user key survives the textual form that the server stores:
  encryption succeeds, the printed string parses, and decrypting what was parsed returns the
  plaintext.\<close>

theorem user_payload_roundtrip:
  assumes "aead_ok L" "b64_ok L" "length (UserKey_raw_bytes k) = 64" "length rnd = 16"
  shows "\<exists>e. UserKey_encrypt L k rnd m = Inr e
    \<and> try_bind (EncString_parse L (EncString_display L e)) (UserKey_decrypt L k) = Inr m"
  using assms by (rule user.stored_payload)

theorem user_payload_roundtrip_witness:
  "\<exists>e. UserKey_encrypt demo_lib (UserKey (replicate 64 7)) (replicate 16 1) [1, 2, 3] = Inr e
    \<and> try_bind (EncString_parse demo_lib (EncString_display demo_lib e))
        (UserKey_decrypt demo_lib (UserKey (replicate 64 7))) = Inr [1, 2, 3]"
  by (rule user_payload_roundtrip [OF demo_aead_ok demo_b64_ok]) simp_all

text \<open>C2. Decryption checks the tag before it touches the cipher: a stored payload whose tag is not
  the HMAC of its IV and ciphertext under the MAC key is answered with \<open>MacMismatch\<close> and nothing
  else is, and a plaintext is returned only for the authentic tag.\<close>

theorem decrypt_authenticates:
  assumes "hmac_ok L" "EncString_wf e"
  shows "(EncString_decrypt L e k = Inl MacMismatch \<longleftrightarrow>
      mac e \<noteq> hmac_sha256 L (mac_key k) (iv e @ ct e))
    \<and> (EncString_decrypt L e k = Inr m \<longleftrightarrow>
      mac e = hmac_sha256 L (mac_key k) (iv e @ ct e) \<and> aes_cbc_new L (enc_key k) (iv e)
      \<and> aes_cbc_decrypt L (enc_key k) (iv e) (ct e) = Some m)"
  using assms decrypt_mac_mismatch_iff [of L e k] decrypt_Inr_iff [of L e k m]
  by (simp add: EncString_wf_def compute_mac_def)

theorem decrypt_authenticates_witness:
  "EncString_decrypt demo_lib \<lparr>enc_type = 2, iv = replicate 16 0, ct = [5], mac = replicate 32 9\<rparr>
     \<lparr>enc_key = replicate 32 1, mac_key = replicate 32 2\<rparr> = Inl MacMismatch"
  using decrypt_authenticates [OF demo_hmac_ok,
      of "\<lparr>enc_type = 2, iv = replicate 16 0, ct = [5], mac = replicate 32 9\<rparr>"
         "\<lparr>enc_key = replicate 32 1, mac_key = replicate 32 2\<rparr>" "[]"]
  by (simp add: EncString_wf_def ENC_TYPE_AES256_CBC_HMAC_def demo_lib_def pad_to_def)

text \<open>The parser accepts exactly the strings \<open>type.iv|ct|mac\<close> whose type reads as 2 and whose
  three parts are base64 of a 16-byte IV, a ciphertext and a 32-byte tag, and returns those
  parts.\<close>

theorem parse_accepts_exactly:
  "EncString_parse L s = Inr e \<longleftrightarrow>
    (\<exists>ty a b c. s = ty @ ''.'' @ a @ ''|'' @ b @ ''|'' @ c
      \<and> CHR ''.'' \<notin> set ty \<and> CHR ''|'' \<notin> set a \<and> CHR ''|'' \<notin> set b
      \<and> u8_from_str ty = Some 2 \<and> b64_decode L a = Inr (iv e) \<and> b64_decode L b = Inr (ct e)
      \<and> b64_decode L c = Inr (mac e) \<and> EncString_wf e)"
proof
  assume p: "EncString_parse L s = Inr e"
  then obtain ty rest where s: "split_once CHR ''.'' s = Some (ty, rest)" and ty: "u8_from_str ty = Some 2"
      and three: "length (splitn 3 CHR ''|'' rest) = 3"
      and dec: "b64_decode L (splitn 3 CHR ''|'' rest ! 0) = Inr (iv e)"
        "b64_decode L (splitn 3 CHR ''|'' rest ! 1) = Inr (ct e)"
        "b64_decode L (splitn 3 CHR ''|'' rest ! 2) = Inr (mac e)"
    by (auto simp: EncString_parse_def try_bind_eq_Inr ENC_TYPE_AES256_CBC_HMAC_def Let_def
        split: if_splits)
  obtain a b c where abc: "rest = a @ ''|'' @ b @ ''|'' @ c" "CHR ''|'' \<notin> set a" "CHR ''|'' \<notin> set b"
    using splitn_3_parts [OF three] by auto
  then have "splitn 3 CHR ''|'' rest = [a, b, c]" using splitn_3 by simp
  with s ty dec abc parse_wf [OF p]
  show "\<exists>ty a b c. s = ty @ ''.'' @ a @ ''|'' @ b @ ''|'' @ c
      \<and> CHR ''.'' \<notin> set ty \<and> CHR ''|'' \<notin> set a \<and> CHR ''|'' \<notin> set b
      \<and> u8_from_str ty = Some 2 \<and> b64_decode L a = Inr (iv e) \<and> b64_decode L b = Inr (ct e)
      \<and> b64_decode L c = Inr (mac e) \<and> EncString_wf e"
    by (intro exI [of _ ty] exI [of _ a] exI [of _ b] exI [of _ c]) (simp add: split_once_Some)
next
  assume "\<exists>ty a b c. s = ty @ ''.'' @ a @ ''|'' @ b @ ''|'' @ c
      \<and> CHR ''.'' \<notin> set ty \<and> CHR ''|'' \<notin> set a \<and> CHR ''|'' \<notin> set b
      \<and> u8_from_str ty = Some 2 \<and> b64_decode L a = Inr (iv e) \<and> b64_decode L b = Inr (ct e)
      \<and> b64_decode L c = Inr (mac e) \<and> EncString_wf e"
  then show "EncString_parse L s = Inr e"
    by (auto simp: EncString_parse_def splitn_3 EncString_wf_def ENC_TYPE_AES256_CBC_HMAC_def Let_def)
qed

section \<open>Key hierarchy\<close>

text \<open>C3. The desktop commands chain: when the derived master key is handed to the user-key command,
  the command succeeds, its output parses, and the master key decrypts it to the user key that was
  generated.\<close>

theorem desktop_user_key_recoverable:
  assumes "hkdf_ok L" "aead_ok L" "b64_ok L" "kdf_ok L" "length rk = 64" "length ri = 16"
    and "cmd_derive_master_key L req = Inr mk64"
  shows "\<exists>s e mk. cmd_generate_user_key L mk64 rk ri = Inr s \<and> EncString_parse L s = Inr e
    \<and> b64_decode L mk64 = Inr mk \<and> MasterKey_decrypt_user_key L (MasterKey mk) e = Inr (UserKey rk)"
proof -
  from assms(7) obtain mk where mk: "mk64 = b64_encode L mk" "length mk = 32"
    using derive_master_key_length [OF assms(4)]
    by (auto simp: cmd_derive_master_key_def try_bind_eq_Inr Let_def)
  obtain e where e: "MasterKey_generate_user_key L (MasterKey mk) rk ri = Inr (UserKey rk, e)"
      "EncString_wf e" "MasterKey_decrypt_user_key L (MasterKey mk) e = Inr (UserKey rk)"
    using generate_user_key_decrypts assms(1,2,5,6) mk(2) by blast
  have "cmd_generate_user_key L mk64 rk ri = Inr (EncString_display L e)"
    using assms(3) mk e(1) by (simp add: cmd_generate_user_key_def b64_ok_def)
  moreover have "b64_decode L mk64 = Inr mk" using assms(3) mk(1) by (simp add: b64_ok_def)
  ultimately show ?thesis using parse_display [OF assms(3) e(2)] e(3) by blast
qed

definition demo_request :: DeriveKeyRequest where
  "demo_request = \<lparr>req_password = ''pw'', req_email = ''A@b.c'', req_m_cost = None, req_t_cost = Some 2,
     req_p_cost = None\<rparr>"

lemma demo_request_ok: "\<exists>mk64. cmd_derive_master_key demo_lib demo_request = Inr mk64"
  by (simp add: cmd_derive_master_key_def derive_master_key_def demo_request_def demo_lib_def
      unwrap_or_def Let_def)

theorem desktop_user_key_recoverable_witness:
  "\<exists>mk64 s e mk. cmd_derive_master_key demo_lib demo_request = Inr mk64
    \<and> cmd_generate_user_key demo_lib mk64 (replicate 64 5) (replicate 16 6) = Inr s
    \<and> EncString_parse demo_lib s = Inr e \<and> b64_decode demo_lib mk64 = Inr mk
    \<and> MasterKey_decrypt_user_key demo_lib (MasterKey mk) e = Inr (UserKey (replicate 64 5))"
proof -
  obtain mk64 where "cmd_derive_master_key demo_lib demo_request = Inr mk64" using demo_request_ok ..
  with desktop_user_key_recoverable [OF demo_hkdf_ok demo_aead_ok demo_b64_ok demo_kdf_ok, of
      "replicate 64 5" "replicate 16 6" demo_request mk64]
  show ?thesis by (rule_tac exI [of _ mk64]) simp
qed

text \<open>C4. An organization key encrypted for a member with the public half of a generated RSA pair is
  recovered by the private half, and data sealed with the original key opens with the recovered
  one.\<close>

theorem org_key_reaches_member:
  assumes "rsa_ok L" "aead_ok L" "generate_rsa_key_pair L rnd = Inr (priv_der, pub_der)"
    and "length (OrgKey_raw_bytes k) = 64" "OrgKey_encrypt_to_member L k r pub_der = Inr c"
    and "length ri = 16" "OrgKey_encrypt L k ri m = Inr e"
  shows "try_bind (OrgKey_decrypt_from_member L c priv_der) (\<lambda>k'. OrgKey_decrypt L k' e) = Inr m"
  using org_key_rsa_roundtrip [OF assms(1,3,4,5)] org.unseal_seal [OF assms(2,4,6,7)] by simp

theorem org_key_reaches_member_witness:
  "\<exists>e. OrgKey_encrypt demo_lib (OrgKey (replicate 64 3)) (replicate 16 0) [8, 9] = Inr e
    \<and> try_bind (OrgKey_decrypt_from_member demo_lib (replicate 64 3) [4, 2])
        (\<lambda>k'. OrgKey_decrypt demo_lib k' e) = Inr [8, 9]"
proof -
  obtain e where e: "OrgKey_encrypt demo_lib (OrgKey (replicate 64 3)) (replicate 16 0) [8, 9] = Inr e"
    using org.seal_total [OF demo_aead_ok] by force
  have pair: "generate_rsa_key_pair demo_lib [4, 2] = Inr ([4, 2], [4, 2])"
    by (simp add: generate_rsa_key_pair_def demo_lib_def Let_def)
  have "OrgKey_encrypt_to_member demo_lib (OrgKey (replicate 64 3)) [] [4, 2] = Inr (replicate 64 3)"
    by (simp add: OrgKey_encrypt_to_member_def demo_lib_def)
  from org_key_reaches_member [OF demo_rsa_ok demo_aead_ok pair _ this _ e] e show ?thesis by simp
qed

section \<open>Recovery phrases\<close>

text \<open>A recovery phrase is accepted exactly when its non-blank characters are the 64 hexadecimal
  digits, in either case, of a 32-byte entropy, which it returns; otherwise the only error is
  \<open>InvalidRecoveryPhrase\<close>. The printed phrase has eight groups of eight digits and reads back.\<close>

theorem recovery_phrase_format:
  "(phrase_to_entropy p = Inr e \<longleftrightarrow> length e = 32 \<and>
     map ascii_upper (filter (\<lambda>c. \<not> is_whitespace c) p) = map ascii_upper (concat (map format_02x e)))
   \<and> ((\<exists>err. phrase_to_entropy p = Inl err) = (phrase_to_entropy p = Inl InvalidRecoveryPhrase))"
  using phrase_to_entropy_iff [of p e] phrase_to_entropy_error [of p] by blast

text \<open>C5. A user key wrapped with the recovery entropy is unwrapped by the phrase that was shown to
  the user, however it is spaced or capitalised.\<close>

theorem recovery_unwraps_shown_phrase:
  assumes "hkdf_ok L" "aead_ok L" "length e = 32" "length rnd = 16"
    and "length (UserKey_raw_bytes uk) = 64"
    and "map ascii_upper (filter (\<lambda>c. \<not> is_whitespace c) p) =
      map ascii_upper (filter (\<lambda>c. \<not> is_whitespace c) (entropy_to_phrase e))"
  shows "\<exists>w. wrap_user_key_with_recovery L uk e rnd = Inr w
    \<and> unwrap_user_key_with_recovery L w p = Inr uk"
  using recovery_unwraps [OF assms(1-5), of p] assms(3,6)
  by (simp add: phrase_to_entropy_iff phrase_digits)

theorem recovery_unwraps_shown_phrase_witness:
  "\<exists>w. wrap_user_key_with_recovery demo_lib (UserKey (replicate 64 1)) (replicate 32 7) (replicate 16 0) = Inr w
    \<and> unwrap_user_key_with_recovery demo_lib w (entropy_to_phrase (replicate 32 7)) = Inr (UserKey (replicate 64 1))"
  by (rule recovery_unwraps_shown_phrase [OF demo_hkdf_ok demo_aead_ok]) simp_all

text \<open>The phrase shown for a 32-byte entropy is eight groups of eight hexadecimal digits
  separated by single spaces.\<close>

theorem recovery_phrase_groups:
  assumes "length e = 32"
  shows "\<exists>gs. entropy_to_phrase e = join_with [32] gs \<and> length gs = 8
    \<and> (\<forall>g \<in> set gs. length g = 8 \<and> list_all is_ascii_hexdigit g)"
  using assms by (rule phrase_groups)

theorem recovery_phrase_groups_witness:
  "\<exists>gs. entropy_to_phrase (replicate 32 171) = join_with [32] gs \<and> length gs = 8
    \<and> (\<forall>g \<in> set gs. length g = 8 \<and> list_all is_ascii_hexdigit g)"
  by (rule recovery_phrase_groups) simp

section \<open>One-time codes\<close>

text \<open>C6. The base32 decoder, which keeps only the pending bits in its 32-bit accumulator, computes
  the big-endian bytes of the number the digits denote, dropping the incomplete last byte; a
  character outside the alphabet makes it fail.\<close>

theorem base32_decode_correct:
  "case digits32 (base32_normal tbl input) of
     None \<Rightarrow> base32_decode tbl input = Inl InvalidBase32
   | Some vs \<Rightarrow> (\<exists>out. base32_decode tbl input = Inr out \<and> length out = 5 * length vs div 8
       \<and> be_val out = val32 vs div 2 ^ (5 * length vs mod 8))"
  using base32_decode_value [of tbl input] base32_decode_invalid [of tbl input]
  by (simp split: option.split)

text \<open>A generated one-time code has six decimal digits, and two instants of the same 30-second
  window give the same code.\<close>

theorem totp_code:
  assumes "generate_totp L tbl secret t = Inr code"
  shows "length code = 6 \<and> (\<forall>c \<in> set code. \<exists>d<10. c = digit_char d)
    \<and> (\<forall>t'. unat t' div 30 = unat t div 30 \<longrightarrow> generate_totp L tbl secret t' = Inr code)"
proof (intro conjI allI impI)
  fix t' :: u64 assume "unat t' div 30 = unat t div 30"
  then show "generate_totp L tbl secret t' = Inr code" using generate_totp_window assms by metis
qed (use generate_totp_digits [OF assms] in auto)

theorem totp_code_witness:
  "\<exists>code. generate_totp demo_lib (\<lambda>c. [c]) (ascii ''JBSW'') 59 = Inr code \<and> length code = 6
    \<and> generate_totp demo_lib (\<lambda>c. [c]) (ascii ''JBSW'') 30 = Inr code"
proof -
  have "digits32 (base32_normal (\<lambda>c. [c]) (ascii ''JBSW'')) \<noteq> None"
    by (simp add: digits32_def base32_normal_def to_uppercase_def trim_end_matches_def is_whitespace_def
        ascii_upper_def b32_alphabet_def ascii_def)
  then obtain out where "base32_decode (\<lambda>c. [c]) (ascii ''JBSW'') = Inr out"
    using base32_decode_value by blast
  then obtain code where c: "generate_totp demo_lib (\<lambda>c. [c]) (ascii ''JBSW'') 59 = Inr code"
    by (simp add: generate_totp_def)
  from totp_code [OF c] have "unat (30 :: u64) div 30 = unat (59 :: u64) div 30 \<longrightarrow>
      generate_totp demo_lib (\<lambda>c. [c]) (ascii ''JBSW'') 30 = Inr code"
    and "length code = 6" by blast+
  with c show ?thesis by simp
qed

section \<open>Generated passwords\<close>

text \<open>C7. The password generator fails exactly when no character class is enabled (\<open>NoCharset\<close>) or the
  length is below the sum of all four minima, those of disabled classes included, as the 64-bit addition of
  the code computes it (\<open>TooShort\<close>). Otherwise, when the sum does not wrap around, it returns a password of the
  configured length over the enabled classes that holds at least the required number of characters of each.\<close>

theorem generate_password_correct:
  assumes "draw_ok draw" "shuffle_ok shuf"
  shows "(generate_password draw shuf cfg = Inl NoCharset \<longleftrightarrow> \<not> (uppercase cfg \<or> lowercase cfg \<or> numbers cfg \<or> symbols cfg))
    \<and> (\<forall>n. generate_password draw shuf cfg = Inl (TooShort n) \<longleftrightarrow>
        (uppercase cfg \<or> lowercase cfg \<or> numbers cfg \<or> symbols cfg) \<and> n = pc_length cfg
        \<and> n < (min_uppercase cfg + min_lowercase cfg + min_numbers cfg + min_special cfg) mod 2 ^ 64)
    \<and> (min_uppercase cfg + min_lowercase cfg + min_numbers cfg + min_special cfg < 2 ^ 64 \<longrightarrow>
        (\<forall>pw. generate_password draw shuf cfg = Inr pw \<longrightarrow> meets_config cfg pw))"
proof (intro conjI allI impI)
  fix pw assume "min_uppercase cfg + min_lowercase cfg + min_numbers cfg + min_special cfg < 2 ^ 64"
    "generate_password draw shuf cfg = Inr pw"
  then show "meets_config cfg pw" using generate_password_meets_config assms by blast
qed (auto simp: generate_password_def charset_empty_iff min_total_def Let_def)

abbreviation upper_only :: PasswordConfig where
  "upper_only \<equiv> PasswordConfig_default\<lparr>pc_length := 4, lowercase := False, numbers := False, symbols := False, min_numbers := 5\<rparr>"

theorem generate_password_correct_witness:
  "(\<exists>pw. generate_password (\<lambda>n m. 0) rev PasswordConfig_default = Inr pw \<and> meets_config PasswordConfig_default pw)
   \<and> generate_password (\<lambda>n m. 0) rev upper_only = Inl (TooShort 4)"
proof
  have ok: "draw_ok (\<lambda>n m. 0)" "shuffle_ok rev" by (simp_all add: draw_ok_def shuffle_ok_def)
  note t = generate_password_correct [OF ok, of PasswordConfig_default]
  from t have "generate_password (\<lambda>n m. 0) rev PasswordConfig_default \<noteq> Inl e" for e
    by (cases e) (simp_all add: PasswordConfig_default_def)
  then obtain pw where "generate_password (\<lambda>n m. 0) rev PasswordConfig_default = Inr pw" by (meson sumE)
  then show "\<exists>pw. generate_password (\<lambda>n m. 0) rev PasswordConfig_default = Inr pw \<and> meets_config PasswordConfig_default pw"
    using t by (simp add: PasswordConfig_default_def)
  show "generate_password (\<lambda>n m. 0) rev upper_only = Inl (TooShort 4)"
    using generate_password_correct [OF ok, of upper_only] by (simp add: PasswordConfig_default_def)
qed

text \<open>The desktop command returns a password for every length of at least four with some class
  enabled; it has that length, a character of every enabled class and, when asked, none of the
  ambiguous characters.\<close>

theorem cmd_generate_password_ok:
  assumes "draw_ok draw" "shuffle_ok shuf" "4 \<le> rq_length req"
    and "rq_uppercase req \<or> rq_lowercase req \<or> rq_numbers req \<or> rq_symbols req"
  shows "\<exists>pw. cmd_generate_password draw shuf req = Inr pw \<and> length pw = rq_length req
    \<and> (rq_uppercase req \<longrightarrow> set pw \<inter> set UPPERCASE \<noteq> {})
    \<and> (rq_lowercase req \<longrightarrow> set pw \<inter> set LOWERCASE \<noteq> {})
    \<and> (rq_numbers req \<longrightarrow> set pw \<inter> set DIGITS \<noteq> {})
    \<and> (rq_symbols req \<longrightarrow> set pw \<inter> set SYMBOLS \<noteq> {})
    \<and> (rq_avoid_ambiguous req \<longrightarrow> set pw \<inter> set AMBIGUOUS = {})"
proof -
  define cfg where "cfg = config_with_classes (rq_length req) (rq_uppercase req) (rq_lowercase req)
    (rq_numbers req) (rq_symbols req) (rq_avoid_ambiguous req)"
  note cfg = cfg_def [unfolded config_with_classes_def]
  have cmd: "cmd_generate_password draw shuf req = map_err GenError_display (generate_password draw shuf cfg)"
    by (simp add: cmd_generate_password_def cfg)
  have "charset_of cfg \<noteq> []" using assms(4) by (simp add: charset_empty_iff cfg)
  moreover have "min_total cfg \<le> pc_length cfg"
    using assms(3) class_config_min_total by (simp add: cfg_def) (simp add: config_with_classes_def)
  ultimately obtain pw where pw: "generate_password draw shuf cfg = Inr pw"
    by (simp add: generate_password_def Let_def)
  then have m: "meets_config cfg pw"
    using generate_password_meets_config [OF assms(1,2) pw] by (simp add: cfg)
  have "avoid_ambiguous cfg = rq_avoid_ambiguous req" by (simp add: cfg)
  then have "rq_avoid_ambiguous req \<longrightarrow> set pw \<inter> set AMBIGUOUS = {}"
    using m charset_unambiguous [of cfg] unfolding meets_config_def by blast
  with pw m cmd show ?thesis
    by (auto simp: meets_config_def cfg class_count_pos)
qed

theorem cmd_generate_password_ok_witness:
  "\<exists>pw. cmd_generate_password (\<lambda>n m. 0) rev \<lparr>rq_length = 5, rq_uppercase = True, rq_lowercase = False,
      rq_numbers = True, rq_symbols = False, rq_avoid_ambiguous = True\<rparr> = Inr pw
    \<and> length pw = 5 \<and> set pw \<inter> set UPPERCASE \<noteq> {} \<and> set pw \<inter> set AMBIGUOUS = {}"
  using cmd_generate_password_ok [of "\<lambda>n m. 0" rev "\<lparr>rq_length = 5, rq_uppercase = True,
    rq_lowercase = False, rq_numbers = True, rq_symbols = False, rq_avoid_ambiguous = True\<rparr>"]
  by (auto simp: draw_ok_def shuffle_ok_def)

end
