(* ===== verification/Act.thy ===== *)
theory Act
  imports Prelude
begin

text \<open>
  Request handlers as state transformers. A handler reads and writes the server state and ends with
  a value or an error; what it wrote before an error stays written, since the code runs no
  transaction around a request. \<open>Api msg\<close> is the \<open>err!\<close> macro, \<open>ApiEvent msg ev\<close> the macro with an
  event for the log, \<open>ApiJson j msg\<close> the \<open>err_json!\<close> macro, whose answer is the JSON value, and
  \<open>Panic msg\<close> an \<open>expect\<close> or \<open>unwrap\<close> that fails.
  \<open>wp\<close> is the weakest precondition of a handler; its rewrite rules (\<open>wp_simps\<close>) turn a claim about
  a whole handler into one about its guards and writes.
\<close>

named_theorems wp_simps
named_theorems stable_intros

datatype json = JNull | JBool bool | JInt int | JStr string | JArr "json list" | JObj "(string \<times> json) list"

datatype api_err = Api string | ApiEvent string int | ApiJson json string | Panic string

fun is_panic :: "api_err \<Rightarrow> bool" where
  "is_panic (Panic p) = True"
| "is_panic e = False"

text \<open>\<open>Error::message\<close>.\<close>

fun err_message :: "api_err \<Rightarrow> string" where
  "err_message (Api m) = m"
| "err_message (ApiEvent m ev) = m"
| "err_message (ApiJson j m) = m"
| "err_message (Panic m) = m"

type_synonym ('s, 'a) act = "'s \<Rightarrow> (api_err + 'a) \<times> 's"

section \<open>Combinators\<close>

definition act_ret :: "'a \<Rightarrow> ('s, 'a) act" where
  "act_ret a s = (Inr a, s)"

definition act_err :: "api_err \<Rightarrow> ('s, 'a) act" where
  "act_err e s = (Inl e, s)"

definition act_bind :: "('s, 'a) act \<Rightarrow> ('a \<Rightarrow> ('s, 'b) act) \<Rightarrow> ('s, 'b) act" where
  "act_bind m f s = (case m s of (Inl e, t) \<Rightarrow> (Inl e, t) | (Inr a, t) \<Rightarrow> f a t)"

definition act_seq :: "('s, unit) act \<Rightarrow> ('s, 'b) act \<Rightarrow> ('s, 'b) act" where
  "act_seq m k = act_bind m (\<lambda>_. k)"

text \<open>A query, an infallible write, and an infallible operation with a result.\<close>

definition act_get :: "('s \<Rightarrow> 'a) \<Rightarrow> ('s, 'a) act" where
  "act_get f s = (Inr (f s), s)"

definition act_upd :: "('s \<Rightarrow> 's) \<Rightarrow> ('s, unit) act" where
  "act_upd f s = (Inr (), f s)"

definition act_run :: "('s \<Rightarrow> 'a \<times> 's) \<Rightarrow> ('s, 'a) act" where
  "act_run f s = (let (a, t) = f s in (Inr a, t))"

text \<open>\<open>if b { err!(..) }\<close>, \<open>let Some(x) = .. else { err!(..) }\<close>, \<open>.expect(..)\<close> and \<open>if b { .. }\<close>.\<close>

definition err_if :: "bool \<Rightarrow> string \<Rightarrow> ('s, unit) act" where
  "err_if b msg = (if b then act_err (Api msg) else act_ret ())"

definition some_or :: "string \<Rightarrow> 'a option \<Rightarrow> ('s, 'a) act" where
  "some_or msg x = (case x of None \<Rightarrow> act_err (Api msg) | Some a \<Rightarrow> act_ret a)"

definition expect :: "string \<Rightarrow> 'a option \<Rightarrow> ('s, 'a) act" where
  "expect msg x = (case x of None \<Rightarrow> act_err (Panic msg) | Some a \<Rightarrow> act_ret a)"

definition act_when :: "bool \<Rightarrow> ('s, unit) act \<Rightarrow> ('s, unit) act" where
  "act_when b m = (if b then m else act_ret ())"

text \<open>A result that panics on error, \<open>.expect(..)\<close> on \<open>EmptyResult\<close>.\<close>

definition expect_ok :: "string \<Rightarrow> ('s, 'a) act \<Rightarrow> ('s, 'a) act" where
  "expect_ok msg m s = (case m s of (Inl e, t) \<Rightarrow> (Inl (Panic msg), t) | (Inr a, t) \<Rightarrow> (Inr a, t))"

text \<open>The operator \<open>?\<close> on the result of a pure function.\<close>

definition act_sum :: "api_err + 'a \<Rightarrow> ('s, 'a) act" where
  "act_sum r = (case r of Inl e \<Rightarrow> act_err e | Inr a \<Rightarrow> act_ret a)"

text \<open>A result that is dropped, \<open>.ok()\<close>.\<close>

definition act_ignore :: "('s, 'a) act \<Rightarrow> ('s, unit) act" where
  "act_ignore m s = (case m s of
     (Inl e, t) \<Rightarrow> if is_panic e then (Inl e, t) else (Inr (), t)
   | (_, t) \<Rightarrow> (Inr (), t))"

text \<open>\<open>if let Err(e) = .. { .. }\<close>: an error is handled, a panic is not.\<close>

definition act_catch :: "('s, 'a) act \<Rightarrow> (string \<Rightarrow> ('s, 'a) act) \<Rightarrow> ('s, 'a) act" where
  "act_catch m h s = (case m s of
     (Inl e, t) \<Rightarrow> if is_panic e then (Inl e, t) else h (err_message e) t
   | r \<Rightarrow> r)"

text \<open>A result that is kept and returned later, \<open>let r = ..; ..; r\<close>.\<close>

definition act_try :: "('s, 'a) act \<Rightarrow> ('s, api_err + 'a) act" where
  "act_try m s = (case m s of
     (Inl e, t) \<Rightarrow> if is_panic e then (Inl e, t) else (Inr (Inl e), t)
   | (Inr a, t) \<Rightarrow> (Inr (Inr a), t))"

text \<open>A loop that updates a local variable.\<close>

primrec act_fold :: "('x \<Rightarrow> 'y \<Rightarrow> ('s, 'y) act) \<Rightarrow> 'x list \<Rightarrow> 'y \<Rightarrow> ('s, 'y) act" where
  "act_fold f [] y = act_ret y"
| "act_fold f (x # xs) y = act_bind (f x y) (act_fold f xs)"

text \<open>The value of a result that is not used.\<close>

definition act_void :: "('s, 'a) act \<Rightarrow> ('s, unit) act" where
  "act_void m = act_bind m (\<lambda>_. act_ret ())"

text \<open>\<open>for x in xs { .. }\<close>, left early by the first error.\<close>

primrec act_for :: "'x list \<Rightarrow> ('x \<Rightarrow> ('s, unit) act) \<Rightarrow> ('s, unit) act" where
  "act_for [] f = act_ret ()"
| "act_for (x # xs) f = act_seq (f x) (act_for xs f)"

lemmas act_defs = act_ret_def act_err_def act_bind_def act_seq_def act_get_def act_upd_def
  act_run_def err_if_def some_or_def expect_def act_when_def expect_ok_def

section \<open>Weakest preconditions\<close>

definition wp :: "('s, 'a) act \<Rightarrow> ('a \<Rightarrow> 's \<Rightarrow> bool) \<Rightarrow> (api_err \<Rightarrow> 's \<Rightarrow> bool) \<Rightarrow> 's \<Rightarrow> bool" where
  "wp m Q R s = (case m s of (Inl e, t) \<Rightarrow> R e t | (Inr a, t) \<Rightarrow> Q a t)"

lemma wp_ret [wp_simps]: "wp (act_ret a) Q R s = Q a s"
  by (simp add: wp_def act_ret_def)

lemma wp_err [wp_simps]: "wp (act_err e) Q R s = R e s"
  by (simp add: wp_def act_err_def)

lemma wp_bind [wp_simps]: "wp (act_bind m f) Q R s = wp m (\<lambda>a t. wp (f a) Q R t) R s"
  by (auto simp: wp_def act_bind_def split: prod.splits sum.splits)

lemma wp_seq [wp_simps]: "wp (act_seq m k) Q R s = wp m (\<lambda>_ t. wp k Q R t) R s"
  by (simp add: act_seq_def wp_bind)

lemma wp_get [wp_simps]: "wp (act_get f) Q R s = Q (f s) s"
  by (simp add: wp_def act_get_def)

lemma wp_upd [wp_simps]: "wp (act_upd f) Q R s = Q () (f s)"
  by (simp add: wp_def act_upd_def)

lemma wp_run [wp_simps]: "wp (act_run f) Q R s = Q (fst (f s)) (snd (f s))"
  by (simp add: wp_def act_run_def split: prod.splits)

lemma wp_err_if [wp_simps]: "wp (err_if b msg) Q R s = (if b then R (Api msg) s else Q () s)"
  by (simp add: err_if_def wp_ret wp_err)

lemma wp_some_or [wp_simps]:
  "wp (some_or msg x) Q R s = (case x of None \<Rightarrow> R (Api msg) s | Some a \<Rightarrow> Q a s)"
  by (simp add: some_or_def wp_ret wp_err split: option.split)

lemma wp_expect [wp_simps]:
  "wp (expect msg x) Q R s = (case x of None \<Rightarrow> R (Panic msg) s | Some a \<Rightarrow> Q a s)"
  by (simp add: expect_def wp_ret wp_err split: option.split)

lemma wp_when [wp_simps]: "wp (act_when b m) Q R s = (if b then wp m Q R s else Q () s)"
  by (simp add: act_when_def wp_ret)

lemma wp_expect_ok [wp_simps]: "wp (expect_ok msg m) Q R s = wp m Q (\<lambda>_. R (Panic msg)) s"
  by (auto simp: wp_def expect_ok_def split: prod.splits sum.splits)

lemma wp_if [wp_simps]: "wp (if b then m else k) Q R s = (if b then wp m Q R s else wp k Q R s)"
  by simp

lemma wp_option [wp_simps]:
  "wp (case x of None \<Rightarrow> m | Some a \<Rightarrow> f a) Q R s = (case x of None \<Rightarrow> wp m Q R s | Some a \<Rightarrow> wp (f a) Q R s)"
  by (simp split: option.split)

lemma act_sum_simps [simp]: "act_sum (Inl e) = act_err e" "act_sum (Inr a) = act_ret a"
  by (simp_all add: act_sum_def)

lemma wp_sum [wp_simps]: "wp (act_sum r) Q R s = (case r of Inl e \<Rightarrow> R e s | Inr a \<Rightarrow> Q a s)"
  by (cases r) (simp_all add: wp_ret wp_err)

lemma wp_catch [wp_simps]:
  "wp (act_catch m h) Q R s =
     wp m Q (\<lambda>e t. if is_panic e then R e t else wp (h (err_message e)) Q R t) s"
  by (auto simp: wp_def act_catch_def split: prod.splits sum.splits)

lemma wp_ignore [wp_simps]:
  "wp (act_ignore m) Q R s =
     wp m (\<lambda>_. Q ()) (\<lambda>e t. if is_panic e then R e t else Q () t) s"
  by (auto simp: wp_def act_ignore_def split: prod.splits sum.splits)

lemma wp_try_result [wp_simps]:
  "wp (act_try m) Q R s = wp m (\<lambda>a. Q (Inr a)) (\<lambda>e t. if is_panic e then R e t else Q (Inl e) t) s"
  by (auto simp: wp_def act_try_def split: prod.splits sum.splits)

lemma wp_void: "wp (act_void m) (\<lambda>_. I) R s \<longleftrightarrow> wp m (\<lambda>_. I) R s"
  by (simp add: act_void_def wp_ret wp_bind)

lemma wp_for_Nil [wp_simps]: "wp (act_for [] f) Q R s = Q () s"
  by (simp add: wp_ret)

lemma wp_mono:
  assumes "wp m Q R s" "\<And>a t. Q a t \<Longrightarrow> Q' a t" "\<And>e t. R e t \<Longrightarrow> R' e t"
  shows "wp m Q' R' s"
  using assms by (auto simp: wp_def split: prod.splits sum.splits)

text \<open>Rules that go through a handler statement by statement.\<close>

lemma wp_after:
  assumes "wp m Q' R' s" "\<And>a t. Q' a t \<Longrightarrow> wp (f a) Q R t" "\<And>e t. R' e t \<Longrightarrow> R e t"
  shows "wp (act_bind m f) Q R s"
  unfolding wp_bind using assms by (rule wp_mono)

lemma wp_then:
  assumes "wp m Q' R' s" "\<And>a t. Q' a t \<Longrightarrow> wp k Q R t" "\<And>e t. R' e t \<Longrightarrow> R e t"
  shows "wp (act_seq m k) Q R s"
  unfolding wp_seq using assms by (rule wp_mono)

lemma wp_guard:
  assumes "b \<Longrightarrow> R (Api msg) s" "\<not> b \<Longrightarrow> wp k Q R s"
  shows "wp (act_seq (err_if b msg) k) Q R s"
  using assms by (simp add: wp_seq wp_err_if)

lemma wp_need:
  assumes "x = None \<Longrightarrow> R (Api msg) s" "\<And>a. x = Some a \<Longrightarrow> wp (f a) Q R s"
  shows "wp (act_bind (some_or msg x) f) Q R s"
  using assms by (simp add: wp_bind wp_some_or split: option.split)

lemma wp_try:
  assumes "\<And>e. r = Inl e \<Longrightarrow> R e s" "\<And>a. r = Inr a \<Longrightarrow> wp (f a) Q R s"
  shows "wp (act_bind (act_sum r) f) Q R s"
  using assms by (simp add: wp_bind wp_sum split: sum.split)

lemma wp_branch:
  assumes "b \<Longrightarrow> wp m Q R s" "\<not> b \<Longrightarrow> wp k Q R s"
  shows "wp (if b then m else k) Q R s"
  using assms by simp

lemma wp_only_if:
  assumes "b \<Longrightarrow> wp m Q R s" "\<not> b \<Longrightarrow> Q () s"
  shows "wp (act_when b m) Q R s"
  using assms by (simp add: wp_when)

lemma wp_unwrap:
  assumes "x = None \<Longrightarrow> R (Panic msg) s" "\<And>a. x = Some a \<Longrightarrow> wp (f a) Q R s"
  shows "wp (act_bind (expect msg x) f) Q R s"
  using assms by (simp add: wp_bind wp_expect split: option.split)

lemma wp_fail: "R e s \<Longrightarrow> wp (act_err e) Q R s"
  by (simp add: wp_err)

lemma wp_read: "wp (f (g s)) Q R s \<Longrightarrow> wp (act_bind (act_get g) f) Q R s"
  by (simp add: wp_bind wp_get)

lemma wp_for:
  assumes "I s" "\<And>x t. x \<in> set xs \<Longrightarrow> I t \<Longrightarrow> wp (f x) (\<lambda>_. I) R t"
  shows "wp (act_for xs f) (\<lambda>_. I) R s"
  using assms
proof (induction xs arbitrary: s)
  case (Cons x xs)
  have "wp (f x) (\<lambda>_. I) R s" using Cons.prems by simp
  then show ?case
    by (auto simp: wp_seq elim!: wp_mono intro!: Cons.IH Cons.prems(2))
qed (simp add: wp_ret)

text \<open>A loop whose body cannot fail is a fold of the body's effect.\<close>

lemma act_for_total:
  assumes "\<And>x t. f x t = (Inr (), g x t)"
  shows "act_for xs f s = (Inr (), fold g xs s)"
  by (induction xs arbitrary: s) (simp_all add: act_ret_def act_seq_def act_bind_def assms)

section \<open>Invariants of handlers\<close>

text \<open>A predicate that no statement of a handler breaks. The rules (\<open>stable_intros\<close>) follow the
  combinators, so that only the reads and writes of a handler remain to be checked.\<close>

definition stable :: "('s \<Rightarrow> bool) \<Rightarrow> ('s, 'a) act \<Rightarrow> bool" where
  "stable I m \<longleftrightarrow> (\<forall>s. I s \<longrightarrow> I (snd (m s)))"

lemma stable_ret [stable_intros]: "stable I (act_ret a)"
  by (simp add: stable_def act_ret_def)

lemma stable_err [stable_intros]: "stable I (act_err e)"
  by (simp add: stable_def act_err_def)

lemma stable_get [stable_intros]: "stable I (act_get f)"
  by (simp add: stable_def act_get_def)

lemma stable_upd: "(\<And>s. I s \<Longrightarrow> I (f s)) \<Longrightarrow> stable I (act_upd f)"
  by (simp add: stable_def act_upd_def)

lemma stable_run: "(\<And>s. I s \<Longrightarrow> I (snd (f s))) \<Longrightarrow> stable I (act_run f)"
  unfolding stable_def act_run_def by (fastforce split: prod.split)

lemma stable_bind [stable_intros]: "stable I m \<Longrightarrow> (\<And>a. stable I (f a)) \<Longrightarrow> stable I (act_bind m f)"
  unfolding stable_def act_bind_def by (fastforce split: prod.split sum.split)

lemma stable_seq [stable_intros]: "stable I m \<Longrightarrow> stable I k \<Longrightarrow> stable I (act_seq m k)"
  unfolding act_seq_def by (rule stable_bind)

lemma stable_err_if [stable_intros]: "stable I (err_if b msg)"
  by (simp add: err_if_def stable_ret stable_err)

lemma stable_some_or [stable_intros]: "stable I (some_or msg x)"
  by (simp add: some_or_def stable_ret stable_err split: option.split)

lemma bind_known:
  assumes "\<And>a. x = Some a \<Longrightarrow> stable I (f a)"
  shows "stable I (act_bind (some_or m x) f)"
  using assms by (cases x) (auto simp: stable_def act_defs)

lemma stable_expect [stable_intros]: "stable I (expect msg x)"
  by (simp add: expect_def stable_ret stable_err split: option.split)

lemma stable_sum [stable_intros]: "stable I (act_sum r)"
  by (cases r) (simp_all add: stable_ret stable_err)

lemma stable_when [stable_intros]: "(b \<Longrightarrow> stable I m) \<Longrightarrow> stable I (act_when b m)"
  by (simp add: act_when_def stable_ret)

lemma stable_if [stable_intros]: "(b \<Longrightarrow> stable I m) \<Longrightarrow> (\<not> b \<Longrightarrow> stable I k) \<Longrightarrow> stable I (if b then m else k)"
  by simp

lemma stable_option [stable_intros]:
  "stable I m \<Longrightarrow> (\<And>a. stable I (f a)) \<Longrightarrow> stable I (case x of None \<Rightarrow> m | Some a \<Rightarrow> f a)"
  by (cases x) simp_all

lemma stable_prod [stable_intros]: "(\<And>a b. stable I (f a b)) \<Longrightarrow> stable I (case x of (a, b) \<Rightarrow> f a b)"
  by (cases x) simp

lemma stable_catch [stable_intros]: "stable I m \<Longrightarrow> (\<And>e. stable I (h e)) \<Longrightarrow> stable I (act_catch m h)"
  unfolding stable_def act_catch_def by (fastforce split: prod.split sum.split)

lemma stable_ignore [stable_intros]: "stable I m \<Longrightarrow> stable I (act_ignore m)"
  unfolding stable_def act_ignore_def by (fastforce split: prod.split sum.split)

lemma stable_try [stable_intros]: "stable I m \<Longrightarrow> stable I (act_try m)"
  unfolding stable_def act_try_def by (fastforce split: prod.split sum.split)

lemma stable_fold [stable_intros]: "(\<And>x y. x \<in> set xs \<Longrightarrow> stable I (f x y)) \<Longrightarrow> stable I (act_fold f xs y)"
  by (induction xs arbitrary: y) (simp_all add: stable_ret stable_bind)

lemma stable_for [stable_intros]: "(\<And>x. x \<in> set xs \<Longrightarrow> stable I (f x)) \<Longrightarrow> stable I (act_for xs f)"
  by (induction xs) (simp_all add: stable_ret stable_seq)

lemma stable_void [stable_intros]: "stable I m \<Longrightarrow> stable I (act_void m)"
  unfolding act_void_def by (intro stable_bind stable_ret)

text \<open>\<open>yields P m\<close> says that every result of \<open>m\<close> satisfies \<open>P\<close>; the rest of a handler may rely on it.\<close>

definition yields :: "('a \<Rightarrow> bool) \<Rightarrow> ('s, 'a) act \<Rightarrow> bool" where
  "yields P m \<longleftrightarrow> (\<forall>s. wp m (\<lambda>a _. P a) (\<lambda>_ _. True) s)"

lemma stable_bind_yields:
  assumes "yields P m" "stable I m" "\<And>a. P a \<Longrightarrow> stable I (f a)"
  shows "stable I (act_bind m f)"
  using assms unfolding stable_def act_bind_def yields_def wp_def by (fastforce split: prod.split sum.split prod.splits sum.splits)

text \<open>A part of a handler that keeps a predicate, inside a proof about the whole.\<close>

lemma wp_stable:
  assumes "stable I m" "I s" "\<And>a t. I t \<Longrightarrow> Q a t" "\<And>e t. I t \<Longrightarrow> R e t"
  shows "wp m Q R s"
proof -
  have "I (snd (m s))" using assms(1,2) by (simp add: stable_def)
  then show ?thesis using assms(3,4) by (auto simp: wp_def split: prod.split sum.split)
qed

section \<open>Outcomes\<close>

text \<open>Both postconditions at once: an invariant that holds after a handler whatever it answers.\<close>

definition keeps :: "('s \<Rightarrow> 's \<Rightarrow> bool) \<Rightarrow> ('s, 'a) act \<Rightarrow> 's \<Rightarrow> bool" where
  "keeps I m s = wp m (\<lambda>_. I s) (\<lambda>_. I s) s"

lemma keeps_iff: "keeps I m s \<longleftrightarrow> I s (snd (m s))"
  by (auto simp: keeps_def wp_def split: prod.splits sum.splits)

lemma wp_snd: "wp m (\<lambda>_. P) (\<lambda>_. P) s \<longleftrightarrow> P (snd (m s))"
  by (auto simp: wp_def split: prod.splits sum.splits)

lemma wp_Inr: "wp m Q R s \<Longrightarrow> m s = (Inr a, t) \<Longrightarrow> Q a t"
  by (simp add: wp_def)

lemma wp_Inl: "wp m Q R s \<Longrightarrow> m s = (Inl e, t) \<Longrightarrow> R e t"
  by (simp add: wp_def)

end
