(* ===== verification/SqlTable.thy ===== *)
theory SqlTable
  imports Prelude
begin

text \<open>
  The relational tables behind the server's models. A table is the list of its rows in an
  arbitrary order; the statements the code builds with the query library are the functions below.
  \<open>keyed_rows\<close> and \<open>row_store\<close> are the contract between a table's save and delete operations and
  the code that looks rows up by primary key; every model that is read back by its key interprets
  one of them.
\<close>

section \<open>Statements\<close>

text \<open>\<open>table.filter(P).first(conn).ok()\<close>\<close>

definition tbl_first :: "('r \<Rightarrow> bool) \<Rightarrow> 'r list \<Rightarrow> 'r option" where
  "tbl_first P t = List.find P t"

text \<open>\<open>table.filter(P).load(conn)\<close>\<close>

definition tbl_select :: "('r \<Rightarrow> bool) \<Rightarrow> 'r list \<Rightarrow> 'r list" where
  "tbl_select P t = filter P t"

text \<open>\<open>diesel::delete(table.filter(P))\<close>\<close>

definition tbl_delete :: "('r \<Rightarrow> bool) \<Rightarrow> 'r list \<Rightarrow> 'r list" where
  "tbl_delete P t = filter (\<lambda>r. \<not> P r) t"

text \<open>\<open>diesel::update(table.filter(P)).set(f)\<close>\<close>

definition tbl_update :: "('r \<Rightarrow> bool) \<Rightarrow> ('r \<Rightarrow> 'r) \<Rightarrow> 'r list \<Rightarrow> 'r list" where
  "tbl_update P f t = map (\<lambda>r. if P r then f r else r) t"

text \<open>
  \<open>replace_into\<close> and \<open>insert_into ... on_conflict(key).do_update()\<close>: the row with the same key is
  replaced, otherwise the row is added.
\<close>

definition tbl_upsert :: "('r \<Rightarrow> 'k) \<Rightarrow> 'r \<Rightarrow> 'r list \<Rightarrow> 'r list" where
  "tbl_upsert key r t =
     (if \<exists>x\<in>set t. key x = key r then map (\<lambda>x. if key x = key r then r else x) t else t @ [r])"

definition keyed :: "('r \<Rightarrow> 'k) \<Rightarrow> 'r list \<Rightarrow> bool" where
  "keyed key t \<longleftrightarrow> distinct (map key t)"

text \<open>
  An inner join is a list comprehension over the two tables. A left join continues with the rows
  that meet the condition, or with \<open>None\<close> (all columns NULL) when there is none; a comparison with a
  NULL column is not true, which \<open>opt_is\<close> says.
\<close>

definition left_join :: "('r \<Rightarrow> bool) \<Rightarrow> 'r list \<Rightarrow> 'r option list" where
  "left_join P t = (case filter P t of [] \<Rightarrow> [None] | rs \<Rightarrow> map Some rs)"

definition opt_is :: "'r option \<Rightarrow> ('r \<Rightarrow> bool) \<Rightarrow> bool" where
  "opt_is x P = (case x of None \<Rightarrow> False | Some r \<Rightarrow> P r)"

section \<open>Laws\<close>

lemma opt_is_simps [simp]: "\<not> opt_is None P" "opt_is (Some r) P = P r"
  by (simp_all add: opt_is_def)

lemma opt_is_iff: "opt_is x P \<longleftrightarrow> (\<exists>r. x = Some r \<and> P r)"
  by (cases x) simp_all

lemma left_join_Some [simp]: "Some r \<in> set (left_join P t) \<longleftrightarrow> r \<in> set t \<and> P r"
proof -
  have "Some r \<in> set (left_join P t) \<longleftrightarrow> r \<in> set (filter P t)"
    unfolding left_join_def by (cases "filter P t") (auto simp del: set_filter)
  then show ?thesis by auto
qed

lemma left_join_ex: "(\<exists>x \<in> set (left_join P t). opt_is x Q) \<longleftrightarrow> (\<exists>r \<in> set t. P r \<and> Q r)"
  by (fastforce simp: opt_is_iff)

lemma left_join_drop: "(\<exists>x \<in> set (left_join P t). Q) \<longleftrightarrow> Q"
  by (cases "filter P t") (auto simp: left_join_def)

lemma left_join_not_None: "(\<exists>x \<in> set (left_join P t). x \<noteq> None) \<longleftrightarrow> (\<exists>r \<in> set t. P r)"
  using left_join_ex [of P t "\<lambda>_. True"] by (simp add: opt_is_iff)

text \<open>Membership in a list comprehension.\<close>

lemma in_bind: "x \<in> set (concat (map f xs)) \<longleftrightarrow> (\<exists>y \<in> set xs. x \<in> set (f y))"
  by auto

lemma in_guard: "x \<in> set (if b then xs else []) \<longleftrightarrow> b \<and> x \<in> set xs"
  by simp

lemma in_one: "x \<in> set [y] \<longleftrightarrow> x = y"
  by simp

lemmas in_comp = in_bind in_guard in_one

lemma left_join_total: "\<exists>x. x \<in> set (left_join P t)"
  by (cases "filter P t") (auto simp: left_join_def)

lemma tbl_first_Some: "tbl_first P t = Some r \<Longrightarrow> r \<in> set t \<and> P r"
  unfolding tbl_first_def by (auto simp: find_Some_iff)

lemma tbl_first_None: "tbl_first P t = None \<longleftrightarrow> (\<forall>r\<in>set t. \<not> P r)"
  unfolding tbl_first_def by (auto simp: find_None_iff)

lemma set_tbl_select [simp]: "set (tbl_select P t) = {r \<in> set t. P r}"
  by (auto simp: tbl_select_def)

lemma set_tbl_delete [simp]: "set (tbl_delete P t) = {r \<in> set t. \<not> P r}"
  by (auto simp: tbl_delete_def)

lemma set_tbl_upsert: "set (tbl_upsert key r t) = insert r {x \<in> set t. key x \<noteq> key r}"
  by (auto simp: tbl_upsert_def)

lemma set_tbl_update: "set (tbl_update P f t) = {r \<in> set t. \<not> P r} \<union> f ` {r \<in> set t. P r}"
  by (auto simp: tbl_update_def)

lemma tbl_delete_delete: "tbl_delete P (tbl_delete Q t) = tbl_delete (\<lambda>r. P r \<or> Q r) t"
  by (auto simp: tbl_delete_def intro: filter_cong)

lemma tbl_delete_cong: "(\<And>r. P r = Q r) \<Longrightarrow> tbl_delete P t = tbl_delete Q t"
  by (simp add: tbl_delete_def)

lemma keyed_delete [intro]: "keyed key t \<Longrightarrow> keyed key (tbl_delete P t)"
  by (auto simp: keyed_def tbl_delete_def distinct_map_filter)

lemma keyed_update [intro]:
  assumes "keyed key t" "\<And>r. P r \<Longrightarrow> key (f r) = key r"
  shows "keyed key (tbl_update P f t)"
proof -
  have "map key (tbl_update P f t) = map key t" using assms(2) by (auto simp: tbl_update_def)
  then show ?thesis using assms(1) by (simp add: keyed_def)
qed

lemma keyed_upsert [intro]:
  assumes "keyed key t"
  shows "keyed key (tbl_upsert key r t)"
proof (cases "\<exists>x\<in>set t. key x = key r")
  case True
  have "map key (map (\<lambda>x. if key x = key r then r else x) t) = map key t" by auto
  with True assms show ?thesis by (simp only: keyed_def tbl_upsert_def if_True)
qed (use assms in \<open>auto simp: keyed_def tbl_upsert_def\<close>)

lemma keyed_unique:
  "keyed key t \<Longrightarrow> x \<in> set t \<Longrightarrow> y \<in> set t \<Longrightarrow> key x = key y \<Longrightarrow> x = y"
  by (auto simp: keyed_def distinct_map dest: inj_onD)

lemma tbl_first_keyed:
  assumes "keyed key t" "r \<in> set t"
  shows "tbl_first (\<lambda>x. key x = key r) t = Some r"
proof (cases "tbl_first (\<lambda>x. key x = key r) t")
  case None then show ?thesis using assms(2) by (auto simp: tbl_first_None)
next
  case (Some x)
  then have "x \<in> set t" "key x = key r" by (auto dest: tbl_first_Some)
  with assms Some show ?thesis by (auto dest: keyed_unique)
qed

text \<open>A selective lookup finds the row of a keyed table exactly when that row satisfies the rest
  of the condition.\<close>

lemma tbl_first_key_and:
  assumes "keyed key t"
  shows "tbl_first (\<lambda>x. key x = k \<and> Q x) t = Some r \<longleftrightarrow> r \<in> set t \<and> key r = k \<and> Q r"
proof
  assume "tbl_first (\<lambda>x. key x = k \<and> Q x) t = Some r"
  then show "r \<in> set t \<and> key r = k \<and> Q r" by (auto dest: tbl_first_Some)
next
  assume r: "r \<in> set t \<and> key r = k \<and> Q r"
  then obtain x where x: "tbl_first (\<lambda>x. key x = k \<and> Q x) t = Some x"
    by (cases "tbl_first (\<lambda>x. key x = k \<and> Q x) t") (auto simp: tbl_first_None)
  then have "x = r" using r assms by (auto dest!: tbl_first_Some dest: keyed_unique)
  with x show "tbl_first (\<lambda>x. key x = k \<and> Q x) t = Some r" by simp
qed

lemma tbl_first_key:
  assumes "keyed key t"
  shows "tbl_first (\<lambda>x. key x = k) t = Some r \<longleftrightarrow> r \<in> set t \<and> key r = k"
  using tbl_first_key_and [OF assms, of k "\<lambda>_. True"] by simp

lemma option_eqI: "(\<And>r. a = Some r \<longleftrightarrow> b = Some r) \<Longrightarrow> a = b"
  by (cases a; cases b) auto

lemma tbl_first_append:
  "tbl_first P (t @ u) = (case tbl_first P t of None \<Rightarrow> tbl_first P u | Some r \<Rightarrow> Some r)"
  by (induction t) (simp_all add: tbl_first_def)

lemma tbl_first_upsert:
  assumes "keyed key t"
  shows "tbl_first (\<lambda>x. key x = k) (tbl_upsert key r t) =
    (if k = key r then Some r else tbl_first (\<lambda>x. key x = k) t)"
  by (rule option_eqI)
    (auto simp: tbl_first_key assms keyed_upsert [OF assms] set_tbl_upsert)

lemma tbl_first_delete:
  assumes "keyed key t"
  shows "tbl_first (\<lambda>x. key x = k) (tbl_delete P t) =
    (case tbl_first (\<lambda>x. key x = k) t of None \<Rightarrow> None | Some r \<Rightarrow> if P r then None else Some r)"
proof (rule option_eqI)
  fix r
  show "(tbl_first (\<lambda>x. key x = k) (tbl_delete P t) = Some r) \<longleftrightarrow>
    (case tbl_first (\<lambda>x. key x = k) t of None \<Rightarrow> None | Some r \<Rightarrow> if P r then None else Some r) = Some r"
    using keyed_delete [OF assms, of P]
    by (auto simp: tbl_first_key assms tbl_first_None dest: keyed_unique [OF assms] split: option.split)
qed

lemma tbl_first_update:
  assumes "\<And>r. P r \<Longrightarrow> key (f r) = key r"
  shows "tbl_first (\<lambda>x. key x = k) (tbl_update P f t) =
    map_option (\<lambda>r. if P r then f r else r) (tbl_first (\<lambda>x. key x = k) t)"
  using assms by (induction t) (auto simp: tbl_first_def tbl_update_def)

text \<open>\<open>order(key.desc())\<close> and \<open>order(key.asc())\<close>: stable sorting by an integer column.\<close>

definition tbl_order_desc :: "('r \<Rightarrow> int) \<Rightarrow> 'r list \<Rightarrow> 'r list" where
  "tbl_order_desc key t = sort_key (\<lambda>r. - key r) t"

definition tbl_order_asc :: "('r \<Rightarrow> int) \<Rightarrow> 'r list \<Rightarrow> 'r list" where
  "tbl_order_asc key t = sort_key key t"

lemma set_tbl_order [simp]: "set (tbl_order_desc k t) = set t" "set (tbl_order_asc k t) = set t"
  by (simp_all add: tbl_order_desc_def tbl_order_asc_def)

section \<open>The contract of a keyed table\<close>

text \<open>Deleting by key what a query selected deletes what the query says.\<close>

lemma tbl_delete_selected:
  assumes "keyed key t"
  shows "tbl_delete (\<lambda>r. key r \<in> key ` set (tbl_select P t)) t = filter (\<lambda>r. \<not> P r) t"
  unfolding tbl_delete_def
proof (rule filter_cong [OF refl])
  fix r
  assume "r \<in> set t"
  moreover have "inj_on key (set t)" using assms by (simp add: keyed_def distinct_map)
  ultimately have "key r \<in> key ` set (tbl_select P t) \<longleftrightarrow> r \<in> set (tbl_select P t)"
    by (intro inj_on_image_mem_iff) auto
  then show "(key r \<notin> key ` set (tbl_select P t)) = (\<not> P r)" using \<open>r \<in> set t\<close> by simp
qed

text \<open>\<open>keyed_rows\<close> is a table with a save operation that may stamp the row (a modification date);
  \<open>row_store\<close> adds deletion by key.\<close>

locale keyed_rows =
  fixes rows :: "'s \<Rightarrow> 'r list"
    and key :: "'r \<Rightarrow> 'k"
    and stamp :: "'e \<Rightarrow> 's \<Rightarrow> 'r \<Rightarrow> 'r"
    and put :: "'e \<Rightarrow> 'r \<Rightarrow> 's \<Rightarrow> 's"
  assumes key_stamp: "key (stamp e s r) = key r"
    and rows_put: "rows (put e r s) = tbl_upsert key (stamp e s r) (rows s)"
begin

definition find :: "'k \<Rightarrow> 's \<Rightarrow> 'r option" where
  "find k s = tbl_first (\<lambda>x. key x = k) (rows s)"

lemma keyed_put: "keyed key (rows s) \<Longrightarrow> keyed key (rows (put e r s))"
  by (auto simp: rows_put)

lemma find_put:
  assumes "keyed key (rows s)"
  shows "find k (put e r s) = (if k = key r then Some (stamp e s r) else find k s)"
  by (simp add: find_def rows_put tbl_first_upsert assms key_stamp)

lemma set_put: "set (rows (put e r s)) = insert (stamp e s r) {x \<in> set (rows s). key x \<noteq> key r}"
  by (simp add: rows_put set_tbl_upsert key_stamp)

lemma find_row: "keyed key (rows s) \<Longrightarrow> find k s = Some r \<longleftrightarrow> r \<in> set (rows s) \<and> key r = k"
  by (simp add: find_def tbl_first_key)

end

locale row_store = keyed_rows rows key stamp put
  for rows :: "'s \<Rightarrow> 'r list" and key :: "'r \<Rightarrow> 'k" and stamp :: "'e \<Rightarrow> 's \<Rightarrow> 'r \<Rightarrow> 'r"
    and put :: "'e \<Rightarrow> 'r \<Rightarrow> 's \<Rightarrow> 's" +
  fixes del :: "'e \<Rightarrow> 'r \<Rightarrow> 's \<Rightarrow> 's"
  assumes rows_del: "rows (del e r s) = tbl_delete (\<lambda>x. key x = key r) (rows s)"
begin

lemma keyed_del: "keyed key (rows s) \<Longrightarrow> keyed key (rows (del e r s))"
  by (auto simp: rows_del)

lemma find_del:
  assumes "keyed key (rows s)"
  shows "find k (del e r s) = (if k = key r then None else find k s)"
  by (rule option_eqI) (auto simp: find_def rows_del tbl_first_key assms keyed_delete [OF assms])

text \<open>Deleting the rows of a list one after the other removes exactly the rows with their keys.\<close>

lemma del_all:
  "rows (fold (del e) xs s) = tbl_delete (\<lambda>x. key x \<in> key ` set xs) (rows s)"
proof (induction xs arbitrary: s)
  case (Cons x xs)
  have "rows (fold (del e) (x # xs) s) = tbl_delete (\<lambda>y. key y \<in> key ` set xs \<or> key y = key x) (rows s)"
    by (simp add: Cons.IH rows_del tbl_delete_delete)
  also have "\<dots> = tbl_delete (\<lambda>y. key y \<in> key ` set (x # xs)) (rows s)"
    by (rule tbl_delete_cong) auto
  finally show ?case .
qed (simp add: tbl_delete_def)

end

end
