(* ===== verification/Schema.thy ===== *)
theory Schema
  imports Act SqlTable
begin

text \<open>
  The server's data: the rows of the tables of \<open>server/src/db/schema.rs\<close> that the
  models use, the server state and the environment.

  \<open>server\<close> holds the tables, the mails handed to the SMTP transport and \<open>tick\<close>, the number of
  external reads (clock, random values, SMTP answers) so far; \<open>env\<close> answers the n-th of them and
  carries the configuration and the third-party functions (Unicode case mapping, e-mail and URL
  parsers, PBKDF2, JWT verification, base32). A time is a number of nanoseconds since the epoch, an
  \<open>i32\<close> or \<open>i64\<close> column an integer, a string its UTF-8 bytes.

  The database executes every statement: lost connections and constraint violations are outside the
  model, except the uniqueness of a user's e-mail and the references to a deleted user or
  organization.
\<close>

section \<open>JSON\<close>

definition json_opt :: "string option \<Rightarrow> json" where
  "json_opt x = (case x of None \<Rightarrow> JNull | Some v \<Rightarrow> JStr v)"

definition json_opt_int :: "int option \<Rightarrow> json" where
  "json_opt_int x = (case x of None \<Rightarrow> JNull | Some v \<Rightarrow> JInt v)"

datatype NumberOrString = Number int | String string

definition int_to_string :: "int \<Rightarrow> string" where
  "int_to_string n = (if n < 0 then CHR ''-'' # nat_to_dec (nat (- n)) else nat_to_dec (nat n))"

fun NumberOrString_into_string :: "NumberOrString \<Rightarrow> string" where
  "NumberOrString_into_string (Number n) = int_to_string n"
| "NumberOrString_into_string (String s) = s"

section \<open>Rows\<close>

type_synonym UserId = string
type_synonym DeviceId = string
type_synonym OrganizationId = string
type_synonym MembershipId = string
type_synonym CollectionId = string
type_synonym CipherId = string
type_synonym FolderId = string
type_synonym GroupId = string
type_synonym AttachmentId = string
type_synonym EmergencyAccessId = string
type_synonym SendId = string
type_synonym SendFileId = string
type_synonym AuthRequestId = string
type_synonym OrgApiKeyId = string
type_synonym time = int

text \<open>The column \<open>stamp_exception\<close> holds the JSON text of this structure; the model keeps the
  structure itself.\<close>

record UserStampException =
  se_routes :: "string list"
  se_security_stamp :: string
  se_expire :: int

record User =
  u_uuid :: UserId
  u_enabled :: bool
  u_created_at :: time
  u_updated_at :: time
  u_verified_at :: "time option"
  u_last_verifying_at :: "time option"
  u_login_verify_count :: int
  u_email :: string
  u_email_new :: "string option"
  u_email_new_token :: "string option"
  u_name :: string
  u_password_hash :: bytes
  u_salt :: bytes
  u_password_iterations :: int
  u_password_hint :: "string option"
  u_akey :: string
  u_private_key :: "string option"
  u_public_key :: "string option"
  u_totp_secret :: "string option"
  u_totp_recover :: "string option"
  u_security_stamp :: string
  u_stamp_exception :: "UserStampException option"
  u_equivalent_domains :: string
  u_excluded_globals :: string
  u_client_kdf_type :: int
  u_client_kdf_iter :: int
  u_client_kdf_memory :: "int option"
  u_client_kdf_parallelism :: "int option"
  u_api_key :: "string option"
  u_avatar_color :: "string option"
  u_external_id :: "string option"

record Device =
  d_uuid :: DeviceId
  d_created_at :: time
  d_updated_at :: time
  d_user_uuid :: UserId
  d_name :: string
  d_atype :: int
  d_push_uuid :: "string option"
  d_push_token :: "string option"
  d_refresh_token :: string
  d_twofactor_remember :: "string option"

record TwoFactor =
  tf_uuid :: string
  tf_user_uuid :: UserId
  tf_atype :: int
  tf_enabled :: bool
  tf_data :: string
  tf_last_used :: int

record TwoFactorIncomplete =
  ti_user_uuid :: UserId
  ti_device_uuid :: DeviceId
  ti_device_name :: string
  ti_device_type :: int
  ti_login_time :: time
  ti_ip_address :: string

record Membership =
  m_uuid :: MembershipId
  m_user_uuid :: UserId
  m_org_uuid :: OrganizationId
  m_invited_by_email :: "string option"
  m_access_all :: bool
  m_akey :: string
  m_status :: int
  m_atype :: int
  m_reset_password_key :: "string option"
  m_external_id :: "string option"

record Collection =
  c_uuid :: CollectionId
  c_org_uuid :: OrganizationId
  c_name :: string
  c_external_id :: "string option"

record CollectionUser =
  cu_user_uuid :: UserId
  cu_collection_uuid :: CollectionId
  cu_read_only :: bool
  cu_hide_passwords :: bool
  cu_manage :: bool

record CollectionCipher =
  cc_cipher_uuid :: CipherId
  cc_collection_uuid :: CollectionId

record Group =
  g_uuid :: GroupId
  g_organizations_uuid :: OrganizationId
  g_name :: string
  g_access_all :: bool
  g_external_id :: "string option"
  g_creation_date :: time
  g_revision_date :: time

record CollectionGroup =
  cg_collections_uuid :: CollectionId
  cg_groups_uuid :: GroupId
  cg_read_only :: bool
  cg_hide_passwords :: bool
  cg_manage :: bool

record GroupUser =
  gu_groups_uuid :: GroupId
  gu_users_organizations_uuid :: MembershipId

record Cipher =
  ci_uuid :: CipherId
  ci_created_at :: time
  ci_updated_at :: time
  ci_user_uuid :: "UserId option"
  ci_organization_uuid :: "OrganizationId option"
  ci_key :: "string option"
  ci_atype :: int
  ci_name :: string
  ci_notes :: "string option"
  ci_fields :: "string option"
  ci_data :: string
  ci_password_history :: "string option"
  ci_deleted_at :: "time option"
  ci_reprompt :: "int option"

record Folder =
  f_uuid :: FolderId
  f_created_at :: time
  f_updated_at :: time
  f_user_uuid :: UserId
  f_name :: string

record FolderCipher =
  fc_cipher_uuid :: CipherId
  fc_folder_uuid :: FolderId

record Favorite =
  fav_user_uuid :: UserId
  fav_cipher_uuid :: CipherId

record Archive =
  ar_user_uuid :: UserId
  ar_cipher_uuid :: CipherId
  ar_archived_at :: time

record Attachment =
  at_id :: AttachmentId
  at_cipher_uuid :: CipherId
  at_file_name :: string
  at_file_size :: int
  at_akey :: "string option"

record OrgPolicy =
  op_uuid :: string
  op_org_uuid :: OrganizationId
  op_atype :: int
  op_enabled :: bool
  op_data :: string

record Organization =
  o_uuid :: OrganizationId
  o_name :: string
  o_billing_email :: string
  o_private_key :: "string option"
  o_public_key :: "string option"

record Event =
  ev_uuid :: string
  ev_event_type :: int
  ev_user_uuid :: "UserId option"
  ev_org_uuid :: "OrganizationId option"
  ev_cipher_uuid :: "string option"
  ev_collection_uuid :: "CollectionId option"
  ev_group_uuid :: "string option"
  ev_org_user_uuid :: "MembershipId option"
  ev_act_user_uuid :: "UserId option"
  ev_device_type :: "int option"
  ev_ip_address :: "string option"
  ev_event_date :: time
  ev_policy_uuid :: "string option"
  ev_provider_uuid :: "string option"
  ev_provider_user_uuid :: "string option"
  ev_provider_org_uuid :: "string option"

record OrganizationApiKey =
  ok_uuid :: OrgApiKeyId
  ok_org_uuid :: OrganizationId
  ok_atype :: int
  ok_api_key :: string
  ok_revision_date :: time

record AuthRequest =
  aq_uuid :: AuthRequestId
  aq_user_uuid :: UserId
  aq_organization_uuid :: "OrganizationId option"
  aq_request_device_identifier :: DeviceId
  aq_device_type :: int
  aq_request_ip :: string
  aq_response_device_id :: "DeviceId option"
  aq_access_code :: string
  aq_public_key :: string
  aq_enc_key :: "string option"
  aq_master_password_hash :: "string option"
  aq_approved :: "bool option"
  aq_creation_date :: time
  aq_response_date :: "time option"
  aq_authentication_date :: "time option"

record Send =
  sd_uuid :: SendId
  sd_user_uuid :: "UserId option"
  sd_organization_uuid :: "OrganizationId option"
  sd_name :: string
  sd_notes :: "string option"
  sd_atype :: int
  sd_data :: string
  sd_akey :: string
  sd_password_hash :: "bytes option"
  sd_password_salt :: "bytes option"
  sd_password_iter :: "int option"
  sd_max_access_count :: "int option"
  sd_access_count :: int
  sd_creation_date :: time
  sd_revision_date :: time
  sd_expiration_date :: "time option"
  sd_deletion_date :: time
  sd_disabled :: bool
  sd_hide_email :: "bool option"

record EmergencyAccess =
  ea_uuid :: EmergencyAccessId
  ea_grantor_uuid :: UserId
  ea_grantee_uuid :: "UserId option"
  ea_email :: "string option"
  ea_key_encrypted :: "string option"
  ea_atype :: int
  ea_status :: int
  ea_wait_time_days :: int
  ea_recovery_initiated_at :: "time option"
  ea_last_notification_at :: "time option"
  ea_updated_at :: time
  ea_created_at :: time

section \<open>Mails and tokens\<close>

record EmergencyAccessInviteJwtClaims =
  ec_nbf :: int
  ec_exp :: int
  ec_iss :: string
  ec_sub :: UserId
  ec_email :: string
  ec_emer_id :: EmergencyAccessId
  ec_grantor_name :: string
  ec_grantor_email :: string

record InviteJwtClaims =
  ic_nbf :: int
  ic_exp :: int
  ic_iss :: string
  ic_sub :: UserId
  ic_email :: string
  ic_org_id :: OrganizationId
  ic_member_id :: MembershipId
  ic_invited_by_email :: "string option"

record LoginJwtClaims =
  lc_nbf :: int
  lc_exp :: int
  lc_iss :: string
  lc_sub :: UserId
  lc_premium :: bool
  lc_name :: string
  lc_email :: string
  lc_email_verified :: bool
  lc_sstamp :: string
  lc_device :: DeviceId
  lc_devicetype :: string
  lc_client_id :: string
  lc_scope :: "string list"
  lc_amr :: "string list"

datatype AuthMethod = OrgApiKey | Password | Sso | UserApiKey

datatype TokenWrapper = TokenAccess string | TokenRefresh string

record RefreshJwtClaims =
  rc_nbf :: int
  rc_exp :: int
  rc_iss :: string
  rc_sub :: AuthMethod
  rc_device_token :: string
  rc_token :: "TokenWrapper option"

record BasicJwtClaims =
  bj_nbf :: int
  bj_exp :: int
  bj_iss :: string
  bj_sub :: string

record RegisterVerifyClaims =
  rv_nbf :: int
  rv_exp :: int
  rv_iss :: string
  rv_sub :: string
  rv_name :: "string option"
  rv_verified :: bool

record OrgApiKeyLoginJwtClaims =
  ol_nbf :: int
  ol_exp :: int
  ol_iss :: string
  ol_sub :: OrgApiKeyId
  ol_client_id :: string
  ol_client_sub :: OrganizationId
  ol_scope :: "string list"

record TwoFactorRememberClaims =
  tr_nbf :: int
  tr_exp :: int
  tr_iss :: string
  tr_sub :: DeviceId
  tr_user_uuid :: UserId

text \<open>The templates of \<open>mail.rs\<close> that the modelled handlers send, each with its address first.\<close>

datatype mail =
    EmergencyInvite string EmergencyAccessInviteJwtClaims
  | EmergencyInviteAccepted string string
  | EmergencyInviteConfirmed string string
  | EmergencyRecoveryApproved string string
  | EmergencyRecoveryInitiated string string string int
  | EmergencyRecoveryReminder string string string string
  | EmergencyRecoveryRejected string string
  | EmergencyRecoveryTimedOut string string string
  | TwoFactorRemovedFromOrg string string
  | Incomplete2faLogin string string time string string
  | OrgInvite string InviteJwtClaims string
  | OrgInviteAccepted string string string
  | OrgInviteConfirmed string string
  | SingleOrgRemovedFromOrg string string
  | ProtectedActionToken string string
  | TwoFactorToken string string
  | Welcome string
  | WelcomeMustVerify string BasicJwtClaims
  | VerifyEmailMail string BasicJwtClaims
  | RegisterVerifyEmail string RegisterVerifyClaims
  | DeleteAccountMail string BasicJwtClaims
  | PasswordHint string "string option"
  | ChangeEmailMail string string
  | ChangeEmailExisting string string
  | ChangeEmailInvited string string
  | NewDeviceLoggedIn string string time string string

section \<open>Event types\<close>

datatype EventType =
    UserLoggedIn | UserChangedPassword | UserUpdated2fa | UserDisabled2fa | UserRecovered2fa | UserFailedLogIn
  | UserFailedLogIn2fa | UserClientExportedVault | UserRequestedDeviceApproval
  | CipherCreated | CipherUpdated | CipherDeleted | CipherAttachmentCreated | CipherAttachmentDeleted | CipherShared
  | CipherUpdatedCollections | CipherClientViewed | CipherClientToggledPasswordVisible
  | CipherClientToggledHiddenFieldVisible | CipherClientToggledCardCodeVisible | CipherClientCopiedPassword
  | CipherClientCopiedHiddenField | CipherClientCopiedCardCode | CipherClientAutofilled | CipherSoftDeleted
  | CipherRestored | CipherClientToggledCardNumberVisible
  | CollectionCreated | CollectionUpdated | CollectionDeleted
  | GroupCreated | GroupUpdated | GroupDeleted
  | OrganizationUserInvited | OrganizationUserConfirmed | OrganizationUserUpdated | OrganizationUserRemoved
  | OrganizationUserUpdatedGroups | OrganizationUserUnlinkedSso | OrganizationUserResetPasswordEnroll
  | OrganizationUserResetPasswordWithdraw | OrganizationUserAdminResetPassword | OrganizationUserRevoked
  | OrganizationUserRestored | OrganizationUserApprovedAuthRequest | OrganizationUserRejectedAuthRequest
  | OrganizationUserDeleted | OrganizationUserLeft
  | OrganizationUpdated | OrganizationPurgedVault | OrganizationClientExportedVault
  | PolicyUpdated

fun EventType_i32 :: "EventType \<Rightarrow> int" where
  "EventType_i32 UserLoggedIn = 1000"
| "EventType_i32 UserChangedPassword = 1001"
| "EventType_i32 UserUpdated2fa = 1002"
| "EventType_i32 UserDisabled2fa = 1003"
| "EventType_i32 UserRecovered2fa = 1004"
| "EventType_i32 UserFailedLogIn = 1005"
| "EventType_i32 UserFailedLogIn2fa = 1006"
| "EventType_i32 UserClientExportedVault = 1007"
| "EventType_i32 UserRequestedDeviceApproval = 1010"
| "EventType_i32 CipherCreated = 1100"
| "EventType_i32 CipherUpdated = 1101"
| "EventType_i32 CipherDeleted = 1102"
| "EventType_i32 CipherAttachmentCreated = 1103"
| "EventType_i32 CipherAttachmentDeleted = 1104"
| "EventType_i32 CipherShared = 1105"
| "EventType_i32 CipherUpdatedCollections = 1106"
| "EventType_i32 CipherClientViewed = 1107"
| "EventType_i32 CipherClientToggledPasswordVisible = 1108"
| "EventType_i32 CipherClientToggledHiddenFieldVisible = 1109"
| "EventType_i32 CipherClientToggledCardCodeVisible = 1110"
| "EventType_i32 CipherClientCopiedPassword = 1111"
| "EventType_i32 CipherClientCopiedHiddenField = 1112"
| "EventType_i32 CipherClientCopiedCardCode = 1113"
| "EventType_i32 CipherClientAutofilled = 1114"
| "EventType_i32 CipherSoftDeleted = 1115"
| "EventType_i32 CipherRestored = 1116"
| "EventType_i32 CipherClientToggledCardNumberVisible = 1117"
| "EventType_i32 CollectionCreated = 1300"
| "EventType_i32 CollectionUpdated = 1301"
| "EventType_i32 CollectionDeleted = 1302"
| "EventType_i32 GroupCreated = 1400"
| "EventType_i32 GroupUpdated = 1401"
| "EventType_i32 GroupDeleted = 1402"
| "EventType_i32 OrganizationUserInvited = 1500"
| "EventType_i32 OrganizationUserConfirmed = 1501"
| "EventType_i32 OrganizationUserUpdated = 1502"
| "EventType_i32 OrganizationUserRemoved = 1503"
| "EventType_i32 OrganizationUserUpdatedGroups = 1504"
| "EventType_i32 OrganizationUserUnlinkedSso = 1505"
| "EventType_i32 OrganizationUserResetPasswordEnroll = 1506"
| "EventType_i32 OrganizationUserResetPasswordWithdraw = 1507"
| "EventType_i32 OrganizationUserAdminResetPassword = 1508"
| "EventType_i32 OrganizationUserRevoked = 1511"
| "EventType_i32 OrganizationUserRestored = 1512"
| "EventType_i32 OrganizationUserApprovedAuthRequest = 1513"
| "EventType_i32 OrganizationUserRejectedAuthRequest = 1514"
| "EventType_i32 OrganizationUserDeleted = 1515"
| "EventType_i32 OrganizationUserLeft = 1516"
| "EventType_i32 OrganizationUpdated = 1600"
| "EventType_i32 OrganizationPurgedVault = 1601"
| "EventType_i32 OrganizationClientExportedVault = 1602"
| "EventType_i32 PolicyUpdated = 1700"

section \<open>State and environment\<close>

record server =
  users :: "User list"
  invitations :: "string list"
  devices :: "Device list"
  twofactors :: "TwoFactor list"
  twofactor_incompletes :: "TwoFactorIncomplete list"
  organizations :: "Organization list"
  users_organizations :: "Membership list"
  collections :: "Collection list"
  users_collections :: "CollectionUser list"
  ciphers_collections :: "CollectionCipher list"
  groups :: "Group list"
  groups_users :: "GroupUser list"
  collections_groups :: "CollectionGroup list"
  ciphers :: "Cipher list"
  folders :: "Folder list"
  folders_ciphers :: "FolderCipher list"
  favorites :: "Favorite list"
  archives :: "Archive list"
  attachments :: "Attachment list"
  org_policies :: "OrgPolicy list"
  events :: "Event list"
  emergency_accesses :: "EmergencyAccess list"
  organization_api_keys :: "OrganizationApiKey list"
  auth_requests :: "AuthRequest list"
  sends :: "Send list"
  send_files :: "((SendId \<times> SendFileId) \<times> nat) list"
  outbox :: "mail list"
  tick :: nat

definition empty_server :: server where
  "empty_server = \<lparr>users = [], invitations = [], devices = [], twofactors = [],
     twofactor_incompletes = [], organizations = [], users_organizations = [], collections = [], users_collections = [],
     ciphers_collections = [], groups = [], groups_users = [], collections_groups = [], ciphers = [],
     folders = [], folders_ciphers = [], favorites = [], archives = [], attachments = [], org_policies = [], events = [], emergency_accesses = [],
     organization_api_keys = [], auth_requests = [], sends = [], send_files = [], outbox = [], tick = 0\<rparr>"

text \<open>The database behind the connection, \<open>DbConnInner\<close>. The flag of \<open>Mysql\<close> says whether the server enforces
  foreign keys that are declared with their column (\<open>REFERENCES\<close>): releases before 9 parse and ignore them.\<close>

datatype Backend = Sqlite | Mysql bool | Postgresql

record config =
  db_backend :: Backend
  emergency_access_allowed :: bool
  invitations_allowed :: bool
  mail_enabled :: bool
  signups_domains_whitelist :: string
  password_iterations :: int
  invitation_expiration_hours :: nat
  incomplete_2fa_time_limit :: int
  authenticator_disable_time_drift :: bool
  domain_set :: bool
  domain_url :: string
  domain_origin :: string
  ip_header_enabled :: bool
  ip_header :: string
  org_events_enabled :: bool
  events_days_retain :: "int option"
  org_groups_enabled :: bool
  trash_auto_delete_days :: "int option"
  sends_allowed :: bool
  user_send_limit :: "int option"
  max_note_size :: nat
  user_attachment_limit :: "int option"
  org_attachment_limit :: "int option"
  email_2fa_auto_fallback :: bool
  email_token_size :: nat
  email_attempts_limit :: nat
  email_expiration_time :: u64
  org_creation_users :: string
  invitation_org_name :: string
  enforce_single_org_with_reset_pw_policy :: bool
  sso_enabled :: bool
  sso_only :: bool
  sso_auth_only_not_session :: bool
  password_hints_allowed :: bool
  show_password_hint :: bool
  email_change_allowed :: bool
  signups_allowed :: bool
  signups_verify :: bool
  signups_verify_resend_time :: u64
  signups_verify_resend_limit :: u32
  enable_email_2fa :: bool
  email_2fa_enforce_on_verified_invite :: bool
  disable_2fa_remember :: bool
  require_device_email :: bool
  push_enabled :: bool
  duo_credentials :: bool
  yubico_credentials :: bool
  webauthn_2fa_supported :: bool
  sso_master_password_policy_value :: "json option"

record env =
  conf :: config
  clock :: "nat \<Rightarrow> time"
  uuid_at :: "nat \<Rightarrow> string"
  random_token :: "nat \<Rightarrow> string"
  random_numeric :: "nat \<Rightarrow> nat \<Rightarrow> string"
  random_bytes :: "nat \<Rightarrow> bytes"
  smtp :: "nat \<Rightarrow> mail \<Rightarrow> string option"
  lowercase_of :: "string \<Rightarrow> string"
  uppercase_of :: "string \<Rightarrow> string"
  trim_of :: "string \<Rightarrow> string"
  email_domain :: "string \<Rightarrow> string option"
  url_parse :: "string \<Rightarrow> (string \<times> string option \<times> string option) option"
  ct_equal :: "string \<Rightarrow> string \<Rightarrow> bool"
  pbkdf2_derive :: "u32 \<Rightarrow> bytes \<Rightarrow> bytes \<Rightarrow> bytes"
  pbkdf2_check :: "u32 \<Rightarrow> bytes \<Rightarrow> bytes \<Rightarrow> bytes \<Rightarrow> bool"
  jwt_emergency :: "nat \<Rightarrow> string \<Rightarrow> string + EmergencyAccessInviteJwtClaims"
  jwt_invite :: "nat \<Rightarrow> string \<Rightarrow> string + InviteJwtClaims"
  jwt_login :: "nat \<Rightarrow> string \<Rightarrow> string + LoginJwtClaims"
  jwt_refresh :: "nat \<Rightarrow> string \<Rightarrow> string + RefreshJwtClaims"
  jwt_verify_email :: "nat \<Rightarrow> string \<Rightarrow> string + BasicJwtClaims"
  jwt_delete :: "nat \<Rightarrow> string \<Rightarrow> string + BasicJwtClaims"
  jwt_register :: "nat \<Rightarrow> string \<Rightarrow> string + RegisterVerifyClaims"
  jwt_remember :: "nat \<Rightarrow> string \<Rightarrow> string + TwoFactorRememberClaims"
  encode_login :: "LoginJwtClaims \<Rightarrow> string option"
  encode_refresh :: "RefreshJwtClaims \<Rightarrow> string option"
  encode_remember :: "TwoFactorRememberClaims \<Rightarrow> string option"
  encode_org_key :: "OrgApiKeyLoginJwtClaims \<Rightarrow> string option"
  encode_register :: "RegisterVerifyClaims \<Rightarrow> string option"
  random_base32 :: "nat \<Rightarrow> string"
  chars_numeric :: "string \<Rightarrow> bool"
  semver_matches :: "string \<Rightarrow> string \<Rightarrow> bool"
  login_limit :: "nat \<Rightarrow> string \<Rightarrow> bool"
  push_register :: "nat \<Rightarrow> Device \<Rightarrow> string option"
  push_unregister :: "nat \<Rightarrow> string option \<Rightarrow> string option"
  other_factor :: "int \<Rightarrow> User \<Rightarrow> string \<Rightarrow> string \<Rightarrow> string option \<Rightarrow> string option \<Rightarrow> server \<Rightarrow> (api_err + unit) \<times> server"
  other_prompt :: "int \<Rightarrow> UserId \<Rightarrow> string option \<Rightarrow> string option \<Rightarrow> server \<Rightarrow> (api_err + json) \<times> server"
  uuid_valid :: "string \<Rightarrow> bool"
  ip_parse :: "string \<Rightarrow> string option"
  rocket_tls :: bool
  base32_bytes :: "string \<Rightarrow> bytes option"
  totp_sha1 :: "bytes \<Rightarrow> u64 \<Rightarrow> string"
  format_utc :: "time \<Rightarrow> string"
  rfc3339_micros :: "time \<Rightarrow> string"
  json_parse :: "string \<Rightarrow> json option"
  json_print :: "json \<Rightarrow> string"
  date_parse :: "string \<Rightarrow> time option"
  naive_parse :: "string \<Rightarrow> time option"
  access_id_decode :: "string \<Rightarrow> SendId option"
  size_name :: "int \<Rightarrow> string"
  storage_write :: "nat \<Rightarrow> string \<Rightarrow> string option"
  storage_delete :: "nat \<Rightarrow> string \<Rightarrow> string option"

section \<open>Reading the environment\<close>

definition bump :: "server \<Rightarrow> server" where
  "bump s = s\<lparr>tick := Suc (tick s)\<rparr>"

definition utc_now :: "env \<Rightarrow> server \<Rightarrow> time \<times> server" where
  "utc_now E s = (clock E (tick s), bump s)"

definition get_uuid :: "env \<Rightarrow> server \<Rightarrow> string \<times> server" where
  "get_uuid E s = (uuid_at E (tick s), bump s)"

definition NANOS :: int where "NANOS = 1000000000"

definition timestamp :: "time \<Rightarrow> int" where
  "timestamp t = t div NANOS"

text \<open>
  chrono: a \<open>TimeDelta\<close> is bounded by \<open>i64::MAX\<close> milliseconds, and adding one to a
  \<open>NaiveDateTime\<close> panics outside the supported years -262143 to 262142.
\<close>

definition try_seconds :: "int \<Rightarrow> int option" where
  "try_seconds n = (if \<bar>n\<bar> \<le> 9223372036854775 then Some (n * NANOS) else None)"

definition try_minutes :: "int \<Rightarrow> int option" where
  "try_minutes n = try_seconds (n * 60)"

definition try_hours :: "int \<Rightarrow> int option" where
  "try_hours n = try_seconds (n * 3600)"

definition try_days :: "int \<Rightarrow> int option" where
  "try_days n = try_seconds (n * 86400)"

definition naive_add :: "time \<Rightarrow> int \<Rightarrow> time option" where
  "naive_add t d =
     (if - 8334601228800 * NANOS \<le> t + d \<and> t + d < 8210266876800 * NANOS then Some (t + d) else None)"

definition i32_wrap :: "int \<Rightarrow> int" where
  "i32_wrap n = (n + 2 ^ 31) mod 2 ^ 32 - 2 ^ 31"

definition format_date :: "env \<Rightarrow> time \<Rightarrow> string" where
  "format_date E dt = rfc3339_micros E dt"

text \<open>Sending a mail: the transport accepts it, or the handler fails with the transport's error.\<close>

definition send_mail :: "env \<Rightarrow> mail \<Rightarrow> (server, unit) act" where
  "send_mail E m s =
     (case smtp E (tick s) m of
        Some e \<Rightarrow> (Inl (Api e), bump s)
      | None \<Rightarrow> (Inr (), bump (s\<lparr>outbox := outbox s @ [m]\<rparr>)))"

text \<open>\<open>util.rs\<close>: the checks beside the \<open>email\_address\<close> crate.\<close>

definition is_valid_email :: "env \<Rightarrow> string \<Rightarrow> bool" where
  "is_valid_email E email =
     (case email_domain E email of None \<Rightarrow> False
      | Some host \<Rightarrow>
          (case url_parse E (''https://'' @ host) of None \<Rightarrow> False
           | Some (path, domain, query) \<Rightarrow> \<not> (path \<noteq> ''/'' \<or> domain = None \<or> query \<noteq> None)))"

text \<open>\<open>config.rs\<close>: \<open>rsplitn(2, '@')\<close> splits at the last \<open>@\<close>.\<close>

fun split_on :: "char \<Rightarrow> string \<Rightarrow> string list" where
  "split_on c s = (case split_once c s of None \<Rightarrow> [s] | Some (a, b) \<Rightarrow> a # (if length b < length s then split_on c b else [b]))"

declare split_on.simps [simp del]

definition is_email_domain_allowed :: "env \<Rightarrow> string \<Rightarrow> bool" where
  "is_email_domain_allowed E email =
     (case split_once CHR ''@'' (rev email) of None \<Rightarrow> False
      | Some (host, loc) \<Rightarrow>
          if host = [] \<or> loc = [] then False
          else let email_domain = lowercase_of E (rev host);
                   whitelist = signups_domains_whitelist (conf E)
               in whitelist = [] \<or> (\<exists>d \<in> set (split_on CHR '','' whitelist). trim_of E d = email_domain))"

section \<open>Lemmas\<close>

declare bump_def [simp]

lemma utc_now_simps [simp]: "fst (utc_now E s) = clock E (tick s)" "snd (utc_now E s) = bump s"
  by (simp_all add: utc_now_def)

lemma get_uuid_simps [simp]: "fst (get_uuid E s) = uuid_at E (tick s)" "snd (get_uuid E s) = bump s"
  by (simp_all add: get_uuid_def)

lemma wp_send_mail [wp_simps]:
  "wp (send_mail E m) Q R s =
     (case smtp E (tick s) m of
        Some e \<Rightarrow> R (Api e) (bump s)
      | None \<Rightarrow> Q () (bump (s\<lparr>outbox := outbox s @ [m]\<rparr>)))"
  by (simp add: wp_def send_mail_def split: option.split)

lemma try_seconds_Some: "try_seconds n = Some d \<Longrightarrow> d = n * NANOS"
  by (simp add: try_seconds_def split: if_splits)

lemma try_days_Some: "try_days n = Some d \<Longrightarrow> d = n * 86400 * NANOS"
  by (auto simp: try_days_def dest!: try_seconds_Some)

lemma naive_add_Some: "naive_add t d = Some a \<Longrightarrow> a = t + d"
  by (simp add: naive_add_def split: if_splits)

end
