(* ===== verification/Devices.thy ===== *)
theory Devices
  imports Schema
begin

text \<open>
  \<open>server/src/db/models/device.rs\<close>: the devices of a user, their refresh tokens and the device
  types. Rotating the refresh tokens of a user is what invalidates the sessions when the security
  stamp changes.
\<close>

section \<open>Device types\<close>

datatype DeviceType =
    Android | Ios | ChromeExtension | FirefoxExtension | OperaExtension | EdgeExtension
  | WindowsDesktop | MacOsDesktop | LinuxDesktop | ChromeBrowser | FirefoxBrowser | OperaBrowser
  | EdgeBrowser | IEBrowser | UnknownBrowser | AndroidAmazon | Uwp | SafariBrowser | VivaldiBrowser
  | VivaldiExtension | SafariExtension | Sdk | Server | WindowsCLI | MacOsCLI | LinuxCLI
  | DuckDuckGoBrowser

definition DeviceType_table :: "DeviceType list" where
  "DeviceType_table =
     [Android, Ios, ChromeExtension, FirefoxExtension, OperaExtension, EdgeExtension,
      WindowsDesktop, MacOsDesktop, LinuxDesktop, ChromeBrowser, FirefoxBrowser, OperaBrowser,
      EdgeBrowser, IEBrowser, UnknownBrowser, AndroidAmazon, Uwp, SafariBrowser, VivaldiBrowser,
      VivaldiExtension, SafariExtension, Sdk, Server, WindowsCLI, MacOsCLI, LinuxCLI,
      DuckDuckGoBrowser]"

definition DeviceType_from_i32 :: "int \<Rightarrow> DeviceType" where
  "DeviceType_from_i32 value =
     (if 0 \<le> value \<and> value \<le> 26 then DeviceType_table ! nat value else UnknownBrowser)"

fun DeviceType_display :: "DeviceType \<Rightarrow> string" where
  "DeviceType_display Android = ''Android''"
| "DeviceType_display Ios = ''iOS''"
| "DeviceType_display ChromeExtension = ''Chrome Extension''"
| "DeviceType_display FirefoxExtension = ''Firefox Extension''"
| "DeviceType_display OperaExtension = ''Opera Extension''"
| "DeviceType_display EdgeExtension = ''Edge Extension''"
| "DeviceType_display WindowsDesktop = ''Windows''"
| "DeviceType_display MacOsDesktop = ''macOS''"
| "DeviceType_display LinuxDesktop = ''Linux''"
| "DeviceType_display ChromeBrowser = ''Chrome''"
| "DeviceType_display FirefoxBrowser = ''Firefox''"
| "DeviceType_display OperaBrowser = ''Opera''"
| "DeviceType_display EdgeBrowser = ''Edge''"
| "DeviceType_display IEBrowser = ''Internet Explorer''"
| "DeviceType_display UnknownBrowser = ''Unknown Browser''"
| "DeviceType_display AndroidAmazon = ''Android''"
| "DeviceType_display Uwp = ''UWP''"
| "DeviceType_display SafariBrowser = ''Safari''"
| "DeviceType_display VivaldiBrowser = ''Vivaldi''"
| "DeviceType_display VivaldiExtension = ''Vivaldi Extension''"
| "DeviceType_display SafariExtension = ''Safari Extension''"
| "DeviceType_display Sdk = ''SDK''"
| "DeviceType_display Server = ''Server''"
| "DeviceType_display WindowsCLI = ''Windows CLI''"
| "DeviceType_display MacOsCLI = ''macOS CLI''"
| "DeviceType_display LinuxCLI = ''Linux CLI''"
| "DeviceType_display DuckDuckGoBrowser = ''DuckDuckGo''"

section \<open>Local methods\<close>

definition generate_refresh_token :: "env \<Rightarrow> server \<Rightarrow> string \<times> server" where
  "generate_refresh_token E s = (random_token E (tick s), bump s)"

definition Device_new :: "env \<Rightarrow> DeviceId \<Rightarrow> UserId \<Rightarrow> string \<Rightarrow> int \<Rightarrow> server \<Rightarrow> Device \<times> server" where
  "Device_new E uuid user_uuid name atype s =
     (let (now, s) = utc_now E s;
          (push, s) = get_uuid E s;
          (token, s) = generate_refresh_token E s
      in (\<lparr>d_uuid = uuid, d_created_at = now, d_updated_at = now, d_user_uuid = user_uuid,
           d_name = name, d_atype = atype, d_push_uuid = Some push, d_push_token = None,
           d_refresh_token = token, d_twofactor_remember = None\<rparr>, s))"

definition Device_to_json :: "env \<Rightarrow> Device \<Rightarrow> json" where
  "Device_to_json E d = JObj
     [(''id'', JStr (d_uuid d)), (''name'', JStr (d_name d)), (''type'', JInt (d_atype d)),
      (''identifier'', JStr (d_uuid d)), (''creationDate'', JStr (format_date E (d_created_at d))),
      (''isTrusted'', JBool False), (''object'', JStr ''device'')]"

definition delete_twofactor_remember :: "Device \<Rightarrow> Device" where
  "delete_twofactor_remember d = d\<lparr>d_twofactor_remember := None\<rparr>"

definition Device_is_new :: "Device \<Rightarrow> bool" where
  "Device_is_new d \<longleftrightarrow> d_created_at d = d_updated_at d"

definition is_push_device :: "Device \<Rightarrow> bool" where
  "is_push_device d \<longleftrightarrow> DeviceType_from_i32 (d_atype d) \<in> {Android, Ios}"

definition is_cli :: "Device \<Rightarrow> bool" where
  "is_cli d \<longleftrightarrow> DeviceType_from_i32 (d_atype d) \<in> {WindowsCLI, MacOsCLI, LinuxCLI}"

definition is_mobile :: "Device \<Rightarrow> bool" where
  "is_mobile d \<longleftrightarrow> DeviceType_from_i32 (d_atype d) \<in> {Android, Ios}"

section \<open>Database methods\<close>

text \<open>The primary key is the pair of device and user.\<close>

definition d_key :: "Device \<Rightarrow> DeviceId \<times> UserId" where
  "d_key d = (d_uuid d, d_user_uuid d)"

definition Device_save :: "env \<Rightarrow> bool \<Rightarrow> Device \<Rightarrow> server \<Rightarrow> Device \<times> server" where
  "Device_save E update_time d s =
     (let (d, s) = (if update_time then let (now, s) = utc_now E s in (d\<lparr>d_updated_at := now\<rparr>, s) else (d, s))
      in (d, s\<lparr>devices := tbl_upsert d_key d (devices s)\<rparr>))"

definition Device_delete_all_by_user :: "UserId \<Rightarrow> server \<Rightarrow> server" where
  "Device_delete_all_by_user user s = s\<lparr>devices := tbl_delete (\<lambda>d. d_user_uuid d = user) (devices s)\<rparr>"

definition Device_find_by_uuid_and_user :: "DeviceId \<Rightarrow> UserId \<Rightarrow> server \<Rightarrow> Device option" where
  "Device_find_by_uuid_and_user uuid user s =
     tbl_first (\<lambda>d. d_uuid d = uuid \<and> d_user_uuid d = user) (devices s)"

definition Device_find_by_user :: "UserId \<Rightarrow> server \<Rightarrow> Device list" where
  "Device_find_by_user user s = tbl_select (\<lambda>d. d_user_uuid d = user) (devices s)"

definition Device_find_by_uuid :: "DeviceId \<Rightarrow> server \<Rightarrow> Device option" where
  "Device_find_by_uuid uuid s = tbl_first (\<lambda>d. d_uuid d = uuid) (devices s)"

definition clear_push_token_by_uuid :: "DeviceId \<Rightarrow> server \<Rightarrow> server" where
  "clear_push_token_by_uuid uuid s =
     s\<lparr>devices := tbl_update (\<lambda>d. d_uuid d = uuid) (\<lambda>d. d\<lparr>d_push_token := None\<rparr>) (devices s)\<rparr>"

definition find_by_refresh_token :: "string \<Rightarrow> server \<Rightarrow> Device option" where
  "find_by_refresh_token token s = tbl_first (\<lambda>d. d_refresh_token d = token) (devices s)"

definition find_latest_active_by_user :: "UserId \<Rightarrow> server \<Rightarrow> Device option" where
  "find_latest_active_by_user user s =
     tbl_first (\<lambda>d. True) (tbl_order_desc d_updated_at (tbl_select (\<lambda>d. d_user_uuid d = user) (devices s)))"

definition find_push_devices_by_user :: "UserId \<Rightarrow> server \<Rightarrow> Device list" where
  "find_push_devices_by_user user s =
     tbl_select (\<lambda>d. d_user_uuid d = user \<and> d_push_token d \<noteq> None) (devices s)"

definition check_user_has_push_device :: "UserId \<Rightarrow> server \<Rightarrow> bool" where
  "check_user_has_push_device user s \<longleftrightarrow>
     length (tbl_select (\<lambda>d. d_user_uuid d = user \<and> d_push_token d \<noteq> None) (devices s)) \<noteq> 0"

definition rotate_device :: "env \<Rightarrow> Device \<Rightarrow> server \<Rightarrow> server" where
  "rotate_device E d s =
     (let (token, s) = generate_refresh_token E s
      in snd (Device_save E False (d\<lparr>d_refresh_token := token\<rparr>) s))"

definition rotate_refresh_tokens_by_user :: "env \<Rightarrow> UserId \<Rightarrow> server \<Rightarrow> server" where
  "rotate_refresh_tokens_by_user E user s = fold (rotate_device E) (Device_find_by_user user s) s"

section \<open>Lemmas\<close>

interpretation device: keyed_rows devices d_key "\<lambda>E s d. d\<lparr>d_updated_at := clock E (tick s)\<rparr>"
  "\<lambda>E d s. snd (Device_save E True d s)"
  by unfold_locales (simp_all add: d_key_def Device_save_def utc_now_def)

lemma rotate_device_rows:
  "devices (rotate_device E d s) = tbl_upsert d_key (d\<lparr>d_refresh_token := random_token E (tick s)\<rparr>) (devices s)"
  by (simp add: rotate_device_def Device_save_def generate_refresh_token_def)

lemma rotate_device_frame:
  "users (rotate_device E d s) = users s"
  "invitations (rotate_device E d s) = invitations s"
  "twofactors (rotate_device E d s) = twofactors s"
  "twofactor_incompletes (rotate_device E d s) = twofactor_incompletes s"
  "organizations (rotate_device E d s) = organizations s"
  "users_organizations (rotate_device E d s) = users_organizations s"
  "collections (rotate_device E d s) = collections s"
  "users_collections (rotate_device E d s) = users_collections s"
  "groups_users (rotate_device E d s) = groups_users s"
  "ciphers_collections (rotate_device E d s) = ciphers_collections s"
  "groups (rotate_device E d s) = groups s"
  "collections_groups (rotate_device E d s) = collections_groups s"
  "ciphers (rotate_device E d s) = ciphers s"
  "folders (rotate_device E d s) = folders s"
  "folders_ciphers (rotate_device E d s) = folders_ciphers s"
  "favorites (rotate_device E d s) = favorites s"
  "archives (rotate_device E d s) = archives s"
  "attachments (rotate_device E d s) = attachments s"
  "org_policies (rotate_device E d s) = org_policies s"
  "events (rotate_device E d s) = events s"
  "emergency_accesses (rotate_device E d s) = emergency_accesses s"
  "outbox (rotate_device E d s) = outbox s"
  by (simp_all add: rotate_device_def Device_save_def generate_refresh_token_def)

lemma fold_frame: "(\<And>x s. P (f x s) = P s) \<Longrightarrow> P (fold f xs s) = P s"
  by (induction xs arbitrary: s) simp_all

lemma rotate_frame [simp]:
  "users (rotate_refresh_tokens_by_user E u s) = users s"
  "invitations (rotate_refresh_tokens_by_user E u s) = invitations s"
  "twofactors (rotate_refresh_tokens_by_user E u s) = twofactors s"
  "twofactor_incompletes (rotate_refresh_tokens_by_user E u s) = twofactor_incompletes s"
  "organizations (rotate_refresh_tokens_by_user E u s) = organizations s"
  "users_organizations (rotate_refresh_tokens_by_user E u s) = users_organizations s"
  "collections (rotate_refresh_tokens_by_user E u s) = collections s"
  "users_collections (rotate_refresh_tokens_by_user E u s) = users_collections s"
  "groups_users (rotate_refresh_tokens_by_user E u s) = groups_users s"
  "ciphers_collections (rotate_refresh_tokens_by_user E u s) = ciphers_collections s"
  "groups (rotate_refresh_tokens_by_user E u s) = groups s"
  "collections_groups (rotate_refresh_tokens_by_user E u s) = collections_groups s"
  "ciphers (rotate_refresh_tokens_by_user E u s) = ciphers s"
  "folders (rotate_refresh_tokens_by_user E u s) = folders s"
  "folders_ciphers (rotate_refresh_tokens_by_user E u s) = folders_ciphers s"
  "favorites (rotate_refresh_tokens_by_user E u s) = favorites s"
  "archives (rotate_refresh_tokens_by_user E u s) = archives s"
  "attachments (rotate_refresh_tokens_by_user E u s) = attachments s"
  "org_policies (rotate_refresh_tokens_by_user E u s) = org_policies s"
  "events (rotate_refresh_tokens_by_user E u s) = events s"
  "emergency_accesses (rotate_refresh_tokens_by_user E u s) = emergency_accesses s"
  "outbox (rotate_refresh_tokens_by_user E u s) = outbox s"
  by (simp_all add: rotate_refresh_tokens_by_user_def fold_frame rotate_device_frame)

text \<open>What the rotation loop leaves in the table: rows it did not visit, and visited rows with a
  token drawn during the loop.\<close>

lemma rotate_loop:
  assumes "d \<in> set (devices (fold (rotate_device E) xs s))"
  shows "d \<in> set (devices s) \<and> d_key d \<notin> d_key ` set xs
    \<or> (\<exists>n x. tick s \<le> n \<and> x \<in> set xs \<and> d = x\<lparr>d_refresh_token := random_token E n\<rparr>)"
  using assms
proof (induction xs arbitrary: s)
  case (Cons x xs)
  have later: "tick s \<le> tick (rotate_device E x s)"
    by (simp add: rotate_device_def Device_save_def generate_refresh_token_def)
  from Cons.prems have "d \<in> set (devices (fold (rotate_device E) xs (rotate_device E x s)))" by simp
  from Cons.IH [OF this] later show ?case
    by (auto simp: rotate_device_rows set_tbl_upsert d_key_def intro: le_trans)
qed simp

lemma rotate_rows:
  assumes "d \<in> set (devices (rotate_refresh_tokens_by_user E u s))"
  shows "d \<in> set (devices s) \<and> d_user_uuid d \<noteq> u
    \<or> (\<exists>n x. tick s \<le> n \<and> x \<in> set (devices s) \<and> d_user_uuid x = u \<and> d = x\<lparr>d_refresh_token := random_token E n\<rparr>)"
  using rotate_loop [OF assms [unfolded rotate_refresh_tokens_by_user_def]]
  by (auto simp: Device_find_by_user_def d_key_def)

text \<open>After the rotation no refresh token that a device of the user held before is found, unless a
  device of somebody else has the same one.\<close>

lemma rotate_revokes:
  assumes "\<And>n d. tick s \<le> n \<Longrightarrow> d \<in> set (devices s) \<Longrightarrow> random_token E n \<noteq> d_refresh_token d"
    and "old \<in> set (devices s)" "d_user_uuid old = u"
    and "find_by_refresh_token (d_refresh_token old) (rotate_refresh_tokens_by_user E u s) = Some d"
  shows "d_user_uuid d \<noteq> u"
proof -
  from assms(4) have d: "d \<in> set (devices (rotate_refresh_tokens_by_user E u s))"
    and tok: "d_refresh_token d = d_refresh_token old"
    by (auto simp: find_by_refresh_token_def dest!: tbl_first_Some)
  have "\<And>n x. tick s \<le> n \<Longrightarrow> d \<noteq> x\<lparr>d_refresh_token := random_token E n\<rparr>"
    using tok assms(1) [OF _ assms(2)] by fastforce
  then show ?thesis using rotate_rows [OF d] by blast
qed

lemma keyed_fold: "(\<And>x s. P s \<Longrightarrow> P (f x s)) \<Longrightarrow> P s \<Longrightarrow> P (fold f xs s)"
  by (induction xs arbitrary: s) simp_all

lemma rotate_keyed: "keyed d_key (devices s) \<Longrightarrow> keyed d_key (devices (rotate_refresh_tokens_by_user E u s))"
  unfolding rotate_refresh_tokens_by_user_def
  by (rule keyed_fold) (auto simp: rotate_device_rows)

lemma latest_active_max:
  assumes "find_latest_active_by_user u s = Some d" "x \<in> set (devices s)" "d_user_uuid x = u"
  shows "d_user_uuid d = u \<and> d_updated_at x \<le> d_updated_at d"
proof -
  let ?l = "sort_key (\<lambda>r. - d_updated_at r) (filter (\<lambda>d. d_user_uuid d = u) (devices s))"
  from assms(1) have d: "\<exists>ds. ?l = d # ds"
    by (cases ?l) (auto simp: find_latest_active_by_user_def tbl_first_def tbl_order_desc_def tbl_select_def)
  then obtain ds where ds: "?l = d # ds" ..
  have "sorted (map (\<lambda>r. - d_updated_at r) ?l)" by simp
  moreover have "x \<in> set ?l" using assms(2,3) by simp
  moreover have "d \<in> set ?l" using ds by simp
  then have "d_user_uuid d = u" by simp
  ultimately show ?thesis unfolding ds by auto
qed

end
