(* ===== verification/Users.thy ===== *)
theory Users
  imports Devices
begin

text \<open>
  \<open>server/src/db/models/user.rs\<close> and the password hashing of \<open>server/src/crypto.rs\<close>: users,
  their passwords and security stamps, and the invitations. \<open>User::save\<close> is the statement of the
  SQLite and PostgreSQL backends: a conflict on the id updates the row, a second user with the same
  e-mail violates the unique column and the statement fails.
  \<open>User::delete\<close>, which goes through every table, is in \<open>Organizations\<close>; the JSON of a profile is not modelled.
\<close>

section \<open>Password hashing\<close>

definition cast_unsigned :: "int \<Rightarrow> u32" where
  "cast_unsigned n = of_int n"

definition hash_password :: "env \<Rightarrow> bytes \<Rightarrow> bytes \<Rightarrow> u32 \<Rightarrow> api_err + bytes" where
  "hash_password E secret salt iterations =
     (if iterations = 0 then Inl (Panic ''Iterations can't be zero'')
      else Inr (pbkdf2_derive E iterations salt secret))"

definition verify_password_hash :: "env \<Rightarrow> bytes \<Rightarrow> bytes \<Rightarrow> bytes \<Rightarrow> u32 \<Rightarrow> api_err + bool" where
  "verify_password_hash E secret salt previous iterations =
     (if iterations = 0 then Inl (Panic ''Iterations can't be zero'')
      else Inr (pbkdf2_check E iterations salt secret previous))"

definition str_bytes :: "string \<Rightarrow> bytes" where
  "str_bytes s = map of_char s"

section \<open>Local methods\<close>

definition CLIENT_KDF_TYPE_DEFAULT :: int where "CLIENT_KDF_TYPE_DEFAULT = 0"
definition CLIENT_KDF_ITER_DEFAULT :: int where "CLIENT_KDF_ITER_DEFAULT = 600000"

definition get_random_bytes :: "env \<Rightarrow> server \<Rightarrow> bytes \<times> server" where
  "get_random_bytes E s = (random_bytes E (tick s), bump s)"

definition User_new :: "env \<Rightarrow> string \<Rightarrow> string option \<Rightarrow> server \<Rightarrow> User \<times> server" where
  "User_new E mail name s =
     (let (now, s) = utc_now E s;
          email = lowercase_of E mail;
          (uuid, s) = get_uuid E s;
          (salt, s) = get_random_bytes E s;
          (stamp, s) = get_uuid E s
      in (\<lparr>u_uuid = uuid, u_enabled = True, u_created_at = now, u_updated_at = now,
           u_verified_at = None, u_last_verifying_at = None, u_login_verify_count = 0,
           u_email = email, u_email_new = None, u_email_new_token = None,
           u_name = (case name of None \<Rightarrow> email | Some n \<Rightarrow> n),
           u_password_hash = [], u_salt = salt, u_password_iterations = password_iterations (conf E),
           u_password_hint = None, u_akey = [], u_private_key = None, u_public_key = None,
           u_totp_secret = None, u_totp_recover = None, u_security_stamp = stamp,
           u_stamp_exception = None, u_equivalent_domains = ''[]'', u_excluded_globals = ''[]'',
           u_client_kdf_type = CLIENT_KDF_TYPE_DEFAULT, u_client_kdf_iter = CLIENT_KDF_ITER_DEFAULT,
           u_client_kdf_memory = None, u_client_kdf_parallelism = None, u_api_key = None,
           u_avatar_color = None, u_external_id = None\<rparr>, s))"

definition check_valid_password :: "env \<Rightarrow> string \<Rightarrow> User \<Rightarrow> api_err + bool" where
  "check_valid_password E password u =
     verify_password_hash E (str_bytes password) (u_salt u) (u_password_hash u)
       (cast_unsigned (u_password_iterations u))"

definition check_valid_recovery_code :: "env \<Rightarrow> string \<Rightarrow> User \<Rightarrow> bool" where
  "check_valid_recovery_code E code u =
     (case u_totp_recover u of
        Some totp_recover \<Rightarrow> ct_equal E code (lowercase_of E totp_recover)
      | None \<Rightarrow> False)"

definition check_valid_api_key :: "env \<Rightarrow> string \<Rightarrow> User \<Rightarrow> bool" where
  "check_valid_api_key E key u =
     (case u_api_key u of Some api_key \<Rightarrow> ct_equal E api_key key | None \<Rightarrow> False)"

definition reset_security_stamp :: "env \<Rightarrow> User \<Rightarrow> server \<Rightarrow> User \<times> server" where
  "reset_security_stamp E u s =
     (let (stamp, s) = get_uuid E s
      in (u\<lparr>u_security_stamp := stamp\<rparr>, rotate_refresh_tokens_by_user E (u_uuid u) s))"

definition set_stamp_exception :: "env \<Rightarrow> string list \<Rightarrow> User \<Rightarrow> server \<Rightarrow> User \<times> server" where
  "set_stamp_exception E routes u s =
     (let (now, s) = utc_now E s
      in (u\<lparr>u_stamp_exception := Some \<lparr>se_routes = routes, se_security_stamp = u_security_stamp u,
             se_expire = timestamp (now + 2 * 60 * NANOS)\<rparr>\<rparr>, s))"

definition reset_stamp_exception :: "User \<Rightarrow> User" where
  "reset_stamp_exception u = u\<lparr>u_stamp_exception := None\<rparr>"

definition set_password ::
  "env \<Rightarrow> string \<Rightarrow> string option \<Rightarrow> bool \<Rightarrow> string list option \<Rightarrow> User \<Rightarrow> (server, User) act" where
  "set_password E password new_key reset allow_next_route u =
     (case hash_password E (str_bytes password) (u_salt u) (cast_unsigned (u_password_iterations u)) of
        Inl e \<Rightarrow> act_err e
      | Inr h \<Rightarrow>
          act_bind (act_run (\<lambda>s. let u = u\<lparr>u_password_hash := h\<rparr> in
              case allow_next_route of None \<Rightarrow> (u, s) | Some routes \<Rightarrow> set_stamp_exception E routes u s)) (\<lambda>u.
          let u = (case new_key of None \<Rightarrow> u | Some k \<Rightarrow> u\<lparr>u_akey := k\<rparr>) in
          if reset then act_run (reset_security_stamp E u) else act_ret u))"

definition display_name :: "User \<Rightarrow> string" where
  "display_name u = (if u_name u = [] then u_email u else u_name u)"

section \<open>Database methods\<close>

definition user_db_write :: "User \<Rightarrow> (server, unit) act" where
  "user_db_write u s =
     (if \<exists>x \<in> set (users s). u_email x = u_email u \<and> u_uuid x \<noteq> u_uuid u
      then (Inl (Api ''Error saving user''), s)
      else (Inr (), s\<lparr>users := tbl_upsert u_uuid u (users s)\<rparr>))"

definition User_save :: "env \<Rightarrow> User \<Rightarrow> (server, User) act" where
  "User_save E u =
     act_seq (err_if (\<not> is_valid_email E (u_email u))
       (''User email '' @ u_email u @ '' is not a valid email address''))
     (act_bind (act_run (utc_now E)) (\<lambda>now.
      let u = u\<lparr>u_updated_at := now\<rparr> in
      act_seq (user_db_write u) (act_ret u)))"

definition update_revision_impl :: "UserId \<Rightarrow> time \<Rightarrow> server \<Rightarrow> server" where
  "update_revision_impl uuid date s =
     s\<lparr>users := tbl_update (\<lambda>u. u_uuid u = uuid) (\<lambda>u. u\<lparr>u_updated_at := date\<rparr>) (users s)\<rparr>"

definition update_uuid_revision :: "env \<Rightarrow> UserId \<Rightarrow> server \<Rightarrow> server" where
  "update_uuid_revision E uuid s = (let (now, s) = utc_now E s in update_revision_impl uuid now s)"

definition update_all_revisions :: "env \<Rightarrow> server \<Rightarrow> server" where
  "update_all_revisions E s =
     (let (now, s) = utc_now E s
      in s\<lparr>users := tbl_update (\<lambda>u. True) (\<lambda>u. u\<lparr>u_updated_at := now\<rparr>) (users s)\<rparr>)"

definition update_revision :: "env \<Rightarrow> User \<Rightarrow> server \<Rightarrow> User \<times> server" where
  "update_revision E u s =
     (let (now, s) = utc_now E s in (u\<lparr>u_updated_at := now\<rparr>, update_revision_impl (u_uuid u) now s))"

definition User_find_by_mail :: "env \<Rightarrow> string \<Rightarrow> server \<Rightarrow> User option" where
  "User_find_by_mail E mail s = tbl_first (\<lambda>u. u_email u = lowercase_of E mail) (users s)"

definition User_find_by_uuid :: "UserId \<Rightarrow> server \<Rightarrow> User option" where
  "User_find_by_uuid uuid s = tbl_first (\<lambda>u. u_uuid u = uuid) (users s)"

definition find_by_device_for_email2fa :: "DeviceId \<Rightarrow> server \<Rightarrow> User option" where
  "find_by_device_for_email2fa device s =
     (case tbl_first (\<lambda>t. True) (tbl_order_desc ti_login_time
             (tbl_select (\<lambda>t. ti_device_uuid t = device) (twofactor_incompletes s))) of
        Some t \<Rightarrow> User_find_by_uuid (ti_user_uuid t) s
      | None \<Rightarrow> None)"

definition last_active :: "User \<Rightarrow> server \<Rightarrow> time option" where
  "last_active u s = map_option d_updated_at (find_latest_active_by_user (u_uuid u) s)"

section \<open>Invitations\<close>

definition Invitation_new :: "env \<Rightarrow> string \<Rightarrow> string" where
  "Invitation_new E email = lowercase_of E email"

definition Invitation_save :: "env \<Rightarrow> string \<Rightarrow> (server, unit) act" where
  "Invitation_save E email =
     act_seq (err_if (\<not> is_valid_email E email)
       (''Invitation email '' @ email @ '' is not a valid email address''))
     (act_upd (\<lambda>s. s\<lparr>invitations := tbl_upsert id email (invitations s)\<rparr>))"

definition Invitation_delete :: "string \<Rightarrow> server \<Rightarrow> server" where
  "Invitation_delete email s = s\<lparr>invitations := tbl_delete (\<lambda>i. i = email) (invitations s)\<rparr>"

definition Invitation_find_by_mail :: "env \<Rightarrow> string \<Rightarrow> server \<Rightarrow> string option" where
  "Invitation_find_by_mail E mail s = tbl_first (\<lambda>i. i = lowercase_of E mail) (invitations s)"

definition Invitation_take :: "env \<Rightarrow> string \<Rightarrow> server \<Rightarrow> bool \<times> server" where
  "Invitation_take E mail s =
     (case Invitation_find_by_mail E mail s of
        Some i \<Rightarrow> (True, Invitation_delete i s)
      | None \<Rightarrow> (False, s))"

section \<open>Lemmas\<close>

definition users_wf :: "User list \<Rightarrow> bool" where
  "users_wf t \<longleftrightarrow> keyed u_uuid t \<and> keyed u_email t"

text \<open>\<open>ring::pbkdf2::verify\<close> accepts what \<open>derive\<close> computes.\<close>

definition pbkdf2_ok :: "env \<Rightarrow> bool" where
  "pbkdf2_ok E \<longleftrightarrow> (\<forall>n salt pw. n \<noteq> 0 \<longrightarrow> pbkdf2_check E n salt pw (pbkdf2_derive E n salt pw))"

lemma wp_user_db_write [wp_simps]:
  "wp (user_db_write u) Q R s =
     (if \<exists>x \<in> set (users s). u_email x = u_email u \<and> u_uuid x \<noteq> u_uuid u
      then R (Api ''Error saving user'') s else Q () (s\<lparr>users := tbl_upsert u_uuid u (users s)\<rparr>))"
  by (auto simp: wp_def user_db_write_def)

lemma keyed_email_upsert:
  assumes "keyed u_email t" "\<not> (\<exists>x \<in> set t. u_email x = u_email u \<and> u_uuid x \<noteq> u_uuid u)" "keyed u_uuid t"
  shows "keyed u_email (tbl_upsert u_uuid u t)"
proof (cases "\<exists>x\<in>set t. u_uuid x = u_uuid u")
  case False
  then show ?thesis using assms by (auto simp: keyed_def tbl_upsert_def)
next
  case True
  then obtain x a b where t: "t = a @ x # b" and x: "u_uuid x = u_uuid u" by (auto dest: split_list)
  have same: "map (\<lambda>y. if u_uuid y = u_uuid u then u else y) ys = ys"
    if "u_uuid u \<notin> u_uuid ` set ys" for ys using that by (induction ys) auto
  have "u_uuid u \<notin> u_uuid ` set a" "u_uuid u \<notin> u_uuid ` set b"
    using assms(3) x by (auto simp: t keyed_def image_iff)
  then have "tbl_upsert u_uuid u t = a @ u # b"
    using True x by (simp add: tbl_upsert_def t same)
  then show ?thesis using assms(1,2) \<open>u_uuid u \<notin> u_uuid ` set a\<close> \<open>u_uuid u \<notin> u_uuid ` set b\<close>
    by (auto simp: t keyed_def image_iff)
qed

lemma users_wf_write:
  assumes "users_wf t" "\<not> (\<exists>x \<in> set t. u_email x = u_email u \<and> u_uuid x \<noteq> u_uuid u)"
  shows "users_wf (tbl_upsert u_uuid u t)"
  using assms keyed_email_upsert [of t u] by (auto simp: users_wf_def)

lemma users_wf_touch:
  assumes "users_wf t"
  shows "users_wf (tbl_update P (\<lambda>u. u\<lparr>u_updated_at := d\<rparr>) t)"
  using assms by (auto simp: users_wf_def intro!: keyed_update)

lemma update_uuid_revision_frame [simp]:
  "invitations (update_uuid_revision E u s) = invitations s"
  "devices (update_uuid_revision E u s) = devices s"
  "twofactors (update_uuid_revision E u s) = twofactors s"
  "twofactor_incompletes (update_uuid_revision E u s) = twofactor_incompletes s"
  "organizations (update_uuid_revision E u s) = organizations s"
  "users_organizations (update_uuid_revision E u s) = users_organizations s"
  "collections (update_uuid_revision E u s) = collections s"
  "users_collections (update_uuid_revision E u s) = users_collections s"
  "groups_users (update_uuid_revision E u s) = groups_users s"
  "ciphers_collections (update_uuid_revision E u s) = ciphers_collections s"
  "groups (update_uuid_revision E u s) = groups s"
  "collections_groups (update_uuid_revision E u s) = collections_groups s"
  "ciphers (update_uuid_revision E u s) = ciphers s"
  "folders (update_uuid_revision E u s) = folders s"
  "folders_ciphers (update_uuid_revision E u s) = folders_ciphers s"
  "favorites (update_uuid_revision E u s) = favorites s"
  "archives (update_uuid_revision E u s) = archives s"
  "attachments (update_uuid_revision E u s) = attachments s"
  "org_policies (update_uuid_revision E u s) = org_policies s"
  "events (update_uuid_revision E u s) = events s"
  "emergency_accesses (update_uuid_revision E u s) = emergency_accesses s"
  "organization_api_keys (update_uuid_revision E u s) = organization_api_keys s"
  "auth_requests (update_uuid_revision E u s) = auth_requests s"
  "sends (update_uuid_revision E u s) = sends s"
  "send_files (update_uuid_revision E u s) = send_files s"
  "outbox (update_uuid_revision E u s) = outbox s"
  "tick (update_uuid_revision E u s) = Suc (tick s)"
  by (simp_all add: update_uuid_revision_def update_revision_impl_def utc_now_def)

lemma update_uuid_revision_users:
  "users (update_uuid_revision E uuid s) =
     tbl_update (\<lambda>u. u_uuid u = uuid) (\<lambda>u. u\<lparr>u_updated_at := clock E (tick s)\<rparr>) (users s)"
  by (simp add: update_uuid_revision_def update_revision_impl_def utc_now_def)

lemma update_uuid_revision_wf [intro]: "users_wf (users s) \<Longrightarrow> users_wf (users (update_uuid_revision E uuid s))"
  by (simp add: update_uuid_revision_users users_wf_touch)

text \<open>Touching revision dates changes no other column.\<close>

definition touched :: "User list \<Rightarrow> User list \<Rightarrow> bool" where
  "touched us vs \<longleftrightarrow> list_all2 (\<lambda>u v. \<exists>d. v = u\<lparr>u_updated_at := d\<rparr>) us vs"

lemma touched_refl [simp]: "touched us us"
proof -
  have "\<exists>e. u = u\<lparr>u_updated_at := e\<rparr>" for u :: User by (intro exI [of _ "u_updated_at u"]) simp
  then show ?thesis by (auto simp: touched_def list_all2_conv_all_nth)
qed

lemma touched_trans: "touched us vs \<Longrightarrow> touched vs ws \<Longrightarrow> touched us ws"
  unfolding touched_def by (rule list_all2_trans) auto

lemma touched_update: "touched us (tbl_update P (\<lambda>u. u\<lparr>u_updated_at := d\<rparr>) us)"
proof -
  have "\<exists>e. u = u\<lparr>u_updated_at := e\<rparr>" for u :: User by (intro exI [of _ "u_updated_at u"]) simp
  then show ?thesis by (auto simp: touched_def tbl_update_def list_all2_conv_all_nth)
qed

lemma touched_revision: "touched (users s) (users (update_uuid_revision E uuid s))"
  by (simp add: update_uuid_revision_users touched_update)

lemma touched_first:
  assumes "touched us vs" "tbl_first (\<lambda>u. u_uuid u = k) us = Some u"
  shows "\<exists>d. tbl_first (\<lambda>u. u_uuid u = k) vs = Some (u\<lparr>u_updated_at := d\<rparr>)"
  using assms unfolding touched_def tbl_first_def
  by (induction us vs rule: list_all2_induct) (auto split: if_splits)

text \<open>An operation that only touches revision dates (and reads the clock).\<close>

definition revises :: "server \<Rightarrow> server \<Rightarrow> bool" where
  "revises s t \<longleftrightarrow> (\<exists>us n. t = s\<lparr>users := us, tick := n\<rparr> \<and> touched (users s) us)"

lemma revises_refl [simp]: "revises s s"
  unfolding revises_def by (intro exI [of _ "users s"] exI [of _ "tick s"]) simp

lemma revises_trans: "revises s t \<Longrightarrow> revises t u \<Longrightarrow> revises s u"
  unfolding revises_def using touched_trans by fastforce

lemma revises_frame:
  assumes "revises s t"
  shows "invitations t = invitations s"
    "devices t = devices s"
    "twofactors t = twofactors s"
    "twofactor_incompletes t = twofactor_incompletes s"
    "organizations t = organizations s"
    "users_organizations t = users_organizations s"
    "collections t = collections s"
    "users_collections t = users_collections s"
    "ciphers_collections t = ciphers_collections s"
    "groups t = groups s"
    "groups_users t = groups_users s"
    "collections_groups t = collections_groups s"
    "ciphers t = ciphers s"
    "folders t = folders s"
    "folders_ciphers t = folders_ciphers s"
    "favorites t = favorites s"
    "archives t = archives s"
    "attachments t = attachments s"
    "org_policies t = org_policies s"
    "events t = events s"
    "emergency_accesses t = emergency_accesses s"
    "organization_api_keys t = organization_api_keys s"
    "auth_requests t = auth_requests s"
    "sends t = sends s"
    "send_files t = send_files s"
    "outbox t = outbox s"
  using assms by (auto simp: revises_def)

lemma revises_touched: "revises s t \<Longrightarrow> touched (users s) (users t)"
  by (auto simp: revises_def)

lemma revises_revision: "revises s (update_uuid_revision E u s)"
  unfolding revises_def update_uuid_revision_def update_revision_impl_def utc_now_def
  by (intro exI [of _ "tbl_update (\<lambda>x. u_uuid x = u) (\<lambda>x. x\<lparr>u_updated_at := clock E (tick s)\<rparr>) (users s)"]
      exI [of _ "Suc (tick s)"]) (simp add: touched_update)

lemma revises_fold: "(\<And>x s. revises s (f x s)) \<Longrightarrow> revises s (fold f xs s)"
proof (induction xs arbitrary: s)
  case (Cons x xs)
  then show ?case using revises_trans [of s "f x s"] by simp
qed simp

text \<open>Saving a user: the row is found under its id afterwards, ids and e-mails stay unique.\<close>

lemma user_save_wp:
  assumes "users_wf (users s)"
  shows "wp (User_save E u) (\<lambda>v t. users_wf (users t) \<and> User_find_by_uuid (u_uuid u) t = Some v
      \<and> v = u\<lparr>u_updated_at := clock E (tick s)\<rparr> \<and> t = (bump s)\<lparr>users := users t\<rparr>)
    (\<lambda>_ t. users t = users s) s"
proof -
  let ?v = "u\<lparr>u_updated_at := clock E (tick s)\<rparr>"
  have "users_wf (tbl_upsert u_uuid ?v (users s))
      \<and> tbl_first (\<lambda>x. u_uuid x = u_uuid u) (tbl_upsert u_uuid ?v (users s)) = Some ?v"
    if "\<forall>x\<in>set (users s). u_email x = u_email u \<longrightarrow> u_uuid x = u_uuid u"
  proof
    show wf: "users_wf (tbl_upsert u_uuid ?v (users s))"
      using users_wf_write [of "users s" ?v] assms that by auto
    then have k: "keyed u_uuid (tbl_upsert u_uuid ?v (users s))" by (simp add: users_wf_def)
    show "tbl_first (\<lambda>x. u_uuid x = u_uuid u) (tbl_upsert u_uuid ?v (users s)) = Some ?v"
      by (simp add: tbl_first_key [OF k] set_tbl_upsert)
  qed
  then show ?thesis by (simp add: User_save_def wp_simps Let_def User_find_by_uuid_def)
qed

text \<open>A new password verifies, and a reset of the stamp rotates the refresh tokens.\<close>

lemma set_password_wp:
  assumes "cast_unsigned (u_password_iterations u) \<noteq> 0"
  shows "wp (set_password E pw key reset routes u) (\<lambda>v t.
      u_uuid v = u_uuid u \<and> u_email v = u_email u \<and> u_salt v = u_salt u
      \<and> u_password_iterations v = u_password_iterations u
      \<and> u_password_hash v = pbkdf2_derive E (cast_unsigned (u_password_iterations u)) (u_salt u) (str_bytes pw)
      \<and> (\<forall>k. key = Some k \<longrightarrow> u_akey v = k)
      \<and> users t = users s \<and> twofactors t = twofactors s
      \<and> users_organizations t = users_organizations s \<and> emergency_accesses t = emergency_accesses s
      \<and> (reset \<longrightarrow> (\<exists>s'. tick s \<le> tick s' \<and> devices s' = devices s \<and> devices t = devices (rotate_refresh_tokens_by_user E (u_uuid u) s'))))
    (\<lambda>_ _. False) s"
proof (cases routes)
  case None
  with assms show ?thesis
    by (cases key) (auto simp: set_password_def hash_password_def wp_simps Let_def
      reset_security_stamp_def get_uuid_def intro!: exI [of _ "bump s"])
next
  case (Some r)
  with assms show ?thesis
    by (cases key) (auto simp: set_password_def hash_password_def wp_simps Let_def
      reset_security_stamp_def set_stamp_exception_def utc_now_def get_uuid_def
      intro!: exI [of _ "bump (bump s)"])
qed

lemma check_after_set:
  assumes "pbkdf2_ok E" "cast_unsigned (u_password_iterations v) \<noteq> 0"
    and "u_password_hash v = pbkdf2_derive E (cast_unsigned (u_password_iterations v)) (u_salt v) (str_bytes pw)"
  shows "check_valid_password E pw v = Inr True"
  using assms by (simp add: check_valid_password_def verify_password_hash_def pbkdf2_ok_def)

end
