(* ===== verification/Members.thy ===== *)
theory Members
  imports Users
begin

text \<open>
  The memberships of \<open>server/src/db/models/organization.rs\<close>: role order, status and revocation,
  the database methods of \<open>Membership\<close>, and the rows that hang on a membership, the collection
  assignments of \<open>collection.rs\<close> and the group assignments of \<open>group.rs\<close>.
\<close>

section \<open>Status and type\<close>

datatype MembershipStatus = Revoked | Invited | Accepted | Confirmed

fun MembershipStatus_i32 :: "MembershipStatus \<Rightarrow> int" where
  "MembershipStatus_i32 Revoked = - 1"
| "MembershipStatus_i32 Invited = 0"
| "MembershipStatus_i32 Accepted = 1"
| "MembershipStatus_i32 Confirmed = 2"

definition MembershipStatus_from_i32 :: "int \<Rightarrow> MembershipStatus option" where
  "MembershipStatus_from_i32 status =
     (if status = 0 then Some Invited else if status = 1 then Some Accepted
      else if status = 2 then Some Confirmed else None)"

datatype MembershipType = Owner | Admin | UserType | Manager

fun MembershipType_i32 :: "MembershipType \<Rightarrow> int" where
  "MembershipType_i32 Owner = 0"
| "MembershipType_i32 Admin = 1"
| "MembershipType_i32 UserType = 2"
| "MembershipType_i32 Manager = 3"

definition MembershipType_from_i32 :: "int \<Rightarrow> MembershipType option" where
  "MembershipType_from_i32 n =
     (if n = 0 then Some Owner else if n = 1 then Some Admin else if n = 2 then Some UserType
      else if n = 3 then Some Manager else None)"

definition MembershipType_from_str :: "string \<Rightarrow> MembershipType option" where
  "MembershipType_from_str s =
     (if s = ''0'' \<or> s = ''Owner'' then Some Owner
      else if s = ''1'' \<or> s = ''Admin'' then Some Admin
      else if s = ''2'' \<or> s = ''User'' then Some UserType
      else if s = ''3'' \<or> s = ''Manager'' then Some Manager
      else if s = ''4'' \<or> s = ''Custom'' then Some Manager
      else None)"

text \<open>The order of roles: \<open>Ord for MembershipType\<close> compares access levels.\<close>

fun ACCESS_LEVEL :: "MembershipType \<Rightarrow> int" where
  "ACCESS_LEVEL Owner = 3"
| "ACCESS_LEVEL Admin = 2"
| "ACCESS_LEVEL UserType = 0"
| "ACCESS_LEVEL Manager = 1"

lemma ACCESS_LEVEL_inj: "ACCESS_LEVEL a = ACCESS_LEVEL b \<longleftrightarrow> a = b"
  by (cases a; cases b) simp_all

instantiation MembershipType :: linorder
begin

definition less_eq_MembershipType :: "MembershipType \<Rightarrow> MembershipType \<Rightarrow> bool" where
  "less_eq_MembershipType a b \<longleftrightarrow> ACCESS_LEVEL a \<le> ACCESS_LEVEL b"

definition less_MembershipType :: "MembershipType \<Rightarrow> MembershipType \<Rightarrow> bool" where
  "less_MembershipType a b \<longleftrightarrow> ACCESS_LEVEL a < ACCESS_LEVEL b"

instance
  by standard (auto simp: less_eq_MembershipType_def less_MembershipType_def ACCESS_LEVEL_inj [symmetric])

end

text \<open>The comparisons of a stored role with a role: an unknown number is below everything.\<close>

definition i32_lt :: "int \<Rightarrow> MembershipType \<Rightarrow> bool" where
  "i32_lt n t = (case MembershipType_from_i32 n of None \<Rightarrow> True | Some a \<Rightarrow> a < t)"

definition i32_le :: "int \<Rightarrow> MembershipType \<Rightarrow> bool" where
  "i32_le n t = (case MembershipType_from_i32 n of None \<Rightarrow> True | Some a \<Rightarrow> a \<le> t)"

definition i32_ge :: "int \<Rightarrow> MembershipType \<Rightarrow> bool" where
  "i32_ge n t = (case MembershipType_from_i32 n of None \<Rightarrow> False | Some a \<Rightarrow> t \<le> a)"

definition gt_i32 :: "MembershipType \<Rightarrow> int \<Rightarrow> bool" where
  "gt_i32 t n = (case MembershipType_from_i32 n of None \<Rightarrow> False | Some a \<Rightarrow> a < t)"

definition ge_i32 :: "MembershipType \<Rightarrow> int \<Rightarrow> bool" where
  "ge_i32 t n = (case MembershipType_from_i32 n of None \<Rightarrow> False | Some a \<Rightarrow> a \<le> t)"

section \<open>Local methods\<close>

definition ACTIVATE_REVOKE_DIFF :: int where "ACTIVATE_REVOKE_DIFF = 128"

definition Membership_new ::
  "env \<Rightarrow> UserId \<Rightarrow> OrganizationId \<Rightarrow> string option \<Rightarrow> server \<Rightarrow> Membership \<times> server" where
  "Membership_new E user org invited_by s =
     (let (uuid, s) = get_uuid E s
      in (\<lparr>m_uuid = uuid, m_user_uuid = user, m_org_uuid = org, m_invited_by_email = invited_by,
           m_access_all = False, m_akey = '''', m_status = MembershipStatus_i32 Accepted,
           m_atype = MembershipType_i32 UserType, m_reset_password_key = None, m_external_id = None\<rparr>, s))"

definition Membership_restore :: "Membership \<Rightarrow> bool \<times> Membership" where
  "Membership_restore m =
     (if m_status m < MembershipStatus_i32 Invited
      then (True, m\<lparr>m_status := m_status m + ACTIVATE_REVOKE_DIFF\<rparr>) else (False, m))"

definition Membership_revoke :: "Membership \<Rightarrow> bool \<times> Membership" where
  "Membership_revoke m =
     (if MembershipStatus_i32 Revoked < m_status m
      then (True, m\<lparr>m_status := m_status m - ACTIVATE_REVOKE_DIFF\<rparr>) else (False, m))"

definition get_unrevoked_status :: "Membership \<Rightarrow> int" where
  "get_unrevoked_status m =
     (if m_status m \<le> MembershipStatus_i32 Revoked then m_status m + ACTIVATE_REVOKE_DIFF else m_status m)"

definition set_external_id :: "string option \<Rightarrow> Membership \<Rightarrow> bool \<times> Membership" where
  "set_external_id ext m =
     (if m_external_id m \<noteq> ext
      then (True, m\<lparr>m_external_id := (case ext of Some e \<Rightarrow> if e \<noteq> [] then Some e else None | None \<Rightarrow> None)\<rparr>)
      else (False, m))"

definition type_manager_as_custom :: "Membership \<Rightarrow> int" where
  "type_manager_as_custom m = (if m_atype m = 3 then 4 else m_atype m)"

definition has_status :: "MembershipStatus \<Rightarrow> Membership \<Rightarrow> bool" where
  "has_status st m \<longleftrightarrow> m_status m = MembershipStatus_i32 st"

definition has_type :: "MembershipType \<Rightarrow> Membership \<Rightarrow> bool" where
  "has_type t m \<longleftrightarrow> m_atype m = MembershipType_i32 t"

definition has_full_access :: "Membership \<Rightarrow> bool" where
  "has_full_access m \<longleftrightarrow> (m_access_all m \<or> i32_ge (m_atype m) Admin) \<and> has_status Confirmed m"

section \<open>Collection and group assignments\<close>

definition cu_find_by_organization_and_user_uuid :: "OrganizationId \<Rightarrow> UserId \<Rightarrow> server \<Rightarrow> CollectionUser list" where
  "cu_find_by_organization_and_user_uuid org user s =
     [cu. cu \<leftarrow> users_collections s, cu_user_uuid cu = user,
          c \<leftarrow> collections s, c_uuid c = cu_collection_uuid cu, c_org_uuid c = org]"

definition cu_delete_all_by_user_and_org :: "UserId \<Rightarrow> OrganizationId \<Rightarrow> server \<Rightarrow> server" where
  "cu_delete_all_by_user_and_org user org s =
     (let collectionusers = cu_find_by_organization_and_user_uuid org user s
      in fold (\<lambda>cu s. s\<lparr>users_collections := tbl_delete (\<lambda>x. cu_user_uuid x = user
             \<and> cu_collection_uuid x = cu_collection_uuid cu) (users_collections s)\<rparr>) collectionusers s)"

definition Membership_find_by_uuid :: "MembershipId \<Rightarrow> server \<Rightarrow> Membership option" where
  "Membership_find_by_uuid uuid s = tbl_first (\<lambda>m. m_uuid m = uuid) (users_organizations s)"

definition gu_delete_all_by_member :: "env \<Rightarrow> MembershipId \<Rightarrow> server \<Rightarrow> server" where
  "gu_delete_all_by_member E member s =
     (let s = (case Membership_find_by_uuid member s of
                 Some m \<Rightarrow> update_uuid_revision E (m_user_uuid m) s
               | None \<Rightarrow> s)
      in s\<lparr>groups_users := tbl_delete (\<lambda>g. gu_users_organizations_uuid g = member) (groups_users s)\<rparr>)"

section \<open>Database methods\<close>

definition Membership_save :: "env \<Rightarrow> Membership \<Rightarrow> server \<Rightarrow> server" where
  "Membership_save E m s =
     (let s = update_uuid_revision E (m_user_uuid m) s
      in s\<lparr>users_organizations := tbl_upsert m_uuid m (users_organizations s)\<rparr>)"

definition Membership_delete :: "env \<Rightarrow> Membership \<Rightarrow> server \<Rightarrow> server" where
  "Membership_delete E m s =
     (let s = update_uuid_revision E (m_user_uuid m) s;
          s = cu_delete_all_by_user_and_org (m_user_uuid m) (m_org_uuid m) s;
          s = gu_delete_all_by_member E (m_uuid m) s
      in s\<lparr>users_organizations := tbl_delete (\<lambda>x. m_uuid x = m_uuid m) (users_organizations s)\<rparr>)"

definition Membership_find_any_state_by_user :: "UserId \<Rightarrow> server \<Rightarrow> Membership list" where
  "Membership_find_any_state_by_user user s = tbl_select (\<lambda>m. m_user_uuid m = user) (users_organizations s)"

definition Membership_find_by_org :: "OrganizationId \<Rightarrow> server \<Rightarrow> Membership list" where
  "Membership_find_by_org org s = tbl_select (\<lambda>m. m_org_uuid m = org) (users_organizations s)"

definition Membership_delete_all_by_organization :: "env \<Rightarrow> OrganizationId \<Rightarrow> server \<Rightarrow> server" where
  "Membership_delete_all_by_organization E org s =
     fold (Membership_delete E) (Membership_find_by_org org s) s"

definition Membership_delete_all_by_user :: "env \<Rightarrow> UserId \<Rightarrow> server \<Rightarrow> server" where
  "Membership_delete_all_by_user E user s =
     fold (Membership_delete E) (Membership_find_any_state_by_user user s) s"

definition Membership_find_by_user_and_org :: "UserId \<Rightarrow> OrganizationId \<Rightarrow> server \<Rightarrow> Membership option" where
  "Membership_find_by_user_and_org user org s =
     tbl_first (\<lambda>m. m_user_uuid m = user \<and> m_org_uuid m = org) (users_organizations s)"

definition Membership_find_by_email_and_org ::
  "env \<Rightarrow> string \<Rightarrow> OrganizationId \<Rightarrow> server \<Rightarrow> Membership option" where
  "Membership_find_by_email_and_org E email org s =
     (case User_find_by_mail E email s of None \<Rightarrow> None
      | Some u \<Rightarrow> Membership_find_by_user_and_org (u_uuid u) org s)"

definition Membership_find_by_uuid_and_org :: "MembershipId \<Rightarrow> OrganizationId \<Rightarrow> server \<Rightarrow> Membership option" where
  "Membership_find_by_uuid_and_org uuid org s =
     tbl_first (\<lambda>m. m_uuid m = uuid \<and> m_org_uuid m = org) (users_organizations s)"

definition Membership_find_confirmed_by_user :: "UserId \<Rightarrow> server \<Rightarrow> Membership list" where
  "Membership_find_confirmed_by_user user s =
     tbl_select (\<lambda>m. m_user_uuid m = user \<and> m_status m = MembershipStatus_i32 Confirmed) (users_organizations s)"

definition Membership_find_invited_by_user :: "UserId \<Rightarrow> server \<Rightarrow> Membership list" where
  "Membership_find_invited_by_user user s =
     tbl_select (\<lambda>m. m_user_uuid m = user \<and> m_status m = MembershipStatus_i32 Invited) (users_organizations s)"

definition accept_user_invitations :: "UserId \<Rightarrow> server \<Rightarrow> server" where
  "accept_user_invitations user s = s\<lparr>users_organizations :=
     tbl_update (\<lambda>m. m_user_uuid m = user \<and> m_status m = MembershipStatus_i32 Invited)
       (\<lambda>m. m\<lparr>m_status := MembershipStatus_i32 Accepted\<rparr>) (users_organizations s)\<rparr>"

definition count_accepted_and_confirmed_by_user :: "UserId \<Rightarrow> OrganizationId \<Rightarrow> server \<Rightarrow> nat" where
  "count_accepted_and_confirmed_by_user user excluded s =
     length (tbl_select (\<lambda>m. m_user_uuid m = user \<and> m_org_uuid m \<noteq> excluded
       \<and> (m_status m = MembershipStatus_i32 Accepted \<or> m_status m = MembershipStatus_i32 Confirmed))
       (users_organizations s))"

definition Membership_find_confirmed_by_org :: "OrganizationId \<Rightarrow> server \<Rightarrow> Membership list" where
  "Membership_find_confirmed_by_org org s =
     tbl_select (\<lambda>m. m_org_uuid m = org \<and> m_status m = MembershipStatus_i32 Confirmed) (users_organizations s)"

definition find_confirmed_and_manage_all_by_org :: "OrganizationId \<Rightarrow> server \<Rightarrow> Membership list" where
  "find_confirmed_and_manage_all_by_org org s =
     tbl_select (\<lambda>m. m_org_uuid m = org \<and> m_status m = MembershipStatus_i32 Confirmed
       \<and> (m_atype m \<in> {MembershipType_i32 Owner, MembershipType_i32 Admin}
          \<or> m_atype m = MembershipType_i32 Manager \<and> m_access_all m)) (users_organizations s)"

definition Membership_count_by_org :: "OrganizationId \<Rightarrow> server \<Rightarrow> nat" where
  "Membership_count_by_org org s = length (tbl_select (\<lambda>m. m_org_uuid m = org) (users_organizations s))"

definition Membership_find_by_org_and_type :: "OrganizationId \<Rightarrow> MembershipType \<Rightarrow> server \<Rightarrow> Membership list" where
  "Membership_find_by_org_and_type org t s =
     tbl_select (\<lambda>m. m_org_uuid m = org \<and> m_atype m = MembershipType_i32 t) (users_organizations s)"

definition count_confirmed_by_org_and_type :: "OrganizationId \<Rightarrow> MembershipType \<Rightarrow> server \<Rightarrow> nat" where
  "count_confirmed_by_org_and_type org t s =
     length (tbl_select (\<lambda>m. m_org_uuid m = org \<and> m_atype m = MembershipType_i32 t
       \<and> m_status m = MembershipStatus_i32 Confirmed) (users_organizations s))"

definition Membership_find_confirmed_by_user_and_org ::
  "UserId \<Rightarrow> OrganizationId \<Rightarrow> server \<Rightarrow> Membership option" where
  "Membership_find_confirmed_by_user_and_org user org s =
     tbl_first (\<lambda>m. m_user_uuid m = user \<and> m_org_uuid m = org
       \<and> m_status m = MembershipStatus_i32 Confirmed) (users_organizations s)"

definition get_orgs_by_user :: "UserId \<Rightarrow> server \<Rightarrow> OrganizationId list" where
  "get_orgs_by_user user s = map m_org_uuid (tbl_select (\<lambda>m. m_user_uuid m = user) (users_organizations s))"

definition Membership_find_by_user_and_policy :: "UserId \<Rightarrow> int \<Rightarrow> server \<Rightarrow> Membership list" where
  "Membership_find_by_user_and_policy user policy s =
     [m. m \<leftarrow> users_organizations s, m_user_uuid m = user, m_status m = MembershipStatus_i32 Confirmed,
         p \<leftarrow> org_policies s, op_org_uuid p = m_org_uuid m, op_atype p = policy, op_enabled p]"

definition Membership_find_by_external_id_and_org :: "string \<Rightarrow> OrganizationId \<Rightarrow> server \<Rightarrow> Membership option" where
  "Membership_find_by_external_id_and_org ext org s =
     tbl_first (\<lambda>m. m_external_id m = Some ext \<and> m_org_uuid m = org) (users_organizations s)"

definition find_main_user_org :: "UserId \<Rightarrow> server \<Rightarrow> Membership option" where
  "find_main_user_org user s =
     tbl_first (\<lambda>m. True) (tbl_order_asc m_atype (tbl_select
       (\<lambda>m. m_user_uuid m = user \<and> m_status m \<noteq> MembershipStatus_i32 Revoked) (users_organizations s)))"

definition Organization_find_by_uuid :: "OrganizationId \<Rightarrow> server \<Rightarrow> Organization option" where
  "Organization_find_by_uuid uuid s = tbl_first (\<lambda>o'. o_uuid o' = uuid) (organizations s)"

section \<open>Lemmas\<close>

subsection \<open>Roles and status\<close>

lemma from_i32_i32 [simp]: "MembershipType_from_i32 (MembershipType_i32 t) = Some t"
  by (cases t) (simp_all add: MembershipType_from_i32_def)

lemma from_i32_Some: "MembershipType_from_i32 n = Some t \<longleftrightarrow> n = MembershipType_i32 t"
  by (cases t) (auto simp: MembershipType_from_i32_def)

lemma i32_inject [simp]: "MembershipType_i32 t = MembershipType_i32 u \<longleftrightarrow> t = u"
  using from_i32_i32 option.inject by metis

lemma i32_lt_iff: "i32_lt n t \<longleftrightarrow> \<not> i32_ge n t"
  by (auto simp: i32_lt_def i32_ge_def split: option.split)

lemma lt_Admin_iff: "i32_lt n Admin \<longleftrightarrow> n \<noteq> MembershipType_i32 Owner \<and> n \<noteq> MembershipType_i32 Admin"
  by (auto simp: i32_lt_def less_MembershipType_def MembershipType_from_i32_def split: option.splits if_splits)

text \<open>The stored statuses: a live status or one shifted below zero by a revocation.\<close>

definition member_status_ok :: "int \<Rightarrow> bool" where
  "member_status_ok n \<longleftrightarrow> n \<in> {0, 1, 2} \<or> n + ACTIVATE_REVOKE_DIFF \<in> {0, 1, 2}"

definition is_revoked :: "Membership \<Rightarrow> bool" where
  "is_revoked m \<longleftrightarrow> m_status m < MembershipStatus_i32 Invited"

lemma restore_revoke:
  assumes "member_status_ok (m_status m)" "\<not> is_revoked m"
  shows "Membership_restore (snd (Membership_revoke m)) = (True, m)" "is_revoked (snd (Membership_revoke m))"
  using assms
  by (auto simp: Membership_revoke_def Membership_restore_def member_status_ok_def is_revoked_def
      ACTIVATE_REVOKE_DIFF_def)

lemma revoke_restore:
  assumes "member_status_ok (m_status m)" "is_revoked m"
  shows "Membership_revoke (snd (Membership_restore m)) = (True, m)" "\<not> is_revoked (snd (Membership_restore m))"
  using assms
  by (auto simp: Membership_revoke_def Membership_restore_def member_status_ok_def is_revoked_def
      ACTIVATE_REVOKE_DIFF_def)

lemma revoke_ok: "member_status_ok (m_status m) \<Longrightarrow> member_status_ok (m_status (snd (Membership_revoke m)))"
  by (auto simp: Membership_revoke_def member_status_ok_def ACTIVATE_REVOKE_DIFF_def)

lemma restore_ok: "member_status_ok (m_status m) \<Longrightarrow> member_status_ok (m_status (snd (Membership_restore m)))"
  by (auto simp: Membership_restore_def member_status_ok_def ACTIVATE_REVOKE_DIFF_def)

lemma revoked_not_confirmed: "is_revoked m \<Longrightarrow> \<not> has_status Confirmed m"
  by (simp add: is_revoked_def has_status_def)

lemma revoke_always:
  "member_status_ok (m_status m) \<Longrightarrow> is_revoked (snd (Membership_revoke m))"
  by (auto simp: Membership_revoke_def member_status_ok_def ACTIVATE_REVOKE_DIFF_def is_revoked_def)

subsection \<open>Removing a membership\<close>

lemma fold_delete_collections:
  "fold (\<lambda>x s. s\<lparr>users_collections := tbl_delete (P x) (users_collections s)\<rparr>) xs s =
   s\<lparr>users_collections := tbl_delete (\<lambda>r. \<exists>x \<in> set xs. P x r) (users_collections s)\<rparr>"
proof (induction xs arbitrary: s)
  case (Cons x xs)
  have "tbl_delete (\<lambda>r. (\<exists>x\<in>set xs. P x r) \<or> P x r) (users_collections s)
      = tbl_delete (\<lambda>r. \<exists>x\<in>set (x # xs). P x r) (users_collections s)"
    by (rule tbl_delete_cong) auto
  then show ?case by (simp add: Cons.IH tbl_delete_delete)
qed (simp add: tbl_delete_def)

definition col_in_org :: "server \<Rightarrow> OrganizationId \<Rightarrow> CollectionId \<Rightarrow> bool" where
  "col_in_org s org cid \<longleftrightarrow> (\<exists>c \<in> set (collections s). c_uuid c = cid \<and> c_org_uuid c = org)"

lemma cu_delete_eq:
  "cu_delete_all_by_user_and_org user org s =
     s\<lparr>users_collections := tbl_delete (\<lambda>x. cu_user_uuid x = user \<and> col_in_org s org (cu_collection_uuid x))
        (users_collections s)\<rparr>"
proof -
  have "tbl_delete (\<lambda>x. \<exists>cu\<in>set (cu_find_by_organization_and_user_uuid org user s).
          cu_user_uuid x = user \<and> cu_collection_uuid x = cu_collection_uuid cu) (users_collections s)
      = tbl_delete (\<lambda>x. cu_user_uuid x = user \<and> col_in_org s org (cu_collection_uuid x)) (users_collections s)"
    unfolding tbl_delete_def
    by (rule filter_cong) (auto simp: cu_find_by_organization_and_user_uuid_def col_in_org_def)
  then show ?thesis by (simp add: cu_delete_all_by_user_and_org_def fold_delete_collections)
qed

text \<open>What removing a membership leaves in the tables.\<close>

lemma Membership_delete_tables:
  "users_organizations (Membership_delete E m s) = tbl_delete (\<lambda>x. m_uuid x = m_uuid m) (users_organizations s)"
  "users_collections (Membership_delete E m s) =
     tbl_delete (\<lambda>x. cu_user_uuid x = m_user_uuid m \<and> col_in_org s (m_org_uuid m) (cu_collection_uuid x))
       (users_collections s)"
  "groups_users (Membership_delete E m s) =
     tbl_delete (\<lambda>g. gu_users_organizations_uuid g = m_uuid m) (groups_users s)"
  "collections (Membership_delete E m s) = collections s"
  "twofactors (Membership_delete E m s) = twofactors s"
  "devices (Membership_delete E m s) = devices s"
  "emergency_accesses (Membership_delete E m s) = emergency_accesses s"
  "invitations (Membership_delete E m s) = invitations s"
  "org_policies (Membership_delete E m s) = org_policies s"
  by (simp_all add: Membership_delete_def cu_delete_eq gu_delete_all_by_member_def Let_def col_in_org_def
      split: option.split)

lemma Membership_delete_users: "touched (users s) (users (Membership_delete E m s))"
proof (cases "Membership_find_by_uuid (m_uuid m) s")
  case None
  then show ?thesis
    by (simp add: Membership_delete_def cu_delete_eq gu_delete_all_by_member_def Let_def
        Membership_find_by_uuid_def touched_revision)
next
  case (Some n)
  let ?s = "cu_delete_all_by_user_and_org (m_user_uuid m) (m_org_uuid m) (update_uuid_revision E (m_user_uuid m) s)"
  have "touched (users s) (users ?s)" by (simp add: cu_delete_eq touched_revision)
  then have "touched (users s) (users (update_uuid_revision E (m_user_uuid n) ?s))"
    by (rule touched_trans) (rule touched_revision)
  with Some show ?thesis
    by (simp add: Membership_delete_def gu_delete_all_by_member_def Let_def Membership_find_by_uuid_def cu_delete_eq)
qed

interpretation member: row_store users_organizations m_uuid "\<lambda>E s m. m" Membership_save Membership_delete
  by unfold_locales (simp_all add: Membership_save_def Membership_delete_tables Let_def)

end
