(* ===== verification/TwoFactors.thy ===== *)
theory TwoFactors
  imports Users "HOL-Library.Signed_Division"
begin

text \<open>
  \<open>server/src/db/models/two_factor.rs\<close>, \<open>two_factor_incomplete.rs\<close>, the authenticator check of
  \<open>api/core/two_factor/authenticator.rs\<close> and the notification job of \<open>api/core/two_factor/mod.rs\<close>.
  The TOTP generator of the \<open>totp_lite\<close> crate and the base32 decoder are fields of the environment.
\<close>

section \<open>Two-factor providers\<close>

datatype TwoFactorType =
    Authenticator | Email | Duo | YubiKey | U2f | Remember | OrganizationDuo | Webauthn | RecoveryCode
  | U2fRegisterChallenge | U2fLoginChallenge | EmailVerificationChallenge
  | WebauthnRegisterChallenge | WebauthnLoginChallenge | ProtectedActions

fun TwoFactorType_i32 :: "TwoFactorType \<Rightarrow> int" where
  "TwoFactorType_i32 Authenticator = 0"
| "TwoFactorType_i32 Email = 1"
| "TwoFactorType_i32 Duo = 2"
| "TwoFactorType_i32 YubiKey = 3"
| "TwoFactorType_i32 U2f = 4"
| "TwoFactorType_i32 Remember = 5"
| "TwoFactorType_i32 OrganizationDuo = 6"
| "TwoFactorType_i32 Webauthn = 7"
| "TwoFactorType_i32 RecoveryCode = 8"
| "TwoFactorType_i32 U2fRegisterChallenge = 1000"
| "TwoFactorType_i32 U2fLoginChallenge = 1001"
| "TwoFactorType_i32 EmailVerificationChallenge = 1002"
| "TwoFactorType_i32 WebauthnRegisterChallenge = 1003"
| "TwoFactorType_i32 WebauthnLoginChallenge = 1004"
| "TwoFactorType_i32 ProtectedActions = 2000"

definition TwoFactor_new :: "env \<Rightarrow> UserId \<Rightarrow> TwoFactorType \<Rightarrow> string \<Rightarrow> server \<Rightarrow> TwoFactor \<times> server" where
  "TwoFactor_new E user atype data s =
     (let (uuid, s) = get_uuid E s
      in (\<lparr>tf_uuid = uuid, tf_user_uuid = user, tf_atype = TwoFactorType_i32 atype, tf_enabled = True,
           tf_data = data, tf_last_used = 0\<rparr>, s))"

definition TwoFactor_to_json :: "TwoFactor \<Rightarrow> json" where
  "TwoFactor_to_json t = JObj
     [(''enabled'', JBool (tf_enabled t)), (''key'', JStr ''''), (''Oobject'', JStr ''twoFactorAuthenticator'')]"

definition TwoFactor_to_json_provider :: "TwoFactor \<Rightarrow> json" where
  "TwoFactor_to_json_provider t = JObj
     [(''enabled'', JBool (tf_enabled t)), (''type'', JInt (tf_atype t)), (''object'', JStr ''twoFactorProvider'')]"

text \<open>The table has a unique pair of user and type beside its key: replacing removes every row
  that conflicts with either.\<close>

definition tf_slot :: "TwoFactor \<Rightarrow> UserId \<times> int" where
  "tf_slot t = (tf_user_uuid t, tf_atype t)"

definition TwoFactor_save :: "TwoFactor \<Rightarrow> server \<Rightarrow> server" where
  "TwoFactor_save t s = s\<lparr>twofactors :=
     tbl_delete (\<lambda>x. tf_uuid x = tf_uuid t \<or> tf_slot x = tf_slot t) (twofactors s) @ [t]\<rparr>"

definition TwoFactor_delete :: "TwoFactor \<Rightarrow> server \<Rightarrow> server" where
  "TwoFactor_delete t s = s\<lparr>twofactors := tbl_delete (\<lambda>x. tf_uuid x = tf_uuid t) (twofactors s)\<rparr>"

definition TwoFactor_find_by_user :: "UserId \<Rightarrow> server \<Rightarrow> TwoFactor list" where
  "TwoFactor_find_by_user user s = tbl_select (\<lambda>t. tf_user_uuid t = user \<and> tf_atype t < 1000) (twofactors s)"

definition TwoFactor_find_by_user_and_type :: "UserId \<Rightarrow> int \<Rightarrow> server \<Rightarrow> TwoFactor option" where
  "TwoFactor_find_by_user_and_type user atype s =
     tbl_first (\<lambda>t. tf_user_uuid t = user \<and> tf_atype t = atype) (twofactors s)"

definition TwoFactor_delete_all_by_user :: "UserId \<Rightarrow> server \<Rightarrow> server" where
  "TwoFactor_delete_all_by_user user s =
     s\<lparr>twofactors := tbl_delete (\<lambda>t. tf_user_uuid t = user) (twofactors s)\<rparr>"

section \<open>Incomplete logins\<close>

definition ti_key :: "TwoFactorIncomplete \<Rightarrow> UserId \<times> DeviceId" where
  "ti_key t = (ti_user_uuid t, ti_device_uuid t)"

definition ti_find_by_user_and_device :: "UserId \<Rightarrow> DeviceId \<Rightarrow> server \<Rightarrow> TwoFactorIncomplete option" where
  "ti_find_by_user_and_device user device s =
     tbl_first (\<lambda>t. ti_user_uuid t = user \<and> ti_device_uuid t = device) (twofactor_incompletes s)"

definition ti_delete_by_user_and_device :: "UserId \<Rightarrow> DeviceId \<Rightarrow> server \<Rightarrow> server" where
  "ti_delete_by_user_and_device user device s = s\<lparr>twofactor_incompletes :=
     tbl_delete (\<lambda>t. ti_user_uuid t = user \<and> ti_device_uuid t = device) (twofactor_incompletes s)\<rparr>"

definition ti_mark_incomplete ::
  "env \<Rightarrow> UserId \<Rightarrow> DeviceId \<Rightarrow> string \<Rightarrow> int \<Rightarrow> string \<Rightarrow> server \<Rightarrow> server" where
  "ti_mark_incomplete E user device name atype ip s =
     (if incomplete_2fa_time_limit (conf E) \<le> 0 \<or> \<not> mail_enabled (conf E) then s
      else if ti_find_by_user_and_device user device s \<noteq> None then s
      else let (now, s) = utc_now E s
           in s\<lparr>twofactor_incompletes := twofactor_incompletes s @
                [\<lparr>ti_user_uuid = user, ti_device_uuid = device, ti_device_name = name,
                  ti_device_type = atype, ti_login_time = now, ti_ip_address = ip\<rparr>]\<rparr>)"

definition ti_mark_complete :: "env \<Rightarrow> UserId \<Rightarrow> DeviceId \<Rightarrow> server \<Rightarrow> server" where
  "ti_mark_complete E user device s =
     (if incomplete_2fa_time_limit (conf E) \<le> 0 \<or> \<not> mail_enabled (conf E) then s
      else ti_delete_by_user_and_device user device s)"

definition ti_find_logins_before :: "time \<Rightarrow> server \<Rightarrow> TwoFactorIncomplete list" where
  "ti_find_logins_before dt s = tbl_select (\<lambda>t. ti_login_time t < dt) (twofactor_incompletes s)"

definition ti_delete :: "TwoFactorIncomplete \<Rightarrow> server \<Rightarrow> server" where
  "ti_delete t s = ti_delete_by_user_and_device (ti_user_uuid t) (ti_device_uuid t) s"

definition ti_delete_all_by_user :: "UserId \<Rightarrow> server \<Rightarrow> server" where
  "ti_delete_all_by_user user s = s\<lparr>twofactor_incompletes :=
     tbl_delete (\<lambda>t. ti_user_uuid t = user) (twofactor_incompletes s)\<rparr>"

text \<open>The job: a mail per login older than the limit, whose record is deleted once the mail is
  accepted; a rejected mail leaves the record for the next run.\<close>

definition notify_incomplete :: "env \<Rightarrow> TwoFactorIncomplete \<Rightarrow> (server, unit) act" where
  "notify_incomplete E login =
     act_bind (act_get (User_find_by_uuid (ti_user_uuid login))) (\<lambda>u.
     act_bind (expect ''User not found'' u) (\<lambda>user. \<lambda>s.
       case send_mail E (Incomplete2faLogin (u_email user) (ti_ip_address login) (ti_login_time login)
              (ti_device_name login) (DeviceType_display (DeviceType_from_i32 (ti_device_type login)))) s of
         (Inr _, s) \<Rightarrow> (Inr (), ti_delete login s)
       | (Inl _, s) \<Rightarrow> (Inr (), s)))"

definition send_incomplete_2fa_notifications :: "env \<Rightarrow> (server, unit) act" where
  "send_incomplete_2fa_notifications E =
     (if incomplete_2fa_time_limit (conf E) \<le> 0 \<or> \<not> mail_enabled (conf E) then act_ret ()
      else
        act_bind (act_run (utc_now E)) (\<lambda>now.
        act_bind (expect ''called `Option::unwrap()` on a `None` value''
          (try_minutes (incomplete_2fa_time_limit (conf E)))) (\<lambda>time_limit.
        act_bind (expect ''`NaiveDateTime - TimeDelta` overflowed'' (naive_add now (- time_limit))) (\<lambda>time_before.
        act_bind (act_get (ti_find_logins_before time_before)) (\<lambda>logins.
        act_for logins (notify_incomplete E))))))"

section \<open>The authenticator code\<close>

fun validate_totp_steps ::
  "env \<Rightarrow> TwoFactor \<Rightarrow> string \<Rightarrow> bytes \<Rightarrow> int \<Rightarrow> string \<Rightarrow> int list \<Rightarrow> (server, unit) act" where
  "validate_totp_steps E twofactor code secret current_timestamp msg [] =
     act_err (ApiEvent msg (EventType_i32 UserFailedLogIn2fa))"
| "validate_totp_steps E twofactor code secret current_timestamp msg (step # steps) =
     (let time_step = current_timestamp sdiv 30 + step;
          time = of_int (current_timestamp + step * 30) :: u64;
          generated = totp_sha1 E secret time
      in if generated = code \<and> tf_last_used twofactor < time_step
         then act_upd (TwoFactor_save (twofactor\<lparr>tf_last_used := time_step\<rparr>))
         else if generated = code \<and> time_step \<le> tf_last_used twofactor
         then act_err (ApiEvent msg (EventType_i32 UserFailedLogIn2fa))
         else validate_totp_steps E twofactor code secret current_timestamp msg steps)"

definition validate_totp_code ::
  "env \<Rightarrow> UserId \<Rightarrow> string \<Rightarrow> string \<Rightarrow> string \<Rightarrow> (server, unit) act" where
  "validate_totp_code E user totp_code secret ip =
     act_bind (some_or ''Invalid TOTP secret'' (base32_bytes E secret)) (\<lambda>decoded_secret.
     act_bind (act_run (\<lambda>s. case TwoFactor_find_by_user_and_type user (TwoFactorType_i32 Authenticator) s of
         Some tf \<Rightarrow> (tf, s)
       | None \<Rightarrow> TwoFactor_new E user Authenticator secret s)) (\<lambda>twofactor.
     let steps = (if authenticator_disable_time_drift (conf E) then 0 else 1) in
     act_bind (act_run (utc_now E)) (\<lambda>current_time.
     validate_totp_steps E twofactor totp_code decoded_secret (timestamp current_time)
       (''Invalid TOTP code! Server time: '' @ format_utc E current_time @ '' IP: '' @ ip) [-steps..steps])))"

section \<open>Lemmas\<close>

definition twofactors_wf :: "TwoFactor list \<Rightarrow> bool" where
  "twofactors_wf t \<longleftrightarrow> keyed tf_uuid t \<and> keyed tf_slot t"

lemma keyed_delete_snoc:
  "keyed key t \<Longrightarrow> (\<And>x. x \<in> set t \<Longrightarrow> key x = key r \<Longrightarrow> P x) \<Longrightarrow> keyed key (tbl_delete P t @ [r])"
  by (auto simp: keyed_def tbl_delete_def distinct_map_filter)

lemma twofactors_wf_save:
  assumes "twofactors_wf (twofactors s)"
  shows "twofactors_wf (twofactors (TwoFactor_save t s))"
  using assms by (auto simp: twofactors_wf_def TwoFactor_save_def intro!: keyed_delete_snoc)

lemma twofactors_wf_delete: "twofactors_wf t \<Longrightarrow> twofactors_wf (tbl_delete P t)"
  by (auto simp: twofactors_wf_def)

lemma find_slot:
  assumes "twofactors_wf (twofactors s)"
  shows "TwoFactor_find_by_user_and_type u a s = Some t \<longleftrightarrow> t \<in> set (twofactors s) \<and> tf_slot t = (u, a)"
proof -
  have "TwoFactor_find_by_user_and_type u a s = tbl_first (\<lambda>x. tf_slot x = (u, a)) (twofactors s)"
    by (simp add: TwoFactor_find_by_user_and_type_def tf_slot_def)
  then show ?thesis using assms by (simp add: tbl_first_key twofactors_wf_def)
qed

lemma find_saved:
  assumes "twofactors_wf (twofactors s)"
  shows "TwoFactor_find_by_user_and_type (tf_user_uuid t) (tf_atype t) (TwoFactor_save t s) = Some t"
  using find_slot [OF twofactors_wf_save [OF assms]] by (simp add: TwoFactor_save_def tf_slot_def)

text \<open>The outcome of the loop over the time steps.\<close>

lemma validate_totp_steps_wp:
  "wp (validate_totp_steps E tf code secret cur msg steps)
     (\<lambda>_ t. \<exists>step \<in> set steps. totp_sha1 E secret (of_int (cur + step * 30)) = code
        \<and> tf_last_used tf < cur sdiv 30 + step
        \<and> t = TwoFactor_save (tf\<lparr>tf_last_used := cur sdiv 30 + step\<rparr>) s)
     (\<lambda>_ t. t = s) s"
proof (induction steps)
  case (Cons step steps)
  then show ?case by (auto simp: wp_simps Let_def elim!: wp_mono)
qed (simp add: wp_simps)

text \<open>The server time that a call of the check reads; creating a provider draws an id first.\<close>

definition totp_now :: "env \<Rightarrow> UserId \<Rightarrow> server \<Rightarrow> int" where
  "totp_now E user s = timestamp (clock E
     (case TwoFactor_find_by_user_and_type user 0 s of None \<Rightarrow> Suc (tick s) | Some _ \<Rightarrow> tick s))"

lemma validate_totp_code_wp:
  assumes wf: "twofactors_wf (twofactors s)"
  shows "wp (validate_totp_code E user code secret ip)
     (\<lambda>_ t. \<exists>key step tf. base32_bytes E secret = Some key \<and> \<bar>step\<bar> \<le> 1
        \<and> totp_sha1 E key (of_int (totp_now E user s + step * 30)) = code
        \<and> TwoFactor_find_by_user_and_type user 0 t = Some tf
        \<and> tf_last_used tf = totp_now E user s sdiv 30 + step
        \<and> (case TwoFactor_find_by_user_and_type user 0 s of
             None \<Rightarrow> 0 < tf_last_used tf | Some old \<Rightarrow> tf_last_used old < tf_last_used tf)
        \<and> twofactors_wf (twofactors t))
     (\<lambda>_ t. twofactors t = twofactors s) s"
proof -
  define tf0 where "tf0 = (case TwoFactor_find_by_user_and_type user 0 s of
    Some tf \<Rightarrow> (tf, s) | None \<Rightarrow> TwoFactor_new E user Authenticator secret s)"
  have slot: "tf_user_uuid (fst tf0) = user" "tf_atype (fst tf0) = 0"
    using find_slot [OF wf, of user 0]
    by (auto simp: tf0_def TwoFactor_new_def get_uuid_def tf_slot_def split: option.split)
  have rows: "twofactors (snd tf0) = twofactors s"
    by (simp add: tf0_def TwoFactor_new_def get_uuid_def split: option.split)
  have now: "timestamp (clock E (tick (snd tf0))) = totp_now E user s"
    by (simp add: tf0_def totp_now_def TwoFactor_new_def get_uuid_def split: option.split)
  have last: "case TwoFactor_find_by_user_and_type user 0 s of
      None \<Rightarrow> tf_last_used (fst tf0) = 0 | Some old \<Rightarrow> tf_last_used old = tf_last_used (fst tf0)"
    by (simp add: tf0_def TwoFactor_new_def get_uuid_def split: option.split)
  show ?thesis
  proof (cases "base32_bytes E secret")
    case (Some key)
    let ?st = "if authenticator_disable_time_drift (conf E) then 0 else 1 :: int"
    let ?s1 = "bump (snd tf0)"
    have saved: "TwoFactor_find_by_user_and_type user 0 (TwoFactor_save (fst tf0\<lparr>tf_last_used := k\<rparr>) ?s1)
        = Some (fst tf0\<lparr>tf_last_used := k\<rparr>)" for k
      using find_saved [of ?s1 "fst tf0\<lparr>tf_last_used := k\<rparr>"] wf rows slot by simp
    have "twofactors_wf (twofactors (TwoFactor_save (fst tf0\<lparr>tf_last_used := k\<rparr>) ?s1))" for k
      using twofactors_wf_save wf rows by simp
    with saved last Some show ?thesis
      unfolding validate_totp_code_def wp_simps TwoFactorType_i32.simps tf0_def [symmetric]
      by (auto simp: wp_simps Let_def now rows utc_now_def split: option.splits
          intro!: wp_mono [OF validate_totp_steps_wp])
  qed (simp add: validate_totp_code_def wp_simps)
qed

text \<open>A second attempt for the same pair of user and device keeps the time of the first.\<close>

lemma mark_incomplete_keeps:
  "ti_find_by_user_and_device u d s = Some t \<Longrightarrow>
   ti_find_by_user_and_device u d (ti_mark_incomplete E u d name a ip s) = Some t"
  by (simp add: ti_mark_incomplete_def)

lemma ti_keyed_mark:
  assumes "keyed ti_key (twofactor_incompletes s)"
  shows "keyed ti_key (twofactor_incompletes (ti_mark_incomplete E u d name a ip s))"
  using assms
  by (auto simp: ti_mark_incomplete_def ti_find_by_user_and_device_def tbl_first_None keyed_def ti_key_def
      utc_now_def)

end
