(* ===== verification/Emergency.thy ===== *)
theory Emergency
  imports Members TwoFactors
begin

text \<open>
  Emergency access, the model: \<open>server/src/db/models/emergency_access.rs\<close>, with the invitation mail
  of \<open>mail.rs\<close> and its claims of \<open>auth.rs\<close>.
\<close>

section \<open>Types\<close>

datatype EmergencyAccessType = View | Takeover

fun EmergencyAccessType_i32 :: "EmergencyAccessType \<Rightarrow> int" where
  "EmergencyAccessType_i32 View = 0"
| "EmergencyAccessType_i32 Takeover = 1"

definition EmergencyAccessType_from_str :: "string \<Rightarrow> EmergencyAccessType option" where
  "EmergencyAccessType_from_str s =
     (if s = ''0'' \<or> s = ''View'' then Some View
      else if s = ''1'' \<or> s = ''Takeover'' then Some Takeover else None)"

datatype EmergencyAccessStatus = EaInvited | EaAccepted | EaConfirmed | EaRecoveryInitiated | EaRecoveryApproved

fun ea_st :: "EmergencyAccessStatus \<Rightarrow> int" where
  "ea_st EaInvited = 0"
| "ea_st EaAccepted = 1"
| "ea_st EaConfirmed = 2"
| "ea_st EaRecoveryInitiated = 3"
| "ea_st EaRecoveryApproved = 4"

section \<open>Model\<close>

definition EmergencyAccess_new ::
  "env \<Rightarrow> UserId \<Rightarrow> string \<Rightarrow> int \<Rightarrow> int \<Rightarrow> int \<Rightarrow> server \<Rightarrow> EmergencyAccess \<times> server" where
  "EmergencyAccess_new E grantor email status atype wait s =
     (let (now, s) = utc_now E s;
          (uuid, s) = get_uuid E s
      in (\<lparr>ea_uuid = uuid, ea_grantor_uuid = grantor, ea_grantee_uuid = None, ea_email = Some email,
           ea_key_encrypted = None, ea_atype = atype, ea_status = status, ea_wait_time_days = wait,
           ea_recovery_initiated_at = None, ea_last_notification_at = None, ea_updated_at = now,
           ea_created_at = now\<rparr>, s))"

definition get_type_as_str :: "EmergencyAccess \<Rightarrow> string" where
  "get_type_as_str ea = (if ea_atype ea = EmergencyAccessType_i32 View then ''View'' else ''Takeover'')"

definition EmergencyAccess_to_json :: "EmergencyAccess \<Rightarrow> json" where
  "EmergencyAccess_to_json ea = JObj
     [(''id'', JStr (ea_uuid ea)), (''status'', JInt (ea_status ea)), (''type'', JInt (ea_atype ea)),
      (''waitTimeDays'', JInt (ea_wait_time_days ea)), (''object'', JStr ''emergencyAccess'')]"

definition ea_details :: "EmergencyAccess \<Rightarrow> string \<Rightarrow> User \<Rightarrow> string \<Rightarrow> json" where
  "ea_details ea role u object = JObj
     [(''id'', JStr (ea_uuid ea)), (''status'', JInt (ea_status ea)), (''type'', JInt (ea_atype ea)),
      (''waitTimeDays'', JInt (ea_wait_time_days ea)), (role, JStr (u_uuid u)),
      (''email'', JStr (u_email u)), (''name'', JStr (u_name u)),
      (''avatarColor'', json_opt (u_avatar_color u)), (''object'', JStr object)]"

definition EmergencyAccess_save :: "env \<Rightarrow> EmergencyAccess \<Rightarrow> server \<Rightarrow> EmergencyAccess \<times> server" where
  "EmergencyAccess_save E ea s =
     (let s = update_uuid_revision E (ea_grantor_uuid ea) s;
          (now, s) = utc_now E s;
          ea = ea\<lparr>ea_updated_at := now\<rparr>
      in (ea, s\<lparr>emergency_accesses := tbl_upsert ea_uuid ea (emergency_accesses s)\<rparr>))"

definition update_access_status_and_save ::
  "env \<Rightarrow> int \<Rightarrow> time \<Rightarrow> EmergencyAccess \<Rightarrow> (server, EmergencyAccess) act" where
  "update_access_status_and_save E status date ea =
     act_bind (expect ''Error getting grantee'' (ea_grantee_uuid ea)) (\<lambda>grantee.
     act_run (\<lambda>s. let s = update_uuid_revision E grantee s in
       (ea\<lparr>ea_status := status, ea_updated_at := date\<rparr>,
        s\<lparr>emergency_accesses := tbl_update (\<lambda>x. ea_uuid x = ea_uuid ea)
            (\<lambda>x. x\<lparr>ea_status := status, ea_updated_at := date\<rparr>) (emergency_accesses s)\<rparr>)))"

definition update_last_notification_date_and_save ::
  "time \<Rightarrow> EmergencyAccess \<Rightarrow> server \<Rightarrow> EmergencyAccess \<times> server" where
  "update_last_notification_date_and_save date ea s =
     (ea\<lparr>ea_last_notification_at := Some date, ea_updated_at := date\<rparr>,
      s\<lparr>emergency_accesses := tbl_update (\<lambda>x. ea_uuid x = ea_uuid ea)
          (\<lambda>x. x\<lparr>ea_last_notification_at := Some date, ea_updated_at := date\<rparr>) (emergency_accesses s)\<rparr>)"

definition EmergencyAccess_delete :: "env \<Rightarrow> EmergencyAccess \<Rightarrow> server \<Rightarrow> server" where
  "EmergencyAccess_delete E ea s =
     (let s = update_uuid_revision E (ea_grantor_uuid ea) s
      in s\<lparr>emergency_accesses := tbl_delete (\<lambda>x. ea_uuid x = ea_uuid ea) (emergency_accesses s)\<rparr>)"

definition find_by_grantor_uuid_and_grantee_uuid_or_email ::
  "UserId \<Rightarrow> UserId \<Rightarrow> string \<Rightarrow> server \<Rightarrow> EmergencyAccess option" where
  "find_by_grantor_uuid_and_grantee_uuid_or_email grantor grantee email s =
     tbl_first (\<lambda>x. ea_grantor_uuid x = grantor
       \<and> (ea_grantee_uuid x = Some grantee \<or> ea_email x = Some email)) (emergency_accesses s)"

definition find_all_recoveries_initiated :: "server \<Rightarrow> EmergencyAccess list" where
  "find_all_recoveries_initiated s =
     tbl_select (\<lambda>x. ea_status x = ea_st EaRecoveryInitiated \<and> ea_recovery_initiated_at x \<noteq> None)
       (emergency_accesses s)"

definition find_by_uuid_and_grantor_uuid :: "EmergencyAccessId \<Rightarrow> UserId \<Rightarrow> server \<Rightarrow> EmergencyAccess option" where
  "find_by_uuid_and_grantor_uuid uuid grantor s =
     tbl_first (\<lambda>x. ea_uuid x = uuid \<and> ea_grantor_uuid x = grantor) (emergency_accesses s)"

definition find_by_uuid_and_grantee_uuid :: "EmergencyAccessId \<Rightarrow> UserId \<Rightarrow> server \<Rightarrow> EmergencyAccess option" where
  "find_by_uuid_and_grantee_uuid uuid grantee s =
     tbl_first (\<lambda>x. ea_uuid x = uuid \<and> ea_grantee_uuid x = Some grantee) (emergency_accesses s)"

definition find_by_uuid_and_grantee_email :: "EmergencyAccessId \<Rightarrow> string \<Rightarrow> server \<Rightarrow> EmergencyAccess option" where
  "find_by_uuid_and_grantee_email uuid email s =
     tbl_first (\<lambda>x. ea_uuid x = uuid \<and> ea_email x = Some email) (emergency_accesses s)"

definition find_all_by_grantee_uuid :: "UserId \<Rightarrow> server \<Rightarrow> EmergencyAccess list" where
  "find_all_by_grantee_uuid grantee s = tbl_select (\<lambda>x. ea_grantee_uuid x = Some grantee) (emergency_accesses s)"

definition find_invited_by_grantee_email :: "string \<Rightarrow> server \<Rightarrow> EmergencyAccess option" where
  "find_invited_by_grantee_email email s =
     tbl_first (\<lambda>x. ea_email x = Some email \<and> ea_status x = ea_st EaInvited) (emergency_accesses s)"

definition find_all_invited_by_grantee_email :: "string \<Rightarrow> server \<Rightarrow> EmergencyAccess list" where
  "find_all_invited_by_grantee_email email s =
     tbl_select (\<lambda>x. ea_email x = Some email \<and> ea_status x = ea_st EaInvited) (emergency_accesses s)"

definition find_all_by_grantor_uuid :: "UserId \<Rightarrow> server \<Rightarrow> EmergencyAccess list" where
  "find_all_by_grantor_uuid grantor s = tbl_select (\<lambda>x. ea_grantor_uuid x = grantor) (emergency_accesses s)"

definition find_all_confirmed_by_grantor_uuid :: "UserId \<Rightarrow> server \<Rightarrow> EmergencyAccess list" where
  "find_all_confirmed_by_grantor_uuid grantor s =
     tbl_select (\<lambda>x. ea_grantor_uuid x = grantor \<and> ea_st EaConfirmed \<le> ea_status x) (emergency_accesses s)"

definition EmergencyAccess_delete_all_by_user :: "env \<Rightarrow> UserId \<Rightarrow> server \<Rightarrow> server" where
  "EmergencyAccess_delete_all_by_user E user s =
     (let s = fold (EmergencyAccess_delete E) (find_all_by_grantor_uuid user s) s
      in fold (EmergencyAccess_delete E) (find_all_by_grantee_uuid user s) s)"

definition EmergencyAccess_delete_all_by_grantee_email :: "env \<Rightarrow> string \<Rightarrow> server \<Rightarrow> server" where
  "EmergencyAccess_delete_all_by_grantee_email E email s =
     fold (EmergencyAccess_delete E) (find_all_invited_by_grantee_email email s) s"

definition EmergencyAccess_accept_invite ::
  "env \<Rightarrow> UserId \<Rightarrow> string \<Rightarrow> EmergencyAccess \<Rightarrow> (server, EmergencyAccess) act" where
  "EmergencyAccess_accept_invite E grantee email ea =
     act_seq (err_if (ea_email ea = None \<or> the (ea_email ea) \<noteq> email) ''User email does not match invite.'')
     (act_seq (err_if (ea_status ea = ea_st EaAccepted) ''Emergency contact already accepted.'')
     (act_run (EmergencyAccess_save E (ea\<lparr>ea_status := ea_st EaAccepted,
        ea_grantee_uuid := Some grantee, ea_email := None\<rparr>))))"

definition to_json_grantor_details :: "EmergencyAccess \<Rightarrow> (server, json) act" where
  "to_json_grantor_details ea =
     act_bind (act_get (User_find_by_uuid (ea_grantor_uuid ea))) (\<lambda>u.
     act_bind (expect ''Grantor user not found.'' u) (\<lambda>u.
     act_ret (ea_details ea ''grantorId'' u ''emergencyAccessGrantorDetails'')))"

text \<open>An invitation without a user behind its e-mail is removed on the way.\<close>

definition to_json_grantee_details :: "env \<Rightarrow> EmergencyAccess \<Rightarrow> (server, json option) act" where
  "to_json_grantee_details E ea =
     (case ea_grantee_uuid ea of
        Some grantee \<Rightarrow>
          act_bind (act_get (User_find_by_uuid grantee)) (\<lambda>u.
          act_bind (expect ''Grantee user not found.'' u) (\<lambda>u.
          act_ret (Some (ea_details ea ''granteeId'' u ''emergencyAccessGranteeDetails''))))
      | None \<Rightarrow>
          (case ea_email ea of
             None \<Rightarrow> act_ret None
           | Some email \<Rightarrow>
               act_bind (act_get (User_find_by_mail E email)) (\<lambda>u.
               case u of
                 Some u \<Rightarrow> act_ret (Some (ea_details ea ''granteeId'' u ''emergencyAccessGranteeDetails''))
               | None \<Rightarrow>
                   act_seq (act_upd (EmergencyAccess_delete_all_by_grantee_email E email)) (act_ret None))))"

section \<open>Invitation mail\<close>

definition generate_emergency_access_invite_claims ::
  "env \<Rightarrow> UserId \<Rightarrow> string \<Rightarrow> EmergencyAccessId \<Rightarrow> string \<Rightarrow> string
   \<Rightarrow> (server, EmergencyAccessInviteJwtClaims) act" where
  "generate_emergency_access_invite_claims E user email emer_id grantor_name grantor_email =
     act_bind (act_run (utc_now E)) (\<lambda>now.
     act_bind (expect ''called `Option::unwrap()` on a `None` value''
       (try_hours (int (invitation_expiration_hours (conf E))))) (\<lambda>delta.
     act_bind (expect ''`DateTime + TimeDelta` overflowed'' (naive_add now delta)) (\<lambda>exp.
     act_ret \<lparr>ec_nbf = timestamp now, ec_exp = timestamp exp,
       ec_iss = domain_origin (conf E) @ ''|emergencyaccessinvite'', ec_sub = user, ec_email = email,
       ec_emer_id = emer_id, ec_grantor_name = grantor_name, ec_grantor_email = grantor_email\<rparr>)))"

definition send_emergency_access_invite ::
  "env \<Rightarrow> string \<Rightarrow> UserId \<Rightarrow> EmergencyAccessId \<Rightarrow> string \<Rightarrow> string \<Rightarrow> (server, unit) act" where
  "send_emergency_access_invite E address user emer_id grantor_name grantor_email =
     act_bind (generate_emergency_access_invite_claims E user address emer_id grantor_name grantor_email)
       (\<lambda>claims. send_mail E (EmergencyInvite address claims))"

end
