(* ===== verification/EmergencyApi.thy ===== *)
theory EmergencyApi
  imports Emergency
begin

text \<open>
  The handlers and jobs of \<open>server/src/api/core/emergency_access.rs\<close>. A grantor invites a contact,
  who accepts; the grantor confirms; the contact may then initiate a recovery, which the grantor
  approves or rejects and which a job approves once the waiting time is over. An approved contact
  may take the account over. The signed-in user of a request (\<open>headers.user\<close>) is the argument \<open>hu\<close>.
  Every handler that changes state and both jobs are here; of the read-only ones only
  \<open>view_emergency_access\<close>, which renders the grantor's ciphers, is not.
\<close>

abbreviation unwrap_msg :: string where
  "unwrap_msg \<equiv> ''called `Option::unwrap()` on a `None` value''"

section \<open>Guards\<close>

definition check_emergency_access_enabled :: "env \<Rightarrow> (server, unit) act" where
  "check_emergency_access_enabled E =
     err_if (\<not> emergency_access_allowed (conf E)) ''Emergency access is not enabled.''"

definition is_valid_request :: "EmergencyAccess \<Rightarrow> UserId \<Rightarrow> EmergencyAccessType \<Rightarrow> bool" where
  "is_valid_request ea user t \<longleftrightarrow>
     ea_grantee_uuid ea \<noteq> None \<and> the (ea_grantee_uuid ea) = user
     \<and> ea_status ea = ea_st EaRecoveryApproved \<and> ea_atype ea = EmergencyAccessType_i32 t"

section \<open>Queries\<close>

definition json_list :: "json list \<Rightarrow> json" where
  "json_list xs = JObj [(''data'', JArr xs), (''object'', JStr ''list''), (''continuationToken'', JNull)]"

text \<open>A loop that collects results.\<close>

fun act_collect :: "('x \<Rightarrow> (server, 'y option) act) \<Rightarrow> 'x list \<Rightarrow> (server, 'y list) act" where
  "act_collect f [] = act_ret []"
| "act_collect f (x # xs) =
     act_bind (f x) (\<lambda>y. act_bind (act_collect f xs) (\<lambda>ys.
       act_ret (case y of None \<Rightarrow> ys | Some v \<Rightarrow> v # ys)))"

definition get_contacts :: "env \<Rightarrow> User \<Rightarrow> (server, json) act" where
  "get_contacts E hu =
     act_bind (act_get (\<lambda>s. if emergency_access_allowed (conf E) then find_all_by_grantor_uuid (u_uuid hu) s else []))
       (\<lambda>eas.
     act_bind (act_collect (to_json_grantee_details E) eas) (\<lambda>js. act_ret (json_list js)))"

definition get_grantees :: "env \<Rightarrow> User \<Rightarrow> (server, json) act" where
  "get_grantees E hu =
     act_bind (act_get (\<lambda>s. if emergency_access_allowed (conf E) then find_all_by_grantee_uuid (u_uuid hu) s else []))
       (\<lambda>eas.
     act_bind (act_collect (\<lambda>ea. act_bind (to_json_grantor_details ea) (\<lambda>j. act_ret (Some j))) eas) (\<lambda>js.
     act_ret (json_list js)))"

definition get_emergency_access :: "env \<Rightarrow> EmergencyAccessId \<Rightarrow> User \<Rightarrow> (server, json) act" where
  "get_emergency_access E emer_id hu =
     act_seq (check_emergency_access_enabled E)
     (act_bind (act_get (find_by_uuid_and_grantor_uuid emer_id (u_uuid hu))) (\<lambda>x.
      act_bind (some_or ''Emergency access not valid.'' x) (\<lambda>ea.
      act_bind (to_json_grantee_details E ea) (\<lambda>j.
      expect ''Grantee user should exist but does not!'' j))))"

section \<open>Editing and deleting\<close>

record EmergencyAccessUpdateData =
  eu_type :: NumberOrString
  eu_wait_time_days :: int
  eu_key_encrypted :: "string option"

definition post_emergency_access ::
  "env \<Rightarrow> EmergencyAccessId \<Rightarrow> EmergencyAccessUpdateData \<Rightarrow> User \<Rightarrow> (server, json) act" where
  "post_emergency_access E emer_id data hu =
     act_seq (check_emergency_access_enabled E)
     (act_bind (act_get (find_by_uuid_and_grantor_uuid emer_id (u_uuid hu))) (\<lambda>x.
      act_bind (some_or ''Emergency access not valid.'' x) (\<lambda>ea.
      act_bind (some_or ''Invalid emergency access type.''
        (EmergencyAccessType_from_str (NumberOrString_into_string (eu_type data)))) (\<lambda>new_type.
      let ea = ea\<lparr>ea_atype := EmergencyAccessType_i32 new_type, ea_wait_time_days := eu_wait_time_days data\<rparr>;
          ea = (if eu_key_encrypted data \<noteq> None then ea\<lparr>ea_key_encrypted := eu_key_encrypted data\<rparr> else ea) in
      act_bind (act_run (EmergencyAccess_save E ea)) (\<lambda>ea. act_ret (EmergencyAccess_to_json ea))))))"

definition put_emergency_access ::
  "env \<Rightarrow> EmergencyAccessId \<Rightarrow> EmergencyAccessUpdateData \<Rightarrow> User \<Rightarrow> (server, json) act" where
  "put_emergency_access E emer_id data hu = post_emergency_access E emer_id data hu"

definition delete_emergency_access :: "env \<Rightarrow> EmergencyAccessId \<Rightarrow> User \<Rightarrow> (server, unit) act" where
  "delete_emergency_access E emer_id hu =
     act_seq (check_emergency_access_enabled E)
     (act_bind (act_get (\<lambda>s. (find_by_uuid_and_grantor_uuid emer_id (u_uuid hu) s,
                              find_by_uuid_and_grantee_uuid emer_id (u_uuid hu) s))) (\<lambda>p.
      act_bind (case p of
          (Some grantor_emer, None) \<Rightarrow> act_ret grantor_emer
        | (None, Some grantee_emer) \<Rightarrow> act_ret grantee_emer
        | _ \<Rightarrow> act_err (Api ''Emergency access not valid.'')) (\<lambda>ea.
      act_upd (EmergencyAccess_delete E ea))))"

definition post_delete_emergency_access :: "env \<Rightarrow> EmergencyAccessId \<Rightarrow> User \<Rightarrow> (server, unit) act" where
  "post_delete_emergency_access E emer_id hu = delete_emergency_access E emer_id hu"

section \<open>Inviting and accepting\<close>

record EmergencyAccessInviteData =
  ei_email :: string
  ei_type :: NumberOrString
  ei_wait_time_days :: int

text \<open>The contact of an invitation: an existing user, or a new one without a password.\<close>

definition invite_grantee :: "env \<Rightarrow> string \<Rightarrow> (server, User \<times> bool) act" where
  "invite_grantee E email =
     act_bind (act_get (User_find_by_mail E email)) (\<lambda>u.
     case u of
       None \<Rightarrow>
         act_seq (err_if (\<not> invitations_allowed (conf E)) (''Grantee user does not exist: '' @ email))
         (act_seq (err_if (\<not> is_email_domain_allowed E email) ''Email domain not eligible for invitations'')
         (act_seq (act_when (\<not> mail_enabled (conf E)) (Invitation_save E (Invitation_new E email)))
         (act_bind (act_run (User_new E email None)) (\<lambda>user.
          act_bind (User_save E user) (\<lambda>user. act_ret (user, True))))))
     | Some user \<Rightarrow> act_ret (user, u_password_hash user = []))"

text \<open>The second half of the invitation: the row is stored, then mailed or accepted at once.\<close>

definition record_invite ::
  "env \<Rightarrow> EmergencyAccessInviteData \<Rightarrow> EmergencyAccessType \<Rightarrow> string \<Rightarrow> User \<Rightarrow> bool \<Rightarrow> User \<Rightarrow> (server, unit) act" where
  "record_invite E data new_type email grantee new_user hu =
     act_bind (act_get (find_by_grantor_uuid_and_grantee_uuid_or_email (u_uuid hu) (u_uuid grantee) (u_email grantee)))
       (\<lambda>existing.
     act_seq (err_if (existing \<noteq> None) (''Grantee user already invited: '' @ u_email grantee))
     (act_bind (act_run (EmergencyAccess_new E (u_uuid hu) (u_email grantee) (ea_st EaInvited)
         (EmergencyAccessType_i32 new_type) (ei_wait_time_days data))) (\<lambda>ea.
      act_bind (act_run (EmergencyAccess_save E ea)) (\<lambda>ea.
      if mail_enabled (conf E)
      then act_bind (expect ''Grantee email does not exists'' (ea_email ea)) (\<lambda>addr.
           send_emergency_access_invite E addr (u_uuid grantee) (ea_uuid ea) (u_name hu) (u_email hu))
      else act_when (\<not> new_user)
           (act_bind (EmergencyAccess_accept_invite E (u_uuid grantee) email ea) (\<lambda>_. act_ret ()))))))"

definition send_invite :: "env \<Rightarrow> EmergencyAccessInviteData \<Rightarrow> User \<Rightarrow> (server, unit) act" where
  "send_invite E data hu =
     act_seq (check_emergency_access_enabled E)
     (let email = lowercase_of E (ei_email data) in
      act_bind (some_or ''Invalid emergency access type.''
        (EmergencyAccessType_from_str (NumberOrString_into_string (ei_type data)))) (\<lambda>new_type.
      act_seq (err_if (email = u_email hu) ''You can not set yourself as an emergency contact.'')
      (act_bind (invite_grantee E email) (\<lambda>(grantee, new_user).
       record_invite E data new_type email grantee new_user hu))))"

definition resend_invite :: "env \<Rightarrow> EmergencyAccessId \<Rightarrow> User \<Rightarrow> (server, unit) act" where
  "resend_invite E emer_id hu =
     act_seq (check_emergency_access_enabled E)
     (act_bind (act_get (find_by_uuid_and_grantor_uuid emer_id (u_uuid hu))) (\<lambda>x.
      act_bind (some_or ''Emergency access not valid.'' x) (\<lambda>ea.
      act_seq (err_if (ea_status ea \<noteq> ea_st EaInvited)
        ''The grantee user is already accepted or confirmed to the organization'')
      (act_bind (some_or ''Email not valid.'' (ea_email ea)) (\<lambda>email.
       act_bind (act_get (User_find_by_mail E email)) (\<lambda>u.
       act_bind (some_or ''Grantee user not found.'' u) (\<lambda>grantee.
       if mail_enabled (conf E)
       then send_emergency_access_invite E email (u_uuid hu) (ea_uuid ea) (u_name hu) (u_email hu)
       else if u_password_hash grantee \<noteq> []
       then act_bind (EmergencyAccess_accept_invite E (u_uuid grantee) email ea) (\<lambda>_. act_ret ())
       else act_bind (act_get (Invitation_find_by_mail E email)) (\<lambda>i.
            act_when (invitations_allowed (conf E) \<and> i = None) (Invitation_save E (Invitation_new E email))))))))))"

text \<open>\<open>auth.rs\<close>: the token is verified by the JWT crate against the server's key and the issuer.\<close>

definition decode_emergency_access_invite :: "env \<Rightarrow> string \<Rightarrow> (server, EmergencyAccessInviteJwtClaims) act" where
  "decode_emergency_access_invite E token s =
     (case jwt_emergency E (tick s) token of
        Inl e \<Rightarrow> (Inl (Api e), bump s)
      | Inr claims \<Rightarrow> (Inr claims, bump s))"

definition accept_invite :: "env \<Rightarrow> EmergencyAccessId \<Rightarrow> string \<Rightarrow> User \<Rightarrow> (server, unit) act" where
  "accept_invite E emer_id token hu =
     act_seq (check_emergency_access_enabled E)
     (act_bind (decode_emergency_access_invite E token) (\<lambda>claims.
      act_seq (err_if (ec_email claims \<noteq> u_email hu) ''Claim email does not match current users email'')
      (act_bind (act_get (User_find_by_mail E (ec_email claims))) (\<lambda>u.
       act_bind (some_or ''Invited user not found'' u) (\<lambda>grantee.
       act_bind (act_run (Invitation_take E (ec_email claims))) (\<lambda>_.
       act_bind (act_get (find_by_uuid_and_grantee_email emer_id (u_email hu))) (\<lambda>x.
       act_bind (some_or ''Emergency access not valid.'' x) (\<lambda>ea.
       act_bind (act_get (User_find_by_uuid (ea_grantor_uuid ea))) (\<lambda>g.
       act_bind (some_or ''Grantor user not found.'' g) (\<lambda>grantor.
       if emer_id = ec_emer_id claims \<and> u_name grantor = ec_grantor_name claims
          \<and> u_email grantor = ec_grantor_email claims
       then act_bind (EmergencyAccess_accept_invite E (u_uuid grantee) (u_email grantee) ea) (\<lambda>_.
            act_when (mail_enabled (conf E))
              (send_mail E (EmergencyInviteAccepted (u_email grantor) (u_email grantee))))
       else act_err (Api ''Emergency access invitation error.'')))))))))))"

definition confirm_emergency_access :: "env \<Rightarrow> EmergencyAccessId \<Rightarrow> string \<Rightarrow> User \<Rightarrow> (server, json) act" where
  "confirm_emergency_access E emer_id key hu =
     act_seq (check_emergency_access_enabled E)
     (act_bind (act_get (find_by_uuid_and_grantor_uuid emer_id (u_uuid hu))) (\<lambda>x.
      act_bind (some_or ''Emergency access not valid.'' x) (\<lambda>ea.
      act_seq (err_if (ea_status ea \<noteq> ea_st EaAccepted \<or> ea_grantor_uuid ea \<noteq> u_uuid hu)
        ''Emergency access not valid.'')
      (act_bind (act_get (User_find_by_uuid (u_uuid hu))) (\<lambda>g.
       act_bind (some_or ''Grantor user not found.'' g) (\<lambda>grantor.
       act_bind (some_or ''Grantee user not found.'' (ea_grantee_uuid ea)) (\<lambda>grantee_uuid.
       act_bind (act_get (User_find_by_uuid grantee_uuid)) (\<lambda>u.
       act_bind (some_or ''Grantee user not found.'' u) (\<lambda>grantee.
       act_bind (act_run (EmergencyAccess_save E (ea\<lparr>ea_status := ea_st EaConfirmed,
           ea_key_encrypted := Some key, ea_email := None\<rparr>))) (\<lambda>ea.
       act_seq (act_when (mail_enabled (conf E))
           (send_mail E (EmergencyInviteConfirmed (u_email grantee) (u_name grantor))))
       (act_ret (EmergencyAccess_to_json ea))))))))))))"

section \<open>Recovery\<close>

definition initiate_emergency_access :: "env \<Rightarrow> EmergencyAccessId \<Rightarrow> User \<Rightarrow> (server, json) act" where
  "initiate_emergency_access E emer_id hu =
     act_seq (check_emergency_access_enabled E)
     (act_bind (act_get (find_by_uuid_and_grantee_uuid emer_id (u_uuid hu))) (\<lambda>x.
      act_bind (some_or ''Emergency access not valid.'' x) (\<lambda>ea.
      act_seq (err_if (ea_status ea \<noteq> ea_st EaConfirmed) ''Emergency access not valid.'')
      (act_bind (act_get (User_find_by_uuid (ea_grantor_uuid ea))) (\<lambda>g.
       act_bind (some_or ''Grantor user not found.'' g) (\<lambda>grantor.
       act_bind (act_run (utc_now E)) (\<lambda>now.
       act_bind (act_run (EmergencyAccess_save E (ea\<lparr>ea_status := ea_st EaRecoveryInitiated,
           ea_updated_at := now, ea_recovery_initiated_at := Some now,
           ea_last_notification_at := Some now\<rparr>))) (\<lambda>ea.
       act_seq (act_when (mail_enabled (conf E))
           (send_mail E (EmergencyRecoveryInitiated (u_email grantor) (u_name hu) (get_type_as_str ea)
              (ea_wait_time_days ea))))
       (act_ret (EmergencyAccess_to_json ea))))))))))"

definition approve_emergency_access :: "env \<Rightarrow> EmergencyAccessId \<Rightarrow> User \<Rightarrow> (server, json) act" where
  "approve_emergency_access E emer_id hu =
     act_seq (check_emergency_access_enabled E)
     (act_bind (act_get (find_by_uuid_and_grantor_uuid emer_id (u_uuid hu))) (\<lambda>x.
      act_bind (some_or ''Emergency access not valid.'' x) (\<lambda>ea.
      act_seq (err_if (ea_status ea \<noteq> ea_st EaRecoveryInitiated) ''Emergency access not valid.'')
      (act_bind (act_get (User_find_by_uuid (u_uuid hu))) (\<lambda>g.
       act_bind (some_or ''Grantor user not found.'' g) (\<lambda>grantor.
       act_bind (some_or ''Grantee user not found.'' (ea_grantee_uuid ea)) (\<lambda>grantee_uuid.
       act_bind (act_get (User_find_by_uuid grantee_uuid)) (\<lambda>u.
       act_bind (some_or ''Grantee user not found.'' u) (\<lambda>grantee.
       act_bind (act_run (EmergencyAccess_save E (ea\<lparr>ea_status := ea_st EaRecoveryApproved\<rparr>))) (\<lambda>ea.
       act_seq (act_when (mail_enabled (conf E))
           (send_mail E (EmergencyRecoveryApproved (u_email grantee) (u_name grantor))))
       (act_ret (EmergencyAccess_to_json ea))))))))))))"

definition reject_emergency_access :: "env \<Rightarrow> EmergencyAccessId \<Rightarrow> User \<Rightarrow> (server, json) act" where
  "reject_emergency_access E emer_id hu =
     act_seq (check_emergency_access_enabled E)
     (act_bind (act_get (find_by_uuid_and_grantor_uuid emer_id (u_uuid hu))) (\<lambda>x.
      act_bind (some_or ''Emergency access not valid.'' x) (\<lambda>ea.
      act_seq (err_if (ea_status ea \<noteq> ea_st EaRecoveryInitiated \<and> ea_status ea \<noteq> ea_st EaRecoveryApproved)
        ''Emergency access not valid.'')
      (act_bind (some_or ''Grantee user not found.'' (ea_grantee_uuid ea)) (\<lambda>grantee_uuid.
       act_bind (act_get (User_find_by_uuid grantee_uuid)) (\<lambda>u.
       act_bind (some_or ''Grantee user not found.'' u) (\<lambda>grantee.
       act_bind (act_run (EmergencyAccess_save E (ea\<lparr>ea_status := ea_st EaConfirmed\<rparr>))) (\<lambda>ea.
       act_seq (act_when (mail_enabled (conf E))
           (send_mail E (EmergencyRecoveryRejected (u_email grantee) (u_name hu))))
       (act_ret (EmergencyAccess_to_json ea))))))))))"

section \<open>Takeover\<close>

definition takeover_emergency_access :: "env \<Rightarrow> EmergencyAccessId \<Rightarrow> User \<Rightarrow> (server, json) act" where
  "takeover_emergency_access E emer_id hu =
     act_seq (check_emergency_access_enabled E)
     (act_bind (act_get (find_by_uuid_and_grantee_uuid emer_id (u_uuid hu))) (\<lambda>x.
      act_bind (some_or ''Emergency access not valid.'' x) (\<lambda>ea.
      act_seq (err_if (\<not> is_valid_request ea (u_uuid hu) Takeover) ''Emergency access not valid.'')
      (act_bind (act_get (User_find_by_uuid (ea_grantor_uuid ea))) (\<lambda>g.
       act_bind (some_or ''Grantor user not found.'' g) (\<lambda>grantor.
       act_ret (JObj [(''kdf'', JInt (u_client_kdf_type grantor)),
         (''kdfIterations'', JInt (u_client_kdf_iter grantor)),
         (''kdfMemory'', json_opt_int (u_client_kdf_memory grantor)),
         (''kdfParallelism'', json_opt_int (u_client_kdf_parallelism grantor)),
         (''keyEncrypted'', json_opt (ea_key_encrypted ea)),
         (''object'', JStr ''emergencyAccessTakeover'')])))))))"

record EmergencyAccessPasswordData =
  ep_new_master_password_hash :: string
  ep_key :: string

text \<open>The second half of the takeover: second factors and memberships of the grantor.\<close>

definition takeover_cleanup :: "env \<Rightarrow> User \<Rightarrow> (server, unit) act" where
  "takeover_cleanup E grantor =
     act_seq (act_upd (TwoFactor_delete_all_by_user (u_uuid grantor)))
     (act_bind (act_get (Membership_find_any_state_by_user (u_uuid grantor))) (\<lambda>members.
      act_for members (\<lambda>m. act_when (m_atype m \<noteq> MembershipType_i32 Owner)
        (act_upd (Membership_delete E m)))))"

definition password_emergency_access ::
  "env \<Rightarrow> EmergencyAccessId \<Rightarrow> EmergencyAccessPasswordData \<Rightarrow> User \<Rightarrow> (server, unit) act" where
  "password_emergency_access E emer_id data hu =
     act_seq (check_emergency_access_enabled E)
     (act_bind (act_get (find_by_uuid_and_grantee_uuid emer_id (u_uuid hu))) (\<lambda>x.
      act_bind (some_or ''Emergency access not valid.'' x) (\<lambda>ea.
      act_seq (err_if (\<not> is_valid_request ea (u_uuid hu) Takeover) ''Emergency access not valid.'')
      (act_bind (act_get (User_find_by_uuid (ea_grantor_uuid ea))) (\<lambda>g.
       act_bind (some_or ''Grantor user not found.'' g) (\<lambda>grantor.
       act_bind (set_password E (ep_new_master_password_hash data) (Some (ep_key data)) True None grantor) (\<lambda>grantor.
       act_bind (User_save E grantor) (\<lambda>grantor.
       takeover_cleanup E grantor))))))))"

definition OrgPolicy_find_confirmed_by_user :: "UserId \<Rightarrow> server \<Rightarrow> OrgPolicy list" where
  "OrgPolicy_find_confirmed_by_user user s =
     [p. p \<leftarrow> org_policies s, m \<leftarrow> users_organizations s,
         m_org_uuid m = op_org_uuid p, m_user_uuid m = user, m_status m = MembershipStatus_i32 Confirmed]"

definition OrgPolicy_to_json :: "env \<Rightarrow> OrgPolicy \<Rightarrow> json" where
  "OrgPolicy_to_json E p = JObj
     ([(''id'', JStr (op_uuid p)), (''organizationId'', JStr (op_org_uuid p)), (''type'', JInt (op_atype p)),
       (''data'', case json_parse E (op_data p) of None \<Rightarrow> JNull | Some j \<Rightarrow> j),
       (''enabled'', JBool (op_enabled p)), (''object'', JStr ''policy'')]
      @ (if op_atype p = 8 then [(''canToggleState'', JBool True)] else []))"

definition policies_emergency_access :: "env \<Rightarrow> EmergencyAccessId \<Rightarrow> User \<Rightarrow> (server, json) act" where
  "policies_emergency_access E emer_id hu =
     act_bind (act_get (find_by_uuid_and_grantee_uuid emer_id (u_uuid hu))) (\<lambda>x.
     act_bind (some_or ''Emergency access not valid.'' x) (\<lambda>ea.
     act_seq (err_if (\<not> is_valid_request ea (u_uuid hu) Takeover) ''Emergency access not valid.'')
     (act_bind (act_get (User_find_by_uuid (ea_grantor_uuid ea))) (\<lambda>g.
      act_bind (some_or ''Grantor user not found.'' g) (\<lambda>grantor.
      act_bind (act_get (OrgPolicy_find_confirmed_by_user (u_uuid grantor))) (\<lambda>policies.
      act_ret (json_list (map (OrgPolicy_to_json E) policies))))))))"

section \<open>Jobs\<close>

definition timeout_one :: "env \<Rightarrow> time \<Rightarrow> EmergencyAccess \<Rightarrow> (server, unit) act" where
  "timeout_one E now emer =
     act_bind (expect unwrap_msg (ea_recovery_initiated_at emer)) (\<lambda>initiated.
     act_bind (expect unwrap_msg (try_days (ea_wait_time_days emer))) (\<lambda>days.
     act_bind (expect ''`NaiveDateTime + TimeDelta` overflowed'' (naive_add initiated days)) (\<lambda>allowed_at.
     act_when (allowed_at \<le> now)
       (act_bind (expect_ok ''Unable to update emergency access status''
          (update_access_status_and_save E (ea_st EaRecoveryApproved) now emer)) (\<lambda>emer.
        act_when (mail_enabled (conf E))
          (act_bind (act_get (User_find_by_uuid (ea_grantor_uuid emer))) (\<lambda>g.
           act_bind (expect ''Grantor user not found'' g) (\<lambda>grantor.
           act_bind (expect ''Grantee user invalid'' (ea_grantee_uuid emer)) (\<lambda>grantee_uuid.
           act_bind (act_get (User_find_by_uuid grantee_uuid)) (\<lambda>u.
           act_bind (expect ''Grantee user not found'' u) (\<lambda>grantee.
           act_seq (expect_ok ''Error on sending email''
             (send_mail E (EmergencyRecoveryTimedOut (u_email grantor) (u_name grantee) (get_type_as_str emer))))
           (expect_ok ''Error on sending email''
             (send_mail E (EmergencyRecoveryApproved (u_email grantee) (u_name grantor)))))))))))))))"

definition emergency_request_timeout_job :: "env \<Rightarrow> (server, unit) act" where
  "emergency_request_timeout_job E =
     (if \<not> emergency_access_allowed (conf E) then act_ret ()
      else act_bind (act_get find_all_recoveries_initiated) (\<lambda>eas.
           act_bind (act_run (utc_now E)) (\<lambda>now.
           act_for eas (timeout_one E now))))"

definition reminder_one :: "env \<Rightarrow> time \<Rightarrow> EmergencyAccess \<Rightarrow> (server, unit) act" where
  "reminder_one E now emer =
     act_bind (expect unwrap_msg (ea_recovery_initiated_at emer)) (\<lambda>initiated.
     act_bind (expect unwrap_msg (try_days (i32_wrap (ea_wait_time_days emer - 1)))) (\<lambda>days.
     act_bind (expect ''`NaiveDateTime + TimeDelta` overflowed'' (naive_add initiated days)) (\<lambda>final_at.
     act_bind (case ea_last_notification_at emer of
         Some notified \<Rightarrow> act_bind (expect unwrap_msg (try_days 1)) (\<lambda>day.
           expect ''`NaiveDateTime + TimeDelta` overflowed'' (naive_add notified day))
       | None \<Rightarrow> act_ret now) (\<lambda>next_at.
     act_when (final_at \<le> now \<and> next_at \<le> now)
       (act_bind (act_run (update_last_notification_date_and_save now emer)) (\<lambda>emer.
        act_when (mail_enabled (conf E))
          (act_bind (act_get (User_find_by_uuid (ea_grantor_uuid emer))) (\<lambda>g.
           act_bind (expect ''Grantor user not found'' g) (\<lambda>grantor.
           act_bind (expect ''Grantee user invalid'' (ea_grantee_uuid emer)) (\<lambda>grantee_uuid.
           act_bind (act_get (User_find_by_uuid grantee_uuid)) (\<lambda>u.
           act_bind (expect ''Grantee user not found'' u) (\<lambda>grantee.
           expect_ok ''Error on sending email''
             (send_mail E (EmergencyRecoveryReminder (u_email grantor) (u_name grantee)
                (get_type_as_str emer) ''1''))))))))))))))"

definition emergency_notification_reminder_job :: "env \<Rightarrow> (server, unit) act" where
  "emergency_notification_reminder_job E =
     (if \<not> emergency_access_allowed (conf E) then act_ret ()
      else act_bind (act_get find_all_recoveries_initiated) (\<lambda>eas.
           act_bind (act_run (utc_now E)) (\<lambda>now.
           act_for eas (reminder_one E now))))"

end
