(* ===== verification/EmergencyLife.thy ===== *)
theory EmergencyLife
  imports EmergencyApi
begin

text \<open>
  The lifecycle of an emergency access. \<open>ea_request\<close> names every entry point that can touch the
  table and \<open>ea_exec\<close> runs it; \<open>ea_tr\<close> is the specification, a labelled transition relation on one
  (possibly absent) row. The lemmas \<open>tr_*\<close> show that each handler and job implements it; the
  invariant of the rows, the safety of approvals and the life cycle of the status follow from the
  specification alone.
\<close>

lemma wp_decode_invite [wp_simps]:
  "wp (decode_emergency_access_invite E token) Q R s =
     (case jwt_emergency E (tick s) token of Inl e \<Rightarrow> R (Api e) (bump s) | Inr c \<Rightarrow> Q c (bump s))"
  by (simp add: wp_def decode_emergency_access_invite_def split: sum.split)

section \<open>Requests\<close>

datatype ea_request =
    GetContacts User
  | GetGrantees User
  | GetOne EmergencyAccessId User
  | Edit EmergencyAccessId EmergencyAccessUpdateData User
  | Delete EmergencyAccessId User
  | Invite EmergencyAccessInviteData User
  | Resend EmergencyAccessId User
  | Accept EmergencyAccessId string User
  | Confirm EmergencyAccessId string User
  | Initiate EmergencyAccessId User
  | Approve EmergencyAccessId User
  | Reject EmergencyAccessId User
  | TakeoverInfo EmergencyAccessId User
  | TakeoverPassword EmergencyAccessId EmergencyAccessPasswordData User
  | TakeoverPolicies EmergencyAccessId User
  | TimeoutJob
  | ReminderJob

fun ea_exec :: "env \<Rightarrow> ea_request \<Rightarrow> server \<Rightarrow> server" where
  "ea_exec E (GetContacts hu) s = snd (get_contacts E hu s)"
| "ea_exec E (GetGrantees hu) s = snd (get_grantees E hu s)"
| "ea_exec E (GetOne i hu) s = snd (get_emergency_access E i hu s)"
| "ea_exec E (Edit i d hu) s = snd (put_emergency_access E i d hu s)"
| "ea_exec E (Delete i hu) s = snd (post_delete_emergency_access E i hu s)"
| "ea_exec E (Invite d hu) s = snd (send_invite E d hu s)"
| "ea_exec E (Resend i hu) s = snd (resend_invite E i hu s)"
| "ea_exec E (Accept i token hu) s = snd (accept_invite E i token hu s)"
| "ea_exec E (Confirm i k hu) s = snd (confirm_emergency_access E i k hu s)"
| "ea_exec E (Initiate i hu) s = snd (initiate_emergency_access E i hu s)"
| "ea_exec E (Approve i hu) s = snd (approve_emergency_access E i hu s)"
| "ea_exec E (Reject i hu) s = snd (reject_emergency_access E i hu s)"
| "ea_exec E (TakeoverInfo i hu) s = snd (takeover_emergency_access E i hu s)"
| "ea_exec E (TakeoverPassword i d hu) s = snd (password_emergency_access E i d hu s)"
| "ea_exec E (TakeoverPolicies i hu) s = snd (policies_emergency_access E i hu s)"
| "ea_exec E TimeoutJob s = snd (emergency_request_timeout_job E s)"
| "ea_exec E ReminderJob s = snd (emergency_notification_reminder_job E s)"

section \<open>The table\<close>

interpretation ea: row_store emergency_accesses ea_uuid
  "\<lambda>E s x. x\<lparr>ea_updated_at := clock E (Suc (tick s))\<rparr>"
  "\<lambda>E x s. snd (EmergencyAccess_save E x s)" EmergencyAccess_delete
  by unfold_locales (simp_all add: EmergencyAccess_save_def EmergencyAccess_delete_def utc_now_def Let_def)

definition row_at :: "EmergencyAccess list \<Rightarrow> EmergencyAccessId \<Rightarrow> EmergencyAccess option" where
  "row_at t i = tbl_first (\<lambda>x. ea_uuid x = i) t"

lemma save_rows [simp]:
  "emergency_accesses (snd (EmergencyAccess_save E x s)) =
     tbl_upsert ea_uuid (x\<lparr>ea_updated_at := clock E (Suc (tick s))\<rparr>) (emergency_accesses s)"
  by (rule ea.rows_put)

lemma save_row [simp]: "fst (EmergencyAccess_save E x s) = x\<lparr>ea_updated_at := clock E (Suc (tick s))\<rparr>"
  by (simp add: EmergencyAccess_save_def utc_now_def Let_def)

lemma save_frame [simp]:
  "tick (snd (EmergencyAccess_save E x s)) = Suc (Suc (tick s))"
  "outbox (snd (EmergencyAccess_save E x s)) = outbox s"
  by (simp_all add: EmergencyAccess_save_def utc_now_def Let_def)

lemma row_at_upsert:
  "keyed ea_uuid t \<Longrightarrow> row_at (tbl_upsert ea_uuid r t) i = (if i = ea_uuid r then Some r else row_at t i)"
  by (simp add: row_at_def tbl_first_upsert)

lemma row_at_delete:
  "keyed ea_uuid t \<Longrightarrow> row_at (tbl_delete P t) i =
    (case row_at t i of None \<Rightarrow> None | Some r \<Rightarrow> if P r then None else Some r)"
  by (simp add: row_at_def tbl_first_delete)

lemma row_at_mem: "row_at t i = Some r \<Longrightarrow> r \<in> set t \<and> ea_uuid r = i"
  by (auto simp: row_at_def dest: tbl_first_Some)

lemma find_grantor_row:
  "keyed ea_uuid (emergency_accesses s) \<Longrightarrow> find_by_uuid_and_grantor_uuid i g s = Some x \<longleftrightarrow>
     row_at (emergency_accesses s) i = Some x \<and> ea_grantor_uuid x = g"
  by (auto simp: find_by_uuid_and_grantor_uuid_def row_at_def tbl_first_key_and tbl_first_key)

lemma find_grantee_row:
  "keyed ea_uuid (emergency_accesses s) \<Longrightarrow> find_by_uuid_and_grantee_uuid i g s = Some x \<longleftrightarrow>
     row_at (emergency_accesses s) i = Some x \<and> ea_grantee_uuid x = Some g"
  by (auto simp: find_by_uuid_and_grantee_uuid_def row_at_def tbl_first_key_and tbl_first_key)

lemma find_email_row:
  "keyed ea_uuid (emergency_accesses s) \<Longrightarrow> find_by_uuid_and_grantee_email i m s = Some x \<longleftrightarrow>
     row_at (emergency_accesses s) i = Some x \<and> ea_email x = Some m"
  by (auto simp: find_by_uuid_and_grantee_email_def row_at_def tbl_first_key_and tbl_first_key)

lemmas find_rows = find_grantor_row find_grantee_row find_email_row

section \<open>The specification\<close>

text \<open>The waiting time of a recovery is over at \<open>now\<close>.\<close>

definition wait_over :: "time \<Rightarrow> EmergencyAccess \<Rightarrow> bool" where
  "wait_over now x \<longleftrightarrow> (\<exists>t. ea_recovery_initiated_at x = Some t
     \<and> t + ea_wait_time_days x * 86400 * NANOS \<le> now)"

text \<open>Two rows that agree up to the modification date.\<close>

definition upto :: "EmergencyAccess \<Rightarrow> EmergencyAccess \<Rightarrow> bool" where
  "upto x y \<longleftrightarrow> x\<lparr>ea_updated_at := 0\<rparr> = y\<lparr>ea_updated_at := 0\<rparr>"

text \<open>\<open>ea_tr now r x y\<close>: the request or job \<open>r\<close>, reading the clock \<open>now\<close>, may turn the row \<open>x\<close> into \<open>y\<close>.\<close>

inductive ea_tr :: "time \<Rightarrow> ea_request \<Rightarrow> EmergencyAccess option \<Rightarrow> EmergencyAccess option \<Rightarrow> bool"
  for now :: time and r :: ea_request where
  tr_same: "ea_tr now r x x"
| tr_stale: "r = GetContacts hu \<or> r = GetOne i hu \<Longrightarrow> ea_status x = ea_st EaInvited \<Longrightarrow>
    ea_email x \<noteq> None \<Longrightarrow> ea_tr now r (Some x) None"
| tr_edit: "r = Edit (ea_uuid x) d hu \<Longrightarrow> ea_grantor_uuid x = u_uuid hu \<Longrightarrow> ea_atype y \<in> {0, 1} \<Longrightarrow>
    upto y (x\<lparr>ea_atype := ea_atype y, ea_wait_time_days := eu_wait_time_days d,
      ea_key_encrypted := (if eu_key_encrypted d \<noteq> None then eu_key_encrypted d else ea_key_encrypted x)\<rparr>) \<Longrightarrow>
    ea_tr now r (Some x) (Some y)"
| tr_delete: "r = Delete (ea_uuid x) hu \<Longrightarrow>
    ea_grantor_uuid x = u_uuid hu \<or> ea_grantee_uuid x = Some (u_uuid hu) \<Longrightarrow> ea_tr now r (Some x) None"
| tr_invite: "r = Invite d hu \<Longrightarrow> ea_grantor_uuid y = u_uuid hu \<Longrightarrow> ea_atype y \<in> {0, 1} \<Longrightarrow>
    ea_wait_time_days y = ei_wait_time_days d \<Longrightarrow> ea_key_encrypted y = None \<Longrightarrow>
    ea_recovery_initiated_at y = None \<Longrightarrow>
    ea_status y = ea_st EaInvited \<and> ea_grantee_uuid y = None \<and> ea_email y \<noteq> None
    \<or> ea_status y = ea_st EaAccepted \<and> ea_grantee_uuid y \<noteq> None \<and> ea_email y = None \<Longrightarrow>
    ea_tr now r None (Some y)"
| tr_accept: "r = Accept (ea_uuid x) token hu \<and> ea_email x = Some (u_email hu)
    \<or> r = Resend (ea_uuid x) hu \<and> ea_grantor_uuid x = u_uuid hu \<and> ea_status x = ea_st EaInvited \<Longrightarrow>
    ea_email x \<noteq> None \<Longrightarrow> ea_status x \<noteq> ea_st EaAccepted \<Longrightarrow> ea_grantee_uuid y \<noteq> None \<Longrightarrow>
    upto y (x\<lparr>ea_grantee_uuid := ea_grantee_uuid y, ea_email := None, ea_status := ea_st EaAccepted\<rparr>) \<Longrightarrow>
    ea_tr now r (Some x) (Some y)"
| tr_confirm: "r = Confirm (ea_uuid x) k hu \<Longrightarrow> ea_grantor_uuid x = u_uuid hu \<Longrightarrow>
    ea_status x = ea_st EaAccepted \<Longrightarrow> ea_grantee_uuid x \<noteq> None \<Longrightarrow>
    upto y (x\<lparr>ea_email := None, ea_key_encrypted := Some k, ea_status := ea_st EaConfirmed\<rparr>) \<Longrightarrow>
    ea_tr now r (Some x) (Some y)"
| tr_initiate: "r = Initiate (ea_uuid x) hu \<Longrightarrow> ea_grantee_uuid x = Some (u_uuid hu) \<Longrightarrow>
    ea_status x = ea_st EaConfirmed \<Longrightarrow>
    upto y (x\<lparr>ea_status := ea_st EaRecoveryInitiated, ea_recovery_initiated_at := Some now,
      ea_last_notification_at := Some now\<rparr>) \<Longrightarrow>
    ea_tr now r (Some x) (Some y)"
| tr_approve: "r = Approve (ea_uuid x) hu \<Longrightarrow> ea_grantor_uuid x = u_uuid hu \<Longrightarrow>
    ea_status x = ea_st EaRecoveryInitiated \<Longrightarrow> ea_grantee_uuid x \<noteq> None \<Longrightarrow>
    upto y (x\<lparr>ea_status := ea_st EaRecoveryApproved\<rparr>) \<Longrightarrow> ea_tr now r (Some x) (Some y)"
| tr_reject: "r = Reject (ea_uuid x) hu \<Longrightarrow> ea_grantor_uuid x = u_uuid hu \<Longrightarrow>
    ea_status x = ea_st EaRecoveryInitiated \<or> ea_status x = ea_st EaRecoveryApproved \<Longrightarrow>
    ea_grantee_uuid x \<noteq> None \<Longrightarrow>
    upto y (x\<lparr>ea_status := ea_st EaConfirmed\<rparr>) \<Longrightarrow> ea_tr now r (Some x) (Some y)"
| tr_timeout: "r = TimeoutJob \<Longrightarrow> ea_status x = ea_st EaRecoveryInitiated \<Longrightarrow> wait_over now x \<Longrightarrow>
    upto y (x\<lparr>ea_status := ea_st EaRecoveryApproved\<rparr>) \<Longrightarrow> ea_tr now r (Some x) (Some y)"
| tr_remind: "r = ReminderJob \<Longrightarrow> ea_status x = ea_st EaRecoveryInitiated \<Longrightarrow>
    upto y (x\<lparr>ea_last_notification_at := Some now\<rparr>) \<Longrightarrow> ea_tr now r (Some x) (Some y)"

section \<open>The handlers implement the specification\<close>

text \<open>The clock reading of a job is the first external read of its run.\<close>

definition ea_ok :: "env \<Rightarrow> ea_request \<Rightarrow> server \<Rightarrow> server \<Rightarrow> bool" where
  "ea_ok E r s t \<longleftrightarrow> keyed ea_uuid (emergency_accesses t)
     \<and> (\<forall>i. ea_tr (clock E (tick s)) r (row_at (emergency_accesses s) i) (row_at (emergency_accesses t) i))"

lemma ea_ok_same: "keyed ea_uuid (emergency_accesses s) \<Longrightarrow> emergency_accesses t = emergency_accesses s \<Longrightarrow> ea_ok E r s t"
  by (simp add: ea_ok_def tr_same)

lemma ea_ok_upsert:
  assumes "keyed ea_uuid (emergency_accesses s)"
    and "emergency_accesses t = tbl_upsert ea_uuid y (emergency_accesses s)"
    and "ea_tr (clock E (tick s)) r (row_at (emergency_accesses s) (ea_uuid y)) (Some y)"
  shows "ea_ok E r s t"
  using assms by (auto simp: ea_ok_def row_at_upsert intro: tr_same)

lemma ea_ok_delete:
  assumes "keyed ea_uuid (emergency_accesses s)"
    and "emergency_accesses t = tbl_delete P (emergency_accesses s)"
    and "\<And>x. x \<in> set (emergency_accesses s) \<Longrightarrow> P x \<Longrightarrow> ea_tr (clock E (tick s)) r (Some x) None"
  shows "ea_ok E r s t"
  using assms by (auto simp: ea_ok_def row_at_delete tr_same dest: row_at_mem split: option.split)

lemma exec_wp: "wp m (\<lambda>_. P) (\<lambda>_. P) s \<Longrightarrow> P (snd (m s))"
  by (simp add: wp_snd)

lemma type_of_str: "EmergencyAccessType_i32 ty \<noteq> 0 \<Longrightarrow> EmergencyAccessType_i32 ty = 1"
  by (cases ty) simp_all

text \<open>The leaves of a handler: the row found under the id is saved back.\<close>

lemma ea_ok_row:
  assumes "keyed ea_uuid (emergency_accesses s)" "row_at (emergency_accesses s) i = Some x"
    and "emergency_accesses t = tbl_upsert ea_uuid y (emergency_accesses s)" "ea_uuid y = i"
    and "ea_uuid x = i \<Longrightarrow> ea_tr (clock E (tick s)) r (Some x) (Some y)"
  shows "ea_ok E r s t"
proof (rule ea_ok_upsert [OF assms(1,3)])
  have "ea_uuid x = i" using row_at_mem [OF assms(2)] by simp
  then show "ea_tr (clock E (tick s)) r (row_at (emergency_accesses s) (ea_uuid y)) (Some y)"
    using assms(2,4,5) by simp
qed

lemmas handler_simps = check_emergency_access_enabled_def wp_simps Let_def find_rows

lemma ok_edit:
  assumes k: "keyed ea_uuid (emergency_accesses s)"
  shows "ea_ok E (Edit i d hu) s (ea_exec E (Edit i d hu) s)"
  unfolding ea_exec.simps put_emergency_access_def post_emergency_access_def
  by (rule exec_wp)
    (auto simp: handler_simps k ea_ok_same upto_def
      intro!: ea_ok_row [OF k] tr_edit type_of_str split: option.splits dest: row_at_mem)

lemma ok_delete:
  assumes k: "keyed ea_uuid (emergency_accesses s)"
  shows "ea_ok E (Delete i hu) s (ea_exec E (Delete i hu) s)"
  unfolding ea_exec.simps post_delete_emergency_access_def delete_emergency_access_def
  by (rule exec_wp)
    (auto simp: handler_simps k ea_ok_same ea.rows_del
      intro!: ea_ok_delete [OF k] split: option.splits dest!: row_at_mem intro: tr_delete
      dest: keyed_unique [OF k])

lemma ok_confirm:
  assumes k: "keyed ea_uuid (emergency_accesses s)"
  shows "ea_ok E (Confirm i key hu) s (ea_exec E (Confirm i key hu) s)"
  unfolding ea_exec.simps confirm_emergency_access_def
  by (rule exec_wp)
    (auto simp: handler_simps k ea_ok_same upto_def
      intro!: ea_ok_row [OF k] tr_confirm split: option.splits dest: row_at_mem)

lemma ok_initiate:
  assumes k: "keyed ea_uuid (emergency_accesses s)"
  shows "ea_ok E (Initiate i hu) s (ea_exec E (Initiate i hu) s)"
  unfolding ea_exec.simps initiate_emergency_access_def
  by (rule exec_wp)
    (auto simp: handler_simps k ea_ok_same upto_def
      intro!: ea_ok_row [OF k] tr_initiate split: option.splits dest: row_at_mem)

lemma ok_approve:
  assumes k: "keyed ea_uuid (emergency_accesses s)"
  shows "ea_ok E (Approve i hu) s (ea_exec E (Approve i hu) s)"
  unfolding ea_exec.simps approve_emergency_access_def
  by (rule exec_wp)
    (auto simp: handler_simps k ea_ok_same upto_def
      intro!: ea_ok_row [OF k] tr_approve split: option.splits dest: row_at_mem)

lemma ok_reject:
  assumes k: "keyed ea_uuid (emergency_accesses s)"
  shows "ea_ok E (Reject i hu) s (ea_exec E (Reject i hu) s)"
  unfolding ea_exec.simps reject_emergency_access_def
  by (rule exec_wp)
    (auto simp: handler_simps k ea_ok_same upto_def
      intro!: ea_ok_row [OF k] tr_reject split: option.splits dest: row_at_mem)

lemma invitation_take_rows [simp]:
  "emergency_accesses (snd (Invitation_take E m s)) = emergency_accesses s"
  "users (snd (Invitation_take E m s)) = users s"
  by (simp_all add: Invitation_take_def Invitation_delete_def split: option.split)

lemma ok_accept:
  assumes k: "keyed ea_uuid (emergency_accesses s)"
  shows "ea_ok E (Accept i token hu) s (ea_exec E (Accept i token hu) s)"
  unfolding ea_exec.simps accept_invite_def
  by (rule exec_wp)
    (auto simp: handler_simps k ea_ok_same upto_def EmergencyAccess_accept_invite_def
      intro!: ea_ok_row [OF k] tr_accept split: option.splits sum.splits dest: row_at_mem)

lemma ok_resend:
  assumes k: "keyed ea_uuid (emergency_accesses s)"
  shows "ea_ok E (Resend i hu) s (ea_exec E (Resend i hu) s)"
  unfolding ea_exec.simps resend_invite_def
  by (rule exec_wp)
    (auto simp: handler_simps k ea_ok_same upto_def EmergencyAccess_accept_invite_def
      send_emergency_access_invite_def generate_emergency_access_invite_claims_def Invitation_save_def
      intro!: ea_ok_row [OF k] tr_accept split: option.splits sum.splits dest: row_at_mem)

subsection \<open>Inviting\<close>

text \<open>Random ids do not collide with the ids in the table.\<close>

definition fresh_ids :: "env \<Rightarrow> server \<Rightarrow> bool" where
  "fresh_ids E s \<longleftrightarrow> (\<forall>n. tick s \<le> n \<longrightarrow> row_at (emergency_accesses s) (uuid_at E n) = None)"

text \<open>Looking the contact up, or creating one, leaves the table alone.\<close>

lemma invite_grantee_wp:
  "wp (invite_grantee E email)
     (\<lambda>_ t. emergency_accesses t = emergency_accesses s \<and> tick s \<le> tick t)
     (\<lambda>_ t. emergency_accesses t = emergency_accesses s) s"
  by (auto simp: invite_grantee_def wp_simps Invitation_save_def User_new_def User_save_def Let_def
      get_random_bytes_def utc_now_def get_uuid_def split: option.split)

lemma send_invite_frame:
  assumes "\<And>t'. emergency_accesses t' = emergency_accesses t \<Longrightarrow> Q t'"
  shows "wp (send_emergency_access_invite E a u i n m) (\<lambda>_. Q) (\<lambda>_. Q) t"
  using assms
  by (simp add: send_emergency_access_invite_def generate_emergency_access_invite_claims_def wp_simps
      split: option.split)

text \<open>The row of an invitation and its accepted form.\<close>

definition invited_row :: "EmergencyAccess \<Rightarrow> User \<Rightarrow> EmergencyAccessInviteData \<Rightarrow> bool" where
  "invited_row y hu d \<longleftrightarrow> ea_grantor_uuid y = u_uuid hu \<and> ea_atype y \<in> {0, 1}
     \<and> ea_wait_time_days y = ei_wait_time_days d \<and> ea_key_encrypted y = None
     \<and> ea_recovery_initiated_at y = None \<and> ea_status y = ea_st EaInvited \<and> ea_grantee_uuid y = None
     \<and> ea_email y \<noteq> None"

lemma ok_invited:
  assumes "keyed ea_uuid (emergency_accesses s)" "fresh_ids E s" "tick s \<le> n"
    and "invited_row y hu d" "ea_uuid y = uuid_at E n"
    and "emergency_accesses t = tbl_upsert ea_uuid y (emergency_accesses s)"
  shows "ea_ok E (Invite d hu) s t"
proof (rule ea_ok_upsert [OF assms(1,6)])
  have "row_at (emergency_accesses s) (ea_uuid y) = None" using assms(2,3,5) by (simp add: fresh_ids_def)
  then show "ea_tr (clock E (tick s)) (Invite d hu) (row_at (emergency_accesses s) (ea_uuid y)) (Some y)"
    using assms(4) by (auto simp: invited_row_def intro!: tr_invite)
qed

lemma ok_invite_accepted:
  assumes "keyed ea_uuid (emergency_accesses s)" "fresh_ids E s" "tick s \<le> n"
    and "invited_row y hu d" "ea_uuid y = uuid_at E n"
    and "z = y\<lparr>ea_status := ea_st EaAccepted, ea_grantee_uuid := Some g, ea_email := None, ea_updated_at := c\<rparr>"
    and "emergency_accesses t = tbl_upsert ea_uuid z (tbl_upsert ea_uuid y (emergency_accesses s))"
  shows "ea_ok E (Invite d hu) s t"
proof -
  have "row_at (emergency_accesses s) (ea_uuid y) = None" using assms(2,3,5) by (simp add: fresh_ids_def)
  moreover have "ea_tr (clock E (tick s)) (Invite d hu) None (Some z)"
    using assms(4,6) by (auto simp: invited_row_def intro!: tr_invite)
  ultimately show ?thesis using assms(1,6,7)
    by (auto simp: ea_ok_def row_at_upsert keyed_upsert intro: tr_same)
qed

lemma record_invite_ok:
  assumes k: "keyed ea_uuid (emergency_accesses s)" and f: "fresh_ids E s"
    and t: "emergency_accesses t = emergency_accesses s" "tick s \<le> tick t"
  shows "wp (record_invite E d ty email g new hu) (\<lambda>_. ea_ok E (Invite d hu) s) (\<lambda>_. ea_ok E (Invite d hu) s) t"
proof -
  define x where "x = fst (EmergencyAccess_new E (u_uuid hu) (u_email g) (ea_st EaInvited)
    (EmergencyAccessType_i32 ty) (ei_wait_time_days d) t)"
  define t1 where "t1 = snd (EmergencyAccess_new E (u_uuid hu) (u_email g) (ea_st EaInvited)
    (EmergencyAccessType_i32 ty) (ei_wait_time_days d) t)"
  define y where "y = x\<lparr>ea_updated_at := clock E (Suc (tick t1))\<rparr>"
  have y: "invited_row y hu d" "ea_uuid y = uuid_at E (Suc (tick t))"
    by (auto simp: y_def x_def EmergencyAccess_new_def utc_now_def get_uuid_def invited_row_def
        intro: type_of_str)
  have t1: "emergency_accesses t1 = emergency_accesses s"
    using t by (simp add: t1_def EmergencyAccess_new_def utc_now_def get_uuid_def)
  have inv: "ea_ok E (Invite d hu) s t'" if "emergency_accesses t' = tbl_upsert ea_uuid y (emergency_accesses s)" for t'
    using that t ok_invited [OF k f _ y] by simp
  have "wp (EmergencyAccess_accept_invite E (u_uuid g) email y) (\<lambda>_. ea_ok E (Invite d hu) s)
      (\<lambda>_. ea_ok E (Invite d hu) s) (snd (EmergencyAccess_save E x t1))"
    using t
    by (auto simp: EmergencyAccess_accept_invite_def wp_simps inv t1 y_def [symmetric]
        intro!: ok_invite_accepted [OF k f _ y refl])
  then show ?thesis
    unfolding record_invite_def wp_simps x_def [symmetric] t1_def [symmetric]
    by (auto simp: ea_ok_same k t wp_simps y_def [symmetric] t1 intro!: inv send_invite_frame
        split: option.split)
qed

lemma ok_invite:
  assumes k: "keyed ea_uuid (emergency_accesses s)" and f: "fresh_ids E s"
  shows "ea_ok E (Invite d hu) s (ea_exec E (Invite d hu) s)"
proof -
  have "wp (invite_grantee E email) (\<lambda>a t. wp (case a of (g, new) \<Rightarrow> record_invite E d ty email g new hu)
      (\<lambda>_. ea_ok E (Invite d hu) s) (\<lambda>_. ea_ok E (Invite d hu) s) t) (\<lambda>_. ea_ok E (Invite d hu) s) s" for ty email
    by (rule wp_mono [OF invite_grantee_wp]) (auto intro: record_invite_ok [OF k f] ea_ok_same [OF k])
  then show ?thesis
    unfolding ea_exec.simps send_invite_def
    by - (rule exec_wp, auto simp: handler_simps ea_ok_same k split: option.split)
qed

subsection \<open>Queries\<close>

text \<open>Listing removes stale invitations only.\<close>

definition stale_removed :: "server \<Rightarrow> server \<Rightarrow> bool" where
  "stale_removed s t \<longleftrightarrow> keyed ea_uuid (emergency_accesses t) \<and>
     (\<exists>P. emergency_accesses t = tbl_delete P (emergency_accesses s) \<and>
       (\<forall>x \<in> set (emergency_accesses s). P x \<longrightarrow> ea_status x = ea_st EaInvited \<and> ea_email x \<noteq> None))"

lemma stale_refl: "keyed ea_uuid (emergency_accesses s) \<Longrightarrow> stale_removed s s"
  unfolding stale_removed_def by (auto intro!: exI [of _ "\<lambda>_. False"] simp: tbl_delete_def)

lemma stale_delete:
  assumes "stale_removed s t"
  shows "stale_removed s (EmergencyAccess_delete_all_by_grantee_email E m t)"
proof -
  from assms obtain P where k: "keyed ea_uuid (emergency_accesses t)"
    and P: "emergency_accesses t = tbl_delete P (emergency_accesses s)"
      "\<forall>x \<in> set (emergency_accesses s). P x \<longrightarrow> ea_status x = ea_st EaInvited \<and> ea_email x \<noteq> None"
    by (auto simp: stale_removed_def)
  let ?xs = "find_all_invited_by_grantee_email m t"
  let ?Q = "\<lambda>x. ea_uuid x \<in> ea_uuid ` set ?xs"
  have rows: "emergency_accesses (EmergencyAccess_delete_all_by_grantee_email E m t) = tbl_delete ?Q (emergency_accesses t)"
    by (simp add: EmergencyAccess_delete_all_by_grantee_email_def ea.del_all)
  have "x \<in> set ?xs" if "x \<in> set (emergency_accesses t)" "?Q x" for x
  proof -
    from that obtain y where y: "y \<in> set ?xs" "ea_uuid x = ea_uuid y" by auto
    then have "y \<in> set (emergency_accesses t)" by (simp add: find_all_invited_by_grantee_email_def)
    with that y show ?thesis using keyed_unique [OF k, of x y] by auto
  qed
  then have "\<forall>x\<in>set (emergency_accesses s). ?Q x \<or> P x \<longrightarrow> ea_status x = ea_st EaInvited \<and> ea_email x \<noteq> None"
    using P by (auto simp: find_all_invited_by_grantee_email_def)
  moreover have "tbl_delete ?Q (emergency_accesses t) = tbl_delete (\<lambda>x. ?Q x \<or> P x) (emergency_accesses s)"
    by (simp only: P(1) tbl_delete_delete)
  moreover have "keyed ea_uuid (tbl_delete ?Q (emergency_accesses t))" by (rule keyed_delete [OF k])
  ultimately show ?thesis unfolding stale_removed_def rows by (intro conjI exI [of _ "\<lambda>x. ?Q x \<or> P x"])
qed

lemma stale_ok: "keyed ea_uuid (emergency_accesses s) \<Longrightarrow> stale_removed s t \<Longrightarrow>
    r = GetContacts hu \<or> r = GetOne i hu \<Longrightarrow> ea_ok E r s t"
  unfolding stale_removed_def by (auto intro!: ea_ok_delete intro: tr_stale)

lemma grantee_details_wp:
  "stale_removed s t \<Longrightarrow> wp (to_json_grantee_details E x) (\<lambda>_. stale_removed s) (\<lambda>_. stale_removed s) t"
  by (auto simp: to_json_grantee_details_def wp_simps stale_delete split: option.split)

lemma wp_collect:
  assumes "I s" "\<And>x t. I t \<Longrightarrow> wp (f x) (\<lambda>_. I) (\<lambda>_. I) t"
  shows "wp (act_collect f xs) (\<lambda>_. I) (\<lambda>_. I) s"
  using assms(1)
proof (induction xs arbitrary: s)
  case (Cons x xs)
  then show ?case
    by (auto simp: wp_simps intro!: wp_mono [OF assms(2)] wp_mono [OF Cons.IH])
qed (simp add: wp_simps)

lemma ok_get_contacts:
  assumes k: "keyed ea_uuid (emergency_accesses s)"
  shows "ea_ok E (GetContacts hu) s (ea_exec E (GetContacts hu) s)"
proof (rule stale_ok [OF k _ disjI1 [OF refl]])
  have "wp (act_collect (to_json_grantee_details E) xs) (\<lambda>_. stale_removed s) (\<lambda>_. stale_removed s) s" for xs
    by (rule wp_collect) (auto intro: stale_refl [OF k] grantee_details_wp)
  then show "stale_removed s (ea_exec E (GetContacts hu) s)"
    unfolding ea_exec.simps get_contacts_def by - (rule exec_wp, simp add: wp_simps)
qed

lemma ok_get_one:
  assumes k: "keyed ea_uuid (emergency_accesses s)"
  shows "ea_ok E (GetOne i hu) s (ea_exec E (GetOne i hu) s)"
proof (rule stale_ok [OF k _ disjI2 [OF refl]])
  show "stale_removed s (ea_exec E (GetOne i hu) s)"
    unfolding ea_exec.simps get_emergency_access_def
    by (rule exec_wp) (auto simp: handler_simps stale_refl k split: option.split
        intro!: wp_mono [OF grantee_details_wp [OF stale_refl [OF k]]])
qed

lemma ok_get_grantees:
  assumes k: "keyed ea_uuid (emergency_accesses s)"
  shows "ea_ok E (GetGrantees hu) s (ea_exec E (GetGrantees hu) s)"
proof -
  have "wp (act_collect (\<lambda>ea. act_bind (to_json_grantor_details ea) (\<lambda>j. act_ret (Some j))) xs)
      (\<lambda>_ t. t = s) (\<lambda>_ t. t = s) s" for xs
    by (rule wp_collect) (auto simp: to_json_grantor_details_def wp_simps split: option.split)
  then have "wp (get_grantees E hu) (\<lambda>_ t. t = s) (\<lambda>_ t. t = s) s"
    unfolding get_grantees_def wp_simps by (rule wp_mono) auto
  then show ?thesis using k by (simp add: wp_snd ea_ok_same)
qed

subsection \<open>Takeover\<close>

lemma cleanup_frame:
  "wp (takeover_cleanup E u) (\<lambda>_ t. emergency_accesses t = emergency_accesses s)
     (\<lambda>_ t. emergency_accesses t = emergency_accesses s) s"
proof -
  have "wp (act_for ms (\<lambda>m. act_when (m_atype m \<noteq> 0) (act_upd (Membership_delete E m))))
      (\<lambda>_ t. emergency_accesses t = emergency_accesses s) (\<lambda>_ t. emergency_accesses t = emergency_accesses s)
      (TwoFactor_delete_all_by_user (u_uuid u) s)" for ms
    by (rule wp_for) (auto simp: wp_simps Membership_delete_tables TwoFactor_delete_all_by_user_def)
  then show ?thesis by (simp add: takeover_cleanup_def wp_simps)
qed

lemma set_password_frame:
  "wp (set_password E pw key reset routes u) (\<lambda>_ t. emergency_accesses t = emergency_accesses s)
     (\<lambda>_ t. emergency_accesses t = emergency_accesses s) s"
  by (auto simp: set_password_def wp_simps Let_def reset_security_stamp_def set_stamp_exception_def
      utc_now_def get_uuid_def split: sum.split option.split)

lemma user_save_frame:
  "wp (User_save E u) (\<lambda>_ t. emergency_accesses t = emergency_accesses s)
     (\<lambda>_ t. emergency_accesses t = emergency_accesses s) s"
  by (auto simp: User_save_def wp_simps Let_def utc_now_def)

lemma ok_takeover:
  assumes k: "keyed ea_uuid (emergency_accesses s)"
  shows "ea_ok E (TakeoverInfo i hu) s (ea_exec E (TakeoverInfo i hu) s)"
    and "ea_ok E (TakeoverPolicies i hu) s (ea_exec E (TakeoverPolicies i hu) s)"
  unfolding ea_exec.simps takeover_emergency_access_def policies_emergency_access_def
  by (rule exec_wp, auto simp: handler_simps ea_ok_same k split: option.split)+

lemma ok_takeover_password:
  assumes k: "keyed ea_uuid (emergency_accesses s)"
  shows "ea_ok E (TakeoverPassword i d hu) s (ea_exec E (TakeoverPassword i d hu) s)"
proof -
  let ?I = "\<lambda>t. emergency_accesses t = emergency_accesses s"
  have cleanup: "wp (takeover_cleanup E u) (\<lambda>_. ?I) (\<lambda>_. ?I) t" if "?I t" for u t
    using cleanup_frame [of E u t] that by simp
  have save: "wp (User_save E u) (\<lambda>_. ?I) (\<lambda>_. ?I) t" if "?I t" for u t
    using user_save_frame [of E u t] that by simp
  have "wp (password_emergency_access E i d hu) (\<lambda>_. ?I) (\<lambda>_. ?I) s"
    unfolding password_emergency_access_def
    by (auto simp: handler_simps split: option.split
        intro!: wp_mono [OF set_password_frame] wp_mono [OF save] cleanup)
  then show ?thesis using ea_ok_same [OF k] by (simp add: wp_snd)
qed

subsection \<open>Jobs\<close>

lemma row_at_update:
  assumes "\<And>x. ea_uuid (f x) = ea_uuid x"
  shows "row_at (tbl_update (\<lambda>x. ea_uuid x = i) f t) j = (if j = i then map_option f (row_at t j) else row_at t j)"
proof -
  have "row_at (tbl_update (\<lambda>x. ea_uuid x = i) f t) j = map_option (\<lambda>r. if ea_uuid r = i then f r else r) (row_at t j)"
    unfolding row_at_def by (rule tbl_first_update) (rule assms)
  then show ?thesis by (cases "row_at t j") (auto dest: row_at_mem)
qed

inductive_cases timeoutE: "ea_tr now TimeoutJob x y"
inductive_cases reminderE: "ea_tr now ReminderJob x y"

text \<open>One iteration of a job keeps the whole run within the specification.\<close>

definition job_ok :: "time \<Rightarrow> ea_request \<Rightarrow> server \<Rightarrow> server \<Rightarrow> bool" where
  "job_ok now r s t \<longleftrightarrow> keyed ea_uuid (emergency_accesses t)
     \<and> (\<forall>i. ea_tr now r (row_at (emergency_accesses s) i) (row_at (emergency_accesses t) i))"

lemma job_ok_update:
  assumes "job_ok now r s t" "row_at (emergency_accesses s) (ea_uuid x) = Some x"
    and "\<And>y. ea_uuid (f y) = ea_uuid y"
    and "emergency_accesses t' = tbl_update (\<lambda>y. ea_uuid y = ea_uuid x) f (emergency_accesses t)"
    and "\<And>y. ea_tr now r (Some x) (Some y) \<Longrightarrow> ea_tr now r (Some x) (Some (f y))"
    and "\<not> ea_tr now r (Some x) None"
  shows "job_ok now r s t'"
proof -
  have "ea_tr now r (row_at (emergency_accesses s) i) (row_at (emergency_accesses t') i)" for i
  proof (cases "i = ea_uuid x")
    case True
    from assms(1,2) have tr: "ea_tr now r (Some x) (row_at (emergency_accesses t) (ea_uuid x))"
      unfolding job_ok_def by metis
    then obtain y where y: "row_at (emergency_accesses t) (ea_uuid x) = Some y"
      using assms(6) by (cases "row_at (emergency_accesses t) (ea_uuid x)") auto
    with tr True assms(2-5) show ?thesis by (simp add: row_at_update)
  next
    case False
    with assms(1,3,4) show ?thesis by (simp add: row_at_update job_ok_def)
  qed
  moreover have "keyed ea_uuid (emergency_accesses t')"
    using assms(1,3,4) by (auto simp: job_ok_def intro!: keyed_update)
  ultimately show ?thesis by (simp add: job_ok_def)
qed

lemma upto_status: "upto y (x\<lparr>ea_status := a\<rparr>) \<or> y = x \<Longrightarrow> upto (y\<lparr>ea_status := a, ea_updated_at := d\<rparr>) (x\<lparr>ea_status := a\<rparr>)"
  by (cases x; cases y) (auto simp: upto_def)

lemma upto_notified: "upto y (x\<lparr>ea_last_notification_at := a\<rparr>) \<or> y = x \<Longrightarrow>
    upto (y\<lparr>ea_last_notification_at := a, ea_updated_at := d\<rparr>) (x\<lparr>ea_last_notification_at := a\<rparr>)"
  by (cases x; cases y) (auto simp: upto_def)

lemma timeout_one_wp:
  assumes t: "job_ok now TimeoutJob s t" and x: "row_at (emergency_accesses s) (ea_uuid x) = Some x"
    and st: "ea_status x = ea_st EaRecoveryInitiated"
  shows "wp (timeout_one E now x) (\<lambda>_. job_ok now TimeoutJob s) (\<lambda>_. job_ok now TimeoutJob s) t"
proof -
  have upd: "job_ok now TimeoutJob s t'"
    if "wait_over now x" "emergency_accesses t' = tbl_update (\<lambda>y. ea_uuid y = ea_uuid x)
      (\<lambda>y. y\<lparr>ea_status := 4, ea_updated_at := now\<rparr>) (emergency_accesses t)" for t'
  proof (rule job_ok_update [OF t x _ that(2)])
    fix y assume "ea_tr now TimeoutJob (Some x) (Some y)"
    then have "upto y (x\<lparr>ea_status := 4\<rparr>) \<or> y = x" by (auto elim: timeoutE)
    then show "ea_tr now TimeoutJob (Some x) (Some (y\<lparr>ea_status := 4, ea_updated_at := now\<rparr>))"
      using st that(1) upto_status [where x = x and y = y and a = 4 and d = now] by (intro tr_timeout) auto
  qed (auto elim: timeoutE)
  have over: "wait_over now x" if "ea_recovery_initiated_at x = Some i" "try_days (ea_wait_time_days x) = Some d"
      "naive_add i d = Some a" "a \<le> now" for i d a
    using that by (auto simp: wait_over_def dest!: naive_add_Some try_days_Some)
  show ?thesis
    unfolding timeout_one_def update_access_status_and_save_def
    by (auto simp: wp_simps Let_def t over split: option.split intro!: upd)
qed

lemma reminder_one_wp:
  assumes t: "job_ok now ReminderJob s t" and x: "row_at (emergency_accesses s) (ea_uuid x) = Some x"
    and st: "ea_status x = ea_st EaRecoveryInitiated"
  shows "wp (reminder_one E now x) (\<lambda>_. job_ok now ReminderJob s) (\<lambda>_. job_ok now ReminderJob s) t"
proof -
  have upd: "job_ok now ReminderJob s t'"
    if "emergency_accesses t' = tbl_update (\<lambda>y. ea_uuid y = ea_uuid x)
      (\<lambda>y. y\<lparr>ea_last_notification_at := Some now, ea_updated_at := now\<rparr>) (emergency_accesses t)" for t'
  proof (rule job_ok_update [OF t x _ that])
    fix y assume "ea_tr now ReminderJob (Some x) (Some y)"
    then have "upto y (x\<lparr>ea_last_notification_at := Some now\<rparr>) \<or> y = x" by (auto elim: reminderE)
    then show "ea_tr now ReminderJob (Some x) (Some (y\<lparr>ea_last_notification_at := Some now, ea_updated_at := now\<rparr>))"
      using st upto_notified [where x = x and y = y and a = "Some now" and d = now] by (intro tr_remind) auto
  qed (auto elim: reminderE)
  show ?thesis
    unfolding reminder_one_def update_last_notification_date_and_save_def
    by (auto simp: wp_simps Let_def t split: option.split intro!: upd)
qed

lemma initiated_rows:
  assumes "keyed ea_uuid (emergency_accesses s)" "x \<in> set (find_all_recoveries_initiated s)"
  shows "row_at (emergency_accesses s) (ea_uuid x) = Some x \<and> ea_status x = ea_st EaRecoveryInitiated"
  using assms by (auto simp: find_all_recoveries_initiated_def row_at_def tbl_first_keyed)

lemma job_loop:
  assumes k: "keyed ea_uuid (emergency_accesses s)"
    and body: "\<And>x t. job_ok (clock E (tick s)) r s t \<Longrightarrow> row_at (emergency_accesses s) (ea_uuid x) = Some x \<Longrightarrow>
      ea_status x = ea_st EaRecoveryInitiated \<Longrightarrow>
      wp (f x) (\<lambda>_. job_ok (clock E (tick s)) r s) (\<lambda>_. job_ok (clock E (tick s)) r s) t"
  shows "wp (act_for (find_all_recoveries_initiated s) f) (\<lambda>_. ea_ok E r s) (\<lambda>_. ea_ok E r s) (bump s)"
proof -
  have "job_ok (clock E (tick s)) r s (bump s)" using k by (simp add: job_ok_def tr_same)
  then have "wp (act_for (find_all_recoveries_initiated s) f) (\<lambda>_. job_ok (clock E (tick s)) r s)
      (\<lambda>_. job_ok (clock E (tick s)) r s) (bump s)"
    by (rule wp_for) (use body initiated_rows [OF k] in blast)
  moreover have "job_ok (clock E (tick s)) r s = ea_ok E r s"
    by (rule ext) (simp add: job_ok_def ea_ok_def)
  ultimately show ?thesis by simp
qed

lemma ok_jobs:
  assumes k: "keyed ea_uuid (emergency_accesses s)"
  shows "ea_ok E TimeoutJob s (ea_exec E TimeoutJob s)" "ea_ok E ReminderJob s (ea_exec E ReminderJob s)"
proof -
  have "wp (act_for (find_all_recoveries_initiated s) (timeout_one E (clock E (tick s))))
      (\<lambda>_. ea_ok E TimeoutJob s) (\<lambda>_. ea_ok E TimeoutJob s) (bump s)"
    by (rule job_loop [OF k]) (rule timeout_one_wp)
  then show "ea_ok E TimeoutJob s (ea_exec E TimeoutJob s)"
    unfolding ea_exec.simps emergency_request_timeout_job_def
    by - (rule exec_wp, simp add: wp_simps ea_ok_same k)
  have "wp (act_for (find_all_recoveries_initiated s) (reminder_one E (clock E (tick s))))
      (\<lambda>_. ea_ok E ReminderJob s) (\<lambda>_. ea_ok E ReminderJob s) (bump s)"
    by (rule job_loop [OF k]) (rule reminder_one_wp)
  then show "ea_ok E ReminderJob s (ea_exec E ReminderJob s)"
    unfolding ea_exec.simps emergency_notification_reminder_job_def
    by - (rule exec_wp, simp add: wp_simps ea_ok_same k)
qed

text \<open>Every entry point implements the specification.\<close>

lemma exec_ok:
  assumes "keyed ea_uuid (emergency_accesses s)" "fresh_ids E s"
  shows "ea_ok E r s (ea_exec E r s)"
  using assms
  by (cases r) (blast intro: ok_get_contacts ok_get_grantees ok_get_one ok_edit ok_delete ok_invite ok_resend
      ok_accept ok_confirm ok_initiate ok_approve ok_reject ok_takeover ok_takeover_password ok_jobs)+

end
