(* ===== verification/OrgPolicies.thy ===== *)
theory OrgPolicies
  imports TwoFactors Members
begin

text \<open>
  The organization policies of \<open>server/src/db/models/org_policy.rs\<close> and the automatic e-mail second
  factor of \<open>api/core/two_factor/email.rs\<close> that a policy may activate. The table has a unique pair of
  organization and type. The two methods that only emergency access uses, the JSON of a policy and the
  policies of a confirmed member, stand with the handlers of emergency access.
\<close>

section \<open>Reading JSON structures\<close>

text \<open>
  A structure with one field, read from JSON text: an object with exactly one entry of the field's
  names (the derived deserializer refuses duplicates and ignores unknown keys) or an array of one
  element.
\<close>

definition struct_field :: "string list \<Rightarrow> json \<Rightarrow> json option" where
  "struct_field names j = (case j of
     JObj kvs \<Rightarrow> (case filter (\<lambda>(k, v). k \<in> set names) kvs of [(k, v)] \<Rightarrow> Some v | _ \<Rightarrow> None)
   | JArr [v] \<Rightarrow> Some v
   | _ \<Rightarrow> None)"

definition json_bool :: "json \<Rightarrow> bool option" where
  "json_bool j = (case j of JBool b \<Rightarrow> Some b | _ \<Rightarrow> None)"

definition read_flag :: "env \<Rightarrow> string list \<Rightarrow> string \<Rightarrow> bool option" where
  "read_flag E names text =
     (case json_parse E text of None \<Rightarrow> None
      | Some j \<Rightarrow> (case struct_field names j of None \<Rightarrow> None | Some v \<Rightarrow> json_bool v))"

definition SendOptionsPolicyData_from_str :: "env \<Rightarrow> string \<Rightarrow> bool option" where
  "SendOptionsPolicyData_from_str E = read_flag E [''disableHideEmail'', ''DisableHideEmail'']"

definition ResetPasswordDataModel_from_str :: "env \<Rightarrow> string \<Rightarrow> bool option" where
  "ResetPasswordDataModel_from_str E = read_flag E [''autoEnrollEnabled'', ''AutoEnrollEnabled'']"

section \<open>Policies\<close>

datatype OrgPolicyType =
    TwoFactorAuthentication | MasterPassword | PasswordGenerator | SingleOrg | PersonalOwnership
  | DisableSend | SendOptions | ResetPassword | RemoveUnlockWithPin | RestrictedItemTypes | UriMatchDefaults

fun OrgPolicyType_i32 :: "OrgPolicyType \<Rightarrow> int" where
  "OrgPolicyType_i32 TwoFactorAuthentication = 0"
| "OrgPolicyType_i32 MasterPassword = 1"
| "OrgPolicyType_i32 PasswordGenerator = 2"
| "OrgPolicyType_i32 SingleOrg = 3"
| "OrgPolicyType_i32 PersonalOwnership = 5"
| "OrgPolicyType_i32 DisableSend = 6"
| "OrgPolicyType_i32 SendOptions = 7"
| "OrgPolicyType_i32 ResetPassword = 8"
| "OrgPolicyType_i32 RemoveUnlockWithPin = 14"
| "OrgPolicyType_i32 RestrictedItemTypes = 15"
| "OrgPolicyType_i32 UriMatchDefaults = 16"

definition OrgPolicyType_from_i32 :: "int \<Rightarrow> OrgPolicyType option" where
  "OrgPolicyType_from_i32 n = List.find (\<lambda>t. OrgPolicyType_i32 t = n)
     [TwoFactorAuthentication, MasterPassword, PasswordGenerator, SingleOrg, PersonalOwnership, DisableSend,
      SendOptions, ResetPassword, RemoveUnlockWithPin, RestrictedItemTypes, UriMatchDefaults]"

definition OrgPolicy_new :: "env \<Rightarrow> OrganizationId \<Rightarrow> OrgPolicyType \<Rightarrow> bool \<Rightarrow> string \<Rightarrow> server \<Rightarrow> OrgPolicy \<times> server" where
  "OrgPolicy_new E org atype enabled data s =
     (let (uuid, s) = get_uuid E s
      in (\<lparr>op_uuid = uuid, op_org_uuid = org, op_atype = OrgPolicyType_i32 atype, op_enabled = enabled, op_data = data\<rparr>, s))"

definition OrgPolicy_has_type :: "OrgPolicyType \<Rightarrow> OrgPolicy \<Rightarrow> bool" where
  "OrgPolicy_has_type t p \<longleftrightarrow> op_atype p = OrgPolicyType_i32 t"

definition op_slot :: "OrgPolicy \<Rightarrow> OrganizationId \<times> int" where
  "op_slot p = (op_org_uuid p, op_atype p)"

definition OrgPolicy_save :: "OrgPolicy \<Rightarrow> server \<Rightarrow> server" where
  "OrgPolicy_save p s = s\<lparr>org_policies :=
     tbl_delete (\<lambda>x. op_uuid x = op_uuid p \<or> op_slot x = op_slot p) (org_policies s) @ [p]\<rparr>"

definition OrgPolicy_delete :: "OrgPolicy \<Rightarrow> server \<Rightarrow> server" where
  "OrgPolicy_delete p s = s\<lparr>org_policies := tbl_delete (\<lambda>x. op_uuid x = op_uuid p) (org_policies s)\<rparr>"

definition OrgPolicy_find_by_org :: "OrganizationId \<Rightarrow> server \<Rightarrow> OrgPolicy list" where
  "OrgPolicy_find_by_org org s = tbl_select (\<lambda>p. op_org_uuid p = org) (org_policies s)"

definition OrgPolicy_find_by_org_and_type :: "OrganizationId \<Rightarrow> OrgPolicyType \<Rightarrow> server \<Rightarrow> OrgPolicy option" where
  "OrgPolicy_find_by_org_and_type org t s =
     tbl_first (\<lambda>p. op_org_uuid p = org \<and> op_atype p = OrgPolicyType_i32 t) (org_policies s)"

definition OrgPolicy_delete_all_by_organization :: "OrganizationId \<Rightarrow> server \<Rightarrow> server" where
  "OrgPolicy_delete_all_by_organization org s =
     s\<lparr>org_policies := tbl_delete (\<lambda>p. op_org_uuid p = org) (org_policies s)\<rparr>"

definition find_accepted_and_confirmed_by_user_and_active_policy ::
  "UserId \<Rightarrow> OrgPolicyType \<Rightarrow> server \<Rightarrow> OrgPolicy list" where
  "find_accepted_and_confirmed_by_user_and_active_policy user t s =
     [p. p \<leftarrow> org_policies s, m \<leftarrow> users_organizations s, m_org_uuid m = op_org_uuid p, m_user_uuid m = user,
         m_status m = MembershipStatus_i32 Accepted \<or> m_status m = MembershipStatus_i32 Confirmed,
         op_atype p = OrgPolicyType_i32 t, op_enabled p]"

definition find_confirmed_by_user_and_active_policy :: "UserId \<Rightarrow> OrgPolicyType \<Rightarrow> server \<Rightarrow> OrgPolicy list" where
  "find_confirmed_by_user_and_active_policy user t s =
     [p. p \<leftarrow> org_policies s, m \<leftarrow> users_organizations s, m_org_uuid m = op_org_uuid p, m_user_uuid m = user,
         m_status m = MembershipStatus_i32 Confirmed, op_atype p = OrgPolicyType_i32 t, op_enabled p]"

definition below_admin :: "UserId \<Rightarrow> OrganizationId \<Rightarrow> server \<Rightarrow> bool" where
  "below_admin user org s = (case Membership_find_confirmed_by_user_and_org user org s of
     None \<Rightarrow> False | Some m \<Rightarrow> i32_lt (m_atype m) Admin)"

definition is_applicable_to_user :: "UserId \<Rightarrow> OrgPolicyType \<Rightarrow> OrganizationId option \<Rightarrow> server \<Rightarrow> bool" where
  "is_applicable_to_user user t exclude s =
     list_ex (\<lambda>p. exclude \<noteq> Some (op_org_uuid p) \<and> below_admin user (op_org_uuid p) s)
       (find_accepted_and_confirmed_by_user_and_active_policy user t s)"

definition org_is_reset_password_auto_enroll :: "env \<Rightarrow> OrganizationId \<Rightarrow> server \<Rightarrow> bool" where
  "org_is_reset_password_auto_enroll E org s =
     (case OrgPolicy_find_by_org_and_type org ResetPassword s of None \<Rightarrow> False
      | Some p \<Rightarrow> (case ResetPasswordDataModel_from_str E (op_data p) of None \<Rightarrow> False
                  | Some auto \<Rightarrow> op_enabled p \<and> auto))"

definition is_hide_email_disabled :: "env \<Rightarrow> UserId \<Rightarrow> server \<Rightarrow> bool" where
  "is_hide_email_disabled E user s =
     list_ex (\<lambda>p. below_admin user (op_org_uuid p) s \<and> SendOptionsPolicyData_from_str E (op_data p) = Some True)
       (find_confirmed_by_user_and_active_policy user SendOptions s)"

definition is_enabled_for_member :: "MembershipId \<Rightarrow> OrgPolicyType \<Rightarrow> server \<Rightarrow> bool" where
  "is_enabled_for_member member t s =
     (case Membership_find_by_uuid member s of None \<Rightarrow> False
      | Some m \<Rightarrow> (case OrgPolicy_find_by_org_and_type (m_org_uuid m) t s of None \<Rightarrow> False | Some p \<Rightarrow> op_enabled p))"

section \<open>The automatic e-mail second factor\<close>

record EmailTokenData =
  et_email :: string
  et_last_token :: "string option"
  et_token_sent :: int
  et_attempts :: nat

definition EmailTokenData_new :: "env \<Rightarrow> string \<Rightarrow> string \<Rightarrow> server \<Rightarrow> EmailTokenData \<times> server" where
  "EmailTokenData_new E email token s =
     (let (now, s) = utc_now E s
      in (\<lparr>et_email = email, et_last_token = Some token, et_token_sent = timestamp now, et_attempts = 0\<rparr>, s))"

definition EmailTokenData_set_token :: "env \<Rightarrow> string \<Rightarrow> EmailTokenData \<Rightarrow> server \<Rightarrow> EmailTokenData \<times> server" where
  "EmailTokenData_set_token E token d s =
     (let (now, s) = utc_now E s in (d\<lparr>et_last_token := Some token, et_token_sent := timestamp now\<rparr>, s))"

definition EmailTokenData_reset_token :: "EmailTokenData \<Rightarrow> EmailTokenData" where
  "EmailTokenData_reset_token d = d\<lparr>et_last_token := None, et_attempts := 0\<rparr>"

definition EmailTokenData_add_attempt :: "EmailTokenData \<Rightarrow> EmailTokenData" where
  "EmailTokenData_add_attempt d = d\<lparr>et_attempts := min (et_attempts d + 1) (2 ^ 64 - 1)\<rparr>"

definition EmailTokenData_to_json :: "env \<Rightarrow> EmailTokenData \<Rightarrow> string" where
  "EmailTokenData_to_json E d = json_print E (JObj
     [(''email'', JStr (et_email d)), (''last_token'', json_opt (et_last_token d)),
      (''token_sent'', JInt (et_token_sent d)), (''attempts'', JInt (int (et_attempts d)))])"

definition activate_email_2fa :: "env \<Rightarrow> User \<Rightarrow> (server, unit) act" where
  "activate_email_2fa E user =
     act_seq (err_if (u_verified_at user = None)
       ''Auto-enabling of email 2FA failed because the users email address has not been verified!'')
     (act_bind (act_run (EmailTokenData_new E (u_email user) '''')) (\<lambda>d.
      act_bind (act_run (TwoFactor_new E (u_uuid user) Email (EmailTokenData_to_json E d))) (\<lambda>tf.
      act_upd (TwoFactor_save tf))))"

definition find_and_activate_email_2fa :: "env \<Rightarrow> UserId \<Rightarrow> (server, unit) act" where
  "find_and_activate_email_2fa E user_id =
     act_bind (act_get (User_find_by_uuid user_id)) (\<lambda>u.
     act_bind (some_or ''User not found!'' u) (\<lambda>user. activate_email_2fa E user))"

section \<open>Checks on joining\<close>

definition forbidden_msg :: "string \<Rightarrow> string \<Rightarrow> Membership \<Rightarrow> string" where
  "forbidden_msg action reason m = ''Cannot '' @ action @ reason @ '' (membership '' @ m_uuid m @ '')''"

definition require_2fa :: "env \<Rightarrow> Membership \<Rightarrow> string \<Rightarrow> (server, unit) act" where
  "require_2fa E m action =
     act_bind (act_get (\<lambda>s. (OrgPolicy_find_by_org_and_type (m_org_uuid m) TwoFactorAuthentication s,
       TwoFactor_find_by_user (m_user_uuid m) s))) (\<lambda>(p, tfs).
     if opt_is p op_enabled \<and> tfs = []
     then if email_2fa_auto_fallback (conf E) then find_and_activate_email_2fa E (m_user_uuid m)
          else act_err (Api (forbidden_msg action '' because 2FA is required'' m))
     else act_ret ())"

definition check_user_allowed :: "env \<Rightarrow> Membership \<Rightarrow> string \<Rightarrow> (server, unit) act" where
  "check_user_allowed E m action =
     (if i32_lt (m_atype m) Admin \<and> MembershipStatus_i32 Invited < m_status m
      then act_seq (require_2fa E m action)
       (act_bind (act_get (is_applicable_to_user (m_user_uuid m) SingleOrg (Some (m_org_uuid m)))) (\<lambda>other.
        act_seq (err_if other (forbidden_msg action '' because another organization policy forbids it'' m))
        (act_bind (act_get (\<lambda>s. opt_is (OrgPolicy_find_by_org_and_type (m_org_uuid m) SingleOrg s) op_enabled
            \<and> 0 < count_accepted_and_confirmed_by_user (m_user_uuid m) (m_org_uuid m) s)) (\<lambda>b.
         err_if b (forbidden_msg action
           '' because the organization policy forbids being part of other organization'' m)))))
      else act_ret ())"

section \<open>Lemmas\<close>

text \<open>A policy binds a user exactly in the other organizations where the user is a confirmed member
  without an administrative role.\<close>

definition members_unique :: "server \<Rightarrow> bool" where
  "members_unique s \<longleftrightarrow> distinct (map (\<lambda>m. (m_user_uuid m, m_org_uuid m)) (users_organizations s))"

lemma confirmed_member_iff:
  assumes "members_unique s"
  shows "Membership_find_confirmed_by_user_and_org user org s = Some m \<longleftrightarrow>
    m \<in> set (users_organizations s) \<and> m_user_uuid m = user \<and> m_org_uuid m = org \<and> m_status m = MembershipStatus_i32 Confirmed"
    (is "?F = Some m \<longleftrightarrow> ?P m")
proof
  show "?F = Some m \<Longrightarrow> ?P m"
    by (auto simp: Membership_find_confirmed_by_user_and_org_def dest: tbl_first_Some)
  assume P: "?P m"
  have "\<exists>n. ?F = Some n"
  proof (rule ccontr)
    assume "\<not> (\<exists>n. ?F = Some n)"
    then have "?F = None" by (cases ?F) auto
    with P show False by (auto simp: Membership_find_confirmed_by_user_and_org_def tbl_first_None)
  qed
  then obtain n where n: "?F = Some n" by blast
  then have "?P n" by (auto simp: Membership_find_confirmed_by_user_and_org_def dest: tbl_first_Some)
  with P have "n = m"
    using assms unfolding members_unique_def by (auto simp: distinct_map dest: inj_onD)
  with n show "?F = Some m" by simp
qed

lemma below_admin_iff:
  assumes "members_unique s"
  shows "below_admin user org s \<longleftrightarrow> (\<exists>m \<in> set (users_organizations s).
    m_user_uuid m = user \<and> m_org_uuid m = org \<and> m_status m = MembershipStatus_i32 Confirmed
    \<and> m_atype m \<notin> {MembershipType_i32 Owner, MembershipType_i32 Admin})"
proof (cases "Membership_find_confirmed_by_user_and_org user org s")
  case None
  then show ?thesis using confirmed_member_iff [OF assms, of user org] by (auto simp: below_admin_def)
next
  case (Some m)
  then have m: "m \<in> set (users_organizations s)" "m_user_uuid m = user" "m_org_uuid m = org"
      "m_status m = MembershipStatus_i32 Confirmed" using confirmed_member_iff [OF assms] by blast+
  have "n = m" if "n \<in> set (users_organizations s)" "m_user_uuid n = user" "m_org_uuid n = org"
      "m_status n = MembershipStatus_i32 Confirmed" for n
    using that Some confirmed_member_iff [OF assms, of user org n] by simp
  then have "(\<exists>n \<in> set (users_organizations s). m_user_uuid n = user \<and> m_org_uuid n = org
      \<and> m_status n = MembershipStatus_i32 Confirmed \<and> m_atype n \<notin> {MembershipType_i32 Owner, MembershipType_i32 Admin})
      \<longleftrightarrow> m_atype m \<notin> {MembershipType_i32 Owner, MembershipType_i32 Admin}"
    using m by metis
  moreover have "below_admin user org s \<longleftrightarrow> m_atype m \<notin> {MembershipType_i32 Owner, MembershipType_i32 Admin}"
    using Some by (simp add: below_admin_def lt_Admin_iff)
  ultimately show ?thesis by simp
qed

lemma active_policy_iff:
  "p \<in> set (find_accepted_and_confirmed_by_user_and_active_policy user t s) \<longleftrightarrow>
     p \<in> set (org_policies s) \<and> op_atype p = OrgPolicyType_i32 t \<and> op_enabled p
     \<and> (\<exists>m \<in> set (users_organizations s). m_org_uuid m = op_org_uuid p \<and> m_user_uuid m = user
        \<and> (m_status m = MembershipStatus_i32 Accepted \<or> m_status m = MembershipStatus_i32 Confirmed))"
  unfolding find_accepted_and_confirmed_by_user_and_active_policy_def by (auto simp: in_comp)

lemma is_applicable_iff:
  assumes "members_unique s"
  shows "is_applicable_to_user user t exclude s \<longleftrightarrow> (\<exists>p \<in> set (org_policies s). \<exists>m \<in> set (users_organizations s).
    op_atype p = OrgPolicyType_i32 t \<and> op_enabled p \<and> exclude \<noteq> Some (op_org_uuid p)
    \<and> m_org_uuid m = op_org_uuid p \<and> m_user_uuid m = user \<and> m_status m = MembershipStatus_i32 Confirmed
    \<and> m_atype m \<notin> {MembershipType_i32 Owner, MembershipType_i32 Admin})"
  unfolding is_applicable_to_user_def list_ex_iff Bex_def active_policy_iff below_admin_iff [OF assms] by blast

lemma OrgPolicy_save_find: "OrgPolicy_find_by_org_and_type (op_org_uuid p) t (OrgPolicy_save p s) =
    (if op_atype p = OrgPolicyType_i32 t then Some p
     else tbl_first (\<lambda>x. op_org_uuid x = op_org_uuid p \<and> op_atype x = OrgPolicyType_i32 t \<and> op_uuid x \<noteq> op_uuid p) (org_policies s))"
proof -
  have "List.find (\<lambda>x. op_org_uuid x = op_org_uuid p \<and> op_atype x = OrgPolicyType_i32 t)
      (tbl_delete (\<lambda>x. op_uuid x = op_uuid p \<or> op_slot x = op_slot p) ps @ [p]) =
    (if op_atype p = OrgPolicyType_i32 t then Some p
     else List.find (\<lambda>x. op_org_uuid x = op_org_uuid p \<and> op_atype x = OrgPolicyType_i32 t \<and> op_uuid x \<noteq> op_uuid p) ps)" for ps
    by (induction ps) (auto simp: tbl_delete_def op_slot_def)
  then show ?thesis by (simp add: OrgPolicy_find_by_org_and_type_def OrgPolicy_save_def tbl_first_def)
qed

end
