(* ===== verification/Sends.thy ===== *)
theory Sends
  imports OrgPolicies "HOL-Library.AList"
begin

text \<open>
  Sends: \<open>server/src/db/models/send.rs\<close> and the handlers of \<open>api/core/sends.rs\<close>. A send is a text or a
  file that anyone who knows its access id can read until it expires, is deleted, is disabled or was
  read often enough. The files are the field \<open>send_files\<close> of the server, with their sizes; the storage
  backend answers each write and deletion with success or an error. Handlers answer with the row
  where the code renders its JSON; notifications to other clients are not part of the state, but the
  revision dates they touch are.
\<close>

section \<open>Numbers\<close>

definition fits :: "nat \<Rightarrow> int \<Rightarrow> bool" where
  "fits w n \<longleftrightarrow> - (2 ^ (w - 1)) \<le> n \<and> n < 2 ^ (w - 1)"

definition checked :: "int \<Rightarrow> int option" where
  "checked n = (if fits 64 n then Some n else None)"

text \<open>\<open>FromStr\<close> for the signed integers: a sign, then at least one digit and only digits.\<close>

definition is_digit :: "char \<Rightarrow> bool" where
  "is_digit c \<longleftrightarrow> (let n = of_char c :: nat in 48 \<le> n \<and> n \<le> 57)"

definition parse_digits :: "string \<Rightarrow> nat option" where
  "parse_digits s = (if s \<noteq> [] \<and> list_all is_digit s then Some (foldl (\<lambda>n c. n * 10 + (of_char c - 48)) 0 s) else None)"

definition parse_int :: "nat \<Rightarrow> string \<Rightarrow> int option" where
  "parse_int w s =
     (let m = (case s of
          [] \<Rightarrow> None
        | c # cs \<Rightarrow> if c = CHR ''-'' then map_option (\<lambda>n. - int n) (parse_digits cs)
            else if c = CHR ''+'' then map_option int (parse_digits cs)
            else map_option int (parse_digits s))
      in case m of None \<Rightarrow> None | Some n \<Rightarrow> if fits w n then Some n else None)"

fun NumberOrString_into_i32 :: "NumberOrString \<Rightarrow> api_err + int" where
  "NumberOrString_into_i32 (Number n) = (if fits 32 n then Inr n else Inl (Api ''Number does not fit in i32''))"
| "NumberOrString_into_i32 (String s) =
     (case parse_int 32 s of Some n \<Rightarrow> Inr n | None \<Rightarrow> Inl (Api ''Can't convert to number''))"

fun NumberOrString_into_i64 :: "NumberOrString \<Rightarrow> api_err + int" where
  "NumberOrString_into_i64 (Number n) = Inr n"
| "NumberOrString_into_i64 (String s) =
     (case parse_int 64 s of Some n \<Rightarrow> Inr n | None \<Rightarrow> Inl (Api ''Can't convert to number''))"

text \<open>The untagged enumeration \<open>NumberOrString\<close>: an \<open>i64\<close> or a string.\<close>

definition NumberOrString_from_json :: "json \<Rightarrow> NumberOrString option" where
  "NumberOrString_from_json j = (case j of
     JInt n \<Rightarrow> if fits 64 n then Some (Number n) else None | JStr s \<Rightarrow> Some (String s) | _ \<Rightarrow> None)"

section \<open>JSON objects\<close>

text \<open>A JSON object of \<open>serde_json\<close> is sorted by its keys.\<close>

definition str_less :: "string \<Rightarrow> string \<Rightarrow> bool" where
  "str_less a b = ord_class.lexordp (map of_char a :: nat list) (map of_char b)"

fun json_insert :: "string \<Rightarrow> json \<Rightarrow> (string \<times> json) list \<Rightarrow> (string \<times> json) list" where
  "json_insert k v [] = [(k, v)]"
| "json_insert k v ((k', v') # kvs) =
     (if k = k' then (k, v) # kvs else if str_less k k' then (k, v) # (k', v') # kvs else (k', v') # json_insert k v kvs)"

definition json_remove :: "string \<Rightarrow> json \<Rightarrow> json" where
  "json_remove k j = (case j of JObj kvs \<Rightarrow> JObj (filter (\<lambda>(k', v). k' \<noteq> k) kvs) | _ \<Rightarrow> j)"

section \<open>Rows\<close>

datatype SendType = SendText | SendFile

fun SendType_i32 :: "SendType \<Rightarrow> int" where
  "SendType_i32 SendText = 0"
| "SendType_i32 SendFile = 1"

definition Send_new :: "env \<Rightarrow> int \<Rightarrow> string \<Rightarrow> string \<Rightarrow> string \<Rightarrow> time \<Rightarrow> server \<Rightarrow> Send \<times> server" where
  "Send_new E atype name data akey deletion_date s =
     (let (now, s) = utc_now E s; (uuid, s) = get_uuid E s
      in (\<lparr>sd_uuid = uuid, sd_user_uuid = None, sd_organization_uuid = None, sd_name = name, sd_notes = None,
           sd_atype = atype, sd_data = data, sd_akey = akey, sd_password_hash = None, sd_password_salt = None,
           sd_password_iter = None, sd_max_access_count = None, sd_access_count = 0, sd_creation_date = now,
           sd_revision_date = now, sd_expiration_date = None, sd_deletion_date = deletion_date,
           sd_disabled = False, sd_hide_email = None\<rparr>, s))"

definition PASSWORD_ITER :: int where "PASSWORD_ITER = 100000"

definition Send_set_password :: "env \<Rightarrow> string option \<Rightarrow> Send \<Rightarrow> (server, Send) act" where
  "Send_set_password E password sd = (case password of
     Some pw \<Rightarrow> act_bind (act_run (get_random_bytes E)) (\<lambda>salt.
       act_bind (act_sum (hash_password E (str_bytes pw) salt (cast_unsigned PASSWORD_ITER))) (\<lambda>hash.
       act_ret (sd\<lparr>sd_password_iter := Some PASSWORD_ITER, sd_password_salt := Some salt, sd_password_hash := Some hash\<rparr>)))
   | None \<Rightarrow> act_ret (sd\<lparr>sd_password_iter := None, sd_password_salt := None, sd_password_hash := None\<rparr>))"

definition Send_check_password :: "env \<Rightarrow> string \<Rightarrow> Send \<Rightarrow> api_err + bool" where
  "Send_check_password E pw sd = (case (sd_password_hash sd, sd_password_salt sd, sd_password_iter sd) of
     (Some hash, Some salt, Some iter) \<Rightarrow> verify_password_hash E (str_bytes pw) salt hash (cast_unsigned iter)
   | _ \<Rightarrow> Inr False)"

definition creator_identifier :: "Send \<Rightarrow> server \<Rightarrow> string option" where
  "creator_identifier sd s =
     (if sd_hide_email sd = Some True then None
      else case sd_user_uuid sd of None \<Rightarrow> None
        | Some user \<Rightarrow> map_option u_email (User_find_by_uuid user s))"

definition Send_update_users_revision :: "env \<Rightarrow> Send \<Rightarrow> server \<Rightarrow> server" where
  "Send_update_users_revision E sd s = (case sd_user_uuid sd of None \<Rightarrow> s | Some user \<Rightarrow> update_uuid_revision E user s)"

definition Send_save :: "env \<Rightarrow> Send \<Rightarrow> server \<Rightarrow> Send \<times> server" where
  "Send_save E sd s =
     (let s = Send_update_users_revision E sd s; (now, s) = utc_now E s; sd = sd\<lparr>sd_revision_date := now\<rparr>
      in (sd, s\<lparr>sends := tbl_upsert sd_uuid sd (sends s)\<rparr>))"

definition delete_send_files :: "env \<Rightarrow> SendId \<Rightarrow> server \<Rightarrow> server" where
  "delete_send_files E uuid s =
     (case storage_delete E (tick s) uuid of
        None \<Rightarrow> (bump s)\<lparr>send_files := filter (\<lambda>((i, f), n). i \<noteq> uuid) (send_files s)\<rparr>
      | Some e \<Rightarrow> bump s)"

definition Send_delete :: "env \<Rightarrow> Send \<Rightarrow> server \<Rightarrow> server" where
  "Send_delete E sd s =
     (let s = Send_update_users_revision E sd s;
          s = (if sd_atype sd = SendType_i32 SendFile then delete_send_files E (sd_uuid sd) s else s)
      in s\<lparr>sends := tbl_delete (\<lambda>x. sd_uuid x = sd_uuid sd) (sends s)\<rparr>)"

definition find_by_past_deletion_date :: "env \<Rightarrow> server \<Rightarrow> Send list \<times> server" where
  "find_by_past_deletion_date E s =
     (let (now, s) = utc_now E s in (tbl_select (\<lambda>sd. sd_deletion_date sd < now) (sends s), s))"

definition Send_purge :: "env \<Rightarrow> server \<Rightarrow> server" where
  "Send_purge E s = (let (rows, s) = find_by_past_deletion_date E s in fold (Send_delete E) rows s)"

definition Send_find_by_uuid :: "SendId \<Rightarrow> server \<Rightarrow> Send option" where
  "Send_find_by_uuid uuid s = tbl_first (\<lambda>sd. sd_uuid sd = uuid) (sends s)"

definition find_by_access_id :: "env \<Rightarrow> string \<Rightarrow> server \<Rightarrow> Send option" where
  "find_by_access_id E access_id s =
     (case access_id_decode E access_id of None \<Rightarrow> None | Some uuid \<Rightarrow> Send_find_by_uuid uuid s)"

definition Send_find_by_uuid_and_user :: "SendId \<Rightarrow> UserId \<Rightarrow> server \<Rightarrow> Send option" where
  "Send_find_by_uuid_and_user uuid user s =
     tbl_first (\<lambda>sd. sd_uuid sd = uuid \<and> sd_user_uuid sd = Some user) (sends s)"

definition Send_find_by_user :: "UserId \<Rightarrow> server \<Rightarrow> Send list" where
  "Send_find_by_user user s = tbl_select (\<lambda>sd. sd_user_uuid sd = Some user) (sends s)"

definition Send_find_by_org :: "OrganizationId \<Rightarrow> server \<Rightarrow> Send list" where
  "Send_find_by_org org s = tbl_select (\<lambda>sd. sd_organization_uuid sd = Some org) (sends s)"

definition Send_delete_all_by_user :: "env \<Rightarrow> UserId \<Rightarrow> server \<Rightarrow> server" where
  "Send_delete_all_by_user E user s = fold (Send_delete E) (Send_find_by_user user s) s"

definition FileData_size :: "env \<Rightarrow> string \<Rightarrow> int option" where
  "FileData_size E text =
     (case json_parse E text of None \<Rightarrow> None
      | Some j \<Rightarrow> (case struct_field [''size'', ''Size''] j of None \<Rightarrow> None
        | Some v \<Rightarrow> (case NumberOrString_from_json v of None \<Rightarrow> None
          | Some n \<Rightarrow> (case NumberOrString_into_i64 n of Inl e \<Rightarrow> None | Inr k \<Rightarrow> Some k))))"

fun add_sizes :: "env \<Rightarrow> Send list \<Rightarrow> int \<Rightarrow> int option" where
  "add_sizes E [] acc = Some acc"
| "add_sizes E (sd # sds) acc =
     (if sd_atype sd = SendType_i32 SendFile then
        (case FileData_size E (sd_data sd) of
           Some n \<Rightarrow> (case checked (acc + n) of None \<Rightarrow> None | Some acc \<Rightarrow> add_sizes E sds acc)
         | None \<Rightarrow> add_sizes E sds acc)
      else add_sizes E sds acc)"

definition Send_size_by_user :: "env \<Rightarrow> UserId \<Rightarrow> server \<Rightarrow> int option" where
  "Send_size_by_user E user s = add_sizes E (Send_find_by_user user s) 0"

section \<open>Creating\<close>

definition SEND_INACCESSIBLE_MSG :: string where
  "SEND_INACCESSIBLE_MSG = ''Send does not exist or is no longer available''"

definition SIZE_525_MB :: int where "SIZE_525_MB = 550502400"

record SendData =
  sn_type :: int
  sn_key :: string
  sn_password :: "string option"
  sn_max_access_count :: "NumberOrString option"
  sn_expiration_date :: "time option"
  sn_deletion_date :: time
  sn_disabled :: bool
  sn_hide_email :: "bool option"
  sn_name :: string
  sn_notes :: "string option"
  sn_text :: "json option"
  sn_file :: "json option"
  sn_file_length :: "NumberOrString option"
  sn_id :: "SendId option"

definition enforce_disable_send_policy :: "env \<Rightarrow> User \<Rightarrow> (server, unit) act" where
  "enforce_disable_send_policy E hu =
     act_bind (act_get (is_applicable_to_user (u_uuid hu) DisableSend None)) (\<lambda>b.
     err_if (\<not> sends_allowed (conf E) \<or> b)
       ''Due to an Enterprise Policy, you are only able to delete an existing Send.'')"

definition enforce_disable_hide_email_policy :: "env \<Rightarrow> SendData \<Rightarrow> User \<Rightarrow> (server, unit) act" where
  "enforce_disable_hide_email_policy E data hu =
     act_bind (act_get (is_hide_email_disabled E (u_uuid hu))) (\<lambda>b.
     err_if (sn_hide_email data = Some True \<and> b)
       ''Due to an Enterprise Policy, you are not allowed to hide your email address from recipients when creating or editing a Send.'')"

definition far_deletion_msg :: string where
  "far_deletion_msg = ''You cannot have a Send with a deletion date that far into the future. Adjust the Deletion Date to a value less than 31 days from now and try again.''"

definition check_deletion_date :: "env \<Rightarrow> SendData \<Rightarrow> (server, unit) act" where
  "check_deletion_date E data =
     act_bind (act_run (utc_now E)) (\<lambda>now.
     act_bind (expect ''`DateTime + TimeDelta` overflowed'' (naive_add now (31 * 86400 * NANOS))) (\<lambda>limit.
     err_if (sn_deletion_date data > limit) far_deletion_msg))"

definition read_max_access_count :: "SendData \<Rightarrow> (server, int option) act" where
  "read_max_access_count data = (case sn_max_access_count data of
     Some m \<Rightarrow> act_bind (act_sum (NumberOrString_into_i32 m)) (\<lambda>n. act_ret (Some n))
   | None \<Rightarrow> act_ret None)"

definition create_send :: "env \<Rightarrow> SendData \<Rightarrow> UserId \<Rightarrow> (server, Send) act" where
  "create_send E data user_id =
     act_bind (if sn_type data = SendType_i32 SendText then act_ret (sn_text data)
               else if sn_type data = SendType_i32 SendFile then act_ret (sn_file data)
               else act_err (Api ''Invalid Send type'')) (\<lambda>data_val.
     act_bind (some_or ''Send data not provided'' data_val) (\<lambda>d.
     let data_str = json_print E (json_remove ''response'' d) in
     act_seq (check_deletion_date E data)
     (act_bind (act_run (Send_new E (sn_type data) (sn_name data) data_str (sn_key data) (sn_deletion_date data))) (\<lambda>sd.
      let sd = sd\<lparr>sd_user_uuid := Some user_id, sd_notes := sn_notes data\<rparr> in
      act_bind (read_max_access_count data) (\<lambda>m.
      let sd = sd\<lparr>sd_max_access_count := m, sd_expiration_date := sn_expiration_date data,
            sd_disabled := sn_disabled data, sd_hide_email := sn_hide_email data, sd_atype := sn_type data\<rparr> in
      Send_set_password E (sn_password data) sd)))))"

text \<open>Every handler that stores a send reports it to the user's clients, which touches the revision
  date once more.\<close>

definition save_and_notify :: "env \<Rightarrow> Send \<Rightarrow> (server, Send) act" where
  "save_and_notify E sd =
     act_bind (act_run (Send_save E sd)) (\<lambda>sd.
     act_seq (act_upd (Send_update_users_revision E sd)) (act_ret sd))"

definition get_sends :: "User \<Rightarrow> (server, Send list) act" where
  "get_sends hu = act_get (Send_find_by_user (u_uuid hu))"

definition get_send :: "SendId \<Rightarrow> User \<Rightarrow> (server, Send) act" where
  "get_send send_id hu =
     act_bind (act_get (Send_find_by_uuid_and_user send_id (u_uuid hu))) (some_or ''Send not found'')"

definition post_send :: "env \<Rightarrow> SendData \<Rightarrow> User \<Rightarrow> (server, Send) act" where
  "post_send E data hu =
     act_seq (enforce_disable_send_policy E hu)
     (act_seq (enforce_disable_hide_email_policy E data hu)
     (act_seq (err_if (sn_type data = SendType_i32 SendFile) ''File sends should use /api/sends/file'')
     (act_bind (create_send E data (u_uuid hu)) (save_and_notify E))))"

section \<open>Files\<close>

definition send_size_limit :: "env \<Rightarrow> User \<Rightarrow> (server, int) act" where
  "send_size_limit E hu = (case user_send_limit (conf E) of
     None \<Rightarrow> act_ret SIZE_525_MB
   | Some limit_kb \<Rightarrow>
       if limit_kb = 0 then act_err (Api ''File uploads are disabled'')
       else act_bind (act_get (Send_size_by_user E (u_uuid hu))) (\<lambda>used.
         act_bind (some_or ''Existing sends overflow'' used) (\<lambda>already_used.
         act_bind (some_or ''Send size overflow''
           (case checked (limit_kb * 1024) of None \<Rightarrow> None | Some l \<Rightarrow> checked (l - already_used))) (\<lambda>left.
         act_seq (err_if (left \<le> 0) ''Send storage limit reached! Delete some sends to free up space'')
         (act_ret (max 0 (min left SIZE_525_MB)))))))"

definition generate_send_file_id :: "env \<Rightarrow> server \<Rightarrow> SendFileId \<times> server" where
  "generate_send_file_id E s = (random_token E (tick s), bump s)"

text \<open>\<open>if_not_exists\<close> refuses a path that is there; a write that fails stores nothing.\<close>

definition save_temp_file :: "env \<Rightarrow> SendId \<Rightarrow> SendFileId \<Rightarrow> nat \<Rightarrow> bool \<Rightarrow> (server, unit) act" where
  "save_temp_file E send_id file_id len overwrite s =
     (case storage_write E (tick s) (send_id @ ''/'' @ file_id) of
        Some e \<Rightarrow> (Inl (Api e), bump s)
      | None \<Rightarrow>
          if \<not> overwrite \<and> (send_id, file_id) \<in> fst ` set (send_files s) then (Inl (Api ''ConditionNotMatch''), bump s)
          else (Inr (), (bump s)\<lparr>send_files := AList.update (send_id, file_id) len (send_files s)\<rparr>))"

definition describe_file :: "env \<Rightarrow> SendFileId \<Rightarrow> int \<Rightarrow> Send \<Rightarrow> api_err + Send" where
  "describe_file E file_id n sd = (case json_parse E (sd_data sd) of
     None \<Rightarrow> Inl (Api ''JSON error'')
   | Some j \<Rightarrow>
       let j = (case j of
           JObj o' \<Rightarrow> JObj (json_insert ''sizeName'' (JStr (size_name E n)) (json_insert ''size'' (JInt n)
             (json_insert ''id'' (JStr file_id) o')))
         | _ \<Rightarrow> j)
       in Inr (sd\<lparr>sd_data := json_print E j\<rparr>))"

definition post_send_file :: "env \<Rightarrow> SendData \<Rightarrow> nat \<Rightarrow> User \<Rightarrow> (server, Send) act" where
  "post_send_file E model len hu =
     act_seq (enforce_disable_send_policy E hu)
     (act_seq (err_if (\<not> fits 64 (int len)) ''Invalid send size'')
     (act_seq (enforce_disable_hide_email_policy E model hu)
     (act_bind (send_size_limit E hu) (\<lambda>size_limit.
      act_seq (err_if (int len > size_limit) ''Send storage limit exceeded with this file'')
      (act_bind (create_send E model (u_uuid hu)) (\<lambda>sd.
       act_seq (err_if (sd_atype sd \<noteq> SendType_i32 SendFile) ''Send content is not a file'')
       (act_bind (act_run (generate_send_file_id E)) (\<lambda>file_id.
        act_seq (save_temp_file E (sd_uuid sd) file_id len True)
        (act_bind (act_sum (describe_file E file_id (int len) sd)) (save_and_notify E))))))))))"

definition post_send_file_v2 :: "env \<Rightarrow> SendData \<Rightarrow> User \<Rightarrow> (server, Send \<times> SendFileId) act" where
  "post_send_file_v2 E data hu =
     act_seq (enforce_disable_send_policy E hu)
     (act_seq (err_if (sn_type data \<noteq> SendType_i32 SendFile) ''Send content is not a file'')
     (act_seq (enforce_disable_hide_email_policy E data hu)
     (act_bind (some_or ''Invalid send length'' (sn_file_length data)) (\<lambda>m.
      act_bind (act_sum (NumberOrString_into_i64 m)) (\<lambda>file_length.
      act_seq (err_if (file_length < 0) ''Send size can't be negative'')
      (act_bind (send_size_limit E hu) (\<lambda>size_limit.
       act_seq (err_if (file_length > size_limit) ''Send storage limit exceeded with this file'')
       (act_bind (create_send E data (u_uuid hu)) (\<lambda>sd.
        act_bind (act_run (generate_send_file_id E)) (\<lambda>file_id.
        act_bind (act_sum (describe_file E file_id file_length sd)) (\<lambda>sd.
        act_bind (act_run (Send_save E sd)) (\<lambda>sd. act_ret (sd, file_id)))))))))))))"

record SendFileData =
  sf_id :: SendFileId
  sf_size :: nat
  sf_fileName :: string

definition SendFileData_from_str :: "env \<Rightarrow> string \<Rightarrow> SendFileData option" where
  "SendFileData_from_str E text =
     (let read = (\<lambda>j. case j of
          JObj kvs \<Rightarrow> (case (struct_field [''id''] j, struct_field [''size''] j, struct_field [''fileName''] j) of
              (Some a, Some b, Some c) \<Rightarrow> Some (a, b, c) | _ \<Rightarrow> None)
        | JArr [a, b, c] \<Rightarrow> Some (a, b, c)
        | _ \<Rightarrow> None)
      in case json_parse E text of None \<Rightarrow> None
        | Some j \<Rightarrow> (case read j of
            Some (JStr i, JInt n, JStr f) \<Rightarrow>
              if 0 \<le> n \<and> n < 2 ^ 64 then Some \<lparr>sf_id = i, sf_size = nat n, sf_fileName = f\<rparr> else None
          | _ \<Rightarrow> None))"

definition ends_with :: "string \<Rightarrow> string \<Rightarrow> bool" where
  "ends_with s t \<longleftrightarrow> length t \<le> length s \<and> drop (length s - length t) s = t"

definition post_send_file_v2_data ::
  "env \<Rightarrow> SendId \<Rightarrow> SendFileId \<Rightarrow> string option \<Rightarrow> nat \<Rightarrow> User \<Rightarrow> Device \<Rightarrow> (server, unit) act" where
  "post_send_file_v2_data E send_id file_id raw_name len hu dev =
     act_seq (enforce_disable_send_policy E hu)
     (act_bind (act_get (Send_find_by_uuid_and_user send_id (u_uuid hu))) (\<lambda>x.
      act_bind (some_or ''Send not found. Unable to save the file.'' x) (\<lambda>sd.
      act_seq (err_if (sd_atype sd \<noteq> SendType_i32 SendFile) ''Send is not a file type send.'')
      (act_bind (some_or ''Unable to decode send data as json.'' (SendFileData_from_str E (sd_data sd))) (\<lambda>send_data.
       act_seq (case raw_name of
           Some raw \<Rightarrow> err_if (\<not> (raw = sf_fileName send_data \<or> is_cli dev \<and> ends_with (sf_fileName send_data) raw))
             ''Send file name does not match.''
         | None \<Rightarrow> act_err (Api ''Send file name does not match or is not provided.''))
       (act_seq (err_if (file_id \<noteq> sf_id send_data) ''Send file does not match send data.'')
       (act_seq (err_if (len \<noteq> sf_size send_data) ''Send file size does not match.'')
       (act_seq (save_temp_file E send_id file_id len False)
        (act_upd (Send_update_users_revision E sd))))))))))"

section \<open>Accessing\<close>

definition check_send_access :: "env \<Rightarrow> string \<Rightarrow> string option \<Rightarrow> Send \<Rightarrow> (server, unit) act" where
  "check_send_access E wrong_msg password sd =
     act_seq (err_if (opt_is (sd_max_access_count sd) (\<lambda>m. sd_access_count sd \<ge> m)) SEND_INACCESSIBLE_MSG)
     (act_seq (case sd_expiration_date sd of None \<Rightarrow> act_ret ()
        | Some expiration \<Rightarrow> act_bind (act_run (utc_now E)) (\<lambda>now. err_if (now \<ge> expiration) SEND_INACCESSIBLE_MSG))
     (act_bind (act_run (utc_now E)) (\<lambda>now.
      act_seq (err_if (now \<ge> sd_deletion_date sd) SEND_INACCESSIBLE_MSG)
      (act_seq (err_if (sd_disabled sd) SEND_INACCESSIBLE_MSG)
      (if sd_password_hash sd = None then act_ret ()
       else case password of
         Some p \<Rightarrow> act_bind (act_sum (Send_check_password E p sd)) (\<lambda>ok. err_if (\<not> ok) wrong_msg)
       | None \<Rightarrow> act_err (Api ''Password not provided''))))))"

text \<open>\<open>access_count += 1\<close> wraps in a release build.\<close>

definition count_access :: "Send \<Rightarrow> Send" where
  "count_access sd = sd\<lparr>sd_access_count := i32_wrap (sd_access_count sd + 1)\<rparr>"

definition post_access :: "env \<Rightarrow> string \<Rightarrow> string option \<Rightarrow> (server, Send \<times> string option) act" where
  "post_access E access_id password =
     act_bind (act_get (find_by_access_id E access_id)) (\<lambda>x.
     act_bind (some_or SEND_INACCESSIBLE_MSG x) (\<lambda>sd.
     act_seq (check_send_access E ''Invalid password'' password sd)
     (act_bind (save_and_notify E (if sd_atype sd = SendType_i32 SendText then count_access sd else sd)) (\<lambda>sd.
      act_bind (act_get (creator_identifier sd)) (\<lambda>creator. act_ret (sd, creator))))))"

text \<open>The link to a file: a signed token on a local disk, a presigned address elsewhere.\<close>

record send_io =
  is_fs_operator :: bool
  presign_read :: "string \<Rightarrow> string + string"
  encode_jwt :: "BasicJwtClaims \<Rightarrow> string + string"
  decode_send_at :: "time \<Rightarrow> string \<Rightarrow> string + BasicJwtClaims"

definition generate_send_claims :: "env \<Rightarrow> SendId \<Rightarrow> SendFileId \<Rightarrow> server \<Rightarrow> BasicJwtClaims \<times> server" where
  "generate_send_claims E send_id file_id s =
     (let (now, s) = utc_now E s
      in (\<lparr>bj_nbf = timestamp now, bj_exp = timestamp (now + 120 * NANOS), bj_iss = domain_origin (conf E) @ ''|send'',
           bj_sub = send_id @ ''/'' @ file_id\<rparr>, s))"

definition download_url :: "env \<Rightarrow> send_io \<Rightarrow> string \<Rightarrow> SendId \<Rightarrow> SendFileId \<Rightarrow> (server, string) act" where
  "download_url E IO host send_id file_id =
     (if is_fs_operator IO then
        act_bind (act_run (generate_send_claims E send_id file_id)) (\<lambda>claims.
        case encode_jwt IO claims of
          Inl e \<Rightarrow> act_err (Api e)
        | Inr token \<Rightarrow> act_ret (host @ ''/api/sends/'' @ send_id @ ''/'' @ file_id @ ''?t='' @ token))
      else case presign_read IO (send_id @ ''/'' @ file_id) of Inl e \<Rightarrow> act_err (Api e) | Inr uri \<Rightarrow> act_ret uri)"

definition post_access_file ::
  "env \<Rightarrow> send_io \<Rightarrow> SendId \<Rightarrow> SendFileId \<Rightarrow> string option \<Rightarrow> string \<Rightarrow> (server, string) act" where
  "post_access_file E IO send_id file_id password host =
     act_bind (act_get (Send_find_by_uuid send_id)) (\<lambda>x.
     act_bind (some_or SEND_INACCESSIBLE_MSG x) (\<lambda>sd.
     act_seq (check_send_access E ''Invalid password.'' password sd)
     (act_bind (save_and_notify E (count_access sd)) (\<lambda>sd.
      download_url E IO host send_id file_id))))"

definition download_send :: "env \<Rightarrow> send_io \<Rightarrow> SendId \<Rightarrow> SendFileId \<Rightarrow> string \<Rightarrow> (server, nat option) act" where
  "download_send E IO send_id file_id t =
     act_bind (act_run (utc_now E)) (\<lambda>now.
     case decode_send_at IO now t of
       Inr claims \<Rightarrow>
         if bj_sub claims = send_id @ ''/'' @ file_id then act_get (\<lambda>s. map_of (send_files s) (send_id, file_id))
         else act_ret None
     | Inl e \<Rightarrow> act_ret None)"

section \<open>Editing and deleting\<close>

definition update_send_from_data :: "env \<Rightarrow> Send \<Rightarrow> SendData \<Rightarrow> User \<Rightarrow> bool \<Rightarrow> (server, Send) act" where
  "update_send_from_data E sd data hu notify =
     act_seq (err_if (sd_user_uuid sd \<noteq> Some (u_uuid hu)) ''Send is not owned by user'')
     (act_seq (err_if (sd_atype sd \<noteq> sn_type data) ''Sends can't change type'')
     (act_seq (check_deletion_date E data)
     (act_bind (if sn_type data = SendType_i32 SendText
         then act_bind (some_or ''Send data not provided'' (sn_text data)) (\<lambda>d.
           act_ret (sd\<lparr>sd_data := json_print E (json_remove ''response'' d)\<rparr>))
         else act_ret sd) (\<lambda>sd.
      let sd = sd\<lparr>sd_name := sn_name data, sd_akey := sn_key data, sd_deletion_date := sn_deletion_date data,
            sd_notes := sn_notes data\<rparr> in
      act_bind (read_max_access_count data) (\<lambda>m.
      let sd = sd\<lparr>sd_max_access_count := m, sd_expiration_date := sn_expiration_date data,
            sd_hide_email := sn_hide_email data, sd_disabled := sn_disabled data\<rparr> in
      act_bind (case sn_password data of None \<Rightarrow> act_ret sd | Some pw \<Rightarrow> Send_set_password E (Some pw) sd) (\<lambda>sd.
      if notify then save_and_notify E sd else act_run (Send_save E sd)))))))"

definition put_send :: "env \<Rightarrow> SendId \<Rightarrow> SendData \<Rightarrow> User \<Rightarrow> (server, Send) act" where
  "put_send E send_id data hu =
     act_seq (enforce_disable_send_policy E hu)
     (act_seq (enforce_disable_hide_email_policy E data hu)
     (act_bind (act_get (Send_find_by_uuid_and_user send_id (u_uuid hu))) (\<lambda>x.
      act_bind (some_or ''Send not found'' x) (\<lambda>sd. update_send_from_data E sd data hu True))))"

definition delete_send :: "env \<Rightarrow> SendId \<Rightarrow> User \<Rightarrow> (server, unit) act" where
  "delete_send E send_id hu =
     act_bind (act_get (Send_find_by_uuid_and_user send_id (u_uuid hu))) (\<lambda>x.
     act_bind (some_or ''Send not found'' x) (\<lambda>sd.
     act_seq (act_upd (Send_delete E sd)) (act_upd (Send_update_users_revision E sd))))"

definition put_remove_password :: "env \<Rightarrow> SendId \<Rightarrow> User \<Rightarrow> (server, Send) act" where
  "put_remove_password E send_id hu =
     act_seq (enforce_disable_send_policy E hu)
     (act_bind (act_get (Send_find_by_uuid_and_user send_id (u_uuid hu))) (\<lambda>x.
      act_bind (some_or ''Send not found'' x) (\<lambda>sd.
      act_bind (Send_set_password E None sd) (save_and_notify E))))"

definition purge_sends :: "env \<Rightarrow> (server, unit) act" where
  "purge_sends E = act_upd (Send_purge E)"

end
