(* ===== verification/OrgGroups.thy ===== *)
theory OrgGroups
  imports Members
begin

text \<open>
  Groups of an organization, their members and their assignments to collections:
  \<open>server/src/db/models/group.rs\<close>.
\<close>

section \<open>Local methods\<close>

definition Group_set_external_id :: "env \<Rightarrow> string option \<Rightarrow> Group \<Rightarrow> Group" where
  "Group_set_external_id E ext g = g\<lparr>g_external_id :=
     (case ext of Some e \<Rightarrow> if trim_of E e \<noteq> [] then Some e else None | None \<Rightarrow> None)\<rparr>"

definition Group_new ::
  "env \<Rightarrow> OrganizationId \<Rightarrow> string \<Rightarrow> bool \<Rightarrow> string option \<Rightarrow> server \<Rightarrow> Group \<times> server" where
  "Group_new E org name access_all ext s =
     (let (now, s) = utc_now E s;
          (uuid, s) = get_uuid E s
      in (Group_set_external_id E ext \<lparr>g_uuid = uuid, g_organizations_uuid = org, g_name = name,
            g_access_all = access_all, g_external_id = None, g_creation_date = now, g_revision_date = now\<rparr>, s))"

definition Group_to_json :: "Group \<Rightarrow> json" where
  "Group_to_json g = JObj
     [(''id'', JStr (g_uuid g)), (''organizationId'', JStr (g_organizations_uuid g)), (''name'', JStr (g_name g)),
      (''externalId'', json_opt (g_external_id g)), (''object'', JStr ''group'')]"

definition CollectionGroup_new :: "CollectionId \<Rightarrow> GroupId \<Rightarrow> bool \<Rightarrow> bool \<Rightarrow> bool \<Rightarrow> CollectionGroup" where
  "CollectionGroup_new col grp read_only hide_passwords manage =
     \<lparr>cg_collections_uuid = col, cg_groups_uuid = grp, cg_read_only = read_only,
      cg_hide_passwords = hide_passwords, cg_manage = manage\<rparr>"

definition to_json_details_for_group :: "CollectionGroup \<Rightarrow> json" where
  "to_json_details_for_group cg = JObj
     [(''id'', JStr (cg_groups_uuid cg)), (''readOnly'', JBool (cg_read_only cg)),
      (''hidePasswords'', JBool (cg_hide_passwords cg)),
      (''manage'', JBool (cg_manage cg \<or> (\<not> cg_read_only cg \<and> \<not> cg_hide_passwords cg)))]"

definition GroupUser_new :: "GroupId \<Rightarrow> MembershipId \<Rightarrow> GroupUser" where
  "GroupUser_new grp member = \<lparr>gu_groups_uuid = grp, gu_users_organizations_uuid = member\<rparr>"

section \<open>Queries\<close>

definition Group_find_by_organization :: "OrganizationId \<Rightarrow> server \<Rightarrow> Group list" where
  "Group_find_by_organization org s = tbl_select (\<lambda>g. g_organizations_uuid g = org) (groups s)"

definition Group_count_by_org :: "OrganizationId \<Rightarrow> server \<Rightarrow> int" where
  "Group_count_by_org org s = int (length (tbl_select (\<lambda>g. g_organizations_uuid g = org) (groups s)))"

definition Group_find_by_uuid_and_org :: "GroupId \<Rightarrow> OrganizationId \<Rightarrow> server \<Rightarrow> Group option" where
  "Group_find_by_uuid_and_org uuid org s =
     tbl_first (\<lambda>g. g_uuid g = uuid \<and> g_organizations_uuid g = org) (groups s)"

definition Group_find_by_external_id_and_org :: "string \<Rightarrow> OrganizationId \<Rightarrow> server \<Rightarrow> Group option" where
  "Group_find_by_external_id_and_org ext org s =
     tbl_first (\<lambda>g. g_external_id g = Some ext \<and> g_organizations_uuid g = org) (groups s)"

definition get_orgs_by_user_with_full_access :: "UserId \<Rightarrow> server \<Rightarrow> OrganizationId list" where
  "get_orgs_by_user_with_full_access user s = remdups
     [g_organizations_uuid g. gu \<leftarrow> groups_users s,
        m \<leftarrow> users_organizations s, m_uuid m = gu_users_organizations_uuid gu,
        g \<leftarrow> groups s, g_uuid g = gu_groups_uuid gu \<and> g_organizations_uuid g = m_org_uuid m,
        m_user_uuid m = user, g_access_all g]"

definition Group_is_in_full_access_group :: "UserId \<Rightarrow> OrganizationId \<Rightarrow> server \<Rightarrow> bool" where
  "Group_is_in_full_access_group user org s =
     (case [g_access_all g. g \<leftarrow> groups s,
              gu \<leftarrow> groups_users s, gu_groups_uuid gu = g_uuid g,
              m \<leftarrow> users_organizations s, m_uuid m = gu_users_organizations_uuid gu,
              m_user_uuid m = user, g_organizations_uuid g = org, g_access_all g] of
        [] \<Rightarrow> False | b # _ \<Rightarrow> b)"

definition cg_find_by_group :: "GroupId \<Rightarrow> OrganizationId \<Rightarrow> server \<Rightarrow> CollectionGroup list" where
  "cg_find_by_group grp org s =
     [cg. cg \<leftarrow> collections_groups s, g \<leftarrow> groups s, g_uuid g = cg_groups_uuid cg,
        c \<leftarrow> collections s, c_uuid c = cg_collections_uuid cg \<and> c_org_uuid c = g_organizations_uuid g,
        cg_groups_uuid cg = grp, c_org_uuid c = org]"

definition cg_find_by_user :: "UserId \<Rightarrow> server \<Rightarrow> CollectionGroup list" where
  "cg_find_by_user user s =
     [cg. cg \<leftarrow> collections_groups s,
        gu \<leftarrow> groups_users s, gu_groups_uuid gu = cg_groups_uuid cg,
        m \<leftarrow> users_organizations s, m_uuid m = gu_users_organizations_uuid gu,
        g \<leftarrow> groups s, g_uuid g = cg_groups_uuid cg \<and> g_organizations_uuid g = m_org_uuid m,
        c \<leftarrow> collections s, c_uuid c = cg_collections_uuid cg \<and> c_org_uuid c = g_organizations_uuid g,
        m_user_uuid m = user]"

definition cg_find_by_collection :: "CollectionId \<Rightarrow> server \<Rightarrow> CollectionGroup list" where
  "cg_find_by_collection col s =
     [cg. cg \<leftarrow> collections_groups s, cg_collections_uuid cg = col,
        c \<leftarrow> collections s, c_uuid c = cg_collections_uuid cg,
        g \<leftarrow> groups s, g_uuid g = cg_groups_uuid cg \<and> g_organizations_uuid g = c_org_uuid c]"

definition gu_find_by_group :: "GroupId \<Rightarrow> OrganizationId \<Rightarrow> server \<Rightarrow> GroupUser list" where
  "gu_find_by_group grp org s =
     [gu. gu \<leftarrow> groups_users s, g \<leftarrow> groups s, g_uuid g = gu_groups_uuid gu,
        m \<leftarrow> users_organizations s, m_uuid m = gu_users_organizations_uuid gu \<and> m_org_uuid m = g_organizations_uuid g,
        gu_groups_uuid gu = grp, g_organizations_uuid g = org]"

definition gu_find_by_member :: "MembershipId \<Rightarrow> server \<Rightarrow> GroupUser list" where
  "gu_find_by_member member s = tbl_select (\<lambda>gu. gu_users_organizations_uuid gu = member) (groups_users s)"

definition has_access_to_collection_by_member :: "CollectionId \<Rightarrow> MembershipId \<Rightarrow> server \<Rightarrow> bool" where
  "has_access_to_collection_by_member col member s \<longleftrightarrow>
     length [gu. gu \<leftarrow> groups_users s,
        cg \<leftarrow> collections_groups s, cg_groups_uuid cg = gu_groups_uuid gu,
        g \<leftarrow> groups s, g_uuid g = gu_groups_uuid gu,
        c \<leftarrow> collections s, c_uuid c = cg_collections_uuid cg \<and> c_org_uuid c = g_organizations_uuid g,
        cg_collections_uuid cg = col, gu_users_organizations_uuid gu = member] \<noteq> 0"

definition has_full_access_by_member :: "OrganizationId \<Rightarrow> MembershipId \<Rightarrow> server \<Rightarrow> bool" where
  "has_full_access_by_member org member s \<longleftrightarrow>
     length [gu. gu \<leftarrow> groups_users s, g \<leftarrow> groups s, g_uuid g = gu_groups_uuid gu,
        g_organizations_uuid g = org, g_access_all g, gu_users_organizations_uuid gu = member] \<noteq> 0"

definition Group_to_json_details :: "Group \<Rightarrow> server \<Rightarrow> json" where
  "Group_to_json_details g s = JObj
     [(''id'', JStr (g_uuid g)), (''organizationId'', JStr (g_organizations_uuid g)), (''name'', JStr (g_name g)),
      (''accessAll'', JBool (g_access_all g)), (''externalId'', json_opt (g_external_id g)),
      (''collections'', JArr (map (\<lambda>e. JObj [(''id'', JStr (cg_collections_uuid e)), (''readOnly'', JBool (cg_read_only e)),
         (''hidePasswords'', JBool (cg_hide_passwords e)), (''manage'', JBool (cg_manage e))])
         (cg_find_by_group (g_uuid g) (g_organizations_uuid g) s))),
      (''object'', JStr ''groupDetails'')]"

section \<open>Writes\<close>

definition Group_save :: "env \<Rightarrow> Group \<Rightarrow> server \<Rightarrow> Group \<times> server" where
  "Group_save E g s =
     (let (now, s) = utc_now E s;
          g = g\<lparr>g_revision_date := now\<rparr>
      in (g, s\<lparr>groups := tbl_upsert g_uuid g (groups s)\<rparr>))"

definition Group_update_revision_impl :: "GroupId \<Rightarrow> time \<Rightarrow> server \<Rightarrow> server" where
  "Group_update_revision_impl uuid date s =
     s\<lparr>groups := tbl_update (\<lambda>g. g_uuid g = uuid) (\<lambda>g. g\<lparr>g_revision_date := date\<rparr>) (groups s)\<rparr>"

definition Group_update_revision :: "env \<Rightarrow> GroupId \<Rightarrow> server \<Rightarrow> server" where
  "Group_update_revision E uuid s = (let (now, s) = utc_now E s in Group_update_revision_impl uuid now s)"

definition update_user_revision :: "env \<Rightarrow> GroupUser \<Rightarrow> server \<Rightarrow> server" where
  "update_user_revision E gu s =
     (case Membership_find_by_uuid (gu_users_organizations_uuid gu) s of
        Some m \<Rightarrow> update_uuid_revision E (m_user_uuid m) s
      | None \<Rightarrow> s)"

definition gu_key :: "GroupUser \<Rightarrow> MembershipId \<times> GroupId" where
  "gu_key gu = (gu_users_organizations_uuid gu, gu_groups_uuid gu)"

definition cg_key :: "CollectionGroup \<Rightarrow> CollectionId \<times> GroupId" where
  "cg_key cg = (cg_collections_uuid cg, cg_groups_uuid cg)"

definition gu_save :: "env \<Rightarrow> GroupUser \<Rightarrow> server \<Rightarrow> server" where
  "gu_save E gu s =
     (let s = update_user_revision E gu s in s\<lparr>groups_users := tbl_upsert gu_key gu (groups_users s)\<rparr>)"

definition gu_delete_by_group_and_member :: "env \<Rightarrow> GroupId \<Rightarrow> MembershipId \<Rightarrow> server \<Rightarrow> server" where
  "gu_delete_by_group_and_member E grp member s =
     (let s = (case Membership_find_by_uuid member s of
                 Some m \<Rightarrow> update_uuid_revision E (m_user_uuid m) s
               | None \<Rightarrow> s)
      in s\<lparr>groups_users := tbl_delete (\<lambda>gu. gu_groups_uuid gu = grp \<and> gu_users_organizations_uuid gu = member)
             (groups_users s)\<rparr>)"

definition gu_delete_all_by_group :: "env \<Rightarrow> GroupId \<Rightarrow> OrganizationId \<Rightarrow> server \<Rightarrow> server" where
  "gu_delete_all_by_group E grp org s =
     (let s = fold (update_user_revision E) (gu_find_by_group grp org s) s
      in s\<lparr>groups_users := tbl_delete (\<lambda>gu. gu_groups_uuid gu = grp) (groups_users s)\<rparr>)"

definition cg_save :: "env \<Rightarrow> CollectionGroup \<Rightarrow> OrganizationId \<Rightarrow> server \<Rightarrow> server" where
  "cg_save E cg org s =
     (let s = fold (update_user_revision E) (gu_find_by_group (cg_groups_uuid cg) org s) s
      in s\<lparr>collections_groups := tbl_upsert cg_key cg (collections_groups s)\<rparr>)"

definition cg_delete :: "env \<Rightarrow> CollectionGroup \<Rightarrow> OrganizationId \<Rightarrow> server \<Rightarrow> server" where
  "cg_delete E cg org s =
     (let s = fold (update_user_revision E) (gu_find_by_group (cg_groups_uuid cg) org s) s
      in s\<lparr>collections_groups := tbl_delete (\<lambda>x. cg_collections_uuid x = cg_collections_uuid cg
             \<and> cg_groups_uuid x = cg_groups_uuid cg) (collections_groups s)\<rparr>)"

definition cg_delete_all_by_group :: "env \<Rightarrow> GroupId \<Rightarrow> OrganizationId \<Rightarrow> server \<Rightarrow> server" where
  "cg_delete_all_by_group E grp org s =
     (let s = fold (update_user_revision E) (gu_find_by_group grp org s) s
      in s\<lparr>collections_groups := tbl_delete (\<lambda>cg. cg_groups_uuid cg = grp) (collections_groups s)\<rparr>)"

definition cg_delete_all_by_collection :: "env \<Rightarrow> CollectionId \<Rightarrow> OrganizationId \<Rightarrow> server \<Rightarrow> server" where
  "cg_delete_all_by_collection E col org s =
     (let s = fold (\<lambda>cg s. fold (update_user_revision E) (gu_find_by_group (cg_groups_uuid cg) org s) s)
            (cg_find_by_collection col s) s
      in s\<lparr>collections_groups := tbl_delete (\<lambda>cg. cg_collections_uuid cg = col) (collections_groups s)\<rparr>)"

definition Group_delete :: "env \<Rightarrow> Group \<Rightarrow> OrganizationId \<Rightarrow> server \<Rightarrow> server" where
  "Group_delete E g org s =
     (let s = cg_delete_all_by_group E (g_uuid g) org s;
          s = gu_delete_all_by_group E (g_uuid g) org s
      in s\<lparr>groups := tbl_delete (\<lambda>x. g_uuid x = g_uuid g) (groups s)\<rparr>)"

definition Group_delete_all_by_organization :: "env \<Rightarrow> OrganizationId \<Rightarrow> server \<Rightarrow> server" where
  "Group_delete_all_by_organization E org s = fold (\<lambda>g. Group_delete E g org) (Group_find_by_organization org s) s"

section \<open>Lemmas\<close>

lemma revises_user_revision: "revises s (update_user_revision E gu s)"
  by (simp add: update_user_revision_def revises_revision split: option.split)

lemma revises_user_revisions: "revises s (fold (update_user_revision E) gus s)"
  by (rule revises_fold) (rule revises_user_revision)

lemmas user_revision_frame [simp] = revises_frame [OF revises_user_revision]
lemmas user_revisions_frame [simp] = revises_frame [OF revises_user_revisions]

lemma revises_group_revisions:
  "revises s (fold (\<lambda>cg s. fold (update_user_revision E) (gu_find_by_group (cg_groups_uuid cg) org s) s) cgs s)"
  by (rule revises_fold) (rule revises_user_revisions)

lemmas group_revisions_frame [simp] = revises_frame [OF revises_group_revisions]

text \<open>Removing a group removes its members and its assignments, and nothing else.\<close>

lemma Group_delete_tables:
  "groups (Group_delete E g org s) = tbl_delete (\<lambda>x. g_uuid x = g_uuid g) (groups s)"
  "groups_users (Group_delete E g org s) = tbl_delete (\<lambda>x. gu_groups_uuid x = g_uuid g) (groups_users s)"
  "collections_groups (Group_delete E g org s) = tbl_delete (\<lambda>x. cg_groups_uuid x = g_uuid g) (collections_groups s)"
  "users_organizations (Group_delete E g org s) = users_organizations s"
  "users_collections (Group_delete E g org s) = users_collections s"
  "collections (Group_delete E g org s) = collections s"
  "ciphers (Group_delete E g org s) = ciphers s"
  "ciphers_collections (Group_delete E g org s) = ciphers_collections s"
  by (simp_all add: Group_delete_def cg_delete_all_by_group_def gu_delete_all_by_group_def Let_def)

lemma full_access_group_iff:
  "Group_is_in_full_access_group user org s \<longleftrightarrow>
     (\<exists>g \<in> set (groups s). \<exists>gu \<in> set (groups_users s). \<exists>m \<in> set (users_organizations s).
        gu_groups_uuid gu = g_uuid g \<and> m_uuid m = gu_users_organizations_uuid gu \<and> m_user_uuid m = user
        \<and> g_organizations_uuid g = org \<and> g_access_all g)"
proof -
  have hd: "(case xs of [] \<Rightarrow> False | b # _ \<Rightarrow> b) \<longleftrightarrow> (\<exists>x. x \<in> set xs)" if "set xs \<subseteq> {True}" for xs
    using that by (cases xs) auto
  show ?thesis unfolding Group_is_in_full_access_group_def by (subst hd) auto
qed

end
