(* ===== verification/Collections.thy ===== *)
theory Collections
  imports OrgGroups
begin

text \<open>
  Collections, the assignments of users, groups and ciphers to them, and the access checks:
  \<open>server/src/db/models/collection.rs\<close> and the membership queries of \<open>organization.rs\<close> that join
  them. The access queries have a version with groups and one without; \<open>org_groups_enabled\<close>
  chooses.
\<close>

section \<open>Local methods\<close>

definition Collection_set_external_id :: "string option \<Rightarrow> Collection \<Rightarrow> Collection" where
  "Collection_set_external_id ext c = c\<lparr>c_external_id :=
     (case ext of Some e \<Rightarrow> if e = [] then None else Some e | None \<Rightarrow> None)\<rparr>"

definition Collection_new ::
  "env \<Rightarrow> OrganizationId \<Rightarrow> string \<Rightarrow> string option \<Rightarrow> server \<Rightarrow> Collection \<times> server" where
  "Collection_new E org name ext s =
     (let (uuid, s) = get_uuid E s
      in (Collection_set_external_id ext \<lparr>c_uuid = uuid, c_org_uuid = org, c_name = name, c_external_id = None\<rparr>, s))"

definition Collection_fields :: "Collection \<Rightarrow> string \<Rightarrow> (string \<times> json) list" where
  "Collection_fields c object =
     [(''externalId'', json_opt (c_external_id c)), (''id'', JStr (c_uuid c)),
      (''organizationId'', JStr (c_org_uuid c)), (''name'', JStr (c_name c)), (''object'', JStr object)]"

definition Collection_to_json :: "Collection \<Rightarrow> json" where
  "Collection_to_json c = JObj (Collection_fields c ''collection'')"

section \<open>Memberships by cipher and collection\<close>

definition Membership_find_by_cipher_and_org :: "CipherId \<Rightarrow> OrganizationId \<Rightarrow> server \<Rightarrow> Membership list" where
  "Membership_find_by_cipher_and_org cipher org s = remdups
     [m. m \<leftarrow> users_organizations s, m_org_uuid m = org,
        cu \<leftarrow> left_join (\<lambda>cu. cu_user_uuid cu = m_user_uuid m) (users_collections s),
        cc \<leftarrow> left_join (\<lambda>cc. opt_is cu (\<lambda>cu. cc_collection_uuid cc = cu_collection_uuid cu)
                 \<and> cc_cipher_uuid cc = cipher) (ciphers_collections s),
        m_access_all m \<or> opt_is cc (\<lambda>cc. cc_cipher_uuid cc = cipher)]"

definition Membership_find_by_cipher_and_org_with_group ::
  "CipherId \<Rightarrow> OrganizationId \<Rightarrow> server \<Rightarrow> Membership list" where
  "Membership_find_by_cipher_and_org_with_group cipher org s = remdups
     [m. m \<leftarrow> users_organizations s, m_org_uuid m = org,
        gu \<leftarrow> groups_users s, gu_users_organizations_uuid gu = m_uuid m,
        cg \<leftarrow> left_join (\<lambda>cg. cg_groups_uuid cg = gu_groups_uuid gu) (collections_groups s),
        g \<leftarrow> left_join (\<lambda>g. g_uuid g = gu_groups_uuid gu \<and> g_organizations_uuid g = m_org_uuid m) (groups s),
        cc \<leftarrow> left_join (\<lambda>cc. opt_is cg (\<lambda>cg. cc_collection_uuid cc = cg_collections_uuid cg)
                 \<and> cc_cipher_uuid cc = cipher) (ciphers_collections s),
        opt_is g g_access_all \<or> opt_is cc (\<lambda>cc. cc_cipher_uuid cc = cipher)]"

definition user_has_ge_admin_access_to_cipher :: "UserId \<Rightarrow> CipherId \<Rightarrow> server \<Rightarrow> bool" where
  "user_has_ge_admin_access_to_cipher user cipher s \<longleftrightarrow>
     length [m. m \<leftarrow> users_organizations s,
        ci \<leftarrow> ciphers s, ci_uuid ci = cipher \<and> ci_organization_uuid ci = Some (m_org_uuid m),
        m_user_uuid m = user, m_atype m \<in> {MembershipType_i32 Owner, MembershipType_i32 Admin}] \<noteq> 0"

definition Membership_find_by_collection_and_org :: "CollectionId \<Rightarrow> OrganizationId \<Rightarrow> server \<Rightarrow> Membership list" where
  "Membership_find_by_collection_and_org col org s =
     [m. m \<leftarrow> users_organizations s, m_org_uuid m = org,
        cu \<leftarrow> left_join (\<lambda>cu. cu_user_uuid cu = m_user_uuid m) (users_collections s),
        m_access_all m \<or> opt_is cu (\<lambda>cu. cu_collection_uuid cu = col)]"

section \<open>Queries\<close>

definition Collection_find_by_uuid :: "CollectionId \<Rightarrow> server \<Rightarrow> Collection option" where
  "Collection_find_by_uuid uuid s = tbl_first (\<lambda>c. c_uuid c = uuid) (collections s)"

definition Collection_find_by_user_uuid :: "env \<Rightarrow> UserId \<Rightarrow> server \<Rightarrow> Collection list" where
  "Collection_find_by_user_uuid E user s = remdups
     (if org_groups_enabled (conf E)
      then [c. c \<leftarrow> collections s,
        cu \<leftarrow> left_join (\<lambda>cu. cu_collection_uuid cu = c_uuid c \<and> cu_user_uuid cu = user) (users_collections s),
        m \<leftarrow> left_join (\<lambda>m. c_org_uuid c = m_org_uuid m \<and> m_user_uuid m = user) (users_organizations s),
        gu \<leftarrow> left_join (\<lambda>gu. opt_is m (\<lambda>m. gu_users_organizations_uuid gu = m_uuid m)) (groups_users s),
        g \<leftarrow> left_join (\<lambda>g. opt_is gu (\<lambda>gu. g_uuid g = gu_groups_uuid gu)
               \<and> opt_is m (\<lambda>m. g_organizations_uuid g = m_org_uuid m)) (groups s),
        cg \<leftarrow> left_join (\<lambda>cg. opt_is gu (\<lambda>gu. cg_groups_uuid cg = gu_groups_uuid gu)
               \<and> cg_collections_uuid cg = c_uuid c) (collections_groups s),
        opt_is m (\<lambda>m. m_status m = MembershipStatus_i32 Confirmed),
        opt_is cu (\<lambda>cu. cu_user_uuid cu = user) \<or> opt_is m m_access_all \<or> opt_is g g_access_all
          \<or> opt_is gu (\<lambda>gu. opt_is m (\<lambda>m. gu_users_organizations_uuid gu = m_uuid m)) \<and> cg \<noteq> None]
      else [c. c \<leftarrow> collections s,
        cu \<leftarrow> left_join (\<lambda>cu. cu_collection_uuid cu = c_uuid c \<and> cu_user_uuid cu = user) (users_collections s),
        m \<leftarrow> left_join (\<lambda>m. c_org_uuid c = m_org_uuid m \<and> m_user_uuid m = user) (users_organizations s),
        opt_is m (\<lambda>m. m_status m = MembershipStatus_i32 Confirmed),
        opt_is cu (\<lambda>cu. cu_user_uuid cu = user) \<or> opt_is m m_access_all])"

definition Collection_find_by_organization_and_user_uuid ::
  "env \<Rightarrow> OrganizationId \<Rightarrow> UserId \<Rightarrow> server \<Rightarrow> Collection list" where
  "Collection_find_by_organization_and_user_uuid E org user s =
     filter (\<lambda>c. c_org_uuid c = org) (Collection_find_by_user_uuid E user s)"

definition Collection_find_by_organization :: "OrganizationId \<Rightarrow> server \<Rightarrow> Collection list" where
  "Collection_find_by_organization org s = tbl_select (\<lambda>c. c_org_uuid c = org) (collections s)"

definition Collection_count_by_org :: "OrganizationId \<Rightarrow> server \<Rightarrow> int" where
  "Collection_count_by_org org s = int (length (tbl_select (\<lambda>c. c_org_uuid c = org) (collections s)))"

definition Collection_find_by_uuid_and_org :: "CollectionId \<Rightarrow> OrganizationId \<Rightarrow> server \<Rightarrow> Collection option" where
  "Collection_find_by_uuid_and_org uuid org s =
     tbl_first (\<lambda>c. c_uuid c = uuid \<and> c_org_uuid c = org) (collections s)"

definition Collection_find_by_uuid_and_user :: "env \<Rightarrow> CollectionId \<Rightarrow> UserId \<Rightarrow> server \<Rightarrow> Collection option" where
  "Collection_find_by_uuid_and_user E uuid user s = tbl_first (\<lambda>_. True)
     (if org_groups_enabled (conf E)
      then [c. c \<leftarrow> collections s,
        cu \<leftarrow> left_join (\<lambda>cu. cu_collection_uuid cu = c_uuid c \<and> cu_user_uuid cu = user) (users_collections s),
        m \<leftarrow> left_join (\<lambda>m. c_org_uuid c = m_org_uuid m \<and> m_user_uuid m = user) (users_organizations s),
        gu \<leftarrow> left_join (\<lambda>gu. opt_is m (\<lambda>m. gu_users_organizations_uuid gu = m_uuid m)) (groups_users s),
        g \<leftarrow> left_join (\<lambda>g. opt_is gu (\<lambda>gu. g_uuid g = gu_groups_uuid gu)
               \<and> opt_is m (\<lambda>m. g_organizations_uuid g = m_org_uuid m)) (groups s),
        cg \<leftarrow> left_join (\<lambda>cg. opt_is gu (\<lambda>gu. cg_groups_uuid cg = gu_groups_uuid gu)
               \<and> cg_collections_uuid cg = c_uuid c) (collections_groups s),
        c_uuid c = uuid,
        opt_is cu (\<lambda>cu. cu_collection_uuid cu = uuid)
          \<or> opt_is m m_access_all \<or> opt_is m (\<lambda>m. m_atype m \<le> MembershipType_i32 Admin)
          \<or> opt_is g g_access_all
          \<or> opt_is gu (\<lambda>gu. opt_is m (\<lambda>m. gu_users_organizations_uuid gu = m_uuid m)) \<and> cg \<noteq> None]
      else [c. c \<leftarrow> collections s,
        cu \<leftarrow> left_join (\<lambda>cu. cu_collection_uuid cu = c_uuid c \<and> cu_user_uuid cu = user) (users_collections s),
        m \<leftarrow> left_join (\<lambda>m. c_org_uuid c = m_org_uuid m \<and> m_user_uuid m = user) (users_organizations s),
        c_uuid c = uuid,
        opt_is cu (\<lambda>cu. cu_collection_uuid cu = uuid)
          \<or> opt_is m m_access_all \<or> opt_is m (\<lambda>m. m_atype m \<le> MembershipType_i32 Admin)])"

definition is_writable_by_user :: "env \<Rightarrow> Collection \<Rightarrow> UserId \<Rightarrow> server \<Rightarrow> bool" where
  "is_writable_by_user E col user s \<longleftrightarrow> length
     (if org_groups_enabled (conf E)
      then [c. c \<leftarrow> collections s, c_uuid c = c_uuid col,
        m \<leftarrow> users_organizations s, c_org_uuid c = m_org_uuid m \<and> m_user_uuid m = user,
        cu \<leftarrow> left_join (\<lambda>cu. cu_collection_uuid cu = c_uuid c \<and> cu_user_uuid cu = user) (users_collections s),
        gu \<leftarrow> left_join (\<lambda>gu. gu_users_organizations_uuid gu = m_uuid m) (groups_users s),
        g \<leftarrow> left_join (\<lambda>g. opt_is gu (\<lambda>gu. g_uuid g = gu_groups_uuid gu)
               \<and> g_organizations_uuid g = m_org_uuid m) (groups s),
        cg \<leftarrow> left_join (\<lambda>cg. opt_is gu (\<lambda>gu. cg_groups_uuid cg = gu_groups_uuid gu)
               \<and> cg_collections_uuid cg = c_uuid c) (collections_groups s),
        m_atype m \<le> MembershipType_i32 Admin \<or> m_access_all m
          \<or> opt_is cu (\<lambda>cu. cu_collection_uuid cu = c_uuid col \<and> \<not> cu_read_only cu)
          \<or> opt_is g g_access_all
          \<or> opt_is cg (\<lambda>cg. \<not> cg_read_only cg)]
      else [c. c \<leftarrow> collections s, c_uuid c = c_uuid col,
        m \<leftarrow> users_organizations s, c_org_uuid c = m_org_uuid m \<and> m_user_uuid m = user,
        cu \<leftarrow> left_join (\<lambda>cu. cu_collection_uuid cu = c_uuid c \<and> cu_user_uuid cu = user) (users_collections s),
        m_atype m \<le> MembershipType_i32 Admin \<or> m_access_all m
          \<or> opt_is cu (\<lambda>cu. cu_collection_uuid cu = c_uuid col \<and> \<not> cu_read_only cu)]) \<noteq> 0"

text \<open>Both remaining checks walk the same six tables, groups or not.\<close>

definition collection_grants ::
  "CollectionId \<Rightarrow> UserId \<Rightarrow> (CollectionUser \<Rightarrow> bool) \<Rightarrow> (CollectionGroup \<Rightarrow> bool) \<Rightarrow> server \<Rightarrow> Collection list" where
  "collection_grants col user cu_flag cg_flag s =
     [c. c \<leftarrow> collections s,
        cu \<leftarrow> left_join (\<lambda>cu. cu_collection_uuid cu = c_uuid c \<and> cu_user_uuid cu = user) (users_collections s),
        m \<leftarrow> left_join (\<lambda>m. c_org_uuid c = m_org_uuid m \<and> m_user_uuid m = user) (users_organizations s),
        gu \<leftarrow> left_join (\<lambda>gu. opt_is m (\<lambda>m. gu_users_organizations_uuid gu = m_uuid m)) (groups_users s),
        g \<leftarrow> left_join (\<lambda>g. opt_is gu (\<lambda>gu. g_uuid g = gu_groups_uuid gu)
               \<and> opt_is m (\<lambda>m. g_organizations_uuid g = m_org_uuid m)) (groups s),
        cg \<leftarrow> left_join (\<lambda>cg. opt_is gu (\<lambda>gu. cg_groups_uuid cg = gu_groups_uuid gu)
               \<and> cg_collections_uuid cg = c_uuid c) (collections_groups s),
        c_uuid c = col,
        opt_is cu (\<lambda>cu. cu_collection_uuid cu = col \<and> cu_flag cu)
          \<or> opt_is m m_access_all \<or> opt_is m (\<lambda>m. m_atype m \<le> MembershipType_i32 Admin)
          \<or> opt_is g g_access_all
          \<or> opt_is gu (\<lambda>gu. opt_is m (\<lambda>m. gu_users_organizations_uuid gu = m_uuid m)) \<and> opt_is cg cg_flag]"

definition hide_passwords_for_user :: "Collection \<Rightarrow> UserId \<Rightarrow> server \<Rightarrow> bool" where
  "hide_passwords_for_user col user s \<longleftrightarrow>
     length (collection_grants (c_uuid col) user cu_hide_passwords cg_hide_passwords s) \<noteq> 0"

definition is_coll_manageable_by_user :: "CollectionId \<Rightarrow> UserId \<Rightarrow> server \<Rightarrow> bool" where
  "is_coll_manageable_by_user uuid user s \<longleftrightarrow> length (collection_grants uuid user cu_manage cg_manage s) \<noteq> 0"

definition is_manageable_by_user :: "Collection \<Rightarrow> UserId \<Rightarrow> server \<Rightarrow> bool" where
  "is_manageable_by_user col user s \<longleftrightarrow> is_coll_manageable_by_user (c_uuid col) user s"

section \<open>Assignments of users\<close>

record CollectionMembership =
  cm_membership_uuid :: MembershipId
  cm_collection_uuid :: CollectionId
  cm_read_only :: bool
  cm_hide_passwords :: bool
  cm_manage :: bool

definition to_json_details_for_member :: "CollectionMembership \<Rightarrow> int \<Rightarrow> json" where
  "to_json_details_for_member cm membership_type = JObj
     [(''id'', JStr (cm_membership_uuid cm)), (''readOnly'', JBool (cm_read_only cm)),
      (''hidePasswords'', JBool (cm_hide_passwords cm)),
      (''manage'', JBool (i32_ge membership_type Admin \<or> cm_manage cm
         \<or> (membership_type = MembershipType_i32 Manager \<and> \<not> cm_read_only cm \<and> \<not> cm_hide_passwords cm)))]"

definition cu_find_by_organization_swap :: "OrganizationId \<Rightarrow> server \<Rightarrow> CollectionMembership list" where
  "cu_find_by_organization_swap org s =
     [\<lparr>cm_membership_uuid = m_uuid m, cm_collection_uuid = cu_collection_uuid cu, cm_read_only = cu_read_only cu,
       cm_hide_passwords = cu_hide_passwords cu, cm_manage = cu_manage cu\<rparr>.
        cu \<leftarrow> users_collections s, c \<leftarrow> collections s, c_uuid c = cu_collection_uuid cu, c_org_uuid c = org,
        m \<leftarrow> users_organizations s, m_user_uuid m = cu_user_uuid cu, m_org_uuid m = org]"

definition cu_find_by_org_and_coll_swap ::
  "OrganizationId \<Rightarrow> CollectionId \<Rightarrow> server \<Rightarrow> CollectionMembership list" where
  "cu_find_by_org_and_coll_swap org col s =
     [\<lparr>cm_membership_uuid = m_uuid m, cm_collection_uuid = cu_collection_uuid cu, cm_read_only = cu_read_only cu,
       cm_hide_passwords = cu_hide_passwords cu, cm_manage = cu_manage cu\<rparr>.
        cu \<leftarrow> users_collections s, cu_collection_uuid cu = col,
        m \<leftarrow> users_organizations s, m_user_uuid m = cu_user_uuid cu, m_org_uuid m = org]"

definition cu_key :: "CollectionUser \<Rightarrow> UserId \<times> CollectionId" where
  "cu_key cu = (cu_user_uuid cu, cu_collection_uuid cu)"

definition cu_save ::
  "env \<Rightarrow> UserId \<Rightarrow> CollectionId \<Rightarrow> bool \<Rightarrow> bool \<Rightarrow> bool \<Rightarrow> server \<Rightarrow> server" where
  "cu_save E user col read_only hide_passwords manage s =
     (let s = update_uuid_revision E user s
      in s\<lparr>users_collections := tbl_upsert cu_key \<lparr>cu_user_uuid = user, cu_collection_uuid = col,
             cu_read_only = read_only, cu_hide_passwords = hide_passwords, cu_manage = manage\<rparr> (users_collections s)\<rparr>)"

definition cu_delete :: "env \<Rightarrow> CollectionUser \<Rightarrow> server \<Rightarrow> server" where
  "cu_delete E cu s =
     (let s = update_uuid_revision E (cu_user_uuid cu) s
      in s\<lparr>users_collections := tbl_delete (\<lambda>x. cu_user_uuid x = cu_user_uuid cu
             \<and> cu_collection_uuid x = cu_collection_uuid cu) (users_collections s)\<rparr>)"

definition cu_find_by_collection :: "CollectionId \<Rightarrow> server \<Rightarrow> CollectionUser list" where
  "cu_find_by_collection col s = tbl_select (\<lambda>cu. cu_collection_uuid cu = col) (users_collections s)"

definition cu_find_by_collection_and_user :: "CollectionId \<Rightarrow> UserId \<Rightarrow> server \<Rightarrow> CollectionUser option" where
  "cu_find_by_collection_and_user col user s =
     tbl_first (\<lambda>cu. cu_collection_uuid cu = col \<and> cu_user_uuid cu = user) (users_collections s)"

definition cu_find_by_user :: "UserId \<Rightarrow> server \<Rightarrow> CollectionUser list" where
  "cu_find_by_user user s = tbl_select (\<lambda>cu. cu_user_uuid cu = user) (users_collections s)"

definition cu_delete_all_by_collection :: "env \<Rightarrow> CollectionId \<Rightarrow> server \<Rightarrow> server" where
  "cu_delete_all_by_collection E col s =
     (let s = fold (\<lambda>cu. update_uuid_revision E (cu_user_uuid cu)) (cu_find_by_collection col s) s
      in s\<lparr>users_collections := tbl_delete (\<lambda>cu. cu_collection_uuid cu = col) (users_collections s)\<rparr>)"

definition has_access_to_collection_by_user :: "CollectionId \<Rightarrow> UserId \<Rightarrow> server \<Rightarrow> bool" where
  "has_access_to_collection_by_user col user s \<longleftrightarrow> cu_find_by_collection_and_user col user s \<noteq> None"

section \<open>Access and details\<close>

definition can_access_collection :: "env \<Rightarrow> Membership \<Rightarrow> CollectionId \<Rightarrow> server \<Rightarrow> bool" where
  "can_access_collection E member col s \<longleftrightarrow>
     has_status Confirmed member
     \<and> (has_full_access member \<or> has_access_to_collection_by_user col (m_user_uuid member) s
        \<or> org_groups_enabled (conf E)
          \<and> (has_full_access_by_member (m_org_uuid member) (m_uuid member) s
             \<or> has_access_to_collection_by_member col (m_uuid member) s))"

text \<open>The flags of a collection for a user, read-only, passwords hidden, may manage; the branch of
  the code without the cached data of a full synchronisation.\<close>

definition collection_flags :: "env \<Rightarrow> Collection \<Rightarrow> UserId \<Rightarrow> server \<Rightarrow> bool \<times> bool \<times> bool" where
  "collection_flags E col user s =
     (case Membership_find_confirmed_by_user_and_org user (c_org_uuid col) s of
        None \<Rightarrow> (True, True, False)
      | Some m \<Rightarrow>
          if has_full_access m then (False, False, i32_ge (m_atype m) Manager)
          else if m_atype m = MembershipType_i32 Manager \<and> is_manageable_by_user col user s then (False, False, True)
          else let is_manager = (m_atype m = MembershipType_i32 Manager);
                   read_only = (\<not> is_writable_by_user E col user s);
                   hide_passwords = hide_passwords_for_user col user s
               in (read_only, hide_passwords, is_manager \<and> \<not> read_only \<and> \<not> hide_passwords))"

definition Collection_to_json_details :: "env \<Rightarrow> Collection \<Rightarrow> UserId \<Rightarrow> server \<Rightarrow> json" where
  "Collection_to_json_details E col user s =
     (let (read_only, hide_passwords, manage) = collection_flags E col user s
      in JObj (Collection_fields col ''collectionDetails''
        @ [(''readOnly'', JBool read_only), (''hidePasswords'', JBool hide_passwords), (''manage'', JBool manage)]))"

section \<open>Writes\<close>

definition Collection_update_users_revision :: "env \<Rightarrow> Collection \<Rightarrow> server \<Rightarrow> server" where
  "Collection_update_users_revision E c s =
     fold (\<lambda>m. update_uuid_revision E (m_user_uuid m))
       (Membership_find_by_collection_and_org (c_uuid c) (c_org_uuid c) s) s"

definition Collection_save :: "env \<Rightarrow> Collection \<Rightarrow> server \<Rightarrow> server" where
  "Collection_save E c s =
     (let s = Collection_update_users_revision E c s
      in s\<lparr>collections := tbl_upsert c_uuid c (collections s)\<rparr>)"

definition cc_update_users_revision :: "env \<Rightarrow> CollectionId \<Rightarrow> server \<Rightarrow> server" where
  "cc_update_users_revision E col s =
     (case Collection_find_by_uuid col s of Some c \<Rightarrow> Collection_update_users_revision E c s | None \<Rightarrow> s)"

definition cc_key :: "CollectionCipher \<Rightarrow> CipherId \<times> CollectionId" where
  "cc_key cc = (cc_cipher_uuid cc, cc_collection_uuid cc)"

definition cc_save :: "env \<Rightarrow> CipherId \<Rightarrow> CollectionId \<Rightarrow> server \<Rightarrow> server" where
  "cc_save E cipher col s =
     (let s = cc_update_users_revision E col s
      in s\<lparr>ciphers_collections := tbl_upsert cc_key \<lparr>cc_cipher_uuid = cipher, cc_collection_uuid = col\<rparr>
             (ciphers_collections s)\<rparr>)"

definition cc_delete :: "env \<Rightarrow> CipherId \<Rightarrow> CollectionId \<Rightarrow> server \<Rightarrow> server" where
  "cc_delete E cipher col s =
     (let s = cc_update_users_revision E col s
      in s\<lparr>ciphers_collections := tbl_delete (\<lambda>cc. cc_cipher_uuid cc = cipher \<and> cc_collection_uuid cc = col)
             (ciphers_collections s)\<rparr>)"

definition cc_delete_all_by_cipher :: "CipherId \<Rightarrow> server \<Rightarrow> server" where
  "cc_delete_all_by_cipher cipher s =
     s\<lparr>ciphers_collections := tbl_delete (\<lambda>cc. cc_cipher_uuid cc = cipher) (ciphers_collections s)\<rparr>"

definition cc_delete_all_by_collection :: "CollectionId \<Rightarrow> server \<Rightarrow> server" where
  "cc_delete_all_by_collection col s =
     s\<lparr>ciphers_collections := tbl_delete (\<lambda>cc. cc_collection_uuid cc = col) (ciphers_collections s)\<rparr>"

definition Collection_delete :: "env \<Rightarrow> Collection \<Rightarrow> server \<Rightarrow> server" where
  "Collection_delete E c s =
     (let s = Collection_update_users_revision E c s;
          s = cc_delete_all_by_collection (c_uuid c) s;
          s = cu_delete_all_by_collection E (c_uuid c) s;
          s = cg_delete_all_by_collection E (c_uuid c) (c_org_uuid c) s
      in s\<lparr>collections := tbl_delete (\<lambda>x. c_uuid x = c_uuid c) (collections s)\<rparr>)"

definition Collection_delete_all_by_organization :: "env \<Rightarrow> OrganizationId \<Rightarrow> server \<Rightarrow> server" where
  "Collection_delete_all_by_organization E org s =
     fold (Collection_delete E) (Collection_find_by_organization org s) s"

end
