(* ===== verification/VaultItems.thy ===== *)
theory VaultItems
  imports Collections
begin

text \<open>
  What hangs on a cipher: folders (\<open>folder.rs\<close>), favorites (\<open>favorite.rs\<close>), archive marks
  (\<open>archive.rs\<close>) and attachments (\<open>attachment.rs\<close>), with the folder handlers of
  \<open>api/core/folders.rs\<close>. Push notifications to other clients are not part of the state.
\<close>

section \<open>Folders\<close>

definition Folder_new :: "env \<Rightarrow> UserId \<Rightarrow> string \<Rightarrow> server \<Rightarrow> Folder \<times> server" where
  "Folder_new E user name s =
     (let (now, s) = utc_now E s;
          (uuid, s) = get_uuid E s
      in (\<lparr>f_uuid = uuid, f_created_at = now, f_updated_at = now, f_user_uuid = user, f_name = name\<rparr>, s))"

definition Folder_to_json :: "env \<Rightarrow> Folder \<Rightarrow> json" where
  "Folder_to_json E f = JObj
     [(''id'', JStr (f_uuid f)), (''revisionDate'', JStr (format_date E (f_updated_at f))),
      (''name'', JStr (f_name f)), (''object'', JStr ''folder'')]"

definition FolderCipher_new :: "FolderId \<Rightarrow> CipherId \<Rightarrow> FolderCipher" where
  "FolderCipher_new folder cipher = \<lparr>fc_cipher_uuid = cipher, fc_folder_uuid = folder\<rparr>"

definition Folder_save :: "env \<Rightarrow> Folder \<Rightarrow> server \<Rightarrow> Folder \<times> server" where
  "Folder_save E f s =
     (let s = update_uuid_revision E (f_user_uuid f) s;
          (now, s) = utc_now E s;
          f = f\<lparr>f_updated_at := now\<rparr>
      in (f, s\<lparr>folders := tbl_upsert f_uuid f (folders s)\<rparr>))"

definition fc_delete_all_by_folder :: "FolderId \<Rightarrow> server \<Rightarrow> server" where
  "fc_delete_all_by_folder folder s =
     s\<lparr>folders_ciphers := tbl_delete (\<lambda>fc. fc_folder_uuid fc = folder) (folders_ciphers s)\<rparr>"

definition fc_delete_all_by_cipher :: "CipherId \<Rightarrow> server \<Rightarrow> server" where
  "fc_delete_all_by_cipher cipher s =
     s\<lparr>folders_ciphers := tbl_delete (\<lambda>fc. fc_cipher_uuid fc = cipher) (folders_ciphers s)\<rparr>"

definition Folder_delete :: "env \<Rightarrow> Folder \<Rightarrow> server \<Rightarrow> server" where
  "Folder_delete E f s =
     (let s = update_uuid_revision E (f_user_uuid f) s;
          s = fc_delete_all_by_folder (f_uuid f) s
      in s\<lparr>folders := tbl_delete (\<lambda>x. f_uuid x = f_uuid f) (folders s)\<rparr>)"

definition Folder_find_by_uuid_and_user :: "FolderId \<Rightarrow> UserId \<Rightarrow> server \<Rightarrow> Folder option" where
  "Folder_find_by_uuid_and_user uuid user s =
     tbl_first (\<lambda>f. f_uuid f = uuid \<and> f_user_uuid f = user) (folders s)"

definition Folder_find_by_user :: "UserId \<Rightarrow> server \<Rightarrow> Folder list" where
  "Folder_find_by_user user s = tbl_select (\<lambda>f. f_user_uuid f = user) (folders s)"

definition Folder_delete_all_by_user :: "env \<Rightarrow> UserId \<Rightarrow> server \<Rightarrow> server" where
  "Folder_delete_all_by_user E user s = fold (Folder_delete E) (Folder_find_by_user user s) s"

definition fc_key :: "FolderCipher \<Rightarrow> CipherId \<times> FolderId" where
  "fc_key fc = (fc_cipher_uuid fc, fc_folder_uuid fc)"

definition fc_save :: "FolderCipher \<Rightarrow> server \<Rightarrow> server" where
  "fc_save fc s = s\<lparr>folders_ciphers := tbl_upsert fc_key fc (folders_ciphers s)\<rparr>"

definition fc_delete :: "FolderCipher \<Rightarrow> server \<Rightarrow> server" where
  "fc_delete fc s = s\<lparr>folders_ciphers :=
     tbl_delete (\<lambda>x. fc_cipher_uuid x = fc_cipher_uuid fc \<and> fc_folder_uuid x = fc_folder_uuid fc) (folders_ciphers s)\<rparr>"

definition fc_find_by_folder_and_cipher :: "FolderId \<Rightarrow> CipherId \<Rightarrow> server \<Rightarrow> FolderCipher option" where
  "fc_find_by_folder_and_cipher folder cipher s =
     tbl_first (\<lambda>fc. fc_folder_uuid fc = folder \<and> fc_cipher_uuid fc = cipher) (folders_ciphers s)"

definition fc_find_by_folder :: "FolderId \<Rightarrow> server \<Rightarrow> FolderCipher list" where
  "fc_find_by_folder folder s = tbl_select (\<lambda>fc. fc_folder_uuid fc = folder) (folders_ciphers s)"

definition fc_find_by_user :: "UserId \<Rightarrow> server \<Rightarrow> (CipherId \<times> FolderId) list" where
  "fc_find_by_user user s =
     [(fc_cipher_uuid fc, fc_folder_uuid fc). fc \<leftarrow> folders_ciphers s,
        f \<leftarrow> folders s, f_uuid f = fc_folder_uuid fc, f_user_uuid f = user]"

subsection \<open>Handlers\<close>

definition list_json :: "json list \<Rightarrow> json" where
  "list_json xs = JObj [(''data'', JArr xs), (''object'', JStr ''list''), (''continuationToken'', JNull)]"

definition get_folders :: "env \<Rightarrow> User \<Rightarrow> (server, json) act" where
  "get_folders E hu = act_get (\<lambda>s. list_json (map (Folder_to_json E) (Folder_find_by_user (u_uuid hu) s)))"

definition get_folder :: "env \<Rightarrow> FolderId \<Rightarrow> User \<Rightarrow> (server, json) act" where
  "get_folder E folder_id hu =
     act_bind (act_get (Folder_find_by_uuid_and_user folder_id (u_uuid hu))) (\<lambda>f.
     act_bind (some_or ''Invalid folder'' f) (\<lambda>folder. act_ret (Folder_to_json E folder)))"

definition post_folders :: "env \<Rightarrow> string \<Rightarrow> User \<Rightarrow> (server, json) act" where
  "post_folders E name hu =
     act_bind (act_run (Folder_new E (u_uuid hu) name)) (\<lambda>folder.
     act_bind (act_run (Folder_save E folder)) (\<lambda>folder. act_ret (Folder_to_json E folder)))"

definition put_folder :: "env \<Rightarrow> FolderId \<Rightarrow> string \<Rightarrow> User \<Rightarrow> (server, json) act" where
  "put_folder E folder_id name hu =
     act_bind (act_get (Folder_find_by_uuid_and_user folder_id (u_uuid hu))) (\<lambda>f.
     act_bind (some_or ''Invalid folder'' f) (\<lambda>folder.
     act_bind (act_run (Folder_save E (folder\<lparr>f_name := name\<rparr>))) (\<lambda>folder.
     act_ret (Folder_to_json E folder))))"

definition post_folder :: "env \<Rightarrow> FolderId \<Rightarrow> string \<Rightarrow> User \<Rightarrow> (server, json) act" where
  "post_folder E folder_id name hu = put_folder E folder_id name hu"

definition delete_folder :: "env \<Rightarrow> FolderId \<Rightarrow> User \<Rightarrow> (server, unit) act" where
  "delete_folder E folder_id hu =
     act_bind (act_get (Folder_find_by_uuid_and_user folder_id (u_uuid hu))) (\<lambda>f.
     act_bind (some_or ''Invalid folder'' f) (\<lambda>folder. act_upd (Folder_delete E folder)))"

definition delete_folder_post :: "env \<Rightarrow> FolderId \<Rightarrow> User \<Rightarrow> (server, unit) act" where
  "delete_folder_post E folder_id hu = delete_folder E folder_id hu"

section \<open>Favorites\<close>

definition is_favorite :: "CipherId \<Rightarrow> UserId \<Rightarrow> server \<Rightarrow> bool" where
  "is_favorite cipher user s \<longleftrightarrow>
     length (tbl_select (\<lambda>f. fav_cipher_uuid f = cipher \<and> fav_user_uuid f = user) (favorites s)) \<noteq> 0"

definition set_favorite :: "env \<Rightarrow> bool \<Rightarrow> CipherId \<Rightarrow> UserId \<Rightarrow> server \<Rightarrow> server" where
  "set_favorite E favorite cipher user s =
     (case (is_favorite cipher user s, favorite) of
        (False, True) \<Rightarrow>
          let s = update_uuid_revision E user s
          in s\<lparr>favorites := favorites s @ [\<lparr>fav_user_uuid = user, fav_cipher_uuid = cipher\<rparr>]\<rparr>
      | (True, False) \<Rightarrow>
          let s = update_uuid_revision E user s
          in s\<lparr>favorites := tbl_delete (\<lambda>f. fav_user_uuid f = user \<and> fav_cipher_uuid f = cipher) (favorites s)\<rparr>
      | _ \<Rightarrow> s)"

definition fav_delete_all_by_cipher :: "CipherId \<Rightarrow> server \<Rightarrow> server" where
  "fav_delete_all_by_cipher cipher s =
     s\<lparr>favorites := tbl_delete (\<lambda>f. fav_cipher_uuid f = cipher) (favorites s)\<rparr>"

definition fav_delete_all_by_user :: "UserId \<Rightarrow> server \<Rightarrow> server" where
  "fav_delete_all_by_user user s = s\<lparr>favorites := tbl_delete (\<lambda>f. fav_user_uuid f = user) (favorites s)\<rparr>"

definition get_all_cipher_uuid_by_user :: "UserId \<Rightarrow> server \<Rightarrow> CipherId list" where
  "get_all_cipher_uuid_by_user user s = map fav_cipher_uuid (tbl_select (\<lambda>f. fav_user_uuid f = user) (favorites s))"

section \<open>Archive marks\<close>

definition ar_key :: "Archive \<Rightarrow> UserId \<times> CipherId" where
  "ar_key a = (ar_user_uuid a, ar_cipher_uuid a)"

definition get_archived_at :: "CipherId \<Rightarrow> UserId \<Rightarrow> server \<Rightarrow> time option" where
  "get_archived_at cipher user s =
     map_option ar_archived_at (tbl_first (\<lambda>a. ar_cipher_uuid a = cipher \<and> ar_user_uuid a = user) (archives s))"

definition Archive_save :: "env \<Rightarrow> UserId \<Rightarrow> CipherId \<Rightarrow> time \<Rightarrow> server \<Rightarrow> server" where
  "Archive_save E user cipher archived_at s =
     (let s = update_uuid_revision E user s
      in s\<lparr>archives := tbl_upsert ar_key
             \<lparr>ar_user_uuid = user, ar_cipher_uuid = cipher, ar_archived_at = archived_at\<rparr> (archives s)\<rparr>)"

definition Archive_delete_by_cipher :: "env \<Rightarrow> UserId \<Rightarrow> CipherId \<Rightarrow> server \<Rightarrow> server" where
  "Archive_delete_by_cipher E user cipher s =
     (let s = update_uuid_revision E user s
      in s\<lparr>archives := tbl_delete (\<lambda>a. ar_user_uuid a = user \<and> ar_cipher_uuid a = cipher) (archives s)\<rparr>)"

definition Archive_find_by_user :: "UserId \<Rightarrow> server \<Rightarrow> (CipherId \<times> time) list" where
  "Archive_find_by_user user s =
     map (\<lambda>a. (ar_cipher_uuid a, ar_archived_at a)) (tbl_select (\<lambda>a. ar_user_uuid a = user) (archives s))"

section \<open>Attachments\<close>

definition Attachment_new ::
  "AttachmentId \<Rightarrow> CipherId \<Rightarrow> string \<Rightarrow> int \<Rightarrow> string option \<Rightarrow> Attachment" where
  "Attachment_new i cipher name file_size akey =
     \<lparr>at_id = i, at_cipher_uuid = cipher, at_file_name = name, at_file_size = file_size, at_akey = akey\<rparr>"

definition get_file_path :: "Attachment \<Rightarrow> string" where
  "get_file_path a = at_cipher_uuid a @ ''/'' @ at_id a"

definition Attachment_save :: "Attachment \<Rightarrow> server \<Rightarrow> server" where
  "Attachment_save a s = s\<lparr>attachments := tbl_upsert at_id a (attachments s)\<rparr>"

text \<open>The row goes first, then the file; a file that is already gone is no error, and the oracle
  \<open>storage_delete\<close> answers the other errors of the storage backend.\<close>

definition Attachment_delete :: "env \<Rightarrow> Attachment \<Rightarrow> (server, unit) act" where
  "Attachment_delete E a =
     act_seq (act_upd (\<lambda>s. s\<lparr>attachments := tbl_delete (\<lambda>x. at_id x = at_id a) (attachments s)\<rparr>))
     (\<lambda>s. case storage_delete E (tick s) (get_file_path a) of
        Some e \<Rightarrow> (Inl (Api e), bump s)
      | None \<Rightarrow> (Inr (), bump s))"

definition Attachment_find_by_cipher :: "CipherId \<Rightarrow> server \<Rightarrow> Attachment list" where
  "Attachment_find_by_cipher cipher s = tbl_select (\<lambda>a. at_cipher_uuid a = cipher) (attachments s)"

definition Attachment_delete_all_by_cipher :: "env \<Rightarrow> CipherId \<Rightarrow> (server, unit) act" where
  "Attachment_delete_all_by_cipher E cipher =
     act_bind (act_get (Attachment_find_by_cipher cipher)) (\<lambda>xs. act_for xs (Attachment_delete E))"

definition Attachment_find_by_id :: "env \<Rightarrow> AttachmentId \<Rightarrow> server \<Rightarrow> Attachment option" where
  "Attachment_find_by_id E i s = tbl_first (\<lambda>a. at_id a = lowercase_of E i) (attachments s)"

text \<open>\<open>SUM\<close> of an empty set is NULL; a total outside \<open>i64\<close> saturates.\<close>

definition sum_i64 :: "int list \<Rightarrow> int" where
  "sum_i64 xs =
     (if xs = [] then 0
      else let r = sum_list xs in
           if - (2 ^ 63) \<le> r \<and> r < 2 ^ 63 then r else 2 ^ 63 - 1)"

definition attachments_where :: "(Cipher \<Rightarrow> bool) \<Rightarrow> server \<Rightarrow> Attachment list" where
  "attachments_where P s =
     [a. a \<leftarrow> attachments s, ci \<leftarrow> left_join (\<lambda>ci. ci_uuid ci = at_cipher_uuid a) (ciphers s), opt_is ci P]"

definition size_by_user :: "UserId \<Rightarrow> server \<Rightarrow> int" where
  "size_by_user user s = sum_i64 (map at_file_size (attachments_where (\<lambda>ci. ci_user_uuid ci = Some user) s))"

definition count_by_user :: "UserId \<Rightarrow> server \<Rightarrow> int" where
  "count_by_user user s = int (length (attachments_where (\<lambda>ci. ci_user_uuid ci = Some user) s))"

definition size_by_org :: "OrganizationId \<Rightarrow> server \<Rightarrow> int" where
  "size_by_org org s = sum_i64 (map at_file_size (attachments_where (\<lambda>ci. ci_organization_uuid ci = Some org) s))"

definition count_by_org :: "OrganizationId \<Rightarrow> server \<Rightarrow> int" where
  "count_by_org org s = int (length (attachments_where (\<lambda>ci. ci_organization_uuid ci = Some org) s))"

definition find_all_by_user_and_orgs :: "UserId \<Rightarrow> OrganizationId list \<Rightarrow> server \<Rightarrow> Attachment list" where
  "find_all_by_user_and_orgs user orgs s = attachments_where
     (\<lambda>ci. ci_user_uuid ci = Some user \<or> opt_is (ci_organization_uuid ci) (\<lambda>org. org \<in> set orgs)) s"

end
