(* ===== verification/Ciphers.thy ===== *)
theory Ciphers
  imports VaultItems
begin

text \<open>
  Ciphers, the items of the vault: \<open>server/src/db/models/cipher.rs\<close> with the access checks, and the
  cached data of a full synchronisation, \<open>CipherSyncData\<close> of \<open>api/core/ciphers.rs\<close>.
  The JSON form of a cipher and the validation of imported ciphers are not modelled.
\<close>

section \<open>Local methods and queries\<close>

definition Cipher_new :: "env \<Rightarrow> int \<Rightarrow> string \<Rightarrow> server \<Rightarrow> Cipher \<times> server" where
  "Cipher_new E atype name s =
     (let (now, s) = utc_now E s;
          (uuid, s) = get_uuid E s
      in (\<lparr>ci_uuid = uuid, ci_created_at = now, ci_updated_at = now, ci_user_uuid = None,
           ci_organization_uuid = None, ci_key = None, ci_atype = atype, ci_name = name, ci_notes = None,
           ci_fields = None, ci_data = [], ci_password_history = None, ci_deleted_at = None, ci_reprompt = None\<rparr>, s))"

definition Cipher_find_by_uuid :: "CipherId \<Rightarrow> server \<Rightarrow> Cipher option" where
  "Cipher_find_by_uuid uuid s = tbl_first (\<lambda>ci. ci_uuid ci = uuid) (ciphers s)"

definition Cipher_find_by_uuid_and_org :: "CipherId \<Rightarrow> OrganizationId \<Rightarrow> server \<Rightarrow> Cipher option" where
  "Cipher_find_by_uuid_and_org uuid org s =
     tbl_first (\<lambda>ci. ci_uuid ci = uuid \<and> ci_organization_uuid ci = Some org) (ciphers s)"

definition find_owned_by_user :: "UserId \<Rightarrow> server \<Rightarrow> Cipher list" where
  "find_owned_by_user user s =
     tbl_select (\<lambda>ci. ci_user_uuid ci = Some user \<and> ci_organization_uuid ci = None) (ciphers s)"

definition count_owned_by_user :: "UserId \<Rightarrow> server \<Rightarrow> int" where
  "count_owned_by_user user s = int (length (tbl_select (\<lambda>ci. ci_user_uuid ci = Some user) (ciphers s)))"

definition Cipher_find_by_org :: "OrganizationId \<Rightarrow> server \<Rightarrow> Cipher list" where
  "Cipher_find_by_org org s = tbl_select (\<lambda>ci. ci_organization_uuid ci = Some org) (ciphers s)"

definition Cipher_count_by_org :: "OrganizationId \<Rightarrow> server \<Rightarrow> int" where
  "Cipher_count_by_org org s = int (length (tbl_select (\<lambda>ci. ci_organization_uuid ci = Some org) (ciphers s)))"

definition Cipher_find_by_folder :: "FolderId \<Rightarrow> server \<Rightarrow> Cipher list" where
  "Cipher_find_by_folder folder s =
     [ci. fc \<leftarrow> folders_ciphers s, ci \<leftarrow> ciphers s, ci_uuid ci = fc_cipher_uuid fc, fc_folder_uuid fc = folder]"

definition find_deleted_before :: "time \<Rightarrow> server \<Rightarrow> Cipher list" where
  "find_deleted_before dt s = tbl_select (\<lambda>ci. opt_is (ci_deleted_at ci) (\<lambda>d. d < dt)) (ciphers s)"

definition get_folder_uuid :: "Cipher \<Rightarrow> UserId \<Rightarrow> server \<Rightarrow> FolderId option" where
  "get_folder_uuid ci user s = tbl_first (\<lambda>_. True)
     [fc_folder_uuid fc. fc \<leftarrow> folders_ciphers s, f \<leftarrow> folders s, f_uuid f = fc_folder_uuid fc,
        f_user_uuid f = user, fc_cipher_uuid fc = ci_uuid ci]"

section \<open>Writes\<close>

definition Cipher_update_users_revision :: "env \<Rightarrow> Cipher \<Rightarrow> server \<Rightarrow> UserId list \<times> server" where
  "Cipher_update_users_revision E ci s =
     (case ci_user_uuid ci of
        Some user \<Rightarrow> ([user], update_uuid_revision E user s)
      | None \<Rightarrow>
          (case ci_organization_uuid ci of
             None \<Rightarrow> ([], s)
           | Some org \<Rightarrow>
               let collection_users = Membership_find_by_cipher_and_org (ci_uuid ci) org s
                     @ (if org_groups_enabled (conf E)
                        then Membership_find_by_cipher_and_org_with_group (ci_uuid ci) org s else [])
               in (map m_user_uuid collection_users,
                   fold (\<lambda>m. update_uuid_revision E (m_user_uuid m)) collection_users s)))"

text \<open>On SQLite and MySQL the row is written by \<open>REPLACE INTO\<close>, which deletes the row with the same key
  first. A row that the foreign key of another table refers to cannot be deleted, and the code falls back to
  \<open>UPDATE\<close>; otherwise the deletion takes the archive marks of the cipher along, since their foreign key is
  the one that cascades. PostgreSQL updates the row in place.\<close>

definition cipher_referenced :: "CipherId \<Rightarrow> server \<Rightarrow> bool" where
  "cipher_referenced c s \<longleftrightarrow> list_ex (\<lambda>fc. fc_cipher_uuid fc = c) (folders_ciphers s)
     \<or> list_ex (\<lambda>cc. cc_cipher_uuid cc = c) (ciphers_collections s)
     \<or> list_ex (\<lambda>a. at_cipher_uuid a = c) (attachments s) \<or> list_ex (\<lambda>f. fav_cipher_uuid f = c) (favorites s)"

definition save_replaces :: "env \<Rightarrow> CipherId \<Rightarrow> server \<Rightarrow> bool" where
  "save_replaces E c s \<longleftrightarrow> list_ex (\<lambda>x. ci_uuid x = c) (ciphers s)
     \<and> (case db_backend (conf E) of Sqlite \<Rightarrow> \<not> cipher_referenced c s
        | Mysql enforced \<Rightarrow> \<not> (enforced \<and> cipher_referenced c s) | Postgresql \<Rightarrow> False)"

definition archives_after_save :: "env \<Rightarrow> CipherId \<Rightarrow> server \<Rightarrow> Archive list" where
  "archives_after_save E c s =
     (if save_replaces E c s then tbl_delete (\<lambda>a. ar_cipher_uuid a = c) (archives s) else archives s)"

definition Cipher_save :: "env \<Rightarrow> Cipher \<Rightarrow> server \<Rightarrow> Cipher \<times> server" where
  "Cipher_save E ci s =
     (let s = snd (Cipher_update_users_revision E ci s);
          (now, s) = utc_now E s;
          ci = ci\<lparr>ci_updated_at := now\<rparr>
      in (ci, s\<lparr>ciphers := tbl_upsert ci_uuid ci (ciphers s), archives := archives_after_save E (ci_uuid ci) s\<rparr>))"

text \<open>The row of the cipher takes its archive marks along.\<close>

definition cipher_row_delete :: "CipherId \<Rightarrow> server \<Rightarrow> server" where
  "cipher_row_delete uuid s = s\<lparr>ciphers := tbl_delete (\<lambda>x. ci_uuid x = uuid) (ciphers s),
     archives := tbl_delete (\<lambda>a. ar_cipher_uuid a = uuid) (archives s)\<rparr>"

definition Cipher_delete :: "env \<Rightarrow> Cipher \<Rightarrow> (server, unit) act" where
  "Cipher_delete E ci =
     act_seq (act_upd (\<lambda>s. snd (Cipher_update_users_revision E ci s)))
     (act_seq (act_upd (fc_delete_all_by_cipher (ci_uuid ci)))
     (act_seq (act_upd (cc_delete_all_by_cipher (ci_uuid ci)))
     (act_seq (Attachment_delete_all_by_cipher E (ci_uuid ci))
     (act_seq (act_upd (fav_delete_all_by_cipher (ci_uuid ci)))
     (act_upd (cipher_row_delete (ci_uuid ci)))))))"

definition Cipher_delete_all_by_organization :: "env \<Rightarrow> OrganizationId \<Rightarrow> (server, unit) act" where
  "Cipher_delete_all_by_organization E org =
     act_bind (act_get (Cipher_find_by_org org)) (\<lambda>cs. act_for cs (Cipher_delete E))"

definition Cipher_delete_all_by_user :: "env \<Rightarrow> UserId \<Rightarrow> (server, unit) act" where
  "Cipher_delete_all_by_user E user =
     act_bind (act_get (find_owned_by_user user)) (\<lambda>cs. act_for cs (Cipher_delete E))"

definition purge_trash :: "env \<Rightarrow> (server, unit) act" where
  "purge_trash E =
     (case trash_auto_delete_days (conf E) of
        None \<Rightarrow> act_ret ()
      | Some days \<Rightarrow>
          act_bind (act_run (utc_now E)) (\<lambda>now.
          act_bind (expect ''called `Option::unwrap()` on a `None` value'' (try_days days)) (\<lambda>delta.
          act_bind (expect ''`NaiveDateTime - TimeDelta` overflowed'' (naive_add now (- delta))) (\<lambda>dt.
          act_bind (act_get (find_deleted_before dt)) (\<lambda>cs.
          act_for cs (\<lambda>ci. act_ignore (Cipher_delete E ci)))))))"

definition move_to_folder :: "env \<Rightarrow> FolderId option \<Rightarrow> UserId \<Rightarrow> Cipher \<Rightarrow> (server, unit) act" where
  "move_to_folder E folder user ci =
     act_seq (act_upd (update_uuid_revision E user))
     (act_bind (act_get (get_folder_uuid ci user)) (\<lambda>old.
      case (old, folder) of
        (None, None) \<Rightarrow> act_ret ()
      | (None, Some new_folder) \<Rightarrow> act_upd (fc_save (FolderCipher_new new_folder (ci_uuid ci)))
      | (Some old_folder, None) \<Rightarrow>
          act_bind (act_get (fc_find_by_folder_and_cipher old_folder (ci_uuid ci))) (\<lambda>x.
          case x of
            Some fc \<Rightarrow> act_upd (fc_delete fc)
          | None \<Rightarrow> act_err (Api ''Couldn't move from previous folder''))
      | (Some old_folder, Some new_folder) \<Rightarrow>
          if old_folder = new_folder then act_ret ()
          else
            act_bind (act_get (fc_find_by_folder_and_cipher old_folder (ci_uuid ci))) (\<lambda>x.
            act_seq (case x of Some fc \<Rightarrow> act_upd (fc_delete fc) | None \<Rightarrow> act_ret ())
            (act_upd (fc_save (FolderCipher_new new_folder (ci_uuid ci)))))))"

definition Cipher_set_favorite :: "env \<Rightarrow> bool option \<Rightarrow> UserId \<Rightarrow> Cipher \<Rightarrow> server \<Rightarrow> server" where
  "Cipher_set_favorite E favorite user ci s =
     (case favorite of None \<Rightarrow> s | Some status \<Rightarrow> set_favorite E status (ci_uuid ci) user s)"

definition Cipher_set_archived_at :: "env \<Rightarrow> time \<Rightarrow> UserId \<Rightarrow> Cipher \<Rightarrow> server \<Rightarrow> server" where
  "Cipher_set_archived_at E archived_at user ci s = Archive_save E user (ci_uuid ci) archived_at s"

definition Cipher_unarchive :: "env \<Rightarrow> UserId \<Rightarrow> Cipher \<Rightarrow> server \<Rightarrow> server" where
  "Cipher_unarchive E user ci s = Archive_delete_by_cipher E user (ci_uuid ci) s"

section \<open>The cached data of a full synchronisation\<close>

datatype CipherSyncType = SyncUser | SyncOrganization

record CipherSyncData =
  sd_cipher_attachments :: "CipherId \<rightharpoonup> Attachment list"
  sd_cipher_folders :: "CipherId \<rightharpoonup> FolderId"
  sd_cipher_favorites :: "CipherId list"
  sd_cipher_collections :: "CipherId \<rightharpoonup> CollectionId list"
  sd_cipher_archives :: "CipherId \<rightharpoonup> time"
  sd_members :: "OrganizationId \<rightharpoonup> Membership"
  sd_user_collections :: "CollectionId \<rightharpoonup> CollectionUser"
  sd_user_collections_groups :: "CollectionId \<rightharpoonup> CollectionGroup"
  sd_user_group_full_access :: "OrganizationId list"

text \<open>\<open>into\_iter().collect()\<close> into a hash map, where a later entry replaces an earlier one, and
  \<open>entry(k).or\_default().push(v)\<close>.\<close>

definition collect_map :: "('k \<times> 'v) list \<Rightarrow> 'k \<rightharpoonup> 'v" where
  "collect_map xs = fold (\<lambda>(k, v) m. m(k \<mapsto> v)) xs Map.empty"

definition collect_lists :: "('k \<times> 'v) list \<Rightarrow> 'k \<rightharpoonup> 'v list" where
  "collect_lists xs = fold (\<lambda>(k, v) m. m(k \<mapsto> (case m k of None \<Rightarrow> [v] | Some vs \<Rightarrow> vs @ [v]))) xs Map.empty"

definition get_collections_with_cipher_by_user :: "UserId \<Rightarrow> server \<Rightarrow> (CipherId \<times> CollectionId) list" where
  "get_collections_with_cipher_by_user user s = remdups
     [(cc_cipher_uuid cc, cc_collection_uuid cc). cc \<leftarrow> ciphers_collections s,
        c \<leftarrow> collections s, c_uuid c = cc_collection_uuid cc,
        m \<leftarrow> users_organizations s, m_org_uuid m = c_org_uuid c \<and> m_user_uuid m = user,
        cu \<leftarrow> left_join (\<lambda>cu. cu_collection_uuid cu = cc_collection_uuid cc \<and> cu_user_uuid cu = user) (users_collections s),
        gu \<leftarrow> left_join (\<lambda>gu. gu_users_organizations_uuid gu = m_uuid m) (groups_users s),
        g \<leftarrow> left_join (\<lambda>g. opt_is gu (\<lambda>gu. g_uuid g = gu_groups_uuid gu)
               \<and> g_organizations_uuid g = m_org_uuid m) (groups s),
        cg \<leftarrow> left_join (\<lambda>cg. cg_collections_uuid cg = cc_collection_uuid cc
               \<and> opt_is g (\<lambda>g. cg_groups_uuid cg = g_uuid g)) (collections_groups s),
        opt_is cu (\<lambda>cu. cu_user_uuid cu = user) \<or> m_access_all m \<or> m_atype m \<le> MembershipType_i32 Admin
          \<or> opt_is g g_access_all \<or> cg \<noteq> None]"

definition combine_groups :: "CollectionGroup list \<Rightarrow> CollectionId \<rightharpoonup> CollectionGroup" where
  "combine_groups xs = fold (\<lambda>cg m. m(cg_collections_uuid cg \<mapsto>
     (case m (cg_collections_uuid cg) of
        Some existing \<Rightarrow> existing\<lparr>cg_read_only := cg_read_only existing \<and> cg_read_only cg,
          cg_hide_passwords := cg_hide_passwords existing \<and> cg_hide_passwords cg,
          cg_manage := cg_manage existing \<or> cg_manage cg\<rparr>
      | None \<Rightarrow> cg))) xs Map.empty"

definition CipherSyncData_new :: "env \<Rightarrow> UserId \<Rightarrow> CipherSyncType \<Rightarrow> server \<Rightarrow> CipherSyncData" where
  "CipherSyncData_new E user sync_type s =
     (let (cipher_folders, cipher_favorites, cipher_archives) =
            (case sync_type of
               SyncUser \<Rightarrow> (collect_map (fc_find_by_user user s), get_all_cipher_uuid_by_user user s,
                 collect_map (Archive_find_by_user user s))
             | SyncOrganization \<Rightarrow> (Map.empty, [], Map.empty));
          orgs = get_orgs_by_user user s;
          groups_on = org_groups_enabled (conf E)
      in \<lparr>sd_cipher_attachments = collect_lists (map (\<lambda>a. (at_cipher_uuid a, a)) (find_all_by_user_and_orgs user orgs s)),
          sd_cipher_folders = cipher_folders, sd_cipher_favorites = cipher_favorites,
          sd_cipher_collections = collect_lists (get_collections_with_cipher_by_user user s),
          sd_cipher_archives = cipher_archives,
          sd_members = collect_map (map (\<lambda>m. (m_org_uuid m, m)) (Membership_find_confirmed_by_user user s)),
          sd_user_collections = collect_map (map (\<lambda>cu. (cu_collection_uuid cu, cu)) (cu_find_by_user user s)),
          sd_user_collections_groups = (if groups_on then combine_groups (cg_find_by_user user s) else Map.empty),
          sd_user_group_full_access = (if groups_on then get_orgs_by_user_with_full_access user s else [])\<rparr>)"

section \<open>Access\<close>

text \<open>The flags of a collection from the cached data, the other branch of \<open>to\_json\_details\<close>.\<close>

definition collection_flags_synced :: "CipherSyncData \<Rightarrow> Collection \<Rightarrow> bool \<times> bool \<times> bool" where
  "collection_flags_synced sd col =
     (case sd_members sd (c_org_uuid col) of
        None \<Rightarrow> (True, True, False)
      | Some m \<Rightarrow>
          if has_full_access m then (False, False, i32_ge (m_atype m) Manager)
          else let is_manager = (m_atype m = MembershipType_i32 Manager)
               in (case sd_user_collections sd (c_uuid col) of
                     Some cu \<Rightarrow> (cu_read_only cu, cu_hide_passwords cu,
                       is_manager \<and> (cu_manage cu \<or> (\<not> cu_read_only cu \<and> \<not> cu_hide_passwords cu)))
                   | None \<Rightarrow> (case sd_user_collections_groups sd (c_uuid col) of
                       Some cg \<Rightarrow> (cg_read_only cg, cg_hide_passwords cg,
                         is_manager \<and> (cg_manage cg \<or> (\<not> cg_read_only cg \<and> \<not> cg_hide_passwords cg)))
                     | None \<Rightarrow> (False, False, False))))"

type_synonym flags = "bool \<times> bool \<times> bool"

definition is_owned_by_user :: "Cipher \<Rightarrow> UserId \<Rightarrow> bool" where
  "is_owned_by_user ci user \<longleftrightarrow> ci_user_uuid ci \<noteq> None \<and> the (ci_user_uuid ci) = user"

definition is_in_full_access_org :: "Cipher \<Rightarrow> UserId \<Rightarrow> CipherSyncData option \<Rightarrow> server \<Rightarrow> bool" where
  "is_in_full_access_org ci user sync s =
     (case ci_organization_uuid ci of
        None \<Rightarrow> False
      | Some org \<Rightarrow>
          (case sync of
             Some sd \<Rightarrow> (case sd_members sd org of Some m \<Rightarrow> has_full_access m | None \<Rightarrow> False)
           | None \<Rightarrow> (case Membership_find_confirmed_by_user_and_org user org s of
               Some m \<Rightarrow> has_full_access m | None \<Rightarrow> False)))"

definition is_in_full_access_group :: "env \<Rightarrow> Cipher \<Rightarrow> UserId \<Rightarrow> CipherSyncData option \<Rightarrow> server \<Rightarrow> bool" where
  "is_in_full_access_group E ci user sync s =
     (if \<not> org_groups_enabled (conf E) then False
      else case ci_organization_uuid ci of
        None \<Rightarrow> False
      | Some org \<Rightarrow>
          (case sync of
             Some sd \<Rightarrow> org \<in> set (sd_user_group_full_access sd)
           | None \<Rightarrow> Group_is_in_full_access_group user org s))"

definition get_user_collections_access_flags :: "Cipher \<Rightarrow> UserId \<Rightarrow> server \<Rightarrow> flags list" where
  "get_user_collections_access_flags ci user s =
     [(cu_read_only cu, cu_hide_passwords cu, cu_manage cu). x \<leftarrow> ciphers s, ci_uuid x = ci_uuid ci,
        cc \<leftarrow> ciphers_collections s, ci_uuid x = cc_cipher_uuid cc,
        cu \<leftarrow> users_collections s, cc_collection_uuid cc = cu_collection_uuid cu \<and> cu_user_uuid cu = user]"

definition get_group_collections_access_flags :: "env \<Rightarrow> Cipher \<Rightarrow> UserId \<Rightarrow> server \<Rightarrow> flags list" where
  "get_group_collections_access_flags E ci user s =
     (if \<not> org_groups_enabled (conf E) then []
      else [(cg_read_only cg, cg_hide_passwords cg, cg_manage cg). x \<leftarrow> ciphers s, ci_uuid x = ci_uuid ci,
        cc \<leftarrow> ciphers_collections s, ci_uuid x = cc_cipher_uuid cc,
        cg \<leftarrow> collections_groups s, cg_collections_uuid cg = cc_collection_uuid cc,
        gu \<leftarrow> groups_users s, gu_groups_uuid gu = cg_groups_uuid cg,
        m \<leftarrow> users_organizations s, m_uuid m = gu_users_organizations_uuid gu,
        g \<leftarrow> groups s, g_uuid g = cg_groups_uuid cg \<and> g_organizations_uuid g = m_org_uuid m,
        m_user_uuid m = user])"

definition sync_rows :: "CipherSyncData \<Rightarrow> Cipher \<Rightarrow> flags list" where
  "sync_rows sd ci =
     (case sd_cipher_collections sd (ci_uuid ci) of
        None \<Rightarrow> []
      | Some cols \<Rightarrow> concat (map (\<lambda>col.
          case sd_user_collections sd col of
            Some cu \<Rightarrow> [(cu_read_only cu, cu_hide_passwords cu, cu_manage cu)]
          | None \<Rightarrow> (case sd_user_collections_groups sd col of
              Some cg \<Rightarrow> [(cg_read_only cg, cg_hide_passwords cg, cg_manage cg)]
            | None \<Rightarrow> [])) cols))"

definition combine_rows :: "flags list \<Rightarrow> flags" where
  "combine_rows rows = fold (\<lambda>(ro, hp, mn) (read_only, hide_passwords, manage).
     (read_only \<and> ro, hide_passwords \<and> hp, manage \<or> mn)) rows (True, True, False)"

definition get_access_restrictions ::
  "env \<Rightarrow> Cipher \<Rightarrow> UserId \<Rightarrow> CipherSyncData option \<Rightarrow> server \<Rightarrow> flags option" where
  "get_access_restrictions E ci user sync s =
     (if is_owned_by_user ci user \<or> is_in_full_access_org ci user sync s \<or> is_in_full_access_group E ci user sync s
      then Some (False, False, True)
      else let rows = (case sync of
                 Some sd \<Rightarrow> sync_rows sd ci
               | None \<Rightarrow> let user_permissions = get_user_collections_access_flags ci user s
                         in if user_permissions = [] then get_group_collections_access_flags E ci user s
                            else user_permissions)
           in if rows = [] then None else Some (combine_rows rows))"

definition is_write_accessible_to_user :: "env \<Rightarrow> Cipher \<Rightarrow> UserId \<Rightarrow> server \<Rightarrow> bool" where
  "is_write_accessible_to_user E ci user s =
     (case get_access_restrictions E ci user None s of
        Some (read_only, hide_passwords, manage) \<Rightarrow> \<not> read_only \<or> manage | None \<Rightarrow> False)"

definition is_in_editable_collection_by_user :: "env \<Rightarrow> Cipher \<Rightarrow> UserId \<Rightarrow> server \<Rightarrow> bool" where
  "is_in_editable_collection_by_user E ci user s =
     (case get_access_restrictions E ci user None s of
        Some (read_only, hide_passwords, manage) \<Rightarrow> (\<not> read_only \<and> \<not> hide_passwords) \<or> manage | None \<Rightarrow> False)"

definition is_accessible_to_user :: "env \<Rightarrow> Cipher \<Rightarrow> UserId \<Rightarrow> server \<Rightarrow> bool" where
  "is_accessible_to_user E ci user s \<longleftrightarrow> get_access_restrictions E ci user None s \<noteq> None"

text \<open>The ciphers of a user, with the conditions of the two queries in the order of the code.\<close>

definition Cipher_find_by_user :: "env \<Rightarrow> UserId \<Rightarrow> bool \<Rightarrow> CipherId list \<Rightarrow> server \<Rightarrow> Cipher list" where
  "Cipher_find_by_user E user visible_only cipher_uuids s = remdups
     (if org_groups_enabled (conf E)
      then [ci. ci \<leftarrow> ciphers s,
        cc \<leftarrow> left_join (\<lambda>cc. ci_uuid ci = cc_cipher_uuid cc) (ciphers_collections s),
        m \<leftarrow> left_join (\<lambda>m. ci_organization_uuid ci = Some (m_org_uuid m) \<and> m_user_uuid m = user
               \<and> m_status m = MembershipStatus_i32 Confirmed) (users_organizations s),
        cu \<leftarrow> left_join (\<lambda>cu. opt_is cc (\<lambda>cc. cc_collection_uuid cc = cu_collection_uuid cu)
               \<and> opt_is m (\<lambda>m. m_user_uuid m = cu_user_uuid cu)) (users_collections s),
        gu \<leftarrow> left_join (\<lambda>gu. opt_is m (\<lambda>m. gu_users_organizations_uuid gu = m_uuid m)) (groups_users s),
        g \<leftarrow> left_join (\<lambda>g. opt_is gu (\<lambda>gu. g_uuid g = gu_groups_uuid gu)
               \<and> opt_is m (\<lambda>m. g_organizations_uuid g = m_org_uuid m)) (groups s),
        cg \<leftarrow> left_join (\<lambda>cg. opt_is cc (\<lambda>cc. cg_collections_uuid cg = cc_collection_uuid cc)
               \<and> opt_is g (\<lambda>g. cg_groups_uuid cg = g_uuid g)) (collections_groups s),
        ci_user_uuid ci = Some user \<or> opt_is m m_access_all \<or> opt_is cu (\<lambda>cu. cu_user_uuid cu = user)
          \<or> opt_is g g_access_all \<or> cg \<noteq> None
          \<or> \<not> visible_only \<and> opt_is m (\<lambda>m. m_atype m \<le> MembershipType_i32 Admin),
        cipher_uuids = [] \<or> ci_uuid ci \<in> set cipher_uuids]
      else [ci. ci \<leftarrow> ciphers s,
        cc \<leftarrow> left_join (\<lambda>cc. ci_uuid ci = cc_cipher_uuid cc) (ciphers_collections s),
        m \<leftarrow> left_join (\<lambda>m. ci_organization_uuid ci = Some (m_org_uuid m) \<and> m_user_uuid m = user
               \<and> m_status m = MembershipStatus_i32 Confirmed) (users_organizations s),
        cu \<leftarrow> left_join (\<lambda>cu. opt_is cc (\<lambda>cc. cc_collection_uuid cc = cu_collection_uuid cu)
               \<and> opt_is m (\<lambda>m. m_user_uuid m = cu_user_uuid cu)) (users_collections s),
        ci_user_uuid ci = Some user \<or> opt_is m m_access_all \<or> opt_is cu (\<lambda>cu. cu_user_uuid cu = user)
          \<or> \<not> visible_only \<and> opt_is m (\<lambda>m. m_atype m \<le> MembershipType_i32 Admin),
        cipher_uuids = [] \<or> ci_uuid ci \<in> set cipher_uuids])"

definition find_by_user_visible :: "env \<Rightarrow> UserId \<Rightarrow> server \<Rightarrow> Cipher list" where
  "find_by_user_visible E user s = Cipher_find_by_user E user True [] s"

definition find_by_user_and_ciphers :: "env \<Rightarrow> UserId \<Rightarrow> CipherId list \<Rightarrow> server \<Rightarrow> Cipher list" where
  "find_by_user_and_ciphers E user cipher_uuids s = Cipher_find_by_user E user True cipher_uuids s"

definition find_by_user_and_cipher :: "env \<Rightarrow> UserId \<Rightarrow> CipherId \<Rightarrow> server \<Rightarrow> Cipher option" where
  "find_by_user_and_cipher E user cipher s =
     (let cs = Cipher_find_by_user E user True [cipher] s in if cs = [] then None else Some (last cs))"

text \<open>The collections of a cipher that a user may write to; the admin version adds the organization's
  admins and owners, otherwise both run the same query.\<close>

definition cipher_collections_query :: "env \<Rightarrow> (Membership \<Rightarrow> bool) \<Rightarrow> Cipher \<Rightarrow> UserId \<Rightarrow> server \<Rightarrow> CollectionId list" where
  "cipher_collections_query E also_if ci user s =
     (if org_groups_enabled (conf E)
      then [cc_collection_uuid cc. cc \<leftarrow> ciphers_collections s, cc_cipher_uuid cc = ci_uuid ci,
        c \<leftarrow> collections s, c_uuid c = cc_collection_uuid cc,
        m \<leftarrow> left_join (\<lambda>m. m_org_uuid m = c_org_uuid c \<and> m_user_uuid m = user) (users_organizations s),
        cu \<leftarrow> left_join (\<lambda>cu. cu_collection_uuid cu = cc_collection_uuid cc \<and> cu_user_uuid cu = user) (users_collections s),
        gu \<leftarrow> left_join (\<lambda>gu. opt_is m (\<lambda>m. gu_users_organizations_uuid gu = m_uuid m)) (groups_users s),
        g \<leftarrow> left_join (\<lambda>g. opt_is gu (\<lambda>gu. g_uuid g = gu_groups_uuid gu)
               \<and> opt_is m (\<lambda>m. g_organizations_uuid g = m_org_uuid m)) (groups s),
        cg \<leftarrow> left_join (\<lambda>cg. cg_collections_uuid cg = cc_collection_uuid cc
               \<and> opt_is g (\<lambda>g. cg_groups_uuid cg = g_uuid g)) (collections_groups s),
        opt_is m m_access_all \<or> opt_is cu (\<lambda>cu. cu_user_uuid cu = user \<and> \<not> cu_read_only cu)
          \<or> opt_is g g_access_all \<or> opt_is cg (\<lambda>cg. \<not> cg_read_only cg) \<or> opt_is m also_if]
      else [cc_collection_uuid cc. cc \<leftarrow> ciphers_collections s, cc_cipher_uuid cc = ci_uuid ci,
        c \<leftarrow> collections s, c_uuid c = cc_collection_uuid cc,
        m \<leftarrow> users_organizations s, m_org_uuid m = c_org_uuid c \<and> m_user_uuid m = user,
        cu \<leftarrow> left_join (\<lambda>cu. cu_collection_uuid cu = cc_collection_uuid cc \<and> cu_user_uuid cu = user) (users_collections s),
        m_access_all m \<or> opt_is cu (\<lambda>cu. cu_user_uuid cu = user \<and> \<not> cu_read_only cu) \<or> also_if m])"

definition get_collections :: "env \<Rightarrow> Cipher \<Rightarrow> UserId \<Rightarrow> server \<Rightarrow> CollectionId list" where
  "get_collections E ci user s = cipher_collections_query E (\<lambda>_. False) ci user s"

definition get_admin_collections :: "env \<Rightarrow> Cipher \<Rightarrow> UserId \<Rightarrow> server \<Rightarrow> CollectionId list" where
  "get_admin_collections E ci user s =
     cipher_collections_query E (\<lambda>m. m_atype m \<le> MembershipType_i32 Admin) ci user s"

end
