(* ===== verification/Sessions.thy ===== *)
theory Sessions
  imports Collections "HOL-Library.Sublist"
begin

text \<open>
  The request guards and session tokens of \<open>server/src/auth.rs\<close>: who a request is from
  (\<open>Headers\<close>), with which role it acts on an organization (\<open>OrgHeaders\<close> and the guards on top of it),
  and how a session's tokens are issued and refreshed. A guard that answers 401 is an error
  \<open>Api msg\<close>; a request always reaches the database.
\<close>

section \<open>Requests\<close>

record request =
  rq_header :: "string \<Rightarrow> string option"
  rq_param :: "nat \<Rightarrow> string option"
  rq_query :: "string \<Rightarrow> string option"
  rq_route :: "string option"
  rq_remote :: "string option"

definition first_some :: "'a option \<Rightarrow> 'a option \<Rightarrow> 'a option" where
  "first_some a b = (case a of Some x \<Rightarrow> Some x | None \<Rightarrow> b)"

definition Host_from_request :: "env \<Rightarrow> request \<Rightarrow> string" where
  "Host_from_request E r =
     (if domain_set (conf E) then domain_url (conf E)
      else case rq_header r ''Referer'' of Some referer \<Rightarrow> referer
      | None \<Rightarrow>
         (case rq_header r ''X-Forwarded-Proto'' of Some proto \<Rightarrow> proto
          | None \<Rightarrow> if rocket_tls E then ''https'' else ''http'') @ ''://'' @
         (case rq_header r ''X-Forwarded-Host'' of Some h \<Rightarrow> h
          | None \<Rightarrow> (case rq_header r ''Host'' of Some h \<Rightarrow> h | None \<Rightarrow> [])))"

definition ClientIp_from_request :: "env \<Rightarrow> request \<Rightarrow> string" where
  "ClientIp_from_request E r =
     (let ip = (if ip_header_enabled (conf E)
                then case rq_header r (ip_header (conf E)) of None \<Rightarrow> None
                  | Some ip \<Rightarrow> ip_parse E (case split_once CHR '','' ip of Some (a, b) \<Rightarrow> a | None \<Rightarrow> ip)
                else None)
      in case first_some ip (rq_remote r) of Some a \<Rightarrow> a | None \<Rightarrow> ''0.0.0.0'')"

definition Secure_from_request :: "env \<Rightarrow> request \<Rightarrow> bool" where
  "Secure_from_request E r =
     ((case rq_header r ''X-Forwarded-Proto'' of Some proto \<Rightarrow> proto
       | None \<Rightarrow> if rocket_tls E then ''https'' else ''http'') = ''https'')"

text \<open>\<open>rsplit(sep).next()\<close>: what follows the last occurrence of the separator, or the whole string.\<close>

definition after_last :: "string \<Rightarrow> string \<Rightarrow> string" where
  "after_last sep s = (case List.find (\<lambda>t. take (length sep) t = sep) (suffixes s) of
     None \<Rightarrow> s | Some t \<Rightarrow> drop (length sep) t)"

definition WsAccessTokenHeader_from_request :: "request \<Rightarrow> string option" where
  "WsAccessTokenHeader_from_request r = map_option (after_last ''Bearer '') (rq_header r ''Authorization'')"

section \<open>The session of a request\<close>

record Headers =
  h_host :: string
  h_device :: Device
  h_user :: User
  h_ip :: string

definition decode_login :: "env \<Rightarrow> string \<Rightarrow> (server, string + LoginJwtClaims) act" where
  "decode_login E token = act_run (\<lambda>s. (jwt_login E (tick s) token, bump s))"

definition check_stamp_exception :: "env \<Rightarrow> string option \<Rightarrow> string \<Rightarrow> User \<Rightarrow> UserStampException \<Rightarrow> (server, unit) act" where
  "check_stamp_exception E route sstamp user ex =
     act_bind (some_or ''Error getting current route for stamp exception'' route) (\<lambda>current_route.
     act_bind (act_run (utc_now E)) (\<lambda>now.
     if se_expire ex < timestamp now
     then act_seq (act_ignore (User_save E (reset_stamp_exception user)))
          (act_err (Api ''Stamp exception is expired''))
     else if current_route \<notin> set (se_routes ex)
     then act_err (Api ''Invalid security stamp: Current route and exception route do not match'')
     else err_if (se_security_stamp ex \<noteq> sstamp) ''Invalid security stamp for matched stamp exception''))"

definition Headers_from_request :: "env \<Rightarrow> request \<Rightarrow> (server, Headers) act" where
  "Headers_from_request E r =
     act_bind (some_or ''No access token provided'' (rq_header r ''Authorization'')) (\<lambda>a.
     act_bind (decode_login E (after_last ''Bearer '' a)) (\<lambda>claims.
     case claims of
       Inl _ \<Rightarrow> act_err (Api ''Invalid claim'')
     | Inr claims \<Rightarrow>
     act_bind (act_get (Device_find_by_uuid_and_user (lc_device claims) (lc_sub claims))) (\<lambda>device.
     act_bind (some_or ''Invalid device id'' device) (\<lambda>device.
     act_bind (act_get (User_find_by_uuid (lc_sub claims))) (\<lambda>user.
     act_bind (some_or ''Device has no user associated'' user) (\<lambda>user.
     act_seq (if u_security_stamp user \<noteq> lc_sstamp claims
       then case u_stamp_exception user of
              None \<Rightarrow> act_err (Api ''Invalid security stamp'')
            | Some ex \<Rightarrow> check_stamp_exception E (rq_route r) (lc_sstamp claims) user ex
       else act_ret ())
     (act_ret \<lparr>h_host = Host_from_request E r, h_device = device, h_user = user,
        h_ip = ClientIp_from_request E r\<rparr>)))))))"

section \<open>Roles in an organization\<close>

record OrgHeaders =
  oh_host :: string
  oh_device :: Device
  oh_user :: User
  oh_membership_type :: MembershipType
  oh_membership_status :: MembershipStatus
  oh_membership :: Membership
  oh_ip :: string

definition is_member :: "OrgHeaders \<Rightarrow> bool" where
  "is_member h \<longleftrightarrow> oh_membership_status h \<noteq> Revoked \<and> UserType \<le> oh_membership_type h"

definition is_confirmed_and_admin :: "OrgHeaders \<Rightarrow> bool" where
  "is_confirmed_and_admin h \<longleftrightarrow> oh_membership_status h = Confirmed \<and> Admin \<le> oh_membership_type h"

definition is_confirmed_and_manager :: "OrgHeaders \<Rightarrow> bool" where
  "is_confirmed_and_manager h \<longleftrightarrow> oh_membership_status h = Confirmed \<and> Manager \<le> oh_membership_type h"

definition is_confirmed_and_owner :: "OrgHeaders \<Rightarrow> bool" where
  "is_confirmed_and_owner h \<longleftrightarrow> oh_membership_status h = Confirmed \<and> oh_membership_type h = Owner"

definition uuid_from_param :: "env \<Rightarrow> string option \<Rightarrow> string option" where
  "uuid_from_param E p = (case p of Some v \<Rightarrow> if uuid_valid E v then Some v else None | None \<Rightarrow> None)"

definition get_org_id :: "env \<Rightarrow> request \<Rightarrow> OrganizationId option" where
  "get_org_id E r = first_some (uuid_from_param E (rq_param r 1)) (rq_query r ''organizationId'')"

definition get_col_id :: "env \<Rightarrow> request \<Rightarrow> CollectionId option" where
  "get_col_id E r = first_some (uuid_from_param E (rq_param r 3)) (uuid_from_param E (rq_query r ''collectionId''))"

definition OrgIdGuard_from_request :: "env \<Rightarrow> request \<Rightarrow> bool" where
  "OrgIdGuard_from_request E r \<longleftrightarrow> get_org_id E r \<noteq> None"

definition OrgHeaders_from_request :: "env \<Rightarrow> request \<Rightarrow> (server, OrgHeaders) act" where
  "OrgHeaders_from_request E r =
     act_bind (Headers_from_request E r) (\<lambda>headers.
     act_bind (some_or ''Error getting the organization id'' (uuid_from_param E (get_org_id E r))) (\<lambda>org_id.
     act_bind (act_get (Membership_find_by_user_and_org (u_uuid (h_user headers)) org_id)) (\<lambda>m.
     act_bind (some_or ''The current user isn't member of the organization'' m) (\<lambda>membership.
     act_bind (some_or ''Unknown user type in the database'' (MembershipType_from_i32 (m_atype membership))) (\<lambda>ty.
     act_bind (some_or ''User status is either revoked or invalid.''
       (MembershipStatus_from_i32 (m_status membership))) (\<lambda>status.
     act_ret \<lparr>oh_host = h_host headers, oh_device = h_device headers, oh_user = h_user headers,
       oh_membership_type = ty, oh_membership_status = status, oh_membership = membership,
       oh_ip = h_ip headers\<rparr>))))))"

record AdminHeaders =
  ah_host :: string
  ah_device :: Device
  ah_user :: User
  ah_membership_type :: MembershipType
  ah_ip :: string
  ah_org_id :: OrganizationId

definition AdminHeaders_from_request :: "env \<Rightarrow> request \<Rightarrow> (server, AdminHeaders) act" where
  "AdminHeaders_from_request E r =
     act_bind (OrgHeaders_from_request E r) (\<lambda>h.
     act_seq (err_if (\<not> is_confirmed_and_admin h) ''You need to be Admin or Owner to call this endpoint'')
     (act_ret \<lparr>ah_host = oh_host h, ah_device = oh_device h, ah_user = oh_user h,
        ah_membership_type = oh_membership_type h, ah_ip = oh_ip h, ah_org_id = m_org_uuid (oh_membership h)\<rparr>))"

record ManagerHeaders =
  mh_host :: string
  mh_device :: Device
  mh_user :: User
  mh_ip :: string
  mh_org_id :: OrganizationId

definition ManagerHeaders_from_request :: "env \<Rightarrow> request \<Rightarrow> (server, ManagerHeaders) act" where
  "ManagerHeaders_from_request E r =
     act_bind (OrgHeaders_from_request E r) (\<lambda>h.
     act_seq (err_if (\<not> is_confirmed_and_manager h)
       ''You need to be a Manager, Admin or Owner to call this endpoint'')
     (act_bind (some_or ''Error getting the collection id'' (get_col_id E r)) (\<lambda>col_id.
      act_bind (act_get (is_coll_manageable_by_user col_id (m_user_uuid (oh_membership h)))) (\<lambda>ok.
      act_seq (err_if (\<not> ok) ''The current user isn't a manager for this collection'')
      (act_ret \<lparr>mh_host = oh_host h, mh_device = oh_device h, mh_user = oh_user h, mh_ip = oh_ip h,
         mh_org_id = m_org_uuid (oh_membership h)\<rparr>)))))"

record ManagerHeadersLoose =
  ml_host :: string
  ml_device :: Device
  ml_user :: User
  ml_membership :: Membership
  ml_ip :: string

definition ManagerHeadersLoose_from_request :: "env \<Rightarrow> request \<Rightarrow> (server, ManagerHeadersLoose) act" where
  "ManagerHeadersLoose_from_request E r =
     act_bind (OrgHeaders_from_request E r) (\<lambda>h.
     act_seq (err_if (\<not> is_confirmed_and_manager h)
       ''You need to be a Manager, Admin or Owner to call this endpoint'')
     (act_ret \<lparr>ml_host = oh_host h, ml_device = oh_device h, ml_user = oh_user h,
        ml_membership = oh_membership h, ml_ip = oh_ip h\<rparr>))"

definition ManagerHeaders_from_loose ::
  "env \<Rightarrow> ManagerHeadersLoose \<Rightarrow> CollectionId list \<Rightarrow> (server, ManagerHeaders) act" where
  "ManagerHeaders_from_loose E h cols =
     act_seq (act_for cols (\<lambda>col_id.
       act_seq (err_if (\<not> uuid_valid E col_id) ''Collection Id is malformed!'')
       (act_bind (act_get (is_coll_manageable_by_user col_id (m_user_uuid (ml_membership h)))) (\<lambda>ok.
        err_if (\<not> ok) ''Collection not found''))))
     (act_ret \<lparr>mh_host = ml_host h, mh_device = ml_device h, mh_user = ml_user h, mh_ip = ml_ip h,
        mh_org_id = m_org_uuid (ml_membership h)\<rparr>)"

record OwnerHeaders =
  wh_device :: Device
  wh_user :: User
  wh_ip :: string
  wh_org_id :: OrganizationId

definition OwnerHeaders_from_request :: "env \<Rightarrow> request \<Rightarrow> (server, OwnerHeaders) act" where
  "OwnerHeaders_from_request E r =
     act_bind (OrgHeaders_from_request E r) (\<lambda>h.
     act_seq (err_if (\<not> is_confirmed_and_owner h) ''You need to be Owner to call this endpoint'')
     (act_ret \<lparr>wh_device = oh_device h, wh_user = oh_user h, wh_ip = oh_ip h,
        wh_org_id = m_org_uuid (oh_membership h)\<rparr>))"

record OrgMemberHeaders =
  om_host :: string
  om_device :: Device
  om_user :: User
  om_membership :: Membership
  om_ip :: string

definition OrgMemberHeaders_from_request :: "env \<Rightarrow> request \<Rightarrow> (server, OrgMemberHeaders) act" where
  "OrgMemberHeaders_from_request E r =
     act_bind (OrgHeaders_from_request E r) (\<lambda>h.
     act_seq (err_if (\<not> is_member h) ''You need to be a Member of the Organization to call this endpoint'')
     (act_ret \<lparr>om_host = oh_host h, om_device = oh_device h, om_user = oh_user h,
        om_membership = oh_membership h, om_ip = oh_ip h\<rparr>))"

section \<open>Tokens\<close>

fun AuthMethod_scope :: "AuthMethod \<Rightarrow> string" where
  "AuthMethod_scope OrgApiKey = ''api.organization''"
| "AuthMethod_scope UserApiKey = ''api''"
| "AuthMethod_scope Password = ''api offline_access''"
| "AuthMethod_scope Sso = ''api offline_access''"

definition AuthMethod_scope_vec :: "AuthMethod \<Rightarrow> string list" where
  "AuthMethod_scope_vec m = filter (\<lambda>w. w \<noteq> []) (split_on CHR '' '' (AuthMethod_scope m))"

definition AuthMethod_check_scope :: "AuthMethod \<Rightarrow> string option \<Rightarrow> api_err + string" where
  "AuthMethod_check_scope m scope =
     (case scope of
        None \<Rightarrow> Inl (Api ''Missing scope'')
      | Some sc \<Rightarrow> if sc = AuthMethod_scope m then Inr sc else Inl (Api (''Scope ('' @ sc @ '') not supported'')))"

definition DEFAULT_REFRESH_VALIDITY :: int where "DEFAULT_REFRESH_VALIDITY = 30 * 86400 * NANOS"
definition MOBILE_REFRESH_VALIDITY :: int where "MOBILE_REFRESH_VALIDITY = 90 * 86400 * NANOS"
definition DEFAULT_ACCESS_VALIDITY :: int where "DEFAULT_ACCESS_VALIDITY = 2 * 3600 * NANOS"

definition JWT_LOGIN_ISSUER :: "env \<Rightarrow> string" where
  "JWT_LOGIN_ISSUER E = domain_origin (conf E) @ ''|login''"

definition LoginJwtClaims_new ::
  "env \<Rightarrow> Device \<Rightarrow> User \<Rightarrow> int \<Rightarrow> int \<Rightarrow> string list \<Rightarrow> string option \<Rightarrow> LoginJwtClaims" where
  "LoginJwtClaims_new E device user nbf exp scope client_id =
     \<lparr>lc_nbf = nbf, lc_exp = exp, lc_iss = JWT_LOGIN_ISSUER E, lc_sub = u_uuid user, lc_premium = True,
      lc_name = u_name user, lc_email = u_email user,
      lc_email_verified = (\<not> mail_enabled (conf E) \<or> u_verified_at user \<noteq> None),
      lc_sstamp = u_security_stamp user, lc_device = d_uuid device,
      lc_devicetype = DeviceType_display (DeviceType_from_i32 (d_atype device)),
      lc_client_id = (case client_id of Some c \<Rightarrow> c | None \<Rightarrow> ''undefined''),
      lc_scope = scope, lc_amr = [''Application'']\<rparr>"

definition LoginJwtClaims_default ::
  "env \<Rightarrow> Device \<Rightarrow> User \<Rightarrow> AuthMethod \<Rightarrow> string option \<Rightarrow> server \<Rightarrow> LoginJwtClaims \<times> server" where
  "LoginJwtClaims_default E device user auth client_id s =
     (let (now, s) = utc_now E s
      in (LoginJwtClaims_new E device user (timestamp now) (timestamp (now + DEFAULT_ACCESS_VALIDITY))
            (AuthMethod_scope_vec auth) client_id, s))"

record AuthTokens =
  tok_refresh_claims :: RefreshJwtClaims
  tok_access_claims :: LoginJwtClaims

definition AuthTokens_scope :: "AuthTokens \<Rightarrow> string" where
  "AuthTokens_scope t = AuthMethod_scope (rc_sub (tok_refresh_claims t))"

definition AuthTokens_new ::
  "env \<Rightarrow> Device \<Rightarrow> User \<Rightarrow> AuthMethod \<Rightarrow> string option \<Rightarrow> server \<Rightarrow> AuthTokens \<times> server" where
  "AuthTokens_new E device user sub client_id s =
     (let (now, s) = utc_now E s;
          (access, s) = LoginJwtClaims_default E device user sub client_id s;
          validity = (if is_mobile device then MOBILE_REFRESH_VALIDITY else DEFAULT_REFRESH_VALIDITY)
      in (\<lparr>tok_refresh_claims = \<lparr>rc_nbf = timestamp now, rc_exp = timestamp (now + validity),
             rc_iss = JWT_LOGIN_ISSUER E, rc_sub = sub, rc_device_token = d_refresh_token device, rc_token = None\<rparr>,
           tok_access_claims = access\<rparr>, s))"

definition decode_refresh :: "env \<Rightarrow> string \<Rightarrow> (server, string + RefreshJwtClaims) act" where
  "decode_refresh E token = act_run (\<lambda>s. (jwt_refresh E (tick s) token, bump s))"

text \<open>\<open>exchange\<close> is \<open>sso::exchange_refresh_token\<close>, which asks the identity provider.\<close>

definition refresh_tokens ::
  "env \<Rightarrow> (Device \<Rightarrow> User \<Rightarrow> string option \<Rightarrow> RefreshJwtClaims \<Rightarrow> (server, AuthTokens) act) \<Rightarrow> string
     \<Rightarrow> string option \<Rightarrow> (server, Device \<times> AuthTokens) act" where
  "refresh_tokens E exchange refresh_token client_id =
     act_bind (decode_refresh E refresh_token) (\<lambda>d.
     let claims = (case d of
        Inl _ \<Rightarrow> \<lparr>rc_nbf = 0, rc_exp = 0, rc_iss = [], rc_sub = Password, rc_device_token = refresh_token, rc_token = None\<rparr>
      | Inr claims \<Rightarrow> claims) in
     act_bind (act_get (find_by_refresh_token (rc_device_token claims))) (\<lambda>device.
     act_bind (some_or ''Invalid refresh token'' device) (\<lambda>device.
     act_bind (act_run (Device_save E True device)) (\<lambda>device.
     act_bind (act_get (User_find_by_uuid (d_user_uuid device))) (\<lambda>user.
     act_bind (some_or ''Impossible to find user'' user) (\<lambda>user.
     act_bind (case rc_sub claims of
        Sso \<Rightarrow> if sso_enabled (conf E)
               then if sso_auth_only_not_session (conf E) then act_run (AuthTokens_new E device user Sso client_id)
                    else exchange device user client_id claims
               else act_err (Api ''SSO is now disabled, Login again using email and master password'')
      | Password \<Rightarrow> if sso_enabled (conf E) \<and> sso_only (conf E)
               then act_err (Api ''SSO is now required, Login again'')
               else act_run (AuthTokens_new E device user Password client_id)
      | _ \<Rightarrow> act_err (Api ''Invalid auth method, cannot refresh token'')) (\<lambda>tokens.
     act_ret (device, tokens))))))))"

section \<open>Lemmas\<close>

text \<open>A session is accepted exactly with a valid token of an existing device and user, and with the
  current security stamp or a live exception for the route and stamp.\<close>

definition stamp_ok :: "User \<Rightarrow> string \<Rightarrow> string option \<Rightarrow> int \<Rightarrow> bool" where
  "stamp_ok u sstamp route now \<longleftrightarrow> u_security_stamp u = sstamp \<or>
     (\<exists>ex r. u_stamp_exception u = Some ex \<and> route = Some r \<and> now \<le> se_expire ex \<and> r \<in> set (se_routes ex)
        \<and> se_security_stamp ex = sstamp)"

definition session_of :: "env \<Rightarrow> request \<Rightarrow> server \<Rightarrow> Device \<Rightarrow> User \<Rightarrow> bool" where
  "session_of E r s d u \<longleftrightarrow> (\<exists>a claims. rq_header r ''Authorization'' = Some a
     \<and> jwt_login E (tick s) (after_last ''Bearer '' a) = Inr claims
     \<and> Device_find_by_uuid_and_user (lc_device claims) (lc_sub claims) s = Some d
     \<and> User_find_by_uuid (lc_sub claims) s = Some u
     \<and> stamp_ok u (lc_sstamp claims) (rq_route r) (timestamp (clock E (Suc (tick s)))))"

lemma wp_check_stamp:
  "wp (check_stamp_exception E route sstamp u ex) Q R s \<longleftrightarrow>
     (case route of
        None \<Rightarrow> R (Api ''Error getting current route for stamp exception'') s
      | Some r \<Rightarrow>
         if se_expire ex < timestamp (clock E (tick s))
         then wp (User_save E (reset_stamp_exception u)) (\<lambda>_. R (Api ''Stamp exception is expired''))
           (\<lambda>e t. if is_panic e then R e t else R (Api ''Stamp exception is expired'') t) (bump s)
         else if r \<notin> set (se_routes ex)
         then R (Api ''Invalid security stamp: Current route and exception route do not match'') (bump s)
         else if se_security_stamp ex \<noteq> sstamp then R (Api ''Invalid security stamp for matched stamp exception'') (bump s)
         else Q () (bump s))"
  by (simp add: check_stamp_exception_def wp_simps split: option.split)

text \<open>A rejected session changes at most the revision date and the expired exception of its user.\<close>

definition session_touch :: "server \<Rightarrow> server \<Rightarrow> bool" where
  "session_touch s t \<longleftrightarrow> (\<exists>us n. t = s\<lparr>users := us, tick := n\<rparr> \<and> tick s \<le> n \<and> u_uuid ` set us \<subseteq> u_uuid ` set (users s))"

lemma session_touch_tick: "tick s \<le> n \<Longrightarrow> session_touch s (s\<lparr>tick := n\<rparr>)"
  unfolding session_touch_def by (intro exI [of _ "users s"] exI [of _ n]) simp

lemma User_save_touch:
  assumes "u_uuid u \<in> u_uuid ` set (users s)"
  shows "wp (User_save E u) (\<lambda>_. session_touch s) (\<lambda>e t. session_touch s t \<and> (\<exists>m. e = Api m)) s"
proof -
  have "session_touch s (s\<lparr>tick := Suc (tick s)\<rparr>)" "session_touch s s"
    using session_touch_tick [of s "Suc (tick s)"] session_touch_tick [of s "tick s"] by simp_all
  moreover have "session_touch s (s\<lparr>tick := Suc (tick s), users := tbl_upsert u_uuid (u\<lparr>u_updated_at := d\<rparr>) (users s)\<rparr>)" for d
    unfolding session_touch_def
    by (intro exI [of _ "tbl_upsert u_uuid (u\<lparr>u_updated_at := d\<rparr>) (users s)"] exI [of _ "Suc (tick s)"])
      (use assms in \<open>auto simp: set_tbl_upsert\<close>)
  ultimately show ?thesis by (auto simp: User_save_def wp_simps Let_def)
qed

lemma session_touch_trans: "session_touch s t \<Longrightarrow> session_touch t u \<Longrightarrow> session_touch s u"
  unfolding session_touch_def by fastforce

lemma stamp_check_wp:
  assumes "u \<in> set (users s)"
  shows "wp (if u_security_stamp u \<noteq> sstamp
       then case u_stamp_exception u of
              None \<Rightarrow> act_err (Api ''Invalid security stamp'')
            | Some ex \<Rightarrow> check_stamp_exception E route sstamp u ex
       else act_ret ())
     (\<lambda>_ t. (\<exists>n \<ge> tick s. t = s\<lparr>tick := n\<rparr>) \<and> stamp_ok u sstamp route (timestamp (clock E (tick s))))
     (\<lambda>e t. session_touch s t \<and> (\<exists>m. e = Api m) \<and> \<not> stamp_ok u sstamp route (timestamp (clock E (tick s)))) s"
    (is "wp ?m ?Q ?R s")
proof -
  have same: "\<exists>n. tick s \<le> n \<and> s = s\<lparr>tick := n\<rparr>" by (intro exI [of _ "tick s"]) simp
  have touch: "session_touch s s" "session_touch s (bump s)"
    using session_touch_tick [of s "tick s"] session_touch_tick [of s "Suc (tick s)"] by simp_all
  show ?thesis
  proof (cases "u_security_stamp u = sstamp")
    case False
    show ?thesis
    proof (cases "u_stamp_exception u")
      case (Some ex)
      have bump: "\<exists>n \<ge> tick s. bump s = s\<lparr>tick := n\<rparr>" by (intro exI [of _ "Suc (tick s)"]) simp
      show ?thesis
      proof (cases "se_expire ex < timestamp (clock E (tick s))")
        case True
        then have no: "\<not> stamp_ok u sstamp route (timestamp (clock E (tick s)))"
          using False Some by (auto simp: stamp_ok_def)
        have save: "wp (User_save E (reset_stamp_exception u)) (\<lambda>_. ?R (Api ''Stamp exception is expired''))
            (\<lambda>e t. if is_panic e then ?R e t else ?R (Api ''Stamp exception is expired'') t) (bump s)"
          by (rule wp_mono [OF User_save_touch])
            (use assms no session_touch_trans [OF touch(2)] in \<open>auto simp: reset_stamp_exception_def image_iff\<close>)
        have "wp (check_stamp_exception E route sstamp u ex) ?Q ?R s"
        proof (cases route)
          case None
          with no touch show ?thesis by (simp add: wp_check_stamp)
        next
          case route: (Some x)
          show ?thesis unfolding wp_check_stamp route option.case if_P [OF True] using save unfolding route .
        qed
        with False Some show ?thesis by simp
      next
        case live: False
        then have "stamp_ok u sstamp route (timestamp (clock E (tick s))) \<longleftrightarrow>
            (\<exists>x. route = Some x \<and> x \<in> set (se_routes ex) \<and> se_security_stamp ex = sstamp)"
          using False Some by (auto simp: stamp_ok_def)
        then show ?thesis using False Some live touch bump
          by (cases route) (simp_all add: wp_check_stamp wp_simps del: bump_def)
      qed
    qed (use False touch in \<open>simp add: wp_simps stamp_ok_def\<close>)
  next
    case True
    then have "stamp_ok u sstamp route (timestamp (clock E (tick s)))" by (simp add: stamp_ok_def)
    with True same show ?thesis by (simp only: not_True_eq_False simp_thms if_False wp_ret)
  qed
qed

lemma Headers_wp:
  "wp (Headers_from_request E r)
     (\<lambda>h t. (\<exists>n \<ge> tick s. t = s\<lparr>tick := n\<rparr>) \<and> session_of E r s (h_device h) (h_user h))
     (\<lambda>e t. session_touch s t \<and> (\<exists>m. e = Api m) \<and> \<not> (\<exists>d u. session_of E r s d u)) s"
proof (cases "rq_header r ''Authorization''")
  case None
  then show ?thesis using session_touch_tick [of s "tick s"]
    by (simp add: Headers_from_request_def wp_simps session_of_def)
next
  case auth: (Some a)
  let ?tok = "after_last ''Bearer '' a" and ?s = "bump s"
  have b: "session_touch s ?s" using session_touch_tick [of s "Suc (tick s)"] by simp
  show ?thesis
  proof (cases "jwt_login E (tick s) ?tok")
    case (Inl e)
    then show ?thesis using auth b by (simp add: Headers_from_request_def decode_login_def wp_simps session_of_def)
  next
    case jwt: (Inr c)
    have so: "session_of E r s d u \<longleftrightarrow> Device_find_by_uuid_and_user (lc_device c) (lc_sub c) s = Some d
        \<and> User_find_by_uuid (lc_sub c) s = Some u
        \<and> stamp_ok u (lc_sstamp c) (rq_route r) (timestamp (clock E (tick ?s)))" for d u
      by (simp add: session_of_def auth jwt)
    have frame: "Device_find_by_uuid_and_user x y ?s = Device_find_by_uuid_and_user x y s"
        "User_find_by_uuid y ?s = User_find_by_uuid y s" for x y
      by (simp_all add: Device_find_by_uuid_and_user_def User_find_by_uuid_def)
    have start: "wp (Headers_from_request E r) Q R s \<longleftrightarrow>
       wp (act_bind (some_or ''Invalid device id'' (Device_find_by_uuid_and_user (lc_device c) (lc_sub c) s)) (\<lambda>device.
           act_bind (some_or ''Device has no user associated'' (User_find_by_uuid (lc_sub c) s)) (\<lambda>user.
           act_seq (if u_security_stamp user \<noteq> lc_sstamp c
             then case u_stamp_exception user of
                    None \<Rightarrow> act_err (Api ''Invalid security stamp'')
                  | Some ex \<Rightarrow> check_stamp_exception E (rq_route r) (lc_sstamp c) user ex
             else act_ret ())
           (act_ret \<lparr>h_host = Host_from_request E r, h_device = device, h_user = user,
              h_ip = ClientIp_from_request E r\<rparr>)))) Q R ?s" for Q R
      using auth jwt frame by (simp add: Headers_from_request_def decode_login_def wp_simps del: bump_def cong: option.case_cong)
    show ?thesis unfolding start
    proof (intro wp_need)
      fix d u
      assume d: "Device_find_by_uuid_and_user (lc_device c) (lc_sub c) s = Some d"
        and u: "User_find_by_uuid (lc_sub c) s = Some u"
      have us: "u \<in> set (users ?s)" using u by (auto simp: User_find_by_uuid_def dest: tbl_first_Some)
      have up: "\<exists>k \<ge> tick s. s\<lparr>tick := n\<rparr> = s\<lparr>tick := k\<rparr>" if "Suc (tick s) \<le> n" for n
        using that by (intro exI [of _ n]) simp
      note st = stamp_check_wp [OF us, of "lc_sstamp c" E "rq_route r"]
      show "wp (act_seq (if u_security_stamp u \<noteq> lc_sstamp c
             then case u_stamp_exception u of
                    None \<Rightarrow> act_err (Api ''Invalid security stamp'')
                  | Some ex \<Rightarrow> check_stamp_exception E (rq_route r) (lc_sstamp c) u ex
             else act_ret ())
           (act_ret \<lparr>h_host = Host_from_request E r, h_device = d, h_user = u, h_ip = ClientIp_from_request E r\<rparr>))
         (\<lambda>h t. (\<exists>n \<ge> tick s. t = s\<lparr>tick := n\<rparr>) \<and> session_of E r s (h_device h) (h_user h))
         (\<lambda>e t. session_touch s t \<and> (\<exists>m. e = Api m) \<and> \<not> (\<exists>d u. session_of E r s d u)) ?s"
        by (rule wp_then [OF st]) (use d u so session_touch_trans [OF b] up in \<open>auto simp: wp_simps\<close>)
    qed (use b so in auto)
  qed
qed

text \<open>The role guards hand on a membership row of the session's user in the requested organization,
  with its role and its status.\<close>

definition acts_as :: "env \<Rightarrow> request \<Rightarrow> server \<Rightarrow> Membership \<Rightarrow> MembershipType \<Rightarrow> MembershipStatus \<Rightarrow> bool" where
  "acts_as E r s m ty st \<longleftrightarrow> (\<exists>d u org. session_of E r s d u \<and> uuid_from_param E (get_org_id E r) = Some org
     \<and> Membership_find_by_user_and_org (u_uuid u) org s = Some m
     \<and> MembershipType_from_i32 (m_atype m) = Some ty \<and> MembershipStatus_from_i32 (m_status m) = Some st)"

lemma session_of_unique: "session_of E r s d u \<Longrightarrow> session_of E r s d' u' \<Longrightarrow> d' = d \<and> u' = u"
  by (auto simp: session_of_def)

lemma uuid_from_param_Some: "uuid_from_param E p = Some v \<Longrightarrow> p = Some v"
  by (auto simp: uuid_from_param_def split: option.splits if_splits)

lemma OrgHeaders_wp:
  "wp (OrgHeaders_from_request E r)
     (\<lambda>h t. (\<exists>n \<ge> tick s. t = s\<lparr>tick := n\<rparr>) \<and> session_of E r s (oh_device h) (oh_user h)
        \<and> uuid_from_param E (get_org_id E r) = Some (m_org_uuid (oh_membership h))
        \<and> Membership_find_by_user_and_org (u_uuid (oh_user h)) (m_org_uuid (oh_membership h)) s = Some (oh_membership h)
        \<and> MembershipType_from_i32 (m_atype (oh_membership h)) = Some (oh_membership_type h)
        \<and> MembershipStatus_from_i32 (m_status (oh_membership h)) = Some (oh_membership_status h))
     (\<lambda>e t. session_touch s t \<and> \<not> (\<exists>m ty st. acts_as E r s m ty st)) s"
  unfolding OrgHeaders_from_request_def
proof (rule wp_after [OF Headers_wp])
  fix h t
  assume h: "(\<exists>n \<ge> tick s. t = s\<lparr>tick := n\<rparr>) \<and> session_of E r s (h_device h) (h_user h)"
  then obtain n where n: "tick s \<le> n" "t = s\<lparr>tick := n\<rparr>" by blast
  then have touch: "session_touch s t" by (simp add: session_touch_tick)
  have who: "acts_as E r s m ty st \<longleftrightarrow> (\<exists>org. uuid_from_param E (get_org_id E r) = Some org
     \<and> Membership_find_by_user_and_org (u_uuid (h_user h)) org s = Some m
     \<and> MembershipType_from_i32 (m_atype m) = Some ty \<and> MembershipStatus_from_i32 (m_status m) = Some st)" for m ty st
    using h session_of_unique [of E r s "h_device h" "h_user h"] unfolding acts_as_def by metis
  have "Membership_find_by_user_and_org u org t = Membership_find_by_user_and_org u org s" for u org
    by (simp add: n Membership_find_by_user_and_org_def)
  moreover have "m_org_uuid m = org" if "Membership_find_by_user_and_org u org s = Some m" for u org m
    using that by (auto simp: Membership_find_by_user_and_org_def dest: tbl_first_Some)
  ultimately show "wp (act_bind (some_or ''Error getting the organization id'' (uuid_from_param E (get_org_id E r))) (\<lambda>org_id.
     act_bind (act_get (Membership_find_by_user_and_org (u_uuid (h_user h)) org_id)) (\<lambda>m.
     act_bind (some_or ''The current user isn't member of the organization'' m) (\<lambda>membership.
     act_bind (some_or ''Unknown user type in the database'' (MembershipType_from_i32 (m_atype membership))) (\<lambda>ty.
     act_bind (some_or ''User status is either revoked or invalid.''
       (MembershipStatus_from_i32 (m_status membership))) (\<lambda>status.
     act_ret \<lparr>oh_host = h_host h, oh_device = h_device h, oh_user = h_user h,
       oh_membership_type = ty, oh_membership_status = status, oh_membership = membership,
       oh_ip = h_ip h\<rparr>)))))) (\<lambda>h t. (\<exists>n \<ge> tick s. t = s\<lparr>tick := n\<rparr>) \<and> session_of E r s (oh_device h) (oh_user h)
        \<and> uuid_from_param E (get_org_id E r) = Some (m_org_uuid (oh_membership h))
        \<and> Membership_find_by_user_and_org (u_uuid (oh_user h)) (m_org_uuid (oh_membership h)) s = Some (oh_membership h)
        \<and> MembershipType_from_i32 (m_atype (oh_membership h)) = Some (oh_membership_type h)
        \<and> MembershipStatus_from_i32 (m_status (oh_membership h)) = Some (oh_membership_status h))
     (\<lambda>e t. session_touch s t \<and> \<not> (\<exists>m ty st. acts_as E r s m ty st)) t"
    using h touch who by (intro wp_need wp_read) (auto simp: wp_simps)
qed (auto simp: acts_as_def)

end
