(* ===== verification/Events.thy ===== *)
theory Events
  imports Ciphers Sessions
begin

text \<open>
  The event log: \<open>server/src/db/models/event.rs\<close> and \<open>api/core/events.rs\<close>. Every handler that
  changes an organization writes an event; the log is read in pages of 30, newest first, and a job
  deletes old events. Rows with the same date come in an unspecified order in SQL; the model takes
  the order of the table.
\<close>

section \<open>Rows\<close>

definition Event_new :: "env \<Rightarrow> int \<Rightarrow> time option \<Rightarrow> server \<Rightarrow> Event \<times> server" where
  "Event_new E event_type event_date s =
     (let (date, s) = (case event_date of Some d \<Rightarrow> (d, s) | None \<Rightarrow> utc_now E s);
          (uuid, s) = get_uuid E s
      in (\<lparr>ev_uuid = uuid, ev_event_type = event_type, ev_user_uuid = None, ev_org_uuid = None,
           ev_cipher_uuid = None, ev_collection_uuid = None, ev_group_uuid = None, ev_org_user_uuid = None,
           ev_act_user_uuid = None, ev_device_type = None, ev_ip_address = None, ev_event_date = date,
           ev_policy_uuid = None, ev_provider_uuid = None, ev_provider_user_uuid = None,
           ev_provider_org_uuid = None\<rparr>, s))"

definition Event_to_json :: "env \<Rightarrow> Event \<Rightarrow> json" where
  "Event_to_json E e = JObj
     [(''type'', JInt (ev_event_type e)), (''userId'', json_opt (ev_user_uuid e)),
      (''organizationId'', json_opt (ev_org_uuid e)), (''cipherId'', json_opt (ev_cipher_uuid e)),
      (''collectionId'', json_opt (ev_collection_uuid e)), (''groupId'', json_opt (ev_group_uuid e)),
      (''organizationUserId'', json_opt (ev_org_user_uuid e)), (''actingUserId'', json_opt (ev_act_user_uuid e)),
      (''date'', JStr (format_date E (ev_event_date e))), (''deviceType'', json_opt_int (ev_device_type e)),
      (''ipAddress'', json_opt (ev_ip_address e)), (''policyId'', json_opt (ev_policy_uuid e)),
      (''providerId'', json_opt (ev_provider_uuid e)), (''providerUserId'', json_opt (ev_provider_user_uuid e)),
      (''providerOrganizationId'', json_opt (ev_provider_org_uuid e))]"

definition PAGE_SIZE :: nat where "PAGE_SIZE = 30"

definition Event_save :: "Event \<Rightarrow> server \<Rightarrow> server" where
  "Event_save e s = s\<lparr>events := tbl_upsert ev_uuid e (events s)\<rparr>"

definition insert_or_ignore :: "Event \<Rightarrow> server \<Rightarrow> server" where
  "insert_or_ignore e s = (if \<exists>x \<in> set (events s). ev_uuid x = ev_uuid e then s else s\<lparr>events := events s @ [e]\<rparr>)"

definition save_user_event :: "Event list \<Rightarrow> server \<Rightarrow> server" where
  "save_user_event es s = fold insert_or_ignore es s"

definition Event_delete :: "Event \<Rightarrow> server \<Rightarrow> server" where
  "Event_delete e s = s\<lparr>events := tbl_delete (\<lambda>x. ev_uuid x = ev_uuid e) (events s)\<rparr>"

definition Event_find_by_organization_uuid :: "OrganizationId \<Rightarrow> time \<Rightarrow> time \<Rightarrow> server \<Rightarrow> Event list" where
  "Event_find_by_organization_uuid org start stop s =
     take PAGE_SIZE (tbl_order_desc ev_event_date
       (tbl_select (\<lambda>e. ev_org_uuid e = Some org \<and> start \<le> ev_event_date e \<and> ev_event_date e \<le> stop) (events s)))"

definition Event_count_by_org :: "OrganizationId \<Rightarrow> server \<Rightarrow> nat" where
  "Event_count_by_org org s = length (tbl_select (\<lambda>e. ev_org_uuid e = Some org) (events s))"

definition Event_find_by_org_and_member :: "OrganizationId \<Rightarrow> MembershipId \<Rightarrow> time \<Rightarrow> time \<Rightarrow> server \<Rightarrow> Event list" where
  "Event_find_by_org_and_member org member start stop s =
     take PAGE_SIZE (tbl_order_desc ev_event_date
       [e. e \<leftarrow> events s, m \<leftarrow> users_organizations s, m_uuid m = member, ev_org_uuid e = Some org,
           start \<le> ev_event_date e \<and> ev_event_date e \<le> stop,
           ev_user_uuid e = Some (m_user_uuid m) \<or> ev_act_user_uuid e = Some (m_user_uuid m)])"

definition Event_find_by_cipher_uuid :: "CipherId \<Rightarrow> time \<Rightarrow> time \<Rightarrow> server \<Rightarrow> Event list" where
  "Event_find_by_cipher_uuid cipher start stop s =
     take PAGE_SIZE (tbl_order_desc ev_event_date
       (tbl_select (\<lambda>e. ev_cipher_uuid e = Some cipher \<and> start \<le> ev_event_date e \<and> ev_event_date e \<le> stop) (events s)))"

definition clean_events :: "env \<Rightarrow> (server, unit) act" where
  "clean_events E =
     (case events_days_retain (conf E) of
        Some days \<Rightarrow>
          act_bind (act_run (utc_now E)) (\<lambda>now.
          act_bind (expect ''called `Option::unwrap()` on a `None` value'' (try_days days)) (\<lambda>delta.
          act_bind (expect ''`NaiveDateTime - TimeDelta` overflowed'' (naive_add now (- delta))) (\<lambda>dt.
          act_upd (\<lambda>s. s\<lparr>events := tbl_delete (\<lambda>e. ev_event_date e < dt) (events s)\<rparr>))))
      | None \<Rightarrow> act_ret ())"

definition event_cleanup_job :: "env \<Rightarrow> (server, unit) act" where
  "event_cleanup_job E = (if events_days_retain (conf E) = None then act_ret () else act_ignore (clean_events E))"

section \<open>Writing the log\<close>

definition log_user_event_impl :: "env \<Rightarrow> int \<Rightarrow> UserId \<Rightarrow> int \<Rightarrow> time option \<Rightarrow> string \<Rightarrow> server \<Rightarrow> server" where
  "log_user_event_impl E event_type user device event_date ip s =
     (let memberships = Membership_find_confirmed_by_user user s;
          (event, s) = Event_new E event_type event_date s;
          event = event\<lparr>ev_user_uuid := Some user, ev_act_user_uuid := Some user, ev_device_type := Some device,
             ev_ip_address := Some ip\<rparr>;
          (evs, s) = fold (\<lambda>m (evs, s).
             let (event, s) = Event_new E event_type event_date s
             in (evs @ [event\<lparr>ev_user_uuid := Some user, ev_org_uuid := Some (m_org_uuid m),
                   ev_org_user_uuid := Some (m_uuid m), ev_act_user_uuid := Some user,
                   ev_device_type := Some device, ev_ip_address := Some ip\<rparr>], s)) memberships ([event], s)
      in save_user_event evs s)"

definition log_user_event :: "env \<Rightarrow> int \<Rightarrow> UserId \<Rightarrow> int \<Rightarrow> string \<Rightarrow> server \<Rightarrow> server" where
  "log_user_event E event_type user device ip s =
     (if \<not> org_events_enabled (conf E) then s else log_user_event_impl E event_type user device None ip s)"

definition event_source :: "int \<Rightarrow> string \<Rightarrow> Event \<Rightarrow> Event" where
  "event_source event_type source e =
     (if 1100 \<le> event_type \<and> event_type \<le> 1199 then e\<lparr>ev_cipher_uuid := Some source\<rparr>
      else if 1300 \<le> event_type \<and> event_type \<le> 1399 then e\<lparr>ev_collection_uuid := Some source\<rparr>
      else if 1400 \<le> event_type \<and> event_type \<le> 1499 then e\<lparr>ev_group_uuid := Some source\<rparr>
      else if 1500 \<le> event_type \<and> event_type \<le> 1599 then e\<lparr>ev_org_user_uuid := Some source\<rparr>
      else if 1700 \<le> event_type \<and> event_type \<le> 1799 then e\<lparr>ev_policy_uuid := Some source\<rparr>
      else e)"

definition log_event_impl ::
  "env \<Rightarrow> int \<Rightarrow> string \<Rightarrow> OrganizationId \<Rightarrow> UserId \<Rightarrow> int \<Rightarrow> time option \<Rightarrow> string \<Rightarrow> server \<Rightarrow> server" where
  "log_event_impl E event_type source org act_user device event_date ip s =
     (let (event, s) = Event_new E event_type event_date s;
          event = (event_source event_type source event)
            \<lparr>ev_org_uuid := Some org, ev_act_user_uuid := Some act_user, ev_device_type := Some device,
             ev_ip_address := Some ip\<rparr>
      in Event_save event s)"

definition log_event :: "env \<Rightarrow> EventType \<Rightarrow> string \<Rightarrow> OrganizationId \<Rightarrow> UserId \<Rightarrow> int \<Rightarrow> string \<Rightarrow> server \<Rightarrow> server" where
  "log_event E event_type source org act_user device ip s =
     (if \<not> org_events_enabled (conf E) then s
      else log_event_impl E (EventType_i32 event_type) source org act_user device None ip s)"

section \<open>Handlers\<close>

text \<open>\<open>util.rs\<close>: a date that is not RFC 3339 panics.\<close>

definition parse_date :: "env \<Rightarrow> string \<Rightarrow> (server, time) act" where
  "parse_date E date = expect ''called `Result::unwrap()` on an `Err` value'' (date_parse E date)"

record EventRange =
  er_start :: string
  er_end :: string
  er_continuation_token :: "string option"

definition json_index :: "string \<Rightarrow> json \<Rightarrow> json" where
  "json_index k j = (case j of JObj kvs \<Rightarrow> (case map_of kvs k of None \<Rightarrow> JNull | Some v \<Rightarrow> v) | _ \<Rightarrow> JNull)"

definition json_as_str :: "json \<Rightarrow> string option" where
  "json_as_str j = (case j of JStr v \<Rightarrow> Some v | _ \<Rightarrow> None)"

definition get_continuation_token :: "json list \<Rightarrow> string option" where
  "get_continuation_token evs =
     (if length evs = PAGE_SIZE
      then if evs = [] then None else json_as_str (json_index ''date'' (last evs))
      else None)"

definition event_bounds :: "env \<Rightarrow> EventRange \<Rightarrow> (server, time \<times> time) act" where
  "event_bounds E data =
     act_bind (parse_date E (er_start data)) (\<lambda>start_date.
     act_bind (parse_date E (case er_continuation_token data of Some t \<Rightarrow> t | None \<Rightarrow> er_end data)) (\<lambda>end_date.
     act_ret (start_date, end_date)))"

definition event_list :: "json list \<Rightarrow> json list \<times> string option" where
  "event_list evs = (evs, get_continuation_token evs)"

definition get_org_events ::
  "env \<Rightarrow> OrganizationId \<Rightarrow> EventRange \<Rightarrow> AdminHeaders \<Rightarrow> (server, json list \<times> string option) act" where
  "get_org_events E org_id data headers =
     act_seq (err_if (org_id \<noteq> ah_org_id headers) ''Organization not found'')
     (if org_events_enabled (conf E)
      then act_bind (event_bounds E data) (\<lambda>(start_date, end_date).
           act_bind (act_get (Event_find_by_organization_uuid org_id start_date end_date)) (\<lambda>evs.
           act_ret (event_list (map (Event_to_json E) evs))))
      else act_ret (event_list []))"

definition get_cipher_events ::
  "env \<Rightarrow> CipherId \<Rightarrow> EventRange \<Rightarrow> Headers \<Rightarrow> (server, json list \<times> string option) act" where
  "get_cipher_events E cipher_id data headers =
     act_bind (act_get (user_has_ge_admin_access_to_cipher (u_uuid (h_user headers)) cipher_id)) (\<lambda>access.
     if org_events_enabled (conf E) \<and> access
     then act_bind (event_bounds E data) (\<lambda>(start_date, end_date).
          act_bind (act_get (Event_find_by_cipher_uuid cipher_id start_date end_date)) (\<lambda>evs.
          act_ret (event_list (map (Event_to_json E) evs))))
     else act_ret (event_list []))"

definition get_user_events ::
  "env \<Rightarrow> OrganizationId \<Rightarrow> MembershipId \<Rightarrow> EventRange \<Rightarrow> AdminHeaders \<Rightarrow> (server, json list \<times> string option) act" where
  "get_user_events E org_id member_id data headers =
     act_seq (err_if (org_id \<noteq> ah_org_id headers) ''Organization not found'')
     (if org_events_enabled (conf E)
      then act_bind (event_bounds E data) (\<lambda>(start_date, end_date).
           act_bind (act_get (Event_find_by_org_and_member org_id member_id start_date end_date)) (\<lambda>evs.
           act_ret (event_list (map (Event_to_json E) evs))))
      else act_ret (event_list []))"

record EventCollection =
  evc_type :: int
  evc_date :: string
  evc_cipher_id :: "CipherId option"
  evc_organization_id :: "OrganizationId option"

definition collect_event :: "env \<Rightarrow> UserId \<Rightarrow> int \<Rightarrow> string \<Rightarrow> EventCollection \<Rightarrow> (server, unit) act" where
  "collect_event E user device ip event =
     act_bind (parse_date E (evc_date event)) (\<lambda>event_date.
     if 1000 \<le> evc_type event \<and> evc_type event \<le> 1099
     then act_upd (log_user_event_impl E (evc_type event) user device (Some event_date) ip)
     else if 1600 \<le> evc_type event \<and> evc_type event \<le> 1699
     then (case evc_organization_id event of
             Some org_id \<Rightarrow> act_upd (log_event_impl E (evc_type event) org_id org_id user device (Some event_date) ip)
           | None \<Rightarrow> act_ret ())
     else (case evc_cipher_id event of
             None \<Rightarrow> act_ret ()
           | Some cipher_uuid \<Rightarrow>
               act_bind (act_get (Cipher_find_by_uuid cipher_uuid)) (\<lambda>cipher.
               case cipher of
                 None \<Rightarrow> act_ret ()
               | Some ci \<Rightarrow> (case ci_organization_uuid ci of
                    None \<Rightarrow> act_ret ()
                  | Some org_id \<Rightarrow>
                      act_upd (log_event_impl E (evc_type event) cipher_uuid org_id user device (Some event_date) ip)))))"

definition post_events_collect :: "env \<Rightarrow> EventCollection list \<Rightarrow> Headers \<Rightarrow> (server, unit) act" where
  "post_events_collect E data headers =
     (if \<not> org_events_enabled (conf E) then act_ret () else act_for data (collect_event E (u_uuid (h_user headers)) (d_atype (h_device headers)) (h_ip headers)))"

section \<open>Lemmas\<close>

text \<open>Writing the log changes the log and the number of external reads, nothing else.\<close>

lemma Event_new_simps:
  "snd (Event_new E ty d s) = s\<lparr>tick := tick s + (case d of None \<Rightarrow> 2 | Some _ \<Rightarrow> 1)\<rparr>"
  "ev_event_date (fst (Event_new E ty d s)) = (case d of None \<Rightarrow> clock E (tick s) | Some t \<Rightarrow> t)"
  by (auto simp: Event_new_def Let_def utc_now_def get_uuid_def split: option.split prod.split)

lemma log_event_eq:
  "\<exists>evs n. log_event E ty src org u dev ip s = s\<lparr>tick := n, events := evs\<rparr>"
proof (cases "org_events_enabled (conf E)")
  case False
  then have "log_event E ty src org u dev ip s = s\<lparr>tick := tick s, events := events s\<rparr>" by (simp add: log_event_def)
  then show ?thesis by blast
next
  case True
  obtain e t where e: "Event_new E (EventType_i32 ty) None s = (e, t)" by fastforce
  then have "t = s\<lparr>tick := tick s + 2\<rparr>" using Event_new_simps(1) [of E "EventType_i32 ty" None s] by simp
  then show ?thesis using True e by (auto simp: log_event_def log_event_impl_def Event_save_def)
qed

lemma log_event_frame [simp]:
  "users (log_event E ty src org u dev ip s) = users s"
  "invitations (log_event E ty src org u dev ip s) = invitations s"
  "devices (log_event E ty src org u dev ip s) = devices s"
  "twofactors (log_event E ty src org u dev ip s) = twofactors s"
  "organizations (log_event E ty src org u dev ip s) = organizations s"
  "users_organizations (log_event E ty src org u dev ip s) = users_organizations s"
  "collections (log_event E ty src org u dev ip s) = collections s"
  "users_collections (log_event E ty src org u dev ip s) = users_collections s"
  "ciphers_collections (log_event E ty src org u dev ip s) = ciphers_collections s"
  "groups (log_event E ty src org u dev ip s) = groups s"
  "groups_users (log_event E ty src org u dev ip s) = groups_users s"
  "collections_groups (log_event E ty src org u dev ip s) = collections_groups s"
  "ciphers (log_event E ty src org u dev ip s) = ciphers s"
  "org_policies (log_event E ty src org u dev ip s) = org_policies s"
  "outbox (log_event E ty src org u dev ip s) = outbox s"
  using log_event_eq [of E ty src org u dev ip s] by fastforce+

lemma insert_or_ignore_eq: "\<exists>evs. insert_or_ignore e s = s\<lparr>events := evs\<rparr>"
proof (cases "\<exists>x \<in> set (events s). ev_uuid x = ev_uuid e")
  case True
  then have "insert_or_ignore e s = s\<lparr>events := events s\<rparr>" by (simp add: insert_or_ignore_def)
  then show ?thesis by blast
qed (auto simp: insert_or_ignore_def)

lemma save_user_event_eq: "\<exists>evs. save_user_event es s = s\<lparr>events := evs\<rparr>"
  unfolding save_user_event_def
proof (induction es arbitrary: s)
  case Nil
  have "fold insert_or_ignore [] s = s\<lparr>events := events s\<rparr>" by simp
  then show ?case by blast
next
  case (Cons e es)
  obtain evs where "insert_or_ignore e s = s\<lparr>events := evs\<rparr>" using insert_or_ignore_eq by blast
  with Cons.IH [of "s\<lparr>events := evs\<rparr>"] show ?case by auto
qed

lemma log_user_event_eq: "\<exists>evs n. log_user_event E ty u dev ip s = s\<lparr>tick := n, events := evs\<rparr>"
proof (cases "org_events_enabled (conf E)")
  case False
  then have "log_user_event E ty u dev ip s = s\<lparr>tick := tick s, events := events s\<rparr>" by (simp add: log_user_event_def)
  then show ?thesis by blast
next
  case True
  have step: "\<exists>n. snd (Event_new E ty None x) = x\<lparr>tick := n\<rparr>" for x by (auto simp: Event_new_simps(1))
  have loop: "\<exists>n. snd (fold (\<lambda>m (evs, s). let (event, s) = Event_new E ty None s in (f m event evs, s)) ms (evs, x)) = x\<lparr>tick := n\<rparr>"
    for f :: "Membership \<Rightarrow> Event \<Rightarrow> Event list \<Rightarrow> Event list" and ms evs x
  proof (induction ms arbitrary: evs x)
    case Nil
    have "x = x\<lparr>tick := tick x\<rparr>" by simp
    then show ?case by (metis fold_simps(1) snd_conv)
  next
    case (Cons m ms)
    obtain e y where e: "Event_new E ty None x = (e, y)" by fastforce
    with step [of x] obtain n where "y = x\<lparr>tick := n\<rparr>" by auto
    with Cons.IH [of "f m e evs" y] e show ?case by auto
  qed
  obtain e y where e: "Event_new E ty None s = (e, y)" by fastforce
  with step [of s] obtain n where y: "y = s\<lparr>tick := n\<rparr>" by auto
  define first where "first = e\<lparr>ev_user_uuid := Some u, ev_act_user_uuid := Some u, ev_device_type := Some dev, ev_ip_address := Some ip\<rparr>"
  define add where "add = (\<lambda>(m :: Membership) (ev :: Event) es. es @ [ev\<lparr>ev_user_uuid := Some u, ev_org_uuid := Some (m_org_uuid m),
    ev_org_user_uuid := Some (m_uuid m), ev_act_user_uuid := Some u, ev_device_type := Some dev, ev_ip_address := Some ip\<rparr>])"
  obtain es z where z: "fold (\<lambda>m (evs, s). let (event, s) = Event_new E ty None s in (add m event evs, s))
      (Membership_find_confirmed_by_user u s) ([first], y) = (es, z)" by fastforce
  with loop [of add "Membership_find_confirmed_by_user u s" "[first]" y] obtain k where k: "z = y\<lparr>tick := k\<rparr>" by auto
  have "log_user_event E ty u dev ip s = save_user_event es z"
    using True e z by (simp add: log_user_event_def log_user_event_impl_def first_def add_def)
  then show ?thesis using save_user_event_eq [of es z] y k by auto
qed

lemma log_user_event_frame [simp]:
  "users (log_user_event E ty u dev ip s) = users s"
  "devices (log_user_event E ty u dev ip s) = devices s"
  "twofactors (log_user_event E ty u dev ip s) = twofactors s"
  "auth_requests (log_user_event E ty u dev ip s) = auth_requests s"
  "users_organizations (log_user_event E ty u dev ip s) = users_organizations s"
  "outbox (log_user_event E ty u dev ip s) = outbox s"
  using log_user_event_eq [of E ty u dev ip s] by fastforce+

end
