(* ===== verification/LoginRequests.thy ===== *)
theory LoginRequests
  imports Sends Events
begin

text \<open>
  Login with another device: \<open>server/src/db/models/auth_request.rs\<close>, the handlers of login requests at
  the end of \<open>api/core/accounts.rs\<close>, the list of devices with their pending requests and the guard
  \<open>ClientHeaders\<close> of \<open>auth.rs\<close>. A device that is not logged in asks with an access code of its own; a
  device with a session approves, and the asking device fetches the encrypted key with its code. The
  notifications of the handlers are outside the model.
\<close>

section \<open>The guard of anonymous requests\<close>

record ClientHeaders =
  ch_device_type :: int
  ch_ip :: string

definition ClientHeaders_from_request :: "env \<Rightarrow> request \<Rightarrow> ClientHeaders" where
  "ClientHeaders_from_request E r =
     \<lparr>ch_device_type = (case Option.bind (rq_header r ''device-type'') (parse_int 32) of Some n \<Rightarrow> n | None \<Rightarrow> 14),
      ch_ip = ClientIp_from_request E r\<rparr>"

section \<open>The table of login requests\<close>

definition AuthRequest_new ::
  "env \<Rightarrow> UserId \<Rightarrow> DeviceId \<Rightarrow> int \<Rightarrow> string \<Rightarrow> string \<Rightarrow> string \<Rightarrow> server \<Rightarrow> AuthRequest \<times> server" where
  "AuthRequest_new E user device device_type ip access_code public_key s =
     (let (now, s) = utc_now E s; (uuid, s) = get_uuid E s
      in (\<lparr>aq_uuid = uuid, aq_user_uuid = user, aq_organization_uuid = None, aq_request_device_identifier = device,
           aq_device_type = device_type, aq_request_ip = ip, aq_response_device_id = None,
           aq_access_code = access_code, aq_public_key = public_key, aq_enc_key = None,
           aq_master_password_hash = None, aq_approved = None, aq_creation_date = now, aq_response_date = None,
           aq_authentication_date = None\<rparr>, s))"

definition AuthRequest_to_json_for_pending_device :: "env \<Rightarrow> AuthRequest \<Rightarrow> json" where
  "AuthRequest_to_json_for_pending_device E a =
     JObj [(''id'', JStr (aq_uuid a)), (''creationDate'', JStr (format_date E (aq_creation_date a)))]"

definition AuthRequest_save :: "AuthRequest \<Rightarrow> server \<Rightarrow> server" where
  "AuthRequest_save a s = s\<lparr>auth_requests := tbl_upsert aq_uuid a (auth_requests s)\<rparr>"

definition AuthRequest_find_by_uuid :: "AuthRequestId \<Rightarrow> server \<Rightarrow> AuthRequest option" where
  "AuthRequest_find_by_uuid uuid s = tbl_first (\<lambda>a. aq_uuid a = uuid) (auth_requests s)"

definition AuthRequest_find_by_uuid_and_user :: "AuthRequestId \<Rightarrow> UserId \<Rightarrow> server \<Rightarrow> AuthRequest option" where
  "AuthRequest_find_by_uuid_and_user uuid user s =
     tbl_first (\<lambda>a. aq_uuid a = uuid \<and> aq_user_uuid a = user) (auth_requests s)"

definition AuthRequest_find_by_user :: "UserId \<Rightarrow> server \<Rightarrow> AuthRequest list" where
  "AuthRequest_find_by_user user s = tbl_select (\<lambda>a. aq_user_uuid a = user) (auth_requests s)"

definition find_by_user_and_requested_device :: "UserId \<Rightarrow> DeviceId \<Rightarrow> server \<Rightarrow> AuthRequest option" where
  "find_by_user_and_requested_device user device s =
     tbl_first (\<lambda>a. True) (tbl_order_desc aq_creation_date (tbl_select (\<lambda>a. aq_user_uuid a = user
       \<and> aq_request_device_identifier a = device \<and> aq_approved a = None) (auth_requests s)))"

definition find_created_before :: "time \<Rightarrow> server \<Rightarrow> AuthRequest list" where
  "find_created_before dt s = tbl_select (\<lambda>a. aq_creation_date a < dt) (auth_requests s)"

definition AuthRequest_delete :: "AuthRequest \<Rightarrow> server \<Rightarrow> server" where
  "AuthRequest_delete a s = s\<lparr>auth_requests := tbl_delete (\<lambda>x. aq_uuid x = aq_uuid a) (auth_requests s)\<rparr>"

definition check_access_code :: "env \<Rightarrow> string \<Rightarrow> AuthRequest \<Rightarrow> bool" where
  "check_access_code E code a \<longleftrightarrow> ct_equal E (aq_access_code a) code"

definition purge_expired_auth_requests :: "env \<Rightarrow> (server, unit) act" where
  "purge_expired_auth_requests E =
     act_bind (act_run (utc_now E)) (\<lambda>now.
     act_bind (expect ''called `Option::unwrap()` on a `None` value'' (try_minutes 15)) (\<lambda>d.
     act_bind (expect ''`NaiveDateTime - TimeDelta` overflowed'' (naive_add now (- d))) (\<lambda>expiry_time.
     act_bind (act_get (find_created_before expiry_time)) (\<lambda>rows.
     act_for rows (\<lambda>a. act_upd (AuthRequest_delete a))))))"

text \<open>The job; the pool always hands out a connection.\<close>

definition purge_auth_requests :: "env \<Rightarrow> (server, unit) act" where
  "purge_auth_requests E = purge_expired_auth_requests E"

section \<open>Devices with their pending requests\<close>

record DeviceWithAuthRequest =
  da_device :: Device
  da_pending_auth_request :: "AuthRequest option"

definition DeviceWithAuthRequest_to_json :: "env \<Rightarrow> DeviceWithAuthRequest \<Rightarrow> json" where
  "DeviceWithAuthRequest_to_json E d = JObj
     [(''id'', JStr (d_uuid (da_device d))), (''name'', JStr (d_name (da_device d))),
      (''type'', JInt (d_atype (da_device d))), (''identifier'', JStr (d_uuid (da_device d))),
      (''creationDate'', JStr (format_date E (d_created_at (da_device d)))),
      (''devicePendingAuthRequest'', case da_pending_auth_request d of
          Some a \<Rightarrow> AuthRequest_to_json_for_pending_device E a | None \<Rightarrow> JNull),
      (''isTrusted'', JBool False), (''encryptedPublicKey'', JNull), (''encryptedUserKey'', JNull),
      (''object'', JStr ''device'')]"

definition DeviceWithAuthRequest_from :: "Device \<Rightarrow> AuthRequest option \<Rightarrow> DeviceWithAuthRequest" where
  "DeviceWithAuthRequest_from c a = \<lparr>da_device = c, da_pending_auth_request = a\<rparr>"

definition find_with_auth_request_by_user :: "UserId \<Rightarrow> server \<Rightarrow> DeviceWithAuthRequest list" where
  "find_with_auth_request_by_user user s =
     map (\<lambda>d. DeviceWithAuthRequest_from d (find_by_user_and_requested_device user (d_uuid d) s))
       (Device_find_by_user user s)"

section \<open>Handlers\<close>

text \<open>The answer that four of the handlers build, with the dates and the decision as they pass them.\<close>

definition auth_request_json :: "env \<Rightarrow> AuthRequest \<Rightarrow> json \<Rightarrow> json \<Rightarrow> json" where
  "auth_request_json E a response_date approved = JObj
     [(''id'', JStr (aq_uuid a)), (''publicKey'', JStr (aq_public_key a)),
      (''requestDeviceType'', JStr (DeviceType_display (DeviceType_from_i32 (aq_device_type a)))),
      (''requestIpAddress'', JStr (aq_request_ip a)), (''key'', json_opt (aq_enc_key a)),
      (''masterPasswordHash'', json_opt (aq_master_password_hash a)),
      (''creationDate'', JStr (format_date E (aq_creation_date a))), (''responseDate'', response_date),
      (''requestApproved'', approved), (''origin'', JStr (domain_origin (conf E))),
      (''object'', JStr ''auth-request'')]"

definition json_opt_bool :: "bool option \<Rightarrow> json" where
  "json_opt_bool x = (case x of None \<Rightarrow> JNull | Some b \<Rightarrow> JBool b)"

definition stored_request_json :: "env \<Rightarrow> AuthRequest \<Rightarrow> json" where
  "stored_request_json E a = auth_request_json E a
     (json_opt (map_option (format_date E) (aq_response_date a))) (json_opt_bool (aq_approved a))"

record AuthRequestRequest =
  arr_access_code :: string
  arr_device_identifier :: DeviceId
  arr_email :: string
  arr_public_key :: string

definition post_auth_request :: "env \<Rightarrow> AuthRequestRequest \<Rightarrow> ClientHeaders \<Rightarrow> (server, json) act" where
  "post_auth_request E data ch =
     act_bind (act_get (User_find_by_mail E (arr_email data))) (\<lambda>u.
     act_bind (some_or ''AuthRequest doesn't exist'' u) (\<lambda>user.
     act_bind (act_get (Device_find_by_uuid_and_user (arr_device_identifier data) (u_uuid user))) (\<lambda>d.
     act_bind (some_or ''AuthRequest doesn't exist''
       (case d of Some d \<Rightarrow> if d_atype d = ch_device_type ch then Some d else None | None \<Rightarrow> None)) (\<lambda>device.
     act_bind (act_run (AuthRequest_new E (u_uuid user) (arr_device_identifier data) (ch_device_type ch) (ch_ip ch)
       (arr_access_code data) (arr_public_key data))) (\<lambda>a.
     act_seq (act_upd (AuthRequest_save a))
     (act_seq (act_upd (log_user_event E (EventType_i32 UserRequestedDeviceApproval) (u_uuid user)
        (ch_device_type ch) (ch_ip ch)))
     (act_ret (auth_request_json E a JNull (JBool False)))))))))"

definition get_auth_request :: "env \<Rightarrow> AuthRequestId \<Rightarrow> Headers \<Rightarrow> (server, json) act" where
  "get_auth_request E uuid headers =
     act_bind (act_get (AuthRequest_find_by_uuid_and_user uuid (u_uuid (h_user headers)))) (\<lambda>a.
     act_bind (some_or ''AuthRequest doesn't exist'' a) (\<lambda>a.
     act_ret (stored_request_json E a)))"

record AuthResponseRequest =
  ars_device_identifier :: DeviceId
  ars_key :: string
  ars_master_password_hash :: "string option"
  ars_request_approved :: bool

definition put_auth_request :: "env \<Rightarrow> AuthRequestId \<Rightarrow> AuthResponseRequest \<Rightarrow> Headers \<Rightarrow> (server, json) act" where
  "put_auth_request E uuid data headers =
     act_bind (act_get (AuthRequest_find_by_uuid_and_user uuid (u_uuid (h_user headers)))) (\<lambda>a.
     act_bind (some_or ''AuthRequest doesn't exist'' a) (\<lambda>a.
     act_seq (err_if (d_uuid (h_device headers) \<noteq> ars_device_identifier data) ''AuthRequest doesn't exist'')
     (act_seq (err_if (aq_approved a \<noteq> None) ''An authentication request with the same device already exists'')
     (act_bind (act_run (utc_now E)) (\<lambda>response_date.
      act_bind
        (if ars_request_approved data
         then let a = a\<lparr>aq_approved := Some (ars_request_approved data), aq_enc_key := Some (ars_key data),
                aq_master_password_hash := ars_master_password_hash data,
                aq_response_device_id := Some (ars_device_identifier data), aq_response_date := Some response_date\<rparr> in
              act_seq (act_upd (AuthRequest_save a))
              (act_seq (act_upd (log_user_event E (EventType_i32 OrganizationUserApprovedAuthRequest)
                 (u_uuid (h_user headers)) (d_atype (h_device headers)) (h_ip headers)))
              (act_ret a))
         else act_seq (act_upd (AuthRequest_delete a))
              (act_seq (act_upd (log_user_event E (EventType_i32 OrganizationUserRejectedAuthRequest)
                 (u_uuid (h_user headers)) (d_atype (h_device headers)) (h_ip headers)))
              (act_ret a))) (\<lambda>a.
      act_ret (auth_request_json E a (JStr (format_date E response_date)) (json_opt_bool (aq_approved a)))))))))"

definition foreign_client :: "env \<Rightarrow> ClientHeaders \<Rightarrow> string \<Rightarrow> AuthRequest \<Rightarrow> bool" where
  "foreign_client E ch code a \<longleftrightarrow> aq_device_type a \<noteq> ch_device_type ch \<or> aq_request_ip a \<noteq> ch_ip ch
     \<or> \<not> check_access_code E code a"

definition get_auth_request_response :: "env \<Rightarrow> AuthRequestId \<Rightarrow> string \<Rightarrow> ClientHeaders \<Rightarrow> (server, json) act" where
  "get_auth_request_response E uuid code ch =
     act_bind (act_get (AuthRequest_find_by_uuid uuid)) (\<lambda>a.
     act_bind (some_or ''AuthRequest doesn't exist'' a) (\<lambda>a.
     act_seq (err_if (foreign_client E ch code a) ''AuthRequest doesn't exist'')
     (act_ret (stored_request_json E a))))"

definition get_auth_requests_pending :: "env \<Rightarrow> Headers \<Rightarrow> (server, json) act" where
  "get_auth_requests_pending E headers =
     act_bind (act_get (AuthRequest_find_by_user (u_uuid (h_user headers)))) (\<lambda>rows.
     act_ret (JObj [(''data'', JArr (map (stored_request_json E) (filter (\<lambda>a. aq_approved a = None) rows))),
        (''continuationToken'', JNull), (''object'', JStr ''list'')]))"

definition get_auth_requests :: "env \<Rightarrow> Headers \<Rightarrow> (server, json) act" where
  "get_auth_requests E headers = get_auth_requests_pending E headers"

section \<open>Lemmas\<close>

interpretation auth_request: row_store auth_requests aq_uuid "\<lambda>(_::unit) s a. a"
  "\<lambda>_. AuthRequest_save" "\<lambda>_. AuthRequest_delete"
  by unfold_locales (simp_all add: AuthRequest_save_def AuthRequest_delete_def)

end
