(* ===== verification/Access.thy ===== *)
theory Access
  imports Ciphers
begin

text \<open>
  Who may read a cipher. The code decides it three times: the list of a user's ciphers
  (\<open>find_by_user\<close>), the check of one cipher (\<open>get_access_restrictions\<close> on the database) and the same
  check on the cached data of a synchronisation. Here each is described by its grants, and the
  conditions under which they agree are proved.
\<close>

section \<open>Joins\<close>

lemma left_join_bex:
  "(\<exists>x \<in> set (left_join P t). Q x) \<longleftrightarrow> (\<exists>r \<in> set t. P r \<and> Q (Some r)) \<or> (\<forall>r \<in> set t. \<not> P r) \<and> Q None"
proof (cases "filter P t")
  case Nil
  then show ?thesis by (auto simp: left_join_def filter_empty_conv)
next
  case (Cons r rs)
  then have "set (left_join P t) = Some ` set (filter P t)" by (simp add: left_join_def)
  moreover have "\<exists>r \<in> set t. P r" using Cons by (metis filter_empty_conv list.distinct(1))
  ultimately show ?thesis by auto
qed

lemma tbl_first_unique:
  assumes "keyed key t"
  shows "(case tbl_first (\<lambda>x. key x = k \<and> P x) t of Some r \<Rightarrow> Q r | None \<Rightarrow> False) \<longleftrightarrow>
    (\<exists>r \<in> set t. key r = k \<and> P r \<and> Q r)"
proof (cases "tbl_first (\<lambda>x. key x = k \<and> P x) t")
  case (Some r)
  then have "r \<in> set t" "key r = k" "P r" by (auto dest: tbl_first_Some)
  with Some show ?thesis using keyed_unique [OF assms] by auto
next
  case None
  then have "\<forall>r \<in> set t. \<not> (key r = k \<and> P r)" by (simp add: tbl_first_None)
  with None show ?thesis by auto
qed

section \<open>Grants\<close>

definition in_collection :: "server \<Rightarrow> Cipher \<Rightarrow> CollectionId \<Rightarrow> bool" where
  "in_collection s ci col \<longleftrightarrow> (\<exists>cc \<in> set (ciphers_collections s). cc_cipher_uuid cc = ci_uuid ci \<and> cc_collection_uuid cc = col)"

definition user_grant :: "server \<Rightarrow> UserId \<Rightarrow> Cipher \<Rightarrow> CollectionUser \<Rightarrow> bool" where
  "user_grant s user ci cu \<longleftrightarrow> cu \<in> set (users_collections s) \<and> cu_user_uuid cu = user \<and> in_collection s ci (cu_collection_uuid cu)"

definition group_of :: "server \<Rightarrow> Membership \<Rightarrow> Group \<Rightarrow> bool" where
  "group_of s m g \<longleftrightarrow> g \<in> set (groups s) \<and> g_organizations_uuid g = m_org_uuid m
     \<and> (\<exists>gu \<in> set (groups_users s). gu_users_organizations_uuid gu = m_uuid m \<and> gu_groups_uuid gu = g_uuid g)"

definition group_grant :: "server \<Rightarrow> Membership \<Rightarrow> Cipher \<Rightarrow> CollectionGroup \<Rightarrow> bool" where
  "group_grant s m ci cg \<longleftrightarrow> cg \<in> set (collections_groups s) \<and> in_collection s ci (cg_collections_uuid cg)
     \<and> (\<exists>g. group_of s m g \<and> cg_groups_uuid cg = g_uuid g)"

text \<open>What the list of a user's ciphers contains.\<close>

definition listed :: "env \<Rightarrow> server \<Rightarrow> UserId \<Rightarrow> bool \<Rightarrow> Cipher \<Rightarrow> bool" where
  "listed E s user visible_only ci \<longleftrightarrow> ci_user_uuid ci = Some user
     \<or> (\<exists>m \<in> set (users_organizations s). ci_organization_uuid ci = Some (m_org_uuid m) \<and> m_user_uuid m = user
          \<and> has_status Confirmed m
          \<and> (m_access_all m \<or> \<not> visible_only \<and> m_atype m \<le> MembershipType_i32 Admin
             \<or> (\<exists>cu. user_grant s user ci cu)
             \<or> org_groups_enabled (conf E) \<and> ((\<exists>g. group_of s m g \<and> g_access_all g) \<or> (\<exists>cg. group_grant s m ci cg))))"

text \<open>
  A row of the joined tables satisfies a condition on one column group exactly when the rows it
  depends on exist; the other tables contribute a row in any case.
\<close>

lemma bex_none: "(\<exists>r \<in> A. False) \<longleftrightarrow> False"
  by simp

lemma bex_here: "(\<exists>y \<in> A. P y \<and> x = y) \<longleftrightarrow> x \<in> A \<and> P x" "(\<exists>y \<in> A. P y \<and> Q y \<and> x = y) \<longleftrightarrow> x \<in> A \<and> P x \<and> Q x"
  by auto

lemmas joins = left_join_drop left_join_not_None left_join_ex bex_disj_distrib bex_simps bex_here
lemmas join_rows = left_join_bex opt_is_simps simp_thms bex_none bex_simps

lemma user_rows:
  "(\<exists>cc \<in> set (ciphers_collections s). ci_uuid ci = cc_cipher_uuid cc \<and> (\<exists>m \<in> set (users_organizations s).
       (ci_organization_uuid ci = Some (m_org_uuid m) \<and> m_user_uuid m = user \<and> m_status m = MembershipStatus_i32 Confirmed)
     \<and> (\<exists>cu \<in> set (users_collections s).
       (cc_collection_uuid cc = cu_collection_uuid cu \<and> m_user_uuid m = cu_user_uuid cu) \<and> cu_user_uuid cu = user)))
   \<longleftrightarrow> (\<exists>m \<in> set (users_organizations s). (ci_organization_uuid ci = Some (m_org_uuid m) \<and> m_user_uuid m = user
     \<and> m_status m = MembershipStatus_i32 Confirmed) \<and> (\<exists>cu. user_grant s user ci cu))"
  unfolding user_grant_def in_collection_def by (intro iffI; elim bexE conjE exE; metis)

lemma full_group_rows:
  "(\<exists>gu \<in> set (groups_users s). gu_users_organizations_uuid gu = m_uuid m \<and> (\<exists>g \<in> set (groups s).
      (g_uuid g = gu_groups_uuid gu \<and> g_organizations_uuid g = m_org_uuid m) \<and> g_access_all g))
   \<longleftrightarrow> (\<exists>g. group_of s m g \<and> g_access_all g)"
  unfolding group_of_def by (intro iffI; elim bexE conjE exE; metis)

lemma group_rows:
  "(\<exists>cc \<in> set (ciphers_collections s). ci_uuid ci = cc_cipher_uuid cc \<and> (\<exists>m \<in> set (users_organizations s). K m
     \<and> (\<exists>gu \<in> set (groups_users s). gu_users_organizations_uuid gu = m_uuid m \<and> (\<exists>g \<in> set (groups s).
      (g_uuid g = gu_groups_uuid gu \<and> g_organizations_uuid g = m_org_uuid m)
       \<and> (\<exists>cg \<in> set (collections_groups s). cg_collections_uuid cg = cc_collection_uuid cc \<and> cg_groups_uuid cg = g_uuid g)))))
   \<longleftrightarrow> (\<exists>m \<in> set (users_organizations s). K m \<and> (\<exists>cg. group_grant s m ci cg))"
  unfolding group_grant_def in_collection_def group_of_def by (intro iffI; elim bexE conjE exE; metis)

lemma find_by_user_iff:
  "ci \<in> set (Cipher_find_by_user E user visible_only ids s) \<longleftrightarrow>
     ci \<in> set (ciphers s) \<and> (ids = [] \<or> ci_uuid ci \<in> set ids) \<and> listed E s user visible_only ci"
proof (cases "org_groups_enabled (conf E)")
  case False
  then show ?thesis
    unfolding Cipher_find_by_user_def set_remdups
    by (simp only: if_False in_comp joins)
      (simp only: join_rows user_rows listed_def has_status_def, blast)
next
  case True
  then show ?thesis
    unfolding Cipher_find_by_user_def set_remdups
    by (simp only: if_True in_comp joins)
      (simp only: join_rows user_rows full_group_rows group_rows listed_def has_status_def, blast)
qed

section \<open>The check of one cipher\<close>

text \<open>
  Consistent tables: the unique keys of the schema, a known role in every membership, and assignments
  that stay within one organization. The properties below assume it of the tables; it is not an invariant
  of all handlers: an edit of a member can put it into a group of another organization, and a share that
  fails with a mismatch leaves the cipher in a collection of another organization.
\<close>

definition access_wf :: "server \<Rightarrow> bool" where
  "access_wf s \<longleftrightarrow>
     keyed ci_uuid (ciphers s) \<and> keyed c_uuid (collections s) \<and> keyed g_uuid (groups s)
     \<and> keyed m_uuid (users_organizations s) \<and> keyed (\<lambda>m. (m_user_uuid m, m_org_uuid m)) (users_organizations s)
     \<and> keyed cu_key (users_collections s)
     \<and> (\<forall>m \<in> set (users_organizations s). MembershipType_from_i32 (m_atype m) \<noteq> None)
     \<and> (\<forall>cc \<in> set (ciphers_collections s). \<exists>c \<in> set (collections s). c_uuid c = cc_collection_uuid cc
          \<and> (\<exists>ci \<in> set (ciphers s). ci_uuid ci = cc_cipher_uuid cc \<and> ci_organization_uuid ci = Some (c_org_uuid c)))
     \<and> (\<forall>cu \<in> set (users_collections s). \<exists>c \<in> set (collections s). c_uuid c = cu_collection_uuid cu
          \<and> (\<exists>m \<in> set (users_organizations s). m_user_uuid m = cu_user_uuid cu \<and> m_org_uuid m = c_org_uuid c))
     \<and> (\<forall>gu \<in> set (groups_users s). \<exists>g \<in> set (groups s). g_uuid g = gu_groups_uuid gu
          \<and> (\<exists>m \<in> set (users_organizations s). m_uuid m = gu_users_organizations_uuid gu
               \<and> m_org_uuid m = g_organizations_uuid g))
     \<and> (\<forall>cg \<in> set (collections_groups s). \<exists>g \<in> set (groups s). g_uuid g = cg_groups_uuid cg
          \<and> (\<exists>c \<in> set (collections s). c_uuid c = cg_collections_uuid cg \<and> c_org_uuid c = g_organizations_uuid g))"

lemma access_wf_keys:
  assumes "access_wf s"
  shows "keyed ci_uuid (ciphers s)" "keyed c_uuid (collections s)" "keyed g_uuid (groups s)"
    "keyed m_uuid (users_organizations s)" "keyed (\<lambda>m. (m_user_uuid m, m_org_uuid m)) (users_organizations s)"
    "keyed cu_key (users_collections s)"
  using assms by (simp_all add: access_wf_def)

lemma access_wf_role: "access_wf s \<Longrightarrow> m \<in> set (users_organizations s) \<Longrightarrow> MembershipType_from_i32 (m_atype m) \<noteq> None"
  by (simp add: access_wf_def)

lemma access_wf_cu:
  assumes "access_wf s" "cu \<in> set (users_collections s)"
  obtains c m where "c \<in> set (collections s)" "c_uuid c = cu_collection_uuid cu"
    "m \<in> set (users_organizations s)" "m_user_uuid m = cu_user_uuid cu" "m_org_uuid m = c_org_uuid c"
  using assms unfolding access_wf_def by meson

lemma access_wf_cc:
  assumes "access_wf s" "cc \<in> set (ciphers_collections s)"
  obtains c ci where "c \<in> set (collections s)" "c_uuid c = cc_collection_uuid cc"
    "ci \<in> set (ciphers s)" "ci_uuid ci = cc_cipher_uuid cc" "ci_organization_uuid ci = Some (c_org_uuid c)"
  using assms unfolding access_wf_def by meson

lemma access_wf_gu:
  assumes "access_wf s" "gu \<in> set (groups_users s)"
  obtains g m where "g \<in> set (groups s)" "g_uuid g = gu_groups_uuid gu"
    "m \<in> set (users_organizations s)" "m_uuid m = gu_users_organizations_uuid gu" "m_org_uuid m = g_organizations_uuid g"
  using assms unfolding access_wf_def by meson

lemma access_wf_cg:
  assumes "access_wf s" "cg \<in> set (collections_groups s)"
  obtains g c where "g \<in> set (groups s)" "g_uuid g = cg_groups_uuid cg"
    "c \<in> set (collections s)" "c_uuid c = cg_collections_uuid cg" "c_org_uuid c = g_organizations_uuid g"
  using assms unfolding access_wf_def by meson

text \<open>The collection a cipher is in belongs to the organization of the cipher.\<close>

lemma in_collection_org:
  assumes "access_wf s" "ci \<in> set (ciphers s)" "in_collection s ci (c_uuid c)" "c \<in> set (collections s)"
  shows "ci_organization_uuid ci = Some (c_org_uuid c)"
proof -
  obtain cc where cc: "cc \<in> set (ciphers_collections s)" "cc_cipher_uuid cc = ci_uuid ci" "cc_collection_uuid cc = c_uuid c"
    using assms(3) by (auto simp: in_collection_def)
  obtain c' ci' where c': "c' \<in> set (collections s)" "c_uuid c' = cc_collection_uuid cc" "ci' \<in> set (ciphers s)"
      "ci_uuid ci' = cc_cipher_uuid cc" "ci_organization_uuid ci' = Some (c_org_uuid c')"
    using access_wf_cc [OF assms(1) cc(1)] .
  have "c' = c" using keyed_unique [OF access_wf_keys(2) [OF assms(1)] c'(1) assms(4)] c'(2) cc(3) by simp
  moreover have "ci' = ci" using keyed_unique [OF access_wf_keys(1) [OF assms(1)] c'(3) assms(2)] c'(4) cc(2) by simp
  ultimately show ?thesis using c'(5) by simp
qed

lemma user_grant_member:
  assumes "access_wf s" "ci \<in> set (ciphers s)" "user_grant s user ci cu"
  shows "\<exists>m \<in> set (users_organizations s). m_user_uuid m = user \<and> ci_organization_uuid ci = Some (m_org_uuid m)"
proof -
  have cu: "cu \<in> set (users_collections s)" "cu_user_uuid cu = user" "in_collection s ci (cu_collection_uuid cu)"
    using assms(3) by (simp_all add: user_grant_def)
  obtain c m where c: "c \<in> set (collections s)" "c_uuid c = cu_collection_uuid cu" "m \<in> set (users_organizations s)"
      "m_user_uuid m = cu_user_uuid cu" "m_org_uuid m = c_org_uuid c"
    using access_wf_cu [OF assms(1) cu(1)] .
  have "ci_organization_uuid ci = Some (c_org_uuid c)"
    using in_collection_org [OF assms(1,2) _ c(1)] cu(3) c(2) by simp
  then show ?thesis using c cu(2) by auto
qed

lemma group_grant_org:
  assumes "access_wf s" "ci \<in> set (ciphers s)" "group_grant s m ci cg"
  shows "ci_organization_uuid ci = Some (m_org_uuid m)"
proof -
  obtain g where cg: "cg \<in> set (collections_groups s)" "in_collection s ci (cg_collections_uuid cg)"
      "group_of s m g" "cg_groups_uuid cg = g_uuid g"
    using assms(3) by (auto simp: group_grant_def)
  obtain g' c where c: "g' \<in> set (groups s)" "g_uuid g' = cg_groups_uuid cg" "c \<in> set (collections s)"
      "c_uuid c = cg_collections_uuid cg" "c_org_uuid c = g_organizations_uuid g'"
    using access_wf_cg [OF assms(1) cg(1)] .
  have "g' = g" using keyed_unique [OF access_wf_keys(3) [OF assms(1)] c(1)] c(2) cg(3,4) by (auto simp: group_of_def)
  moreover have "ci_organization_uuid ci = Some (c_org_uuid c)"
    using in_collection_org [OF assms(1,2) _ c(3)] cg(2) c(4) by simp
  ultimately show ?thesis using c(5) cg(3) by (simp add: group_of_def)
qed

text \<open>The rows of the two database queries are the grants.\<close>

abbreviation cu_flags :: "CollectionUser \<Rightarrow> flags" where
  "cu_flags cu \<equiv> (cu_read_only cu, cu_hide_passwords cu, cu_manage cu)"

abbreviation cg_flags :: "CollectionGroup \<Rightarrow> flags" where
  "cg_flags cg \<equiv> (cg_read_only cg, cg_hide_passwords cg, cg_manage cg)"

lemma user_flags_iff:
  assumes "ci \<in> set (ciphers s)"
  shows "f \<in> set (get_user_collections_access_flags ci user s) \<longleftrightarrow> (\<exists>cu. user_grant s user ci cu \<and> f = cu_flags cu)"
  unfolding get_user_collections_access_flags_def in_comp user_grant_def in_collection_def using assms
  by (intro iffI; elim bexE exE conjE; metis)

lemma group_flags_iff:
  assumes "ci \<in> set (ciphers s)" "org_groups_enabled (conf E)"
  shows "f \<in> set (get_group_collections_access_flags E ci user s) \<longleftrightarrow>
    (\<exists>m \<in> set (users_organizations s). m_user_uuid m = user \<and> (\<exists>cg. group_grant s m ci cg \<and> f = cg_flags cg))"
  unfolding get_group_collections_access_flags_def group_grant_def in_collection_def group_of_def
  using assms by (simp only: not_True_eq_False if_False in_comp) (intro iffI; elim bexE exE conjE; metis)

lemma nonempty_iff: "xs \<noteq> [] \<longleftrightarrow> (\<exists>x. x \<in> set xs)"
  by (cases xs) auto

lemma user_flags_nonempty:
  assumes "ci \<in> set (ciphers s)"
  shows "get_user_collections_access_flags ci user s = [] \<longleftrightarrow> \<not> (\<exists>cu. user_grant s user ci cu)"
  using nonempty_iff [of "get_user_collections_access_flags ci user s"] user_flags_iff [OF assms] by blast

lemma group_flags_nonempty:
  assumes "ci \<in> set (ciphers s)"
  shows "get_group_collections_access_flags E ci user s = [] \<longleftrightarrow> \<not> (org_groups_enabled (conf E)
    \<and> (\<exists>m \<in> set (users_organizations s). m_user_uuid m = user \<and> (\<exists>cg. group_grant s m ci cg)))"
proof (cases "org_groups_enabled (conf E)")
  case True
  then show ?thesis
    using nonempty_iff [of "get_group_collections_access_flags E ci user s"] group_flags_iff [OF assms True] by blast
qed (simp add: get_group_collections_access_flags_def)

text \<open>The memberships behind full access.\<close>

lemma admin_iff:
  assumes "MembershipType_from_i32 n \<noteq> None"
  shows "i32_ge n Admin \<longleftrightarrow> n \<le> MembershipType_i32 Admin"
  using assms by (auto simp: i32_ge_def from_i32_Some) (case_tac y; simp add: less_eq_MembershipType_def)+

lemma full_org_iff:
  assumes "access_wf s"
  shows "is_in_full_access_org ci user None s \<longleftrightarrow>
    (\<exists>m \<in> set (users_organizations s). ci_organization_uuid ci = Some (m_org_uuid m) \<and> m_user_uuid m = user
       \<and> has_full_access m)"
proof (cases "ci_organization_uuid ci")
  case (Some org)
  have "is_in_full_access_org ci user None s \<longleftrightarrow>
      (case tbl_first (\<lambda>m. (m_user_uuid m, m_org_uuid m) = (user, org) \<and> m_status m = MembershipStatus_i32 Confirmed)
         (users_organizations s) of Some m \<Rightarrow> has_full_access m | None \<Rightarrow> False)"
    using Some by (simp add: is_in_full_access_org_def Membership_find_confirmed_by_user_and_org_def conj_assoc)
  then show ?thesis
    unfolding tbl_first_unique [OF access_wf_keys(5) [OF assms]] using Some
    by (auto simp: has_full_access_def has_status_def)
qed (simp add: is_in_full_access_org_def)

lemma full_group_iff:
  assumes "access_wf s"
  shows "is_in_full_access_group E ci user None s \<longleftrightarrow> org_groups_enabled (conf E) \<and>
    (\<exists>m \<in> set (users_organizations s). ci_organization_uuid ci = Some (m_org_uuid m) \<and> m_user_uuid m = user
       \<and> (\<exists>g. group_of s m g \<and> g_access_all g))"
proof -
  have "g_organizations_uuid g = m_org_uuid m"
    if r: "g \<in> set (groups s)" "gu \<in> set (groups_users s)" "m \<in> set (users_organizations s)"
      "gu_groups_uuid gu = g_uuid g" "m_uuid m = gu_users_organizations_uuid gu" for g gu m
  proof -
    obtain g' m' where "g' \<in> set (groups s)" "g_uuid g' = gu_groups_uuid gu" "m' \<in> set (users_organizations s)"
      "m_uuid m' = gu_users_organizations_uuid gu" "m_org_uuid m' = g_organizations_uuid g'"
      using access_wf_gu [OF assms r(2)] .
    then show ?thesis using r keyed_unique [OF access_wf_keys(3) [OF assms], of g g']
      keyed_unique [OF access_wf_keys(4) [OF assms], of m m'] by simp
  qed
  then have "Group_is_in_full_access_group user org s \<longleftrightarrow>
    (\<exists>m \<in> set (users_organizations s). org = m_org_uuid m \<and> m_user_uuid m = user \<and> (\<exists>g. group_of s m g \<and> g_access_all g))"
    for org
    unfolding full_access_group_iff group_of_def by (intro iffI; elim bexE exE conjE; metis)
  then show ?thesis
    by (cases "ci_organization_uuid ci") (simp_all add: is_in_full_access_group_def)
qed

text \<open>What a membership is assigned of a cipher, beside its own role.\<close>

definition assigned :: "env \<Rightarrow> server \<Rightarrow> Membership \<Rightarrow> Cipher \<Rightarrow> bool" where
  "assigned E s m ci \<longleftrightarrow> (\<exists>cu. user_grant s (m_user_uuid m) ci cu)
     \<or> org_groups_enabled (conf E) \<and> ((\<exists>g. group_of s m g \<and> g_access_all g) \<or> (\<exists>cg. group_grant s m ci cg))"

definition member_of :: "server \<Rightarrow> UserId \<Rightarrow> Cipher \<Rightarrow> Membership \<Rightarrow> bool" where
  "member_of s user ci m \<longleftrightarrow> m \<in> set (users_organizations s) \<and> m_user_uuid m = user
     \<and> ci_organization_uuid ci = Some (m_org_uuid m)"

lemma listed_iff:
  assumes "access_wf s"
  shows "listed E s user False ci \<longleftrightarrow> ci_user_uuid ci = Some user
     \<or> (\<exists>m. member_of s user ci m \<and> has_status Confirmed m \<and> (has_full_access m \<or> assigned E s m ci))"
  unfolding listed_def member_of_def assigned_def has_full_access_def
  using admin_iff [OF access_wf_role [OF assms]] by (intro iffI; elim disjE bexE exE conjE; metis)

lemma accessible_iff:
  assumes "access_wf s" "ci \<in> set (ciphers s)"
  shows "is_accessible_to_user E ci user s \<longleftrightarrow> ci_user_uuid ci = Some user
     \<or> (\<exists>m. member_of s user ci m \<and> (has_full_access m \<or> assigned E s m ci))"
proof -
  have "is_accessible_to_user E ci user s \<longleftrightarrow> ci_user_uuid ci = Some user \<or> is_in_full_access_org ci user None s
      \<or> is_in_full_access_group E ci user None s \<or> (\<exists>cu. user_grant s user ci cu)
      \<or> (org_groups_enabled (conf E) \<and> (\<exists>m \<in> set (users_organizations s). m_user_uuid m = user \<and> (\<exists>cg. group_grant s m ci cg)))"
    unfolding is_accessible_to_user_def get_access_restrictions_def is_owned_by_user_def Let_def
    by (auto simp: user_flags_nonempty [OF assms(2)] group_flags_nonempty [OF assms(2)] simp del: not_None_eq)
  also have "\<dots> \<longleftrightarrow> ci_user_uuid ci = Some user
      \<or> (\<exists>m. member_of s user ci m \<and> (has_full_access m \<or> assigned E s m ci))"
    unfolding full_org_iff [OF assms(1)] full_group_iff [OF assms(1)] member_of_def assigned_def
    using user_grant_member [OF assms] group_grant_org [OF assms]
    by (intro iffI; elim disjE bexE exE conjE; metis)
  finally show ?thesis .
qed

section \<open>The cached data of a synchronisation\<close>

subsection \<open>Hash maps\<close>

lemma collect_map_eq: "collect_map xs = map_of (rev xs)"
proof -
  have "fold (\<lambda>(k, v) m. m(k \<mapsto> v)) xs m = m ++ map_of (rev xs)" for m
    by (induction xs arbitrary: m) (auto simp: map_add_def fun_eq_iff split: option.split)
  then show ?thesis by (simp add: collect_map_def)
qed

lemma collect_map_Some:
  assumes "distinct (map fst xs)"
  shows "collect_map xs k = Some v \<longleftrightarrow> (k, v) \<in> set xs"
  using assms by (simp add: collect_map_eq rev_map [symmetric])

lemma collect_map_None: "collect_map xs k = None \<longleftrightarrow> k \<notin> fst ` set xs"
  by (simp add: collect_map_eq map_of_eq_None_iff)

lemma collect_lists_snoc:
  "collect_lists (xs @ [(k, v)]) = (collect_lists xs)(k \<mapsto> (case collect_lists xs k of None \<Rightarrow> [v] | Some vs \<Rightarrow> vs @ [v]))"
  by (simp add: collect_lists_def)

lemma collect_lists_eq:
  "collect_lists xs k = (let vs = map snd (filter (\<lambda>x. fst x = k) xs) in if vs = [] then None else Some vs)"
proof (induction xs rule: rev_induct)
  case (snoc x xs)
  then show ?case by (cases x) (auto simp: collect_lists_snoc Let_def split: option.split if_splits)
qed (simp add: collect_lists_def)

lemma combine_groups_snoc:
  "combine_groups (xs @ [cg]) = (combine_groups xs)(cg_collections_uuid cg \<mapsto>
     (case combine_groups xs (cg_collections_uuid cg) of
        Some e \<Rightarrow> e\<lparr>cg_read_only := cg_read_only e \<and> cg_read_only cg,
          cg_hide_passwords := cg_hide_passwords e \<and> cg_hide_passwords cg, cg_manage := cg_manage e \<or> cg_manage cg\<rparr>
      | None \<Rightarrow> cg))"
  by (simp add: combine_groups_def)

lemma combine_groups_None: "combine_groups xs col = None \<longleftrightarrow> (\<forall>cg \<in> set xs. cg_collections_uuid cg \<noteq> col)"
proof (induction xs rule: rev_induct)
  case (snoc cg xs)
  then show ?case by (auto simp: combine_groups_snoc)
qed (simp add: combine_groups_def)

lemma combine_groups_Some:
  "combine_groups xs col = Some e \<Longrightarrow>
     (cg_read_only e \<longleftrightarrow> (\<forall>cg \<in> set xs. cg_collections_uuid cg = col \<longrightarrow> cg_read_only cg))
     \<and> (cg_hide_passwords e \<longleftrightarrow> (\<forall>cg \<in> set xs. cg_collections_uuid cg = col \<longrightarrow> cg_hide_passwords cg))
     \<and> (cg_manage e \<longleftrightarrow> (\<exists>cg \<in> set xs. cg_collections_uuid cg = col \<and> cg_manage cg))"
proof (induction xs arbitrary: e rule: rev_induct)
  case (snoc cg xs)
  show ?case
  proof (cases "cg_collections_uuid cg = col")
    case False
    then show ?thesis using snoc by (auto simp: combine_groups_snoc)
  next
    case True
    show ?thesis
    proof (cases "combine_groups xs col")
      case None
      then have "\<forall>cg \<in> set xs. cg_collections_uuid cg \<noteq> col" by (simp add: combine_groups_None)
      moreover have "e = cg" using None True snoc.prems by (simp add: combine_groups_snoc)
      ultimately show ?thesis using True by auto
    next
      case (Some d)
      then show ?thesis using snoc.IH [OF Some] snoc.prems True by (auto simp: combine_groups_snoc)
    qed
  qed
qed (simp add: combine_groups_def)

text \<open>A flag that restricts holds when every row has it, the right to manage when some row has it.\<close>

lemma combine_rows_iff:
  "combine_rows rows = (\<forall>(ro, hp, mn) \<in> set rows. ro, \<forall>(ro, hp, mn) \<in> set rows. hp, \<exists>(ro, hp, mn) \<in> set rows. mn)"
proof -
  have "fold (\<lambda>(ro, hp, mn) (read_only, hide_passwords, manage). (read_only \<and> ro, hide_passwords \<and> hp, manage \<or> mn)) rows (a, b, c)
    = (a \<and> (\<forall>(ro, hp, mn) \<in> set rows. ro), b \<and> (\<forall>(ro, hp, mn) \<in> set rows. hp), c \<or> (\<exists>(ro, hp, mn) \<in> set rows. mn))" for a b c
    by (induction rows arbitrary: a b c) auto
  then show ?thesis by (simp add: combine_rows_def)
qed

subsection \<open>The rows of the cached data\<close>

definition user_group_grant :: "env \<Rightarrow> server \<Rightarrow> UserId \<Rightarrow> Cipher \<Rightarrow> CollectionGroup \<Rightarrow> bool" where
  "user_group_grant E s user ci cg \<longleftrightarrow> org_groups_enabled (conf E)
     \<and> (\<exists>m \<in> set (users_organizations s). m_user_uuid m = user \<and> group_grant s m ci cg)"

lemma synced_collection_sound:
  "(i, col) \<in> set (get_collections_with_cipher_by_user user s) \<Longrightarrow>
     \<exists>cc \<in> set (ciphers_collections s). cc_cipher_uuid cc = i \<and> cc_collection_uuid cc = col"
  unfolding get_collections_with_cipher_by_user_def set_remdups in_comp by auto

lemma synced_collection_intro:
  assumes "cc \<in> set (ciphers_collections s)" "c \<in> set (collections s)" "c_uuid c = cc_collection_uuid cc"
    "m \<in> set (users_organizations s)" "m_org_uuid m = c_org_uuid c"
    "(\<exists>cu \<in> set (users_collections s). cu_collection_uuid cu = cc_collection_uuid cc \<and> cu_user_uuid cu = m_user_uuid m)
     \<or> (\<exists>cg. cg \<in> set (collections_groups s) \<and> cg_collections_uuid cg = cc_collection_uuid cc
          \<and> (\<exists>g. group_of s m g \<and> cg_groups_uuid cg = g_uuid g))"
  shows "(cc_cipher_uuid cc, cc_collection_uuid cc) \<in> set (get_collections_with_cipher_by_user (m_user_uuid m) s)"
  using assms(6) unfolding get_collections_with_cipher_by_user_def set_remdups in_comp joins
  by (intro bexI [OF _ assms(1)] bexI [OF _ assms(2)] bexI [OF _ assms(4)] conjI assms(3) assms(5) refl)
    (simp only: join_rows group_of_def, elim disjE exE bexE conjE; metis)

lemma synced_collection_user:
  assumes "access_wf s" "user_grant s user ci cu"
  shows "(ci_uuid ci, cu_collection_uuid cu) \<in> set (get_collections_with_cipher_by_user user s)"
proof -
  have cu: "cu \<in> set (users_collections s)" "cu_user_uuid cu = user" using assms(2) by (simp_all add: user_grant_def)
  obtain cc where cc: "cc \<in> set (ciphers_collections s)" "cc_cipher_uuid cc = ci_uuid ci"
      "cc_collection_uuid cc = cu_collection_uuid cu"
    using assms(2) by (auto simp: user_grant_def in_collection_def)
  obtain c m where "c \<in> set (collections s)" "c_uuid c = cu_collection_uuid cu" "m \<in> set (users_organizations s)"
      "m_user_uuid m = cu_user_uuid cu" "m_org_uuid m = c_org_uuid c"
    using access_wf_cu [OF assms(1) cu(1)] .
  with cc cu show ?thesis using synced_collection_intro [OF cc(1), of c m] by auto
qed

lemma synced_collection_group:
  assumes "access_wf s" "m \<in> set (users_organizations s)" "group_grant s m ci cg"
  shows "(ci_uuid ci, cg_collections_uuid cg) \<in> set (get_collections_with_cipher_by_user (m_user_uuid m) s)"
proof -
  obtain cc where cc: "cc \<in> set (ciphers_collections s)" "cc_cipher_uuid cc = ci_uuid ci"
      "cc_collection_uuid cc = cg_collections_uuid cg"
    using assms(3) by (auto simp: group_grant_def in_collection_def)
  obtain g gu where g: "cg \<in> set (collections_groups s)" "g \<in> set (groups s)" "g_organizations_uuid g = m_org_uuid m" "cg_groups_uuid cg = g_uuid g"
      "gu \<in> set (groups_users s)" "gu_users_organizations_uuid gu = m_uuid m" "gu_groups_uuid gu = g_uuid g"
    using assms(3) by (auto simp: group_grant_def group_of_def)
  obtain g' c where c: "g' \<in> set (groups s)" "g_uuid g' = cg_groups_uuid cg" "c \<in> set (collections s)"
      "c_uuid c = cg_collections_uuid cg" "c_org_uuid c = g_organizations_uuid g'"
    using access_wf_cg [OF assms(1) g(1)] .
  have "g' = g" using keyed_unique [OF access_wf_keys(3) [OF assms(1)] c(1) g(2)] c(2) g(4) by simp
  moreover have "group_of s m g" using g by (auto simp: group_of_def)
  ultimately show ?thesis using cc c g(1,3,4) synced_collection_intro [OF cc(1) c(3) _ assms(2)] by auto
qed

lemma cg_find_by_user_iff:
  assumes "access_wf s"
  shows "cg \<in> set (cg_find_by_user user s) \<and> in_collection s ci (cg_collections_uuid cg) \<longleftrightarrow>
    (\<exists>m \<in> set (users_organizations s). m_user_uuid m = user \<and> group_grant s m ci cg)"
proof
  assume "\<exists>m \<in> set (users_organizations s). m_user_uuid m = user \<and> group_grant s m ci cg"
  then obtain m g gu where g: "m \<in> set (users_organizations s)" "m_user_uuid m = user"
      "cg \<in> set (collections_groups s)" "g \<in> set (groups s)" "g_organizations_uuid g = m_org_uuid m"
      "cg_groups_uuid cg = g_uuid g" "gu \<in> set (groups_users s)" "gu_users_organizations_uuid gu = m_uuid m"
      "gu_groups_uuid gu = g_uuid g" "in_collection s ci (cg_collections_uuid cg)"
    by (auto simp: group_grant_def group_of_def)
  obtain g' c where c: "g' \<in> set (groups s)" "g_uuid g' = cg_groups_uuid cg" "c \<in> set (collections s)"
      "c_uuid c = cg_collections_uuid cg" "c_org_uuid c = g_organizations_uuid g'"
    using access_wf_cg [OF assms g(3)] .
  have "g' = g" using keyed_unique [OF access_wf_keys(3) [OF assms] c(1) g(4)] c(2) g(6) by simp
  with g c show "cg \<in> set (cg_find_by_user user s) \<and> in_collection s ci (cg_collections_uuid cg)"
    unfolding cg_find_by_user_def in_comp by metis
next
  assume "cg \<in> set (cg_find_by_user user s) \<and> in_collection s ci (cg_collections_uuid cg)"
  then show "\<exists>m \<in> set (users_organizations s). m_user_uuid m = user \<and> group_grant s m ci cg"
    unfolding cg_find_by_user_def in_comp group_grant_def group_of_def by (elim conjE bexE) metis
qed

definition direct :: "server \<Rightarrow> UserId \<Rightarrow> CollectionId \<Rightarrow> bool" where
  "direct s user col \<longleftrightarrow> (\<exists>cu \<in> set (users_collections s). cu_user_uuid cu = user \<and> cu_collection_uuid cu = col)"

lemma synced_user_collections:
  assumes "access_wf s"
  shows "sd_user_collections (CipherSyncData_new E user ty s) col = Some cu \<longleftrightarrow>
      cu \<in> set (users_collections s) \<and> cu_user_uuid cu = user \<and> cu_collection_uuid cu = col"
    "sd_user_collections (CipherSyncData_new E user ty s) col = None \<longleftrightarrow> \<not> direct s user col"
proof -
  have "inj_on cu_collection_uuid (set (cu_find_by_user user s))"
    using keyed_unique [OF access_wf_keys(6) [OF assms]]
    by (auto simp: cu_find_by_user_def cu_key_def intro!: inj_onI)
  moreover have "distinct (cu_find_by_user user s)"
    using access_wf_keys(6) [OF assms] unfolding cu_find_by_user_def tbl_select_def keyed_def
    by (metis distinct_filter distinct_map)
  ultimately have "distinct (map fst (map (\<lambda>cu. (cu_collection_uuid cu, cu)) (cu_find_by_user user s)))"
    by (simp add: comp_def distinct_map)
  note m = collect_map_Some [OF this]
  show "sd_user_collections (CipherSyncData_new E user ty s) col = Some cu \<longleftrightarrow>
      cu \<in> set (users_collections s) \<and> cu_user_uuid cu = user \<and> cu_collection_uuid cu = col"
    by (cases ty) (use m in \<open>auto simp: CipherSyncData_new_def Let_def\<close>, auto simp: cu_find_by_user_def)
  show "sd_user_collections (CipherSyncData_new E user ty s) col = None \<longleftrightarrow> \<not> direct s user col"
    by (cases ty) (auto simp: CipherSyncData_new_def Let_def collect_map_None cu_find_by_user_def direct_def image_iff)
qed

lemma synced_group_collections:
  "sd_user_collections_groups (CipherSyncData_new E user ty s) =
     (if org_groups_enabled (conf E) then combine_groups (cg_find_by_user user s) else Map.empty)"
  "sd_cipher_collections (CipherSyncData_new E user ty s) = collect_lists (get_collections_with_cipher_by_user user s)"
  by (cases ty; simp add: CipherSyncData_new_def Let_def)+

lemma sync_rows_set:
  "f \<in> set (sync_rows (CipherSyncData_new E user ty s) ci) \<longleftrightarrow>
     (\<exists>col. (ci_uuid ci, col) \<in> set (get_collections_with_cipher_by_user user s) \<and>
       (case sd_user_collections (CipherSyncData_new E user ty s) col of
          Some cu \<Rightarrow> f = cu_flags cu
        | None \<Rightarrow> (case sd_user_collections_groups (CipherSyncData_new E user ty s) col of
            Some cg \<Rightarrow> f = cg_flags cg | None \<Rightarrow> False)))"
proof -
  let ?cols = "map snd (filter (\<lambda>x. fst x = ci_uuid ci) (get_collections_with_cipher_by_user user s))"
  let ?row = "\<lambda>col. case sd_user_collections (CipherSyncData_new E user ty s) col of
        Some cu \<Rightarrow> [cu_flags cu]
      | None \<Rightarrow> (case sd_user_collections_groups (CipherSyncData_new E user ty s) col of
          Some cg \<Rightarrow> [cg_flags cg] | None \<Rightarrow> [])"
  have row: "f \<in> set (?row col) \<longleftrightarrow> (case sd_user_collections (CipherSyncData_new E user ty s) col of
          Some cu \<Rightarrow> f = cu_flags cu
        | None \<Rightarrow> (case sd_user_collections_groups (CipherSyncData_new E user ty s) col of
            Some cg \<Rightarrow> f = cg_flags cg | None \<Rightarrow> False))" for col
    by (simp split: option.split)
  have "sync_rows (CipherSyncData_new E user ty s) ci = concat (map ?row ?cols)"
    unfolding sync_rows_def synced_group_collections(2) collect_lists_eq Let_def by simp
  then have "f \<in> set (sync_rows (CipherSyncData_new E user ty s) ci) \<longleftrightarrow> (\<exists>col \<in> set ?cols. f \<in> set (?row col))"
    by (simp only: in_bind)
  also have "set ?cols = {col. (ci_uuid ci, col) \<in> set (get_collections_with_cipher_by_user user s)}"
    by force
  also have "(\<exists>col \<in> {col. (ci_uuid ci, col) \<in> set (get_collections_with_cipher_by_user user s)}. f \<in> set (?row col))
      \<longleftrightarrow> (\<exists>col. (ci_uuid ci, col) \<in> set (get_collections_with_cipher_by_user user s) \<and> f \<in> set (?row col))"
    by simp
  finally show ?thesis unfolding row .
qed

lemma in_collection_synced:
  "(ci_uuid ci, col) \<in> set (get_collections_with_cipher_by_user user s) \<Longrightarrow> in_collection s ci col"
  using synced_collection_sound by (fastforce simp: in_collection_def)

text \<open>The rows come from the user's own assignments and, for the other collections, from the
  combined assignments of the user's groups.\<close>

definition group_row :: "env \<Rightarrow> server \<Rightarrow> UserId \<Rightarrow> Cipher \<Rightarrow> CollectionGroup \<Rightarrow> bool" where
  "group_row E s user ci e \<longleftrightarrow> org_groups_enabled (conf E)
     \<and> (\<exists>col. in_collection s ci col \<and> \<not> direct s user col \<and> combine_groups (cg_find_by_user user s) col = Some e)"

lemma sync_rows_iff:
  assumes "access_wf s"
  shows "f \<in> set (sync_rows (CipherSyncData_new E user ty s) ci) \<longleftrightarrow>
    (\<exists>cu. user_grant s user ci cu \<and> f = cu_flags cu) \<or> (\<exists>e. group_row E s user ci e \<and> f = cg_flags e)"
proof
  assume "f \<in> set (sync_rows (CipherSyncData_new E user ty s) ci)"
  then obtain col where col: "in_collection s ci col"
      "case sd_user_collections (CipherSyncData_new E user ty s) col of
          Some cu \<Rightarrow> f = cu_flags cu
        | None \<Rightarrow> (case sd_user_collections_groups (CipherSyncData_new E user ty s) col of
            Some cg \<Rightarrow> f = cg_flags cg | None \<Rightarrow> False)"
    unfolding sync_rows_set using in_collection_synced by blast
  show "(\<exists>cu. user_grant s user ci cu \<and> f = cu_flags cu) \<or> (\<exists>e. group_row E s user ci e \<and> f = cg_flags e)"
  proof (cases "sd_user_collections (CipherSyncData_new E user ty s) col")
    case None
    then have "group_row E s user ci e" if "sd_user_collections_groups (CipherSyncData_new E user ty s) col = Some e" for e
      using that col(1) by (auto simp: synced_group_collections synced_user_collections [OF assms] group_row_def split: if_splits)
    with None col(2) show ?thesis by (auto split: option.splits)
  next
    case (Some cu)
    then have "f = cu_flags cu" using col(2) by simp
    moreover have "user_grant s user ci cu"
      using Some col(1) by (auto simp: synced_user_collections [OF assms] user_grant_def)
    ultimately show ?thesis by blast
  qed
next
  assume "(\<exists>cu. user_grant s user ci cu \<and> f = cu_flags cu) \<or> (\<exists>e. group_row E s user ci e \<and> f = cg_flags e)"
  then show "f \<in> set (sync_rows (CipherSyncData_new E user ty s) ci)"
  proof (elim disjE exE conjE)
    fix cu assume cu: "user_grant s user ci cu" "f = cu_flags cu"
    then have "sd_user_collections (CipherSyncData_new E user ty s) (cu_collection_uuid cu) = Some cu"
      unfolding synced_user_collections [OF assms] by (simp add: user_grant_def)
    then show ?thesis unfolding sync_rows_set using synced_collection_user [OF assms cu(1)] cu(2) by force
  next
    fix e assume e: "group_row E s user ci e" "f = cg_flags e"
    then obtain col where col: "org_groups_enabled (conf E)" "in_collection s ci col" "\<not> direct s user col"
        "combine_groups (cg_find_by_user user s) col = Some e" by (auto simp: group_row_def)
    then obtain cg where "cg \<in> set (cg_find_by_user user s)" "cg_collections_uuid cg = col"
      by (metis combine_groups_None option.distinct(1))
    then obtain m where "m \<in> set (users_organizations s)" "m_user_uuid m = user" "group_grant s m ci cg"
      using cg_find_by_user_iff [OF assms, of cg user ci] col(2) by auto
    then have "(ci_uuid ci, col) \<in> set (get_collections_with_cipher_by_user user s)"
      using synced_collection_group [OF assms] \<open>cg_collections_uuid cg = col\<close> by blast
    moreover have "sd_user_collections (CipherSyncData_new E user ty s) col = None"
      unfolding synced_user_collections [OF assms] by (rule col(3))
    ultimately show ?thesis
      unfolding sync_rows_set synced_group_collections using col(1,4) e(2) by (intro exI [of _ col]) simp
  qed
qed

text \<open>A property of the combined rows is one of the grants they combine.\<close>

lemma group_row_ex:
  assumes "access_wf s"
  shows "(\<exists>e. group_row E s user ci e) \<longleftrightarrow>
    (\<exists>cg. user_group_grant E s user ci cg \<and> \<not> direct s user (cg_collections_uuid cg))"
  unfolding group_row_def user_group_grant_def cg_find_by_user_iff [OF assms, symmetric]
  by (metis combine_groups_None not_None_eq)

lemma group_row_flags:
  assumes "access_wf s"
  shows "(\<forall>e. group_row E s user ci e \<longrightarrow> cg_read_only e) \<longleftrightarrow>
      (\<forall>cg. user_group_grant E s user ci cg \<and> \<not> direct s user (cg_collections_uuid cg) \<longrightarrow> cg_read_only cg)"
    "(\<forall>e. group_row E s user ci e \<longrightarrow> cg_hide_passwords e) \<longleftrightarrow>
      (\<forall>cg. user_group_grant E s user ci cg \<and> \<not> direct s user (cg_collections_uuid cg) \<longrightarrow> cg_hide_passwords cg)"
    "(\<exists>e. group_row E s user ci e \<and> cg_manage e) \<longleftrightarrow>
      (\<exists>cg. user_group_grant E s user ci cg \<and> \<not> direct s user (cg_collections_uuid cg) \<and> cg_manage cg)"
  unfolding group_row_def user_group_grant_def cg_find_by_user_iff [OF assms, symmetric]
  by (metis combine_groups_None combine_groups_Some not_None_eq)+

subsection \<open>The two checks compared\<close>

lemma synced_members:
  assumes "access_wf s"
  shows "sd_members (CipherSyncData_new E user ty s) org = Some m \<longleftrightarrow>
    m \<in> set (users_organizations s) \<and> m_user_uuid m = user \<and> m_org_uuid m = org \<and> has_status Confirmed m"
proof -
  have "inj_on m_org_uuid (set (Membership_find_confirmed_by_user user s))"
    using keyed_unique [OF access_wf_keys(5) [OF assms]]
    by (auto simp: Membership_find_confirmed_by_user_def intro!: inj_onI)
  moreover have "distinct (Membership_find_confirmed_by_user user s)"
    using access_wf_keys(4) [OF assms] unfolding Membership_find_confirmed_by_user_def tbl_select_def keyed_def
    by (metis distinct_filter distinct_map)
  ultimately have "distinct (map fst (map (\<lambda>m. (m_org_uuid m, m)) (Membership_find_confirmed_by_user user s)))"
    by (simp add: comp_def distinct_map)
  note m = collect_map_Some [OF this]
  show ?thesis
    by (cases ty) (use m in \<open>auto simp: CipherSyncData_new_def Let_def\<close>,
      auto simp: Membership_find_confirmed_by_user_def has_status_def)
qed

lemma synced_full_org:
  assumes "access_wf s"
  shows "is_in_full_access_org ci user (Some (CipherSyncData_new E user ty s)) s = is_in_full_access_org ci user None s"
proof (cases "ci_organization_uuid ci")
  case (Some org)
  have "is_in_full_access_org ci user (Some (CipherSyncData_new E user ty s)) s \<longleftrightarrow>
      (\<exists>m. sd_members (CipherSyncData_new E user ty s) org = Some m \<and> has_full_access m)"
    using Some by (simp add: is_in_full_access_org_def split: option.split)
  then show ?thesis
    unfolding synced_members [OF assms] full_org_iff [OF assms] using Some by (auto simp: has_full_access_def)
qed (simp add: is_in_full_access_org_def)

lemma synced_full_group:
  assumes "access_wf s"
  shows "is_in_full_access_group E ci user (Some (CipherSyncData_new E user ty s)) s = is_in_full_access_group E ci user None s"
proof -
  have "org \<in> set (get_orgs_by_user_with_full_access user s) \<longleftrightarrow> (\<exists>m \<in> set (users_organizations s). org = m_org_uuid m
      \<and> m_user_uuid m = user \<and> (\<exists>g. group_of s m g \<and> g_access_all g))" for org
    unfolding get_orgs_by_user_with_full_access_def set_remdups in_comp group_of_def
    by (intro iffI; elim bexE exE conjE; metis)
  moreover have "sd_user_group_full_access (CipherSyncData_new E user ty s) =
      (if org_groups_enabled (conf E) then get_orgs_by_user_with_full_access user s else [])"
    by (cases ty) (simp_all add: CipherSyncData_new_def Let_def)
  ultimately show ?thesis
    unfolding full_group_iff [OF assms]
    by (cases "ci_organization_uuid ci") (simp_all add: is_in_full_access_group_def)
qed

text \<open>The cipher is in a collection assigned to the user and in another that only a group of the user has.\<close>

definition mixed :: "env \<Rightarrow> server \<Rightarrow> UserId \<Rightarrow> Cipher \<Rightarrow> bool" where
  "mixed E s user ci \<longleftrightarrow> (\<exists>cu. user_grant s user ci cu)
     \<and> (\<exists>cg. user_group_grant E s user ci cg \<and> \<not> direct s user (cg_collections_uuid cg))"

lemma group_flags_iff2:
  assumes "ci \<in> set (ciphers s)"
  shows "f \<in> set (get_group_collections_access_flags E ci user s) \<longleftrightarrow>
    (\<exists>cg. user_group_grant E s user ci cg \<and> f = cg_flags cg)"
proof (cases "org_groups_enabled (conf E)")
  case True
  then show ?thesis unfolding group_flags_iff [OF assms True] user_group_grant_def by blast
qed (simp add: get_group_collections_access_flags_def user_group_grant_def)

text \<open>The flags of both checks, as quantifiers over the grants.\<close>

lemma direct_grant:
  "user_group_grant E s user ci cg \<Longrightarrow> direct s user (cg_collections_uuid cg) \<Longrightarrow> \<exists>cu. user_grant s user ci cu"
  unfolding user_group_grant_def group_grant_def direct_def user_grant_def by metis

lemma sync_combined:
  fixes E user ty ci s
  assumes "access_wf s"
  defines "rows \<equiv> sync_rows (CipherSyncData_new E user ty s) ci"
  shows "rows = [] \<longleftrightarrow> \<not> (\<exists>cu. user_grant s user ci cu) \<and> \<not> (\<exists>cg. user_group_grant E s user ci cg)"
    "combine_rows rows =
      ((\<forall>cu. user_grant s user ci cu \<longrightarrow> cu_read_only cu)
        \<and> (\<forall>cg. user_group_grant E s user ci cg \<and> \<not> direct s user (cg_collections_uuid cg) \<longrightarrow> cg_read_only cg),
       (\<forall>cu. user_grant s user ci cu \<longrightarrow> cu_hide_passwords cu)
        \<and> (\<forall>cg. user_group_grant E s user ci cg \<and> \<not> direct s user (cg_collections_uuid cg) \<longrightarrow> cg_hide_passwords cg),
       (\<exists>cu. user_grant s user ci cu \<and> cu_manage cu)
        \<or> (\<exists>cg. user_group_grant E s user ci cg \<and> \<not> direct s user (cg_collections_uuid cg) \<and> cg_manage cg))"
proof -
  note row = sync_rows_iff [OF assms(1), of _ E user ty ci, folded rows_def]
  have "rows \<noteq> [] \<longleftrightarrow> (\<exists>cu. user_grant s user ci cu) \<or> (\<exists>e. group_row E s user ci e)"
    unfolding nonempty_iff row by blast
  then show "rows = [] \<longleftrightarrow> \<not> (\<exists>cu. user_grant s user ci cu) \<and> \<not> (\<exists>cg. user_group_grant E s user ci cg)"
    unfolding group_row_ex [OF assms(1)] using direct_grant by blast
  have "set rows = cu_flags ` {cu. user_grant s user ci cu} \<union> cg_flags ` {e. group_row E s user ci e}"
    using row by auto
  then have "combine_rows rows =
      ((\<forall>cu. user_grant s user ci cu \<longrightarrow> cu_read_only cu) \<and> (\<forall>e. group_row E s user ci e \<longrightarrow> cg_read_only e),
       (\<forall>cu. user_grant s user ci cu \<longrightarrow> cu_hide_passwords cu) \<and> (\<forall>e. group_row E s user ci e \<longrightarrow> cg_hide_passwords e),
       (\<exists>cu. user_grant s user ci cu \<and> cu_manage cu) \<or> (\<exists>e. group_row E s user ci e \<and> cg_manage e))"
    unfolding combine_rows_iff by (simp add: ball_Un bex_Un)
  then show "combine_rows rows =
      ((\<forall>cu. user_grant s user ci cu \<longrightarrow> cu_read_only cu)
        \<and> (\<forall>cg. user_group_grant E s user ci cg \<and> \<not> direct s user (cg_collections_uuid cg) \<longrightarrow> cg_read_only cg),
       (\<forall>cu. user_grant s user ci cu \<longrightarrow> cu_hide_passwords cu)
        \<and> (\<forall>cg. user_group_grant E s user ci cg \<and> \<not> direct s user (cg_collections_uuid cg) \<longrightarrow> cg_hide_passwords cg),
       (\<exists>cu. user_grant s user ci cu \<and> cu_manage cu)
        \<or> (\<exists>cg. user_group_grant E s user ci cg \<and> \<not> direct s user (cg_collections_uuid cg) \<and> cg_manage cg))"
    unfolding group_row_flags [OF assms(1)] .
qed

lemma db_combined:
  fixes E user ci s
  assumes "ci \<in> set (ciphers s)"
  defines "rows \<equiv> (let user_permissions = get_user_collections_access_flags ci user s
     in if user_permissions = [] then get_group_collections_access_flags E ci user s else user_permissions)"
  shows "rows = [] \<longleftrightarrow> \<not> (\<exists>cu. user_grant s user ci cu) \<and> \<not> (\<exists>cg. user_group_grant E s user ci cg)"
    "\<exists>cu. user_grant s user ci cu \<Longrightarrow> combine_rows rows = (\<forall>cu. user_grant s user ci cu \<longrightarrow> cu_read_only cu,
       \<forall>cu. user_grant s user ci cu \<longrightarrow> cu_hide_passwords cu, \<exists>cu. user_grant s user ci cu \<and> cu_manage cu)"
    "\<not> (\<exists>cu. user_grant s user ci cu) \<Longrightarrow> combine_rows rows = (\<forall>cg. user_group_grant E s user ci cg \<longrightarrow> cg_read_only cg,
       \<forall>cg. user_group_grant E s user ci cg \<longrightarrow> cg_hide_passwords cg, \<exists>cg. user_group_grant E s user ci cg \<and> cg_manage cg)"
proof -
  have u: "get_user_collections_access_flags ci user s = [] \<longleftrightarrow> \<not> (\<exists>cu. user_grant s user ci cu)"
    by (rule user_flags_nonempty [OF assms(1)])
  have "get_group_collections_access_flags E ci user s \<noteq> [] \<longleftrightarrow> (\<exists>cg. user_group_grant E s user ci cg)"
    unfolding nonempty_iff group_flags_iff2 [OF assms(1)] by blast
  then show "rows = [] \<longleftrightarrow> \<not> (\<exists>cu. user_grant s user ci cu) \<and> \<not> (\<exists>cg. user_group_grant E s user ci cg)"
    using u by (auto simp: rows_def Let_def)
  have "set (get_user_collections_access_flags ci user s) = cu_flags ` {cu. user_grant s user ci cu}"
    using user_flags_iff [OF assms(1)] by auto
  then show "combine_rows rows = (\<forall>cu. user_grant s user ci cu \<longrightarrow> cu_read_only cu,
       \<forall>cu. user_grant s user ci cu \<longrightarrow> cu_hide_passwords cu, \<exists>cu. user_grant s user ci cu \<and> cu_manage cu)"
    if "\<exists>cu. user_grant s user ci cu"
    using that u by (simp add: rows_def combine_rows_iff)
  have "set (get_group_collections_access_flags E ci user s) = cg_flags ` {cg. user_group_grant E s user ci cg}"
    using group_flags_iff2 [OF assms(1)] by auto
  then show "combine_rows rows = (\<forall>cg. user_group_grant E s user ci cg \<longrightarrow> cg_read_only cg,
       \<forall>cg. user_group_grant E s user ci cg \<longrightarrow> cg_hide_passwords cg, \<exists>cg. user_group_grant E s user ci cg \<and> cg_manage cg)"
    if "\<not> (\<exists>cu. user_grant s user ci cu)"
    using that u by (simp add: rows_def combine_rows_iff)
qed

text \<open>
  The check on the cached data grants access exactly when the check on the database does, and its
  flags restrict no more; they are the same unless the grants are mixed.
\<close>

definition no_stricter :: "flags \<Rightarrow> flags \<Rightarrow> bool" where
  "no_stricter f g = (case (f, g) of ((ro, hp, mn), (ro', hp', mn')) \<Rightarrow>
     (ro \<longrightarrow> ro') \<and> (hp \<longrightarrow> hp') \<and> (mn' \<longrightarrow> mn))"

lemma sync_db:
  fixes E user ty ci s
  assumes "access_wf s" "ci \<in> set (ciphers s)"
  defines "sync \<equiv> get_access_restrictions E ci user (Some (CipherSyncData_new E user ty s)) s"
    and "db \<equiv> get_access_restrictions E ci user None s"
  shows "rel_option no_stricter sync db" "\<not> mixed E s user ci \<Longrightarrow> sync = db"
proof -
  let ?full = "is_owned_by_user ci user \<or> is_in_full_access_org ci user None s \<or> is_in_full_access_group E ci user None s"
  let ?sr = "sync_rows (CipherSyncData_new E user ty s) ci"
  let ?dr = "let user_permissions = get_user_collections_access_flags ci user s
     in if user_permissions = [] then get_group_collections_access_flags E ci user s else user_permissions"
  have sync: "sync = (if ?full then Some (False, False, True) else if ?sr = [] then None else Some (combine_rows ?sr))"
    by (simp add: sync_def get_access_restrictions_def synced_full_org [OF assms(1)] synced_full_group [OF assms(1)])
  have db: "db = (if ?full then Some (False, False, True) else if ?dr = [] then None else Some (combine_rows ?dr))"
    by (simp add: db_def get_access_restrictions_def Let_def)
  note sc = sync_combined [OF assms(1), where user = user and ci = ci and E = E and ty = ty]
  note dc = db_combined [OF assms(2), where user = user and E = E]
  have "\<not> direct s user (cg_collections_uuid cg)" if "\<not> (\<exists>cu. user_grant s user ci cu)" "user_group_grant E s user ci cg" for cg
    using that direct_grant by blast
  note nd = this
  have "no_stricter (combine_rows ?sr) (combine_rows ?dr)"
    using nd by (cases "\<exists>cu. user_grant s user ci cu") (auto simp: sc(2) dc(2,3) no_stricter_def)
  moreover have "?sr = [] \<longleftrightarrow> ?dr = []" unfolding sc(1) dc(1) ..
  ultimately show "rel_option no_stricter sync db"
    unfolding sync db by (simp add: no_stricter_def)
  assume "\<not> mixed E s user ci"
  then have "combine_rows ?sr = combine_rows ?dr"
    using nd by (cases "\<exists>cu. user_grant s user ci cu") (auto simp: sc(2) dc(2,3) mixed_def)
  with \<open>?sr = [] \<longleftrightarrow> ?dr = []\<close> show "sync = db" unfolding sync db by simp
qed

text \<open>An assignment of the user to a collection of the cipher gives access, whatever the memberships are.\<close>

lemma user_grant_access:
  assumes "ci \<in> set (ciphers s)" "user_grant s user ci cu"
  shows "is_accessible_to_user E ci user s" "\<not> cu_read_only cu \<Longrightarrow> is_write_accessible_to_user E ci user s"
proof -
  let ?rows = "get_user_collections_access_flags ci user s"
  have row: "cu_flags cu \<in> set ?rows" using user_flags_iff [OF assms(1)] assms(2) by blast
  then have "?rows \<noteq> []" by auto
  then show "is_accessible_to_user E ci user s"
    by (simp add: is_accessible_to_user_def get_access_restrictions_def Let_def del: not_None_eq)
  assume "\<not> cu_read_only cu"
  with row have "\<not> (\<forall>(ro, hp, mn) \<in> set ?rows. ro)" by force
  with \<open>?rows \<noteq> []\<close> show "is_write_accessible_to_user E ci user s"
    by (auto simp: is_write_accessible_to_user_def get_access_restrictions_def combine_rows_iff Let_def)
qed

end
