(* ===== verification/VaultLaws.thy ===== *)
theory VaultLaws
  imports Access
begin

text \<open>
  What the writes of the vault leave behind: deleting a cipher on success and when the storage
  backend refuses an attachment, the trash job, folders, and the tables' consistency
  \<open>access_wf\<close> under every deletion and assignment.
\<close>

section \<open>Deleting a cipher\<close>

text \<open>All traces of a cipher removed, nothing else changed.\<close>

definition cipher_gone :: "CipherId \<Rightarrow> server \<Rightarrow> server" where
  "cipher_gone i s = s\<lparr>folders_ciphers := tbl_delete (\<lambda>fc. fc_cipher_uuid fc = i) (folders_ciphers s),
     ciphers_collections := tbl_delete (\<lambda>cc. cc_cipher_uuid cc = i) (ciphers_collections s),
     attachments := tbl_delete (\<lambda>a. at_cipher_uuid a = i) (attachments s),
     favorites := tbl_delete (\<lambda>f. fav_cipher_uuid f = i) (favorites s),
     ciphers := tbl_delete (\<lambda>c. ci_uuid c = i) (ciphers s),
     archives := tbl_delete (\<lambda>a. ar_cipher_uuid a = i) (archives s)\<rparr>"

text \<open>What is left when the storage backend refuses to delete a file.\<close>

definition cipher_stripped :: "CipherId \<Rightarrow> Attachment list \<Rightarrow> server \<Rightarrow> server" where
  "cipher_stripped i ats s = s\<lparr>folders_ciphers := tbl_delete (\<lambda>fc. fc_cipher_uuid fc = i) (folders_ciphers s),
     ciphers_collections := tbl_delete (\<lambda>cc. cc_cipher_uuid cc = i) (ciphers_collections s),
     attachments := ats\<rparr>"

definition storage_error :: "env \<Rightarrow> api_err \<Rightarrow> bool" where
  "storage_error E e \<longleftrightarrow> (\<exists>n p m. storage_delete E n p = Some m \<and> e = Api m)"

lemma revises_cipher_users: "revises s (snd (Cipher_update_users_revision E ci s))"
proof -
  have "revises s (fold (\<lambda>m. update_uuid_revision E (m_user_uuid m)) ms s)" for ms :: "Membership list"
    by (rule revises_fold) (rule revises_revision)
  then show ?thesis
    by (simp add: Cipher_update_users_revision_def Let_def revises_revision del: fold_append split: option.split)
qed

lemma revises_tick: "revises s (s\<lparr>tick := n\<rparr>)"
  unfolding revises_def by (intro exI [of _ "users s"] exI [of _ n]) simp

lemma attachments_loop:
  "wp (act_for xs (Attachment_delete E))
     (\<lambda>_ t. revises (s\<lparr>attachments := tbl_delete (\<lambda>a. at_id a \<in> at_id ` set xs) (attachments s)\<rparr>) t)
     (\<lambda>e t. storage_error E e \<and> (\<exists>ats. set ats \<subseteq> set (attachments s) \<and> revises (s\<lparr>attachments := ats\<rparr>) t)) s"
proof (induction xs arbitrary: s)
  case Nil
  have "s\<lparr>attachments := tbl_delete (\<lambda>_. False) (attachments s)\<rparr> = s" by (simp add: tbl_delete_def)
  then show ?case by (simp add: wp_simps)
next
  case (Cons x xs)
  let ?a = "tbl_delete (\<lambda>a. at_id a = at_id x) (attachments s)"
  show ?case
  proof (cases "storage_delete E (tick s) (get_file_path x)")
    case (Some m)
    then have "storage_error E (Api m)" by (auto simp: storage_error_def)
    with Some show ?thesis
      by (auto simp: wp_def act_defs Attachment_delete_def bump_def intro!: exI [of _ ?a] revises_tick)
  next
    case None
    let ?s = "s\<lparr>attachments := ?a, tick := Suc (tick s)\<rparr>"
    have "tbl_delete (\<lambda>a. at_id a \<in> at_id ` set xs) ?a = tbl_delete (\<lambda>a. at_id a \<in> at_id ` set (x # xs)) (attachments s)"
      unfolding tbl_delete_delete by (rule tbl_delete_cong) auto
    note a = this
    have "?s\<lparr>attachments := b\<rparr> = s\<lparr>attachments := b, tick := Suc (tick s)\<rparr>" for b by simp
    then have r: "revises (s\<lparr>attachments := b\<rparr>) t" if "revises (?s\<lparr>attachments := b\<rparr>) t" for b t
      using revises_trans [OF revises_tick [of "s\<lparr>attachments := b\<rparr>" "Suc (tick s)"]] that by metis
    have "wp (act_for (x # xs) (Attachment_delete E)) Q R s \<longleftrightarrow> wp (act_for xs (Attachment_delete E)) Q R ?s" for Q R
      using None by (simp add: wp_def act_defs Attachment_delete_def)
    note first = this
    have sub: "set (attachments ?s) \<subseteq> set (attachments s)" by auto
    show ?thesis unfolding first
    proof (rule wp_mono [OF Cons.IH])
      fix t assume "revises (?s\<lparr>attachments := tbl_delete (\<lambda>a. at_id a \<in> at_id ` set xs) (attachments ?s)\<rparr>) t"
      then show "revises (s\<lparr>attachments := tbl_delete (\<lambda>a. at_id a \<in> at_id ` set (x # xs)) (attachments s)\<rparr>) t"
        unfolding a [symmetric] by (intro r) simp
    qed (use r sub in blast)
  qed
qed

lemma attachments_of_cipher:
  assumes "keyed at_id (attachments s)"
  shows "tbl_delete (\<lambda>a. at_id a \<in> at_id ` set (Attachment_find_by_cipher i s)) (attachments s)
    = tbl_delete (\<lambda>a. at_cipher_uuid a = i) (attachments s)"
  unfolding tbl_delete_def Attachment_find_by_cipher_def
  using keyed_unique [OF assms] by (intro filter_cong) auto

lemma revises_lift:
  assumes "revises s t" "\<And>us n. f (s\<lparr>users := us, tick := n\<rparr>) = (f s)\<lparr>users := us, tick := n\<rparr>" "users (f s) = users s"
  shows "revises (f s) (f t)"
  using assms by (auto simp: revises_def)

lemma Cipher_delete_wp:
  assumes "keyed at_id (attachments s)"
  shows "wp (Cipher_delete E ci) (\<lambda>_ t. revises (cipher_gone (ci_uuid ci) s) t)
    (\<lambda>e t. storage_error E e \<and> (\<exists>ats. set ats \<subseteq> set (attachments s) \<and> revises (cipher_stripped (ci_uuid ci) ats s) t)) s"
proof -
  let ?i = "ci_uuid ci"
  let ?u = "snd (Cipher_update_users_revision E ci s)"
  let ?strip = "cc_delete_all_by_cipher ?i (fc_delete_all_by_cipher ?i ?u)"
  note fr = revises_frame [OF revises_cipher_users [of s E ci]]
  have strip: "revises (cipher_stripped ?i ats s) (?strip\<lparr>attachments := ats\<rparr>)" for ats
    using revises_lift [OF revises_cipher_users [of s E ci], of "cipher_stripped ?i ats"] fr
    by (simp add: cipher_stripped_def cc_delete_all_by_cipher_def fc_delete_all_by_cipher_def)
  then have strip': "revises (cipher_stripped ?i ats s) t" if "revises (?strip\<lparr>attachments := ats\<rparr>) t" for ats t
    using that revises_trans by blast
  have at: "attachments ?strip = attachments s" using fr by (simp add: cc_delete_all_by_cipher_def fc_delete_all_by_cipher_def)
  have find: "Attachment_find_by_cipher ?i ?strip = Attachment_find_by_cipher ?i s"
    by (simp add: Attachment_find_by_cipher_def at)
  let ?rest = "\<lambda>t. cipher_row_delete ?i (fav_delete_all_by_cipher ?i t)"
  let ?ats = "tbl_delete (\<lambda>a. at_cipher_uuid a = ?i) (attachments s)"
  have gone: "revises (cipher_gone ?i s) (?rest t)" if "revises (?strip\<lparr>attachments := ?ats\<rparr>) t" for t
  proof -
    have r: "revises (cipher_stripped ?i ?ats s) t" by (rule strip' [OF that])
    have "revises (?rest (cipher_stripped ?i ?ats s)) (?rest t)"
      by (rule revises_lift [OF r]) (simp_all add: cipher_row_delete_def fav_delete_all_by_cipher_def)
    then show ?thesis
      by (simp add: cipher_gone_def cipher_stripped_def cipher_row_delete_def fav_delete_all_by_cipher_def)
  qed
  have "wp (act_for (Attachment_find_by_cipher ?i s) (Attachment_delete E)) (\<lambda>_ t. revises (cipher_gone ?i s) (?rest t))
    (\<lambda>e t. storage_error E e \<and> (\<exists>ats. set ats \<subseteq> set (attachments s) \<and> revises (cipher_stripped ?i ats s) t)) ?strip"
    by (rule wp_mono [OF attachments_loop], unfold at attachments_of_cipher [OF assms])
      (use gone strip' in blast)+
  then show ?thesis
    by (simp add: Cipher_delete_def Attachment_delete_all_by_cipher_def wp_simps find)
qed

lemma Cipher_delete_ok:
  assumes "keyed at_id (attachments s)" "\<And>n p. storage_delete E n p = None"
  obtains t where "Cipher_delete E ci s = (Inr (), t)" "revises (cipher_gone (ci_uuid ci) s) t"
  using Cipher_delete_wp [OF assms(1), of E ci] assms(2)
  by (auto simp: wp_def storage_error_def split: prod.splits sum.splits)

section \<open>The trash\<close>

text \<open>Removing several ciphers at once.\<close>

definition ciphers_gone :: "CipherId set \<Rightarrow> server \<Rightarrow> server" where
  "ciphers_gone I s = s\<lparr>folders_ciphers := tbl_delete (\<lambda>fc. fc_cipher_uuid fc \<in> I) (folders_ciphers s),
     ciphers_collections := tbl_delete (\<lambda>cc. cc_cipher_uuid cc \<in> I) (ciphers_collections s),
     attachments := tbl_delete (\<lambda>a. at_cipher_uuid a \<in> I) (attachments s),
     favorites := tbl_delete (\<lambda>f. fav_cipher_uuid f \<in> I) (favorites s),
     ciphers := tbl_delete (\<lambda>c. ci_uuid c \<in> I) (ciphers s),
     archives := tbl_delete (\<lambda>a. ar_cipher_uuid a \<in> I) (archives s)\<rparr>"

lemma ciphers_gone_Nil: "ciphers_gone {} s = s"
  by (simp add: ciphers_gone_def tbl_delete_def)

lemma tbl_delete_insert:
  "tbl_delete (\<lambda>r. k r \<in> I) (tbl_delete (\<lambda>r. k r = i) t) = tbl_delete (\<lambda>r. k r \<in> insert i I) t"
  unfolding tbl_delete_delete by (rule tbl_delete_cong) auto

lemma ciphers_gone_Cons: "ciphers_gone I (cipher_gone i s) = ciphers_gone (insert i I) s"
  by (simp add: ciphers_gone_def cipher_gone_def tbl_delete_insert)

lemma revises_ciphers_gone: "revises s t \<Longrightarrow> revises (ciphers_gone I s) (ciphers_gone I t)"
  by (rule revises_lift) (simp_all add: ciphers_gone_def)

lemma purge_loop:
  assumes "keyed at_id (attachments s)" "\<And>n p. storage_delete E n p = None"
  shows "\<exists>t. act_for cs (\<lambda>ci. act_ignore (Cipher_delete E ci)) s = (Inr (), t) \<and> revises (ciphers_gone (ci_uuid ` set cs) s) t"
  using assms(1)
proof (induction cs arbitrary: s)
  case Nil
  then show ?case by (simp add: act_ret_def ciphers_gone_Nil)
next
  case (Cons ci cs)
  obtain t where t: "Cipher_delete E ci s = (Inr (), t)" "revises (cipher_gone (ci_uuid ci) s) t"
    using Cipher_delete_ok [OF Cons.prems assms(2)] .
  have "keyed at_id (attachments t)"
    using Cons.prems revises_frame [OF t(2)] by (auto simp: cipher_gone_def)
  then obtain u where u: "act_for cs (\<lambda>ci. act_ignore (Cipher_delete E ci)) t = (Inr (), u)"
      "revises (ciphers_gone (ci_uuid ` set cs) t) u"
    using Cons.IH by blast
  have "revises (ciphers_gone (ci_uuid ` set cs) (cipher_gone (ci_uuid ci) s)) u"
    by (rule revises_trans [OF revises_ciphers_gone [OF t(2)] u(2)])
  moreover have "act_ignore (Cipher_delete E ci) s = (Inr (), t)" using t(1) by (simp add: act_ignore_def)
  ultimately show ?case using u(1) by (simp add: act_defs ciphers_gone_Cons)
qed

definition trashed_before :: "time \<Rightarrow> Cipher \<Rightarrow> bool" where
  "trashed_before dt ci \<longleftrightarrow> opt_is (ci_deleted_at ci) (\<lambda>d. d < dt)"

lemma purge_trash_ok:
  assumes "keyed at_id (attachments s)" "\<And>n p. storage_delete E n p = None"
    and "trash_auto_delete_days (conf E) = Some days" "try_days days = Some delta"
    and "naive_add (clock E (tick s)) (- delta) = Some dt"
  obtains t where "purge_trash E s = (Inr (), t)"
    "revises (ciphers_gone {i. \<exists>ci \<in> set (ciphers s). ci_uuid ci = i \<and> trashed_before dt ci} s) t"
proof -
  let ?s = "bump s"
  have "\<exists>t. act_for (find_deleted_before dt ?s) (\<lambda>ci. act_ignore (Cipher_delete E ci)) ?s = (Inr (), t)
      \<and> revises (ciphers_gone (ci_uuid ` set (find_deleted_before dt ?s)) ?s) t"
    by (rule purge_loop) (simp_all add: assms bump_def)
  then obtain t where t: "act_for (find_deleted_before dt ?s) (\<lambda>ci. act_ignore (Cipher_delete E ci)) ?s = (Inr (), t)"
      "revises (ciphers_gone (ci_uuid ` set (find_deleted_before dt ?s)) ?s) t" by blast
  have ids: "ci_uuid ` set (find_deleted_before dt ?s)
      = {i. \<exists>ci \<in> set (ciphers s). ci_uuid ci = i \<and> trashed_before dt ci}"
    by (auto simp: find_deleted_before_def trashed_before_def bump_def)
  have "purge_trash E s = (Inr (), t)"
    using t(1) by (simp add: purge_trash_def act_defs assms(3-5) utc_now_def Let_def)
  moreover have "revises (ciphers_gone {i. \<exists>ci \<in> set (ciphers s). ci_uuid ci = i \<and> trashed_before dt ci} s) t"
    using revises_trans [OF revises_ciphers_gone [OF revises_tick [of s "Suc (tick s)"]] t(2) [unfolded bump_def]]
    by (simp add: ids [unfolded bump_def])
  ultimately show thesis by (rule that)
qed

section \<open>Consistency of the access tables\<close>

text \<open>Removing rows keeps \<open>access_wf\<close> when no row left refers to a removed one.\<close>

lemma access_wf_delete:
  assumes wf: "access_wf s"
    and t: "ciphers t = tbl_delete Pa (ciphers s)" "collections t = tbl_delete Pb (collections s)"
      "groups t = tbl_delete Pc (groups s)" "users_organizations t = tbl_delete Pd (users_organizations s)"
      "ciphers_collections t = tbl_delete Pe (ciphers_collections s)" "users_collections t = tbl_delete Pf (users_collections s)"
      "groups_users t = tbl_delete Pg (groups_users s)" "collections_groups t = tbl_delete Ph (collections_groups s)"
    and cc: "\<And>cc c ci. cc \<in> set (ciphers_collections s) \<Longrightarrow> c \<in> set (collections s) \<Longrightarrow> ci \<in> set (ciphers s)
      \<Longrightarrow> c_uuid c = cc_collection_uuid cc \<Longrightarrow> ci_uuid ci = cc_cipher_uuid cc \<Longrightarrow> Pa ci \<or> Pb c \<Longrightarrow> Pe cc"
    and cu: "\<And>cu c m. cu \<in> set (users_collections s) \<Longrightarrow> c \<in> set (collections s) \<Longrightarrow> m \<in> set (users_organizations s)
      \<Longrightarrow> c_uuid c = cu_collection_uuid cu \<Longrightarrow> m_user_uuid m = cu_user_uuid cu \<Longrightarrow> m_org_uuid m = c_org_uuid c
      \<Longrightarrow> Pb c \<or> Pd m \<Longrightarrow> Pf cu"
    and gu: "\<And>gu g m. gu \<in> set (groups_users s) \<Longrightarrow> g \<in> set (groups s) \<Longrightarrow> m \<in> set (users_organizations s)
      \<Longrightarrow> g_uuid g = gu_groups_uuid gu \<Longrightarrow> m_uuid m = gu_users_organizations_uuid gu \<Longrightarrow> Pc g \<or> Pd m \<Longrightarrow> Pg gu"
    and cg: "\<And>cg g c. cg \<in> set (collections_groups s) \<Longrightarrow> g \<in> set (groups s) \<Longrightarrow> c \<in> set (collections s)
      \<Longrightarrow> g_uuid g = cg_groups_uuid cg \<Longrightarrow> c_uuid c = cg_collections_uuid cg \<Longrightarrow> Pb c \<or> Pc g \<Longrightarrow> Ph cg"
  shows "access_wf t"
  unfolding access_wf_def t
proof (intro conjI ballI)
  fix x assume "x \<in> set (tbl_delete Pe (ciphers_collections s))"
  then have x: "x \<in> set (ciphers_collections s)" "\<not> Pe x" by simp_all
  obtain c ci where "c \<in> set (collections s)" "c_uuid c = cc_collection_uuid x" "ci \<in> set (ciphers s)"
      "ci_uuid ci = cc_cipher_uuid x" "ci_organization_uuid ci = Some (c_org_uuid c)" using access_wf_cc [OF wf x(1)] .
  then show "\<exists>c \<in> set (tbl_delete Pb (collections s)). c_uuid c = cc_collection_uuid x
      \<and> (\<exists>ci \<in> set (tbl_delete Pa (ciphers s)). ci_uuid ci = cc_cipher_uuid x \<and> ci_organization_uuid ci = Some (c_org_uuid c))"
    using cc [OF x(1)] x(2) unfolding set_tbl_delete by blast
next
  fix x assume "x \<in> set (tbl_delete Pf (users_collections s))"
  then have x: "x \<in> set (users_collections s)" "\<not> Pf x" by simp_all
  obtain c m where "c \<in> set (collections s)" "c_uuid c = cu_collection_uuid x" "m \<in> set (users_organizations s)"
      "m_user_uuid m = cu_user_uuid x" "m_org_uuid m = c_org_uuid c" using access_wf_cu [OF wf x(1)] .
  then show "\<exists>c \<in> set (tbl_delete Pb (collections s)). c_uuid c = cu_collection_uuid x
      \<and> (\<exists>m \<in> set (tbl_delete Pd (users_organizations s)). m_user_uuid m = cu_user_uuid x \<and> m_org_uuid m = c_org_uuid c)"
    using cu [OF x(1)] x(2) unfolding set_tbl_delete by blast
next
  fix x assume "x \<in> set (tbl_delete Pg (groups_users s))"
  then have x: "x \<in> set (groups_users s)" "\<not> Pg x" by simp_all
  obtain g m where "g \<in> set (groups s)" "g_uuid g = gu_groups_uuid x" "m \<in> set (users_organizations s)"
      "m_uuid m = gu_users_organizations_uuid x" "m_org_uuid m = g_organizations_uuid g" using access_wf_gu [OF wf x(1)] .
  then show "\<exists>g \<in> set (tbl_delete Pc (groups s)). g_uuid g = gu_groups_uuid x \<and> (\<exists>m \<in> set (tbl_delete Pd (users_organizations s)).
      m_uuid m = gu_users_organizations_uuid x \<and> m_org_uuid m = g_organizations_uuid g)"
    using gu [OF x(1)] x(2) unfolding set_tbl_delete by blast
next
  fix x assume "x \<in> set (tbl_delete Ph (collections_groups s))"
  then have x: "x \<in> set (collections_groups s)" "\<not> Ph x" by simp_all
  obtain g c where "g \<in> set (groups s)" "g_uuid g = cg_groups_uuid x" "c \<in> set (collections s)"
      "c_uuid c = cg_collections_uuid x" "c_org_uuid c = g_organizations_uuid g" using access_wf_cg [OF wf x(1)] .
  then show "\<exists>g \<in> set (tbl_delete Pc (groups s)). g_uuid g = cg_groups_uuid x
      \<and> (\<exists>c \<in> set (tbl_delete Pb (collections s)). c_uuid c = cg_collections_uuid x \<and> c_org_uuid c = g_organizations_uuid g)"
    using cg [OF x(1)] x(2) unfolding set_tbl_delete by blast
qed (use access_wf_keys [OF wf] access_wf_role [OF wf] in auto)

lemma tbl_delete_none: "tbl_delete (\<lambda>_. False) t = t"
  by (simp add: tbl_delete_def)

lemma Group_delete_wf: "access_wf s \<Longrightarrow> access_wf (Group_delete E g org s)"
  by (rule access_wf_delete [where Pa = "\<lambda>_. False" and Pb = "\<lambda>_. False" and Pd = "\<lambda>_. False" and Pe = "\<lambda>_. False"
      and Pf = "\<lambda>_. False" and Pc = "\<lambda>x. g_uuid x = g_uuid g" and Pg = "\<lambda>x. gu_groups_uuid x = g_uuid g"
      and Ph = "\<lambda>x. cg_groups_uuid x = g_uuid g"], assumption) (auto simp: Group_delete_tables tbl_delete_none)

lemma revises_cu_users: "revises s (fold (\<lambda>cu. update_uuid_revision E (cu_user_uuid cu)) cus s)"
  by (rule revises_fold) (rule revises_revision)

lemma revises_collection_users: "revises s (Collection_update_users_revision E c s)"
  unfolding Collection_update_users_revision_def by (rule revises_fold) (rule revises_revision)

lemmas collection_frames [simp] = revises_frame [OF revises_cu_users] revises_frame [OF revises_collection_users]

lemma Collection_delete_tables:
  "collections (Collection_delete E c s) = tbl_delete (\<lambda>x. c_uuid x = c_uuid c) (collections s)"
  "users_collections (Collection_delete E c s) = tbl_delete (\<lambda>x. cu_collection_uuid x = c_uuid c) (users_collections s)"
  "ciphers_collections (Collection_delete E c s) = tbl_delete (\<lambda>x. cc_collection_uuid x = c_uuid c) (ciphers_collections s)"
  "collections_groups (Collection_delete E c s) = tbl_delete (\<lambda>x. cg_collections_uuid x = c_uuid c) (collections_groups s)"
  "ciphers (Collection_delete E c s) = ciphers s" "groups (Collection_delete E c s) = groups s"
  "users_organizations (Collection_delete E c s) = users_organizations s"
  "groups_users (Collection_delete E c s) = groups_users s"
  by (simp_all add: Collection_delete_def cc_delete_all_by_collection_def cu_delete_all_by_collection_def
      cg_delete_all_by_collection_def Let_def)

lemma Collection_delete_wf: "access_wf s \<Longrightarrow> access_wf (Collection_delete E c s)"
  by (rule access_wf_delete [where Pa = "\<lambda>_. False" and Pc = "\<lambda>_. False" and Pd = "\<lambda>_. False" and Pg = "\<lambda>_. False"
      and Pb = "\<lambda>x. c_uuid x = c_uuid c" and Pe = "\<lambda>x. cc_collection_uuid x = c_uuid c"
      and Pf = "\<lambda>x. cu_collection_uuid x = c_uuid c" and Ph = "\<lambda>x. cg_collections_uuid x = c_uuid c"], assumption)
    (auto simp: Collection_delete_tables tbl_delete_none)

lemma Membership_delete_frame:
  "ciphers (Membership_delete E m s) = ciphers s" "groups (Membership_delete E m s) = groups s"
  "ciphers_collections (Membership_delete E m s) = ciphers_collections s"
  "collections_groups (Membership_delete E m s) = collections_groups s"
  by (simp_all add: Membership_delete_def cu_delete_eq gu_delete_all_by_member_def Let_def
      revises_frame [OF revises_revision] split: option.split)

lemma Membership_delete_wf:
  assumes "access_wf s" "m \<in> set (users_organizations s)"
  shows "access_wf (Membership_delete E m s)"
  by (rule access_wf_delete [OF assms(1), where Pa = "\<lambda>_. False" and Pb = "\<lambda>_. False" and Pc = "\<lambda>_. False"
      and Pe = "\<lambda>_. False" and Ph = "\<lambda>_. False" and Pd = "\<lambda>x. m_uuid x = m_uuid m"
      and Pf = "\<lambda>x. cu_user_uuid x = m_user_uuid m \<and> col_in_org s (m_org_uuid m) (cu_collection_uuid x)"
      and Pg = "\<lambda>x. gu_users_organizations_uuid x = m_uuid m"])
    (use keyed_unique [OF access_wf_keys(4) [OF assms(1)] _ assms(2)] in
      \<open>auto simp: Membership_delete_frame Membership_delete_tables tbl_delete_none col_in_org_def\<close>, metis+)

lemma Cipher_delete_wf:
  assumes "access_wf s" "keyed at_id (attachments s)"
  shows "access_wf (snd (Cipher_delete E ci s))"
proof -
  have a: "access_wf t" if "revises (cipher_gone (ci_uuid ci) s) t" for t
    by (rule access_wf_delete [OF assms(1), where Pb = "\<lambda>_. False" and Pc = "\<lambda>_. False" and Pd = "\<lambda>_. False"
        and Pf = "\<lambda>_. False" and Pg = "\<lambda>_. False" and Ph = "\<lambda>_. False"
        and Pa = "\<lambda>x. ci_uuid x = ci_uuid ci" and Pe = "\<lambda>x. cc_cipher_uuid x = ci_uuid ci"])
      (auto simp: revises_frame [OF that] cipher_gone_def tbl_delete_none)
  have b: "access_wf t" if "revises (cipher_stripped (ci_uuid ci) ats s) t" for ats t
    by (rule access_wf_delete [OF assms(1), where Pa = "\<lambda>_. False" and Pb = "\<lambda>_. False" and Pc = "\<lambda>_. False"
        and Pd = "\<lambda>_. False" and Pf = "\<lambda>_. False" and Pg = "\<lambda>_. False" and Ph = "\<lambda>_. False"
        and Pe = "\<lambda>x. cc_cipher_uuid x = ci_uuid ci"])
      (auto simp: revises_frame [OF that] cipher_stripped_def tbl_delete_none)
  have "wp (Cipher_delete E ci) (\<lambda>_. access_wf) (\<lambda>_. access_wf) s"
    by (rule wp_mono [OF Cipher_delete_wp [OF assms(2)]]) (use a b in blast)+
  then show ?thesis by (simp add: wp_snd)
qed

text \<open>Assignments that stay within one organization keep it too.\<close>

definition cipher_in_col_org :: "CipherId \<Rightarrow> CollectionId \<Rightarrow> server \<Rightarrow> bool" where
  "cipher_in_col_org i col s \<longleftrightarrow> (\<exists>c \<in> set (collections s). c_uuid c = col
     \<and> (\<exists>ci \<in> set (ciphers s). ci_uuid ci = i \<and> ci_organization_uuid ci = Some (c_org_uuid c)))"

definition member_of_col_org :: "UserId \<Rightarrow> CollectionId \<Rightarrow> server \<Rightarrow> bool" where
  "member_of_col_org user col s \<longleftrightarrow> (\<exists>c \<in> set (collections s). c_uuid c = col
     \<and> (\<exists>m \<in> set (users_organizations s). m_user_uuid m = user \<and> m_org_uuid m = c_org_uuid c))"

definition group_in_col_org :: "CollectionGroup \<Rightarrow> server \<Rightarrow> bool" where
  "group_in_col_org cg s \<longleftrightarrow> (\<exists>g \<in> set (groups s). g_uuid g = cg_groups_uuid cg
     \<and> (\<exists>c \<in> set (collections s). c_uuid c = cg_collections_uuid cg \<and> c_org_uuid c = g_organizations_uuid g))"

definition member_in_group_org :: "GroupUser \<Rightarrow> server \<Rightarrow> bool" where
  "member_in_group_org gu s \<longleftrightarrow> (\<exists>g \<in> set (groups s). g_uuid g = gu_groups_uuid gu
     \<and> (\<exists>m \<in> set (users_organizations s). m_uuid m = gu_users_organizations_uuid gu \<and> m_org_uuid m = g_organizations_uuid g))"

lemma revises_cc: "revises s (cc_update_users_revision E col s)"
  by (simp add: cc_update_users_revision_def revises_collection_users split: option.split)

lemma cc_save_wf: "access_wf s \<Longrightarrow> cipher_in_col_org i col s \<Longrightarrow> access_wf (cc_save E i col s)"
  unfolding access_wf_def cc_save_def Let_def cipher_in_col_org_def
  by (simp add: revises_frame [OF revises_cc] set_tbl_upsert)

lemma cu_save_wf: "access_wf s \<Longrightarrow> member_of_col_org user col s \<Longrightarrow> access_wf (cu_save E user col ro hp mn s)"
  unfolding access_wf_def cu_save_def Let_def member_of_col_org_def
  by (simp add: revises_frame [OF revises_revision] set_tbl_upsert keyed_upsert)

lemma cg_save_wf: "access_wf s \<Longrightarrow> group_in_col_org cg s \<Longrightarrow> access_wf (cg_save E cg org s)"
  unfolding access_wf_def cg_save_def Let_def group_in_col_org_def
  by (simp add: set_tbl_upsert)

lemma gu_save_wf: "access_wf s \<Longrightarrow> member_in_group_org gu s \<Longrightarrow> access_wf (gu_save E gu s)"
  unfolding access_wf_def gu_save_def Let_def member_in_group_org_def
  by (simp add: set_tbl_upsert)

section \<open>Folders\<close>

text \<open>Every user has a cipher in at most one of their folders.\<close>

definition folders_wf :: "server \<Rightarrow> bool" where
  "folders_wf s \<longleftrightarrow> keyed f_uuid (folders s) \<and>
     (\<forall>x \<in> set (folders_ciphers s). \<forall>y \<in> set (folders_ciphers s). \<forall>f \<in> set (folders s). \<forall>g \<in> set (folders s).
        f_uuid f = fc_folder_uuid x \<and> f_uuid g = fc_folder_uuid y \<and> f_user_uuid f = f_user_uuid g
        \<and> fc_cipher_uuid x = fc_cipher_uuid y \<longrightarrow> fc_folder_uuid x = fc_folder_uuid y)"

definition in_folder :: "server \<Rightarrow> CipherId \<Rightarrow> UserId \<Rightarrow> FolderId \<Rightarrow> bool" where
  "in_folder s i user fid \<longleftrightarrow> (\<exists>x \<in> set (folders_ciphers s). fc_cipher_uuid x = i \<and> fc_folder_uuid x = fid
     \<and> (\<exists>f \<in> set (folders s). f_uuid f = fid \<and> f_user_uuid f = user))"

lemma folders_wf_unique:
  assumes "folders_wf s" "in_folder s i user a" "in_folder s i user b"
  shows "a = b"
  using assms unfolding folders_wf_def in_folder_def by metis

lemma get_folder_iff:
  assumes "folders_wf s"
  shows "get_folder_uuid ci user s = Some a \<longleftrightarrow> in_folder s (ci_uuid ci) user a"
    "get_folder_uuid ci user s = None \<longleftrightarrow> (\<forall>a. \<not> in_folder s (ci_uuid ci) user a)"
proof -
  let ?t = "[fc_folder_uuid fc. fc \<leftarrow> folders_ciphers s, f \<leftarrow> folders s, f_uuid f = fc_folder_uuid fc,
        f_user_uuid f = user, fc_cipher_uuid fc = ci_uuid ci]"
  have t: "a \<in> set ?t \<longleftrightarrow> in_folder s (ci_uuid ci) user a" for a
    unfolding in_comp in_folder_def by metis
  have found: "in_folder s (ci_uuid ci) user b" if "get_folder_uuid ci user s = Some b" for b
    using tbl_first_Some [of "\<lambda>_. True" ?t b] that t by (simp only: get_folder_uuid_def)
  show none: "get_folder_uuid ci user s = None \<longleftrightarrow> (\<forall>a. \<not> in_folder s (ci_uuid ci) user a)"
    unfolding get_folder_uuid_def tbl_first_None Ball_def t by simp
  show "get_folder_uuid ci user s = Some a \<longleftrightarrow> in_folder s (ci_uuid ci) user a"
    using found folders_wf_unique [OF assms] none by (metis not_None_eq)
qed

text \<open>The folder rows after a move: the old row of the user gone, the new one there, nothing else.\<close>

definition moved :: "server \<Rightarrow> CipherId \<Rightarrow> FolderId option \<Rightarrow> FolderId option \<Rightarrow> FolderCipher set" where
  "moved s i old new = {x \<in> set (folders_ciphers s). \<not> (fc_cipher_uuid x = i \<and> Some (fc_folder_uuid x) = old)}
     \<union> (case new of None \<Rightarrow> {} | Some b \<Rightarrow> {FolderCipher_new b i})"

lemma in_folder_fc: "in_folder s i user a \<Longrightarrow> \<exists>x. fc_find_by_folder_and_cipher a i s = Some x \<and> fc_cipher_uuid x = i \<and> fc_folder_uuid x = a"
proof -
  assume "in_folder s i user a"
  then obtain x where "x \<in> set (folders_ciphers s)" "fc_cipher_uuid x = i" "fc_folder_uuid x = a"
    by (auto simp: in_folder_def)
  then show ?thesis unfolding fc_find_by_folder_and_cipher_def
    by (cases "tbl_first (\<lambda>fc. fc_folder_uuid fc = a \<and> fc_cipher_uuid fc = i) (folders_ciphers s)")
      (auto simp: tbl_first_None dest: tbl_first_Some)
qed

lemma FolderCipher_eq: "fc_cipher_uuid (x :: FolderCipher) = i \<Longrightarrow> fc_folder_uuid x = a \<Longrightarrow> x = FolderCipher_new a i"
  by (cases x) (simp add: FolderCipher_new_def)

lemma move_to_folder_rows:
  assumes "folders_wf s"
  obtains t where "move_to_folder E folder user ci s = (Inr (), t)" "folders t = folders s"
    "set (folders_ciphers t) = moved s (ci_uuid ci) (get_folder_uuid ci user s) folder"
proof -
  let ?s = "update_uuid_revision E user s"
  note fr = revises_frame [OF revises_revision [of s E user]]
  have get: "get_folder_uuid ci user ?s = get_folder_uuid ci user s" by (simp add: get_folder_uuid_def)
  have find: "\<exists>x. fc_find_by_folder_and_cipher a (ci_uuid ci) ?s = Some x \<and> fc_cipher_uuid x = ci_uuid ci \<and> fc_folder_uuid x = a"
    if "get_folder_uuid ci user s = Some a" for a
    using in_folder_fc [of s "ci_uuid ci" user a] that
    unfolding get_folder_iff [OF assms] by (simp add: fc_find_by_folder_and_cipher_def)
  have set: "FolderCipher_new a (ci_uuid ci) \<in> set (folders_ciphers s)" if "get_folder_uuid ci user s = Some a" for a
    using that FolderCipher_eq unfolding get_folder_iff [OF assms] in_folder_def by metis
  have "wp (move_to_folder E folder user ci) (\<lambda>_ t. folders t = folders s
      \<and> set (folders_ciphers t) = moved s (ci_uuid ci) (get_folder_uuid ci user s) folder) (\<lambda>_ _. False) s"
  proof (cases "get_folder_uuid ci user s")
    case None
    then show ?thesis
      by (cases folder) (auto simp: move_to_folder_def wp_simps get moved_def fc_save_def set_tbl_upsert fc_key_def
          FolderCipher_new_def fr)
  next
    case (Some a)
    with find obtain x where x: "fc_find_by_folder_and_cipher a (ci_uuid ci) ?s = Some x"
        "fc_cipher_uuid x = ci_uuid ci" "fc_folder_uuid x = a" by blast
    show ?thesis
    proof (cases folder)
      case None
      with Some x show ?thesis by (auto simp: move_to_folder_def wp_simps get moved_def fc_delete_def fr)
    next
      case (Some b)
      with \<open>get_folder_uuid ci user s = Some a\<close> x set show ?thesis
        by (auto simp: move_to_folder_def wp_simps get moved_def fc_delete_def fc_save_def set_tbl_upsert fc_key_def
            FolderCipher_new_def fr)
    qed
  qed
  then show thesis using that by (auto simp: wp_def split: prod.splits sum.splits)
qed

definition own_folder :: "server \<Rightarrow> UserId \<Rightarrow> FolderId \<Rightarrow> bool" where
  "own_folder s user fid \<longleftrightarrow> (\<exists>f \<in> set (folders s). f_uuid f = fid \<and> f_user_uuid f = user)"

lemma own_folder_unique: "folders_wf s \<Longrightarrow> own_folder s u a \<Longrightarrow> own_folder s v a \<Longrightarrow> u = v"
  unfolding folders_wf_def own_folder_def using keyed_unique by metis

lemma in_folder_own: "in_folder s i user a \<longleftrightarrow> FolderCipher_new a i \<in> set (folders_ciphers s) \<and> own_folder s user a"
proof -
  have "(\<exists>x \<in> set (folders_ciphers s). fc_cipher_uuid x = i \<and> fc_folder_uuid x = a) \<longleftrightarrow>
      FolderCipher_new a i \<in> set (folders_ciphers s)"
    using FolderCipher_eq [of _ i a] by (metis FolderCipher.select_convs FolderCipher_new_def)
  then show ?thesis unfolding in_folder_def own_folder_def by blast
qed

lemma folders_wf_iff:
  "folders_wf s \<longleftrightarrow> keyed f_uuid (folders s)
     \<and> (\<forall>i user a b. in_folder s i user a \<longrightarrow> in_folder s i user b \<longrightarrow> a = b)"
proof
  assume wf: "folders_wf s"
  then show "keyed f_uuid (folders s) \<and> (\<forall>i user a b. in_folder s i user a \<longrightarrow> in_folder s i user b \<longrightarrow> a = b)"
    using folders_wf_unique [OF wf] by (auto simp: folders_wf_def)
next
  assume "keyed f_uuid (folders s) \<and> (\<forall>i user a b. in_folder s i user a \<longrightarrow> in_folder s i user b \<longrightarrow> a = b)"
  then show "folders_wf s" unfolding folders_wf_def in_folder_def by metis
qed

lemma move_to_folder_ok:
  assumes wf: "folders_wf s" and valid: "\<And>b. folder = Some b \<Longrightarrow> own_folder s user b"
  obtains t where "move_to_folder E folder user ci s = (Inr (), t)" "folders_wf t"
    "get_folder_uuid ci user t = folder"
    "\<And>ci' user'. (ci_uuid ci', user') \<noteq> (ci_uuid ci, user) \<Longrightarrow> get_folder_uuid ci' user' t = get_folder_uuid ci' user' s"
proof -
  let ?i = "ci_uuid ci"
  obtain t where t: "move_to_folder E folder user ci s = (Inr (), t)" "folders t = folders s"
      "set (folders_ciphers t) = moved s ?i (get_folder_uuid ci user s) folder"
    using move_to_folder_rows [OF wf] .
  have own: "own_folder t v a = own_folder s v a" for v a by (simp add: own_folder_def t(2))
  have fc: "FolderCipher_new a j \<in> set (folders_ciphers t) \<longleftrightarrow>
      FolderCipher_new a j \<in> set (folders_ciphers s) \<and> \<not> (j = ?i \<and> in_folder s ?i user a) \<or> (j = ?i \<and> folder = Some a)" for a j
    unfolding t(3) moved_def get_folder_iff(1) [OF wf, symmetric]
    by (cases folder) (auto simp: FolderCipher_new_def)
  have here: "in_folder t ?i user a \<longleftrightarrow> folder = Some a" for a
    unfolding in_folder_own own fc using valid by auto
  have other: "in_folder t j v a \<longleftrightarrow> in_folder s j v a" if "(j, v) \<noteq> (?i, user)" for j v a
    using that valid own_folder_unique [OF wf] unfolding in_folder_own own fc by auto
  have "in_folder t j v a \<Longrightarrow> in_folder t j v b \<Longrightarrow> a = b" for j v a b
    using here other folders_wf_unique [OF wf] by (cases "(j, v) = (?i, user)") auto
  then have wf': "folders_wf t" unfolding folders_wf_iff t(2) using wf by (auto simp: folders_wf_def)
  have "get_folder_uuid ci user t = folder"
    by (rule option_eqI) (simp add: get_folder_iff(1) [OF wf'] here)
  moreover have "get_folder_uuid ci' user' t = get_folder_uuid ci' user' s" if "(ci_uuid ci', user') \<noteq> (?i, user)" for ci' user'
    by (rule option_eqI) (simp add: get_folder_iff(1) [OF wf'] get_folder_iff(1) [OF wf] other [OF that])
  ultimately show thesis using that t(1) wf' by blast
qed

section \<open>A group with access to everything\<close>

lemma full_group_join:
  assumes "m \<in> set (users_organizations s)" "group_of s m g" "g_access_all g" "c_org_uuid c = m_org_uuid m"
  shows "\<exists>m' \<in> set (users_organizations s). (c_org_uuid c = m_org_uuid m' \<and> m_user_uuid m' = m_user_uuid m)
    \<and> (\<exists>gu \<in> set (groups_users s). gu_users_organizations_uuid gu = m_uuid m'
      \<and> (\<exists>g \<in> set (groups s). (g_uuid g = gu_groups_uuid gu \<and> g_organizations_uuid g = m_org_uuid m') \<and> g_access_all g))"
  unfolding full_group_rows using assms by auto

lemma full_group_grants:
  assumes "c \<in> set (collections s)" "m \<in> set (users_organizations s)" "c_org_uuid c = m_org_uuid m"
    and "group_of s m g" "g_access_all g"
  shows "collection_grants (c_uuid c) (m_user_uuid m) Pu Pg s \<noteq> []"
proof -
  have "c \<in> set (collection_grants (c_uuid c) (m_user_uuid m) Pu Pg s)"
    unfolding collection_grants_def using assms(1) full_group_join [OF assms(2,4,5,3)]
    by (simp only: in_comp joins) (simp only: join_rows)
  then show ?thesis by auto
qed

lemma full_group_writable:
  assumes "org_groups_enabled (conf E)" "c \<in> set (collections s)" "m \<in> set (users_organizations s)"
    "c_org_uuid c = m_org_uuid m" "group_of s m g" "g_access_all g"
  shows "is_writable_by_user E c (m_user_uuid m) s"
proof -
  have ne: "length xs \<noteq> 0" if "c \<in> set xs" for xs using that by auto
  show ?thesis
    unfolding is_writable_by_user_def if_P [OF assms(1)]
    by (rule ne, use assms(2) full_group_join [OF assms(3,5,6,4)] in \<open>simp only: in_comp joins\<close>)
      (simp only: join_rows, blast)
qed

end
