(* ===== verification/ProtectedActions.thy ===== *)
theory ProtectedActions
  imports OrgPolicies Sessions
begin

text \<open>
  The one-time code that confirms a protected action instead of the master password:
  \<open>api/core/two_factor/protected_actions.rs\<close> and \<open>PasswordOrOtpData\<close> of \<open>api/mod.rs\<close>. The code, the
  time it was sent and the number of attempts are the data of a second-factor row of the type
  \<open>ProtectedActions\<close>; the time is stored in whole seconds.
\<close>

section \<open>The stored code\<close>

record ProtectedActionData =
  pa_token :: string
  pa_token_sent :: time
  pa_attempts :: nat

definition ProtectedActionData_new :: "env \<Rightarrow> string \<Rightarrow> server \<Rightarrow> ProtectedActionData \<times> server" where
  "ProtectedActionData_new E token s =
     (let (now, s) = utc_now E s in (\<lparr>pa_token = token, pa_token_sent = now, pa_attempts = 0\<rparr>, s))"

definition ProtectedActionData_json :: "ProtectedActionData \<Rightarrow> json" where
  "ProtectedActionData_json d = JObj [(''token'', JStr (pa_token d)),
     (''token_sent'', JInt (timestamp (pa_token_sent d))), (''attempts'', JInt (int (pa_attempts d)))]"

definition ProtectedActionData_to_json :: "env \<Rightarrow> ProtectedActionData \<Rightarrow> string" where
  "ProtectedActionData_to_json E d = json_print E (ProtectedActionData_json d)"

definition ProtectedActionData_read :: "json \<Rightarrow> ProtectedActionData option" where
  "ProtectedActionData_read j =
     (let fields = (case j of
          JObj kvs \<Rightarrow> (case (struct_field [''token''] j, struct_field [''token_sent''] j, struct_field [''attempts''] j) of
              (Some a, Some b, Some c) \<Rightarrow> Some (a, b, c) | _ \<Rightarrow> None)
        | JArr [a, b, c] \<Rightarrow> Some (a, b, c)
        | _ \<Rightarrow> None)
      in case fields of
           Some (JStr token, JInt sent, JInt n) \<Rightarrow>
             (case naive_add 0 (sent * NANOS) of
                Some t \<Rightarrow> if 0 \<le> n \<and> n < 2 ^ 64
                  then Some \<lparr>pa_token = token, pa_token_sent = t, pa_attempts = nat n\<rparr> else None
              | None \<Rightarrow> None)
         | _ \<Rightarrow> None)"

definition ProtectedActionData_from_json :: "env \<Rightarrow> string \<Rightarrow> api_err + ProtectedActionData" where
  "ProtectedActionData_from_json E text =
     (case json_parse E text of
        None \<Rightarrow> Inl (Api ''Could not decode ProtectedActionData from string'')
      | Some j \<Rightarrow> (case ProtectedActionData_read j of
          None \<Rightarrow> Inl (Api ''Could not decode ProtectedActionData from string'') | Some d \<Rightarrow> Inr d))"

definition ProtectedActionData_add_attempt :: "ProtectedActionData \<Rightarrow> ProtectedActionData" where
  "ProtectedActionData_add_attempt d = d\<lparr>pa_attempts := min (pa_attempts d + 1) (2 ^ 64 - 1)\<rparr>"

text \<open>\<open>(Utc::now() - token_sent).num_seconds()\<close> rounds towards zero.\<close>

definition time_since_sent :: "env \<Rightarrow> ProtectedActionData \<Rightarrow> server \<Rightarrow> int \<times> server" where
  "time_since_sent E d s = (let (now, s) = utc_now E s in ((now - pa_token_sent d) sdiv NANOS, s))"

section \<open>Handlers\<close>

definition PROTECTED_MAIL_MSG :: string where
  "PROTECTED_MAIL_MSG = ''Email is disabled for this server. Either enable email or login using your master password instead of login via device.''"

definition drop_previous_code :: "env \<Rightarrow> UserId \<Rightarrow> (server, unit) act" where
  "drop_previous_code E user =
     act_bind (act_get (TwoFactor_find_by_user_and_type user (TwoFactorType_i32 ProtectedActions))) (\<lambda>pa.
     case pa of
       None \<Rightarrow> act_ret ()
     | Some pa \<Rightarrow>
         act_bind (act_sum (ProtectedActionData_from_json E (tf_data pa))) (\<lambda>pa_data.
         act_bind (act_run (time_since_sent E pa_data)) (\<lambda>elapsed.
         act_seq (err_if (elapsed < 30) (''Please wait '' @ int_to_string (30 - elapsed)
            @ '' seconds before requesting another code.''))
         (act_upd (TwoFactor_delete pa)))))"

definition request_otp :: "env \<Rightarrow> Headers \<Rightarrow> (server, unit) act" where
  "request_otp E headers =
     act_seq (err_if (\<not> mail_enabled (conf E)) PROTECTED_MAIL_MSG)
     (act_seq (drop_previous_code E (u_uuid (h_user headers)))
     (act_bind (act_run (\<lambda>s. (random_numeric E (tick s) (email_token_size (conf E)), bump s))) (\<lambda>token.
      act_bind (act_run (ProtectedActionData_new E token)) (\<lambda>pa_data.
      act_bind (act_run (TwoFactor_new E (u_uuid (h_user headers)) ProtectedActions
        (ProtectedActionData_to_json E pa_data))) (\<lambda>twofactor.
      act_seq (act_upd (TwoFactor_save twofactor))
      (send_mail E (ProtectedActionToken (u_email (h_user headers)) (pa_token pa_data))))))))"

definition validate_protected_action_otp :: "env \<Rightarrow> string \<Rightarrow> UserId \<Rightarrow> bool \<Rightarrow> (server, unit) act" where
  "validate_protected_action_otp E otp user delete_if_valid =
     act_bind (act_get (TwoFactor_find_by_user_and_type user (TwoFactorType_i32 ProtectedActions))) (\<lambda>pa.
     act_bind (some_or ''Protected action token not found, try sending the code again or restart the process'' pa) (\<lambda>pa.
     act_bind (act_sum (ProtectedActionData_from_json E (tf_data pa))) (\<lambda>pa_data.
     let pa_data = ProtectedActionData_add_attempt pa_data;
         pa = pa\<lparr>tf_data := ProtectedActionData_to_json E pa_data\<rparr> in
     act_seq (err_if (email_attempts_limit (conf E) \<le> pa_attempts pa_data) ''Token has expired'')
     (act_bind (act_run (time_since_sent E pa_data)) (\<lambda>elapsed.
      if sint (email_expiration_time (conf E)) < elapsed
      then act_seq (act_upd (TwoFactor_delete pa)) (act_err (Api ''Token has expired''))
      else if \<not> ct_equal E (pa_token pa_data) otp
      then act_seq (act_upd (TwoFactor_save pa)) (act_err (Api ''Token is invalid''))
      else act_when delete_if_valid (act_upd (TwoFactor_delete pa)))))))"

definition verify_otp :: "env \<Rightarrow> string \<Rightarrow> Headers \<Rightarrow> (server, unit) act" where
  "verify_otp E otp headers =
     act_seq (err_if (\<not> mail_enabled (conf E)) PROTECTED_MAIL_MSG)
     (validate_protected_action_otp E otp (u_uuid (h_user headers)) True)"

record PasswordOrOtpData =
  po_master_password_hash :: "string option"
  po_otp :: "string option"

definition PasswordOrOtpData_validate :: "env \<Rightarrow> PasswordOrOtpData \<Rightarrow> User \<Rightarrow> bool \<Rightarrow> (server, unit) act" where
  "PasswordOrOtpData_validate E data user delete_if_valid =
     (case (po_master_password_hash data, po_otp data) of
        (Some pw_hash, None) \<Rightarrow>
          act_bind (act_sum (check_valid_password E pw_hash user)) (\<lambda>ok. err_if (\<not> ok) ''Invalid password'')
      | (None, Some otp) \<Rightarrow> validate_protected_action_otp E otp (u_uuid user) delete_if_valid
      | _ \<Rightarrow> act_err (Api ''No validation provided''))"

end
