(* ===== verification/Organizations.thy ===== *)
theory Organizations
  imports VaultLaws Events Sends ProtectedActions Emergency
begin

text \<open>
  The organization rows and their API keys, \<open>server/src/db/models/organization.rs\<close>, and the deletion
  of an account, \<open>User::delete\<close> of \<open>user.rs\<close>, which goes through every model.
\<close>

section \<open>Organizations\<close>

definition Organization_new ::
  "env \<Rightarrow> string \<Rightarrow> string \<Rightarrow> string option \<Rightarrow> string option \<Rightarrow> server \<Rightarrow> Organization \<times> server" where
  "Organization_new E name billing_email private_key public_key s =
     (let (uuid, s) = get_uuid E s
      in (\<lparr>o_uuid = uuid, o_name = name, o_billing_email = lowercase_of E billing_email,
           o_private_key = private_key, o_public_key = public_key\<rparr>, s))"

definition Organization_to_json :: "env \<Rightarrow> Organization \<Rightarrow> json" where
  "Organization_to_json E org = JObj
     [(''id'', JStr (o_uuid org)), (''name'', JStr (o_name org)), (''seats'', JNull), (''maxCollections'', JNull),
      (''maxStorageGb'', JInt 32767), (''use2fa'', JBool True), (''useCustomPermissions'', JBool True),
      (''useDirectory'', JBool False), (''useEvents'', JBool (org_events_enabled (conf E))),
      (''useGroups'', JBool (org_groups_enabled (conf E))), (''useTotp'', JBool True), (''usePolicies'', JBool True),
      (''useScim'', JBool False), (''useSso'', JBool False), (''useKeyConnector'', JBool False),
      (''usePasswordManager'', JBool True), (''useSecretsManager'', JBool False), (''selfHost'', JBool True),
      (''useApi'', JBool True),
      (''hasPublicAndPrivateKeys'', JBool (o_private_key org \<noteq> None \<and> o_public_key org \<noteq> None)),
      (''useResetPassword'', JBool (mail_enabled (conf E))),
      (''allowAdminAccessToAllCollectionItems'', JBool True), (''limitCollectionCreation'', JBool True),
      (''limitCollectionDeletion'', JBool True), (''businessName'', JStr (o_name org)),
      (''businessAddress1'', JNull), (''businessAddress2'', JNull), (''businessAddress3'', JNull),
      (''businessCountry'', JNull), (''businessTaxNumber'', JNull), (''maxAutoscaleSeats'', JNull),
      (''maxAutoscaleSmSeats'', JNull), (''maxAutoscaleSmServiceAccounts'', JNull), (''secretsManagerPlan'', JNull),
      (''smSeats'', JNull), (''smServiceAccounts'', JNull), (''billingEmail'', JStr (o_billing_email org)),
      (''planType'', JInt 6), (''usersGetPremium'', JBool True), (''object'', JStr ''organization'')]"

definition touch_members :: "env \<Rightarrow> OrganizationId \<Rightarrow> server \<Rightarrow> server" where
  "touch_members E org s = fold (\<lambda>m. update_uuid_revision E (m_user_uuid m)) (Membership_find_by_org org s) s"

definition Organization_save :: "env \<Rightarrow> Organization \<Rightarrow> (server, unit) act" where
  "Organization_save E org =
     act_seq (err_if (\<not> is_valid_email E (o_billing_email org))
       (''BillingEmail '' @ o_billing_email org @ '' is not a valid email address''))
     (act_seq (act_upd (touch_members E (o_uuid org)))
     (act_upd (\<lambda>s. s\<lparr>organizations := tbl_upsert o_uuid org (organizations s)\<rparr>)))"

section \<open>API keys\<close>

definition OrganizationApiKey_new :: "env \<Rightarrow> OrganizationId \<Rightarrow> string \<Rightarrow> server \<Rightarrow> OrganizationApiKey \<times> server" where
  "OrganizationApiKey_new E org api_key s =
     (let (uuid, s) = get_uuid E s; (now, s) = utc_now E s
      in (\<lparr>ok_uuid = uuid, ok_org_uuid = org, ok_atype = 0, ok_api_key = api_key, ok_revision_date = now\<rparr>, s))"

definition OrganizationApiKey_check_valid_api_key :: "env \<Rightarrow> string \<Rightarrow> OrganizationApiKey \<Rightarrow> bool" where
  "OrganizationApiKey_check_valid_api_key E api_key k \<longleftrightarrow> ct_equal E (ok_api_key k) api_key"

definition ok_key :: "OrganizationApiKey \<Rightarrow> OrgApiKeyId \<times> OrganizationId" where
  "ok_key k = (ok_uuid k, ok_org_uuid k)"

definition OrganizationApiKey_save :: "OrganizationApiKey \<Rightarrow> server \<Rightarrow> server" where
  "OrganizationApiKey_save k s = s\<lparr>organization_api_keys := tbl_upsert ok_key k (organization_api_keys s)\<rparr>"

definition OrganizationApiKey_find_by_org_uuid :: "OrganizationId \<Rightarrow> server \<Rightarrow> OrganizationApiKey option" where
  "OrganizationApiKey_find_by_org_uuid org s = tbl_first (\<lambda>k. ok_org_uuid k = org) (organization_api_keys s)"

definition OrganizationApiKey_delete_all_by_organization :: "OrganizationId \<Rightarrow> server \<Rightarrow> server" where
  "OrganizationApiKey_delete_all_by_organization org s =
     s\<lparr>organization_api_keys := tbl_delete (\<lambda>k. ok_org_uuid k = org) (organization_api_keys s)\<rparr>"

section \<open>Deleting an organization, lookups\<close>

text \<open>The foreign keys of the tables make the last statement fail while a row refers to the
  organization.\<close>

definition org_referenced :: "OrganizationId \<Rightarrow> server \<Rightarrow> bool" where
  "org_referenced org s \<longleftrightarrow>
     list_ex (\<lambda>c. c_org_uuid c = org) (collections s) \<or> list_ex (\<lambda>m. m_org_uuid m = org) (users_organizations s)
     \<or> list_ex (\<lambda>c. ci_organization_uuid c = Some org) (ciphers s) \<or> list_ex (\<lambda>p. op_org_uuid p = org) (org_policies s)
     \<or> list_ex (\<lambda>x. sd_organization_uuid x = Some org) (sends s)
     \<or> list_ex (\<lambda>g. g_organizations_uuid g = org) (groups s)
     \<or> list_ex (\<lambda>k. ok_org_uuid k = org) (organization_api_keys s)
     \<or> list_ex (\<lambda>q. aq_organization_uuid q = Some org) (auth_requests s)"

definition org_row_delete :: "OrganizationId \<Rightarrow> (server, unit) act" where
  "org_row_delete org =
     act_bind (act_get (org_referenced org)) (\<lambda>r.
     act_seq (err_if r ''Error saving organization'')
     (act_upd (\<lambda>s. s\<lparr>organizations := tbl_delete (\<lambda>x. o_uuid x = org) (organizations s)\<rparr>)))"

definition Organization_delete :: "env \<Rightarrow> Organization \<Rightarrow> (server, unit) act" where
  "Organization_delete E org =
     act_seq (Cipher_delete_all_by_organization E (o_uuid org))
     (act_seq (act_upd (Collection_delete_all_by_organization E (o_uuid org)))
     (act_seq (act_upd (Membership_delete_all_by_organization E (o_uuid org)))
     (act_seq (act_upd (OrgPolicy_delete_all_by_organization (o_uuid org)))
     (act_seq (act_upd (Group_delete_all_by_organization E (o_uuid org)))
     (act_seq (act_upd (OrganizationApiKey_delete_all_by_organization (o_uuid org)))
     (org_row_delete (o_uuid org)))))))"

definition Organization_find_by_name :: "string \<Rightarrow> server \<Rightarrow> Organization option" where
  "Organization_find_by_name name s = tbl_first (\<lambda>x. o_name x = name) (organizations s)"

definition Organization_get_all :: "server \<Rightarrow> Organization list" where
  "Organization_get_all s = organizations s"

definition find_org_user_email :: "env \<Rightarrow> string \<Rightarrow> server \<Rightarrow> Organization list" where
  "find_org_user_email E user_email s =
     map snd (tbl_order_asc fst [(m_atype m, org). org \<leftarrow> organizations s, m \<leftarrow> users_organizations s,
       m_org_uuid m = o_uuid org, u \<leftarrow> users s, u_uuid u = m_user_uuid m, u_email u = lowercase_of E user_email,
       m_status m \<noteq> MembershipStatus_i32 Revoked])"

definition find_main_org_user_email :: "env \<Rightarrow> string \<Rightarrow> server \<Rightarrow> Organization option" where
  "find_main_org_user_email E user_email s = tbl_first (\<lambda>_. True) (find_org_user_email E user_email s)"

section \<open>Deleting an account\<close>

text \<open>
  \<open>user.rs\<close>: refused for the last confirmed owner of an organization. The foreign keys of the
  tables make the last statement fail while a row refers to the user; the archive marks go with the
  user (\<open>ON DELETE CASCADE\<close>).
\<close>

definition user_referenced :: "UserId \<Rightarrow> server \<Rightarrow> bool" where
  "user_referenced user s \<longleftrightarrow>
     list_ex (\<lambda>d. d_user_uuid d = user) (devices s) \<or> list_ex (\<lambda>f. f_user_uuid f = user) (folders s)
     \<or> list_ex (\<lambda>c. ci_user_uuid c = Some user) (ciphers s) \<or> list_ex (\<lambda>t. tf_user_uuid t = user) (twofactors s)
     \<or> list_ex (\<lambda>x. cu_user_uuid x = user) (users_collections s)
     \<or> list_ex (\<lambda>m. m_user_uuid m = user) (users_organizations s) \<or> list_ex (\<lambda>f. fav_user_uuid f = user) (favorites s)
     \<or> list_ex (\<lambda>x. sd_user_uuid x = Some user) (sends s)
     \<or> list_ex (\<lambda>x. ea_grantor_uuid x = user \<or> ea_grantee_uuid x = Some user) (emergency_accesses s)
     \<or> list_ex (\<lambda>t. ti_user_uuid t = user) (twofactor_incompletes s)
     \<or> list_ex (\<lambda>q. aq_user_uuid q = user) (auth_requests s)"

definition user_row_delete :: "UserId \<Rightarrow> (server, unit) act" where
  "user_row_delete user =
     act_bind (act_get (user_referenced user)) (\<lambda>r.
     act_seq (err_if r ''Error deleting user'')
     (act_upd (\<lambda>s. s\<lparr>users := tbl_delete (\<lambda>x. u_uuid x = user) (users s),
        archives := tbl_delete (\<lambda>a. ar_user_uuid a = user) (archives s)\<rparr>)))"

definition last_owner_guard :: "UserId \<Rightarrow> (server, unit) act" where
  "last_owner_guard user =
     act_bind (act_get (Membership_find_confirmed_by_user user)) (\<lambda>ms.
     act_for ms (\<lambda>member.
       act_bind (act_get (count_confirmed_by_org_and_type (m_org_uuid member) Owner)) (\<lambda>n.
       err_if (has_type Owner member \<and> n \<le> 1) ''Can't delete last owner'')))"

definition User_delete :: "env \<Rightarrow> User \<Rightarrow> (server, unit) act" where
  "User_delete E u =
     act_seq (last_owner_guard (u_uuid u))
     (act_seq (act_upd (Send_delete_all_by_user E (u_uuid u)))
     (act_seq (act_upd (EmergencyAccess_delete_all_by_user E (u_uuid u)))
     (act_seq (act_upd (EmergencyAccess_delete_all_by_grantee_email E (u_email u)))
     (act_seq (act_upd (Membership_delete_all_by_user E (u_uuid u)))
     (act_seq (Cipher_delete_all_by_user E (u_uuid u))
     (act_seq (act_upd (fav_delete_all_by_user (u_uuid u)))
     (act_seq (act_upd (Folder_delete_all_by_user E (u_uuid u)))
     (act_seq (act_upd (Device_delete_all_by_user (u_uuid u)))
     (act_seq (act_upd (TwoFactor_delete_all_by_user (u_uuid u)))
     (act_seq (act_upd (ti_delete_all_by_user (u_uuid u)))
     (act_seq (act_upd (\<lambda>s. snd (Invitation_take E (u_email u) s)))
     (user_row_delete (u_uuid u)))))))))))))"

end
