(* ===== verification/OrgApi.thy ===== *)
theory OrgApi
  imports Organizations EmergencyApi
begin

text \<open>
  The handlers of \<open>server/src/api/core/organizations.rs\<close> on an organization and its members:
  creation, deletion and leaving, invitations from the mail to the confirmation, roles, removal,
  policies, revocation and restoration, with \<open>accept_org_invite\<close> of \<open>api/core/mod.rs\<close>, the policy
  enforcement of \<open>api/core/two_factor/mod.rs\<close> and the invitation token of \<open>auth.rs\<close>. Push and
  websocket notifications are left out.
\<close>

section \<open>The organization\<close>

record OrgKeyData =
  okd_encrypted_private_key :: string
  okd_public_key :: string

record OrgData =
  od_billing_email :: string
  od_collection_name :: string
  od_key :: string
  od_name :: string
  od_keys :: "OrgKeyData option"

definition is_org_creation_allowed :: "env \<Rightarrow> string \<Rightarrow> bool" where
  "is_org_creation_allowed E email =
     (let allowed = org_creation_users (conf E)
      in if allowed = [] \<or> allowed = ''all'' then True
         else if allowed = ''none'' then False
         else list_ex (\<lambda>u. trim_of E u = lowercase_of E email) (split_on CHR '','' allowed))"

definition create_organization :: "env \<Rightarrow> OrgData \<Rightarrow> Headers \<Rightarrow> (server, json) act" where
  "create_organization E data headers =
     act_seq (err_if (\<not> is_org_creation_allowed E (u_email (h_user headers))) ''User not allowed to create organizations'')
     (act_bind (act_get (is_applicable_to_user (u_uuid (h_user headers)) SingleOrg None)) (\<lambda>single.
      act_seq (err_if single ''You may not create an organization. You belong to an organization which has a policy that prohibits you from being a member of any other organization.'')
     (act_bind (act_run (Organization_new E (od_name data) (od_billing_email data)
        (map_option okd_encrypted_private_key (od_keys data)) (map_option okd_public_key (od_keys data)))) (\<lambda>org.
      act_bind (act_run (Membership_new E (u_uuid (h_user headers)) (o_uuid org) None)) (\<lambda>member.
      act_bind (act_run (Collection_new E (o_uuid org) (od_collection_name data) None)) (\<lambda>collection.
      let member = member\<lparr>m_akey := od_key data, m_access_all := True, m_atype := MembershipType_i32 Owner,
            m_status := MembershipStatus_i32 Confirmed\<rparr> in
      act_seq (Organization_save E org)
      (act_seq (act_upd (Membership_save E member))
      (act_seq (act_upd (Collection_save E collection))
      (act_ret (Organization_to_json E org))))))))))"

definition ORG_MISMATCH :: string where "ORG_MISMATCH = ''Organization not found''"

definition delete_organization :: "env \<Rightarrow> OrganizationId \<Rightarrow> PasswordOrOtpData \<Rightarrow> OwnerHeaders \<Rightarrow> (server, unit) act" where
  "delete_organization E org_id data headers =
     act_seq (err_if (org_id \<noteq> wh_org_id headers) ORG_MISMATCH)
     (act_seq (PasswordOrOtpData_validate E data (wh_user headers) True)
     (act_bind (act_get (Organization_find_by_uuid org_id)) (\<lambda>org.
      act_bind (some_or ''Organization not found'' org) (Organization_delete E))))"

definition leave_organization :: "env \<Rightarrow> OrganizationId \<Rightarrow> OrgMemberHeaders \<Rightarrow> (server, unit) act" where
  "leave_organization E org_id headers =
     (let membership = om_membership headers in
     act_seq (err_if (m_status membership \<noteq> MembershipStatus_i32 Confirmed)
       ''You need to be a Member of the Organization to call this endpoint'')
     (act_bind (act_get (count_confirmed_by_org_and_type org_id Owner)) (\<lambda>n.
      act_seq (err_if (has_type Owner membership \<and> n \<le> 1) ''The last owner can't leave'')
     (act_seq (act_upd (log_event E OrganizationUserLeft (m_uuid membership) org_id (u_uuid (om_user headers))
        (d_atype (om_device headers)) (om_ip headers)))
     (act_upd (Membership_delete E membership))))))"

definition get_organization :: "env \<Rightarrow> OrganizationId \<Rightarrow> OwnerHeaders \<Rightarrow> (server, json) act" where
  "get_organization E org_id headers =
     act_seq (err_if (org_id \<noteq> wh_org_id headers) ORG_MISMATCH)
     (act_bind (act_get (Organization_find_by_uuid org_id)) (\<lambda>org.
      act_bind (some_or ''Can't find organization details'' org) (\<lambda>org. act_ret (Organization_to_json E org))))"

record OrganizationUpdateData =
  oud_billing_email :: string
  oud_name :: string

definition post_organization ::
  "env \<Rightarrow> OrganizationId \<Rightarrow> OwnerHeaders \<Rightarrow> OrganizationUpdateData \<Rightarrow> (server, json) act" where
  "post_organization E org_id headers data =
     act_seq (err_if (org_id \<noteq> wh_org_id headers) ORG_MISMATCH)
     (act_bind (act_get (Organization_find_by_uuid org_id)) (\<lambda>org.
      act_bind (some_or ''Organization not found'' org) (\<lambda>org.
      let org = org\<lparr>o_name := oud_name data, o_billing_email := lowercase_of E (oud_billing_email data)\<rparr> in
      act_seq (Organization_save E org)
      (act_seq (act_upd (log_event E OrganizationUpdated org_id org_id (u_uuid (wh_user headers))
         (d_atype (wh_device headers)) (wh_ip headers)))
      (act_ret (Organization_to_json E org))))))"

definition post_org_keys :: "env \<Rightarrow> OrganizationId \<Rightarrow> OrgKeyData \<Rightarrow> AdminHeaders \<Rightarrow> (server, json) act" where
  "post_org_keys E org_id data headers =
     act_seq (err_if (org_id \<noteq> ah_org_id headers) ORG_MISMATCH)
     (act_bind (act_get (Organization_find_by_uuid org_id)) (\<lambda>org.
      act_bind (some_or ''Can't find organization details'' org) (\<lambda>org.
      act_seq (err_if (o_private_key org \<noteq> None \<and> o_public_key org \<noteq> None) ''Organization Keys already exist'')
      (let org = org\<lparr>o_private_key := Some (okd_encrypted_private_key data), o_public_key := Some (okd_public_key data)\<rparr> in
       act_seq (Organization_save E org)
       (act_ret (JObj [(''object'', JStr ''organizationKeys''), (''publicKey'', json_opt (o_public_key org)),
          (''privateKey'', json_opt (o_private_key org))]))))))"

section \<open>Invitation mail\<close>

definition generate_invite_claims ::
  "env \<Rightarrow> UserId \<Rightarrow> string \<Rightarrow> OrganizationId \<Rightarrow> MembershipId \<Rightarrow> string option \<Rightarrow> (server, InviteJwtClaims) act" where
  "generate_invite_claims E user email org_id member_id invited_by_email =
     act_bind (act_run (utc_now E)) (\<lambda>now.
     act_bind (expect ''called `Option::unwrap()` on a `None` value''
       (try_hours (int (invitation_expiration_hours (conf E))))) (\<lambda>delta.
     act_bind (expect ''`DateTime + TimeDelta` overflowed'' (naive_add now delta)) (\<lambda>exp.
     act_ret \<lparr>ic_nbf = timestamp now, ic_exp = timestamp exp, ic_iss = domain_origin (conf E) @ ''|invite'',
       ic_sub = user, ic_email = email, ic_org_id = org_id, ic_member_id = member_id,
       ic_invited_by_email = invited_by_email\<rparr>)))"

definition mail_send_invite ::
  "env \<Rightarrow> User \<Rightarrow> OrganizationId \<Rightarrow> MembershipId \<Rightarrow> string \<Rightarrow> string option \<Rightarrow> (server, unit) act" where
  "mail_send_invite E user org_id member_id org_name invited_by_email =
     act_bind (generate_invite_claims E (u_uuid user) (u_email user) org_id member_id invited_by_email) (\<lambda>claims.
     send_mail E (OrgInvite (u_email user) claims org_name))"

definition decode_invite :: "env \<Rightarrow> string \<Rightarrow> (server, InviteJwtClaims) act" where
  "decode_invite E token s =
     (case jwt_invite E (tick s) token of Inl e \<Rightarrow> (Inl (Api e), bump s) | Inr c \<Rightarrow> (Inr c, bump s))"

section \<open>Inviting\<close>

record CollectionData =
  cd_id :: CollectionId
  cd_read_only :: bool
  cd_hide_passwords :: bool
  cd_manage :: bool

record InviteData =
  iv_emails :: "string list"
  iv_groups :: "GroupId list"
  iv_type :: NumberOrString
  iv_collections :: "CollectionData list option"
  iv_permissions :: "string \<Rightarrow> json option"

definition flatten_opt :: "'a list option \<Rightarrow> 'a list" where
  "flatten_opt x = (case x of None \<Rightarrow> [] | Some xs \<Rightarrow> xs)"

definition InviteData_validate :: "InviteData \<Rightarrow> OrganizationId \<Rightarrow> (server, unit) act" where
  "InviteData_validate data org_id =
     act_bind (act_get (Collection_find_by_organization org_id)) (\<lambda>org_collections.
     act_seq (err_if (list_ex (\<lambda>c. cd_id c \<notin> c_uuid ` set org_collections) (flatten_opt (iv_collections data)))
       ''Invalid collection'')
     (act_bind (act_get (Group_find_by_organization org_id)) (\<lambda>org_groups.
      err_if (list_ex (\<lambda>g. g \<notin> g_uuid ` set org_groups) (iv_groups data)) ''Invalid group'')))"

text \<open>The custom role with all the boxes of \<open>Manage all collections\<close> checked.\<close>

definition custom_access_all :: "string \<Rightarrow> (string \<Rightarrow> json option) \<Rightarrow> bool" where
  "custom_access_all raw_type permissions \<longleftrightarrow>
     raw_type = ''4'' \<and> permissions ''editAnyCollection'' = Some (JBool True)
     \<and> permissions ''deleteAnyCollection'' = Some (JBool True)
     \<and> permissions ''createNewCollections'' = Some (JBool True)"

definition save_collections :: "env \<Rightarrow> OrganizationId \<Rightarrow> UserId \<Rightarrow> CollectionData list \<Rightarrow> (server, unit) act" where
  "save_collections E org_id user cols =
     act_for cols (\<lambda>col.
       act_bind (act_get (Collection_find_by_uuid_and_org (cd_id col) org_id)) (\<lambda>c.
       act_bind (some_or ''Collection not found in Organization'' c) (\<lambda>collection.
       act_upd (cu_save E user (c_uuid collection) (cd_read_only col) (cd_hide_passwords col) (cd_manage col)))))"

definition save_groups :: "env \<Rightarrow> MembershipId \<Rightarrow> GroupId list \<Rightarrow> (server, unit) act" where
  "save_groups E member ids = act_for ids (\<lambda>g. act_upd (gu_save E (GroupUser_new g member)))"

text \<open>The account of an invited address, whether it was created, and the status of its membership.\<close>

definition invited_user :: "env \<Rightarrow> OrganizationId \<Rightarrow> string \<Rightarrow> (server, User \<times> bool \<times> int) act" where
  "invited_user E org_id email =
     act_bind (act_get (User_find_by_mail E email)) (\<lambda>u.
     case u of
       None \<Rightarrow>
         act_seq (err_if (\<not> invitations_allowed (conf E)) (''User does not exist: '' @ email))
         (act_seq (err_if (\<not> is_email_domain_allowed E email) ''Email domain not eligible for invitations'')
         (act_seq (act_when (\<not> mail_enabled (conf E)) (Invitation_save E (Invitation_new E email)))
         (act_bind (act_run (User_new E email None)) (\<lambda>new_user.
          act_bind (User_save E new_user) (\<lambda>new_user. act_ret (new_user, True, MembershipStatus_i32 Invited))))))
     | Some user \<Rightarrow>
         act_bind (act_get (Membership_find_by_user_and_org (u_uuid user) org_id)) (\<lambda>m.
         act_seq (err_if (m \<noteq> None) (''User already in organization: '' @ email))
         (act_ret (user, False,
            if \<not> mail_enabled (conf E) \<and> u_password_hash user \<noteq> [] then MembershipStatus_i32 Accepted
            else MembershipStatus_i32 Invited))))"

text \<open>The mail of one invitation; when it cannot be sent, the account or the membership is removed
  again. \<open>user_created\<close> is the flag of the whole request.\<close>

definition invite_mail ::
  "env \<Rightarrow> OrganizationId \<Rightarrow> AdminHeaders \<Rightarrow> bool \<Rightarrow> User \<Rightarrow> Membership \<Rightarrow> (server, unit) act" where
  "invite_mail E org_id headers user_created user new_member =
     act_bind (act_get (Organization_find_by_uuid org_id)) (\<lambda>org.
     act_bind (some_or ''Error looking up organization'' org) (\<lambda>org.
     act_catch (mail_send_invite E user org_id (m_uuid new_member) (o_name org) (Some (u_email (ah_user headers)))) (\<lambda>e.
       act_seq (if user_created then User_delete E user else act_upd (Membership_delete E new_member))
       (act_err (Api (''Error sending invite: '' @ e @ '' ''))))))"

fun send_invites ::
  "env \<Rightarrow> OrganizationId \<Rightarrow> InviteData \<Rightarrow> AdminHeaders \<Rightarrow> int \<Rightarrow> bool \<Rightarrow> bool \<Rightarrow> string list \<Rightarrow> (server, unit) act" where
  "send_invites E org_id data headers new_type access_all user_created [] = act_ret ()"
| "send_invites E org_id data headers new_type access_all user_created (email # emails) =
     act_bind (invited_user E org_id email) (\<lambda>(user, created, member_status).
     let user_created = (user_created \<or> created) in
     act_bind (act_run (Membership_new E (u_uuid user) org_id (Some (u_email (ah_user headers))))) (\<lambda>new_member.
     let new_member = new_member\<lparr>m_access_all := access_all, m_atype := new_type, m_status := member_status\<rparr> in
     act_seq (act_upd (Membership_save E new_member))
     (act_seq (act_when (mail_enabled (conf E)) (invite_mail E org_id headers user_created user new_member))
     (act_seq (act_upd (log_event E OrganizationUserInvited (m_uuid new_member) org_id (u_uuid (ah_user headers))
        (d_atype (ah_device headers)) (ah_ip headers)))
     (act_seq (act_when (\<not> access_all) (save_collections E org_id (u_uuid user) (flatten_opt (iv_collections data))))
     (act_seq (save_groups E (m_uuid new_member) (iv_groups data))
     (send_invites E org_id data headers new_type access_all user_created emails)))))))"

definition org_send_invite :: "env \<Rightarrow> OrganizationId \<Rightarrow> InviteData \<Rightarrow> AdminHeaders \<Rightarrow> (server, unit) act" where
  "org_send_invite E org_id data headers =
     act_seq (err_if (org_id \<noteq> ah_org_id headers) ORG_MISMATCH)
     (act_seq (InviteData_validate data org_id)
     (let raw_type = NumberOrString_into_string (iv_type data) in
      act_bind (some_or ''Invalid type'' (MembershipType_from_str raw_type)) (\<lambda>ty.
      let new_type = MembershipType_i32 ty in
      act_seq (err_if (new_type \<noteq> MembershipType_i32 UserType \<and> ah_membership_type headers \<noteq> Owner)
        ''Only Owners can invite Managers, Admins or Owners'')
      (send_invites E org_id data headers new_type
         (i32_ge new_type Admin \<or> custom_access_all raw_type (iv_permissions data)) False (iv_emails data)))))"

definition reinvite_member_impl :: "env \<Rightarrow> OrganizationId \<Rightarrow> MembershipId \<Rightarrow> string \<Rightarrow> (server, unit) act" where
  "reinvite_member_impl E org_id member_id invited_by_email =
     act_bind (act_get (Membership_find_by_uuid_and_org member_id org_id)) (\<lambda>m.
     act_bind (some_or ''The user hasn't been invited to the organization.'' m) (\<lambda>member.
     act_seq (err_if (m_status member \<noteq> MembershipStatus_i32 Invited)
       ''The user is already accepted or confirmed to the organization'')
     (act_bind (act_get (User_find_by_uuid (m_user_uuid member))) (\<lambda>u.
      act_bind (some_or ''User not found.'' u) (\<lambda>user.
      act_seq (err_if (\<not> invitations_allowed (conf E) \<and> u_password_hash user = []) ''Invitations are not allowed.'')
      (act_bind (act_get (Organization_find_by_uuid org_id)) (\<lambda>org.
       act_bind (some_or ''Error looking up organization.'' org) (\<lambda>org.
       if mail_enabled (conf E)
       then mail_send_invite E user org_id (m_uuid member) (o_name org) (Some invited_by_email)
       else if u_password_hash user = [] then Invitation_save E (Invitation_new E (u_email user))
       else act_seq (act_upd (\<lambda>s. snd (Invitation_take E (u_email user) s)))
            (act_upd (Membership_save E (member\<lparr>m_status := MembershipStatus_i32 Accepted\<rparr>)))))))))))"

text \<open>The bulk endpoints: an error of one member is reported with its id and the loop goes on.\<close>

fun bulk :: "('x \<Rightarrow> (server, unit) act) \<Rightarrow> 'x list \<Rightarrow> (server, ('x \<times> string) list) act" where
  "bulk f [] = act_ret []"
| "bulk f (x # xs) =
     act_bind (act_catch (act_seq (f x) (act_ret [])) act_ret) (\<lambda>err_msg.
     act_bind (bulk f xs) (\<lambda>rs. act_ret ((x, err_msg) # rs)))"

definition bulk_reinvite_members ::
  "env \<Rightarrow> OrganizationId \<Rightarrow> MembershipId list \<Rightarrow> AdminHeaders \<Rightarrow> (server, (MembershipId \<times> string) list) act" where
  "bulk_reinvite_members E org_id ids headers =
     act_seq (err_if (org_id \<noteq> ah_org_id headers) ORG_MISMATCH)
     (bulk (\<lambda>i. reinvite_member_impl E org_id i (u_email (ah_user headers))) ids)"

definition reinvite_member :: "env \<Rightarrow> OrganizationId \<Rightarrow> MembershipId \<Rightarrow> AdminHeaders \<Rightarrow> (server, unit) act" where
  "reinvite_member E org_id member_id headers =
     act_seq (err_if (org_id \<noteq> ah_org_id headers) ORG_MISMATCH)
     (reinvite_member_impl E org_id member_id (u_email (ah_user headers)))"

section \<open>Accepting and confirming\<close>

definition accept_org_invite :: "env \<Rightarrow> User \<Rightarrow> Membership \<Rightarrow> string option \<Rightarrow> (server, unit) act" where
  "accept_org_invite E user member reset_password_key =
     act_seq (err_if (m_status member \<noteq> MembershipStatus_i32 Invited) ''User already accepted the invitation'')
     (let member = member\<lparr>m_status := MembershipStatus_i32 Accepted, m_reset_password_key := reset_password_key\<rparr> in
      act_seq (check_user_allowed E member ''join'')
      (act_seq (act_upd (Membership_save E member))
      (act_when (mail_enabled (conf E))
        (act_bind (act_get (Organization_find_by_uuid (m_org_uuid member))) (\<lambda>org.
         act_bind (some_or ''Organization not found.'' org) (\<lambda>org.
         send_mail E (OrgInviteAccepted (case m_invited_by_email member of Some a \<Rightarrow> a | None \<Rightarrow> o_billing_email org)
           (u_email user) (o_name org))))))))"

record AcceptData =
  ac_token :: string
  ac_reset_password_key :: "string option"

definition FAKE_ADMIN_UUID :: string where "FAKE_ADMIN_UUID = ''00000000-0000-0000-0000-000000000000''"

definition org_accept_invite ::
  "env \<Rightarrow> OrganizationId \<Rightarrow> MembershipId \<Rightarrow> AcceptData \<Rightarrow> Headers \<Rightarrow> (server, unit) act" where
  "org_accept_invite E org_id member_id data headers =
     act_bind (decode_invite E (ac_token data)) (\<lambda>claims.
     act_seq (err_if (ic_email claims \<noteq> u_email (h_user headers)) ''Invitation was issued to a different account'')
     (act_seq (err_if (ic_org_id claims \<noteq> org_id) ''Error accepting the invitation'')
     (act_seq (err_if (ic_member_id claims \<noteq> member_id) ''Error accepting the invitation'')
     (act_seq (act_upd (\<lambda>s. snd (Invitation_take E (ic_email claims) s)))
     (if ic_member_id claims \<noteq> FAKE_ADMIN_UUID
      then act_bind (act_get (Membership_find_by_uuid_and_org (ic_member_id claims) (ic_org_id claims))) (\<lambda>m.
           act_bind (some_or ''Error accepting the invitation'' m) (\<lambda>membership.
           act_bind (act_get (org_is_reset_password_auto_enroll E (m_org_uuid membership))) (\<lambda>auto.
           act_seq (err_if (auto \<and> ac_reset_password_key data = None)
             ''Reset password key is required, but not provided.'')
           (accept_org_invite E (h_user headers)
              (membership\<lparr>m_invited_by_email := first_some (m_invited_by_email membership) (ic_invited_by_email claims)\<rparr>)
              (if auto then ac_reset_password_key data else None)))))
      else act_when (mail_enabled (conf E))
        (send_mail E (OrgInviteConfirmed (ic_email claims) (invitation_org_name (conf E)))))))))"

definition confirm_invite_impl ::
  "env \<Rightarrow> OrganizationId \<Rightarrow> MembershipId \<Rightarrow> string \<Rightarrow> AdminHeaders \<Rightarrow> (server, unit) act" where
  "confirm_invite_impl E org_id member_id key headers =
     act_seq (err_if (org_id \<noteq> ah_org_id headers) ORG_MISMATCH)
     (act_seq (err_if (key = [] \<or> member_id = []) ''Key or UserId is not set, unable to process request'')
     (act_bind (act_get (Membership_find_by_uuid_and_org member_id org_id)) (\<lambda>m.
      act_bind (some_or ''The specified user isn't a member of the organization'' m) (\<lambda>member.
      act_seq (err_if (\<not> has_type UserType member \<and> ah_membership_type headers \<noteq> Owner)
        ''Only Owners can confirm Managers, Admins or Owners'')
      (act_seq (err_if (m_status member \<noteq> MembershipStatus_i32 Accepted) ''User in invalid state'')
      (let member = member\<lparr>m_status := MembershipStatus_i32 Confirmed, m_akey := key\<rparr> in
       act_seq (check_user_allowed E member ''confirm'')
       (act_seq (act_upd (log_event E OrganizationUserConfirmed (m_uuid member) org_id (u_uuid (ah_user headers))
          (d_atype (ah_device headers)) (ah_ip headers)))
       (act_seq (act_when (mail_enabled (conf E))
         (act_bind (act_get (Organization_find_by_uuid org_id)) (\<lambda>org.
          act_bind (some_or ''Error looking up organization.'' org) (\<lambda>org.
          act_bind (act_get (User_find_by_uuid (m_user_uuid member))) (\<lambda>u.
          act_bind (some_or ''Error looking up user.'' u) (\<lambda>user.
          send_mail E (OrgInviteConfirmed (u_email user) (o_name org))))))))
       (act_upd (Membership_save E member))))))))))"

record ConfirmData =
  cf_id :: "MembershipId option"
  cf_key :: "string option"

definition opt_or_empty :: "string option \<Rightarrow> string" where
  "opt_or_empty x = (case x of Some v \<Rightarrow> v | None \<Rightarrow> [])"

text \<open>\<open>invite.id.unwrap()\<close> stands before the call whose error is caught.\<close>

fun bulk_confirm_loop ::
  "env \<Rightarrow> OrganizationId \<Rightarrow> AdminHeaders \<Rightarrow> ConfirmData list \<Rightarrow> (server, (MembershipId \<times> string) list) act" where
  "bulk_confirm_loop E org_id headers [] = act_ret []"
| "bulk_confirm_loop E org_id headers (invite # invites) =
     act_bind (expect ''called `Option::unwrap()` on a `None` value'' (cf_id invite)) (\<lambda>member_id.
     act_bind (act_catch (act_seq (confirm_invite_impl E org_id member_id (opt_or_empty (cf_key invite)) headers) (act_ret []))
       act_ret) (\<lambda>err_msg.
     act_bind (bulk_confirm_loop E org_id headers invites) (\<lambda>rs. act_ret ((member_id, err_msg) # rs))))"

definition bulk_confirm_invite ::
  "env \<Rightarrow> OrganizationId \<Rightarrow> ConfirmData list option \<Rightarrow> AdminHeaders \<Rightarrow> (server, (MembershipId \<times> string) list) act" where
  "bulk_confirm_invite E org_id keys headers =
     act_seq (err_if (org_id \<noteq> ah_org_id headers) ORG_MISMATCH)
     (case keys of Some ks \<Rightarrow> bulk_confirm_loop E org_id headers ks | None \<Rightarrow> act_ret [])"

definition confirm_invite :: "env \<Rightarrow> OrganizationId \<Rightarrow> MembershipId \<Rightarrow> ConfirmData \<Rightarrow> AdminHeaders \<Rightarrow> (server, unit) act" where
  "confirm_invite E org_id member_id data headers =
     confirm_invite_impl E org_id member_id (opt_or_empty (cf_key data)) headers"

section \<open>Editing and removing members\<close>

record EditUserData =
  ed_type :: NumberOrString
  ed_collections :: "CollectionData list option"
  ed_groups :: "GroupId list option"
  ed_permissions :: "string \<Rightarrow> json option"

definition edit_member ::
  "env \<Rightarrow> OrganizationId \<Rightarrow> MembershipId \<Rightarrow> EditUserData \<Rightarrow> AdminHeaders \<Rightarrow> (server, unit) act" where
  "edit_member E org_id member_id data headers =
     act_seq (err_if (org_id \<noteq> ah_org_id headers) ORG_MISMATCH)
     (let raw_type = NumberOrString_into_string (ed_type data) in
      act_bind (some_or ''Invalid type'' (MembershipType_from_str raw_type)) (\<lambda>new_type.
      let access_all = (Admin \<le> new_type \<or> custom_access_all raw_type (ed_permissions data)) in
      act_bind (act_get (Membership_find_by_uuid_and_org member_id org_id)) (\<lambda>m.
      act_bind (some_or ''The specified user isn't member of the organization'' m) (\<lambda>member.
      act_seq (err_if (m_atype member \<noteq> MembershipType_i32 new_type
          \<and> (i32_ge (m_atype member) Admin \<or> Admin \<le> new_type) \<and> ah_membership_type headers \<noteq> Owner)
        ''Only Owners can grant and remove Admin or Owner privileges'')
      (act_seq (err_if (has_type Owner member \<and> ah_membership_type headers \<noteq> Owner) ''Only Owners can edit Owner users'')
      (act_bind (act_get (count_confirmed_by_org_and_type org_id Owner)) (\<lambda>owners.
       act_seq (err_if (has_type Owner member \<and> new_type \<noteq> Owner \<and> has_status Confirmed member \<and> owners \<le> 1)
         ''Can't delete the last owner'')
      (let member = member\<lparr>m_access_all := access_all, m_atype := MembershipType_i32 new_type\<rparr> in
       act_seq (check_user_allowed E member ''modify'')
       (act_bind (act_get (cu_find_by_organization_and_user_uuid org_id (m_user_uuid member))) (\<lambda>cus.
        act_seq (act_for cus (\<lambda>c. act_upd (cu_delete E c)))
       (act_seq (act_when (\<not> access_all)
          (save_collections E org_id (m_user_uuid member) (flatten_opt (ed_collections data))))
       (act_seq (act_upd (gu_delete_all_by_member E (m_uuid member)))
       (act_seq (save_groups E (m_uuid member) (flatten_opt (ed_groups data)))
       (act_seq (act_upd (log_event E OrganizationUserUpdated (m_uuid member) org_id (u_uuid (ah_user headers))
          (d_atype (ah_device headers)) (ah_ip headers)))
       (act_upd (Membership_save E member))))))))))))))))"

definition delete_member_impl :: "env \<Rightarrow> OrganizationId \<Rightarrow> MembershipId \<Rightarrow> AdminHeaders \<Rightarrow> (server, unit) act" where
  "delete_member_impl E org_id member_id headers =
     act_seq (err_if (org_id \<noteq> ah_org_id headers) ORG_MISMATCH)
     (act_bind (act_get (Membership_find_by_uuid_and_org member_id org_id)) (\<lambda>m.
      act_bind (some_or ''User to delete isn't member of the organization'' m) (\<lambda>member.
      act_seq (err_if (\<not> has_type UserType member \<and> ah_membership_type headers \<noteq> Owner)
        ''Only Owners can delete Admins or Owners'')
      (act_bind (act_get (count_confirmed_by_org_and_type org_id Owner)) (\<lambda>owners.
       act_seq (err_if (has_type Owner member \<and> has_status Confirmed member \<and> owners \<le> 1)
         ''Can't delete the last owner'')
      (act_seq (act_upd (log_event E OrganizationUserRemoved (m_uuid member) org_id (u_uuid (ah_user headers))
          (d_atype (ah_device headers)) (ah_ip headers)))
       (act_upd (Membership_delete E member))))))))"

definition bulk_delete_member ::
  "env \<Rightarrow> OrganizationId \<Rightarrow> MembershipId list \<Rightarrow> AdminHeaders \<Rightarrow> (server, (MembershipId \<times> string) list) act" where
  "bulk_delete_member E org_id ids headers =
     act_seq (err_if (org_id \<noteq> ah_org_id headers) ORG_MISMATCH)
     (bulk (\<lambda>i. delete_member_impl E org_id i headers) ids)"

definition bulk_public_keys ::
  "OrganizationId \<Rightarrow> MembershipId list \<Rightarrow> AdminHeaders \<Rightarrow> (server, json) act" where
  "bulk_public_keys org_id ids headers =
     act_seq (err_if (org_id \<noteq> ah_org_id headers) ORG_MISMATCH)
     (act_bind (act_get (\<lambda>s. List.map_filter (\<lambda>member_id.
        case Membership_find_by_uuid_and_org member_id org_id s of None \<Rightarrow> None
        | Some member \<Rightarrow> (case User_find_by_uuid (m_user_uuid member) s of None \<Rightarrow> None
           | Some user \<Rightarrow> Some (JObj [(''object'', JStr ''organizationUserPublicKeyResponseModel''),
               (''id'', JStr member_id), (''userId'', JStr (u_uuid user)), (''key'', json_opt (u_public_key user))]))) ids))
      (\<lambda>rs. act_ret (json_list rs)))"

section \<open>Policies\<close>

definition enforce_2fa_policy :: "env \<Rightarrow> User \<Rightarrow> UserId \<Rightarrow> int \<Rightarrow> string \<Rightarrow> (server, unit) act" where
  "enforce_2fa_policy E user act_user device ip =
     act_bind (act_get (Membership_find_by_user_and_policy (u_uuid user) (OrgPolicyType_i32 TwoFactorAuthentication))) (\<lambda>ms.
     act_for ms (\<lambda>member.
       act_when (i32_lt (m_atype member) Admin)
       (act_seq (act_when (mail_enabled (conf E))
          (act_bind (act_get (Organization_find_by_uuid (m_org_uuid member))) (\<lambda>org.
           act_bind (expect ''called `Option::unwrap()` on a `None` value'' org) (\<lambda>org.
           send_mail E (TwoFactorRemovedFromOrg (u_email user) (o_name org))))))
       (let member = snd (Membership_revoke member) in
        act_seq (act_upd (Membership_save E member))
        (act_upd (log_event E OrganizationUserRevoked (m_uuid member) (m_org_uuid member) act_user device ip))))))"

definition enforce_2fa_policy_for_org :: "env \<Rightarrow> OrganizationId \<Rightarrow> UserId \<Rightarrow> int \<Rightarrow> string \<Rightarrow> (server, unit) act" where
  "enforce_2fa_policy_for_org E org_id act_user device ip =
     act_bind (act_get (Organization_find_by_uuid org_id)) (\<lambda>org.
     act_bind (expect ''called `Option::unwrap()` on a `None` value'' org) (\<lambda>org.
     act_bind (act_get (Membership_find_confirmed_by_org org_id)) (\<lambda>ms.
     act_for ms (\<lambda>member.
       act_bind (act_get (TwoFactor_find_by_user (m_user_uuid member))) (\<lambda>tfs.
       act_when (i32_lt (m_atype member) Admin \<and> tfs = [])
       (act_seq (act_when (mail_enabled (conf E))
          (act_bind (act_get (User_find_by_uuid (m_user_uuid member))) (\<lambda>u.
           act_bind (expect ''called `Option::unwrap()` on a `None` value'' u) (\<lambda>user.
           send_mail E (TwoFactorRemovedFromOrg (u_email user) (o_name org))))))
       (let member = snd (Membership_revoke member) in
        act_seq (act_upd (Membership_save E member))
        (act_upd (log_event E OrganizationUserRevoked (m_uuid member) org_id act_user device ip)))))))))"

record PolicyData =
  pd_enabled :: bool
  pd_data :: "json option"

definition policy_enabled :: "OrganizationId \<Rightarrow> OrgPolicyType \<Rightarrow> server \<Rightarrow> bool" where
  "policy_enabled org t s = opt_is (OrgPolicy_find_by_org_and_type org t s) op_enabled"

definition check_policy_order :: "env \<Rightarrow> OrganizationId \<Rightarrow> OrgPolicyType \<Rightarrow> bool \<Rightarrow> (server, unit) act" where
  "check_policy_order E org_id ty enabled =
     act_when (enforce_single_org_with_reset_pw_policy (conf E))
     (act_bind (act_get (policy_enabled org_id SingleOrg)) (\<lambda>single.
      act_seq (err_if (ty = ResetPassword \<and> enabled \<and> \<not> single)
        ''Single Organization policy is not enabled. It is mandatory for this policy to be enabled.'')
      (act_bind (act_get (policy_enabled org_id ResetPassword)) (\<lambda>reset.
       err_if (ty = SingleOrg \<and> \<not> enabled \<and> reset)
        ''Account recovery policy is enabled. It is not allowed to disable this policy.''))))"

definition enforce_single_org :: "env \<Rightarrow> OrganizationId \<Rightarrow> AdminHeaders \<Rightarrow> (server, unit) act" where
  "enforce_single_org E org_id headers =
     act_bind (act_get (Membership_find_by_org org_id)) (\<lambda>ms.
     act_for ms (\<lambda>member.
       act_bind (act_get (count_accepted_and_confirmed_by_user (m_user_uuid member) (m_org_uuid member))) (\<lambda>n.
       act_when (i32_lt (m_atype member) Admin \<and> m_status member \<noteq> MembershipStatus_i32 Invited \<and> 0 < n)
       (act_seq (act_when (mail_enabled (conf E))
          (act_bind (act_get (Organization_find_by_uuid (m_org_uuid member))) (\<lambda>org.
           act_bind (expect ''called `Option::unwrap()` on a `None` value'' org) (\<lambda>org.
           act_bind (act_get (User_find_by_uuid (m_user_uuid member))) (\<lambda>u.
           act_bind (expect ''called `Option::unwrap()` on a `None` value'' u) (\<lambda>user.
           send_mail E (SingleOrgRemovedFromOrg (u_email user) (o_name org))))))))
       (act_seq (act_upd (log_event E OrganizationUserRemoved (m_uuid member) org_id (u_uuid (ah_user headers))
          (d_atype (ah_device headers)) (ah_ip headers)))
        (act_upd (Membership_save E (snd (Membership_revoke member)))))))))"

definition put_policy ::
  "env \<Rightarrow> OrganizationId \<Rightarrow> int \<Rightarrow> PolicyData \<Rightarrow> AdminHeaders \<Rightarrow> (server, json) act" where
  "put_policy E org_id pol_type data headers =
     act_seq (err_if (org_id \<noteq> ah_org_id headers) ORG_MISMATCH)
     (act_bind (some_or ''Invalid or unsupported policy type'' (OrgPolicyType_from_i32 pol_type)) (\<lambda>ty.
      act_seq (check_policy_order E org_id ty (pd_enabled data))
     (act_seq (act_when (ty = TwoFactorAuthentication \<and> pd_enabled data)
        (enforce_2fa_policy_for_org E org_id (u_uuid (ah_user headers)) (d_atype (ah_device headers)) (ah_ip headers)))
     (act_seq (act_when (ty = SingleOrg \<and> pd_enabled data) (enforce_single_org E org_id headers))
     (act_bind (act_run (\<lambda>s. case OrgPolicy_find_by_org_and_type org_id ty s of
          Some p \<Rightarrow> (p, s) | None \<Rightarrow> OrgPolicy_new E org_id ty False ''{}'' s)) (\<lambda>policy.
      let policy = policy\<lparr>op_enabled := pd_enabled data,
            op_data := json_print E (case pd_data data of Some j \<Rightarrow> j | None \<Rightarrow> JNull)\<rparr> in
      act_seq (act_upd (OrgPolicy_save policy))
      (act_seq (act_upd (log_event E PolicyUpdated (op_uuid policy) org_id (u_uuid (ah_user headers))
         (d_atype (ah_device headers)) (ah_ip headers)))
      (act_ret (OrgPolicy_to_json E policy)))))))))"

definition list_policies :: "env \<Rightarrow> OrganizationId \<Rightarrow> AdminHeaders \<Rightarrow> (server, json) act" where
  "list_policies E org_id headers =
     act_seq (err_if (org_id \<noteq> ah_org_id headers) ORG_MISMATCH)
     (act_bind (act_get (OrgPolicy_find_by_org org_id)) (\<lambda>ps. act_ret (json_list (map (OrgPolicy_to_json E) ps))))"

definition list_policies_token :: "env \<Rightarrow> OrganizationId \<Rightarrow> string \<Rightarrow> (server, json) act" where
  "list_policies_token E org_id token =
     act_bind (decode_invite E token) (\<lambda>invite.
     act_seq (err_if (ic_org_id invite \<noteq> org_id) ''Token doesn't match request organization'')
     (if org_id = FAKE_ADMIN_UUID then act_ret (JObj [])
      else act_bind (act_get (OrgPolicy_find_by_org org_id)) (\<lambda>ps. act_ret (json_list (map (OrgPolicy_to_json E) ps)))))"

definition get_policy :: "env \<Rightarrow> OrganizationId \<Rightarrow> int \<Rightarrow> AdminHeaders \<Rightarrow> (server, json) act" where
  "get_policy E org_id pol_type headers =
     act_seq (err_if (org_id \<noteq> ah_org_id headers) ORG_MISMATCH)
     (act_bind (some_or ''Invalid or unsupported policy type'' (OrgPolicyType_from_i32 pol_type)) (\<lambda>ty.
      act_bind (act_run (\<lambda>s. case OrgPolicy_find_by_org_and_type org_id ty s of
          Some p \<Rightarrow> (p, s) | None \<Rightarrow> OrgPolicy_new E org_id ty False ''null'' s)) (\<lambda>policy.
      act_ret (OrgPolicy_to_json E policy))))"

section \<open>Revoking and restoring\<close>

definition revoke_member_impl :: "env \<Rightarrow> OrganizationId \<Rightarrow> MembershipId \<Rightarrow> AdminHeaders \<Rightarrow> (server, unit) act" where
  "revoke_member_impl E org_id member_id headers =
     act_seq (err_if (org_id \<noteq> ah_org_id headers) ORG_MISMATCH)
     (act_bind (act_get (Membership_find_by_uuid_and_org member_id org_id)) (\<lambda>m.
      act_bind (some_or ''User not found in organization'' m) (\<lambda>member.
      if MembershipStatus_i32 Revoked < m_status member
      then
        act_seq (err_if (m_user_uuid member = u_uuid (ah_user headers)) ''You cannot revoke yourself'')
        (act_seq (err_if (has_type Owner member \<and> ah_membership_type headers \<noteq> Owner) ''Only owners can revoke other owners'')
        (act_bind (act_get (count_confirmed_by_org_and_type org_id Owner)) (\<lambda>owners.
         act_seq (err_if (has_type Owner member \<and> owners \<le> 1) ''Organization must have at least one confirmed owner'')
        (act_seq (act_upd (Membership_save E (snd (Membership_revoke member))))
         (act_upd (log_event E OrganizationUserRevoked (m_uuid member) org_id (u_uuid (ah_user headers))
            (d_atype (ah_device headers)) (ah_ip headers)))))))
      else act_err (Api ''User is already revoked''))))"

definition bulk_revoke_members ::
  "env \<Rightarrow> OrganizationId \<Rightarrow> MembershipId list option \<Rightarrow> AdminHeaders \<Rightarrow> (server, (MembershipId \<times> string) list) act" where
  "bulk_revoke_members E org_id ids headers =
     act_seq (err_if (org_id \<noteq> ah_org_id headers) ORG_MISMATCH)
     (case ids of Some members \<Rightarrow> bulk (\<lambda>i. revoke_member_impl E org_id i headers) members | None \<Rightarrow> act_ret [])"

definition restore_member_impl :: "env \<Rightarrow> OrganizationId \<Rightarrow> MembershipId \<Rightarrow> AdminHeaders \<Rightarrow> (server, unit) act" where
  "restore_member_impl E org_id member_id headers =
     act_seq (err_if (org_id \<noteq> ah_org_id headers) ORG_MISMATCH)
     (act_bind (act_get (Membership_find_by_uuid_and_org member_id org_id)) (\<lambda>m.
      act_bind (some_or ''User not found in organization'' m) (\<lambda>member.
      if m_status member < MembershipStatus_i32 Accepted
      then
        act_seq (err_if (m_user_uuid member = u_uuid (ah_user headers)) ''You cannot restore yourself'')
        (act_seq (err_if (has_type Owner member \<and> ah_membership_type headers \<noteq> Owner) ''Only owners can restore other owners'')
        (let member = snd (Membership_restore member) in
         act_seq (check_user_allowed E member ''restore'')
         (act_seq (act_upd (Membership_save E member))
         (act_upd (log_event E OrganizationUserRestored (m_uuid member) org_id (u_uuid (ah_user headers))
            (d_atype (ah_device headers)) (ah_ip headers))))))
      else act_err (Api ''User is already active''))))"

definition bulk_restore_members ::
  "env \<Rightarrow> OrganizationId \<Rightarrow> MembershipId list \<Rightarrow> AdminHeaders \<Rightarrow> (server, (MembershipId \<times> string) list) act" where
  "bulk_restore_members E org_id ids headers =
     act_seq (err_if (org_id \<noteq> ah_org_id headers) ORG_MISMATCH)
     (bulk (\<lambda>i. restore_member_impl E org_id i headers) ids)"

section \<open>Deleting one's account\<close>

text \<open>\<open>api/core/accounts.rs\<close>.\<close>

definition delete_account :: "env \<Rightarrow> PasswordOrOtpData \<Rightarrow> Headers \<Rightarrow> (server, unit) act" where
  "delete_account E data headers =
     act_seq (PasswordOrOtpData_validate E data (h_user headers) True) (User_delete E (h_user headers))"

end
