(* ===== verification/SecondFactors.thy ===== *)
theory SecondFactors
  imports LoginRequests OrgApi
begin

text \<open>
  The handlers of second factors: \<open>api/core/two_factor/mod.rs\<close>, \<open>authenticator.rs\<close> and \<open>email.rs\<close>. A
  user turns a factor on with a code from it, and may turn any factor off with the master password or
  a one-time code; a login asks for an e-mail code with \<open>send_email_login\<close>. WebAuthn, YubiKey and Duo
  are left out: they only store what an external service verifies.
\<close>

section \<open>Which factors a login may use\<close>

definition TwoFactorType_from_i32 :: "int \<Rightarrow> TwoFactorType option" where
  "TwoFactorType_from_i32 n = List.find (\<lambda>t. TwoFactorType_i32 t = n)
     [Authenticator, Email, Duo, YubiKey, U2f, Remember, OrganizationDuo, Webauthn, RecoveryCode,
      U2fRegisterChallenge, U2fLoginChallenge, EmailVerificationChallenge, WebauthnRegisterChallenge,
      WebauthnLoginChallenge, ProtectedActions]"

text \<open>The fields of a structure with several strings, from an object without duplicates or an array.\<close>

definition read_duo_fields :: "json \<Rightarrow> (string \<times> string \<times> string) option" where
  "read_duo_fields j =
     (let fields = (case j of
          JObj kvs \<Rightarrow> (case (struct_field [''host''] j, struct_field [''ik''] j, struct_field [''sk''] j) of
              (Some a, Some b, Some c) \<Rightarrow> Some (a, b, c) | _ \<Rightarrow> None)
        | JArr [a, b, c] \<Rightarrow> Some (a, b, c)
        | _ \<Rightarrow> None)
      in case fields of Some (JStr host, JStr ik, JStr sk) \<Rightarrow> Some (host, ik, sk) | _ \<Rightarrow> None)"

fun is_twofactor_provider_usable :: "env \<Rightarrow> TwoFactorType \<Rightarrow> string option \<Rightarrow> bool" where
  "is_twofactor_provider_usable E Authenticator data = True"
| "is_twofactor_provider_usable E RecoveryCode data = True"
| "is_twofactor_provider_usable E Email data = enable_email_2fa (conf E)"
| "is_twofactor_provider_usable E Duo data =
     ((case Option.bind (Option.bind data (json_parse E)) read_duo_fields of
         Some (host, ik, sk) \<Rightarrow> host \<noteq> [] \<and> ik \<noteq> [] \<and> sk \<noteq> [] | None \<Rightarrow> False) \<or> duo_credentials (conf E))"
| "is_twofactor_provider_usable E OrganizationDuo data =
     ((case Option.bind (Option.bind data (json_parse E)) read_duo_fields of
         Some (host, ik, sk) \<Rightarrow> host \<noteq> [] \<and> ik \<noteq> [] \<and> sk \<noteq> [] | None \<Rightarrow> False) \<or> duo_credentials (conf E))"
| "is_twofactor_provider_usable E YubiKey data = yubico_credentials (conf E)"
| "is_twofactor_provider_usable E Webauthn data = webauthn_2fa_supported (conf E)"
| "is_twofactor_provider_usable E Remember data = (\<not> disable_2fa_remember (conf E))"
| "is_twofactor_provider_usable E U2f data = False"
| "is_twofactor_provider_usable E U2fRegisterChallenge data = False"
| "is_twofactor_provider_usable E U2fLoginChallenge data = False"
| "is_twofactor_provider_usable E EmailVerificationChallenge data = False"
| "is_twofactor_provider_usable E WebauthnRegisterChallenge data = False"
| "is_twofactor_provider_usable E WebauthnLoginChallenge data = False"
| "is_twofactor_provider_usable E ProtectedActions data = False"

definition usable_row :: "env \<Rightarrow> TwoFactor \<Rightarrow> bool" where
  "usable_row E tf = (case TwoFactorType_from_i32 (tf_atype tf) of None \<Rightarrow> False
     | Some t \<Rightarrow> is_twofactor_provider_usable E t (Some (tf_data tf)))"

section \<open>Listing, recovering and turning off\<close>

definition get_twofactor :: "env \<Rightarrow> Headers \<Rightarrow> (server, json) act" where
  "get_twofactor E headers =
     act_bind (act_get (TwoFactor_find_by_user (u_uuid (h_user headers)))) (\<lambda>tfs.
     act_ret (json_list (map TwoFactor_to_json_provider (filter (usable_row E) tfs))))"

definition get_recover :: "env \<Rightarrow> PasswordOrOtpData \<Rightarrow> Headers \<Rightarrow> (server, json) act" where
  "get_recover E data headers =
     act_seq (PasswordOrOtpData_validate E data (h_user headers) True)
     (act_ret (JObj [(''code'', json_opt (u_totp_recover (h_user headers))), (''object'', JStr ''twoFactorRecover'')]))"

definition generate_recover_code :: "env \<Rightarrow> User \<Rightarrow> (server, unit) act" where
  "generate_recover_code E user =
     act_when (u_totp_recover user = None)
     (act_bind (act_run (\<lambda>s. (random_base32 E (tick s), bump s))) (\<lambda>code.
      act_ignore (User_save E (user\<lparr>u_totp_recover := Some code\<rparr>))))"

definition log_own :: "env \<Rightarrow> EventType \<Rightarrow> Headers \<Rightarrow> server \<Rightarrow> server" where
  "log_own E ty headers =
     log_user_event E (EventType_i32 ty) (u_uuid (h_user headers)) (d_atype (h_device headers)) (h_ip headers)"

text \<open>Turning off the last factor revokes the memberships that need one.\<close>

definition policy_without_factors :: "env \<Rightarrow> Headers \<Rightarrow> (server, unit) act" where
  "policy_without_factors E headers =
     act_bind (act_get (TwoFactor_find_by_user (u_uuid (h_user headers)))) (\<lambda>tfs.
     act_when (tfs = []) (enforce_2fa_policy E (h_user headers) (u_uuid (h_user headers))
       (d_atype (h_device headers)) (h_ip headers)))"

definition disable_twofactor :: "env \<Rightarrow> PasswordOrOtpData \<Rightarrow> NumberOrString \<Rightarrow> Headers \<Rightarrow> (server, json) act" where
  "disable_twofactor E data ty headers =
     act_seq (PasswordOrOtpData_validate E data (h_user headers) True)
     (act_bind (act_sum (NumberOrString_into_i32 ty)) (\<lambda>ty.
      act_bind (act_get (TwoFactor_find_by_user_and_type (u_uuid (h_user headers)) ty)) (\<lambda>tf.
      act_seq (case tf of None \<Rightarrow> act_ret ()
         | Some tf \<Rightarrow> act_seq (act_upd (TwoFactor_delete tf)) (act_upd (log_own E UserDisabled2fa headers)))
      (act_seq (policy_without_factors E headers)
      (act_ret (JObj [(''enabled'', JBool False), (''type'', JInt ty), (''object'', JStr ''twoFactorProvider'')]))))))"

definition disable_twofactor_put :: "env \<Rightarrow> PasswordOrOtpData \<Rightarrow> NumberOrString \<Rightarrow> Headers \<Rightarrow> (server, json) act" where
  "disable_twofactor_put E = disable_twofactor E"

definition get_device_verification_settings :: "(server, json) act" where
  "get_device_verification_settings = act_ret (JObj [(''isDeviceVerificationSectionEnabled'', JBool False),
     (''unknownDeviceVerificationEnabled'', JBool False), (''object'', JStr ''deviceVerificationSettings'')])"

section \<open>The authenticator application\<close>

definition generate_authenticator :: "env \<Rightarrow> PasswordOrOtpData \<Rightarrow> Headers \<Rightarrow> (server, json) act" where
  "generate_authenticator E data headers =
     act_seq (PasswordOrOtpData_validate E data (h_user headers) False)
     (act_bind (act_run (\<lambda>s. case TwoFactor_find_by_user_and_type (u_uuid (h_user headers)) (TwoFactorType_i32 Authenticator) s of
          Some tf \<Rightarrow> ((True, tf_data tf), s) | None \<Rightarrow> ((False, random_base32 E (tick s)), bump s))) (\<lambda>(enabled, key).
      act_ret (JObj [(''enabled'', JBool enabled), (''key'', JStr key), (''object'', JStr ''twoFactorAuthenticator'')])))"

record EnableAuthenticatorData =
  ead_key :: string
  ead_token :: NumberOrString
  ead_master_password_hash :: "string option"
  ead_otp :: "string option"

definition activate_authenticator :: "env \<Rightarrow> EnableAuthenticatorData \<Rightarrow> Headers \<Rightarrow> (server, json) act" where
  "activate_authenticator E data headers =
     act_seq (PasswordOrOtpData_validate E \<lparr>po_master_password_hash = ead_master_password_hash data,
        po_otp = ead_otp data\<rparr> (h_user headers) True)
     (act_bind (some_or ''Invalid totp secret'' (base32_bytes E (ead_key data))) (\<lambda>decoded_key.
      act_seq (err_if (length decoded_key \<noteq> 20) ''Invalid key length'')
      (act_seq (validate_totp_code E (u_uuid (h_user headers)) (NumberOrString_into_string (ead_token data))
          (uppercase_of E (ead_key data)) (h_ip headers))
      (act_seq (generate_recover_code E (h_user headers))
      (act_seq (act_upd (log_own E UserUpdated2fa headers))
      (act_ret (JObj [(''enabled'', JBool True), (''key'', JStr (ead_key data)),
         (''object'', JStr ''twoFactorAuthenticator'')])))))))"

definition activate_authenticator_put :: "env \<Rightarrow> EnableAuthenticatorData \<Rightarrow> Headers \<Rightarrow> (server, json) act" where
  "activate_authenticator_put E = activate_authenticator E"

definition validate_totp_code_str :: "env \<Rightarrow> UserId \<Rightarrow> string \<Rightarrow> string \<Rightarrow> string \<Rightarrow> (server, unit) act" where
  "validate_totp_code_str E user totp_code secret ip =
     act_seq (err_if (\<not> chars_numeric E totp_code) ''TOTP code is not a number'')
     (validate_totp_code E user totp_code secret ip)"

record DisableAuthenticatorData =
  dad_key :: string
  dad_master_password_hash :: string
  dad_type :: NumberOrString

definition disable_authenticator :: "env \<Rightarrow> DisableAuthenticatorData \<Rightarrow> Headers \<Rightarrow> (server, json) act" where
  "disable_authenticator E data headers =
     act_bind (act_sum (NumberOrString_into_i32 (dad_type data))) (\<lambda>ty.
     act_bind (act_sum (check_valid_password E (dad_master_password_hash data) (h_user headers))) (\<lambda>ok.
     act_seq (err_if (\<not> ok) ''Invalid password'')
     (act_bind (act_get (TwoFactor_find_by_user_and_type (u_uuid (h_user headers)) ty)) (\<lambda>tf.
      act_seq (case tf of None \<Rightarrow> act_ret ()
         | Some tf \<Rightarrow> if tf_data tf = dad_key data
             then act_seq (act_upd (TwoFactor_delete tf)) (act_upd (log_own E UserDisabled2fa headers))
             else act_err (Api (''TOTP key for user '' @ u_email (h_user headers)
                @ '' does not match recorded value, cannot deactivate'')))
      (act_seq (policy_without_factors E headers)
      (act_ret (JObj [(''enabled'', JBool False), (''keys'', JInt ty), (''object'', JStr ''twoFactorProvider'')])))))))"

section \<open>Codes by e-mail\<close>

text \<open>An optional field may be missing; no field may occur twice.\<close>

definition opt_field :: "string \<Rightarrow> (string \<times> json) list \<Rightarrow> json option" where
  "opt_field name kvs = (case filter (\<lambda>(k, v). k = name) kvs of [] \<Rightarrow> Some JNull | [(k, v)] \<Rightarrow> Some v | _ \<Rightarrow> None)"

definition json_opt_str :: "json \<Rightarrow> string option option" where
  "json_opt_str j = (case j of JNull \<Rightarrow> Some None | JStr s \<Rightarrow> Some (Some s) | _ \<Rightarrow> None)"

definition EmailTokenData_read :: "json \<Rightarrow> EmailTokenData option" where
  "EmailTokenData_read j =
     (let fields = (case j of
          JObj kvs \<Rightarrow> (case (struct_field [''email''] j, opt_field ''last_token'' kvs, struct_field [''token_sent''] j,
                struct_field [''attempts''] j) of
              (Some a, Some b, Some c, Some d) \<Rightarrow> Some (a, b, c, d) | _ \<Rightarrow> None)
        | JArr [a, b, c, d] \<Rightarrow> Some (a, b, c, d)
        | _ \<Rightarrow> None)
      in case fields of
           Some (JStr email, tok, JInt sent, JInt n) \<Rightarrow>
             (case json_opt_str tok of
                Some tok \<Rightarrow> if fits 64 sent \<and> 0 \<le> n \<and> n < 2 ^ 64
                  then Some \<lparr>et_email = email, et_last_token = tok, et_token_sent = sent, et_attempts = nat n\<rparr> else None
              | None \<Rightarrow> None)
         | _ \<Rightarrow> None)"

definition EmailTokenData_from_json :: "env \<Rightarrow> string \<Rightarrow> api_err + EmailTokenData" where
  "EmailTokenData_from_json E text =
     (case Option.bind (json_parse E text) EmailTokenData_read of
        None \<Rightarrow> Inl (Api ''Could not decode EmailTokenData from string'') | Some d \<Rightarrow> Inr d)"

definition check_limit_login :: "env \<Rightarrow> string \<Rightarrow> (server, unit) act" where
  "check_limit_login E ip =
     act_bind (act_run (\<lambda>s. (login_limit E (tick s) ip, bump s))) (\<lambda>ok.
     err_if (\<not> ok) ''Too many login requests'')"

definition generate_email_token :: "env \<Rightarrow> server \<Rightarrow> string \<times> server" where
  "generate_email_token E s = (random_numeric E (tick s) (email_token_size (conf E)), bump s)"

definition send_token :: "env \<Rightarrow> UserId \<Rightarrow> (server, unit) act" where
  "send_token E user =
     act_bind (act_get (TwoFactor_find_by_user_and_type user (TwoFactorType_i32 Email))) (\<lambda>tf.
     act_bind (some_or ''Two factor not found'' tf) (\<lambda>tf.
     act_bind (act_run (generate_email_token E)) (\<lambda>token.
     act_bind (act_sum (EmailTokenData_from_json E (tf_data tf))) (\<lambda>d.
     act_bind (act_run (EmailTokenData_set_token E token d)) (\<lambda>d.
     act_seq (act_upd (TwoFactor_save (tf\<lparr>tf_data := EmailTokenData_to_json E d\<rparr>)))
     (act_bind (some_or ''Token is empty'' (et_last_token d)) (\<lambda>token.
      send_mail E (TwoFactorToken (et_email d) token))))))))"

record SendEmailLoginData =
  sel_device_identifier :: "DeviceId option"
  sel_email :: "string option"
  sel_master_password_hash :: "string option"
  sel_auth_request_id :: "AuthRequestId option"
  sel_auth_request_access_code :: "string option"

definition non_empty :: "string option \<Rightarrow> string option" where
  "non_empty x = (case x of Some v \<Rightarrow> if v \<noteq> [] then Some v else None | None \<Rightarrow> None)"

definition email_login_user :: "env \<Rightarrow> SendEmailLoginData \<Rightarrow> ClientHeaders \<Rightarrow> (server, User) act" where
  "email_login_user E data ch =
     (case non_empty (sel_email data) of
        Some email \<Rightarrow>
          act_bind (act_get (User_find_by_mail E email)) (\<lambda>u.
          act_bind (some_or ''Username or password is incorrect. Try again.'' u) (\<lambda>user.
          act_seq
            (case non_empty (sel_master_password_hash data) of
               Some pw \<Rightarrow> act_bind (act_sum (check_valid_password E pw user)) (\<lambda>ok.
                  err_if (\<not> ok) ''Username or password is incorrect. Try again.'')
             | None \<Rightarrow>
                (case non_empty (sel_auth_request_id data) of
                   Some rid \<Rightarrow>
                     act_bind (act_get (AuthRequest_find_by_uuid rid)) (\<lambda>a.
                     act_bind (some_or ''AuthRequest doesn't exist'' a) (\<lambda>a.
                     act_bind (some_or ''no auth request access code'' (sel_auth_request_access_code data)) (\<lambda>code.
                     err_if (foreign_client E ch code a) ''AuthRequest doesn't exist'')))
                 | None \<Rightarrow> act_err (Api ''No password hash has been submitted.'')))
            (act_ret user)))
      | None \<Rightarrow>
          act_bind (some_or ''No device identifier has been submitted.'' (sel_device_identifier data)) (\<lambda>device.
          act_bind (act_get (find_by_device_for_email2fa device)) (\<lambda>u.
          some_or ''Username or password is incorrect. Try again.'' u)))"

definition send_email_login :: "env \<Rightarrow> SendEmailLoginData \<Rightarrow> ClientHeaders \<Rightarrow> (server, unit) act" where
  "send_email_login E data ch =
     act_seq (err_if (\<not> enable_email_2fa (conf E)) ''Email 2FA is disabled'')
     (act_seq (check_limit_login E (ch_ip ch))
     (act_bind (email_login_user E data ch) (\<lambda>user.
      send_token E (u_uuid user))))"

definition get_email :: "env \<Rightarrow> PasswordOrOtpData \<Rightarrow> Headers \<Rightarrow> (server, json) act" where
  "get_email E data headers =
     act_seq (PasswordOrOtpData_validate E data (h_user headers) False)
     (act_bind (act_get (TwoFactor_find_by_user_and_type (u_uuid (h_user headers)) (TwoFactorType_i32 Email))) (\<lambda>tf.
      act_bind (case tf of
          Some tf \<Rightarrow> act_bind (act_sum (EmailTokenData_from_json E (tf_data tf))) (\<lambda>d. act_ret (True, JStr (et_email d)))
        | None \<Rightarrow> act_ret (False, JNull)) (\<lambda>(enabled, mfa_email).
      act_ret (JObj [(''email'', mfa_email), (''enabled'', JBool enabled), (''object'', JStr ''twoFactorEmail'')]))))"

record SendEmailData =
  sed_email :: string
  sed_master_password_hash :: "string option"
  sed_otp :: "string option"

definition send_email :: "env \<Rightarrow> SendEmailData \<Rightarrow> Headers \<Rightarrow> (server, unit) act" where
  "send_email E data headers =
     act_seq (PasswordOrOtpData_validate E \<lparr>po_master_password_hash = sed_master_password_hash data,
        po_otp = sed_otp data\<rparr> (h_user headers) False)
     (act_seq (err_if (\<not> enable_email_2fa (conf E)) ''Email 2FA is disabled'')
     (act_bind (act_get (TwoFactor_find_by_user_and_type (u_uuid (h_user headers)) (TwoFactorType_i32 Email))) (\<lambda>tf.
      act_seq (case tf of Some tf \<Rightarrow> act_upd (TwoFactor_delete tf) | None \<Rightarrow> act_ret ())
      (act_bind (act_run (generate_email_token E)) (\<lambda>token.
       act_bind (act_run (EmailTokenData_new E (sed_email data) token)) (\<lambda>d.
       act_bind (act_run (TwoFactor_new E (u_uuid (h_user headers)) EmailVerificationChallenge
         (EmailTokenData_to_json E d))) (\<lambda>tf.
       act_seq (act_upd (TwoFactor_save tf))
       (act_bind (some_or ''Token is empty'' (et_last_token d)) (\<lambda>token.
        send_mail E (TwoFactorToken (et_email d) token))))))))))"

record EmailData =
  emd_email :: string
  emd_token :: string
  emd_master_password_hash :: "string option"
  emd_otp :: "string option"

definition email_2fa :: "env \<Rightarrow> EmailData \<Rightarrow> Headers \<Rightarrow> (server, json) act" where
  "email_2fa E data headers =
     act_seq (PasswordOrOtpData_validate E \<lparr>po_master_password_hash = emd_master_password_hash data,
        po_otp = emd_otp data\<rparr> (h_user headers) True)
     (act_bind (act_get (TwoFactor_find_by_user_and_type (u_uuid (h_user headers))
        (TwoFactorType_i32 EmailVerificationChallenge))) (\<lambda>tf.
      act_bind (some_or ''Two factor not found'' tf) (\<lambda>tf.
      act_bind (act_sum (EmailTokenData_from_json E (tf_data tf))) (\<lambda>d.
      act_bind (some_or ''No token available'' (et_last_token d)) (\<lambda>issued.
      act_seq (err_if (\<not> ct_equal E issued (emd_token data)) ''Token is invalid'')
      (let d = EmailTokenData_reset_token d in
       act_seq (act_upd (TwoFactor_save (tf\<lparr>tf_atype := TwoFactorType_i32 Email, tf_data := EmailTokenData_to_json E d\<rparr>)))
       (act_seq (generate_recover_code E (h_user headers))
       (act_seq (act_upd (log_own E UserUpdated2fa headers))
       (act_ret (JObj [(''email'', JStr (et_email d)), (''enabled'', JStr ''true''), (''object'', JStr ''twoFactorEmail'')]))))))))))"

definition FAILED_2FA :: int where "FAILED_2FA = EventType_i32 UserFailedLogIn2fa"

definition email_code_expiry :: "env \<Rightarrow> EmailTokenData \<Rightarrow> (server, time) act" where
  "email_code_expiry E d =
     act_bind (expect ''Email token timestamp invalid.'' (naive_add 0 (et_token_sent d * NANOS))) (\<lambda>dt.
     act_bind (expect ''called `Option::unwrap()` on a `None` value''
        (try_seconds (sint (email_expiration_time (conf E))))) (\<lambda>max_time.
     expect ''`NaiveDateTime + TimeDelta` overflowed'' (naive_add dt max_time)))"

definition validate_email_code_str :: "env \<Rightarrow> UserId \<Rightarrow> string \<Rightarrow> string \<Rightarrow> string \<Rightarrow> (server, unit) act" where
  "validate_email_code_str E user token data ip =
     act_bind (act_sum (EmailTokenData_from_json E data)) (\<lambda>d.
     act_bind (act_get (TwoFactor_find_by_user_and_type user (TwoFactorType_i32 Email))) (\<lambda>tf.
     act_bind (some_or ''Two factor not found'' tf) (\<lambda>tf.
     case et_last_token d of
       None \<Rightarrow> act_err (ApiEvent (''No token available! IP: '' @ ip) FAILED_2FA)
     | Some issued \<Rightarrow>
         if \<not> ct_equal E issued token
         then let d = EmailTokenData_add_attempt d;
                  d = (if email_attempts_limit (conf E) \<le> et_attempts d then EmailTokenData_reset_token d else d) in
              act_seq (act_upd (TwoFactor_save (tf\<lparr>tf_data := EmailTokenData_to_json E d\<rparr>)))
              (act_err (ApiEvent (''Token is invalid! IP: '' @ ip) FAILED_2FA))
         else let d = EmailTokenData_reset_token d in
              act_seq (act_upd (TwoFactor_save (tf\<lparr>tf_data := EmailTokenData_to_json E d\<rparr>)))
              (act_bind (email_code_expiry E d) (\<lambda>expiry.
               act_bind (act_run (utc_now E)) (\<lambda>now.
               if expiry < now then act_err (ApiEvent ''Token has expired'' FAILED_2FA) else act_ret ()))))))"

text \<open>
  The address of a prompt keeps two bytes of the local part. Counting characters of the UTF-8 bytes
  is counting the bytes that start one; cutting after two bytes panics inside a character.
\<close>

definition utf8_start :: "char \<Rightarrow> bool" where
  "utf8_start c \<longleftrightarrow> \<not> (128 \<le> (of_char c :: nat) \<and> (of_char c :: nat) < 192)"

definition obscure_email :: "string \<Rightarrow> (server, string) act" where
  "obscure_email address =
     (case split_once CHR ''@'' (rev address) of
        None \<Rightarrow> act_err (Panic ''index out of bounds: the len is 1 but the index is 1'')
      | Some (host, loc) \<Rightarrow>
          let name = rev loc; name_size = length (filter utf8_start name) in
          act_bind
            (if 1 \<le> name_size \<and> name_size \<le> 3 then act_ret (replicate name_size CHR ''*'')
             else if name_size < 2 then act_err (Panic ''capacity overflow'')
             else if 2 < length name \<and> \<not> utf8_start (name ! 2)
             then act_err (Panic ''assertion failed: self.is_char_boundary(new_len)'')
             else act_ret (take 2 name @ replicate (name_size - 2) CHR ''*'')) (\<lambda>new_name.
          act_ret (new_name @ ''@'' @ rev host)))"

section \<open>Lemmas\<close>

lemma EmailTokenData_read_json [simp]:
  assumes "et_attempts d < 2 ^ 64" "fits 64 (et_token_sent d)"
  shows "EmailTokenData_read (JObj
     [(''email'', JStr (et_email d)), (''last_token'', json_opt (et_last_token d)),
      (''token_sent'', JInt (et_token_sent d)), (''attempts'', JInt (int (et_attempts d)))]) = Some d"
  using assms
  by (auto simp: EmailTokenData_read_def struct_field_def opt_field_def json_opt_str_def json_opt_def
      split: option.split)

end
