(* ===== verification/Login.thy ===== *)
theory Login
  imports SecondFactors
begin

text \<open>
  Logging in: the token endpoint of \<open>api/identity.rs\<close> with its grants (password or approved login
  request, refresh token, API key of a user or an organization), the second factor, and what it uses of
  \<open>auth.rs\<close>, \<open>api/mod.rs\<close>, \<open>api/push.rs\<close> and \<open>device.rs\<close>. Single sign-on is the parameter \<open>sso\<close>; the
  checks of WebAuthn, YubiKey and Duo are the fields \<open>other_factor\<close> and \<open>other_prompt\<close> of the
  environment, the push relay \<open>push_register\<close>.
\<close>

section \<open>Requests and tokens\<close>

record ConnectData =
  cd_grant_type :: string
  cd_refresh_token :: "string option"
  cd_client_id :: "string option"
  cd_client_secret :: "string option"
  cd_password :: "string option"
  cd_scope :: "string option"
  cd_username :: "string option"
  cd_device_identifier :: "DeviceId option"
  cd_device_name :: "string option"
  cd_device_type :: "string option"
  cd_two_factor_provider :: "int option"
  cd_two_factor_token :: "string option"
  cd_two_factor_remember :: "int option"
  cd_auth_request :: "AuthRequestId option"
  cd_code :: "string option"
  cd_code_verifier :: "string option"

text \<open>The local variable \<open>user_id\<close> of the handler, which the grants set for the event log, beside the
  server.\<close>

record login_state =
  ls_db :: server
  ls_user :: "UserId option"

definition on_db :: "(server, 'a) act \<Rightarrow> (login_state, 'a) act" where
  "on_db m s = (let (r, t) = m (ls_db s) in (r, s\<lparr>ls_db := t\<rparr>))"

definition set_user_id :: "UserId \<Rightarrow> (login_state, unit) act" where
  "set_user_id u = act_upd (\<lambda>s. s\<lparr>ls_user := Some u\<rparr>)"

definition FAILED_LOGIN :: int where "FAILED_LOGIN = EventType_i32 UserFailedLogIn"

definition err_event_if :: "bool \<Rightarrow> string \<Rightarrow> int \<Rightarrow> ('s, unit) act" where
  "err_event_if b msg ev = (if b then act_err (ApiEvent msg ev) else act_ret ())"

definition some_or_event :: "string \<Rightarrow> int \<Rightarrow> 'a option \<Rightarrow> ('s, 'a) act" where
  "some_or_event msg ev x = (case x of None \<Rightarrow> act_err (ApiEvent msg ev) | Some a \<Rightarrow> act_ret a)"

definition encoded :: "string option \<Rightarrow> (server, string) act" where
  "encoded t = some_or ''JWT encoding failed'' t"

definition LoginJwtClaims_expires_in :: "env \<Rightarrow> LoginJwtClaims \<Rightarrow> server \<Rightarrow> int \<times> server" where
  "LoginJwtClaims_expires_in E c s = (let (now, s) = utc_now E s in (lc_exp c - timestamp now, s))"

definition generate_2fa_remember_claims :: "env \<Rightarrow> DeviceId \<Rightarrow> UserId \<Rightarrow> server \<Rightarrow> TwoFactorRememberClaims \<times> server" where
  "generate_2fa_remember_claims E device user s =
     (let (now, s) = utc_now E s
      in (\<lparr>tr_nbf = timestamp now, tr_exp = timestamp (now + 30 * 86400 * NANOS),
           tr_iss = domain_origin (conf E) @ ''|2faremember'', tr_sub = device, tr_user_uuid = user\<rparr>, s))"

definition refresh_twofactor_remember :: "env \<Rightarrow> Device \<Rightarrow> (server, Device \<times> string) act" where
  "refresh_twofactor_remember E device =
     act_bind (act_run (generate_2fa_remember_claims E (d_uuid device) (d_user_uuid device))) (\<lambda>claims.
     act_bind (encoded (encode_remember E claims)) (\<lambda>token.
     act_ret (device\<lparr>d_twofactor_remember := Some token\<rparr>, token)))"

definition generate_organization_api_key_login_claims ::
  "env \<Rightarrow> OrgApiKeyId \<Rightarrow> OrganizationId \<Rightarrow> server \<Rightarrow> OrgApiKeyLoginJwtClaims \<times> server" where
  "generate_organization_api_key_login_claims E key org s =
     (let (now, s) = utc_now E s
      in (\<lparr>ol_nbf = timestamp now, ol_exp = timestamp (now + 3600 * NANOS),
           ol_iss = domain_origin (conf E) @ ''|api.organization'', ol_sub = key,
           ol_client_id = ''organization.'' @ org, ol_client_sub = org, ol_scope = [''api.organization'']\<rparr>, s))"

definition generate_verify_email_claims :: "env \<Rightarrow> UserId \<Rightarrow> (server, BasicJwtClaims) act" where
  "generate_verify_email_claims E user =
     act_bind (act_run (utc_now E)) (\<lambda>now.
     act_bind (expect ''called `Option::unwrap()` on a `None` value''
       (try_hours (int (invitation_expiration_hours (conf E))))) (\<lambda>d.
     act_ret \<lparr>bj_nbf = timestamp now, bj_exp = timestamp (now + d),
       bj_iss = domain_origin (conf E) @ ''|verifyemail'', bj_sub = user\<rparr>))"

definition send_verify_email :: "env \<Rightarrow> string \<Rightarrow> UserId \<Rightarrow> (server, unit) act" where
  "send_verify_email E address user =
     act_bind (generate_verify_email_claims E user) (\<lambda>claims. send_mail E (VerifyEmailMail address claims))"

section \<open>What a login answers\<close>

record MasterPasswordPolicy =
  mp_min_complexity :: "int option"
  mp_min_length :: "int option"
  mp_require_lower :: bool
  mp_require_upper :: bool
  mp_require_numbers :: bool
  mp_require_special :: bool
  mp_enforce_on_login :: bool

definition json_opt_uint :: "nat \<Rightarrow> json \<Rightarrow> int option option" where
  "json_opt_uint w j = (case j of JNull \<Rightarrow> Some None
     | JInt n \<Rightarrow> if 0 \<le> n \<and> n < 2 ^ w then Some (Some n) else None | _ \<Rightarrow> None)"

definition mp_fields :: "json \<Rightarrow> json option list" where
  "mp_fields j = (case j of
     JObj kvs \<Rightarrow> [opt_field ''minComplexity'' kvs, opt_field ''minLength'' kvs, struct_field [''requireLower''] j,
        struct_field [''requireUpper''] j, struct_field [''requireNumbers''] j, struct_field [''requireSpecial''] j,
        struct_field [''enforceOnLogin''] j]
   | JArr vs \<Rightarrow> map Some vs
   | _ \<Rightarrow> [])"

definition MasterPasswordPolicy_read :: "json \<Rightarrow> MasterPasswordPolicy option" where
  "MasterPasswordPolicy_read j = (case mp_fields j of
     [Some c, Some l, Some (JBool a), Some (JBool b), Some (JBool n), Some (JBool s), Some (JBool e)] \<Rightarrow>
       (case (json_opt_uint 8 c, json_opt_uint 32 l) of
          (Some c, Some l) \<Rightarrow> Some \<lparr>mp_min_complexity = c, mp_min_length = l, mp_require_lower = a, mp_require_upper = b,
             mp_require_numbers = n, mp_require_special = s, mp_enforce_on_login = e\<rparr>
        | _ \<Rightarrow> None)
   | _ \<Rightarrow> None)"

text \<open>\<open>Option::max\<close>: \<open>None\<close> is below every value.\<close>

definition opt_max :: "int option \<Rightarrow> int option \<Rightarrow> int option" where
  "opt_max a b = (case (a, b) of (Some x, Some y) \<Rightarrow> Some (max x y) | (None, _) \<Rightarrow> b | (_, None) \<Rightarrow> a)"

definition mp_merge :: "MasterPasswordPolicy \<Rightarrow> MasterPasswordPolicy \<Rightarrow> MasterPasswordPolicy" where
  "mp_merge a p = \<lparr>mp_min_complexity = opt_max (mp_min_complexity a) (mp_min_complexity p),
     mp_min_length = opt_max (mp_min_length a) (mp_min_length p),
     mp_require_lower = (mp_require_lower a \<or> mp_require_lower p),
     mp_require_upper = (mp_require_upper a \<or> mp_require_upper p),
     mp_require_numbers = (mp_require_numbers a \<or> mp_require_numbers p),
     mp_require_special = (mp_require_special a \<or> mp_require_special p),
     mp_enforce_on_login = (mp_enforce_on_login a \<or> mp_enforce_on_login p)\<rparr>"

definition mp_json :: "MasterPasswordPolicy \<Rightarrow> json" where
  "mp_json p = JObj [(''minComplexity'', json_opt_int (mp_min_complexity p)), (''minLength'', json_opt_int (mp_min_length p)),
     (''requireLower'', JBool (mp_require_lower p)), (''requireUpper'', JBool (mp_require_upper p)),
     (''requireNumbers'', JBool (mp_require_numbers p)), (''requireSpecial'', JBool (mp_require_special p)),
     (''enforceOnLogin'', JBool (mp_enforce_on_login p))]"

text \<open>\<open>value[key] = v\<close>: \<open>null\<close> becomes an object, any other value but an object panics.\<close>

definition json_set :: "string \<Rightarrow> json \<Rightarrow> json \<Rightarrow> (server, json) act" where
  "json_set k v j = (case j of
     JObj kvs \<Rightarrow> act_ret (JObj (filter (\<lambda>(x, _). x \<noteq> k) kvs @ [(k, v)]))
   | JNull \<Rightarrow> act_ret (JObj [(k, v)])
   | _ \<Rightarrow> act_err (Panic ''cannot access key in JSON value''))"

definition master_password_policy :: "env \<Rightarrow> User \<Rightarrow> (server, json) act" where
  "master_password_policy E user =
     act_bind (act_get (find_accepted_and_confirmed_by_user_and_active_policy (u_uuid user) MasterPassword)) (\<lambda>ps.
     json_set ''Object'' (JStr ''masterPasswordPolicy'')
       (case List.map_filter (\<lambda>p. Option.bind (json_parse E (op_data p)) MasterPasswordPolicy_read) ps of
          p # ps \<Rightarrow> mp_json (foldl mp_merge p ps)
        | [] \<Rightarrow> if sso_enabled (conf E)
               then (case sso_master_password_policy_value (conf E) of Some v \<Rightarrow> v | None \<Rightarrow> JObj [])
               else JObj []))"

definition register_push_device :: "env \<Rightarrow> Device \<Rightarrow> (server, Device) act" where
  "register_push_device E device =
     (if \<not> push_enabled (conf E) \<or> \<not> is_push_device device then act_ret device
      else if d_push_token device = None then act_ret device
      else
        act_bind (act_run (\<lambda>s. case d_push_uuid device of
            Some _ \<Rightarrow> (device, s)
          | None \<Rightarrow> (let (uuid, s) = get_uuid E s in (device\<lparr>d_push_uuid := Some uuid\<rparr>, s)))) (\<lambda>device.
        act_bind (act_run (\<lambda>s. (push_register E (tick s) device, bump s))) (\<lambda>answer.
        act_seq (case answer of Some e \<Rightarrow> act_err (Api e) | None \<Rightarrow> act_ret ())
        (act_run (Device_save E True device)))))"

definition kdf_fields :: "User \<Rightarrow> (string \<times> json) list" where
  "kdf_fields user = [(''Kdf'', JInt (u_client_kdf_type user)), (''KdfIterations'', JInt (u_client_kdf_iter user)),
     (''KdfMemory'', json_opt_int (u_client_kdf_memory user)), (''KdfParallelism'', json_opt_int (u_client_kdf_parallelism user))]"

definition master_password_unlock :: "User \<Rightarrow> json" where
  "master_password_unlock user =
     (if u_password_hash user \<noteq> [] then JObj
        [(''Kdf'', JObj [(''KdfType'', JInt (u_client_kdf_type user)), (''Iterations'', JInt (u_client_kdf_iter user)),
            (''Memory'', json_opt_int (u_client_kdf_memory user)),
            (''Parallelism'', json_opt_int (u_client_kdf_parallelism user))]),
         (''MasterKeyEncryptedUserKey'', JStr (u_akey user)), (''MasterKeyWrappedUserKey'', JStr (u_akey user)),
         (''Salt'', JStr (u_email user))]
      else JNull)"

definition account_keys :: "User \<Rightarrow> json" where
  "account_keys user =
     (if u_private_key user \<noteq> None then JObj
        [(''publicKeyEncryptionKeyPair'', JObj [(''wrappedPrivateKey'', json_opt (u_private_key user)),
            (''publicKey'', json_opt (u_public_key user)), (''Object'', JStr ''publicKeyEncryptionKeyPair'')]),
         (''Object'', JStr ''privateKeys'')]
      else JNull)"

definition decryption_options :: "User \<Rightarrow> json" where
  "decryption_options user = JObj [(''HasMasterPassword'', JBool (u_password_hash user \<noteq> [])),
     (''MasterPasswordUnlock'', master_password_unlock user), (''Object'', JStr ''userDecryptionOptions'')]"

text \<open>The mail about a new device, before it becomes known.\<close>

definition announce_device :: "env \<Rightarrow> User \<Rightarrow> Device \<Rightarrow> string \<Rightarrow> (server, unit) act" where
  "announce_device E user device ip =
     act_when (mail_enabled (conf E) \<and> Device_is_new device)
     (act_bind (act_run (utc_now E)) (\<lambda>now.
      act_catch (send_mail E (NewDeviceLoggedIn (u_email user) ip now (d_name device)
         (DeviceType_display (DeviceType_from_i32 (d_atype device)))))
      (\<lambda>_. err_event_if (require_device_email (conf E))
         ''Could not send login notification email. Please contact your administrator.'' FAILED_LOGIN)))"

definition authenticated_response ::
  "env \<Rightarrow> User \<Rightarrow> Device \<Rightarrow> AuthTokens \<Rightarrow> string option \<Rightarrow> string \<Rightarrow> (server, json) act" where
  "authenticated_response E user device tokens twofactor_token ip =
     act_seq (announce_device E user device ip)
     (act_bind (if Device_is_new device then act_ret device else register_push_device E device) (\<lambda>device.
      act_bind (act_run (Device_save E True device)) (\<lambda>device.
      act_bind (master_password_policy E user) (\<lambda>policy.
      act_bind (encoded (encode_login E (tok_access_claims tokens))) (\<lambda>access_token.
      act_bind (act_run (LoginJwtClaims_expires_in E (tok_access_claims tokens))) (\<lambda>expires_in.
      act_bind (encoded (encode_refresh E (tok_refresh_claims tokens))) (\<lambda>refresh_token.
      act_ret (JObj ([(''access_token'', JStr access_token), (''expires_in'', JInt expires_in),
         (''token_type'', JStr ''Bearer''), (''refresh_token'', JStr refresh_token),
         (''PrivateKey'', json_opt (u_private_key user))] @ kdf_fields user @
        [(''ResetMasterPassword'', JBool False), (''ForcePasswordReset'', JBool False),
         (''MasterPasswordPolicy'', policy), (''scope'', JStr (AuthTokens_scope tokens)),
         (''AccountKeys'', account_keys user), (''UserDecryptionOptions'', decryption_options user)]
        @ (if u_akey user \<noteq> [] then [(''Key'', JStr (u_akey user))] else [])
        @ (case twofactor_token of Some t \<Rightarrow> [(''TwoFactorToken'', JStr t)] | None \<Rightarrow> []))))))))))"

section \<open>The second factor\<close>

definition email_prompt :: "env \<Rightarrow> bool \<Rightarrow> UserId \<Rightarrow> string option \<Rightarrow> (server, json) act" where
  "email_prompt E only user client_version =
     act_bind (act_get (TwoFactor_find_by_user_and_type user (TwoFactorType_i32 Email))) (\<lambda>tf.
     act_bind (some_or ''No twofactor email registered'' tf) (\<lambda>tf.
     let disabled_send = (case client_version of Some cv \<Rightarrow> semver_matches E ''>=2025.5.0'' cv | None \<Rightarrow> False) in
     act_seq (act_when (only \<and> \<not> disabled_send) (send_token E user))
     (act_bind (act_sum (EmailTokenData_from_json E (tf_data tf))) (\<lambda>d.
      act_bind (obscure_email (et_email d)) (\<lambda>address.
      act_ret (JObj [(''Email'', JStr address)]))))))"

definition provider_prompt ::
  "env \<Rightarrow> bool \<Rightarrow> UserId \<Rightarrow> ConnectData \<Rightarrow> string option \<Rightarrow> int \<Rightarrow> (server, json) act" where
  "provider_prompt E only user data client_version provider =
     (case TwoFactorType_from_i32 provider of
        Some Webauthn \<Rightarrow>
          if webauthn_2fa_supported (conf E)
          then other_prompt E provider user (cd_client_id data) (cd_device_identifier data) else act_ret JNull
      | Some Duo \<Rightarrow>
          act_bind (act_get (User_find_by_uuid user)) (\<lambda>u.
          act_bind (some_or ''User does not exist'' u) (\<lambda>_.
          other_prompt E provider user (cd_client_id data) (cd_device_identifier data)))
      | Some YubiKey \<Rightarrow>
          act_bind (act_get (TwoFactor_find_by_user_and_type user (TwoFactorType_i32 YubiKey))) (\<lambda>tf.
          act_bind (some_or ''No YubiKey devices registered'' tf) (\<lambda>_.
          other_prompt E provider user (cd_client_id data) (cd_device_identifier data)))
      | Some Email \<Rightarrow> email_prompt E only user client_version
      | _ \<Rightarrow> act_ret JNull)"

primrec provider_prompts ::
  "env \<Rightarrow> bool \<Rightarrow> UserId \<Rightarrow> ConnectData \<Rightarrow> string option \<Rightarrow> int list \<Rightarrow> (server, (string \<times> json) list) act" where
  "provider_prompts E only user data cv [] = act_ret []"
| "provider_prompts E only user data cv (p # ps) =
     act_bind (provider_prompt E only user data cv p) (\<lambda>j.
     act_bind (provider_prompts E only user data cv ps) (\<lambda>js.
     act_ret ((int_to_string p, j) # js)))"

definition json_err_twofactor ::
  "env \<Rightarrow> int list \<Rightarrow> UserId \<Rightarrow> ConnectData \<Rightarrow> string option \<Rightarrow> (server, json) act" where
  "json_err_twofactor E providers user data client_version =
     act_bind (provider_prompts E (length providers = 1) user data client_version providers) (\<lambda>ps.
     act_ret (JObj [(''error'', JStr ''invalid_grant''), (''error_description'', JStr ''Two factor required.''),
        (''TwoFactorProviders'', JArr (map (\<lambda>p. JStr (int_to_string p)) providers)), (''TwoFactorProviders2'', JObj ps),
        (''MasterPasswordPolicy'', JObj [(''Object'', JStr ''masterPasswordPolicy'')])]))"

definition prompt_twofactor ::
  "env \<Rightarrow> int list \<Rightarrow> UserId \<Rightarrow> ConnectData \<Rightarrow> string option \<Rightarrow> string \<Rightarrow> (server, 'a) act" where
  "prompt_twofactor E providers user data client_version msg =
     act_bind (json_err_twofactor E providers user data client_version) (\<lambda>j. act_err (ApiJson j msg))"

definition decode_2fa_remember :: "env \<Rightarrow> string \<Rightarrow> (server, string + TwoFactorRememberClaims) act" where
  "decode_2fa_remember E token = act_run (\<lambda>s. (jwt_remember E (tick s) token, bump s))"

definition remember_ok :: "env \<Rightarrow> User \<Rightarrow> Device \<Rightarrow> string \<Rightarrow> (server, bool) act" where
  "remember_ok E user device code =
     (case d_twofactor_remember device of
        None \<Rightarrow> act_ret False
      | Some token \<Rightarrow>
          if \<not> disable_2fa_remember (conf E) \<and> ct_equal E token code
          then act_bind (decode_2fa_remember E code) (\<lambda>c. act_ret (case c of
                 Inl _ \<Rightarrow> False | Inr t \<Rightarrow> tr_sub t = d_uuid device \<and> tr_user_uuid t = u_uuid user))
          else act_ret False)"

text \<open>The check of the selected factor; a used recovery code changes the user.\<close>

definition check_factor ::
  "env \<Rightarrow> int list \<Rightarrow> TwoFactor option \<Rightarrow> int \<Rightarrow> string \<Rightarrow> User \<Rightarrow> ConnectData \<Rightarrow> Device \<Rightarrow> string \<Rightarrow> string option
     \<Rightarrow> (server, User) act" where
  "check_factor E ids selected selected_id code user data device ip client_version =
     (let selected_data = map_option tf_data selected in
      case TwoFactorType_from_i32 selected_id of
        Some Authenticator \<Rightarrow>
          act_bind (some_or ''Two factor doesn't exist'' selected_data) (\<lambda>secret.
          act_seq (validate_totp_code_str E (u_uuid user) code secret ip) (act_ret user))
      | Some Webauthn \<Rightarrow> act_seq (other_factor E selected_id user code [] (cd_client_id data) (cd_device_identifier data)) (act_ret user)
      | Some YubiKey \<Rightarrow>
          act_bind (some_or ''Two factor doesn't exist'' selected_data) (\<lambda>d.
          act_seq (other_factor E selected_id user code d (cd_client_id data) (cd_device_identifier data)) (act_ret user))
      | Some Duo \<Rightarrow> act_seq (other_factor E selected_id user code [] (cd_client_id data) (cd_device_identifier data)) (act_ret user)
      | Some Email \<Rightarrow>
          act_bind (some_or ''Two factor doesn't exist'' selected_data) (\<lambda>d.
          act_seq (validate_email_code_str E (u_uuid user) code d ip) (act_ret user))
      | Some Remember \<Rightarrow>
          act_bind (remember_ok E user device code) (\<lambda>ok.
          if ok then act_ret user
          else act_seq (act_when (d_twofactor_remember device \<noteq> None)
                 (act_void (act_run (Device_save E True (delete_twofactor_remember device)))))
               (prompt_twofactor E ids (u_uuid user) data client_version ''2FA Remember token not provided or expired''))
      | Some RecoveryCode \<Rightarrow>
          act_seq (err_if (\<not> check_valid_recovery_code E code user) ''Recovery code is incorrect. Try again.'')
          (act_seq (act_upd (TwoFactor_delete_all_by_user (u_uuid user)))
          (act_seq (enforce_2fa_policy E user (u_uuid user) (d_atype device) ip)
          (act_seq (act_upd (log_user_event E (EventType_i32 UserRecovered2fa) (u_uuid user) (d_atype device) ip))
          (User_save E (user\<lparr>u_totp_recover := None\<rparr>)))))
      | _ \<Rightarrow> act_err (ApiEvent ''Invalid two factor provider'' FAILED_2FA))"

definition twofactor_auth ::
  "env \<Rightarrow> User \<Rightarrow> ConnectData \<Rightarrow> Device \<Rightarrow> string \<Rightarrow> string option \<Rightarrow> (server, User \<times> Device \<times> string option) act" where
  "twofactor_auth E user data device ip client_version =
     act_bind (act_get (TwoFactor_find_by_user (u_uuid user))) (\<lambda>twofactors.
     if twofactors = []
     then act_seq (enforce_2fa_policy E user (u_uuid user) (d_atype device) ip) (act_ret (user, device, None))
     else
     act_seq (act_upd (ti_mark_incomplete E (u_uuid user) (d_uuid device) (d_name device) (d_atype device) ip))
     (let ids = map tf_atype (filter (\<lambda>tf. tf_enabled tf \<and> usable_row E tf) twofactors) in
      act_seq (err_if (ids = []) ''No enabled and usable two factor providers are available for this account'')
      (let selected_id = (case cd_two_factor_provider data of Some p \<Rightarrow> p | None \<Rightarrow> List.hd ids) in
       act_seq (act_when (selected_id \<notin> {TwoFactorType_i32 Remember, TwoFactorType_i32 RecoveryCode}
             \<and> selected_id \<notin> set ids)
           (prompt_twofactor E ids (u_uuid user) data client_version ''Invalid two factor provider''))
       (act_bind (case cd_two_factor_token data of
            Some code \<Rightarrow> act_ret code
          | None \<Rightarrow> prompt_twofactor E ids (u_uuid user) data client_version ''2FA token not provided'') (\<lambda>code.
        let selected = List.find (\<lambda>tf. tf_atype tf = selected_id \<and> tf_enabled tf) twofactors in
        act_bind (check_factor E ids selected selected_id code user data device ip client_version) (\<lambda>user.
        act_seq (act_upd (ti_mark_complete E (u_uuid user) (d_uuid device)))
        (if \<not> disable_2fa_remember (conf E) \<and> cd_two_factor_remember data = Some 1
         then act_bind (refresh_twofactor_remember E device) (\<lambda>(device, token). act_ret (user, device, Some token))
         else act_ret (user, device, None))))))))"

section \<open>The grants\<close>

definition get_device :: "env \<Rightarrow> ConnectData \<Rightarrow> User \<Rightarrow> (server, Device) act" where
  "get_device E data user =
     (let device_type = (case Option.bind (cd_device_type data) (parse_int 32) of Some n \<Rightarrow> n | None \<Rightarrow> 14) in
      act_bind (expect ''No device id provided'' (cd_device_identifier data)) (\<lambda>device_id.
      act_bind (expect ''No device name provided'' (cd_device_name data)) (\<lambda>device_name.
      act_bind (act_get (Device_find_by_uuid_and_user device_id (u_uuid user))) (\<lambda>d.
      case d of
        Some device \<Rightarrow> act_ret device
      | None \<Rightarrow>
          act_bind (act_run (Device_new E device_id (u_uuid user) device_name device_type)) (\<lambda>device.
          act_run (Device_save E False device))))))"

definition refresh_login ::
  "env \<Rightarrow> (Device \<Rightarrow> User \<Rightarrow> string option \<Rightarrow> RefreshJwtClaims \<Rightarrow> (server, AuthTokens) act) \<Rightarrow> ConnectData
     \<Rightarrow> (server, json) act" where
  "refresh_login E exchange data =
     (let invalid = JObj [(''error'', JStr ''invalid_grant'')] in
      case cd_refresh_token data of
        None \<Rightarrow> act_err (ApiJson invalid ''Missing refresh_token'')
      | Some refresh_token \<Rightarrow>
          act_bind (act_catch (refresh_tokens E exchange refresh_token (cd_client_id data))
             (\<lambda>msg. act_err (ApiJson invalid (''Unable to refresh login credentials: '' @ msg)))) (\<lambda>(device, tokens).
          act_bind (act_run (Device_save E True device)) (\<lambda>_.
          act_bind (encoded (encode_refresh E (tok_refresh_claims tokens))) (\<lambda>refresh.
          act_bind (encoded (encode_login E (tok_access_claims tokens))) (\<lambda>access.
          act_bind (act_run (LoginJwtClaims_expires_in E (tok_access_claims tokens))) (\<lambda>expires_in.
          act_ret (JObj [(''refresh_token'', JStr refresh), (''access_token'', JStr access),
             (''expires_in'', JInt expires_in), (''token_type'', JStr ''Bearer''),
             (''scope'', JStr (AuthTokens_scope tokens))])))))))"

text \<open>\<open>if let Err(e) = user.save(..) { error!(..) }\<close>: the handler goes on with the user it has.\<close>

definition try_save :: "env \<Rightarrow> User \<Rightarrow> (server, User) act" where
  "try_save E user = act_catch (User_save E user) (\<lambda>_. act_ret user)"

definition kdf_upgrade :: "env \<Rightarrow> User \<Rightarrow> string \<Rightarrow> (server, User) act" where
  "kdf_upgrade E user pwd_hash =
     (if u_password_iterations user < password_iterations (conf E)
      then act_bind (set_password E pwd_hash None False None
             (user\<lparr>u_password_iterations := password_iterations (conf E)\<rparr>)) (try_save E)
      else act_ret user)"

text \<open>The password of a login is the master password hash, or the access code of a login request that
  another device approved.\<close>

definition request_refused :: "env \<Rightarrow> AuthRequest \<Rightarrow> User \<Rightarrow> string \<Rightarrow> string \<Rightarrow> time \<Rightarrow> time \<Rightarrow> bool" where
  "request_refused E a user ip password expiration_time now \<longleftrightarrow>
     aq_user_uuid a \<noteq> u_uuid user \<or> aq_approved a \<noteq> Some True \<or> expiration_time \<le> now
     \<or> ip \<noteq> aq_request_ip a \<or> \<not> check_access_code E password a"

definition check_credentials :: "env \<Rightarrow> ConnectData \<Rightarrow> User \<Rightarrow> string \<Rightarrow> string \<Rightarrow> (server, unit) act" where
  "check_credentials E data user password ip =
     (case cd_auth_request data of
        Some rid \<Rightarrow>
          act_bind (act_get (AuthRequest_find_by_uuid_and_user rid (u_uuid user))) (\<lambda>a.
          act_bind (some_or_event ''Auth request not found. Try again.'' FAILED_LOGIN a) (\<lambda>a.
          act_bind (expect ''`NaiveDateTime + TimeDelta` overflowed'' (naive_add (aq_creation_date a) (5 * 60 * NANOS)))
            (\<lambda>expiration_time.
          act_bind (act_run (utc_now E)) (\<lambda>now.
          err_event_if (request_refused E a user ip password expiration_time now)
            ''Username or access code is incorrect. Try again'' FAILED_LOGIN))))
      | None \<Rightarrow>
          act_bind (act_sum (check_valid_password E password user)) (\<lambda>ok.
          err_event_if (\<not> ok) ''Username or password is incorrect. Try again'' FAILED_LOGIN))"

text \<open>A user who has to verify the address first: a reminder at most every so often, and no login.\<close>

definition refuse_unverified :: "env \<Rightarrow> User \<Rightarrow> time \<Rightarrow> (server, unit) act" where
  "refuse_unverified E user now =
     act_when (u_verified_at user = None \<and> mail_enabled (conf E) \<and> signups_verify (conf E))
     (let resend_limit = sint (signups_verify_resend_limit (conf E)) in
      act_seq
        (act_when ((case u_last_verifying_at user of None \<Rightarrow> True
             | Some t \<Rightarrow> sint (signups_verify_resend_time (conf E)) < (now - t) sdiv NANOS)
            \<and> (resend_limit = 0 \<or> u_login_verify_count user < resend_limit))
          (act_bind (try_save E (user\<lparr>u_last_verifying_at := Some now,
               u_login_verify_count := i32_wrap (u_login_verify_count user + 1)\<rparr>)) (\<lambda>user.
           act_ignore (send_verify_email E (u_email user) (u_uuid user)))))
        (act_err (ApiEvent ''Please verify your email before trying again.'' FAILED_LOGIN)))"

definition password_login :: "env \<Rightarrow> ConnectData \<Rightarrow> string \<Rightarrow> string option \<Rightarrow> (login_state, json) act" where
  "password_login E data ip client_version =
     act_bind (act_sum (AuthMethod_check_scope Password (cd_scope data))) (\<lambda>_.
     act_seq (on_db (check_limit_login E ip))
     (act_bind (expect ''called `Option::unwrap()` on a `None` value'' (cd_username data)) (\<lambda>username.
      act_bind (on_db (act_get (User_find_by_mail E (trim_of E username)))) (\<lambda>u.
      act_bind (some_or ''Username or password is incorrect. Try again'' u) (\<lambda>user.
      act_seq (set_user_id (u_uuid user))
      (act_seq (err_event_if (\<not> u_enabled user) ''This user has been disabled'' FAILED_LOGIN)
      (act_bind (expect ''called `Option::unwrap()` on a `None` value'' (cd_password data)) (\<lambda>password.
       on_db
       (act_seq (check_credentials E data user password ip)
       (act_bind (if cd_auth_request data = None then kdf_upgrade E user password else act_ret user) (\<lambda>user.
        act_bind (act_run (utc_now E)) (\<lambda>now.
        act_seq (refuse_unverified E user now)
        (act_bind (get_device E data user) (\<lambda>device.
         act_bind (twofactor_auth E user data device ip client_version) (\<lambda>(user, device, twofactor_token).
         act_bind (act_run (AuthTokens_new E device user Password (cd_client_id data))) (\<lambda>auth_tokens.
         authenticated_response E user device auth_tokens twofactor_token ip))))))))))))))))"

definition user_api_key_login :: "env \<Rightarrow> ConnectData \<Rightarrow> string \<Rightarrow> (login_state, json) act" where
  "user_api_key_login E data ip =
     act_bind (expect ''called `Option::unwrap()` on a `None` value'' (cd_client_id data)) (\<lambda>client_id.
     act_bind (some_or ''Malformed client_id''
       (if take 5 client_id = ''user.'' then Some (drop 5 client_id) else None)) (\<lambda>client_user_id.
     act_bind (on_db (act_get (User_find_by_uuid client_user_id))) (\<lambda>u.
     act_bind (some_or ''Invalid client_id'' u) (\<lambda>user.
     act_seq (set_user_id (u_uuid user))
     (act_seq (err_event_if (\<not> u_enabled user) ''This user has been disabled (API key login)'' FAILED_LOGIN)
     (act_bind (expect ''called `Option::unwrap()` on a `None` value'' (cd_client_secret data)) (\<lambda>client_secret.
      act_seq (err_event_if (\<not> check_valid_api_key E client_secret user) ''Incorrect client_secret'' FAILED_LOGIN)
      (on_db
       (act_bind (get_device E data user) (\<lambda>device.
        act_seq (announce_device E user device ip)
        (act_bind (act_run (LoginJwtClaims_default E device user UserApiKey (cd_client_id data))) (\<lambda>access_claims.
         act_bind (act_run (Device_save E True device)) (\<lambda>_.
         act_bind (encoded (encode_login E access_claims)) (\<lambda>access_token.
         act_bind (act_run (LoginJwtClaims_expires_in E access_claims)) (\<lambda>expires_in.
         act_ret (JObj ([(''access_token'', JStr access_token), (''expires_in'', JInt expires_in),
            (''token_type'', JStr ''Bearer''), (''Key'', JStr (u_akey user)),
            (''PrivateKey'', json_opt (u_private_key user))] @ kdf_fields user @
           [(''ResetMasterPassword'', JBool False), (''ForcePasswordReset'', JBool False),
            (''scope'', JStr (AuthMethod_scope UserApiKey)), (''AccountKeys'', account_keys user),
            (''UserDecryptionOptions'', decryption_options user)])))))))))))))))) )"

definition organization_api_key_login :: "env \<Rightarrow> ConnectData \<Rightarrow> (server, json) act" where
  "organization_api_key_login E data =
     act_bind (expect ''called `Option::unwrap()` on a `None` value'' (cd_client_id data)) (\<lambda>client_id.
     act_bind (some_or ''Malformed client_id''
       (if take 13 client_id = ''organization.'' then Some (drop 13 client_id) else None)) (\<lambda>org_id.
     act_bind (act_get (OrganizationApiKey_find_by_org_uuid org_id)) (\<lambda>k.
     act_bind (some_or ''Invalid client_id'' k) (\<lambda>org_api_key.
     act_bind (expect ''called `Option::unwrap()` on a `None` value'' (cd_client_secret data)) (\<lambda>client_secret.
     act_seq (err_if (\<not> OrganizationApiKey_check_valid_api_key E client_secret org_api_key) ''Incorrect client_secret'')
     (act_bind (act_run (generate_organization_api_key_login_claims E (ok_uuid org_api_key) (ok_org_uuid org_api_key))) (\<lambda>claim.
      act_bind (encoded (encode_org_key E claim)) (\<lambda>access_token.
      act_ret (JObj [(''access_token'', JStr access_token), (''expires_in'', JInt 3600), (''token_type'', JStr ''Bearer''),
         (''scope'', JStr (AuthMethod_scope OrgApiKey))])))))))))"

definition api_key_login :: "env \<Rightarrow> ConnectData \<Rightarrow> string \<Rightarrow> (login_state, json) act" where
  "api_key_login E data ip =
     act_seq (on_db (check_limit_login E ip))
     (if cd_scope data = Some (AuthMethod_scope UserApiKey) then user_api_key_login E data ip
      else if cd_scope data = Some (AuthMethod_scope OrgApiKey) then on_db (organization_api_key_login E data)
      else act_err (Api ''Scope not supported''))"

section \<open>The token endpoint\<close>

definition check_is_some :: "'a option \<Rightarrow> string \<Rightarrow> ('s, unit) act" where
  "check_is_some value msg = err_if (value = None) msg"

definition check_device_fields :: "ConnectData \<Rightarrow> ('s, unit) act" where
  "check_device_fields data =
     act_seq (check_is_some (cd_device_identifier data) ''device_identifier cannot be blank'')
     (act_seq (check_is_some (cd_device_name data) ''device_name cannot be blank'')
     (check_is_some (cd_device_type data) ''device_type cannot be blank''))"

type_synonym sso_params =
  "(Device \<Rightarrow> User \<Rightarrow> string option \<Rightarrow> RefreshJwtClaims \<Rightarrow> (server, AuthTokens) act)
   \<times> (ConnectData \<Rightarrow> string \<Rightarrow> string option \<Rightarrow> (login_state, json) act)"

definition login_result ::
  "env \<Rightarrow> sso_params \<Rightarrow> ConnectData \<Rightarrow> ClientHeaders \<Rightarrow> string option \<Rightarrow> (login_state, json) act" where
  "login_result E sso data ch client_version =
     (if cd_grant_type data = ''refresh_token''
      then act_seq (check_is_some (cd_refresh_token data) ''refresh_token cannot be blank'')
           (on_db (refresh_login E (fst sso) data))
      else if cd_grant_type data = ''password'' \<and> sso_enabled (conf E) \<and> sso_only (conf E)
      then act_err (Api ''SSO sign-in is required'')
      else if cd_grant_type data = ''password''
      then act_seq (check_is_some (cd_client_id data) ''client_id cannot be blank'')
           (act_seq (check_is_some (cd_password data) ''password cannot be blank'')
           (act_seq (check_is_some (cd_scope data) ''scope cannot be blank'')
           (act_seq (check_is_some (cd_username data) ''username cannot be blank'')
           (act_seq (check_device_fields data)
           (password_login E data (ch_ip ch) client_version)))))
      else if cd_grant_type data = ''client_credentials''
      then act_seq (check_is_some (cd_client_id data) ''client_id cannot be blank'')
           (act_seq (check_is_some (cd_client_secret data) ''client_secret cannot be blank'')
           (act_seq (check_is_some (cd_scope data) ''scope cannot be blank'')
           (act_seq (check_device_fields data)
           (api_key_login E data (ch_ip ch)))))
      else if cd_grant_type data = ''authorization_code'' \<and> sso_enabled (conf E)
      then act_seq (check_is_some (cd_client_id data) ''client_id cannot be blank'')
           (act_seq (check_is_some (cd_code data) ''code cannot be blank'')
           (act_seq (check_is_some (cd_code_verifier data) ''code verifier cannot be blank'')
           (act_seq (check_device_fields data)
           (snd sso data (ch_ip ch) client_version))))
      else if cd_grant_type data = ''authorization_code'' then act_err (Api ''SSO sign-in is not available'')
      else act_err (Api ''Invalid type''))"

text \<open>The event of a login: success, or the event of the error; a panic leaves none.\<close>

definition login_event :: "api_err + json \<Rightarrow> int option" where
  "login_event r = (case r of
     Inr _ \<Rightarrow> Some (EventType_i32 UserLoggedIn)
   | Inl (ApiEvent msg ev) \<Rightarrow> Some ev
   | Inl _ \<Rightarrow> None)"

definition login :: "env \<Rightarrow> sso_params \<Rightarrow> ConnectData \<Rightarrow> ClientHeaders \<Rightarrow> string option \<Rightarrow> (server, json) act" where
  "login E sso data ch client_version s =
     (let (r, t) = login_result E sso data ch client_version \<lparr>ls_db = s, ls_user = None\<rparr> in
      (r, case (ls_user t, login_event r) of
            (Some u, Some ev) \<Rightarrow> log_user_event E ev u (ch_device_type ch) (ch_ip ch) (ls_db t)
          | _ \<Rightarrow> ls_db t))"

end
