(* ===== verification/AccountApi.thy ===== *)
theory AccountApi
  imports Login
begin

text \<open>
  Accounts: the handlers of \<open>api/core/accounts.rs\<close> for registration, passwords and keys, changes of the
  e-mail address, verification, deletion, hints, API keys and devices, and the registration mail of
  \<open>api/identity.rs\<close>. Handlers that answer with a profile answer with the user; notifications are
  outside the model. The rotation of all keys is in \<open>KeyRotation\<close>.
\<close>

section \<open>Key derivation and hints\<close>

record KDFData =
  kd_kdf :: int
  kd_kdf_iterations :: int
  kd_kdf_memory :: "int option"
  kd_kdf_parallelism :: "int option"

record KeysData =
  ky_encrypted_private_key :: string
  ky_public_key :: string

definition UserKdfType_Pbkdf2 :: int where "UserKdfType_Pbkdf2 = 0"
definition UserKdfType_Argon2id :: int where "UserKdfType_Argon2id = 1"

definition set_kdf_data :: "User \<Rightarrow> KDFData \<Rightarrow> api_err + User" where
  "set_kdf_data user data =
     (if kd_kdf data = UserKdfType_Pbkdf2 \<and> kd_kdf_iterations data < 100000
      then Inl (Api ''PBKDF2 KDF iterations must be at least 100000.'')
      else let done = (\<lambda>mem par. Inr (user\<lparr>u_client_kdf_memory := mem, u_client_kdf_parallelism := par,
             u_client_kdf_iter := kd_kdf_iterations data, u_client_kdf_type := kd_kdf data\<rparr>)) in
      if kd_kdf data = UserKdfType_Argon2id
      then if kd_kdf_iterations data < 1 then Inl (Api ''Argon2 KDF iterations must be at least 1.'')
           else case kd_kdf_memory data of
             None \<Rightarrow> Inl (Api ''Argon2 memory parameter is required.'')
           | Some m \<Rightarrow>
               if \<not> (15 \<le> m \<and> m \<le> 1024) then Inl (Api ''Argon2 memory must be between 15 MB and 1024 MB.'')
               else (case kd_kdf_parallelism data of
                   None \<Rightarrow> Inl (Api ''Argon2 parallelism parameter is required.'')
                 | Some p \<Rightarrow>
                     if \<not> (1 \<le> p \<and> p \<le> 16) then Inl (Api ''Argon2 parallelism must be between 1 and 16.'')
                     else done (Some m) (Some p))
      else done None None)"

definition clean_password_hint :: "env \<Rightarrow> string option \<Rightarrow> string option" where
  "clean_password_hint E hint = (case hint of None \<Rightarrow> None
     | Some h \<Rightarrow> if trim_of E h = [] then None else Some (trim_of E h))"

definition enforce_password_hint_setting :: "env \<Rightarrow> string option \<Rightarrow> (server, unit) act" where
  "enforce_password_hint_setting E hint =
     err_if (hint \<noteq> None \<and> \<not> password_hints_allowed (conf E))
       ''Password hints have been disabled by the administrator. Remove the hint and try again.''"

definition is_email_2fa_required :: "env \<Rightarrow> MembershipId option \<Rightarrow> server \<Rightarrow> bool" where
  "is_email_2fa_required E member s =
     (if \<not> enable_email_2fa (conf E) then False
      else if email_2fa_enforce_on_verified_invite (conf E) then True
      else case member of Some m \<Rightarrow> is_enabled_for_member m TwoFactorAuthentication s | None \<Rightarrow> False)"

definition is_signup_allowed :: "env \<Rightarrow> string \<Rightarrow> bool" where
  "is_signup_allowed E address =
     (if signups_domains_whitelist (conf E) = [] then signups_allowed (conf E) else is_email_domain_allowed E address)"

section \<open>Registration\<close>

record RegisterData =
  rg_email :: string
  rg_kdf :: KDFData
  rg_key :: string
  rg_keys :: "KeysData option"
  rg_master_password_hash :: string
  rg_master_password_hint :: "string option"
  rg_name :: "string option"
  rg_organization_user_id :: "MembershipId option"
  rg_email_verification_token :: "string option"
  rg_accept_emergency_access_id :: "EmergencyAccessId option"
  rg_accept_emergency_access_invite_token :: "string option"
  rg_org_invite_token :: "string option"

definition decode_register_verify :: "env \<Rightarrow> string \<Rightarrow> (server, RegisterVerifyClaims) act" where
  "decode_register_verify E token s =
     (case jwt_register E (tick s) token of Inl e \<Rightarrow> (Inl (Api e), bump s) | Inr c \<Rightarrow> (Inr c, bump s))"

text \<open>The token of a finished registration: the name, whether the address is verified, and whether the
  registration accepts emergency access.\<close>

definition check_register_tokens :: "env \<Rightarrow> RegisterData \<Rightarrow> (server, string option \<times> bool \<times> bool) act" where
  "check_register_tokens E data =
     (case (rg_email_verification_token data, rg_accept_emergency_access_id data,
          rg_accept_emergency_access_invite_token data, rg_organization_user_id data, rg_org_invite_token data) of
        (Some token, None, None, None, None) \<Rightarrow>
          act_bind (decode_register_verify E token) (\<lambda>claims.
          act_seq (err_if (rv_sub claims \<noteq> rg_email data) ''Email verification token does not match email'')
          (act_ret (if rv_name claims \<noteq> None then rv_name claims else rg_name data, rv_verified claims, False)))
      | (None, Some emer_id, Some token, None, None) \<Rightarrow>
          act_seq (err_if (\<not> emergency_access_allowed (conf E)) ''Emergency access is not enabled.'')
          (act_bind (decode_emergency_access_invite E token) (\<lambda>claims.
           act_seq (err_if (ec_email claims \<noteq> rg_email data) ''Claim email does not match email'')
           (act_seq (err_if (ec_emer_id claims \<noteq> emer_id) ''Claim emer_id does not match accept_emergency_access_id'')
           (act_ret (rg_name data, True, True)))))
      | (None, None, None, Some member_id, Some token) \<Rightarrow>
          act_bind (decode_invite E token) (\<lambda>claims.
          act_seq (err_if (ic_email claims \<noteq> rg_email data) ''Claim email does not match email'')
          (act_seq (err_if (ic_member_id claims \<noteq> member_id) ''Claim org_user_id does not match organization_user_id'')
          (act_ret (rg_name data, True, False))))
      | _ \<Rightarrow> act_err (Api ''Registration is missing required parameters''))"

definition NOT_ALLOWED :: string where "NOT_ALLOWED = ''Registration not allowed or user already exists''"

text \<open>The row that the registration fills: an invited stub without a password, or a new user.\<close>

definition register_user ::
  "env \<Rightarrow> RegisterData \<Rightarrow> string \<Rightarrow> bool \<Rightarrow> bool \<Rightarrow> (server, User \<times> bool) act" where
  "register_user E data address email_verified pending_emergency =
     act_bind (act_get (User_find_by_mail E address)) (\<lambda>u.
     case u of
       Some user \<Rightarrow>
         act_seq (err_if (u_password_hash user \<noteq> []) NOT_ALLOWED)
         (case rg_org_invite_token data of
            Some token \<Rightarrow>
              act_bind (decode_invite E token) (\<lambda>claims.
              if ic_email claims = address then act_ret (user, True)
              else act_err (Api ''Registration email does not match invite email''))
          | None \<Rightarrow>
              act_bind (act_run (Invitation_take E address)) (\<lambda>taken.
              if taken then act_seq (act_upd (accept_user_invitations (u_uuid user))) (act_ret (user, email_verified))
              else act_bind (act_get (\<lambda>s. is_signup_allowed E address
                  \<or> emergency_access_allowed (conf E) \<and> find_invited_by_grantee_email address s \<noteq> None)) (\<lambda>ok.
                if ok then act_ret (user, email_verified) else act_err (Api NOT_ALLOWED))))
     | None \<Rightarrow>
         act_bind (act_run (Invitation_take E address)) (\<lambda>taken.
         if taken \<or> is_signup_allowed E address \<or> pending_emergency
         then act_bind (act_run (User_new E address None)) (\<lambda>user. act_ret (user, email_verified))
         else act_err (Api NOT_ALLOWED)))"

definition send_welcome_must_verify :: "env \<Rightarrow> string \<Rightarrow> UserId \<Rightarrow> (server, unit) act" where
  "send_welcome_must_verify E address user =
     act_bind (generate_verify_email_claims E user) (\<lambda>claims. send_mail E (WelcomeMustVerify address claims))"

definition register_mails ::
  "env \<Rightarrow> User \<Rightarrow> bool \<Rightarrow> MembershipId option \<Rightarrow> (server, User) act" where
  "register_mails E user email_verified member =
     (if mail_enabled (conf E)
      then act_bind
             (if signups_verify (conf E) \<and> \<not> email_verified
              then act_seq (act_ignore (send_welcome_must_verify E (u_email user) (u_uuid user)))
                   (act_ret (user\<lparr>u_last_verifying_at := Some (u_created_at user)\<rparr>))
              else act_seq (act_ignore (send_mail E (Welcome (u_email user)))) (act_ret user)) (\<lambda>user.
           act_bind (act_get (is_email_2fa_required E member)) (\<lambda>required.
           act_seq (act_when (email_verified \<and> required) (act_ignore (activate_email_2fa E user)))
           (act_ret user)))
      else act_ret user)"

definition with_keys :: "KeysData option \<Rightarrow> User \<Rightarrow> User" where
  "with_keys keys user = (case keys of None \<Rightarrow> user
     | Some k \<Rightarrow> user\<lparr>u_private_key := Some (ky_encrypted_private_key k), u_public_key := Some (ky_public_key k)\<rparr>)"

definition register :: "env \<Rightarrow> RegisterData \<Rightarrow> bool \<Rightarrow> (server, json) act" where
  "register E data email_verification =
     (let address = lowercase_of E (rg_email data) in
     act_bind (if email_verification then check_register_tokens E data
               else act_ret (rg_name data, False, False)) (\<lambda>(name, email_verified, pending_emergency).
     act_seq (err_if (opt_is name (\<lambda>n. 50 < length n)) ''The field Name must be a string with a maximum length of 50.'')
     (let password_hint = clean_password_hint E (rg_master_password_hint data) in
      act_seq (enforce_password_hint_setting E password_hint)
      (act_bind (register_user E data address email_verified pending_emergency) (\<lambda>(user, email_verified).
       act_bind (act_run (Invitation_take E address)) (\<lambda>_.
       act_bind (act_sum (set_kdf_data user (rg_kdf data))) (\<lambda>user.
       act_bind (set_password E (rg_master_password_hash data) (Some (rg_key data)) True None user) (\<lambda>user.
       let user = user\<lparr>u_password_hint := password_hint\<rparr>;
           user = (case name of Some n \<Rightarrow> user\<lparr>u_name := n\<rparr> | None \<Rightarrow> user);
           user = with_keys (rg_keys data) user in
       act_bind (if email_verified then act_bind (act_run (utc_now E)) (\<lambda>now. act_ret (user\<lparr>u_verified_at := Some now\<rparr>))
                 else act_ret user) (\<lambda>user.
       act_bind (register_mails E user email_verified (rg_organization_user_id data)) (\<lambda>user.
       act_bind (User_save E user) (\<lambda>user.
       act_seq (act_when (\<not> mail_enabled (conf E) \<and> emergency_access_allowed (conf E))
         (act_bind (act_get (find_all_invited_by_grantee_email (u_email user))) (\<lambda>invites.
          act_for invites (\<lambda>ea. act_ignore (EmergencyAccess_accept_invite E (u_uuid user) (u_email user) ea)))))
       (act_ret (JObj [(''object'', JStr ''register''), (''captchaBypassToken'', JStr '''')])))))))))))))"

definition identity_register :: "env \<Rightarrow> RegisterData \<Rightarrow> (server, json) act" where
  "identity_register E data = register E data False"

definition register_finish :: "env \<Rightarrow> RegisterData \<Rightarrow> (server, json) act" where
  "register_finish E data = register E data True"

datatype RegisterVerificationResponse = NoContent | Token string

definition generate_register_verify_claims ::
  "env \<Rightarrow> string \<Rightarrow> string option \<Rightarrow> bool \<Rightarrow> server \<Rightarrow> RegisterVerifyClaims \<times> server" where
  "generate_register_verify_claims E address name verified s =
     (let (now, s) = utc_now E s
      in (\<lparr>rv_nbf = timestamp now, rv_exp = timestamp (now + 30 * 60 * NANOS),
           rv_iss = domain_origin (conf E) @ ''|register_verify'', rv_sub = address, rv_name = name, rv_verified = verified\<rparr>, s))"

definition register_verification_email ::
  "env \<Rightarrow> string \<Rightarrow> string option \<Rightarrow> (server, RegisterVerificationResponse) act" where
  "register_verification_email E address name =
     act_bind (act_get (\<lambda>s. is_signup_allowed E address
         \<or> \<not> mail_enabled (conf E) \<and> Invitation_find_by_mail E address s \<noteq> None)) (\<lambda>ok.
     act_seq (err_if (\<not> ok) NOT_ALLOWED)
     (let should_send_mail = (mail_enabled (conf E) \<and> signups_verify (conf E)) in
      act_bind (act_run (generate_register_verify_claims E address name should_send_mail)) (\<lambda>claims.
      act_bind (encoded (encode_register E claims)) (\<lambda>token.
      if should_send_mail
      then act_bind (act_get (User_find_by_mail E address)) (\<lambda>user.
           act_seq (if opt_is user (\<lambda>u. u_private_key u \<noteq> None) then act_ret ()
                    else send_mail E (RegisterVerifyEmail address claims))
           (act_ret NoContent))
      else act_ret (Token token)))))"

section \<open>Passwords and keys\<close>

record SetPasswordData =
  sp_kdf :: KDFData
  sp_key :: string
  sp_keys :: "KeysData option"
  sp_master_password_hash :: string
  sp_master_password_hint :: "string option"
  sp_org_identifier :: "string option"

definition FAKE_SSO_IDENTIFIER :: string where
  "FAKE_SSO_IDENTIFIER = ''00000000-01DC-01DC-01DC-000000000000''"

definition join_org :: "env \<Rightarrow> User \<Rightarrow> string option \<Rightarrow> (server, unit) act" where
  "join_org E user identifier = (case identifier of
     None \<Rightarrow> act_ret ()
   | Some i \<Rightarrow> act_when (i \<noteq> FAKE_SSO_IDENTIFIER \<and> i \<noteq> FAKE_ADMIN_UUID)
       (act_bind (act_get (Organization_find_by_uuid i)) (\<lambda>org.
        act_bind (some_or ''Failed to retrieve the associated organization'' org) (\<lambda>org.
        act_bind (act_get (Membership_find_by_user_and_org (u_uuid user) (o_uuid org))) (\<lambda>m.
        act_bind (some_or ''Failed to retrieve the invitation'' m) (\<lambda>m.
        accept_org_invite E user m None))))))"

definition post_set_password :: "env \<Rightarrow> SetPasswordData \<Rightarrow> Headers \<Rightarrow> (server, json) act" where
  "post_set_password E data headers =
     act_seq (err_if (u_private_key (h_user headers) \<noteq> None) ''Account already initialized, cannot set password'')
     (let password_hint = clean_password_hint E (sp_master_password_hint data) in
      act_seq (enforce_password_hint_setting E password_hint)
      (act_bind (act_sum (set_kdf_data (h_user headers) (sp_kdf data))) (\<lambda>user.
       act_bind (set_password E (sp_master_password_hash data) (Some (sp_key data)) False (Some [''revision_date'']) user) (\<lambda>user.
       let user = with_keys (sp_keys data) (user\<lparr>u_password_hint := password_hint\<rparr>) in
       act_seq (join_org E user (sp_org_identifier data))
       (act_seq (if mail_enabled (conf E) then send_mail E (Welcome (lowercase_of E (u_email user)))
                 else act_upd (accept_user_invitations (u_uuid user)))
       (act_seq (act_upd (log_own E UserChangedPassword headers))
       (act_seq (act_void (User_save E user))
       (act_ret (JObj [(''object'', JStr ''set-password''), (''captchaBypassToken'', JStr '''')])))))))))"

definition post_profile :: "env \<Rightarrow> string \<Rightarrow> Headers \<Rightarrow> (server, User) act" where
  "post_profile E name headers =
     act_seq (err_if (50 < length name) ''The field Name must be a string with a maximum length of 50.'')
     (User_save E ((h_user headers)\<lparr>u_name := name\<rparr>))"

definition put_profile :: "env \<Rightarrow> string \<Rightarrow> Headers \<Rightarrow> (server, User) act" where
  "put_profile E = post_profile E"

definition put_avatar :: "env \<Rightarrow> string option \<Rightarrow> Headers \<Rightarrow> (server, User) act" where
  "put_avatar E color headers =
     act_seq (err_if (opt_is color (\<lambda>c. length c \<noteq> 7))
       ''The field AvatarColor must be a HTML/Hex color code with a length of 7 characters'')
     (User_save E ((h_user headers)\<lparr>u_avatar_color := color\<rparr>))"

definition get_public_keys :: "UserId \<Rightarrow> (server, json) act" where
  "get_public_keys user_id =
     act_bind (act_get (User_find_by_uuid user_id)) (\<lambda>u.
     act_bind (some_or ''User doesn't exist'' u) (\<lambda>user.
     act_seq (err_if (u_public_key user = None) ''User has no public_key'')
     (act_ret (JObj [(''userId'', JStr (u_uuid user)), (''publicKey'', json_opt (u_public_key user)),
        (''object'', JStr ''userKey'')]))))"

definition post_keys :: "env \<Rightarrow> KeysData \<Rightarrow> Headers \<Rightarrow> (server, json) act" where
  "post_keys E data headers =
     act_bind (User_save E (with_keys (Some data) (h_user headers))) (\<lambda>user.
     act_ret (JObj [(''privateKey'', json_opt (u_private_key user)), (''publicKey'', json_opt (u_public_key user)),
        (''object'', JStr ''keys'')]))"

definition check_password :: "env \<Rightarrow> string \<Rightarrow> User \<Rightarrow> (server, unit) act" where
  "check_password E pw user =
     act_bind (act_sum (check_valid_password E pw user)) (\<lambda>ok. err_if (\<not> ok) ''Invalid password'')"

record ChangePassData =
  cw_master_password_hash :: string
  cw_new_master_password_hash :: string
  cw_master_password_hint :: "string option"
  cw_key :: string

definition post_password :: "env \<Rightarrow> ChangePassData \<Rightarrow> Headers \<Rightarrow> (server, unit) act" where
  "post_password E data headers =
     act_seq (check_password E (cw_master_password_hash data) (h_user headers))
     (let user = (h_user headers)\<lparr>u_password_hint := clean_password_hint E (cw_master_password_hint data)\<rparr> in
      act_seq (enforce_password_hint_setting E (u_password_hint user))
      (act_seq (act_upd (log_own E UserChangedPassword headers))
      (act_bind (set_password E (cw_new_master_password_hash data) (Some (cw_key data)) True
         (Some [''post_rotatekey'', ''get_contacts'', ''get_public_keys'', ''get_api_webauthn'']) user) (\<lambda>user.
       act_void (User_save E user)))))"

record AuthenticationData =
  au_salt :: string
  au_kdf :: KDFData
  au_master_password_authentication_hash :: string

record UnlockData =
  ul_salt :: string
  ul_kdf :: KDFData
  ul_master_key_wrapped_user_key :: string

record ChangeKdfData =
  ck_authentication_data :: AuthenticationData
  ck_unlock_data :: UnlockData
  ck_master_password_hash :: string

definition post_kdf :: "env \<Rightarrow> ChangeKdfData \<Rightarrow> Headers \<Rightarrow> (server, unit) act" where
  "post_kdf E data headers =
     act_seq (check_password E (ck_master_password_hash data) (h_user headers))
     (act_seq (err_if (au_kdf (ck_authentication_data data) \<noteq> ul_kdf (ck_unlock_data data))
        ''KDF settings must be equal for authentication and unlock'')
     (act_seq (err_if (u_email (h_user headers) \<noteq> au_salt (ck_authentication_data data)
          \<or> u_email (h_user headers) \<noteq> ul_salt (ck_unlock_data data)) ''Invalid master password salt'')
     (act_bind (act_sum (set_kdf_data (h_user headers) (ul_kdf (ck_unlock_data data)))) (\<lambda>user.
      act_bind (set_password E (au_master_password_authentication_hash (ck_authentication_data data))
        (Some (ul_master_key_wrapped_user_key (ck_unlock_data data))) True None user) (\<lambda>user.
      act_void (User_save E user))))))"

definition post_sstamp :: "env \<Rightarrow> PasswordOrOtpData \<Rightarrow> Headers \<Rightarrow> (server, unit) act" where
  "post_sstamp E data headers =
     act_seq (PasswordOrOtpData_validate E data (h_user headers) True)
     (act_bind (act_run (reset_security_stamp E (h_user headers))) (\<lambda>user.
      act_bind (act_try (User_save E user)) (\<lambda>save_result.
      act_seq (act_upd (Device_delete_all_by_user (u_uuid user)))
      (act_void (act_sum save_result)))))"

definition verify_password :: "env \<Rightarrow> string \<Rightarrow> Headers \<Rightarrow> (server, json) act" where
  "verify_password E pw headers =
     act_seq (check_password E pw (h_user headers))
     (act_bind (kdf_upgrade E (h_user headers) pw) (master_password_policy E))"

definition update_api_key :: "env \<Rightarrow> PasswordOrOtpData \<Rightarrow> bool \<Rightarrow> Headers \<Rightarrow> (server, json) act" where
  "update_api_key E data rot headers =
     act_seq (PasswordOrOtpData_validate E data (h_user headers) True)
     (act_bind (if rot \<or> u_api_key (h_user headers) = None
        then act_bind (act_run (\<lambda>s. (random_token E (tick s), bump s))) (\<lambda>key.
             expect_ok ''Error saving API key'' (User_save E ((h_user headers)\<lparr>u_api_key := Some key\<rparr>)))
        else act_ret (h_user headers)) (\<lambda>user.
      act_ret (JObj [(''apiKey'', json_opt (u_api_key user)), (''revisionDate'', JStr (format_date E (u_updated_at user))),
         (''object'', JStr ''apiKey'')])))"

definition post_api_key :: "env \<Rightarrow> PasswordOrOtpData \<Rightarrow> Headers \<Rightarrow> (server, json) act" where
  "post_api_key E data = update_api_key E data False"

definition rotate_api_key :: "env \<Rightarrow> PasswordOrOtpData \<Rightarrow> Headers \<Rightarrow> (server, json) act" where
  "rotate_api_key E data = update_api_key E data True"

section \<open>The e-mail address\<close>

definition refuse_taken_address :: "env \<Rightarrow> string \<Rightarrow> User \<Rightarrow> (server, unit) act" where
  "refuse_taken_address E new_email user =
     act_bind (act_get (User_find_by_mail E new_email)) (\<lambda>u.
     case u of
       None \<Rightarrow> act_ret ()
     | Some existing \<Rightarrow>
         act_seq (act_when (mail_enabled (conf E)) (act_ignore (send_mail E
            (if u_password_hash existing = [] then ChangeEmailInvited new_email (u_email user)
             else ChangeEmailExisting new_email (u_email user)))))
         (act_err (Api ''Email already in use'')))"

definition post_email_token :: "env \<Rightarrow> string \<Rightarrow> string \<Rightarrow> Headers \<Rightarrow> (server, unit) act" where
  "post_email_token E pw new_email headers =
     act_seq (err_if (\<not> email_change_allowed (conf E)) ''Email change is not allowed.'')
     (act_seq (check_password E pw (h_user headers))
     (act_seq (refuse_taken_address E new_email (h_user headers))
     (act_seq (err_if (\<not> is_email_domain_allowed E new_email) ''Email domain not allowed'')
     (act_bind (act_run (\<lambda>s. (random_numeric E (tick s) 6, bump s))) (\<lambda>token.
      act_seq (act_when (mail_enabled (conf E)) (act_ignore (send_mail E (ChangeEmailMail new_email token))))
      (act_void (User_save E ((h_user headers)\<lparr>u_email_new := Some new_email, u_email_new_token := Some token\<rparr>))))))))"

record ChangeEmailData =
  ce_master_password_hash :: string
  ce_new_email :: string
  ce_key :: string
  ce_new_master_password_hash :: string
  ce_token :: NumberOrString

definition check_email_token :: "env \<Rightarrow> ChangeEmailData \<Rightarrow> User \<Rightarrow> (server, User) act" where
  "check_email_token E data user =
     (if mail_enabled (conf E)
      then act_bind (some_or ''No email change pending'' (u_email_new_token user)) (\<lambda>val.
           act_seq (err_if (val \<noteq> NumberOrString_into_string (ce_token data)) ''Token mismatch'')
           (act_bind (act_run (utc_now E)) (\<lambda>now. act_ret (user\<lparr>u_verified_at := Some now\<rparr>))))
      else act_ret (user\<lparr>u_verified_at := None\<rparr>))"

definition post_email :: "env \<Rightarrow> ChangeEmailData \<Rightarrow> Headers \<Rightarrow> (server, unit) act" where
  "post_email E data headers =
     act_seq (err_if (\<not> email_change_allowed (conf E)) ''Email change is not allowed.'')
     (act_seq (check_password E (ce_master_password_hash data) (h_user headers))
     (act_bind (act_get (User_find_by_mail E (ce_new_email data))) (\<lambda>u.
      act_seq (err_if (u \<noteq> None) ''Email already in use'')
      (act_bind (some_or ''No email change pending'' (u_email_new (h_user headers))) (\<lambda>val.
       act_seq (err_if (val \<noteq> ce_new_email data) ''Email change mismatch'')
       (act_bind (check_email_token E data (h_user headers)) (\<lambda>user.
        let user = user\<lparr>u_email := ce_new_email data, u_email_new := None, u_email_new_token := None\<rparr> in
        act_bind (set_password E (ce_new_master_password_hash data) (Some (ce_key data)) True None user) (\<lambda>user.
        act_void (User_save E user)))))))))"

definition post_verify_email :: "env \<Rightarrow> Headers \<Rightarrow> (server, unit) act" where
  "post_verify_email E headers =
     act_seq (err_if (\<not> mail_enabled (conf E)) ''Cannot verify email address'')
     (act_ignore (send_verify_email E (u_email (h_user headers)) (u_uuid (h_user headers))))"

definition post_verify_email_token :: "env \<Rightarrow> UserId \<Rightarrow> string \<Rightarrow> (server, unit) act" where
  "post_verify_email_token E user_id token =
     act_bind (act_get (User_find_by_uuid user_id)) (\<lambda>u.
     act_bind (some_or ''User doesn't exist'' u) (\<lambda>user.
     act_bind (act_run (\<lambda>s. (jwt_verify_email E (tick s) token, bump s))) (\<lambda>c.
     case c of
       Inl _ \<Rightarrow> act_err (Api ''Invalid claim'')
     | Inr claims \<Rightarrow>
         act_seq (err_if (bj_sub claims \<noteq> u_uuid user) ''Invalid claim'')
         (act_bind (act_run (utc_now E)) (\<lambda>now.
          act_ignore (User_save E (user\<lparr>u_verified_at := Some now, u_last_verifying_at := None,
            u_login_verify_count := 0\<rparr>)))))))"

section \<open>Deleting an account\<close>

definition generate_delete_claims :: "env \<Rightarrow> string \<Rightarrow> (server, BasicJwtClaims) act" where
  "generate_delete_claims E user =
     act_bind (act_run (utc_now E)) (\<lambda>now.
     act_bind (expect unwrap_msg (try_hours (int (invitation_expiration_hours (conf E))))) (\<lambda>d.
     act_ret \<lparr>bj_nbf = timestamp now, bj_exp = timestamp (now + d),
       bj_iss = domain_origin (conf E) @ ''|delete'', bj_sub = user\<rparr>))"

definition post_delete_recover :: "env \<Rightarrow> string \<Rightarrow> (server, unit) act" where
  "post_delete_recover E address =
     (if mail_enabled (conf E)
      then act_bind (act_get (User_find_by_mail E address)) (\<lambda>u. case u of
             None \<Rightarrow> act_ret ()
           | Some user \<Rightarrow> act_ignore (act_bind (generate_delete_claims E (u_uuid user)) (\<lambda>claims.
               send_mail E (DeleteAccountMail (u_email user) claims))))
      else act_err (Api ''Please contact the administrator to delete your account''))"

definition post_delete_recover_token :: "env \<Rightarrow> UserId \<Rightarrow> string \<Rightarrow> (server, unit) act" where
  "post_delete_recover_token E user_id token =
     act_bind (act_run (\<lambda>s. (jwt_delete E (tick s) token, bump s))) (\<lambda>c.
     case c of
       Inl _ \<Rightarrow> act_err (Api ''Invalid claim'')
     | Inr claims \<Rightarrow>
         act_bind (act_get (User_find_by_uuid user_id)) (\<lambda>u.
         act_bind (some_or ''User doesn't exist'' u) (\<lambda>user.
         act_seq (err_if (bj_sub claims \<noteq> u_uuid user) ''Invalid claim'')
         (User_delete E user))))"

definition post_delete_account :: "env \<Rightarrow> PasswordOrOtpData \<Rightarrow> Headers \<Rightarrow> (server, unit) act" where
  "post_delete_account E = delete_account E"

section \<open>Hints, prelogin and dates\<close>

definition revision_date :: "Headers \<Rightarrow> (server, json) act" where
  "revision_date headers = act_ret (JInt (u_updated_at (h_user headers) div 1000000))"

definition password_hint :: "env \<Rightarrow> string \<Rightarrow> (server, unit) act" where
  "password_hint E address =
     act_seq (err_if (\<not> password_hints_allowed (conf E) \<or> \<not> mail_enabled (conf E) \<and> \<not> show_password_hint (conf E))
       ''This server is not configured to provide password hints.'')
     (act_bind (act_get (User_find_by_mail E address)) (\<lambda>u.
      case u of
        None \<Rightarrow> err_if (\<not> mail_enabled (conf E)) ''Sorry, you have no password hint...''
      | Some user \<Rightarrow>
          if mail_enabled (conf E) then send_mail E (PasswordHint address (u_password_hint user))
          else case u_password_hint user of
            Some hint \<Rightarrow> act_err (Api (''Your password hint is: '' @ hint))
          | None \<Rightarrow> act_err (Api ''Sorry, you have no password hint...'')))"

definition prelogin :: "env \<Rightarrow> string \<Rightarrow> server \<Rightarrow> json" where
  "prelogin E address s =
     (let (ty, it, mem, par) = (case User_find_by_mail E address s of
          Some u \<Rightarrow> (u_client_kdf_type u, u_client_kdf_iter u, u_client_kdf_memory u, u_client_kdf_parallelism u)
        | None \<Rightarrow> (CLIENT_KDF_TYPE_DEFAULT, CLIENT_KDF_ITER_DEFAULT, None, None))
      in JObj [(''kdf'', JInt ty), (''kdfIterations'', JInt it), (''kdfMemory'', json_opt_int mem),
           (''kdfParallelism'', json_opt_int par)])"

definition post_prelogin :: "env \<Rightarrow> string \<Rightarrow> server \<Rightarrow> json" where
  "post_prelogin E = prelogin E"

section \<open>Devices\<close>

definition get_known_device :: "env \<Rightarrow> string \<Rightarrow> DeviceId \<Rightarrow> server \<Rightarrow> json" where
  "get_known_device E address device s = JBool (case User_find_by_mail E address s of
     Some user \<Rightarrow> Device_find_by_uuid_and_user device (u_uuid user) s \<noteq> None | None \<Rightarrow> False)"

definition get_all_devices :: "env \<Rightarrow> Headers \<Rightarrow> server \<Rightarrow> json" where
  "get_all_devices E headers s =
     JObj [(''data'', JArr (map (DeviceWithAuthRequest_to_json E) (find_with_auth_request_by_user (u_uuid (h_user headers)) s))),
       (''continuationToken'', JNull), (''object'', JStr ''list'')]"

definition get_device_json :: "env \<Rightarrow> DeviceId \<Rightarrow> Headers \<Rightarrow> (server, json) act" where
  "get_device_json E device headers =
     act_bind (act_get (Device_find_by_uuid_and_user device (u_uuid (h_user headers)))) (\<lambda>d.
     act_bind (some_or ''No device found'' d) (\<lambda>d. act_ret (Device_to_json E d)))"

definition put_device_token :: "env \<Rightarrow> DeviceId \<Rightarrow> string \<Rightarrow> Headers \<Rightarrow> (server, unit) act" where
  "put_device_token E device_id token headers =
     act_bind (act_get (Device_find_by_uuid_and_user (d_uuid (h_device headers)) (u_uuid (h_user headers)))) (\<lambda>d.
     act_bind (some_or (''Error: device '' @ device_id @ '' should be present before a token can be assigned'') d) (\<lambda>device.
     if d_push_token device = Some token then act_ret ()
     else act_bind (act_run (Device_save E True (device\<lparr>d_push_token := Some token\<rparr>))) (\<lambda>device.
          act_void (register_push_device E device))))"

definition post_device_token :: "env \<Rightarrow> DeviceId \<Rightarrow> string \<Rightarrow> Headers \<Rightarrow> (server, unit) act" where
  "post_device_token E = put_device_token E"

definition unregister_push_device :: "env \<Rightarrow> string option \<Rightarrow> (server, unit) act" where
  "unregister_push_device E push_id =
     (if \<not> push_enabled (conf E) \<or> push_id = None then act_ret ()
      else act_bind (act_run (\<lambda>s. (push_unregister E (tick s) push_id, bump s))) (\<lambda>answer.
           case answer of Some e \<Rightarrow> act_err (Api e) | None \<Rightarrow> act_ret ()))"

definition put_clear_device_token :: "env \<Rightarrow> DeviceId \<Rightarrow> (server, unit) act" where
  "put_clear_device_token E device_id =
     act_when (push_enabled (conf E))
     (act_bind (act_get (Device_find_by_uuid device_id)) (\<lambda>d. case d of
        None \<Rightarrow> act_ret ()
      | Some device \<Rightarrow> act_seq (act_upd (clear_push_token_by_uuid device_id))
          (unregister_push_device E (d_push_uuid device))))"

definition post_clear_device_token :: "env \<Rightarrow> DeviceId \<Rightarrow> (server, unit) act" where
  "post_clear_device_token E = put_clear_device_token E"

definition get_tasks :: "(server, json) act" where
  "get_tasks = act_ret (JObj [(''data'', JArr []), (''object'', JStr ''list'')])"

end
