(* ===== verification/CipherApi.thy ===== *)
theory CipherApi
  imports Organizations EmergencyApi
begin

text \<open>
  The handlers of \<open>server/src/api/core/ciphers.rs\<close>: creating, updating, sharing, trashing, restoring,
  deleting and archiving ciphers, their collections and attachments, the import and the purge of a
  vault. A handler that renders ciphers answers with the rows; of a push notification only the revision
  dates it updates are kept.
\<close>

section \<open>Data\<close>

datatype UpdateType = UpdateNone | SyncCipherUpdate | SyncCipherCreate

record Attachments2Data =
  a2_file_name :: string
  a2_key :: string

record CipherData =
  cp_id :: "CipherId option"
  cp_folder_id :: "FolderId option"
  cp_organization_id :: "OrganizationId option"
  cp_key :: "string option"
  cp_type :: int
  cp_name :: string
  cp_notes :: "string option"
  cp_fields :: "json option"
  cp_login :: "json option"
  cp_secure_note :: "json option"
  cp_card :: "json option"
  cp_identity :: "json option"
  cp_ssh_key :: "json option"
  cp_favorite :: "bool option"
  cp_reprompt :: "int option"
  cp_password_history :: "json option"
  cp_attachments2 :: "(AttachmentId \<times> Attachments2Data) list option"
  cp_last_known_revision_date :: "string option"
  cp_archived_date :: "string option"

record ShareCipherData =
  sh_cipher :: CipherData
  sh_collection_ids :: "CollectionId list"

text \<open>The signed-in user and device of a request, as the events and notifications use them.\<close>

definition notify_cipher :: "env \<Rightarrow> Cipher \<Rightarrow> (server, unit) act" where
  "notify_cipher E ci = act_upd (\<lambda>s. snd (Cipher_update_users_revision E ci s))"

definition log_cipher :: "env \<Rightarrow> EventType \<Rightarrow> Cipher \<Rightarrow> Headers \<Rightarrow> (server, unit) act" where
  "log_cipher E ty ci headers = (case ci_organization_uuid ci of
     None \<Rightarrow> act_ret ()
   | Some org \<Rightarrow> act_upd (log_event E ty (ci_uuid ci) org (u_uuid (h_user headers)) (d_atype (h_device headers)) (h_ip headers)))"

section \<open>Reading\<close>

record SyncResponse =
  sy_ciphers :: "Cipher list"
  sy_collections :: "Collection list"
  sy_folders :: "Folder list"
  sy_sends :: "Send list"
  sy_policies :: "OrgPolicy list"

text \<open>\<open>show_ssh_keys\<close> is the comparison of the client's version with 2024.12.0.\<close>

definition sync :: "env \<Rightarrow> bool \<Rightarrow> Headers \<Rightarrow> (server, SyncResponse) act" where
  "sync E show_ssh_keys headers =
     (let user = u_uuid (h_user headers) in
     act_get (\<lambda>s. \<lparr>
       sy_ciphers = (if show_ssh_keys then find_by_user_visible E user s
         else filter (\<lambda>c. ci_atype c \<noteq> 5) (find_by_user_visible E user s)),
       sy_collections = Collection_find_by_user_uuid E user s,
       sy_folders = Folder_find_by_user user s, sy_sends = Send_find_by_user user s,
       sy_policies = OrgPolicy_find_confirmed_by_user user s\<rparr>))"

definition get_ciphers :: "env \<Rightarrow> Headers \<Rightarrow> (server, Cipher list) act" where
  "get_ciphers E headers = act_get (find_by_user_visible E (u_uuid (h_user headers)))"

definition get_cipher :: "env \<Rightarrow> CipherId \<Rightarrow> Headers \<Rightarrow> (server, Cipher) act" where
  "get_cipher E cipher_id headers =
     act_bind (act_get (Cipher_find_by_uuid cipher_id)) (\<lambda>c.
     act_bind (some_or ''Cipher doesn't exist'' c) (\<lambda>cipher.
     act_bind (act_get (is_accessible_to_user E cipher (u_uuid (h_user headers)))) (\<lambda>ok.
     act_seq (err_if (\<not> ok) ''Cipher is not owned by user'') (act_ret cipher))))"

text \<open>The start of most handlers: the cipher, and the write access of the user.\<close>

definition writable_cipher :: "env \<Rightarrow> CipherId \<Rightarrow> Headers \<Rightarrow> string \<Rightarrow> (server, Cipher) act" where
  "writable_cipher E cipher_id headers msg =
     act_bind (act_get (Cipher_find_by_uuid cipher_id)) (\<lambda>c.
     act_bind (some_or ''Cipher doesn't exist'' c) (\<lambda>cipher.
     act_bind (act_get (is_write_accessible_to_user E cipher (u_uuid (h_user headers)))) (\<lambda>ok.
     act_seq (err_if (\<not> ok) msg) (act_ret cipher))))"

definition accessible_cipher :: "env \<Rightarrow> CipherId \<Rightarrow> Headers \<Rightarrow> (server, Cipher) act" where
  "accessible_cipher E cipher_id headers =
     act_bind (act_get (Cipher_find_by_uuid cipher_id)) (\<lambda>c.
     act_bind (some_or ''Cipher doesn't exist'' c) (\<lambda>cipher.
     act_bind (act_get (is_accessible_to_user E cipher (u_uuid (h_user headers)))) (\<lambda>ok.
     act_seq (err_if (\<not> ok) ''Cipher is not accessible for the current user'') (act_ret cipher))))"

section \<open>Cleaning the data of a cipher\<close>

text \<open>\<open>as_object_mut().unwrap()\<close> panics on anything but an object: \<open>None\<close>.\<close>

definition remove_response :: "json \<Rightarrow> json option" where
  "remove_response j = (case j of JObj kvs \<Rightarrow> Some (JObj (filter (\<lambda>(k, v). k \<noteq> ''response'') kvs)) | _ \<Rightarrow> None)"

definition clean_cipher_data :: "json \<Rightarrow> json option" where
  "clean_cipher_data j = (case j of JArr xs \<Rightarrow> map_option JArr (those (map remove_response xs)) | _ \<Rightarrow> Some j)"

definition clean_type_data :: "json \<Rightarrow> json option" where
  "clean_type_data j = (case remove_response j of
     Some (JObj kvs) \<Rightarrow>
       (case map_of kvs ''uris'' of
          Some (JArr us) \<Rightarrow> map_option (\<lambda>u. JObj (map (\<lambda>(k, v). (k, if k = ''uris'' then u else v)) kvs))
            (clean_cipher_data (JArr us))
        | _ \<Rightarrow> Some (JObj kvs))
   | _ \<Rightarrow> None)"

definition UNWRAP_NONE :: string where "UNWRAP_NONE = ''called `Option::unwrap()` on a `None` value''"

definition type_data :: "CipherData \<Rightarrow> (server, json) act" where
  "type_data data =
     act_bind (if cp_type data = 1 then act_ret (cp_login data)
       else if cp_type data = 2 then act_ret (cp_secure_note data)
       else if cp_type data = 3 then act_ret (cp_card data)
       else if cp_type data = 4 then act_ret (cp_identity data)
       else if cp_type data = 5 then act_ret (cp_ssh_key data)
       else act_err (Api ''Invalid type'')) (\<lambda>type_data_opt.
     act_bind (some_or ''Data missing'' type_data_opt) (\<lambda>data.
     expect UNWRAP_NONE (clean_type_data data)))"

section \<open>Creating and updating\<close>

definition enforce_personal_ownership_policy :: "CipherData option \<Rightarrow> Headers \<Rightarrow> (server, unit) act" where
  "enforce_personal_ownership_policy data headers =
     act_when (\<not> opt_is data (\<lambda>d. cp_organization_id d \<noteq> None))
     (act_bind (act_get (is_applicable_to_user (u_uuid (h_user headers)) PersonalOwnership None)) (\<lambda>b.
      err_if b ''Due to an Enterprise Policy, you are restricted from saving items to your personal vault.''))"

text \<open>The attachments of a rotated key, in the order of the map: an unknown id is skipped, an
  attachment of another cipher ends the loop.\<close>

fun update_attachments :: "env \<Rightarrow> CipherId \<Rightarrow> (AttachmentId \<times> Attachments2Data) list \<Rightarrow> server \<Rightarrow> server" where
  "update_attachments E cipher [] s = s"
| "update_attachments E cipher ((i, a) # as) s =
     (case Attachment_find_by_id E i s of
        None \<Rightarrow> update_attachments E cipher as s
      | Some saved_att \<Rightarrow>
          if at_cipher_uuid saved_att \<noteq> cipher then s
          else update_attachments E cipher as
            (Attachment_save (saved_att\<lparr>at_akey := Some (a2_key a), at_file_name := a2_file_name a\<rparr>) s))"

definition stale_copy :: "env \<Rightarrow> Cipher \<Rightarrow> string option \<Rightarrow> bool" where
  "stale_copy E cipher date =
     (case date of None \<Rightarrow> False
      | Some d \<Rightarrow> (case naive_parse E d of None \<Rightarrow> False | Some dt \<Rightarrow> 2 * NANOS \<le> ci_updated_at cipher - dt))"

definition note_too_long :: "env \<Rightarrow> CipherData \<Rightarrow> bool" where
  "note_too_long E data = opt_is (cp_notes data) (\<lambda>n. max_note_size (conf E) < length n)"

definition NOTE_MSG :: "env \<Rightarrow> string" where
  "NOTE_MSG E = ''The field Notes exceeds the maximum encrypted value length of ''
     @ nat_to_dec (max_note_size (conf E)) @ '' characters.''"

text \<open>The owner of the updated cipher: the organization of the request, or the user.\<close>

definition assign_owner ::
  "env \<Rightarrow> Cipher \<Rightarrow> OrganizationId option \<Rightarrow> Headers \<Rightarrow> bool \<Rightarrow> (server, Cipher) act" where
  "assign_owner E cipher org headers shared =
     (let user = u_uuid (h_user headers) in
      case org of
        Some org_id \<Rightarrow>
          act_bind (act_get (Membership_find_confirmed_by_user_and_org user org_id)) (\<lambda>m.
          act_bind (some_or ''You don't have permission to add item to organization'' m) (\<lambda>member.
          act_bind (act_get (is_write_accessible_to_user E cipher user)) (\<lambda>writable.
          act_seq (err_if (\<not> (shared \<or> has_full_access member \<or> writable))
            ''You don't have permission to add cipher directly to organization'')
          (act_ret (cipher\<lparr>ci_organization_uuid := Some org_id, ci_user_uuid := None\<rparr>)))))
      | None \<Rightarrow> act_ret (cipher\<lparr>ci_user_uuid := Some user\<rparr>))"

definition check_folder :: "FolderId option \<Rightarrow> Headers \<Rightarrow> (server, unit) act" where
  "check_folder folder_id headers = (case folder_id of
     None \<Rightarrow> act_ret ()
   | Some f \<Rightarrow> act_bind (act_get (Folder_find_by_uuid_and_user f (u_uuid (h_user headers)))) (\<lambda>x.
       err_if (x = None) ''Invalid folder''))"

definition update_cipher_from_data ::
  "env \<Rightarrow> Cipher \<Rightarrow> CipherData \<Rightarrow> Headers \<Rightarrow> CollectionId list option \<Rightarrow> UpdateType \<Rightarrow> (server, Cipher) act" where
  "update_cipher_from_data E cipher data headers shared_to_collections ut =
     (let user = u_uuid (h_user headers) in
     act_seq (enforce_personal_ownership_policy (Some data) headers)
     (act_seq (err_if (ut \<noteq> UpdateNone \<and> stale_copy E cipher (cp_last_known_revision_date data))
       ''The client copy of this cipher is out of date. Resync the client and try again.'')
     (act_seq (err_if (ci_organization_uuid cipher \<noteq> None \<and> ci_organization_uuid cipher \<noteq> cp_organization_id data)
       ''Organization mismatch. Please resync the client before updating the cipher'')
     (act_seq (err_if (note_too_long E data) (NOTE_MSG E))
     (let transfer_cipher = (ci_organization_uuid cipher = None \<and> cp_organization_id data \<noteq> None) in
      act_bind (assign_owner E cipher (cp_organization_id data) headers (shared_to_collections \<noteq> None)) (\<lambda>cipher.
      act_seq (check_folder (cp_folder_id data) headers)
      (act_seq (act_upd (\<lambda>s. case cp_attachments2 data of None \<Rightarrow> s | Some as \<Rightarrow> update_attachments E (ci_uuid cipher) as s))
      (act_bind (type_data data) (\<lambda>td.
       act_bind (case cp_fields data of None \<Rightarrow> act_ret None
         | Some f \<Rightarrow> act_bind (expect UNWRAP_NONE (clean_cipher_data f)) (\<lambda>f. act_ret (Some (json_print E f)))) (\<lambda>fields.
       let cipher = cipher\<lparr>ci_key := cp_key data, ci_name := cp_name data, ci_notes := cp_notes data, ci_fields := fields,
             ci_data := json_print E td, ci_password_history := map_option (json_print E) (cp_password_history data),
             ci_reprompt := (case cp_reprompt data of Some r \<Rightarrow> if r = 0 \<or> r = 1 then Some r else None | None \<Rightarrow> None)\<rparr> in
       act_bind (act_run (Cipher_save E cipher)) (\<lambda>cipher.
       act_seq (move_to_folder E (cp_folder_id data) user cipher)
       (act_seq (act_upd (Cipher_set_favorite E (cp_favorite data) user cipher))
       (act_seq (case cp_archived_date data of None \<Rightarrow> act_ret ()
          | Some d \<Rightarrow> (case naive_parse E d of None \<Rightarrow> act_ret () | Some dt \<Rightarrow> act_upd (Cipher_set_archived_at E dt user cipher)))
       (act_seq (act_when (ut \<noteq> UpdateNone)
          (act_seq (log_cipher E (if ut = SyncCipherCreate \<and> transfer_cipher then CipherCreated
               else if ut = SyncCipherUpdate \<and> transfer_cipher then CipherShared else CipherUpdated) cipher headers)
           (notify_cipher E cipher)))
       (act_ret cipher)))))))))))))))"

definition post_ciphers :: "env \<Rightarrow> CipherData \<Rightarrow> Headers \<Rightarrow> (server, Cipher) act" where
  "post_ciphers E data headers =
     act_bind (act_run (Cipher_new E (cp_type data) (cp_name data))) (\<lambda>cipher.
     update_cipher_from_data E cipher (data\<lparr>cp_last_known_revision_date := None\<rparr>) headers None SyncCipherCreate)"

definition put_cipher :: "env \<Rightarrow> CipherId \<Rightarrow> CipherData \<Rightarrow> Headers \<Rightarrow> (server, Cipher) act" where
  "put_cipher E cipher_id data headers =
     act_bind (writable_cipher E cipher_id headers ''Cipher is not write accessible'') (\<lambda>cipher.
     update_cipher_from_data E cipher data headers None SyncCipherUpdate)"

definition put_cipher_partial :: "env \<Rightarrow> CipherId \<Rightarrow> FolderId option \<Rightarrow> bool \<Rightarrow> Headers \<Rightarrow> (server, Cipher) act" where
  "put_cipher_partial E cipher_id folder_id favorite headers =
     (let user = u_uuid (h_user headers) in
     act_bind (act_get (Cipher_find_by_uuid cipher_id)) (\<lambda>c.
     act_bind (some_or ''Cipher does not exist'' c) (\<lambda>cipher.
     act_bind (act_get (is_accessible_to_user E cipher user)) (\<lambda>ok.
     act_seq (err_if (\<not> ok) ''Cipher does not exist'')
     (act_seq (check_folder folder_id headers)
     (act_seq (move_to_folder E folder_id user cipher)
     (act_seq (act_upd (Cipher_set_favorite E (Some favorite) user cipher))
     (act_ret cipher))))))))"

section \<open>Sharing and collections\<close>

fun share_to :: "env \<Rightarrow> CipherId \<Rightarrow> OrganizationId \<Rightarrow> UserId \<Rightarrow> CollectionId list \<Rightarrow> (server, CollectionId list) act" where
  "share_to E cipher org user [] = act_ret []"
| "share_to E cipher org user (col_id # cols) =
     act_bind (act_get (Collection_find_by_uuid_and_org col_id org)) (\<lambda>c.
     act_bind (some_or ''Invalid collection ID provided'' c) (\<lambda>collection.
     act_bind (act_get (is_writable_by_user E collection user)) (\<lambda>ok.
     act_seq (err_if (\<not> ok) ''No rights to modify the collection'')
     (act_seq (act_upd (cc_save E cipher (c_uuid collection)))
     (act_bind (share_to E cipher org user cols) (\<lambda>shared. act_ret (c_uuid collection # shared)))))))"

definition share_cipher_by_uuid ::
  "env \<Rightarrow> CipherId \<Rightarrow> ShareCipherData \<Rightarrow> Headers \<Rightarrow> UpdateType option \<Rightarrow> (server, Cipher) act" where
  "share_cipher_by_uuid E cipher_id data headers override_ut =
     act_bind (writable_cipher E cipher_id headers ''Cipher is not write accessible'') (\<lambda>cipher.
     act_bind (case cp_organization_id (sh_cipher data) of
        None \<Rightarrow> act_ret []
      | Some org \<Rightarrow> share_to E (ci_uuid cipher) org (u_uuid (h_user headers)) (sh_collection_ids data)) (\<lambda>shared_to_collections.
     let ut = (case override_ut of Some ut \<Rightarrow> ut
       | None \<Rightarrow> if cp_last_known_revision_date (sh_cipher data) \<noteq> None then SyncCipherUpdate else SyncCipherCreate) in
     update_cipher_from_data E cipher (sh_cipher data) headers (Some shared_to_collections) ut))"

definition post_ciphers_create :: "env \<Rightarrow> ShareCipherData \<Rightarrow> Headers \<Rightarrow> (server, Cipher) act" where
  "post_ciphers_create E data headers =
     act_seq (enforce_personal_ownership_policy (Some (sh_cipher data)) headers)
     (act_bind (act_run (Cipher_new E (cp_type (sh_cipher data)) (cp_name (sh_cipher data)))) (\<lambda>cipher.
      act_bind (act_run (Cipher_save E (cipher\<lparr>ci_user_uuid := Some (u_uuid (h_user headers))\<rparr>))) (\<lambda>cipher.
      act_catch (share_cipher_by_uuid E (ci_uuid cipher)
          (data\<lparr>sh_cipher := (sh_cipher data)\<lparr>cp_last_known_revision_date := None\<rparr>\<rparr>) headers None)
        (\<lambda>e. act_seq (Cipher_delete E cipher) (act_err (Api e))))))"

definition put_cipher_share_selected ::
  "env \<Rightarrow> CipherData list \<Rightarrow> CollectionId list \<Rightarrow> Headers \<Rightarrow> (server, unit) act" where
  "put_cipher_share_selected E cs collection_ids headers =
     act_seq (err_if (cs = []) ''You must select at least one cipher.'')
     (act_seq (err_if (collection_ids = []) ''You must select at least one collection.'')
     (act_seq (err_if (list_ex (\<lambda>c. cp_id c = None) cs) ''Request missing ids field'')
     (act_for (rev cs) (\<lambda>c.
        act_bind (some_or ''Request missing ids field'' (cp_id c)) (\<lambda>i.
        act_bind (share_cipher_by_uuid E i \<lparr>sh_cipher = c\<lparr>cp_id := None\<rparr>, sh_collection_ids = collection_ids\<rparr> headers
          (Some UpdateNone)) (\<lambda>_. act_ret ()))))))"

text \<open>\<open>symmetric_difference\<close> of two hash sets, whose order is unspecified: \<open>order\<close> arranges it.\<close>

definition sym_diff :: "'a list \<Rightarrow> 'a list \<Rightarrow> 'a list" where
  "sym_diff xs ys = filter (\<lambda>x. x \<notin> set ys) (remdups xs) @ filter (\<lambda>y. y \<notin> set xs) (remdups ys)"

definition change_collections ::
  "env \<Rightarrow> (CollectionId list \<Rightarrow> CollectionId list) \<Rightarrow> (Cipher \<Rightarrow> UserId \<Rightarrow> server \<Rightarrow> CollectionId list) \<Rightarrow> CipherId
     \<Rightarrow> CollectionId list \<Rightarrow> Headers \<Rightarrow> (server, Cipher) act" where
  "change_collections E order current cipher_id posted headers =
     (let user = u_uuid (h_user headers) in
     act_bind (act_get (Cipher_find_by_uuid cipher_id)) (\<lambda>c.
     act_bind (some_or ''Cipher doesn't exist'' c) (\<lambda>cipher.
     act_bind (act_get (is_in_editable_collection_by_user E cipher user)) (\<lambda>ok.
     act_seq (err_if (\<not> ok) ''Collection cannot be changed'')
     (act_bind (some_or ''Cipher is not owned by an organization'' (ci_organization_uuid cipher)) (\<lambda>org.
      act_bind (act_get (current cipher user)) (\<lambda>current_collections.
      act_seq (act_for (order (sym_diff posted current_collections)) (\<lambda>col.
        act_bind (act_get (Collection_find_by_uuid_and_org col org)) (\<lambda>x.
        act_bind (some_or ''Invalid collection ID provided'' x) (\<lambda>collection.
        act_bind (act_get (is_writable_by_user E collection user)) (\<lambda>w.
        act_seq (err_if (\<not> w) ''No rights to modify the collection'')
        (if c_uuid collection \<in> set posted then act_upd (cc_save E (ci_uuid cipher) (c_uuid collection))
         else act_upd (cc_delete E (ci_uuid cipher) (c_uuid collection))))))))
      (act_seq (notify_cipher E cipher)
      (act_seq (log_cipher E CipherUpdatedCollections cipher headers)
      (act_ret cipher))))))))))"

definition post_collections_update ::
  "env \<Rightarrow> (CollectionId list \<Rightarrow> CollectionId list) \<Rightarrow> CipherId \<Rightarrow> CollectionId list \<Rightarrow> Headers \<Rightarrow> (server, Cipher) act" where
  "post_collections_update E order cipher_id posted headers =
     change_collections E order (get_collections E) cipher_id posted headers"

definition post_collections_admin ::
  "env \<Rightarrow> (CollectionId list \<Rightarrow> CollectionId list) \<Rightarrow> CipherId \<Rightarrow> CollectionId list \<Rightarrow> Headers \<Rightarrow> (server, unit) act" where
  "post_collections_admin E order cipher_id posted headers =
     act_bind (change_collections E order (get_admin_collections E) cipher_id posted headers) (\<lambda>_. act_ret ())"

section \<open>Trash, deletion and restoration\<close>

datatype CipherDeleteOptions = SoftSingle | SoftMulti | HardSingle | HardMulti

definition is_soft :: "CipherDeleteOptions \<Rightarrow> bool" where
  "is_soft opt \<longleftrightarrow> opt = SoftSingle \<or> opt = SoftMulti"

definition delete_cipher_by_uuid :: "env \<Rightarrow> CipherId \<Rightarrow> Headers \<Rightarrow> CipherDeleteOptions \<Rightarrow> (server, unit) act" where
  "delete_cipher_by_uuid E cipher_id headers opt =
     act_bind (writable_cipher E cipher_id headers ''Cipher can't be deleted by user'') (\<lambda>cipher.
     act_bind
       (if is_soft opt
        then act_bind (act_run (utc_now E)) (\<lambda>now.
             act_bind (act_run (Cipher_save E (cipher\<lparr>ci_deleted_at := Some now\<rparr>))) (\<lambda>cipher.
             act_seq (act_when (opt = SoftSingle) (notify_cipher E cipher)) (act_ret cipher)))
        else act_seq (Cipher_delete E cipher)
             (act_seq (act_when (opt = HardSingle) (notify_cipher E cipher)) (act_ret cipher))) (\<lambda>cipher.
     log_cipher E (if is_soft opt then CipherSoftDeleted else CipherDeleted) cipher headers))"

definition delete_multiple_ciphers :: "env \<Rightarrow> CipherId list \<Rightarrow> Headers \<Rightarrow> CipherDeleteOptions \<Rightarrow> (server, unit) act" where
  "delete_multiple_ciphers E ids headers opt = act_for ids (\<lambda>i. delete_cipher_by_uuid E i headers opt)"

definition restore_cipher_by_uuid :: "env \<Rightarrow> CipherId \<Rightarrow> Headers \<Rightarrow> bool \<Rightarrow> (server, Cipher) act" where
  "restore_cipher_by_uuid E cipher_id headers multi_restore =
     act_bind (writable_cipher E cipher_id headers ''Cipher can't be restored by user'') (\<lambda>cipher.
     act_bind (act_run (Cipher_save E (cipher\<lparr>ci_deleted_at := None\<rparr>))) (\<lambda>cipher.
     act_seq (act_when (\<not> multi_restore) (notify_cipher E cipher))
     (act_seq (log_cipher E CipherRestored cipher headers)
     (act_ret cipher))))"

text \<open>The bulk handlers that answer with the rows stop at the first error.\<close>

fun collect_ciphers :: "(CipherId \<Rightarrow> (server, Cipher) act) \<Rightarrow> CipherId list \<Rightarrow> (server, Cipher list) act" where
  "collect_ciphers f [] = act_ret []"
| "collect_ciphers f (i # is) =
     act_bind (f i) (\<lambda>c. act_bind (collect_ciphers f is) (\<lambda>cs. act_ret (c # cs)))"

definition restore_multiple_ciphers :: "env \<Rightarrow> CipherId list \<Rightarrow> Headers \<Rightarrow> (server, Cipher list) act" where
  "restore_multiple_ciphers E ids headers = collect_ciphers (\<lambda>i. restore_cipher_by_uuid E i headers True) ids"

definition MOVED_MSG :: "nat \<Rightarrow> nat \<Rightarrow> string" where
  "MOVED_MSG n k = ''Not all ciphers are moved! '' @ nat_to_dec n @ '' of the selected ''
     @ nat_to_dec k @ '' were moved.''"

definition move_cipher_selected :: "env \<Rightarrow> FolderId option \<Rightarrow> CipherId list \<Rightarrow> Headers \<Rightarrow> (server, unit) act" where
  "move_cipher_selected E folder_id ids headers =
     (let user = u_uuid (h_user headers) in
     act_seq (check_folder folder_id headers)
     (act_bind (act_get (find_by_user_and_ciphers E user ids)) (\<lambda>accessible_ciphers.
      act_seq (act_for accessible_ciphers (move_to_folder E folder_id user))
      (err_if (length ids \<noteq> length accessible_ciphers) (MOVED_MSG (length accessible_ciphers) (length ids))))))"

definition purge_org_vault ::
  "env \<Rightarrow> OrganizationId \<Rightarrow> PasswordOrOtpData \<Rightarrow> OwnerHeaders \<Rightarrow> (server, unit) act" where
  "purge_org_vault E org_id data headers =
     act_seq (err_if (org_id \<noteq> wh_org_id headers) ''Organization not found'')
     (act_seq (PasswordOrOtpData_validate E data (wh_user headers) True)
     (act_bind (act_get (Membership_find_confirmed_by_user_and_org (u_uuid (wh_user headers)) org_id)) (\<lambda>m.
      if opt_is m (has_type Owner)
      then act_seq (Cipher_delete_all_by_organization E org_id)
           (act_upd (log_event E OrganizationPurgedVault org_id org_id (u_uuid (wh_user headers))
              (d_atype (wh_device headers)) (wh_ip headers)))
      else act_err (Api ''You don't have permission to purge the organization vault''))))"

definition purge_personal_vault :: "env \<Rightarrow> PasswordOrOtpData \<Rightarrow> Headers \<Rightarrow> (server, unit) act" where
  "purge_personal_vault E data headers =
     (let user = h_user headers in
     act_seq (PasswordOrOtpData_validate E data user True)
     (act_bind (act_get (find_owned_by_user (u_uuid user))) (\<lambda>cs.
      act_seq (act_for cs (Cipher_delete E))
      (act_bind (act_get (Folder_find_by_user (u_uuid user))) (\<lambda>fs.
       act_seq (act_for fs (\<lambda>f. act_upd (Folder_delete E f)))
       (act_upd (\<lambda>s. snd (update_revision E user s))))))))"

section \<open>Archive\<close>

definition archive_cipher :: "env \<Rightarrow> CipherId \<Rightarrow> Headers \<Rightarrow> bool \<Rightarrow> (server, Cipher) act" where
  "archive_cipher E cipher_id headers multi_archive =
     act_bind (accessible_cipher E cipher_id headers) (\<lambda>cipher.
     act_bind (act_run (utc_now E)) (\<lambda>now.
     act_seq (act_upd (Cipher_set_archived_at E now (u_uuid (h_user headers)) cipher))
     (act_seq (act_when (\<not> multi_archive) (notify_cipher E cipher)) (act_ret cipher))))"

definition unarchive_cipher :: "env \<Rightarrow> CipherId \<Rightarrow> Headers \<Rightarrow> bool \<Rightarrow> (server, Cipher) act" where
  "unarchive_cipher E cipher_id headers multi_unarchive =
     act_bind (accessible_cipher E cipher_id headers) (\<lambda>cipher.
     act_seq (act_upd (Cipher_unarchive E (u_uuid (h_user headers)) cipher))
     (act_seq (act_when (\<not> multi_unarchive) (notify_cipher E cipher)) (act_ret cipher)))"

definition archive_multiple_ciphers :: "env \<Rightarrow> CipherId list \<Rightarrow> Headers \<Rightarrow> (server, Cipher list) act" where
  "archive_multiple_ciphers E ids headers = collect_ciphers (\<lambda>i. archive_cipher E i headers True) ids"

definition unarchive_multiple_ciphers :: "env \<Rightarrow> CipherId list \<Rightarrow> Headers \<Rightarrow> (server, Cipher list) act" where
  "unarchive_multiple_ciphers E ids headers = collect_ciphers (\<lambda>i. unarchive_cipher E i headers True) ids"

section \<open>Attachments\<close>

definition get_attachment :: "env \<Rightarrow> CipherId \<Rightarrow> AttachmentId \<Rightarrow> Headers \<Rightarrow> (server, Attachment) act" where
  "get_attachment E cipher_id attachment_id headers =
     act_bind (act_get (Cipher_find_by_uuid cipher_id)) (\<lambda>c.
     act_bind (some_or ''Cipher doesn't exist'' c) (\<lambda>cipher.
     act_bind (act_get (is_accessible_to_user E cipher (u_uuid (h_user headers)))) (\<lambda>ok.
     act_seq (err_if (\<not> ok) ''Cipher is not accessible'')
     (act_bind (act_get (Attachment_find_by_id E attachment_id)) (\<lambda>a.
      act_bind (some_or ''Attachment doesn't exist'' a) (\<lambda>attachment.
      act_seq (err_if (cipher_id \<noteq> at_cipher_uuid attachment) ''Attachment doesn't belong to cipher'')
      (act_ret attachment)))))))"

definition generate_attachment_id :: "env \<Rightarrow> server \<Rightarrow> AttachmentId \<times> server" where
  "generate_attachment_id E s = (random_token E (tick s), bump s)"

record AttachmentRequestData =
  ard_key :: string
  ard_file_name :: string
  ard_file_size :: NumberOrString

definition post_attachment_v2 ::
  "env \<Rightarrow> CipherId \<Rightarrow> AttachmentRequestData \<Rightarrow> Headers \<Rightarrow> (server, AttachmentId \<times> string) act" where
  "post_attachment_v2 E cipher_id data headers =
     act_bind (writable_cipher E cipher_id headers ''Cipher is not write accessible'') (\<lambda>cipher.
     act_bind (act_sum (NumberOrString_into_i64 (ard_file_size data))) (\<lambda>file_size.
     act_seq (err_if (file_size < 0) ''Attachment size can't be negative'')
     (act_bind (act_run (generate_attachment_id E)) (\<lambda>attachment_id.
      act_seq (act_upd (Attachment_save (Attachment_new attachment_id (ci_uuid cipher) (ard_file_name data) file_size
        (Some (ard_key data)))))
      (act_ret (attachment_id, ''/ciphers/'' @ ci_uuid cipher @ ''/attachment/'' @ attachment_id))))))"

record UploadData =
  up_key :: "string option"
  up_raw_name :: "string option"
  up_len :: nat

text \<open>What is left of the storage limit of the owner, as \<open>Some\<close> of a limit or \<open>None\<close> without one. The
  record of the v2 API is already counted.\<close>

definition limit_left :: "int option \<Rightarrow> int \<Rightarrow> int \<Rightarrow> (server, int option) act" where
  "limit_left limit already_used size_adjust =
     (case limit of
        None \<Rightarrow> act_ret None
      | Some limit_kb \<Rightarrow>
          if limit_kb = 0 then act_err (Api ''Attachments are disabled'')
          else
            act_bind (some_or ''Attachment size overflow''
              (case checked (limit_kb * 1024) of None \<Rightarrow> None
               | Some l \<Rightarrow> (case checked (l - already_used) of None \<Rightarrow> None | Some l \<Rightarrow> checked (l + size_adjust)))) (\<lambda>left.
            act_seq (err_if (left \<le> 0) ''Attachment storage limit reached! Delete some attachments to free up space'')
            (act_ret (Some left))))"

definition attachment_limit :: "env \<Rightarrow> Cipher \<Rightarrow> int \<Rightarrow> (server, int option) act" where
  "attachment_limit E cipher size_adjust =
     (case ci_user_uuid cipher of
        Some user_id \<Rightarrow> act_bind (act_get (size_by_user user_id)) (\<lambda>used.
          limit_left (user_attachment_limit (conf E)) used size_adjust)
      | None \<Rightarrow>
          (case ci_organization_uuid cipher of
             Some org_id \<Rightarrow> act_bind (act_get (size_by_org org_id)) (\<lambda>used.
               limit_left (org_attachment_limit (conf E)) used size_adjust)
           | None \<Rightarrow> act_err (Api ''Cipher is neither owned by a user nor an organization'')))"

definition LEEWAY :: int where "LEEWAY = 1024 * 1024"

definition upload_v2 :: "env \<Rightarrow> Attachment \<Rightarrow> int \<Rightarrow> (server, unit) act" where
  "upload_v2 E attachment file_size =
     act_bind (some_or ''Invalid attachment size max'' (checked (at_file_size attachment + LEEWAY))) (\<lambda>max_size.
     act_bind (some_or ''Invalid attachment size min'' (checked (at_file_size attachment - LEEWAY))) (\<lambda>min_size.
     if min_size \<le> file_size \<and> file_size \<le> max_size
     then act_when (file_size \<noteq> at_file_size attachment)
       (act_upd (Attachment_save (attachment\<lparr>at_file_size := file_size\<rparr>)))
     else act_seq (act_ignore (Attachment_delete E attachment))
       (act_err (Api (''Attachment size mismatch (expected within ['' @ int_to_string min_size @ '', ''
          @ int_to_string max_size @ ''], got '' @ int_to_string file_size @ '')'')))))"

definition upload_legacy :: "CipherId \<Rightarrow> AttachmentId \<Rightarrow> UploadData \<Rightarrow> int \<Rightarrow> (server, unit) act" where
  "upload_legacy cipher_id file_id data file_size =
     act_bind (some_or ''No filename provided'' (up_raw_name data)) (\<lambda>name.
     act_seq (err_if (up_key data = None) ''No attachment key provided'')
     (act_upd (Attachment_save (Attachment_new file_id cipher_id name file_size (up_key data)))))"

definition save_attachment_file :: "env \<Rightarrow> CipherId \<Rightarrow> AttachmentId \<Rightarrow> (server, unit) act" where
  "save_attachment_file E cipher_id file_id s =
     (case storage_write E (tick s) (cipher_id @ ''/'' @ file_id) of
        Some e \<Rightarrow> (Inl (Api e), bump s) | None \<Rightarrow> (Inr (), bump s))"

definition save_attachment ::
  "env \<Rightarrow> Attachment option \<Rightarrow> CipherId \<Rightarrow> UploadData \<Rightarrow> Headers \<Rightarrow> (server, Cipher) act" where
  "save_attachment E attachment cipher_id data headers =
     act_bind (some_or ''Attachment data size overflow'' (checked (int (up_len data)))) (\<lambda>file_size.
     act_seq (err_if (file_size < 0) ''Attachment size can't be negative'')
     (act_bind (writable_cipher E cipher_id headers ''Cipher is not write accessible'') (\<lambda>cipher.
      act_bind (attachment_limit E cipher (case attachment of None \<Rightarrow> 0 | Some a \<Rightarrow> at_file_size a)) (\<lambda>limit.
      act_seq (err_if (opt_is limit (\<lambda>l. l < file_size)) ''Attachment storage limit exceeded with this file'')
      (act_bind (case attachment of Some a \<Rightarrow> act_ret (at_id a) | None \<Rightarrow> act_run (generate_attachment_id E)) (\<lambda>file_id.
       act_seq (case attachment of Some a \<Rightarrow> upload_v2 E a file_size | None \<Rightarrow> upload_legacy cipher_id file_id data file_size)
       (act_seq (save_attachment_file E cipher_id file_id)
       (act_seq (notify_cipher E cipher)
       (act_seq (log_cipher E CipherAttachmentCreated cipher headers)
       (act_ret cipher))))))))))"

definition post_attachment_v2_data ::
  "env \<Rightarrow> CipherId \<Rightarrow> AttachmentId \<Rightarrow> UploadData \<Rightarrow> Headers \<Rightarrow> (server, unit) act" where
  "post_attachment_v2_data E cipher_id attachment_id data headers =
     act_bind (act_get (Attachment_find_by_id E attachment_id)) (\<lambda>a.
     act_bind (some_or ''Attachment doesn't exist'' a) (\<lambda>attachment.
     act_seq (err_if (cipher_id \<noteq> at_cipher_uuid attachment) ''Attachment doesn't belong to cipher'')
     (act_bind (save_attachment E (Some attachment) cipher_id data headers) (\<lambda>_. act_ret ()))))"

definition post_attachment :: "env \<Rightarrow> CipherId \<Rightarrow> UploadData \<Rightarrow> Headers \<Rightarrow> (server, Cipher) act" where
  "post_attachment E cipher_id data headers = save_attachment E None cipher_id data headers"

definition delete_cipher_attachment_by_id :: "env \<Rightarrow> CipherId \<Rightarrow> AttachmentId \<Rightarrow> Headers \<Rightarrow> (server, Cipher) act" where
  "delete_cipher_attachment_by_id E cipher_id attachment_id headers =
     act_bind (act_get (Attachment_find_by_id E attachment_id)) (\<lambda>a.
     act_bind (some_or ''Attachment doesn't exist'' a) (\<lambda>attachment.
     act_seq (err_if (at_cipher_uuid attachment \<noteq> cipher_id) ''Attachment from other cipher'')
     (act_bind (writable_cipher E cipher_id headers ''Cipher cannot be deleted by user'') (\<lambda>cipher.
      act_seq (Attachment_delete E attachment)
      (act_seq (notify_cipher E cipher)
      (act_seq (log_cipher E CipherAttachmentDeleted cipher headers)
      (act_ret cipher)))))))"

definition post_attachment_share ::
  "env \<Rightarrow> CipherId \<Rightarrow> AttachmentId \<Rightarrow> UploadData \<Rightarrow> Headers \<Rightarrow> (server, Cipher) act" where
  "post_attachment_share E cipher_id attachment_id data headers =
     act_bind (delete_cipher_attachment_by_id E cipher_id attachment_id headers) (\<lambda>_.
     post_attachment E cipher_id data headers)"

section \<open>Import\<close>

record FolderData =
  fd_id :: "FolderId option"
  fd_name :: string

record ImportData =
  im_ciphers :: "CipherData list"
  im_folders :: "FolderData list"
  im_folder_relationships :: "(nat \<times> nat) list"

definition bad_history :: "json option \<Rightarrow> bool" where
  "bad_history h = (case h of
     Some (JArr xs) \<Rightarrow> list_ex (\<lambda>x. case x of JObj kvs \<Rightarrow> opt_is (map_of kvs ''password'')
        (\<lambda>p. case p of JStr _ \<Rightarrow> False | _ \<Rightarrow> True) | _ \<Rightarrow> False) xs
   | _ \<Rightarrow> False)"

definition validate_cipher_data :: "env \<Rightarrow> CipherData list \<Rightarrow> (server, unit) act" where
  "validate_cipher_data E cs =
     err_if (list_ex (\<lambda>c. note_too_long E c \<or> bad_history (cp_password_history c)) cs) ''The model state is invalid.''"

fun import_folders :: "env \<Rightarrow> UserId \<Rightarrow> FolderId list \<Rightarrow> FolderData list \<Rightarrow> server \<Rightarrow> FolderId list \<times> server" where
  "import_folders E user existing [] s = ([], s)"
| "import_folders E user existing (f # fs) s =
     (let (folder_id, s) = (case fd_id f of
            Some i \<Rightarrow> if i \<in> set existing then (i, s)
              else (let (new_folder, s) = Folder_new E user (fd_name f) s; (new_folder, s) = Folder_save E new_folder s
                    in (f_uuid new_folder, s))
          | None \<Rightarrow> (let (new_folder, s) = Folder_new E user (fd_name f) s; (new_folder, s) = Folder_save E new_folder s
                    in (f_uuid new_folder, s)));
          (ids, s) = import_folders E user existing fs s
      in (folder_id # ids, s))"

text \<open>The indexed access \<open>folders[*i]\<close> panics out of range.\<close>

fun import_ciphers :: "env \<Rightarrow> FolderId list \<Rightarrow> (nat \<rightharpoonup> nat) \<Rightarrow> Headers \<Rightarrow> nat \<Rightarrow> CipherData list \<Rightarrow> (server, unit) act" where
  "import_ciphers E folder_ids relations headers index [] = act_ret ()"
| "import_ciphers E folder_ids relations headers index (c # cs) =
     act_bind (case relations index of
         None \<Rightarrow> act_ret None
       | Some i \<Rightarrow> if i < length folder_ids then act_ret (Some (folder_ids ! i)) else act_err (Panic ''index out of bounds'')) (\<lambda>folder_id.
     act_bind (act_run (Cipher_new E (cp_type c) (cp_name c))) (\<lambda>cipher.
     act_bind (update_cipher_from_data E cipher (c\<lparr>cp_folder_id := folder_id\<rparr>) headers None UpdateNone) (\<lambda>_.
     import_ciphers E folder_ids relations headers (Suc index) cs)))"

definition post_ciphers_import :: "env \<Rightarrow> ImportData \<Rightarrow> Headers \<Rightarrow> (server, unit) act" where
  "post_ciphers_import E data headers =
     (let user = h_user headers in
     act_seq (enforce_personal_ownership_policy None headers)
     (act_seq (validate_cipher_data E (im_ciphers data))
     (act_bind (act_get (Folder_find_by_user (u_uuid user))) (\<lambda>existing.
      act_bind (act_run (import_folders E (u_uuid user) (map f_uuid existing) (im_folders data))) (\<lambda>folder_ids.
      act_seq (import_ciphers E folder_ids (collect_map (im_folder_relationships data)) headers 0 (im_ciphers data))
      (act_upd (\<lambda>s. snd (update_revision E user s))))))))"

section \<open>Routes\<close>

text \<open>The routes that hand their request on to one of the handlers above. A deletion by \<open>PUT\<close> is the
  trash, by \<open>POST\<close> and \<open>DELETE\<close> it is permanent.\<close>

definition get_cipher_admin :: "env \<Rightarrow> CipherId \<Rightarrow> Headers \<Rightarrow> (server, Cipher) act" where
  "get_cipher_admin E i h = get_cipher E i h"

definition get_cipher_details :: "env \<Rightarrow> CipherId \<Rightarrow> Headers \<Rightarrow> (server, Cipher) act" where
  "get_cipher_details E i h = get_cipher E i h"

definition post_ciphers_admin :: "env \<Rightarrow> ShareCipherData \<Rightarrow> Headers \<Rightarrow> (server, Cipher) act" where
  "post_ciphers_admin E d h = post_ciphers_create E d h"

definition put_cipher_admin :: "env \<Rightarrow> CipherId \<Rightarrow> CipherData \<Rightarrow> Headers \<Rightarrow> (server, Cipher) act" where
  "put_cipher_admin E i d h = put_cipher E i d h"

definition post_cipher :: "env \<Rightarrow> CipherId \<Rightarrow> CipherData \<Rightarrow> Headers \<Rightarrow> (server, Cipher) act" where
  "post_cipher E i d h = put_cipher E i d h"

definition post_cipher_admin :: "env \<Rightarrow> CipherId \<Rightarrow> CipherData \<Rightarrow> Headers \<Rightarrow> (server, Cipher) act" where
  "post_cipher_admin E i d h = post_cipher E i d h"

definition post_cipher_partial :: "env \<Rightarrow> CipherId \<Rightarrow> FolderId option \<Rightarrow> bool \<Rightarrow> Headers \<Rightarrow> (server, Cipher) act" where
  "post_cipher_partial E i f fav h = put_cipher_partial E i f fav h"

definition put_collections_update :: "env \<Rightarrow> (CollectionId list \<Rightarrow> CollectionId list) \<Rightarrow> CipherId \<Rightarrow> CollectionId list \<Rightarrow> Headers \<Rightarrow> (server, Cipher) act" where
  "put_collections_update E ord i cols h = post_collections_update E ord i cols h"

definition post_collections2_update :: "env \<Rightarrow> (CollectionId list \<Rightarrow> CollectionId list) \<Rightarrow> CipherId \<Rightarrow> CollectionId list \<Rightarrow> Headers \<Rightarrow> (server, Cipher) act" where
  "post_collections2_update E ord i cols h = post_collections_update E ord i cols h"

definition put_collections2_update :: "env \<Rightarrow> (CollectionId list \<Rightarrow> CollectionId list) \<Rightarrow> CipherId \<Rightarrow> CollectionId list \<Rightarrow> Headers \<Rightarrow> (server, Cipher) act" where
  "put_collections2_update E ord i cols h = post_collections2_update E ord i cols h"

definition put_collections_admin :: "env \<Rightarrow> (CollectionId list \<Rightarrow> CollectionId list) \<Rightarrow> CipherId \<Rightarrow> CollectionId list \<Rightarrow> Headers \<Rightarrow> (server, unit) act" where
  "put_collections_admin E ord i cols h = post_collections_admin E ord i cols h"

definition post_cipher_share :: "env \<Rightarrow> CipherId \<Rightarrow> ShareCipherData \<Rightarrow> Headers \<Rightarrow> (server, Cipher) act" where
  "post_cipher_share E i d h = share_cipher_by_uuid E i d h None"

definition put_cipher_share :: "env \<Rightarrow> CipherId \<Rightarrow> ShareCipherData \<Rightarrow> Headers \<Rightarrow> (server, Cipher) act" where
  "put_cipher_share E i d h = share_cipher_by_uuid E i d h None"

definition post_attachment_admin :: "env \<Rightarrow> CipherId \<Rightarrow> UploadData \<Rightarrow> Headers \<Rightarrow> (server, Cipher) act" where
  "post_attachment_admin E i d h = post_attachment E i d h"

definition delete_attachment :: "env \<Rightarrow> CipherId \<Rightarrow> AttachmentId \<Rightarrow> Headers \<Rightarrow> (server, Cipher) act" where
  "delete_attachment E i a h = delete_cipher_attachment_by_id E i a h"

definition delete_attachment_post :: "env \<Rightarrow> CipherId \<Rightarrow> AttachmentId \<Rightarrow> Headers \<Rightarrow> (server, Cipher) act" where
  "delete_attachment_post E i a h = delete_attachment E i a h"

definition delete_attachment_post_admin :: "env \<Rightarrow> CipherId \<Rightarrow> AttachmentId \<Rightarrow> Headers \<Rightarrow> (server, Cipher) act" where
  "delete_attachment_post_admin E i a h = delete_attachment E i a h"

definition delete_attachment_admin :: "env \<Rightarrow> CipherId \<Rightarrow> AttachmentId \<Rightarrow> Headers \<Rightarrow> (server, Cipher) act" where
  "delete_attachment_admin E i a h = delete_cipher_attachment_by_id E i a h"

definition delete_cipher_post :: "env \<Rightarrow> CipherId \<Rightarrow> Headers \<Rightarrow> (server, unit) act" where
  "delete_cipher_post E i h = delete_cipher_by_uuid E i h HardSingle"

definition delete_cipher_post_admin :: "env \<Rightarrow> CipherId \<Rightarrow> Headers \<Rightarrow> (server, unit) act" where
  "delete_cipher_post_admin E i h = delete_cipher_by_uuid E i h HardSingle"

definition delete_cipher_put :: "env \<Rightarrow> CipherId \<Rightarrow> Headers \<Rightarrow> (server, unit) act" where
  "delete_cipher_put E i h = delete_cipher_by_uuid E i h SoftSingle"

definition delete_cipher_put_admin :: "env \<Rightarrow> CipherId \<Rightarrow> Headers \<Rightarrow> (server, unit) act" where
  "delete_cipher_put_admin E i h = delete_cipher_by_uuid E i h SoftSingle"

definition delete_cipher :: "env \<Rightarrow> CipherId \<Rightarrow> Headers \<Rightarrow> (server, unit) act" where
  "delete_cipher E i h = delete_cipher_by_uuid E i h HardSingle"

definition delete_cipher_admin :: "env \<Rightarrow> CipherId \<Rightarrow> Headers \<Rightarrow> (server, unit) act" where
  "delete_cipher_admin E i h = delete_cipher_by_uuid E i h HardSingle"

definition delete_cipher_selected :: "env \<Rightarrow> CipherId list \<Rightarrow> Headers \<Rightarrow> (server, unit) act" where
  "delete_cipher_selected E is h = delete_multiple_ciphers E is h HardMulti"

definition delete_cipher_selected_post :: "env \<Rightarrow> CipherId list \<Rightarrow> Headers \<Rightarrow> (server, unit) act" where
  "delete_cipher_selected_post E is h = delete_multiple_ciphers E is h HardMulti"

definition delete_cipher_selected_put :: "env \<Rightarrow> CipherId list \<Rightarrow> Headers \<Rightarrow> (server, unit) act" where
  "delete_cipher_selected_put E is h = delete_multiple_ciphers E is h SoftMulti"

definition delete_cipher_selected_admin :: "env \<Rightarrow> CipherId list \<Rightarrow> Headers \<Rightarrow> (server, unit) act" where
  "delete_cipher_selected_admin E is h = delete_multiple_ciphers E is h HardMulti"

definition delete_cipher_selected_post_admin :: "env \<Rightarrow> CipherId list \<Rightarrow> Headers \<Rightarrow> (server, unit) act" where
  "delete_cipher_selected_post_admin E is h = delete_multiple_ciphers E is h HardMulti"

definition delete_cipher_selected_put_admin :: "env \<Rightarrow> CipherId list \<Rightarrow> Headers \<Rightarrow> (server, unit) act" where
  "delete_cipher_selected_put_admin E is h = delete_multiple_ciphers E is h SoftMulti"

definition restore_cipher_put :: "env \<Rightarrow> CipherId \<Rightarrow> Headers \<Rightarrow> (server, Cipher) act" where
  "restore_cipher_put E i h = restore_cipher_by_uuid E i h False"

definition restore_cipher_put_admin :: "env \<Rightarrow> CipherId \<Rightarrow> Headers \<Rightarrow> (server, Cipher) act" where
  "restore_cipher_put_admin E i h = restore_cipher_by_uuid E i h False"

definition restore_cipher_selected :: "env \<Rightarrow> CipherId list \<Rightarrow> Headers \<Rightarrow> (server, Cipher list) act" where
  "restore_cipher_selected E is h = restore_multiple_ciphers E is h"

definition restore_cipher_selected_admin :: "env \<Rightarrow> CipherId list \<Rightarrow> Headers \<Rightarrow> (server, Cipher list) act" where
  "restore_cipher_selected_admin E is h = restore_multiple_ciphers E is h"

definition move_cipher_selected_put :: "env \<Rightarrow> FolderId option \<Rightarrow> CipherId list \<Rightarrow> Headers \<Rightarrow> (server, unit) act" where
  "move_cipher_selected_put E f is h = move_cipher_selected E f is h"

definition archive_cipher_put :: "env \<Rightarrow> CipherId \<Rightarrow> Headers \<Rightarrow> (server, Cipher) act" where
  "archive_cipher_put E i h = archive_cipher E i h False"

definition archive_cipher_selected :: "env \<Rightarrow> CipherId list \<Rightarrow> Headers \<Rightarrow> (server, Cipher list) act" where
  "archive_cipher_selected E is h = archive_multiple_ciphers E is h"

definition unarchive_cipher_put :: "env \<Rightarrow> CipherId \<Rightarrow> Headers \<Rightarrow> (server, Cipher) act" where
  "unarchive_cipher_put E i h = unarchive_cipher E i h False"

definition unarchive_cipher_selected :: "env \<Rightarrow> CipherId list \<Rightarrow> Headers \<Rightarrow> (server, Cipher list) act" where
  "unarchive_cipher_selected E is h = unarchive_multiple_ciphers E is h"

end
