(* ===== verification/KeyRotation.thy ===== *)
theory KeyRotation
  imports AccountApi CipherApi
begin

text \<open>
  The rotation of the account keys, \<open>validate_keydata\<close> and \<open>post_rotatekey\<close> of
  \<open>api/core/accounts.rs\<close>: the client sends every folder, emergency access, reset-password key, send and
  cipher encrypted with the new key, and the server replaces them one after the other without a
  transaction. The rows read at the start are a local variable that the loops update.
\<close>

record UpdateFolderData =
  uf_id :: "FolderId option"
  uf_name :: string

record UpdateEmergencyAccessData =
  ue_id :: EmergencyAccessId
  ue_key_encrypted :: string

record UpdateResetPasswordData =
  ur_organization_id :: OrganizationId
  ur_reset_password_key :: string

record MasterPasswordUnlockData =
  mu_kdf_type :: int
  mu_kdf_iterations :: int
  mu_kdf_parallelism :: "int option"
  mu_kdf_memory :: "int option"
  mu_email :: string
  mu_master_key_authentication_hash :: string
  mu_master_key_encrypted_user_key :: string

record RotateAccountUnlockData =
  ru_emergency_access_unlock_data :: "UpdateEmergencyAccessData list"
  ru_master_password_unlock_data :: MasterPasswordUnlockData
  ru_organization_account_recovery_unlock_data :: "UpdateResetPasswordData list"

record RotateAccountKeys =
  rk_user_key_encrypted_account_private_key :: string
  rk_account_public_key :: string

record RotateAccountData =
  ra_ciphers :: "CipherData list"
  ra_folders :: "UpdateFolderData list"
  ra_sends :: "SendData list"

record KeyData =
  kk_account_unlock_data :: RotateAccountUnlockData
  kk_account_keys :: RotateAccountKeys
  kk_account_data :: RotateAccountData
  kk_old_master_key_authentication_hash :: string

section \<open>The check before\<close>

record vault_rows =
  vr_ciphers :: "Cipher list"
  vr_folders :: "Folder list"
  vr_emergency :: "EmergencyAccess list"
  vr_memberships :: "Membership list"
  vr_sends :: "Send list"

definition existing_rows :: "UserId \<Rightarrow> server \<Rightarrow> vault_rows" where
  "existing_rows user s =
     \<lparr>vr_ciphers = find_owned_by_user user s, vr_folders = Folder_find_by_user user s,
      vr_emergency = find_all_confirmed_by_grantor_uuid user s,
      vr_memberships = filter (\<lambda>m. m_reset_password_key m \<noteq> None) (Membership_find_any_state_by_user user s),
      vr_sends = Send_find_by_user user s\<rparr>"

definition provided_cipher_ids :: "KeyData \<Rightarrow> CipherId list" where
  "provided_cipher_ids data = List.map_filter cp_id (filter (\<lambda>c. cp_organization_id c = None) (ra_ciphers (kk_account_data data)))"

definition provided_folder_ids :: "KeyData \<Rightarrow> FolderId list" where
  "provided_folder_ids data = List.map_filter uf_id (ra_folders (kk_account_data data))"

definition provided_send_ids :: "KeyData \<Rightarrow> SendId list" where
  "provided_send_ids data = List.map_filter sn_id (ra_sends (kk_account_data data))"

definition validate_keydata :: "KeyData \<Rightarrow> vault_rows \<Rightarrow> User \<Rightarrow> (server, unit) act" where
  "validate_keydata data rows user =
     (let mp = ru_master_password_unlock_data (kk_account_unlock_data data) in
      act_seq (err_if (u_client_kdf_type user \<noteq> mu_kdf_type mp \<or> u_client_kdf_iter user \<noteq> mu_kdf_iterations mp
           \<or> u_client_kdf_memory user \<noteq> mu_kdf_memory mp \<or> u_client_kdf_parallelism user \<noteq> mu_kdf_parallelism mp
           \<or> u_email user \<noteq> mu_email mp) ''Changing the kdf variant or email is not supported during key rotation'')
      (act_seq (err_if (u_public_key user \<noteq> Some (rk_account_public_key (kk_account_keys data)))
        ''Changing the asymmetric keypair is not possible during key rotation'')
      (act_seq (err_if (\<not> ci_uuid ` set (vr_ciphers rows) \<subseteq> set (provided_cipher_ids data))
        ''All existing ciphers must be included in the rotation'')
      (act_seq (err_if (\<not> f_uuid ` set (vr_folders rows) \<subseteq> set (provided_folder_ids data))
        ''All existing folders must be included in the rotation'')
      (act_seq (err_if (\<not> ea_uuid ` set (vr_emergency rows)
           \<subseteq> ue_id ` set (ru_emergency_access_unlock_data (kk_account_unlock_data data)))
        ''All existing emergency access keys must be included in the rotation'')
      (act_seq (err_if (\<not> m_org_uuid ` set (vr_memberships rows)
           \<subseteq> ur_organization_id ` set (ru_organization_account_recovery_unlock_data (kk_account_unlock_data data)))
        ''All existing reset password keys must be included in the rotation'')
      (err_if (\<not> sd_uuid ` set (vr_sends rows) \<subseteq> set (provided_send_ids data))
        ''All existing sends must be included in the rotation'')))))))"

section \<open>The loops\<close>

text \<open>\<open>existing.iter_mut().find(..)\<close>: the row that the iteration updates takes the place of the one found.\<close>

definition put_row :: "('r \<Rightarrow> 'k) \<Rightarrow> 'r \<Rightarrow> 'r list \<Rightarrow> 'r list" where
  "put_row key r rows = map (\<lambda>x. if key x = key r then r else x) rows"

definition rotate_folder :: "env \<Rightarrow> UpdateFolderData \<Rightarrow> Folder list \<Rightarrow> (server, Folder list) act" where
  "rotate_folder E d rows = (case uf_id d of
     None \<Rightarrow> act_ret rows
   | Some i \<Rightarrow>
       act_bind (some_or ''Folder doesn't exist'' (List.find (\<lambda>f. f_uuid f = i) rows)) (\<lambda>f.
       act_bind (act_run (Folder_save E (f\<lparr>f_name := uf_name d\<rparr>))) (\<lambda>f. act_ret (put_row f_uuid f rows))))"

definition rotate_emergency ::
  "env \<Rightarrow> UpdateEmergencyAccessData \<Rightarrow> EmergencyAccess list \<Rightarrow> (server, EmergencyAccess list) act" where
  "rotate_emergency E d rows =
     act_bind (some_or ''Emergency access doesn't exist or is not owned by the user''
       (List.find (\<lambda>x. ea_uuid x = ue_id d) rows)) (\<lambda>ea.
     act_bind (act_run (EmergencyAccess_save E (ea\<lparr>ea_key_encrypted := Some (ue_key_encrypted d)\<rparr>))) (\<lambda>ea.
     act_ret (put_row ea_uuid ea rows)))"

definition rotate_reset_key :: "env \<Rightarrow> UpdateResetPasswordData \<Rightarrow> Membership list \<Rightarrow> (server, Membership list) act" where
  "rotate_reset_key E d rows =
     act_bind (some_or ''Reset password doesn't exist'' (List.find (\<lambda>m. m_org_uuid m = ur_organization_id d) rows)) (\<lambda>m.
     let m = m\<lparr>m_reset_password_key := Some (ur_reset_password_key d)\<rparr> in
     act_seq (act_upd (Membership_save E m)) (act_ret (put_row m_uuid m rows)))"

text \<open>The closure of the search runs on the rows, so that a missing id panics only when there are rows.\<close>

definition rotate_send :: "env \<Rightarrow> User \<Rightarrow> SendData \<Rightarrow> Send list \<Rightarrow> (server, Send list) act" where
  "rotate_send E hu d rows =
     act_bind (if rows \<noteq> [] \<and> sn_id d = None then act_err (Panic unwrap_msg)
               else some_or ''Send doesn't exist'' (List.find (\<lambda>x. Some (sd_uuid x) = sn_id d) rows)) (\<lambda>sd.
     act_bind (update_send_from_data E sd d hu False) (\<lambda>sd. act_ret (put_row sd_uuid sd rows)))"

definition rotate_cipher :: "env \<Rightarrow> Headers \<Rightarrow> CipherData \<Rightarrow> Cipher list \<Rightarrow> (server, Cipher list) act" where
  "rotate_cipher E headers d rows =
     (if cp_organization_id d = None
      then act_bind (if rows \<noteq> [] \<and> cp_id d = None then act_err (Panic unwrap_msg)
                     else some_or ''Cipher doesn't exist'' (List.find (\<lambda>c. Some (ci_uuid c) = cp_id d) rows)) (\<lambda>c.
           act_bind (update_cipher_from_data E c d headers None UpdateNone) (\<lambda>c. act_ret (put_row ci_uuid c rows)))
      else act_ret rows)"

definition rotate_rows :: "env \<Rightarrow> KeyData \<Rightarrow> Headers \<Rightarrow> vault_rows \<Rightarrow> (server, unit) act" where
  "rotate_rows E data headers rows =
     act_seq (act_void (act_fold (rotate_folder E) (ra_folders (kk_account_data data)) (vr_folders rows)))
     (act_seq (act_void (act_fold (rotate_emergency E)
        (ru_emergency_access_unlock_data (kk_account_unlock_data data)) (vr_emergency rows)))
     (act_seq (act_void (act_fold (rotate_reset_key E)
        (ru_organization_account_recovery_unlock_data (kk_account_unlock_data data)) (vr_memberships rows)))
     (act_seq (act_void (act_fold (rotate_send E (h_user headers)) (ra_sends (kk_account_data data)) (vr_sends rows)))
     (act_void (act_fold (rotate_cipher E headers) (ra_ciphers (kk_account_data data)) (vr_ciphers rows))))))"

definition rotate_user :: "env \<Rightarrow> KeyData \<Rightarrow> Headers \<Rightarrow> (server, unit) act" where
  "rotate_user E data headers =
     (let mp = ru_master_password_unlock_data (kk_account_unlock_data data);
          user = (h_user headers)\<lparr>u_private_key := Some (rk_user_key_encrypted_account_private_key (kk_account_keys data))\<rparr> in
      act_bind (set_password E (mu_master_key_authentication_hash mp) (Some (mu_master_key_encrypted_user_key mp)) True None
        user) (\<lambda>user.
      act_void (User_save E user)))"

definition post_rotatekey :: "env \<Rightarrow> KeyData \<Rightarrow> Headers \<Rightarrow> (server, unit) act" where
  "post_rotatekey E data headers =
     act_seq (check_password E (kk_old_master_key_authentication_hash data) (h_user headers))
     (act_seq (validate_cipher_data E (ra_ciphers (kk_account_data data)))
     (act_bind (act_get (existing_rows (u_uuid (h_user headers)))) (\<lambda>rows.
      act_seq (validate_keydata data rows (h_user headers))
      (act_seq (rotate_rows E data headers rows)
      (rotate_user E data headers)))))"

end
