(* ===== verification/EmergencyOutside.thy ===== *)
theory EmergencyOutside
  imports EmergencyLife KeyRotation
begin

text \<open>
  The two handlers of \<open>api/core/accounts.rs\<close> that write the table of emergency accesses: a registration
  accepts the open invitations of its address, a key rotation replaces the keys of the confirmed ones.
  Every other statement of the two leaves the table alone (\<open>ea_same\<close>); \<open>side\<close> says what they do to a row.
\<close>

section \<open>Statements that leave the table alone\<close>

abbreviation ea_same :: "EmergencyAccess list \<Rightarrow> server \<Rightarrow> bool" where
  "ea_same T s \<equiv> emergency_accesses s = T"

named_theorems ea_apart

lemma apart_upd [ea_apart]: "(\<And>s. emergency_accesses (f s) = emergency_accesses s) \<Longrightarrow> stable (ea_same T) (act_upd f)"
  by (rule stable_upd) simp

lemma apart_run [ea_apart]: "(\<And>s. emergency_accesses (snd (f s)) = emergency_accesses s) \<Longrightarrow> stable (ea_same T) (act_run f)"
  by (rule stable_run) simp

lemma apart_log: "emergency_accesses (log_event E ty src org u dev ip s) = emergency_accesses s"
  using log_event_eq [of E ty src org u dev ip s] by auto

lemma apart_rows [ea_apart]:
  "emergency_accesses (update_uuid_revision E u s) = emergency_accesses s"
  "emergency_accesses (snd (Cipher_update_users_revision E ci s)) = emergency_accesses s"
  "emergency_accesses (snd (utc_now E s)) = emergency_accesses s"
  "emergency_accesses (snd (Cipher_save E ci s)) = emergency_accesses s"
  "emergency_accesses (fc_save fc s) = emergency_accesses s"
  "emergency_accesses (fc_delete fc s) = emergency_accesses s"
  "emergency_accesses (Cipher_set_archived_at E d u ci s) = emergency_accesses s"
  "emergency_accesses (Attachment_save a s) = emergency_accesses s"
  "emergency_accesses (snd (Folder_save E f s)) = emergency_accesses s"
  "emergency_accesses (Membership_save E m s) = emergency_accesses s"
  using revises_frame(21) [OF revises_cipher_users [of s E ci]] revises_frame(21) [OF revises_revision [of s E u]]
  by (simp_all add: utc_now_def Cipher_save_def Let_def fc_save_def fc_delete_def Cipher_set_archived_at_def Archive_save_def
      Attachment_save_def Folder_save_def Membership_save_def revises_frame [OF revises_revision])

lemma apart_favorite [ea_apart]: "emergency_accesses (Cipher_set_favorite E f u ci s) = emergency_accesses s"
  by (cases f; cases "is_favorite (ci_uuid ci) u s"; cases "the f")
    (auto simp: Cipher_set_favorite_def set_favorite_def Let_def)

lemma apart_attachments [ea_apart]: "emergency_accesses (update_attachments E i as s) = emergency_accesses s"
  by (induction E i as s rule: update_attachments.induct) (auto split: option.split simp: ea_apart)

lemma apart_move [stable_intros]: "stable (ea_same T) (move_to_folder E f u ci)"
  unfolding move_to_folder_def by (auto intro!: stable_intros ea_apart split: option.split)

lemma apart_log_cipher [stable_intros]: "stable (ea_same T) (log_cipher E ty ci h)" "stable (ea_same T) (notify_cipher E ci)"
  unfolding log_cipher_def notify_cipher_def by (intro stable_intros ea_apart apart_log)+

lemma apart_reads [stable_intros]: "stable (ea_same T) (type_data d)" "stable (ea_same T) (check_folder f h)"
    "stable (ea_same T) (enforce_personal_ownership_policy d' h)" "stable (ea_same T) (assign_owner E ci org h b)"
    "stable (ea_same T) (check_password E pw u)" "stable (ea_same T) (validate_cipher_data E cs)"
    "stable (ea_same T) (validate_keydata kd rows u)"
  unfolding type_data_def check_folder_def enforce_personal_ownership_policy_def assign_owner_def check_password_def
    validate_cipher_data_def validate_keydata_def Let_def
  by (intro stable_intros ea_apart)+

lemma apart_update_cipher [stable_intros]: "stable (ea_same T) (update_cipher_from_data E ci data h shared ut)"
  unfolding update_cipher_from_data_def Let_def
  by (intro stable_intros ea_apart) (auto intro!: ea_apart split: option.split)

lemma apart_update_send [stable_intros]: "stable (ea_same T) (update_send_from_data E sd data hu False)"
  unfolding update_send_from_data_def check_deletion_date_def read_max_access_count_def Send_set_password_def Let_def if_False
  by (intro stable_intros ea_apart)
    (auto simp: Send_save_def Send_update_users_revision_def get_random_bytes_def utc_now_def Let_def split: option.split)

lemma apart_user [stable_intros]: "stable (ea_same T) (set_password E pw k reset routes u)" "stable (ea_same T) (User_save E u)"
  "stable (ea_same T) (rotate_user E data h)"
proof -
  show p: "stable (ea_same T) (set_password E pw k reset routes u)" for pw k reset routes u
    by (auto simp: stable_def act_defs act_sum_def set_password_def reset_security_stamp_def set_stamp_exception_def utc_now_def get_uuid_def Let_def
        split: sum.split option.split prod.split)
  show s: "stable (ea_same T) (User_save E u)" for u
    by (auto simp: stable_def act_defs User_save_def user_db_write_def utc_now_def Let_def split: sum.split prod.split)
  show "stable (ea_same T) (rotate_user E data h)" unfolding rotate_user_def Let_def by (intro stable_intros p s)
qed

lemma apart_register [stable_intros]: "stable (ea_same T) (check_register_tokens E data)"
    "stable (ea_same T) (enforce_password_hint_setting E h)" "stable (ea_same T) (register_user E data a b c)"
    "stable (ea_same T) (register_mails E u v m)" "stable (ea_same T) (act_run (Invitation_take E a))"
proof -
  have decode: "stable (ea_same T) (decode_register_verify E token)" "stable (ea_same T) (decode_invite E token)"
      "stable (ea_same T) (decode_emergency_access_invite E token)" for token
    by (auto simp: stable_def decode_register_verify_def decode_invite_def decode_emergency_access_invite_def split: sum.split)
  show "stable (ea_same T) (check_register_tokens E data)"
    unfolding check_register_tokens_def prod.case by (intro stable_intros decode)
  show "stable (ea_same T) (enforce_password_hint_setting E h)" unfolding enforce_password_hint_setting_def by (intro stable_intros)
  show take: "stable (ea_same T) (act_run (Invitation_take E a))" for a
    by (rule apart_run) (simp add: Invitation_take_def Invitation_delete_def split: option.split)
  show "stable (ea_same T) (register_user E data a b c)"
    unfolding register_user_def
    by (intro stable_intros take decode ea_apart)
      (simp_all add: accept_user_invitations_def User_new_def utc_now_def get_uuid_def get_random_bytes_def Let_def)
  have mail: "stable (ea_same T) (send_mail E x)" for x
    unfolding stable_def by (simp add: wp_snd [symmetric, where P = "ea_same T"] wp_simps split: option.split)
  have factor: "stable (ea_same T) (activate_email_2fa E x)" for x
    unfolding activate_email_2fa_def
    by (intro stable_intros ea_apart)
      (auto simp: EmailTokenData_new_def TwoFactor_new_def TwoFactor_save_def utc_now_def get_uuid_def)
  show "stable (ea_same T) (register_mails E u v m)"
    unfolding register_mails_def send_welcome_must_verify_def generate_verify_email_claims_def
    by (intro stable_intros ea_apart mail factor)
qed

section \<open>Writes\<close>

text \<open>A row that is written: an open invitation becomes accepted, a confirmed row gets another key.\<close>

definition moved :: "EmergencyAccess \<Rightarrow> EmergencyAccess \<Rightarrow> bool" where
  "moved v w \<longleftrightarrow>
     ea_status v = ea_st EaInvited \<and> (\<exists>g. upto w (v\<lparr>ea_status := ea_st EaAccepted, ea_grantee_uuid := Some g, ea_email := None\<rparr>))
     \<or> ea_st EaConfirmed \<le> ea_status v \<and> (\<exists>k. upto w (v\<lparr>ea_key_encrypted := Some k\<rparr>))"

definition side :: "EmergencyAccess option \<Rightarrow> EmergencyAccess option \<Rightarrow> bool" where
  "side x y \<longleftrightarrow> y = x \<or> (\<exists>v w. x = Some v \<and> y = Some w \<and> moved v w)"

definition sided :: "EmergencyAccess list \<Rightarrow> server \<Rightarrow> bool" where
  "sided T s \<longleftrightarrow> keyed ea_uuid (emergency_accesses s) \<and> (\<forall>i. side (row_at T i) (row_at (emergency_accesses s) i))"

lemma upto_iff:
  "upto x y \<longleftrightarrow> ea_uuid x = ea_uuid y \<and> ea_grantor_uuid x = ea_grantor_uuid y
    \<and> ea_grantee_uuid x = ea_grantee_uuid y \<and> ea_email x = ea_email y
    \<and> ea_key_encrypted x = ea_key_encrypted y \<and> ea_atype x = ea_atype y \<and> ea_status x = ea_status y
    \<and> ea_wait_time_days x = ea_wait_time_days y
    \<and> ea_recovery_initiated_at x = ea_recovery_initiated_at y
    \<and> ea_last_notification_at x = ea_last_notification_at y \<and> ea_created_at x = ea_created_at y"
  by (cases x; cases y) (auto simp: upto_def)

lemma moved_date [simp]: "moved v (w\<lparr>ea_updated_at := d\<rparr>) \<longleftrightarrow> moved v w"
  by (simp add: moved_def upto_def)

lemma moved_uuid: "moved v w \<Longrightarrow> ea_uuid w = ea_uuid v"
  by (auto simp: moved_def upto_iff)

lemma sided_apart: "(\<And>T. stable (ea_same T) m) \<Longrightarrow> stable (sided T) m"
  unfolding stable_def sided_def by metis

lemma stable_read: "(\<And>s. I s \<Longrightarrow> stable I (k (f s))) \<Longrightarrow> stable I (act_bind (act_get f) k)"
  unfolding stable_def by (simp add: act_defs)

lemma sided_row:
  assumes "sided T s" "x \<in> set (emergency_accesses s)"
  shows "side (row_at T (ea_uuid x)) (Some x)"
proof -
  have "row_at (emergency_accesses s) (ea_uuid x) = Some x"
    using assms by (simp add: sided_def row_at_def tbl_first_keyed)
  then show ?thesis using assms(1) unfolding sided_def by metis
qed

lemma sided_save:
  assumes "row_at T (ea_uuid x) = Some v" "moved v x"
  shows "stable (sided T) (act_run (EmergencyAccess_save E x))"
proof (rule stable_run)
  fix s assume s: "sided T s"
  let ?x = "x\<lparr>ea_updated_at := clock E (Suc (tick s))\<rparr>"
  have "side (row_at T i) (if i = ea_uuid ?x then Some ?x else row_at (emergency_accesses s) i)" for i
    using assms s by (auto simp: sided_def side_def)
  then show "sided T (snd (EmergencyAccess_save E x s))"
    using s by (simp add: sided_def keyed_upsert row_at_upsert)
qed

text \<open>A registration accepts open invitations.\<close>

lemma sided_accept:
  assumes "row_at T (ea_uuid x) = Some x" "ea_status x = ea_st EaInvited"
  shows "stable (sided T) (EmergencyAccess_accept_invite E g a x)"
  unfolding EmergencyAccess_accept_invite_def
  by (intro stable_intros sided_save [where v = x]) (use assms in \<open>auto simp: moved_def upto_def\<close>)

lemma invited_row:
  assumes "sided T s" "x \<in> set (find_all_invited_by_grantee_email a s)"
  shows "row_at T (ea_uuid x) = Some x" "ea_status x = ea_st EaInvited"
proof -
  have "x \<in> set (emergency_accesses s)" "ea_status x = 0"
    using assms(2) by (auto simp: find_all_invited_by_grantee_email_def tbl_select_def)
  with sided_row [OF assms(1), of x] show "row_at T (ea_uuid x) = Some x" "ea_status x = ea_st EaInvited"
    by (auto simp: side_def moved_def upto_iff)
qed

lemma sided_invites:
  "stable (sided T) (act_bind (act_get (find_all_invited_by_grantee_email a)) (\<lambda>invites.
     act_for invites (\<lambda>ea. act_ignore (EmergencyAccess_accept_invite E g b ea))))"
  by (intro stable_read stable_for stable_ignore sided_accept invited_row)

lemma register_sided: "stable (sided T) (register E data verification)"
proof -
  have now: "stable (ea_same T) (act_run (utc_now E))" for T by (intro ea_apart)
  note parts = apart_register apart_user(1,2) stable_sum stable_err_if now
  show ?thesis
    unfolding register_def Let_def
    by (intro stable_bind stable_seq stable_prod stable_if stable_when stable_ret sided_invites parts [THEN sided_apart])
qed

text \<open>A key rotation works on its own copies of the confirmed rows; each of them is a row of the table up to
  its key and its date.\<close>

definition rekeyed :: "EmergencyAccess list \<Rightarrow> EmergencyAccess \<Rightarrow> bool" where
  "rekeyed T x \<longleftrightarrow> (\<exists>v k. row_at T (ea_uuid x) = Some v \<and> ea_st EaConfirmed \<le> ea_status v \<and> upto x (v\<lparr>ea_key_encrypted := k\<rparr>))"

lemma rekeyed_save:
  assumes "rekeyed T x"
  shows "stable (sided T) (act_run (EmergencyAccess_save E (x\<lparr>ea_key_encrypted := Some k\<rparr>)))"
    "yields (rekeyed T) (act_run (EmergencyAccess_save E (x\<lparr>ea_key_encrypted := Some k\<rparr>)))"
proof -
  from assms obtain v k' where v: "row_at T (ea_uuid x) = Some v" "2 \<le> ea_status v" "upto x (v\<lparr>ea_key_encrypted := k'\<rparr>)"
    by (auto simp: rekeyed_def)
  then have "moved v (x\<lparr>ea_key_encrypted := Some k\<rparr>)" by (auto simp: moved_def upto_iff)
  then show "stable (sided T) (act_run (EmergencyAccess_save E (x\<lparr>ea_key_encrypted := Some k\<rparr>)))"
    using v(1) by (intro sided_save) simp_all
  show "yields (rekeyed T) (act_run (EmergencyAccess_save E (x\<lparr>ea_key_encrypted := Some k\<rparr>)))"
    using v by (auto simp: yields_def wp_run rekeyed_def upto_iff)
qed

lemma rotate_emergency_sided:
  assumes "list_all (rekeyed T) rows"
  shows "stable (sided T) (rotate_emergency E d rows)" "yields (list_all (rekeyed T)) (rotate_emergency E d rows)"
proof -
  have found: "rekeyed T x" if "List.find P rows = Some x" for P x
    using that assms by (auto simp: find_Some_iff list_all_iff)
  show "stable (sided T) (rotate_emergency E d rows)"
    unfolding rotate_emergency_def
    by (intro bind_known stable_bind stable_ret rekeyed_save(1) found)
  have put: "list_all (rekeyed T) (put_row ea_uuid y rows)" if "rekeyed T y" for y
    using that assms by (auto simp: put_row_def list_all_iff)
  have "wp (act_run (EmergencyAccess_save E (x\<lparr>ea_key_encrypted := Some k\<rparr>))) (\<lambda>y _. list_all (rekeyed T) (put_row ea_uuid y rows))
      (\<lambda>_ _. True) s" if "List.find P rows = Some x" for P x k s
    by (rule wp_mono [OF rekeyed_save(2) [OF found [OF that], unfolded yields_def, rule_format]]) (simp_all add: put)
  then show "yields (list_all (rekeyed T)) (rotate_emergency E d rows)"
    unfolding rotate_emergency_def yields_def by (intro allI) (simp add: wp_bind wp_some_or wp_ret split: option.split)
qed

lemma stable_fold_yields:
  assumes "\<And>x y. P y \<Longrightarrow> stable I (f x y)" "\<And>x y. P y \<Longrightarrow> yields P (f x y)" "P y"
  shows "stable I (act_fold f xs y)"
  using assms(3)
proof (induction xs arbitrary: y)
  case (Cons x xs)
  then show ?case using assms(1,2) by (auto intro!: stable_bind_yields [where P = P])
qed (simp add: stable_ret)

lemma existing_rekeyed:
  assumes "sided T s"
  shows "list_all (rekeyed T) (vr_emergency (existing_rows u s))"
proof -
  have "rekeyed T x" if "x \<in> set (emergency_accesses s)" "2 \<le> ea_status x" for x
    using sided_row [OF assms that(1)] that(2) by (auto simp: side_def moved_def rekeyed_def upto_iff dest!: sym [of "Some x"])
  then show ?thesis by (auto simp: existing_rows_def find_all_confirmed_by_grantor_uuid_def tbl_select_def list_all_iff)
qed

lemma post_rotatekey_sided: "stable (sided T) (post_rotatekey E data h)"
proof -
  have folder: "stable (ea_same T) (rotate_folder E d rs)" for T d rs
    unfolding rotate_folder_def by (intro stable_intros ea_apart)
  have reset: "stable (ea_same T) (rotate_reset_key E d rs)" for T d rs
    unfolding rotate_reset_key_def Let_def by (intro stable_intros ea_apart)
  have sends: "stable (ea_same T) (rotate_send E hu d rs)" for T hu d rs
    unfolding rotate_send_def by (intro stable_intros)
  have vault: "stable (ea_same T) (rotate_cipher E h d rs)" for T d rs
    unfolding rotate_cipher_def by (intro stable_intros)
  have rows: "stable (sided T) (rotate_rows E data h rows)" if "list_all (rekeyed T) (vr_emergency rows)" for rows
    unfolding rotate_rows_def
    by (intro stable_seq stable_void stable_fold sided_apart [OF folder] sided_apart [OF reset] sided_apart [OF sends]
        sided_apart [OF vault] stable_fold_yields [where P = "list_all (rekeyed T)"] rotate_emergency_sided that)
  show ?thesis
    unfolding post_rotatekey_def
    by (intro stable_read stable_seq rows apart_reads(5,6,7) [THEN sided_apart] apart_user(3) [THEN sided_apart] existing_rekeyed)
qed

end
