(* ===== verification/EmergencySafe.thy ===== *)
theory EmergencySafe
  imports EmergencyOutside
begin

text \<open>
  What the specification of emergency access gives for every run of the server: the invariant of
  the stored rows, the life cycle of the status, who can approve a recovery, what a takeover does,
  and that the job approves every request that is due.
\<close>

section \<open>Rows\<close>

definition ea_wf :: "EmergencyAccess \<Rightarrow> bool" where
  "ea_wf x \<longleftrightarrow> 0 \<le> ea_status x \<and> ea_status x \<le> 4 \<and> (ea_atype x = 0 \<or> ea_atype x = 1)
     \<and> (ea_status x = 0 \<longrightarrow> ea_grantee_uuid x = None \<and> ea_email x \<noteq> None)
     \<and> (1 \<le> ea_status x \<longrightarrow> ea_grantee_uuid x \<noteq> None \<and> ea_email x = None)
     \<and> (2 \<le> ea_status x \<longrightarrow> ea_key_encrypted x \<noteq> None)
     \<and> (3 \<le> ea_status x \<longrightarrow> ea_recovery_initiated_at x \<noteq> None)"

lemma tr_wf:
  assumes "ea_tr now r x (Some y)" "\<And>v. x = Some v \<Longrightarrow> ea_wf v"
  shows "ea_wf y"
  using assms(1)
proof cases
  case (tr_edit x d hu)
  with assms(2) show ?thesis by (simp add: ea_wf_def upto_iff)
qed (use assms(2) in \<open>auto simp: ea_wf_def upto_iff\<close>)

section \<open>Runs\<close>

lemma side_wf:
  assumes "side x (Some y)" "\<And>v. x = Some v \<Longrightarrow> ea_wf v"
  shows "ea_wf y"
  using assms by (auto simp: side_def moved_def ea_wf_def upto_iff)

text \<open>A run starts with an empty table. The table is written by the requests and jobs of this component, by
  registrations, which accept open invitations, and by key rotations, which replace the keys; the rest of
  the server may change anything but the table, of which it may delete rows (the deletion of a user does).\<close>

inductive ea_reach :: "env \<Rightarrow> server \<Rightarrow> bool" for E :: env where
  reach_init: "emergency_accesses s = [] \<Longrightarrow> ea_reach E s"
| reach_step: "ea_reach E s \<Longrightarrow> fresh_ids E s \<Longrightarrow> ea_reach E (ea_exec E r s)"
| reach_register: "ea_reach E s \<Longrightarrow> ea_reach E (snd (register E data verification s))"
| reach_rotate: "ea_reach E s \<Longrightarrow> ea_reach E (snd (post_rotatekey E key_data h s))"
| reach_other: "ea_reach E s \<Longrightarrow> emergency_accesses t = tbl_delete P (emergency_accesses s) \<Longrightarrow> ea_reach E t"

lemma sided_reach:
  assumes "keyed ea_uuid (emergency_accesses s)"
  shows "sided (emergency_accesses s) (snd (register E data verification s))"
    "sided (emergency_accesses s) (snd (post_rotatekey E key_data h s))"
proof -
  have "sided (emergency_accesses s) s" using assms by (simp add: sided_def side_def)
  then show "sided (emergency_accesses s) (snd (register E data verification s))"
    "sided (emergency_accesses s) (snd (post_rotatekey E key_data h s))"
    using register_sided post_rotatekey_sided by (auto simp: stable_def)
qed

lemma sided_wf:
  assumes "sided T t" "\<forall>x \<in> set T. ea_wf x"
  shows "keyed ea_uuid (emergency_accesses t) \<and> (\<forall>x \<in> set (emergency_accesses t). ea_wf x)"
proof
  show "\<forall>x \<in> set (emergency_accesses t). ea_wf x"
    using sided_row [OF assms(1)] side_wf assms(2) row_at_mem by blast
qed (use assms(1) in \<open>simp add: sided_def\<close>)

lemma reach_wf:
  "ea_reach E s \<Longrightarrow> keyed ea_uuid (emergency_accesses s) \<and> (\<forall>x \<in> set (emergency_accesses s). ea_wf x)"
proof (induction rule: ea_reach.induct)
  case (reach_step s r)
  then have ok: "ea_ok E r s (ea_exec E r s)" by (simp add: exec_ok)
  have k: "keyed ea_uuid (emergency_accesses (ea_exec E r s))" using ok by (simp add: ea_ok_def)
  have "ea_wf y" if "y \<in> set (emergency_accesses (ea_exec E r s))" for y
  proof (rule tr_wf)
    have "row_at (emergency_accesses (ea_exec E r s)) (ea_uuid y) = Some y"
      using that k by (simp add: row_at_def tbl_first_keyed)
    then show "ea_tr (clock E (tick s)) r (row_at (emergency_accesses s) (ea_uuid y)) (Some y)"
      using ok unfolding ea_ok_def by metis
    show "\<And>v. row_at (emergency_accesses s) (ea_uuid y) = Some v \<Longrightarrow> ea_wf v"
      using reach_step.IH row_at_mem by blast
  qed
  with k show ?case by blast
next
  case (reach_register s data verification)
  then show ?case using sided_wf [OF sided_reach(1)] by blast
next
  case (reach_rotate s key_data h)
  then show ?case using sided_wf [OF sided_reach(2)] by blast
qed (auto simp: keyed_def [of _ "[]"] intro: keyed_delete)

lemma reach_tr:
  assumes "ea_reach E s" "fresh_ids E s"
  shows "ea_tr (clock E (tick s)) r (row_at (emergency_accesses s) i) (row_at (emergency_accesses (ea_exec E r s)) i)"
  using exec_ok [OF conjunct1 [OF reach_wf [OF assms(1)]] assms(2)] by (simp add: ea_ok_def)

lemma reach_row_wf: "ea_reach E s \<Longrightarrow> row_at (emergency_accesses s) i = Some x \<Longrightarrow> ea_wf x \<and> ea_uuid x = i"
  using reach_wf row_at_mem by blast

section \<open>The life cycle of the status\<close>

fun st_of :: "int \<Rightarrow> EmergencyAccessStatus" where
  "st_of n = (if n = 0 then EaInvited else if n = 1 then EaAccepted else if n = 2 then EaConfirmed
     else if n = 3 then EaRecoveryInitiated else EaRecoveryApproved)"

definition life_of :: "server \<Rightarrow> EmergencyAccessId \<Rightarrow> EmergencyAccessStatus option" where
  "life_of s i = map_option (\<lambda>x. st_of (ea_status x)) (row_at (emergency_accesses s) i)"

inductive ea_life :: "EmergencyAccessStatus option \<Rightarrow> EmergencyAccessStatus option \<Rightarrow> bool" where
  life_stay: "ea_life x x"
| life_end: "ea_life (Some a) None"
| life_invited: "ea_life None (Some EaInvited)"
| life_invited_accepted: "ea_life None (Some EaAccepted)"
| life_accepted: "ea_life (Some EaInvited) (Some EaAccepted)"
| life_confirmed: "ea_life (Some EaAccepted) (Some EaConfirmed)"
| life_initiated: "ea_life (Some EaConfirmed) (Some EaRecoveryInitiated)"
| life_approved: "ea_life (Some EaRecoveryInitiated) (Some EaRecoveryApproved)"
| life_rejected: "ea_life (Some EaRecoveryInitiated) (Some EaConfirmed)"
| life_withdrawn: "ea_life (Some EaRecoveryApproved) (Some EaConfirmed)"

lemma tr_life:
  assumes "ea_tr now r x y" "\<And>v. x = Some v \<Longrightarrow> ea_wf v"
  shows "ea_life (map_option (\<lambda>x. st_of (ea_status x)) x) (map_option (\<lambda>x. st_of (ea_status x)) y)"
  using assms(1)
proof cases
  case (tr_accept x token hu y)
  then have "ea_status x = 0" using assms(2) by (auto simp: ea_wf_def)
  with tr_accept show ?thesis by (simp add: upto_iff ea_life.intros)
qed (auto simp: upto_iff intro: ea_life.intros)

lemma tr_approved:
  assumes "ea_tr now r (Some x) (Some y)" "ea_status x \<noteq> 4" "ea_status y = 4"
  shows "ea_status x = 3 \<and> ((\<exists>hu. r = Approve (ea_uuid x) hu \<and> ea_grantor_uuid x = u_uuid hu)
    \<or> r = TimeoutJob \<and> wait_over now x)"
  using assms by cases (auto simp: upto_iff)

section \<open>Histories\<close>

text \<open>A run with the requests of this component it executed, the latest first, each with the state it
  started in.\<close>

inductive ea_run :: "env \<Rightarrow> server \<Rightarrow> (ea_request \<times> server) list \<Rightarrow> bool" for E :: env where
  run_init: "emergency_accesses s = [] \<Longrightarrow> ea_run E s []"
| run_step: "ea_run E s h \<Longrightarrow> fresh_ids E s \<Longrightarrow> ea_run E (ea_exec E r s) ((r, s) # h)"
| run_register: "ea_run E s h \<Longrightarrow> ea_run E (snd (register E data verification s)) h"
| run_rotate: "ea_run E s h \<Longrightarrow> ea_run E (snd (post_rotatekey E key_data headers s)) h"
| run_other: "ea_run E s h \<Longrightarrow> emergency_accesses t = tbl_delete P (emergency_accesses s) \<Longrightarrow> ea_run E t h"

lemma run_reach: "ea_run E s h \<Longrightarrow> ea_reach E s"
  by (induction rule: ea_run.induct) (auto intro: ea_reach.intros)

text \<open>The parties of a row stay as they are from the acceptance on.\<close>

lemma tr_parties:
  assumes "ea_tr now r (Some x) (Some y)" "ea_wf x" "1 \<le> ea_status x"
  shows "ea_grantor_uuid y = ea_grantor_uuid x \<and> ea_grantee_uuid y = ea_grantee_uuid x"
  using assms by cases (auto simp: upto_iff ea_wf_def)

text \<open>The request \<open>r\<close>, executed in \<open>s\<close>, approves the row \<open>x\<close>: the grantor asked for it, or the
  waiting time was over when the job ran.\<close>

definition approves :: "env \<Rightarrow> EmergencyAccess \<Rightarrow> ea_request \<times> server \<Rightarrow> bool" where
  "approves E x p \<longleftrightarrow> (case p of (r, s) \<Rightarrow>
     \<exists>y. row_at (emergency_accesses s) (ea_uuid x) = Some y \<and> ea_status y = ea_st EaRecoveryInitiated
       \<and> ea_grantor_uuid y = ea_grantor_uuid x \<and> ea_grantee_uuid y = ea_grantee_uuid x
       \<and> ((\<exists>hu. r = Approve (ea_uuid x) hu \<and> u_uuid hu = ea_grantor_uuid x)
          \<or> r = TimeoutJob \<and> wait_over (clock E (tick s)) y))"

lemma approves_parties:
  "approves E x p \<Longrightarrow> ea_uuid y = ea_uuid x \<Longrightarrow> ea_grantor_uuid y = ea_grantor_uuid x \<Longrightarrow>
   ea_grantee_uuid y = ea_grantee_uuid x \<Longrightarrow> approves E y p"
  by (simp add: approves_def)

text \<open>Registrations and key rotations approve nothing.\<close>

lemma sided_approved:
  assumes "sided T t" "row_at (emergency_accesses t) i = Some x" "ea_status x = ea_st EaRecoveryApproved"
  shows "\<exists>v. row_at T i = Some v \<and> ea_status v = ea_st EaRecoveryApproved \<and> ea_uuid x = ea_uuid v
    \<and> ea_grantor_uuid x = ea_grantor_uuid v \<and> ea_grantee_uuid x = ea_grantee_uuid v"
proof -
  have "side (row_at T i) (Some x)" using assms(1,2) unfolding sided_def by metis
  then show ?thesis using assms(3) by (auto simp: side_def moved_def upto_iff dest!: sym [of "Some x"])
qed

lemma run_approved:
  assumes "ea_run E s h" "row_at (emergency_accesses s) i = Some x" "ea_status x = ea_st EaRecoveryApproved"
  shows "\<exists>p \<in> set h. approves E x p"
  using assms
proof (induction arbitrary: x rule: ea_run.induct)
  case (run_step s h r)
  have re: "ea_reach E s" by (rule run_reach [OF run_step.hyps(1)])
  have tr: "ea_tr (clock E (tick s)) r (row_at (emergency_accesses s) i) (Some x)"
    using reach_tr [OF re run_step.hyps(2), of r i] run_step.prems(1) by simp
  have ux: "ea_uuid x = i" using run_step.prems(1) row_at_mem by blast
  show ?case
  proof (cases "row_at (emergency_accesses s) i")
    case None
    with tr have "ea_status x = 0 \<or> ea_status x = 1" by (auto elim: ea_tr.cases)
    with run_step.prems(2) show ?thesis by auto
  next
    case (Some y)
    then have wf: "ea_wf y" and uy: "ea_uuid y = i" using reach_row_wf [OF re] by auto
    have tr': "ea_tr (clock E (tick s)) r (Some y) (Some x)" using tr Some by simp
    show ?thesis
    proof (cases "ea_status y = 4")
      case True
      then have "\<exists>p\<in>set h. approves E y p" using run_step.IH [OF Some] by simp
      then show ?thesis using tr_parties [OF tr' wf] True ux uy approves_parties by fastforce
    next
      case False
      then have ap: "ea_status y = 3 \<and> ((\<exists>hu. r = Approve (ea_uuid y) hu \<and> ea_grantor_uuid y = u_uuid hu)
          \<or> r = TimeoutJob \<and> wait_over (clock E (tick s)) y)"
        using tr_approved [OF tr'] run_step.prems(2) by simp
      then have "approves E x (r, s)"
        using tr_parties [OF tr' wf] Some ux uy by (auto simp: approves_def)
      then show ?thesis by simp
    qed
  qed
next
  case (run_register s h data verification)
  have "keyed ea_uuid (emergency_accesses s)" using reach_wf [OF run_reach [OF run_register.hyps(1)]] by simp
  from sided_approved [OF sided_reach(1) [OF this] run_register.prems] show ?case using run_register.IH approves_parties by metis
next
  case (run_rotate s h key_data headers)
  have "keyed ea_uuid (emergency_accesses s)" using reach_wf [OF run_reach [OF run_rotate.hyps(1)]] by simp
  from sided_approved [OF sided_reach(2) [OF this] run_rotate.prems] show ?case using run_rotate.IH approves_parties by metis
next
  case (run_other s h t P)
  have "keyed ea_uuid (emergency_accesses s)" using reach_wf [OF run_reach [OF run_other.hyps(1)]] by simp
  then have "row_at (emergency_accesses s) i = Some x"
    using run_other.prems(1) run_other.hyps(2) by (auto simp: row_at_delete split: option.splits if_splits)
  then show ?case using run_other.IH run_other.prems(2) by blast
qed (simp add: row_at_def tbl_first_def)

section \<open>Takeover\<close>

lemma takeover_denied:
  assumes "\<not> (\<exists>x. find_by_uuid_and_grantee_uuid i (u_uuid hu) s = Some x \<and> is_valid_request x (u_uuid hu) Takeover)"
  shows "\<exists>e. password_emergency_access E i d hu s = (Inl e, s)"
  using assms
  by (cases "find_by_uuid_and_grantee_uuid i (u_uuid hu) s")
    (auto simp: password_emergency_access_def check_emergency_access_enabled_def act_defs)

text \<open>The loop over the memberships removes all but the owned ones.\<close>

lemma member_loop:
  "act_for ms (\<lambda>m. act_when (m_atype m \<noteq> MembershipType_i32 Owner) (act_upd (Membership_delete E m))) s =
   (Inr (), fold (\<lambda>m s. if m_atype m \<noteq> MembershipType_i32 Owner then Membership_delete E m s else s) ms s)"
  by (rule act_for_total) (simp add: act_when_def act_upd_def act_ret_def)

lemma member_fold:
  "users_organizations (fold (\<lambda>m s. if m_atype m \<noteq> 0 then Membership_delete E m s else s) ms s) =
      tbl_delete (\<lambda>x. \<exists>m \<in> set ms. m_atype m \<noteq> 0 \<and> m_uuid x = m_uuid m) (users_organizations s)
   \<and> twofactors (fold (\<lambda>m s. if m_atype m \<noteq> 0 then Membership_delete E m s else s) ms s) = twofactors s
   \<and> devices (fold (\<lambda>m s. if m_atype m \<noteq> 0 then Membership_delete E m s else s) ms s) = devices s
   \<and> touched (users s) (users (fold (\<lambda>m s. if m_atype m \<noteq> 0 then Membership_delete E m s else s) ms s))"
proof (induction ms arbitrary: s)
  case (Cons m ms)
  let ?s = "if m_atype m \<noteq> 0 then Membership_delete E m s else s"
  have "tbl_delete (\<lambda>x. \<exists>m\<in>set ms. m_atype m \<noteq> 0 \<and> m_uuid x = m_uuid m) (users_organizations ?s)
      = tbl_delete (\<lambda>x. \<exists>m'\<in>set (m # ms). m_atype m' \<noteq> 0 \<and> m_uuid x = m_uuid m') (users_organizations s)"
    by (auto simp: Membership_delete_tables tbl_delete_delete intro!: tbl_delete_cong)
  moreover have "touched (users s) (users ?s)" by (simp add: Membership_delete_users)
  moreover have "twofactors ?s = twofactors s" "devices ?s = devices s" by (simp_all add: Membership_delete_tables)
  ultimately show ?case using Cons.IH [of ?s] touched_trans [of "users s" "users ?s"] by simp
qed (simp add: tbl_delete_def)

text \<open>What the grantor's account looks like after a takeover that started at the tick \<open>k\<close>: the tokens are
  draws from then on.\<close>

definition taken_over :: "env \<Rightarrow> nat \<Rightarrow> EmergencyAccessPasswordData \<Rightarrow> UserId \<Rightarrow> server \<Rightarrow> bool" where
  "taken_over E k d g t \<longleftrightarrow>
     (\<exists>u. User_find_by_uuid g t = Some u \<and> u_akey u = ep_key d
        \<and> check_valid_password E (ep_new_master_password_hash d) u = Inr True)
     \<and> (\<forall>tf \<in> set (twofactors t). tf_user_uuid tf \<noteq> g)
     \<and> (\<forall>m \<in> set (users_organizations t). m_user_uuid m = g \<longrightarrow> m_atype m = MembershipType_i32 Owner)
     \<and> (\<forall>dv \<in> set (devices t). d_user_uuid dv = g \<longrightarrow> (\<exists>n \<ge> k. d_refresh_token dv = random_token E n))"

lemma cleanup_wp:
  assumes "pbkdf2_ok E" "cast_unsigned (u_password_iterations v) \<noteq> 0"
    and "User_find_by_uuid (u_uuid v) t = Some v" "u_akey v = ep_key d"
    and "u_password_hash v = pbkdf2_derive E (cast_unsigned (u_password_iterations v)) (u_salt v)
      (str_bytes (ep_new_master_password_hash d))"
    and "\<And>dv. dv \<in> set (devices t) \<Longrightarrow> d_user_uuid dv = u_uuid v \<Longrightarrow> \<exists>n \<ge> k. d_refresh_token dv = random_token E n"
  shows "wp (takeover_cleanup E v) (\<lambda>_. taken_over E k d (u_uuid v)) R t"
proof -
  let ?t = "TwoFactor_delete_all_by_user (u_uuid v) t"
  let ?ms = "Membership_find_any_state_by_user (u_uuid v) ?t"
  let ?u = "fold (\<lambda>m s. if m_atype m \<noteq> 0 then Membership_delete E m s else s) ?ms ?t"
  note mf = member_fold [of E ?ms ?t]
  have "tbl_first (\<lambda>u. u_uuid u = u_uuid v) (users ?t) = Some v"
    using assms(3) by (simp add: User_find_by_uuid_def TwoFactor_delete_all_by_user_def)
  then obtain c where "tbl_first (\<lambda>u. u_uuid u = u_uuid v) (users ?u) = Some (v\<lparr>u_updated_at := c\<rparr>)"
    using touched_first [of "users ?t" "users ?u"] mf by blast
  moreover have "check_valid_password E (ep_new_master_password_hash d) (v\<lparr>u_updated_at := c\<rparr>) = Inr True"
    using assms(1,2,5) by (intro check_after_set) simp_all
  moreover have "\<forall>tf \<in> set (twofactors ?u). tf_user_uuid tf \<noteq> u_uuid v"
    using mf by (simp add: TwoFactor_delete_all_by_user_def)
  moreover have "\<forall>m \<in> set (users_organizations ?u). m_user_uuid m = u_uuid v \<longrightarrow> m_atype m = 0"
    using mf by (auto simp: Membership_find_any_state_by_user_def TwoFactor_delete_all_by_user_def)
  moreover have "devices ?u = devices t" using mf by (simp add: TwoFactor_delete_all_by_user_def)
  ultimately have "taken_over E k d (u_uuid v) ?u"
    using assms(4,6) by (simp add: taken_over_def User_find_by_uuid_def)
  then show ?thesis
    by (simp add: takeover_cleanup_def wp_simps) (simp add: wp_def member_loop [simplified])
qed

lemma rotated_tokens:
  assumes "devices t = devices (rotate_refresh_tokens_by_user E u s')" "dv \<in> set (devices t)" "d_user_uuid dv = u" "k \<le> tick s'"
  shows "\<exists>n \<ge> k. d_refresh_token dv = random_token E n"
proof -
  have "dv \<in> set (devices (rotate_refresh_tokens_by_user E u s'))" using assms(1,2) by simp
  from rotate_rows [OF this] assms(3) obtain n x where "tick s' \<le> n" "dv = x\<lparr>d_refresh_token := random_token E n\<rparr>" by blast
  then have "k \<le> n" "d_refresh_token dv = random_token E n" using assms(4) by simp_all
  then show ?thesis by blast
qed

text \<open>Storing the grantor with the new password, then the cleanup.\<close>

lemma save_cleanup_wp:
  assumes pb: "pbkdf2_ok E" and wf: "users_wf (users t)"
    and v: "cast_unsigned (u_password_iterations v) \<noteq> 0" "u_akey v = ep_key d"
      "u_password_hash v = pbkdf2_derive E (cast_unsigned (u_password_iterations v)) (u_salt v)
        (str_bytes (ep_new_master_password_hash d))"
    and dv: "devices t = devices (rotate_refresh_tokens_by_user E (u_uuid v) s')" "k \<le> tick s'"
  shows "wp (act_bind (User_save E v) (takeover_cleanup E)) (\<lambda>_. taken_over E k d (u_uuid v)) (\<lambda>_ _. True) t"
  unfolding wp_bind
proof (rule wp_mono [OF user_save_wp [OF wf]])
  fix w t'
  assume w: "users_wf (users t') \<and> User_find_by_uuid (u_uuid v) t' = Some w
    \<and> w = v\<lparr>u_updated_at := clock E (tick t)\<rparr> \<and> t' = (bump t)\<lparr>users := users t'\<rparr>"
  then have "devices t' = devices ((bump t)\<lparr>users := users t'\<rparr>)" by metis
  then have dev: "devices t' = devices (rotate_refresh_tokens_by_user E (u_uuid v) s')" using dv(1) by simp
  have "wp (takeover_cleanup E w) (\<lambda>_. taken_over E k d (u_uuid w)) (\<lambda>_ _. True) t'"
    by (rule cleanup_wp [OF pb]) (use w v rotated_tokens [OF dev _ _ dv(2)] in auto)
  then show "wp (takeover_cleanup E w) (\<lambda>_. taken_over E k d (u_uuid v)) (\<lambda>_ _. True) t'" using w by simp
qed simp

lemma takeover_wp:
  assumes wf: "users_wf (users s)" and pb: "pbkdf2_ok E"
    and x: "find_by_uuid_and_grantee_uuid i (u_uuid hu) s = Some x"
  shows "wp (password_emergency_access E i d hu)
    (\<lambda>_ t. is_valid_request x (u_uuid hu) Takeover \<and> taken_over E (tick s) d (ea_grantor_uuid x) t) (\<lambda>_ _. True) s"
proof -
  have main: "wp (act_bind (set_password E (ep_new_master_password_hash d) (Some (ep_key d)) True None g)
      (\<lambda>v. act_bind (User_save E v) (takeover_cleanup E))) (\<lambda>_. taken_over E (tick s) d (u_uuid g)) (\<lambda>_ _. True) s" for g
  proof (cases "cast_unsigned (u_password_iterations g) = 0")
    case False
    show ?thesis unfolding wp_bind [where m = "set_password E _ _ _ _ _"]
    proof (rule wp_mono [OF set_password_wp [OF False]])
      fix v :: User and t :: server
      let ?n = "cast_unsigned (u_password_iterations g)"
      assume "u_uuid v = u_uuid g \<and> u_email v = u_email g \<and> u_salt v = u_salt g
        \<and> u_password_iterations v = u_password_iterations g
        \<and> u_password_hash v = pbkdf2_derive E ?n (u_salt g) (str_bytes (ep_new_master_password_hash d))
        \<and> (\<forall>k. Some (ep_key d) = Some k \<longrightarrow> u_akey v = k) \<and> users t = users s
        \<and> twofactors t = twofactors s \<and> users_organizations t = users_organizations s
        \<and> emergency_accesses t = emergency_accesses s
        \<and> (True \<longrightarrow> (\<exists>s'. tick s \<le> tick s' \<and> devices s' = devices s \<and> devices t = devices (rotate_refresh_tokens_by_user E (u_uuid g) s')))"
      then show "wp (act_bind (User_save E v) (takeover_cleanup E)) (\<lambda>_. taken_over E (tick s) d (u_uuid g)) (\<lambda>_ _. True) t"
        using save_cleanup_wp [OF pb, of t v d] False wf by auto
    qed simp
  qed (simp add: set_password_def hash_password_def wp_simps)
  have "wp (password_emergency_access E i d hu) (\<lambda>_ t. is_valid_request x (u_uuid hu) Takeover
      \<and> taken_over E (tick s) d (ea_grantor_uuid x) t) (\<lambda>_ _. True) s"
    if "User_find_by_uuid (ea_grantor_uuid x) s = Some g" for g
  proof -
    have "u_uuid g = ea_grantor_uuid x" using that by (auto simp: User_find_by_uuid_def dest: tbl_first_Some)
    then show ?thesis using main [of g] that
      by (auto simp: password_emergency_access_def check_emergency_access_enabled_def wp_simps x)
  qed
  then show ?thesis
    by (cases "User_find_by_uuid (ea_grantor_uuid x) s")
      (auto simp: password_emergency_access_def check_emergency_access_enabled_def wp_simps x)
qed

end
