(* ===== verification/EmergencyJob.thy ===== *)
theory EmergencyJob
  imports EmergencySafe
begin

text \<open>
  The timeout job as a whole: when the dates of the initiated requests can be computed and the mails
  it sends have addressees and are accepted, it returns, approves every request whose waiting time
  is over and changes no other row.
\<close>

section \<open>One request\<close>

definition due_at :: "EmergencyAccess \<Rightarrow> time option" where
  "due_at x = (case ea_recovery_initiated_at x of None \<Rightarrow> None
     | Some t \<Rightarrow> (case try_days (ea_wait_time_days x) of None \<Rightarrow> None | Some d \<Rightarrow> naive_add t d))"

lemma due_at_over: "due_at x = Some a \<Longrightarrow> wait_over now x \<longleftrightarrow> a \<le> now"
  by (auto simp: due_at_def wait_over_def try_days_def try_seconds_def naive_add_def split: option.splits if_splits)

definition known_user :: "UserId \<Rightarrow> User list \<Rightarrow> bool" where
  "known_user k us \<longleftrightarrow> (\<exists>u. tbl_first (\<lambda>u. u_uuid u = k) us = Some u)"

lemma known_touched: "touched us vs \<Longrightarrow> known_user k us \<Longrightarrow> known_user k vs"
  unfolding known_user_def using touched_first by blast

text \<open>The mails of a request can be delivered: the transport accepts them and both parties exist.\<close>

definition deliverable :: "env \<Rightarrow> User list \<Rightarrow> EmergencyAccess \<Rightarrow> bool" where
  "deliverable E us x \<longleftrightarrow> (mail_enabled (conf E) \<longrightarrow> (\<forall>n m. smtp E n m = None) \<and> known_user (ea_grantor_uuid x) us
     \<and> (\<forall>g. ea_grantee_uuid x = Some g \<longrightarrow> known_user g us))"

lemma deliverable_touched: "touched us vs \<Longrightarrow> deliverable E us x \<Longrightarrow> deliverable E vs x"
  by (auto simp: deliverable_def intro: known_touched)

definition approve_if_due :: "time \<Rightarrow> EmergencyAccess list \<Rightarrow> EmergencyAccess \<Rightarrow> EmergencyAccess" where
  "approve_if_due now xs y =
     (if \<exists>x \<in> set xs. ea_uuid x = ea_uuid y \<and> wait_over now x
      then y\<lparr>ea_status := ea_st EaRecoveryApproved, ea_updated_at := now\<rparr> else y)"

lemma approve_if_due_Nil: "map (approve_if_due now []) ys = ys"
  by (rule map_idI) (simp add: approve_if_due_def)

lemma approve_if_due_Cons:
  "approve_if_due now xs (approve_if_due now [x] y) = approve_if_due now (x # xs) y"
  by (cases y) (auto simp: approve_if_due_def)

lemma timeout_one_total:
  assumes "due_at x = Some a" "ea_grantee_uuid x = Some g" "deliverable E (users s) x"
  shows "wp (timeout_one E now x) (\<lambda>_ t. touched (users s) (users t)
    \<and> emergency_accesses t = map (approve_if_due now [x]) (emergency_accesses s)) (\<lambda>_ _. False) s"
proof -
  obtain i d where d: "ea_recovery_initiated_at x = Some i" "try_days (ea_wait_time_days x) = Some d" "naive_add i d = Some a"
    using assms(1) by (auto simp: due_at_def split: option.splits)
  let ?s = "update_uuid_revision E g s"
  have t: "touched (users s) (users ?s)" by (rule touched_revision)
  have upd: "tbl_update (\<lambda>y. ea_uuid y = ea_uuid x) (\<lambda>x. x\<lparr>ea_status := 4, ea_updated_at := now\<rparr>) rows
      = map (approve_if_due now [x]) rows" if "a \<le> now" for rows
    using that due_at_over [OF assms(1)] by (auto simp: tbl_update_def approve_if_due_def)
  have skip: "map (approve_if_due now [x]) rows = rows" if "\<not> a \<le> now" for rows
    using that due_at_over [OF assms(1)] by (simp add: approve_if_due_def map_idI)
  have "deliverable E (users ?s) x" by (rule deliverable_touched [OF t assms(3)])
  then have "mail_enabled (conf E) \<Longrightarrow> (\<forall>n m. smtp E n m = None) \<and> (\<exists>u. User_find_by_uuid (ea_grantor_uuid x) ?s = Some u)
      \<and> (\<exists>u. User_find_by_uuid g ?s = Some u)"
    using assms(2) by (auto simp: deliverable_def known_user_def User_find_by_uuid_def)
  then show ?thesis
    unfolding timeout_one_def update_access_status_and_save_def
    using t upd skip by (auto simp: wp_simps d assms(2) Let_def User_find_by_uuid_def)
qed

section \<open>The job\<close>

lemma timeout_loop_total:
  assumes "\<And>x. x \<in> set xs \<Longrightarrow> due_at x \<noteq> None \<and> ea_grantee_uuid x \<noteq> None \<and> deliverable E (users s) x"
  shows "wp (act_for xs (timeout_one E now)) (\<lambda>_ t. emergency_accesses t = map (approve_if_due now xs) (emergency_accesses s))
    (\<lambda>_ _. False) s"
  using assms
proof (induction xs arbitrary: s)
  case (Cons x xs)
  then obtain a g where "due_at x = Some a" "ea_grantee_uuid x = Some g" "deliverable E (users s) x" by fastforce
  note one = timeout_one_total [OF this, of now]
  have "wp (act_for xs (timeout_one E now)) (\<lambda>_ t'. emergency_accesses t' = map (approve_if_due now (x # xs)) (emergency_accesses s))
      (\<lambda>_ _. False) t"
    if "touched (users s) (users t)" "emergency_accesses t = map (approve_if_due now [x]) (emergency_accesses s)" for t
  proof (rule wp_mono [OF Cons.IH])
    show "\<And>y. y \<in> set xs \<Longrightarrow> due_at y \<noteq> None \<and> ea_grantee_uuid y \<noteq> None \<and> deliverable E (users t) y"
      using Cons.prems deliverable_touched [OF that(1)] by auto
  qed (use that(2) in \<open>simp_all add: approve_if_due_Cons\<close>)
  then show ?case unfolding act_for.simps wp_seq by (intro wp_mono [OF one]) auto
qed (simp add: wp_simps approve_if_due_Nil)

lemma timeout_job_total:
  assumes "ea_reach E s" "emergency_access_allowed (conf E)"
    and rows: "\<And>x. x \<in> set (emergency_accesses s) \<Longrightarrow> ea_status x = ea_st EaRecoveryInitiated \<Longrightarrow>
      due_at x \<noteq> None \<and> deliverable E (users s) x"
  shows "\<exists>t. emergency_request_timeout_job E s = (Inr (), t) \<and> emergency_accesses t =
    map (\<lambda>y. if ea_status y = ea_st EaRecoveryInitiated \<and> wait_over (clock E (tick s)) y
      then y\<lparr>ea_status := ea_st EaRecoveryApproved, ea_updated_at := clock E (tick s)\<rparr> else y) (emergency_accesses s)"
proof -
  let ?xs = "find_all_recoveries_initiated s" and ?now = "clock E (tick s)"
  have k: "keyed ea_uuid (emergency_accesses s)" and wf: "\<And>x. x \<in> set (emergency_accesses s) \<Longrightarrow> ea_wf x"
    using reach_wf [OF assms(1)] by auto
  have same: "y = x" if "x \<in> set (emergency_accesses s)" "y \<in> set (emergency_accesses s)" "ea_uuid x = ea_uuid y" for x y
    using that k by (auto simp: keyed_def dest: eq_key_imp_eq_value inj_onD distinct_map [THEN iffD1])
  have eq: "map (approve_if_due ?now ?xs) (emergency_accesses s) = map (\<lambda>y. if ea_status y = ea_st EaRecoveryInitiated
      \<and> wait_over ?now y then y\<lparr>ea_status := ea_st EaRecoveryApproved, ea_updated_at := ?now\<rparr> else y) (emergency_accesses s)"
    using same by (auto simp: approve_if_due_def find_all_recoveries_initiated_def tbl_select_def wait_over_def)
  have "wp (act_for ?xs (timeout_one E ?now)) (\<lambda>_ t. emergency_accesses t = map (approve_if_due ?now ?xs) (emergency_accesses (bump s)))
      (\<lambda>_ _. False) (bump s)"
    by (rule timeout_loop_total)
      (use rows wf in \<open>auto simp: find_all_recoveries_initiated_def tbl_select_def ea_wf_def\<close>)
  then have "wp (emergency_request_timeout_job E) (\<lambda>_ t. emergency_accesses t = map (approve_if_due ?now ?xs) (emergency_accesses s))
      (\<lambda>_ _. False) s"
    by (simp add: emergency_request_timeout_job_def wp_simps assms(2))
  then show ?thesis by (auto simp: wp_def eq split: prod.splits sum.splits)
qed

end
