(* ===== verification/DemoServer.thy ===== *)
theory DemoServer
  imports EmergencyApi
begin

text \<open>
  A concrete environment and a concrete server, on which the properties of the server are
  evaluated: ids are strings of \<open>x\<close> as long as the number of external reads, the clock advances by
  a day at every read, mail is off, password hashes are the salt followed by the password.
\<close>

definition demo_conf :: config where
  "demo_conf = \<lparr>db_backend = Sqlite, emergency_access_allowed = True, invitations_allowed = True, mail_enabled = False,
     signups_domains_whitelist = [], password_iterations = 600000, invitation_expiration_hours = 120,
     incomplete_2fa_time_limit = 3, authenticator_disable_time_drift = False,
     domain_set = True, domain_url = ''https://vault'', domain_origin = ''https://vault'',
     ip_header_enabled = False, ip_header = ''X-Real-IP'', org_events_enabled = True, events_days_retain = Some 30,
     org_groups_enabled = True, trash_auto_delete_days = Some 30, sends_allowed = True,
     user_send_limit = Some 1, max_note_size = 20, user_attachment_limit = Some 1,
     org_attachment_limit = None, email_2fa_auto_fallback = False,
     email_token_size = 6, email_attempts_limit = 3, email_expiration_time = 600, org_creation_users = [], invitation_org_name = ''vault'',
     enforce_single_org_with_reset_pw_policy = False, sso_enabled = False, sso_only = False,
     sso_auth_only_not_session = False, password_hints_allowed = True, show_password_hint = False,
     email_change_allowed = True, signups_allowed = True, signups_verify = False, signups_verify_resend_time = 3600,
     signups_verify_resend_limit = 6, enable_email_2fa = True, email_2fa_enforce_on_verified_invite = False,
     disable_2fa_remember = False, require_device_email = False, push_enabled = False, duo_credentials = False,
     yubico_credentials = False, webauthn_2fa_supported = True,
     sso_master_password_policy_value = None\<rparr>"

definition demo_env :: env where
  "demo_env = \<lparr>conf = demo_conf, clock = (\<lambda>n. int n * 86400 * NANOS),
     uuid_at = (\<lambda>n. replicate n CHR ''x''), random_token = (\<lambda>n. CHR ''t'' # replicate n CHR ''x''),
     random_numeric = (\<lambda>n k. replicate k CHR ''7''), random_bytes = (\<lambda>n. [1, 2, 3]), smtp = (\<lambda>n m. None),
     lowercase_of = id, uppercase_of = id, trim_of = id,
     email_domain = (\<lambda>_. Some ''vault''), url_parse = (\<lambda>_. Some (''/'', Some ''vault'', None)),
     ct_equal = (=), pbkdf2_derive = (\<lambda>n salt pw. salt @ pw), pbkdf2_check = (\<lambda>n salt pw h. h = salt @ pw),
     jwt_emergency = (\<lambda>n t. Inl ''invalid''), jwt_invite = (\<lambda>n t. Inl ''invalid''),
     jwt_login = (\<lambda>n t. Inl ''invalid''), jwt_refresh = (\<lambda>n t. Inl ''invalid''), jwt_verify_email = (\<lambda>n t. Inl ''invalid''), jwt_delete = (\<lambda>n t. Inl ''invalid''),
     jwt_register = (\<lambda>n t. Inl ''invalid''), jwt_remember = (\<lambda>n t. Inl ''invalid''), encode_login = (\<lambda>c. Some (lc_sub c)),
     encode_refresh = (\<lambda>c. Some (rc_device_token c)), encode_remember = (\<lambda>c. Some (tr_sub c)),
     encode_org_key = (\<lambda>c. Some (ol_client_sub c)), encode_register = (\<lambda>c. Some (rv_sub c)),
     random_base32 = (\<lambda>n. ''RECOVER''), chars_numeric = (\<lambda>s. True), semver_matches = (\<lambda>r v. r = ''>='' @ v),
     login_limit = (\<lambda>n ip. True), push_register = (\<lambda>n d. None), push_unregister = (\<lambda>n p. None),
     other_factor = (\<lambda>ty u code d c i s. (Inl (Api ''unavailable''), s)), other_prompt = (\<lambda>ty u c i s. (Inr JNull, s)),
     uuid_valid = (\<lambda>s. True), ip_parse = Some, rocket_tls = True, base32_bytes = (\<lambda>s. Some (str_bytes s)),
     totp_sha1 = (\<lambda>key t. if t = 86400 then ''288000'' else ''000000''), format_utc = (\<lambda>t. ''now''),
     rfc3339_micros = (\<lambda>t. ''now''), json_parse = (\<lambda>s. None), json_print = (\<lambda>j. []),
     date_parse = (\<lambda>s. None), naive_parse = (\<lambda>s. None), access_id_decode = Some, size_name = (\<lambda>n. ''size''), storage_write = (\<lambda>n p. None), storage_delete = (\<lambda>n p. None)\<rparr>"

lemma demo_conf_simps [simp]:
  "conf demo_env = demo_conf" "emergency_access_allowed demo_conf" "\<not> mail_enabled demo_conf"
  "clock demo_env n = int n * 86400 * NANOS" "uuid_at demo_env n = replicate n CHR ''x''"
  "random_token demo_env n = CHR ''t'' # replicate n CHR ''x''"
  by (simp_all add: demo_env_def demo_conf_def)

lemma demo_pbkdf2: "pbkdf2_ok demo_env"
  by (simp add: pbkdf2_ok_def demo_env_def)

definition demo_user :: "UserId \<Rightarrow> string \<Rightarrow> bytes \<Rightarrow> User" where
  "demo_user uuid email h = (fst (User_new demo_env email None empty_server))
     \<lparr>u_uuid := uuid, u_password_hash := h\<rparr>"

abbreviation alice :: User where "alice \<equiv> demo_user ''alice'' ''alice@vault'' [1]"
abbreviation bob :: User where "bob \<equiv> demo_user ''bob'' ''bob@vault'' [2]"

definition demo_device :: "DeviceId \<Rightarrow> UserId \<Rightarrow> string \<Rightarrow> Device" where
  "demo_device uuid user token = (fst (Device_new demo_env uuid user ''laptop'' 8 empty_server))
     \<lparr>d_refresh_token := token\<rparr>"

definition demo_member :: "MembershipId \<Rightarrow> UserId \<Rightarrow> int \<Rightarrow> int \<Rightarrow> Membership" where
  "demo_member uuid user status atype = (fst (Membership_new demo_env user ''org'' None empty_server))
     \<lparr>m_uuid := uuid, m_status := status, m_atype := atype\<rparr>"

text \<open>The rows written out, so that they are evaluated without the constructors of the models.\<close>

lemma demo_rows [code]:
  "demo_user uuid email h = \<lparr>u_uuid = uuid, u_enabled = True, u_created_at = 0, u_updated_at = 0,
     u_verified_at = None, u_last_verifying_at = None, u_login_verify_count = 0,
     u_email = email, u_email_new = None, u_email_new_token = None, u_name = email,
     u_password_hash = h, u_salt = [1, 2, 3], u_password_iterations = 600000,
     u_password_hint = None, u_akey = [], u_private_key = None, u_public_key = None,
     u_totp_secret = None, u_totp_recover = None, u_security_stamp = ''xxx'',
     u_stamp_exception = None, u_equivalent_domains = ''[]'', u_excluded_globals = ''[]'',
     u_client_kdf_type = 0, u_client_kdf_iter = 600000,
     u_client_kdf_memory = None, u_client_kdf_parallelism = None, u_api_key = None,
     u_avatar_color = None, u_external_id = None\<rparr>"
  "demo_device i user token = \<lparr>d_uuid = i, d_created_at = 0, d_updated_at = 0, d_user_uuid = user,
     d_name = ''laptop'', d_atype = 8, d_push_uuid = Some ''x'', d_push_token = None,
     d_refresh_token = token, d_twofactor_remember = None\<rparr>"
  "demo_member j user status atype = \<lparr>m_uuid = j, m_user_uuid = user, m_org_uuid = ''org'', m_invited_by_email = None,
     m_access_all = False, m_akey = [], m_status = status, m_atype = atype, m_reset_password_key = None, m_external_id = None\<rparr>"
  by (simp_all add: demo_user_def demo_device_def demo_member_def User_new_def Device_new_def Membership_new_def
      demo_env_def demo_conf_def utc_now_def get_uuid_def get_random_bytes_def generate_refresh_token_def Let_def
      bump_def empty_server_def CLIENT_KDF_TYPE_DEFAULT_def CLIENT_KDF_ITER_DEFAULT_def numeral_nat)

definition demo_server :: server where
  "demo_server = empty_server\<lparr>users := [alice, bob],
     devices := [demo_device ''d1'' ''alice'' ''old'', demo_device ''d2'' ''bob'' ''other''],
     twofactors := [\<lparr>tf_uuid = ''f1'', tf_user_uuid = ''alice'', tf_atype = 0, tf_enabled = True,
       tf_data = ''SECRET'', tf_last_used = 0\<rparr>],
     users_organizations := [demo_member ''m1'' ''alice'' 2 2, demo_member ''m2'' ''bob'' 2 0]\<rparr>"

end
