(* ===== verification/ServerProps.thy ===== *)
theory ServerProps
  imports EmergencyJob DemoServer
begin

text \<open>
  The properties of the server's account and emergency-access code, with their witnesses on the
  concrete environment of \<open>DemoServer\<close>.
\<close>

section \<open>A concrete run\<close>

text \<open>Alice invites Bob, confirms him, and Bob initiates a recovery.\<close>

definition demo_invite :: EmergencyAccessInviteData where
  "demo_invite = \<lparr>ei_email = ''bob@vault'', ei_type = Number 1, ei_wait_time_days = 2\<rparr>"

definition demo_s1 :: server where "demo_s1 = ea_exec demo_env (Invite demo_invite alice) demo_server"
definition demo_s2 :: server where "demo_s2 = ea_exec demo_env (Confirm ''x'' ''key'' alice) demo_s1"
definition demo_s3 :: server where "demo_s3 = ea_exec demo_env (Initiate ''x'' bob) demo_s2"

definition demo_row :: "int \<Rightarrow> string option \<Rightarrow> time option \<Rightarrow> time \<Rightarrow> EmergencyAccess" where
  "demo_row st key at upd = \<lparr>ea_uuid = ''x'', ea_grantor_uuid = ''alice'', ea_grantee_uuid = Some ''bob'',
     ea_email = None, ea_key_encrypted = key, ea_atype = 1, ea_status = st, ea_wait_time_days = 2,
     ea_recovery_initiated_at = at, ea_last_notification_at = at, ea_updated_at = upd, ea_created_at = 0\<rparr>"

lemma demo_s1_rows: "emergency_accesses demo_s1 = [demo_row 1 None None (5 * 86400 * NANOS)] \<and> tick demo_s1 = 6"
  by code_simp

lemma demo_s2_rows: "emergency_accesses demo_s2 = [demo_row 2 (Some ''key'') None (7 * 86400 * NANOS)] \<and> tick demo_s2 = 8"
  by code_simp

lemma demo_s3_rows:
  "emergency_accesses demo_s3 = [demo_row 3 (Some ''key'') (Some (8 * 86400 * NANOS)) (10 * 86400 * NANOS)]
   \<and> tick demo_s3 = 11"
  by code_simp

lemma demo_fresh: "(\<And>x. x \<in> set (emergency_accesses s) \<Longrightarrow> length (ea_uuid x) < tick s) \<Longrightarrow> fresh_ids demo_env s"
  by (fastforce simp: fresh_ids_def row_at_def tbl_first_None)

lemma demo_fresh_all: "fresh_ids demo_env demo_server" "fresh_ids demo_env demo_s1" "fresh_ids demo_env demo_s2"
    "fresh_ids demo_env demo_s3"
  by (auto intro!: demo_fresh simp: demo_s1_rows demo_s2_rows demo_s3_rows demo_row_def demo_server_def empty_server_def)

abbreviation demo_history :: "(ea_request \<times> server) list" where
  "demo_history \<equiv> [(Initiate ''x'' bob, demo_s2), (Confirm ''x'' ''key'' alice, demo_s1), (Invite demo_invite alice, demo_server)]"

lemma demo_run: "ea_run demo_env demo_s3 demo_history"
  unfolding demo_s3_def demo_s2_def demo_s1_def
  by (intro run_step run_init demo_fresh_all [unfolded demo_s2_def demo_s1_def])
    (simp add: demo_server_def empty_server_def)

lemma demo_reach: "ea_reach demo_env demo_s3"
  by (rule run_reach [OF demo_run])

section \<open>Emergency access\<close>

text \<open>C10. In every run of the server, registrations and key rotations included, the emergency-access table
  has one row per id, and every row is well formed: a status and a type of the enumerations, an e-mail and
  no grantee exactly while it is an open invitation, an encrypted key from the confirmation on and a date
  from the initiation on.\<close>

theorem emergency_rows_wf:
  assumes "ea_reach E s"
  shows "keyed ea_uuid (emergency_accesses s) \<and> (\<forall>x \<in> set (emergency_accesses s). ea_wf x)"
  by (rule reach_wf [OF assms])

text \<open>Alice also invites Carol, who has no account yet; her registration accepts the invitation.\<close>

definition carol_registration :: RegisterData where
  "carol_registration = \<lparr>rg_email = ''carol@vault'', rg_kdf = \<lparr>kd_kdf = 0, kd_kdf_iterations = 600000, kd_kdf_memory = None,
     kd_kdf_parallelism = None\<rparr>, rg_key = ''k'', rg_keys = None, rg_master_password_hash = ''h'',
     rg_master_password_hint = None, rg_name = None, rg_organization_user_id = None, rg_email_verification_token = None,
     rg_accept_emergency_access_id = None, rg_accept_emergency_access_invite_token = None, rg_org_invite_token = None\<rparr>"

definition carol_invited :: server where
  "carol_invited = ea_exec demo_env (Invite (demo_invite\<lparr>ei_email := ''carol@vault''\<rparr>) alice) demo_s3"

definition carol_joined :: server where
  "carol_joined = snd (register demo_env carol_registration False carol_invited)"

theorem emergency_rows_wf_witness:
  "map ea_status (emergency_accesses carol_invited) = [3, 0] \<and> map ea_status (emergency_accesses carol_joined) = [3, 1]
   \<and> keyed ea_uuid (emergency_accesses carol_joined) \<and> ea_wf (emergency_accesses carol_joined ! 1)"
proof -
  have "ea_reach demo_env carol_joined"
    unfolding carol_joined_def carol_invited_def by (intro reach_register reach_step demo_reach demo_fresh_all)
  from emergency_rows_wf [OF this] have k: "keyed ea_uuid (emergency_accesses carol_joined)"
    "\<And>x. x \<in> set (emergency_accesses carol_joined) \<Longrightarrow> ea_wf x" by auto
  have st: "map ea_status (emergency_accesses carol_invited) = [3, 0] \<and> map ea_status (emergency_accesses carol_joined) = [3, 1]"
    by code_simp
  have "1 < length (emergency_accesses carol_joined)" by code_simp
  then show ?thesis using k st nth_mem by blast
qed

text \<open>C9. Every handler and job of emergency access refines the life cycle: whatever the request and the
  row, the status stays, the row disappears, or it moves one step along absent, invited, accepted,
  confirmed, initiated, approved, with the returns to confirmed that a rejection makes.\<close>

theorem emergency_refines_life:
  assumes "ea_reach E s" "fresh_ids E s"
  shows "ea_life (life_of s i) (life_of (ea_exec E r s) i)"
  unfolding life_of_def using reach_tr [OF assms] reach_row_wf [OF assms(1)] by (intro tr_life) auto

theorem emergency_refines_life_witness:
  "life_of demo_s2 ''x'' = Some EaConfirmed \<and> life_of demo_s3 ''x'' = Some EaRecoveryInitiated
   \<and> ea_life (life_of demo_s3 ''x'') (life_of (ea_exec demo_env (Approve ''x'' alice) demo_s3) ''x'')"
  using emergency_refines_life [OF demo_reach demo_fresh_all(4), of "''x''" "Approve ''x'' alice"]
  by (simp add: life_of_def row_at_def tbl_first_def demo_s2_rows demo_s3_rows demo_row_def)

text \<open>C8. A takeover of an account succeeds only for the grantee of an approved takeover request, and the
  history of the server then holds the approval: a request of the grantor to approve this row, or a
  run of the job at a time when the waiting time of the initiated recovery was over.\<close>

theorem takeover_needs_approval:
  assumes "ea_run E s h" "password_emergency_access E i d hu s = (Inr (), t)"
  shows "\<exists>x. row_at (emergency_accesses s) i = Some x \<and> ea_grantee_uuid x = Some (u_uuid hu)
    \<and> ea_atype x = EmergencyAccessType_i32 Takeover \<and> (\<exists>p \<in> set h. approves E x p)"
proof -
  have k: "keyed ea_uuid (emergency_accesses s)" using reach_wf [OF run_reach [OF assms(1)]] by simp
  obtain x where x: "find_by_uuid_and_grantee_uuid i (u_uuid hu) s = Some x" "is_valid_request x (u_uuid hu) Takeover"
    using takeover_denied [of i hu s E d] assms(2) by fastforce
  then have "row_at (emergency_accesses s) i = Some x" "ea_grantee_uuid x = Some (u_uuid hu)"
    using find_grantee_row [OF k] by auto
  moreover have "\<exists>p \<in> set h. approves E x p"
    using run_approved [OF assms(1) calculation(1)] x(2) by (simp add: is_valid_request_def)
  ultimately show ?thesis using x(2) by (auto simp: is_valid_request_def)
qed

definition demo_s4 :: server where "demo_s4 = ea_exec demo_env TimeoutJob demo_s3"

definition demo_password :: EmergencyAccessPasswordData where
  "demo_password = \<lparr>ep_new_master_password_hash = ''pw'', ep_key = ''newkey''\<rparr>"

lemma demo_run4: "ea_run demo_env demo_s4 ((TimeoutJob, demo_s3) # demo_history)"
  unfolding demo_s4_def by (rule run_step [OF demo_run demo_fresh_all(4)])

definition demo_s5 :: server where "demo_s5 = snd (password_emergency_access demo_env ''x'' demo_password bob demo_s4)"

lemma demo_takeover: "password_emergency_access demo_env ''x'' demo_password bob demo_s4 = (Inr (), demo_s5)"
proof -
  have "fst (password_emergency_access demo_env ''x'' demo_password bob demo_s4) = Inr ()" by code_simp
  then show ?thesis by (metis demo_s5_def prod.collapse)
qed

theorem takeover_needs_approval_witness:
  "\<exists>x. row_at (emergency_accesses demo_s4) ''x'' = Some x \<and> ea_grantee_uuid x = Some (u_uuid bob)
    \<and> ea_atype x = EmergencyAccessType_i32 Takeover
    \<and> (\<exists>p \<in> set ((TimeoutJob, demo_s3) # demo_history). approves demo_env x p)"
  by (rule takeover_needs_approval [OF demo_run4 demo_takeover])

text \<open>C11. A takeover that succeeds gives the grantor's account the new password and key, removes its
  second factors, removes it from every organization it does not own and replaces the refresh token
  of every device of the account by one drawn during the request.\<close>

theorem takeover_effect:
  assumes "users_wf (users s)" "pbkdf2_ok E" "password_emergency_access E i d hu s = (Inr (), t)"
  shows "\<exists>x. find_by_uuid_and_grantee_uuid i (u_uuid hu) s = Some x \<and> taken_over E (tick s) d (ea_grantor_uuid x) t"
proof -
  obtain x where x: "find_by_uuid_and_grantee_uuid i (u_uuid hu) s = Some x"
    using takeover_denied [of i hu s E d] assms(3) by fastforce
  then show ?thesis using wp_Inr [OF takeover_wp [OF assms(1,2) x] assms(3)] by blast
qed

theorem takeover_effect_witness: "taken_over demo_env (tick demo_s4) demo_password ''alice'' demo_s5"
proof -
  have "users_wf (users demo_s4)" by code_simp
  then have "\<exists>x. find_by_uuid_and_grantee_uuid ''x'' (u_uuid bob) demo_s4 = Some x
      \<and> taken_over demo_env (tick demo_s4) demo_password (ea_grantor_uuid x) demo_s5"
    by (rule takeover_effect [OF _ demo_pbkdf2 demo_takeover])
  moreover have "map_option ea_grantor_uuid (find_by_uuid_and_grantee_uuid ''x'' (u_uuid bob) demo_s4) = Some ''alice''"
    by code_simp
  ultimately show ?thesis by auto
qed

text \<open>Anybody else is refused: without an approved takeover request of the signed-in user the password
  handler answers an error and leaves the server as it was.\<close>

theorem takeover_refused:
  assumes "\<not> (\<exists>x. find_by_uuid_and_grantee_uuid i (u_uuid hu) s = Some x \<and> is_valid_request x (u_uuid hu) Takeover)"
  shows "\<exists>e. password_emergency_access E i d hu s = (Inl e, s)"
  by (rule takeover_denied [OF assms])

theorem takeover_refused_witness:
  "\<exists>e. password_emergency_access demo_env ''x'' demo_password bob demo_s3 = (Inl e, demo_s3)"
  by (rule takeover_refused)
    (simp add: find_by_uuid_and_grantee_uuid_def tbl_first_def demo_s3_rows demo_row_def is_valid_request_def)

text \<open>C12. The timeout job terminates normally and does exactly its work, when the due dates of the
  initiated recoveries can be computed and, if mail is on, the parties exist and the transport
  accepts the mails: every initiated recovery whose waiting time is over becomes approved, every
  other row is unchanged.\<close>

theorem timeout_job_correct:
  assumes "ea_reach E s" "emergency_access_allowed (conf E)"
    and "\<And>x. x \<in> set (emergency_accesses s) \<Longrightarrow> ea_status x = ea_st EaRecoveryInitiated \<Longrightarrow>
      due_at x \<noteq> None \<and> deliverable E (users s) x"
  shows "\<exists>t. emergency_request_timeout_job E s = (Inr (), t) \<and> emergency_accesses t =
    map (\<lambda>y. if ea_status y = ea_st EaRecoveryInitiated \<and> wait_over (clock E (tick s)) y
      then y\<lparr>ea_status := ea_st EaRecoveryApproved, ea_updated_at := clock E (tick s)\<rparr> else y) (emergency_accesses s)"
  by (rule timeout_job_total [OF assms])

theorem timeout_job_correct_witness:
  "\<exists>t. emergency_request_timeout_job demo_env demo_s3 = (Inr (), t)
    \<and> emergency_accesses t = [demo_row 4 (Some ''key'') (Some (8 * 86400 * NANOS)) (11 * 86400 * NANOS)]"
proof -
  have "due_at x \<noteq> None \<and> deliverable demo_env (users demo_s3) x"
    if "x \<in> set (emergency_accesses demo_s3)" "ea_status x = ea_st EaRecoveryInitiated" for x
    using that by (simp add: demo_s3_rows demo_row_def due_at_def deliverable_def try_days_def try_seconds_def
        naive_add_def NANOS_def)
  from timeout_job_correct [OF demo_reach _ this] show ?thesis
    by (simp add: demo_s3_rows demo_row_def wait_over_def NANOS_def)
qed

text \<open>One request blocks the job for all: the waiting time is an unchecked number of days, and when the
  first initiated recovery has a due date beyond the calendar of the date library, every run of the
  job panics before it looks at the others; no recovery is approved by it.\<close>

theorem timeout_job_blocked:
  assumes "emergency_access_allowed (conf E)" "find_all_recoveries_initiated s = x # xs" "due_at x = None"
  shows "\<exists>msg. emergency_request_timeout_job E s = (Inl (Panic msg), bump s)"
  using assms by (auto simp: emergency_request_timeout_job_def timeout_one_def due_at_def act_defs utc_now_def
      split: option.splits)

theorem timeout_job_blocked_witness:
  "\<exists>msg. emergency_request_timeout_job demo_env (demo_s3\<lparr>emergency_accesses :=
      (demo_row 3 (Some ''key'') (Some 0) 0)\<lparr>ea_uuid := ''y'', ea_wait_time_days := 2147483647\<rparr> # emergency_accesses demo_s3\<rparr>)
    = (Inl (Panic msg), bump (demo_s3\<lparr>emergency_accesses :=
      (demo_row 3 (Some ''key'') (Some 0) 0)\<lparr>ea_uuid := ''y'', ea_wait_time_days := 2147483647\<rparr> # emergency_accesses demo_s3\<rparr>))"
  by (rule timeout_job_blocked [where xs = "emergency_accesses demo_s3"
        and x = "(demo_row 3 (Some ''key'') (Some 0) 0)\<lparr>ea_uuid := ''y'', ea_wait_time_days := 2147483647\<rparr>"])
    (simp_all add: demo_s3_rows demo_row_def find_all_recoveries_initiated_def tbl_select_def due_at_def try_days_def
      try_seconds_def naive_add_def NANOS_def)

end
