(* ===== verification/AccountProps.thy ===== *)
theory AccountProps
  imports DemoServer
begin

text \<open>
  The properties of accounts: users and their passwords, devices and their tokens, second factors,
  memberships; with their witnesses on the concrete environment of \<open>DemoServer\<close>.
\<close>

section \<open>Users and passwords\<close>

text \<open>Saving a user keeps ids and e-mail addresses unique. It fails exactly for an invalid address or
  one that another user has, and then stores nothing; otherwise the row is found under its id with
  the new revision date and every other user is as before.\<close>

theorem user_save_correct:
  assumes "users_wf (users s)"
  shows "case User_save E u s of
      (Inl e, t) \<Rightarrow> users t = users s \<and> (\<not> is_valid_email E (u_email u)
        \<or> (\<exists>x \<in> set (users s). u_email x = u_email u \<and> u_uuid x \<noteq> u_uuid u))
    | (Inr v, t) \<Rightarrow> is_valid_email E (u_email u) \<and> v = u\<lparr>u_updated_at := clock E (tick s)\<rparr> \<and> users_wf (users t)
        \<and> (\<forall>k. User_find_by_uuid k t = (if k = u_uuid u then Some v else User_find_by_uuid k s))"
proof -
  let ?v = "u\<lparr>u_updated_at := clock E (tick s)\<rparr>"
  have k: "keyed u_uuid (users s)" using assms by (simp add: users_wf_def)
  have "users_wf (tbl_upsert u_uuid ?v (users s))" if "\<forall>x\<in>set (users s). u_email x = u_email u \<longrightarrow> u_uuid x = u_uuid u"
    using users_wf_write [of "users s" ?v] assms that by auto
  then show ?thesis
    by (auto simp: User_save_def user_db_write_def act_defs utc_now_def Let_def User_find_by_uuid_def tbl_first_upsert [OF k])
qed

theorem user_save_correct_witness:
  "\<exists>v t. User_save demo_env (alice\<lparr>u_name := ''Alice''\<rparr>) demo_server = (Inr v, t) \<and> users_wf (users t)
    \<and> User_find_by_uuid ''alice'' t = Some v \<and> u_name v = ''Alice''"
proof -
  have wf: "users_wf (users demo_server)" by code_simp
  have ok: "\<not> isl (fst (User_save demo_env (alice\<lparr>u_name := ''Alice''\<rparr>) demo_server))" by code_simp
  have "u_uuid (alice\<lparr>u_name := ''Alice''\<rparr>) = ''alice''" by code_simp
  with ok show ?thesis using user_save_correct [OF wf, of demo_env "alice\<lparr>u_name := ''Alice''\<rparr>"]
    by (cases "User_save demo_env (alice\<lparr>u_name := ''Alice''\<rparr>) demo_server"; cases "fst (User_save demo_env (alice\<lparr>u_name := ''Alice''\<rparr>) demo_server)")
      auto
qed

text \<open>C40. Setting a password with a reset of the security stamp always returns; the new password then
  verifies, the account key is the one given, and no refresh token that a device of the user held
  before is accepted for a device of the user any more, provided that the tokens drawn from now on
  are not in use yet. The witness signs out a device whose token was drawn before.\<close>

theorem set_password_signs_out:
  assumes "pbkdf2_ok E" "cast_unsigned (u_password_iterations u) \<noteq> 0"
    and "\<And>n d. tick s \<le> n \<Longrightarrow> d \<in> set (devices s) \<Longrightarrow> random_token E n \<noteq> d_refresh_token d"
  shows "\<exists>v t. set_password E pw (Some key) True routes u s = (Inr v, t)
    \<and> check_valid_password E pw v = Inr True \<and> u_akey v = key
    \<and> (\<forall>old \<in> set (devices s). d_user_uuid old = u_uuid u \<longrightarrow>
         (case find_by_refresh_token (d_refresh_token old) t of None \<Rightarrow> True | Some d \<Rightarrow> d_user_uuid d \<noteq> u_uuid u))"
proof -
  note sp = set_password_wp [OF assms(2), of E pw "Some key" True routes s]
  obtain v t where vt: "set_password E pw (Some key) True routes u s = (Inr v, t)"
    using sp by (auto simp: wp_def split: prod.splits sum.splits)
  from wp_Inr [OF sp this] obtain s' where
    v: "u_salt v = u_salt u" "u_password_iterations v = u_password_iterations u" "u_akey v = key"
      "u_password_hash v = pbkdf2_derive E (cast_unsigned (u_password_iterations u)) (u_salt u) (str_bytes pw)"
    and s': "tick s \<le> tick s'" "devices s' = devices s" "devices t = devices (rotate_refresh_tokens_by_user E (u_uuid u) s')"
    by auto
  have "check_valid_password E pw v = Inr True" using assms(1,2) v by (intro check_after_set) simp_all
  moreover have "d_user_uuid d \<noteq> u_uuid u"
    if "old \<in> set (devices s)" "d_user_uuid old = u_uuid u" "find_by_refresh_token (d_refresh_token old) t = Some d" for old d
    using rotate_revokes [of s' E old "u_uuid u" d] assms(3) that s' by (simp add: find_by_refresh_token_def)
  ultimately show ?thesis using vt v(3) by (auto split: option.splits)
qed

text \<open>Alice signs in on a new device, whose token is the third draw.\<close>

definition signed_in :: server where
  "signed_in = (case Device_new demo_env ''d3'' ''alice'' ''phone'' 0 demo_server of (d, s) \<Rightarrow> snd (Device_save demo_env True d s))"

lemma signed_in_devices:
  "map d_refresh_token (devices signed_in) = [''old'', ''other'', ''txx''] \<and> map d_user_uuid (devices signed_in) = [''alice'', ''bob'', ''alice'']
   \<and> tick signed_in = 4"
  by code_simp

theorem set_password_signs_out_witness:
  "\<exists>v t. set_password demo_env ''pw'' (Some ''k'') True None alice signed_in = (Inr v, t)
    \<and> check_valid_password demo_env ''pw'' v = Inr True \<and> u_akey v = ''k''
    \<and> (case find_by_refresh_token ''txx'' t of None \<Rightarrow> True | Some d \<Rightarrow> d_user_uuid d \<noteq> ''alice'')"
proof -
  have it: "cast_unsigned (u_password_iterations alice) \<noteq> 0" by code_simp
  have "d_refresh_token d \<in> {''old'', ''other'', ''txx''}" if "d \<in> set (devices signed_in)" for d
    using imageI [OF that, of d_refresh_token] signed_in_devices by (metis list.set_map list.set(2,1))
  then have tok: "\<And>n d. tick signed_in \<le> n \<Longrightarrow> d \<in> set (devices signed_in) \<Longrightarrow> random_token demo_env n \<noteq> d_refresh_token d"
    using signed_in_devices by (fastforce dest: arg_cong [of _ _ length])
  obtain d where d: "d \<in> set (devices signed_in)" "d_user_uuid d = u_uuid alice" "d_refresh_token d = ''txx''"
  proof
    show "devices signed_in ! 2 \<in> set (devices signed_in)" by (rule nth_mem) code_simp
  qed code_simp+
  obtain v t where vt: "set_password demo_env ''pw'' (Some ''k'') True None alice signed_in = (Inr v, t)"
      "check_valid_password demo_env ''pw'' v = Inr True" "u_akey v = ''k''"
    and old: "\<forall>old \<in> set (devices signed_in). d_user_uuid old = u_uuid alice \<longrightarrow>
      (case find_by_refresh_token (d_refresh_token old) t of None \<Rightarrow> True | Some d \<Rightarrow> d_user_uuid d \<noteq> u_uuid alice)"
    using set_password_signs_out [OF demo_pbkdf2 it, where s = signed_in and pw = "''pw''" and key = "''k''" and routes = None] tok
    by blast
  have me: "u_uuid alice = ''alice''" by code_simp
  from old d(1,2) have "case find_by_refresh_token (d_refresh_token d) t of None \<Rightarrow> True | Some d \<Rightarrow> d_user_uuid d \<noteq> u_uuid alice"
    by blast
  then show ?thesis unfolding d(3) me using vt by blast
qed

section \<open>Second factors\<close>

text \<open>C39. The authenticator check accepts a code only if it is the code of the server's time step or of a
  neighbouring one, and only if that step is later than every step accepted for the user before: the
  accepted step is stored, so no code is accepted twice. A refusal changes no provider.\<close>

theorem totp_no_replay:
  assumes "twofactors_wf (twofactors s)"
  shows "case validate_totp_code E user code secret ip s of
      (Inl e, t) \<Rightarrow> twofactors t = twofactors s
    | (Inr _, t) \<Rightarrow> (\<exists>key step tf. base32_bytes E secret = Some key \<and> \<bar>step\<bar> \<le> 1
        \<and> totp_sha1 E key (of_int (totp_now E user s + step * 30)) = code
        \<and> TwoFactor_find_by_user_and_type user 0 t = Some tf
        \<and> tf_last_used tf = totp_now E user s sdiv 30 + step
        \<and> (case TwoFactor_find_by_user_and_type user 0 s of
             None \<Rightarrow> 0 < tf_last_used tf | Some old \<Rightarrow> tf_last_used old < tf_last_used tf)
        \<and> twofactors_wf (twofactors t))"
  using validate_totp_code_wp [OF assms, of E user code secret ip] unfolding wp_def
  by (auto split: prod.splits sum.splits)

lemma demo_totp:
  "validate_totp_code demo_env ''alice'' ''288000'' ''SECRET'' ''::1'' (demo_server\<lparr>tick := 1\<rparr>) =
     (Inr (), demo_server\<lparr>tick := 2, twofactors := [\<lparr>tf_uuid = ''f1'', tf_user_uuid = ''alice'', tf_atype = 0,
        tf_enabled = True, tf_data = ''SECRET'', tf_last_used = 2880\<rparr>]\<rparr>)"
  by (simp add: validate_totp_code_def act_defs demo_server_def TwoFactor_find_by_user_and_type_def tbl_first_def
      demo_env_def demo_conf_def utc_now_def timestamp_def NANOS_def empty_server_def upto.simps Let_def signed_divide_int_def
      TwoFactor_save_def tbl_delete_def)

theorem totp_no_replay_witness:
  "\<exists>step tf. \<bar>step\<bar> \<le> 1 \<and> TwoFactor_find_by_user_and_type ''alice'' 0
      (snd (validate_totp_code demo_env ''alice'' ''288000'' ''SECRET'' ''::1'' (demo_server\<lparr>tick := 1\<rparr>))) = Some tf
    \<and> tf_last_used tf = totp_now demo_env ''alice'' (demo_server\<lparr>tick := 1\<rparr>) sdiv 30 + step \<and> 0 < tf_last_used tf"
proof -
  let ?s = "demo_server\<lparr>tick := 1\<rparr>"
  have wf: "twofactors_wf (twofactors ?s)" by code_simp
  have "map_option tf_last_used (TwoFactor_find_by_user_and_type ''alice'' 0 ?s) = Some 0" by code_simp
  then obtain old where "TwoFactor_find_by_user_and_type ''alice'' 0 ?s = Some old" "tf_last_used old = 0" by auto
  then show ?thesis
    using totp_no_replay [OF wf, where E = demo_env and user = "''alice''" and code = "''288000''" and secret = "''SECRET''"
      and ip = "''::1''"]
    unfolding demo_totp by auto
qed

text \<open>A second login attempt that stops before the second factor does not restart the clock: the record
  of the first attempt stays, and there is at most one record per user and device.\<close>

theorem incomplete_login_timer:
  assumes "keyed ti_key (twofactor_incompletes s)" "ti_find_by_user_and_device u d s = Some t"
  shows "ti_find_by_user_and_device u d (ti_mark_incomplete E u d' name a ip s) = Some t
    \<and> keyed ti_key (twofactor_incompletes (ti_mark_incomplete E u d' name a ip s))"
proof
  show "keyed ti_key (twofactor_incompletes (ti_mark_incomplete E u d' name a ip s))"
    by (rule ti_keyed_mark [OF assms(1)])
  show "ti_find_by_user_and_device u d (ti_mark_incomplete E u d' name a ip s) = Some t"
    using assms(2) by (auto simp: ti_mark_incomplete_def ti_find_by_user_and_device_def utc_now_def tbl_first_append)
qed

definition demo_login :: TwoFactorIncomplete where
  "demo_login = \<lparr>ti_user_uuid = ''alice'', ti_device_uuid = ''d9'', ti_device_name = ''phone'',
     ti_device_type = 0, ti_login_time = 5, ti_ip_address = ''::1''\<rparr>"

abbreviation mail_env :: env where "mail_env \<equiv> demo_env\<lparr>conf := demo_conf\<lparr>mail_enabled := True\<rparr>\<rparr>"

theorem incomplete_login_timer_witness:
  "ti_find_by_user_and_device ''alice'' ''d9'' (ti_mark_incomplete mail_env ''alice'' ''d9'' ''phone'' 0 ''::2''
     (demo_server\<lparr>twofactor_incompletes := [demo_login]\<rparr>)) = Some demo_login"
  using incomplete_login_timer [of "demo_server\<lparr>twofactor_incompletes := [demo_login]\<rparr>" "''alice''" "''d9''" demo_login
      mail_env "''d9''" "''phone''" 0 "''::2''"]
  by (simp add: keyed_def ti_find_by_user_and_device_def tbl_first_def demo_login_def)

section \<open>Memberships\<close>

text \<open>A revocation always takes the confirmed status away and stores a status below \<open>Invited\<close>; restoring
  the membership gives it exactly the status it had.\<close>

theorem membership_revocation:
  assumes "member_status_ok (m_status m)" "\<not> is_revoked m"
  shows "Membership_restore (snd (Membership_revoke m)) = (True, m) \<and> is_revoked (snd (Membership_revoke m))
    \<and> \<not> has_status Confirmed (snd (Membership_revoke m)) \<and> \<not> has_full_access (snd (Membership_revoke m))
    \<and> get_unrevoked_status (snd (Membership_revoke m)) = m_status m
    \<and> member_status_ok (m_status (snd (Membership_revoke m)))"
  using restore_revoke [OF assms] revoke_ok [OF assms(1)] revoked_not_confirmed [of "snd (Membership_revoke m)"] assms
  by (auto simp: has_full_access_def get_unrevoked_status_def Membership_revoke_def ACTIVATE_REVOKE_DIFF_def
      member_status_ok_def is_revoked_def)

theorem membership_revocation_witness:
  "Membership_restore (snd (Membership_revoke (demo_member ''m1'' ''alice'' 2 0))) = (True, demo_member ''m1'' ''alice'' 2 0)
   \<and> m_status (snd (Membership_revoke (demo_member ''m1'' ''alice'' 2 0))) = -126"
  using membership_revocation [of "demo_member ''m1'' ''alice'' 2 0"]
  by (simp add: demo_member_def member_status_ok_def is_revoked_def Membership_revoke_def ACTIVATE_REVOKE_DIFF_def)

text \<open>The comparisons of a stored role with a role are those of the order user, manager, admin, owner,
  with an unknown stored number below every role: \<open><\<close> is the negation of \<open>>=\<close>, and a member below
  admin is neither owner nor admin.\<close>

theorem stored_role_order:
  "(i32_lt n t \<longleftrightarrow> \<not> i32_ge n t) \<and> (i32_le n t \<longleftrightarrow> i32_lt n t \<or> n = MembershipType_i32 t)
   \<and> (gt_i32 t (MembershipType_i32 u) \<longleftrightarrow> \<not> t \<le> u) \<and> (ge_i32 t (MembershipType_i32 u) \<longleftrightarrow> i32_le (MembershipType_i32 u) t)
   \<and> (i32_lt n Admin \<longleftrightarrow> n \<noteq> MembershipType_i32 Owner \<and> n \<noteq> MembershipType_i32 Admin)
   \<and> UserType < Manager \<and> Manager < Admin \<and> Admin < Owner"
proof -
  have "i32_le n t \<longleftrightarrow> i32_lt n t \<or> n = MembershipType_i32 t"
    by (auto simp: i32_le_def i32_lt_def from_i32_Some order.order_iff_strict split: option.split)
  moreover have "gt_i32 t (MembershipType_i32 u) \<longleftrightarrow> \<not> t \<le> u"
      "ge_i32 t (MembershipType_i32 u) \<longleftrightarrow> i32_le (MembershipType_i32 u) t"
    by (auto simp: gt_i32_def ge_i32_def i32_le_def)
  moreover have "UserType < Manager" "Manager < Admin" "Admin < Owner" by (simp_all add: less_MembershipType_def)
  ultimately show ?thesis using i32_lt_iff [of n t] lt_Admin_iff [of n] by blast
qed

text \<open>Removing a membership removes it, the member's assignments to the collections of that organization
  and the member's groups, and touches nothing else but the revision date of the user.\<close>

theorem membership_delete_correct:
  assumes "keyed m_uuid (users_organizations s)"
  shows "Membership_find_by_uuid k (Membership_delete E m s) =
      (if k = m_uuid m then None else Membership_find_by_uuid k s)
    \<and> (\<forall>cu. cu \<in> set (users_collections (Membership_delete E m s)) \<longleftrightarrow>
         cu \<in> set (users_collections s) \<and> \<not> (cu_user_uuid cu = m_user_uuid m \<and> col_in_org s (m_org_uuid m) (cu_collection_uuid cu)))
    \<and> (\<forall>g. g \<in> set (groups_users (Membership_delete E m s)) \<longleftrightarrow>
         g \<in> set (groups_users s) \<and> gu_users_organizations_uuid g \<noteq> m_uuid m)
    \<and> touched (users s) (users (Membership_delete E m s))"
proof -
  have "Membership_find_by_uuid k (Membership_delete E m s) = (if k = m_uuid m then None else Membership_find_by_uuid k s)"
    using member.find_del [OF assms, of k E m] by (simp add: member.find_def Membership_find_by_uuid_def)
  then show ?thesis by (auto simp: Membership_delete_tables Membership_delete_users)
qed

theorem membership_delete_correct_witness:
  "Membership_find_by_uuid ''m1'' (Membership_delete demo_env (demo_member ''m1'' ''alice'' 2 2) demo_server) = None
   \<and> Membership_find_by_uuid ''m2'' (Membership_delete demo_env (demo_member ''m1'' ''alice'' 2 2) demo_server)
     = Some (demo_member ''m2'' ''bob'' 2 0)"
proof -
  have k: "keyed m_uuid (users_organizations demo_server)" by code_simp
  have "Membership_find_by_uuid ''m2'' demo_server = Some (demo_member ''m2'' ''bob'' 2 0)" by code_simp
  moreover have "m_uuid (demo_member ''m1'' ''alice'' 2 2) = ''m1''" by code_simp
  ultimately show ?thesis
    using membership_delete_correct [OF k, where k = "''m1''" and E = demo_env and m = "demo_member ''m1'' ''alice'' 2 2"]
      membership_delete_correct [OF k, where k = "''m2''" and E = demo_env and m = "demo_member ''m1'' ''alice'' 2 2"]
    by simp
qed

text \<open>A revoked member still passes the filter \<open>status != Revoked\<close> of the search for a user's main
  organization: revoking subtracts 128 from the status, so the stored value is never -1.\<close>

theorem revoked_member_found:
  assumes "member_status_ok (m_status m)"
  shows "is_revoked (snd (Membership_revoke m))
    \<and> find_main_user_org (m_user_uuid m) (s\<lparr>users_organizations := [snd (Membership_revoke m)]\<rparr>) = Some (snd (Membership_revoke m))"
  using revoke_always [OF assms] assms
  by (auto simp: find_main_user_org_def tbl_first_def tbl_order_asc_def tbl_select_def Membership_revoke_def
      member_status_ok_def ACTIVATE_REVOKE_DIFF_def)

theorem revoked_member_found_witness:
  "is_revoked (snd (Membership_revoke (demo_member ''m1'' ''alice'' 2 0)))
   \<and> find_main_user_org ''alice'' (demo_server\<lparr>users_organizations := [snd (Membership_revoke (demo_member ''m1'' ''alice'' 2 0))]\<rparr>)
     \<noteq> None"
  using revoked_member_found [of "demo_member ''m1'' ''alice'' 2 0" demo_server]
  by (simp add: demo_member_def member_status_ok_def Membership_new_def get_uuid_def)

end
