(* ===== verification/DemoVault.thy ===== *)
theory DemoVault
  imports VaultLaws DemoServer Sessions
begin

text \<open>
  A concrete vault on which the properties are evaluated. One organization with two collections and one item in both. Alice is a plain member, assigned
  read-only to the first collection, and in a group that manages the second one; Bob is the owner,
  Carol a plain member of a group with access to everything.
\<close>

definition demo_item :: Cipher where
  "demo_item = (fst (Cipher_new demo_env 1 ''login'' empty_server))\<lparr>ci_uuid := ''item'', ci_organization_uuid := Some ''org''\<rparr>"

definition demo_note :: Cipher where
  "demo_note = (fst (Cipher_new demo_env 2 ''note'' empty_server))\<lparr>ci_uuid := ''note'', ci_user_uuid := Some ''alice'',
     ci_deleted_at := Some 0\<rparr>"

definition demo_collection :: "CollectionId \<Rightarrow> Collection" where
  "demo_collection uuid = \<lparr>c_uuid = uuid, c_org_uuid = ''org'', c_name = uuid, c_external_id = None\<rparr>"

definition demo_group :: "GroupId \<Rightarrow> bool \<Rightarrow> Group" where
  "demo_group uuid access_all = (fst (Group_new demo_env ''org'' uuid access_all None empty_server))\<lparr>g_uuid := uuid\<rparr>"

definition demo_vault :: server where
  "demo_vault = demo_server\<lparr>
     users_organizations := [demo_member ''m1'' ''alice'' 2 2, demo_member ''m2'' ''bob'' 2 0, demo_member ''m3'' ''carol'' 2 2],
     collections := [demo_collection ''c1'', demo_collection ''c2''],
     ciphers := [demo_item, demo_note],
     ciphers_collections := [\<lparr>cc_cipher_uuid = ''item'', cc_collection_uuid = ''c1''\<rparr>,
       \<lparr>cc_cipher_uuid = ''item'', cc_collection_uuid = ''c2''\<rparr>],
     users_collections := [\<lparr>cu_user_uuid = ''alice'', cu_collection_uuid = ''c1'', cu_read_only = True,
       cu_hide_passwords = True, cu_manage = False\<rparr>],
     groups := [demo_group ''team'' False, demo_group ''all'' True],
     groups_users := [\<lparr>gu_groups_uuid = ''team'', gu_users_organizations_uuid = ''m1''\<rparr>,
       \<lparr>gu_groups_uuid = ''all'', gu_users_organizations_uuid = ''m3''\<rparr>],
     collections_groups := [\<lparr>cg_collections_uuid = ''c2'', cg_groups_uuid = ''team'', cg_read_only = False,
       cg_hide_passwords = False, cg_manage = True\<rparr>],
     folders := [\<lparr>f_uuid = ''f1'', f_created_at = 0, f_updated_at = 0, f_user_uuid = ''alice'', f_name = ''work''\<rparr>,
       \<lparr>f_uuid = ''f2'', f_created_at = 0, f_updated_at = 0, f_user_uuid = ''bob'', f_name = ''mine''\<rparr>],
     folders_ciphers := [\<lparr>fc_cipher_uuid = ''item'', fc_folder_uuid = ''f2''\<rparr>],
     attachments := [\<lparr>at_id = ''a1'', at_cipher_uuid = ''item'', at_file_name = ''x'', at_file_size = 10, at_akey = None\<rparr>]\<rparr>"

lemma demo_vault_rows [code]:
  "demo_item = \<lparr>ci_uuid = ''item'', ci_created_at = 0, ci_updated_at = 0, ci_user_uuid = None,
     ci_organization_uuid = Some ''org'', ci_key = None, ci_atype = 1, ci_name = ''login'', ci_notes = None,
     ci_fields = None, ci_data = [], ci_password_history = None, ci_deleted_at = None, ci_reprompt = None\<rparr>"
  "demo_note = \<lparr>ci_uuid = ''note'', ci_created_at = 0, ci_updated_at = 0, ci_user_uuid = Some ''alice'',
     ci_organization_uuid = None, ci_key = None, ci_atype = 2, ci_name = ''note'', ci_notes = None,
     ci_fields = None, ci_data = [], ci_password_history = None, ci_deleted_at = Some 0, ci_reprompt = None\<rparr>"
  "demo_group uuid access_all = \<lparr>g_uuid = uuid, g_organizations_uuid = ''org'', g_name = uuid,
     g_access_all = access_all, g_external_id = None, g_creation_date = 0, g_revision_date = 0\<rparr>"
  by (simp_all add: demo_item_def demo_note_def demo_group_def Cipher_new_def Group_new_def Group_set_external_id_def
      utc_now_def get_uuid_def Let_def bump_def empty_server_def)

lemmas demo_vault_defs = demo_vault_def demo_server_def demo_item_def demo_note_def demo_collection_def demo_group_def
  demo_member_def Cipher_new_def Group_new_def Group_set_external_id_def Membership_new_def Let_def utc_now_def get_uuid_def

lemma demo_vault_wf: "access_wf demo_vault"
  by (simp add: access_wf_def keyed_def cu_key_def demo_vault_defs MembershipType_from_i32_def)

definition demo_headers :: "User \<Rightarrow> Headers" where
  "demo_headers u = \<lparr>h_host = ''https://vault'', h_device = demo_device ''d'' (u_uuid u) ''token'', h_user = u, h_ip = ''::1''\<rparr>"

lemma demo_headers_simps [simp]: "h_user (demo_headers u) = u" "u_uuid (demo_user i e h) = i"
  by (simp_all add: demo_headers_def demo_user_def)

end
