(* ===== verification/VaultProps.thy ===== *)
theory VaultProps
  imports DemoVault
begin

text \<open>
  Properties of the vault: who can list and who can open a cipher, how the checks on the database
  and on the cached data of a synchronisation compare, and what deletions, folder moves and the
  trash job leave behind.
\<close>

section \<open>Listing and opening\<close>

text \<open>C32. The list of a user's ciphers (\<open>find\_by\_user\<close>, with or without groups) contains exactly the
  ciphers of the table that pass the filter on ids and that the user owns or reaches through a
  confirmed membership: with full access, as admin or owner unless only visible ciphers are asked for,
  through an assigned collection, or through a group.\<close>

theorem vault_listing:
  "set (Cipher_find_by_user E user visible_only ids s) =
     {ci \<in> set (ciphers s). (ids = [] \<or> ci_uuid ci \<in> set ids) \<and> listed E s user visible_only ci}"
  using find_by_user_iff by blast

text \<open>C30. On consistent tables, the check that guards reading one cipher (\<open>is\_accessible\_to\_user\<close>)
  succeeds for the ciphers the user can list and, beyond these, exactly for the ciphers assigned to a
  membership of the user that is not confirmed.\<close>

theorem accessible_vs_listed:
  assumes "access_wf s" "ci \<in> set (ciphers s)"
  shows "is_accessible_to_user E ci user s \<longleftrightarrow> ci \<in> set (Cipher_find_by_user E user False [] s)
    \<or> (\<exists>m. member_of s user ci m \<and> \<not> has_status Confirmed m \<and> assigned E s m ci)"
  unfolding accessible_iff [OF assms] find_by_user_iff listed_iff [OF assms(1)] using assms(2)
  by (auto simp: has_full_access_def)

theorem accessible_vs_listed_witness:
  "is_accessible_to_user demo_env demo_item ''alice'' demo_vault \<longleftrightarrow>
     demo_item \<in> set (Cipher_find_by_user demo_env ''alice'' False [] demo_vault)
     \<or> (\<exists>m. member_of demo_vault ''alice'' demo_item m \<and> \<not> has_status Confirmed m \<and> assigned demo_env demo_vault m demo_item)"
  by (rule accessible_vs_listed [OF demo_vault_wf]) (simp add: demo_vault_def)

text \<open>C33. Revoking a membership hides the assigned ciphers from the list, but the check that guards
  reading one cipher still succeeds, and so does the check that guards writing it when the assignment is not
  read-only: the query for the assigned collections does not look at the state of the membership.\<close>

theorem revoked_member_keeps_access:
  assumes "access_wf s" "ci \<in> set (ciphers s)" "ci_user_uuid ci = None"
    and "m \<in> set (users_organizations s)" "member_status_ok (m_status m)" "user_grant s (m_user_uuid m) ci cu"
    and "ci_organization_uuid ci = Some (m_org_uuid m)"
  shows "is_accessible_to_user E ci (m_user_uuid m) (Membership_save E (snd (Membership_revoke m)) s)
    \<and> (\<not> cu_read_only cu \<longrightarrow> is_write_accessible_to_user E ci (m_user_uuid m) (Membership_save E (snd (Membership_revoke m)) s))
    \<and> ci \<notin> set (Cipher_find_by_user E (m_user_uuid m) False [] (Membership_save E (snd (Membership_revoke m)) s))"
proof -
  let ?r = "snd (Membership_revoke m)"
  let ?t = "Membership_save E ?r s"
  note fr = revises_frame [OF revises_revision [of s E "m_user_uuid ?r"]]
  have tab: "users_organizations ?t = tbl_upsert m_uuid ?r (users_organizations s)" "ciphers ?t = ciphers s"
      "users_collections ?t = users_collections s" "ciphers_collections ?t = ciphers_collections s"
    by (simp_all add: Membership_save_def Let_def fr)
  have r: "m_uuid ?r = m_uuid m" "m_user_uuid ?r = m_user_uuid m" "m_org_uuid ?r = m_org_uuid m"
    by (simp_all add: Membership_revoke_def)
  have "user_grant ?t (m_user_uuid m) ci cu"
    using assms(6) by (auto simp: user_grant_def in_collection_def tab)
  moreover have ci: "ci \<in> set (ciphers ?t)" using assms(2) by (simp add: tab)
  ultimately have "is_accessible_to_user E ci (m_user_uuid m) ?t"
      "\<not> cu_read_only cu \<Longrightarrow> is_write_accessible_to_user E ci (m_user_uuid m) ?t"
    using user_grant_access by blast+
  moreover have "\<not> listed E ?t (m_user_uuid m) False ci"
  proof
    assume "listed E ?t (m_user_uuid m) False ci"
    then obtain n where n: "n \<in> set (users_organizations ?t)" "m_org_uuid n = m_org_uuid m" "m_user_uuid n = m_user_uuid m"
        "has_status Confirmed n" using assms(3,7) by (auto simp: listed_def)
    then have "n = ?r"
      using keyed_unique [OF access_wf_keys(5) [OF assms(1)] _ assms(4)] r by (auto simp: tab set_tbl_upsert)
    with n(4) show False using revoked_not_confirmed revoke_always [OF assms(5)] by blast
  qed
  ultimately show ?thesis by (simp add: find_by_user_iff)
qed

text \<open>Alice may edit the items of the first collection.\<close>

definition edit_grant :: CollectionUser where
  "edit_grant = \<lparr>cu_user_uuid = ''alice'', cu_collection_uuid = ''c1'', cu_read_only = False, cu_hide_passwords = False, cu_manage = False\<rparr>"

definition edit_vault :: server where
  "edit_vault = demo_vault\<lparr>users_collections := [edit_grant]\<rparr>"

theorem revoked_member_keeps_access_witness:
  "is_accessible_to_user demo_env demo_item ''alice''
       (Membership_save demo_env (snd (Membership_revoke (demo_member ''m1'' ''alice'' 2 2))) edit_vault)
     \<and> is_write_accessible_to_user demo_env demo_item ''alice''
       (Membership_save demo_env (snd (Membership_revoke (demo_member ''m1'' ''alice'' 2 2))) edit_vault)
     \<and> demo_item \<notin> set (Cipher_find_by_user demo_env ''alice'' False []
       (Membership_save demo_env (snd (Membership_revoke (demo_member ''m1'' ''alice'' 2 2))) edit_vault))"
proof -
  have wf: "access_wf edit_vault"
    by (simp add: access_wf_def keyed_def cu_key_def edit_vault_def edit_grant_def demo_vault_defs MembershipType_from_i32_def)
  have "user_grant edit_vault ''alice'' demo_item edit_grant" "\<not> cu_read_only edit_grant"
    by (simp_all add: user_grant_def in_collection_def edit_vault_def edit_grant_def demo_vault_defs)
  then show ?thesis
    using revoked_member_keeps_access [OF wf, of demo_item "demo_member ''m1'' ''alice'' 2 2" edit_grant demo_env]
    by (simp add: edit_vault_def demo_vault_defs member_status_ok_def)
qed

section \<open>The database and the cached data\<close>

text \<open>C31. On consistent tables, the check on the cached data of a synchronisation grants access to a
  cipher exactly when the check on the database does, its flags never restrict more, and both agree
  unless the cipher is in a collection assigned to the user and in another that only a group of the
  user has.\<close>

theorem sync_check_agrees:
  assumes "access_wf s" "ci \<in> set (ciphers s)"
  shows "rel_option no_stricter (get_access_restrictions E ci user (Some (CipherSyncData_new E user ty s)) s)
      (get_access_restrictions E ci user None s)
    \<and> (mixed E s user ci
       \<or> get_access_restrictions E ci user (Some (CipherSyncData_new E user ty s)) s = get_access_restrictions E ci user None s)"
  using sync_db [OF assms, of E user ty] by blast

theorem sync_check_agrees_witness:
  "rel_option no_stricter (get_access_restrictions demo_env demo_item ''alice''
       (Some (CipherSyncData_new demo_env ''alice'' SyncUser demo_vault)) demo_vault)
      (get_access_restrictions demo_env demo_item ''alice'' None demo_vault)
    \<and> (mixed demo_env demo_vault ''alice'' demo_item
       \<or> get_access_restrictions demo_env demo_item ''alice'' (Some (CipherSyncData_new demo_env ''alice'' SyncUser demo_vault)) demo_vault
         = get_access_restrictions demo_env demo_item ''alice'' None demo_vault)"
  by (rule sync_check_agrees [OF demo_vault_wf]) (simp add: demo_vault_def)

text \<open>With mixed grants the two differ. Alice has the item read-only through her own assignment
  and managed through a group: a synchronisation tells her client that the item is writable, while
  every write is refused.\<close>

theorem sync_check_differs:
  "access_wf demo_vault
   \<and> get_access_restrictions demo_env demo_item ''alice'' (Some (CipherSyncData_new demo_env ''alice'' SyncUser demo_vault)) demo_vault
       = Some (False, False, True)
   \<and> get_access_restrictions demo_env demo_item ''alice'' None demo_vault = Some (True, True, False)
   \<and> \<not> is_write_accessible_to_user demo_env demo_item ''alice'' demo_vault"
  by (intro conjI demo_vault_wf; code_simp)

text \<open>A confirmed plain member of a group with access to everything may read every cipher of the
  organization without restrictions and with the right to manage it, but the details of a collection
  answer that passwords are hidden from them.\<close>

theorem full_group_hides_passwords:
  assumes "access_wf s" "org_groups_enabled (conf E)" "m \<in> set (users_organizations s)"
    and "has_status Confirmed m" "m_atype m = MembershipType_i32 UserType" "\<not> m_access_all m"
    and "group_of s m g" "g_access_all g"
    and "c \<in> set (collections s)" "c_org_uuid c = m_org_uuid m"
    and "ci_organization_uuid ci = Some (m_org_uuid m)"
  shows "get_access_restrictions E ci (m_user_uuid m) None s = Some (False, False, True)
    \<and> collection_flags E c (m_user_uuid m) s = (False, True, False)"
proof
  have "is_in_full_access_group E ci (m_user_uuid m) None s"
    using assms(2,3,7,8,11) unfolding full_group_iff [OF assms(1)] by blast
  then show "get_access_restrictions E ci (m_user_uuid m) None s = Some (False, False, True)"
    by (simp add: get_access_restrictions_def)
next
  have find: "Membership_find_confirmed_by_user_and_org (m_user_uuid m) (c_org_uuid c) s = Some m"
    using tbl_first_key_and [OF access_wf_keys(5) [OF assms(1)], of "(m_user_uuid m, m_org_uuid m)"
        "\<lambda>m. m_status m = MembershipStatus_i32 Confirmed" m] assms(3,4,10)
    by (simp add: Membership_find_confirmed_by_user_and_org_def has_status_def conj_assoc)
  have "hide_passwords_for_user c (m_user_uuid m) s" "is_writable_by_user E c (m_user_uuid m) s"
    using full_group_grants [OF assms(9,3,10,7,8)] full_group_writable [OF assms(2,9,3,10,7,8)]
    by (simp_all add: hide_passwords_for_user_def)
  moreover have "\<not> has_full_access m" using assms(5,6) by (simp add: has_full_access_def i32_ge_def MembershipType_from_i32_def less_eq_MembershipType_def)
  ultimately show "collection_flags E c (m_user_uuid m) s = (False, True, False)"
    using find assms(5) by (simp add: collection_flags_def)
qed

theorem full_group_hides_passwords_witness:
  "get_access_restrictions demo_env demo_item ''carol'' None demo_vault = Some (False, False, True)
    \<and> collection_flags demo_env (demo_collection ''c1'') ''carol'' demo_vault = (False, True, False)"
proof -
  have "group_of demo_vault (demo_member ''m3'' ''carol'' 2 2) (demo_group ''all'' True)"
    by (simp add: group_of_def demo_vault_defs)
  moreover have "org_groups_enabled (conf demo_env)" by (simp add: demo_conf_def)
  ultimately show ?thesis
    using full_group_hides_passwords [OF demo_vault_wf, of demo_env "demo_member ''m3'' ''carol'' 2 2"
        "demo_group ''all'' True" "demo_collection ''c1''" demo_item]
    by (simp add: demo_vault_defs has_status_def)
qed

section \<open>Writes\<close>

text \<open>C34. When the storage backend deletes every file, deleting a cipher succeeds and removes the cipher,
  its folder, collection, favorite and archive entries and its attachments, and nothing else; only
  revision dates of users change beside.\<close>

theorem cipher_delete_correct:
  assumes "keyed at_id (attachments s)" "\<And>n p. storage_delete E n p = None"
  shows "\<exists>t. Cipher_delete E ci s = (Inr (), t) \<and> revises (cipher_gone (ci_uuid ci) s) t"
  using Cipher_delete_ok [OF assms] by metis

theorem cipher_delete_correct_witness:
  "\<exists>t. Cipher_delete demo_env demo_item demo_vault = (Inr (), t) \<and> revises (cipher_gone (ci_uuid demo_item) demo_vault) t"
  by (rule cipher_delete_correct) (simp_all add: keyed_def demo_vault_defs demo_env_def)

text \<open>When the storage backend refuses to delete a file, deleting a cipher ends with the backend's
  error and the cipher stays in its table, but it has already left its folders and collections.\<close>

theorem cipher_delete_interrupted:
  assumes "keyed at_id (attachments s)" "Cipher_delete E ci s = (Inl e, t)"
  shows "storage_error E e \<and> ciphers t = ciphers s \<and> favorites t = favorites s
    \<and> [x \<leftarrow> folders_ciphers t. fc_cipher_uuid x = ci_uuid ci] = []
    \<and> [x \<leftarrow> ciphers_collections t. cc_cipher_uuid x = ci_uuid ci] = []"
proof -
  obtain ats where e: "storage_error E e" "revises (cipher_stripped (ci_uuid ci) ats s) t"
    using wp_Inl [OF Cipher_delete_wp [OF assms(1)] assms(2)] by auto
  then show ?thesis
    by (simp add: revises_frame [OF e(2)] cipher_stripped_def tbl_delete_def filter_empty_conv)
qed

definition broken_env :: env where
  "broken_env = demo_env\<lparr>storage_delete := (\<lambda>n p. Some ''backend unreachable'')\<rparr>"

theorem cipher_delete_interrupted_witness:
  "fst (Cipher_delete broken_env demo_item demo_vault) = Inl (Api ''backend unreachable'')
   \<and> ciphers (snd (Cipher_delete broken_env demo_item demo_vault)) = ciphers demo_vault
   \<and> [x \<leftarrow> ciphers_collections (snd (Cipher_delete broken_env demo_item demo_vault)). cc_cipher_uuid x = ''item''] = []"
proof -
  have a: "fst (Cipher_delete broken_env demo_item demo_vault) = Inl (Api ''backend unreachable'')" by code_simp
  then have "Cipher_delete broken_env demo_item demo_vault
      = (Inl (Api ''backend unreachable''), snd (Cipher_delete broken_env demo_item demo_vault))"
    by (metis prod.collapse)
  note cipher_delete_interrupted [OF _ this]
  moreover have "keyed at_id (attachments demo_vault)" "ci_uuid demo_item = ''item''"
    by (simp_all add: keyed_def demo_vault_defs)
  ultimately show ?thesis using a by simp
qed

text \<open>The consistency of the access tables survives the deletion of a cipher (also an interrupted
  one), a collection, a group or a membership, and every assignment within one organization: of a
  cipher, a user or a group to a collection, of a member to a group.\<close>

theorem access_tables_kept:
  assumes "access_wf s"
  shows "access_wf (Collection_delete E c s) \<and> access_wf (Group_delete E g org s)
    \<and> (keyed at_id (attachments s) \<longrightarrow> access_wf (snd (Cipher_delete E ci s)))
    \<and> (m \<in> set (users_organizations s) \<longrightarrow> access_wf (Membership_delete E m s))
    \<and> (cipher_in_col_org i col s \<longrightarrow> access_wf (cc_save E i col s))
    \<and> (member_of_col_org user col s \<longrightarrow> access_wf (cu_save E user col ro hp mn s))
    \<and> (group_in_col_org cg s \<longrightarrow> access_wf (cg_save E cg org s))
    \<and> (member_in_group_org gu s \<longrightarrow> access_wf (gu_save E gu s))"
  by (intro conjI impI Collection_delete_wf Group_delete_wf Cipher_delete_wf Membership_delete_wf
      cc_save_wf cu_save_wf cg_save_wf gu_save_wf assms)

theorem access_tables_kept_witness:
  "access_wf (Collection_delete demo_env (demo_collection ''c1'') demo_vault)
    \<and> access_wf (Group_delete demo_env (demo_group ''team'' False) ''org'' demo_vault)
    \<and> access_wf (snd (Cipher_delete demo_env demo_item demo_vault))
    \<and> access_wf (Membership_delete demo_env (demo_member ''m1'' ''alice'' 2 2) demo_vault)
    \<and> access_wf (cc_save demo_env ''item'' ''c1'' demo_vault) \<and> access_wf (cu_save demo_env ''bob'' ''c1'' True False False demo_vault)
    \<and> access_wf (cg_save demo_env (CollectionGroup_new ''c1'' ''all'' False False True) ''org'' demo_vault)
    \<and> access_wf (gu_save demo_env (GroupUser_new ''team'' ''m2'') demo_vault)"
proof -
  have "keyed at_id (attachments demo_vault)" "demo_member ''m1'' ''alice'' 2 2 \<in> set (users_organizations demo_vault)"
    by (simp_all add: keyed_def demo_vault_def)
  moreover have "cipher_in_col_org ''item'' ''c1'' demo_vault" "member_of_col_org ''bob'' ''c1'' demo_vault"
      "group_in_col_org (CollectionGroup_new ''c1'' ''all'' False False True) demo_vault"
      "member_in_group_org (GroupUser_new ''team'' ''m2'') demo_vault"
    by (simp_all add: cipher_in_col_org_def member_of_col_org_def group_in_col_org_def member_in_group_org_def
        CollectionGroup_new_def GroupUser_new_def demo_vault_defs)
  ultimately show ?thesis using access_tables_kept [OF demo_vault_wf] by blast
qed

text \<open>Moving a cipher to a folder of the user (or out of every folder) succeeds, the cipher is then in
  that folder for this user, other ciphers and other users keep their folders, and every user still has
  a cipher in at most one folder.\<close>

theorem move_to_folder_roundtrip:
  assumes "folders_wf s" "\<And>b. folder = Some b \<Longrightarrow> own_folder s user b"
  shows "\<exists>t. move_to_folder E folder user ci s = (Inr (), t) \<and> folders_wf t \<and> get_folder_uuid ci user t = folder
    \<and> (\<forall>ci' user'. (ci_uuid ci', user') \<noteq> (ci_uuid ci, user) \<longrightarrow> get_folder_uuid ci' user' t = get_folder_uuid ci' user' s)"
  using move_to_folder_ok [OF assms] by metis

theorem move_to_folder_roundtrip_witness:
  "get_folder_uuid demo_item ''alice'' (snd (move_to_folder demo_env (Some ''f1'') ''alice'' demo_item demo_vault)) = Some ''f1''
   \<and> get_folder_uuid demo_item ''bob'' (snd (move_to_folder demo_env (Some ''f1'') ''alice'' demo_item demo_vault)) = Some ''f2''"
proof -
  have "folders_wf demo_vault" "own_folder demo_vault ''alice'' ''f1''"
    by (simp_all add: folders_wf_def own_folder_def keyed_def demo_vault_defs)
  with move_to_folder_roundtrip [of demo_vault "Some ''f1''" "''alice''" demo_env demo_item]
  obtain t where t: "move_to_folder demo_env (Some ''f1'') ''alice'' demo_item demo_vault = (Inr (), t)"
      "get_folder_uuid demo_item ''alice'' t = Some ''f1''"
      "get_folder_uuid demo_item ''bob'' t = get_folder_uuid demo_item ''bob'' demo_vault" by fastforce
  moreover have "get_folder_uuid demo_item ''bob'' demo_vault = Some ''f2''" by code_simp
  ultimately show ?thesis by simp
qed

text \<open>The trash job, when the retention is set, the dates can be computed and the storage backend
  deletes every file, ends without error and removes all traces of exactly the ciphers put in the
  trash before the retention period.\<close>

theorem purge_trash_correct:
  assumes "keyed at_id (attachments s)" "\<And>n p. storage_delete E n p = None"
    and "trash_auto_delete_days (conf E) = Some days" "try_days days = Some delta"
    and "naive_add (clock E (tick s)) (- delta) = Some dt"
  shows "\<exists>t. purge_trash E s = (Inr (), t)
    \<and> revises (ciphers_gone {i. \<exists>ci \<in> set (ciphers s). ci_uuid ci = i \<and> trashed_before dt ci} s) t"
  by (rule purge_trash_ok [OF assms]) blast

theorem purge_trash_correct_witness:
  "\<exists>t. purge_trash demo_env (demo_vault\<lparr>tick := 40\<rparr>) = (Inr (), t)
    \<and> revises (ciphers_gone {i. \<exists>ci \<in> set (ciphers demo_vault). ci_uuid ci = i \<and> trashed_before (10 * 86400 * NANOS) ci}
        (demo_vault\<lparr>tick := 40\<rparr>)) t"
  using purge_trash_correct [of "demo_vault\<lparr>tick := 40\<rparr>" demo_env 30 "30 * 86400 * NANOS" "10 * 86400 * NANOS"]
  by (simp add: keyed_def demo_vault_def demo_env_def demo_conf_def try_days_def try_seconds_def naive_add_def NANOS_def)

text \<open>The total size of the attachments of a user, as the database reports it, is never negative
  when no attachment has a negative size, fits a signed 64-bit number, equals the true total when that
  fits, and otherwise is the largest such number, so that a quota check never sees a wrapped value.\<close>

theorem size_by_user_bounds:
  assumes "\<And>a. a \<in> set (attachments s) \<Longrightarrow> 0 \<le> at_file_size a"
  shows "0 \<le> size_by_user user s \<and> size_by_user user s < 2 ^ 63
    \<and> size_by_user user s = min (2 ^ 63 - 1)
        (sum_list (map at_file_size (attachments_where (\<lambda>ci. ci_user_uuid ci = Some user) s)))"
proof -
  let ?xs = "map at_file_size (attachments_where (\<lambda>ci. ci_user_uuid ci = Some user) s)"
  have "0 \<le> x" if "x \<in> set ?xs" for x using that assms by (auto simp: attachments_where_def)
  then have "0 \<le> sum_list ?xs" by (rule sum_list_nonneg)
  then show ?thesis by (auto simp: size_by_user_def sum_i64_def Let_def min_def)
qed

theorem size_by_user_bounds_witness:
  "0 \<le> size_by_user ''alice'' demo_vault \<and> size_by_user ''alice'' demo_vault < 2 ^ 63"
proof -
  have "0 \<le> at_file_size a" if "a \<in> set (attachments demo_vault)" for a using that by (simp add: demo_vault_def)
  from size_by_user_bounds [OF this] show ?thesis by blast
qed

end
