(* ===== verification/HttpFilter.thy ===== *)
theory HttpFilter
  imports Schema
begin

text \<open>
  The filter on outgoing requests: \<open>server/src/http_client.rs\<close> and \<open>is_global_hardcoded\<close> of
  \<open>util.rs\<close>. An address is its octets (IPv4) or its eight segments (IPv6). The URL and host parsers,
  the regex engine and the DNS resolver are parameters; the cache of the compiled regex and the
  poisoning of its mutex are the state.
\<close>

section \<open>Global addresses\<close>

type_synonym u16 = "16 word"

datatype Ipv4Addr = Ipv4Addr u8 u8 u8 u8
datatype Ipv6Addr = Ipv6Addr u16 u16 u16 u16 u16 u16 u16 u16
datatype IpAddr = V4 Ipv4Addr | V6 Ipv6Addr

text \<open>The predicates of \<open>std::net\<close> the code calls.\<close>

definition v4_is_private :: "u8 \<Rightarrow> u8 \<Rightarrow> bool" where
  "v4_is_private a b \<longleftrightarrow> a = 10 \<or> a = 172 \<and> 16 \<le> b \<and> b \<le> 31 \<or> a = 192 \<and> b = 168"

definition v4_is_documentation :: "u8 \<Rightarrow> u8 \<Rightarrow> u8 \<Rightarrow> bool" where
  "v4_is_documentation a b c \<longleftrightarrow> a = 192 \<and> b = 0 \<and> c = 2 \<or> a = 198 \<and> b = 51 \<and> c = 100 \<or> a = 203 \<and> b = 0 \<and> c = 113"

definition v4_is_broadcast :: "u8 \<Rightarrow> u8 \<Rightarrow> u8 \<Rightarrow> u8 \<Rightarrow> bool" where
  "v4_is_broadcast a b c d \<longleftrightarrow> a = 255 \<and> b = 255 \<and> c = 255 \<and> d = 255"

fun is_global_hardcoded :: "IpAddr \<Rightarrow> bool" where
  "is_global_hardcoded (V4 (Ipv4Addr a b c d)) \<longleftrightarrow>
     \<not> (a = 0
       \<or> v4_is_private a b
       \<or> (a = 100 \<and> b AND 192 = 64)
       \<or> a = 127
       \<or> (a = 169 \<and> b = 254)
       \<or> (a = 192 \<and> b = 0 \<and> c = 0 \<and> d \<noteq> 9 \<and> d \<noteq> 10)
       \<or> v4_is_documentation a b c
       \<or> (a = 198 \<and> b AND 254 = 18)
       \<or> (a AND 240 = 240 \<and> \<not> v4_is_broadcast a b c d)
       \<or> v4_is_broadcast a b c d)"
| "is_global_hardcoded (V6 (Ipv6Addr a b c d e f g h)) \<longleftrightarrow>
     \<not> ((a = 0 \<and> b = 0 \<and> c = 0 \<and> d = 0 \<and> e = 0 \<and> f = 0 \<and> g = 0 \<and> h = 0)
       \<or> (a = 0 \<and> b = 0 \<and> c = 0 \<and> d = 0 \<and> e = 0 \<and> f = 0 \<and> g = 0 \<and> h = 1)
       \<or> (a = 0 \<and> b = 0 \<and> c = 0 \<and> d = 0 \<and> e = 0 \<and> f = 0xffff)
       \<or> (a = 0x64 \<and> b = 0xff9b \<and> c = 1)
       \<or> (a = 0x100 \<and> b = 0 \<and> c = 0 \<and> d = 0)
       \<or> ((a = 0x2001 \<and> b < 0x200)
          \<and> \<not> ((a = 0x2001 \<and> b = 1 \<and> c = 0 \<and> d = 0 \<and> e = 0 \<and> f = 0 \<and> g = 0 \<and> h = 1)
             \<or> (a = 0x2001 \<and> b = 1 \<and> c = 0 \<and> d = 0 \<and> e = 0 \<and> f = 0 \<and> g = 0 \<and> h = 2)
             \<or> (a = 0x2001 \<and> b = 3)
             \<or> (a = 0x2001 \<and> b = 4 \<and> c = 0x112)
             \<or> (a = 0x2001 \<and> 0x20 \<le> b \<and> b \<le> 0x3f)))
       \<or> a = 0x2002
       \<or> (a = 0x2001 \<and> b = 0xdb8) \<or> (a = 0x3fff \<and> b \<le> 0x0fff)
       \<or> a = 0x5f00
       \<or> a AND 0xfe00 = 0xfc00
       \<or> a AND 0xffc0 = 0xfe80)"

section \<open>The filter\<close>

datatype Host = Domain string | Ipv4 Ipv4Addr | Ipv6 Ipv6Addr

datatype CustomHttpClientError =
    Blocked string
  | NonGlobalIp "string option" IpAddr
  | Invalid string

record http_env =
  http_request_block_non_global_ips :: bool
  http_request_block_regex :: "string option"
  regex_new :: "string \<Rightarrow> (string \<Rightarrow> bool) option"
  host_parse :: "string \<Rightarrow> Host option"
  host_to_string :: "Host \<Rightarrow> string"
  ip_to_string :: "IpAddr \<Rightarrow> string"
  url_parse_host :: "string \<Rightarrow> Host option option"
  lookup_ip :: "string \<Rightarrow> string + IpAddr list"

text \<open>\<open>COMPILED_REGEX\<close>: the pattern it was compiled from, and the matcher.\<close>

record http_state =
  compiled_regex :: "(string \<times> (string \<Rightarrow> bool)) option"
  poisoned :: bool

definition http_init :: http_state where
  "http_init = \<lparr>compiled_regex = None, poisoned = False\<rparr>"

definition CustomHttpClientError_display :: "http_env \<Rightarrow> CustomHttpClientError \<Rightarrow> string" where
  "CustomHttpClientError_display H e = (case e of
     Blocked d \<Rightarrow> ''Blocked domain: '' @ [CHR 0x27] @ d @ [CHR 0x27] @ '' matched HTTP_REQUEST_BLOCK_REGEX''
   | NonGlobalIp (Some d) ip \<Rightarrow> ''IP '' @ ip_to_string H ip @ '' for domain '' @ [CHR 0x27] @ d @ [CHR 0x27] @ '' is not a global IP!''
   | NonGlobalIp None ip \<Rightarrow> ''IP '' @ [CHR 0x27] @ ip_to_string H ip @ [CHR 0x27] @ '' is not a global IP!''
   | Invalid d \<Rightarrow> ''Invalid host: '' @ [CHR 0x27] @ d @ [CHR 0x27] @ '' contains invalid characters or exceeds the maximum length'')"

definition should_block_ip :: "http_env \<Rightarrow> IpAddr \<Rightarrow> bool" where
  "should_block_ip H ip = (if \<not> http_request_block_non_global_ips H then False else \<not> is_global_hardcoded ip)"

text \<open>\<open>Regex::new(..).unwrap()\<close> runs while the mutex is held: a panic poisons it.\<close>

definition recompile :: "http_env \<Rightarrow> string \<Rightarrow> string \<Rightarrow> (http_state, bool) act" where
  "recompile H block_regex domain_or_ip =
     (case regex_new H block_regex of
        None \<Rightarrow> act_seq (act_upd (\<lambda>s. s\<lparr>poisoned := True\<rparr>))
          (act_err (Panic ''called `Result::unwrap()` on an `Err` value''))
      | Some regex \<Rightarrow> act_seq (act_upd (\<lambda>s. s\<lparr>compiled_regex := Some (block_regex, regex)\<rparr>))
          (act_ret (regex domain_or_ip)))"

definition should_block_address_regex :: "http_env \<Rightarrow> string \<Rightarrow> (http_state, bool) act" where
  "should_block_address_regex H domain_or_ip =
     (case http_request_block_regex H of
        None \<Rightarrow> act_ret False
      | Some block_regex \<Rightarrow>
          act_bind (act_get poisoned) (\<lambda>dead.
          if dead then act_err (Panic ''called `Result::unwrap()` on an `Err` value: PoisonError'')
          else act_bind (act_get compiled_regex) (\<lambda>guard.
            case guard of
              Some (v, regex) \<Rightarrow>
                if v = block_regex then act_ret (regex domain_or_ip)
                else recompile H block_regex domain_or_ip
            | None \<Rightarrow> recompile H block_regex domain_or_ip)))"

definition is_ascii_alphanumeric :: "char \<Rightarrow> bool" where
  "is_ascii_alphanumeric c \<longleftrightarrow> (let n = of_char c :: nat in
     48 \<le> n \<and> n \<le> 57 \<or> 65 \<le> n \<and> n \<le> 90 \<or> 97 \<le> n \<and> n \<le> 122)"

definition valid_label :: "string \<Rightarrow> bool" where
  "valid_label label \<longleftrightarrow> label \<noteq> [] \<and> length label \<le> 63 \<and> hd label \<noteq> CHR ''-'' \<and> last label \<noteq> CHR ''-''
     \<and> list_all (\<lambda>c. is_ascii_alphanumeric c \<or> c = CHR ''-'') label"

definition get_valid_host :: "http_env \<Rightarrow> string \<Rightarrow> CustomHttpClientError + Host" where
  "get_valid_host H host =
     (case host_parse H host of
        None \<Rightarrow> Inl (Invalid host)
      | Some h \<Rightarrow>
          (case h of
             Domain domain \<Rightarrow>
               if length domain > 253 then Inl (Invalid (host_to_string H h))
               else if \<not> list_all valid_label (split_on CHR ''.'' domain) then Inl (Invalid (host_to_string H h))
               else Inr h
           | _ \<Rightarrow> Inr h))"

definition host_ip :: "Host \<Rightarrow> IpAddr option" where
  "host_ip h = (case h of Ipv4 a \<Rightarrow> Some (V4 a) | Ipv6 a \<Rightarrow> Some (V6 a) | Domain d \<Rightarrow> None)"

definition host_str :: "http_env \<Rightarrow> Host \<Rightarrow> string" where
  "host_str H h = (case h of Ipv4 a \<Rightarrow> ip_to_string H (V4 a) | Ipv6 a \<Rightarrow> ip_to_string H (V6 a) | Domain d \<Rightarrow> d)"

definition should_block_host :: "http_env \<Rightarrow> Host \<Rightarrow> (http_state, CustomHttpClientError + unit) act" where
  "should_block_host H host =
     (case host_ip host of
        Some ip \<Rightarrow>
          if should_block_ip H ip then act_ret (Inl (NonGlobalIp None ip))
          else act_bind (should_block_address_regex H (host_str H host)) (\<lambda>b.
            act_ret (if b then Inl (Blocked (host_str H host)) else Inr ()))
      | None \<Rightarrow>
          act_bind (should_block_address_regex H (host_str H host)) (\<lambda>b.
            act_ret (if b then Inl (Blocked (host_str H host)) else Inr ())))"

text \<open>The request that is built on success is its URL here.\<close>

definition make_http_request :: "http_env \<Rightarrow> string \<Rightarrow> (http_state, string) act" where
  "make_http_request H url =
     (case url_parse_host H url of
        None \<Rightarrow> act_err (Api ''Invalid URL'')
      | Some None \<Rightarrow> act_err (Api ''Invalid host'')
      | Some (Some host) \<Rightarrow>
          act_bind (should_block_host H host) (\<lambda>r.
          case r of
            Inl e \<Rightarrow> act_err (Api (CustomHttpClientError_display H e))
          | Inr u \<Rightarrow> act_ret url))"

datatype redirect_action = Follow | RedirectError string

definition redirect_policy :: "http_env \<Rightarrow> string list \<Rightarrow> Host option \<Rightarrow> (http_state, redirect_action) act" where
  "redirect_policy H previous host =
     (if length previous \<ge> 5 then act_ret (RedirectError ''Too many redirects'')
      else case host of
        None \<Rightarrow> act_ret (RedirectError ''Invalid host'')
      | Some h \<Rightarrow>
          act_bind (should_block_host H h) (\<lambda>r.
          case r of
            Inl e \<Rightarrow> act_ret (RedirectError (CustomHttpClientError_display H e))
          | Inr u \<Rightarrow> act_ret Follow))"

definition pre_resolve :: "http_env \<Rightarrow> string \<Rightarrow> (http_state, CustomHttpClientError + unit) act" where
  "pre_resolve H name =
     (case get_valid_host H name of
        Inl e \<Rightarrow> act_ret (Inl (Invalid name))
      | Inr host \<Rightarrow>
          act_bind (should_block_host H host) (\<lambda>r.
          case r of Inl e \<Rightarrow> act_ret (Inl (Blocked name)) | Inr u \<Rightarrow> act_ret (Inr ())))"

definition post_resolve :: "http_env \<Rightarrow> string \<Rightarrow> IpAddr \<Rightarrow> CustomHttpClientError + unit" where
  "post_resolve H name ip = (if should_block_ip H ip then Inl (NonGlobalIp (Some name) ip) else Inr ())"

fun post_resolve_all :: "http_env \<Rightarrow> string \<Rightarrow> IpAddr list \<Rightarrow> CustomHttpClientError + unit" where
  "post_resolve_all H name [] = Inr ()"
| "post_resolve_all H name (ip # ips) = try_bind (post_resolve H name ip) (\<lambda>_. post_resolve_all H name ips)"

definition resolve_domain :: "http_env \<Rightarrow> string \<Rightarrow> (http_state, IpAddr list) act" where
  "resolve_domain H name =
     act_bind (pre_resolve H name) (\<lambda>r.
     case r of
       Inl e \<Rightarrow> act_err (Api (CustomHttpClientError_display H e))
     | Inr u \<Rightarrow>
         (case lookup_ip H name of
            Inl e \<Rightarrow> act_err (Api e)
          | Inr results \<Rightarrow>
              (case post_resolve_all H name results of
                 Inl e \<Rightarrow> act_err (Api (CustomHttpClientError_display H e))
               | Inr u \<Rightarrow> act_ret results)))"

section \<open>Address ranges\<close>

text \<open>
  The reference: an address is a number in base \<open>2 ^ w\<close>, a range a network address with the length of
  its prefix.
\<close>

definition horner :: "nat \<Rightarrow> nat list \<Rightarrow> nat" where
  "horner w xs = foldl (\<lambda>n x. n * 2 ^ w + x) 0 xs"

fun ip_width :: "IpAddr \<Rightarrow> nat" where
  "ip_width (V4 x) = 8" | "ip_width (V6 x) = 16"

fun ip_digits :: "IpAddr \<Rightarrow> nat list" where
  "ip_digits (V4 (Ipv4Addr a b c d)) = [unat a, unat b, unat c, unat d]"
| "ip_digits (V6 (Ipv6Addr a b c d e f g h)) =
     [unat a, unat b, unat c, unat d, unat e, unat f, unat g, unat h]"

definition in_range :: "IpAddr \<Rightarrow> nat list \<times> nat \<Rightarrow> bool" where
  "in_range ip r = (case r of (net, len) \<Rightarrow>
     let w = ip_width ip; k = w * length (ip_digits ip) - len
     in horner w (ip_digits ip) div 2 ^ k = horner w net div 2 ^ k)"

text \<open>The special-purpose ranges that are not globally reachable, and the ranges in them that are.\<close>

fun special :: "IpAddr \<Rightarrow> (nat list \<times> nat) list" where
  "special (V4 x) = [([0, 0, 0, 0], 8), ([10, 0, 0, 0], 8), ([100, 64, 0, 0], 10), ([127, 0, 0, 0], 8),
     ([169, 254, 0, 0], 16), ([172, 16, 0, 0], 12), ([192, 0, 0, 0], 24), ([192, 0, 2, 0], 24),
     ([192, 168, 0, 0], 16), ([198, 18, 0, 0], 15), ([198, 51, 100, 0], 24), ([203, 0, 113, 0], 24),
     ([240, 0, 0, 0], 4)]"
| "special (V6 x) = [([0, 0, 0, 0, 0, 0, 0, 0], 128), ([0, 0, 0, 0, 0, 0, 0, 1], 128),
     ([0, 0, 0, 0, 0, 0xffff, 0, 0], 96), ([0x64, 0xff9b, 1, 0, 0, 0, 0, 0], 48), ([0x100, 0, 0, 0, 0, 0, 0, 0], 64),
     ([0x2001, 0, 0, 0, 0, 0, 0, 0], 23), ([0x2001, 0xdb8, 0, 0, 0, 0, 0, 0], 32), ([0x2002, 0, 0, 0, 0, 0, 0, 0], 16),
     ([0x3fff, 0, 0, 0, 0, 0, 0, 0], 20), ([0x5f00, 0, 0, 0, 0, 0, 0, 0], 16), ([0xfc00, 0, 0, 0, 0, 0, 0, 0], 7),
     ([0xfe80, 0, 0, 0, 0, 0, 0, 0], 10)]"

fun reachable :: "IpAddr \<Rightarrow> (nat list \<times> nat) list" where
  "reachable (V4 x) = [([192, 0, 0, 9], 32), ([192, 0, 0, 10], 32)]"
| "reachable (V6 x) = [([0x2001, 1, 0, 0, 0, 0, 0, 1], 128), ([0x2001, 1, 0, 0, 0, 0, 0, 2], 128),
     ([0x2001, 3, 0, 0, 0, 0, 0, 0], 32), ([0x2001, 4, 0x112, 0, 0, 0, 0, 0], 48), ([0x2001, 0x20, 0, 0, 0, 0, 0, 0], 28),
     ([0x2001, 0x30, 0, 0, 0, 0, 0, 0], 28)]"

lemma horner_snoc: "horner w (xs @ [x]) = horner w xs * 2 ^ w + x"
  by (simp add: horner_def)

lemma horner_prefix:
  "(\<forall>y \<in> set ys. y < 2 ^ w) \<Longrightarrow> horner w (xs @ ys) div 2 ^ (w * length ys) = horner w xs"
proof (induction ys rule: rev_induct)
  case (snoc y ys)
  have "horner w ((xs @ ys) @ [y]) div 2 ^ (w * length (ys @ [y])) = (horner w (xs @ ys) * 2 ^ w + y) div 2 ^ w div 2 ^ (w * length ys)"
    by (simp only: horner_snoc) (simp add: power_add div_mult2_eq)
  also have "(horner w (xs @ ys) * 2 ^ w + y) div 2 ^ w = horner w (xs @ ys)" using snoc.prems by simp
  finally show ?case using snoc by simp
qed simp

lemma base_digits:
  assumes "(x :: nat) < m" "y < m"
  shows "a * m + x = b * m + y \<longleftrightarrow> a = b \<and> x = y"
proof
  assume eq: "a * m + x = b * m + y"
  have "(a * m + x) div m = a" "(b * m + y) div m = b" using assms by simp_all
  with eq show "a = b \<and> x = y" by simp
qed simp

lemma horner_inject:
  "length xs = length ys \<Longrightarrow> (\<forall>x \<in> set xs. x < 2 ^ w) \<Longrightarrow> (\<forall>y \<in> set ys. y < 2 ^ w)
     \<Longrightarrow> horner w xs = horner w ys \<longleftrightarrow> xs = ys"
proof (induction xs arbitrary: ys rule: rev_induct)
  case (snoc x xs)
  obtain zs z where ys: "ys = zs @ [z]" using snoc.prems(1) by (cases ys rule: rev_cases) auto
  have "horner w xs * 2 ^ w + x = horner w zs * 2 ^ w + z \<longleftrightarrow> horner w xs = horner w zs \<and> x = z"
    by (rule base_digits) (use snoc.prems ys in simp_all)
  then show ?case using snoc ys by (simp add: horner_snoc)
qed simp

text \<open>A prefix of \<open>k\<close> digits and \<open>r\<close> bits of the next one.\<close>

lemma range_digits:
  assumes "length xs = N" "length ns = N" "k < N" "r \<le> w"
    and "\<forall>x \<in> set xs. x < 2 ^ w" "\<forall>x \<in> set ns. x < 2 ^ w"
  shows "horner w xs div 2 ^ (w * N - (w * k + r)) = horner w ns div 2 ^ (w * N - (w * k + r)) \<longleftrightarrow>
    take k xs = take k ns \<and> xs ! k div 2 ^ (w - r) = ns ! k div 2 ^ (w - r)"
proof -
  have cut: "horner w zs div 2 ^ (w * N - (w * k + r)) = horner w (take k zs) * 2 ^ r + zs ! k div 2 ^ (w - r)"
      and low: "zs ! k div 2 ^ (w - r) < 2 ^ r"
    if z: "length zs = N" "\<forall>x \<in> set zs. x < 2 ^ w" for zs
  proof -
    have split: "zs = (take k zs @ [zs ! k]) @ drop (Suc k) zs"
      using z(1) assms(3) by (simp add: id_take_nth_drop)
    have "w * N - (w * k + r) = w * length (drop (Suc k) zs) + (w - r)"
    proof -
      have "N = Suc k + length (drop (Suc k) zs)" using z(1) assms(3) by simp
      then have "w * N = w * k + w + w * length (drop (Suc k) zs)" by (metis add_mult_distrib2 mult_Suc_right add.commute)
      then show ?thesis using assms(4) by simp
    qed
    then have "horner w zs div 2 ^ (w * N - (w * k + r))
        = horner w ((take k zs @ [zs ! k]) @ drop (Suc k) zs) div 2 ^ (w * length (drop (Suc k) zs)) div 2 ^ (w - r)"
      using split by (simp add: power_add div_mult2_eq)
    also have "\<dots> = horner w (take k zs @ [zs ! k]) div 2 ^ (w - r)"
      using horner_prefix [of "drop (Suc k) zs" w] z(2) by (metis in_set_dropD)
    also have "\<dots> = (horner w (take k zs) * 2 ^ r * 2 ^ (w - r) + zs ! k) div 2 ^ (w - r)"
      using assms(4) by (simp add: horner_snoc mult.assoc flip: power_add)
    also have "\<dots> = horner w (take k zs) * 2 ^ r + zs ! k div 2 ^ (w - r)" by simp
    finally show "horner w zs div 2 ^ (w * N - (w * k + r)) = horner w (take k zs) * 2 ^ r + zs ! k div 2 ^ (w - r)" .
    have "zs ! k < 2 ^ r * 2 ^ (w - r)" using z assms(3,4) by (simp flip: power_add)
    then show "zs ! k div 2 ^ (w - r) < 2 ^ r" by (rule less_mult_imp_div_less)
  qed
  have "horner w (take k xs) * 2 ^ r + xs ! k div 2 ^ (w - r) = horner w (take k ns) * 2 ^ r + ns ! k div 2 ^ (w - r)
      \<longleftrightarrow> horner w (take k xs) = horner w (take k ns) \<and> xs ! k div 2 ^ (w - r) = ns ! k div 2 ^ (w - r)"
    by (rule base_digits) (rule low [OF assms(1,5)], rule low [OF assms(2,6)])
  moreover have "horner w (take k xs) = horner w (take k ns) \<longleftrightarrow> take k xs = take k ns"
    by (rule horner_inject) (use assms in \<open>auto dest: in_set_takeD\<close>)
  ultimately show ?thesis unfolding cut [OF assms(1,5)] cut [OF assms(2,6)] by simp
qed

lemma and_high_bits:
  fixes a c :: "'a :: len word"
  shows "a AND NOT (mask n) = c AND NOT (mask n) \<longleftrightarrow> unat a div 2 ^ n = unat c div 2 ^ n"
proof -
  have "a AND NOT (mask n) = c AND NOT (mask n) \<longleftrightarrow> drop_bit n a = drop_bit n c"
  proof
    assume *: "a AND NOT (mask n) = c AND NOT (mask n)"
    show "drop_bit n a = drop_bit n c"
    proof (rule bit_word_eqI)
      fix i
      assume "i < LENGTH('a)"
      show "bit (drop_bit n a) i = bit (drop_bit n c) i"
        using arg_cong [OF *, of "\<lambda>w. bit w (n + i)"] by (auto simp: bit_simps dest: bit_imp_le_length)
    qed
  next
    assume *: "drop_bit n a = drop_bit n c"
    show "a AND NOT (mask n) = c AND NOT (mask n)"
    proof (rule bit_word_eqI)
      fix i
      assume "i < LENGTH('a)"
      then show "bit (a AND NOT (mask n)) i = bit (c AND NOT (mask n)) i"
        using arg_cong [OF *, of "\<lambda>w. bit w (i - n)"] by (cases "n \<le> i") (auto simp: bit_simps)
    qed
  qed
  also have "\<dots> \<longleftrightarrow> unat a div 2 ^ n = unat c div 2 ^ n"
    unfolding word_unat_eq_iff unat_drop_bit_eq by (simp add: drop_bit_eq_div)
  finally show ?thesis .
qed

lemma high_bits8:
  fixes b :: u8
  shows "b AND 192 = 64 \<longleftrightarrow> unat b div 64 = 1" "b AND 254 = 18 \<longleftrightarrow> unat b div 2 = 9" "b AND 240 = 240 \<longleftrightarrow> unat b div 16 = 15"
proof -
  have m: "(192 :: u8) = NOT (mask 6)" "(254 :: u8) = NOT (mask 1)" "(240 :: u8) = NOT (mask 4)" by (simp_all add: mask_eq_exp_minus_1)
  show "b AND 192 = 64 \<longleftrightarrow> unat b div 64 = 1" using and_high_bits [of b 6 "64", folded m(1)] by simp
  show "b AND 254 = 18 \<longleftrightarrow> unat b div 2 = 9" using and_high_bits [of b 1 "18", folded m(2)] by simp
  show "b AND 240 = 240 \<longleftrightarrow> unat b div 16 = 15" using and_high_bits [of b 4 "240", folded m(3)] by simp
qed

lemma high_bits16:
  fixes a :: u16
  shows "a AND 0xfe00 = 0xfc00 \<longleftrightarrow> unat a div 2 ^ 9 = 126" "a AND 0xffc0 = 0xfe80 \<longleftrightarrow> unat a div 2 ^ 6 = 1018"
proof -
  have m: "(0xfe00 :: u16) = NOT (mask 9)" "(0xffc0 :: u16) = NOT (mask 6)" by (simp_all add: mask_eq_exp_minus_1)
  show "a AND 0xfe00 = 0xfc00 \<longleftrightarrow> unat a div 2 ^ 9 = 126" using and_high_bits [of a 9 "0xfc00", folded m(1)] by simp
  show "a AND 0xffc0 = 0xfe80 \<longleftrightarrow> unat a div 2 ^ 6 = 1018" using and_high_bits [of a 6 "0xfe80", folded m(2)] by simp
qed

lemma ip_digits_small: "x \<in> set (ip_digits ip) \<Longrightarrow> x < 2 ^ ip_width ip"
proof -
  have "unat a < 256" "unat b < 65536" for a :: u8 and b :: u16
    using unsigned_less [of a] unsigned_less [of b] by simp_all
  then show "x \<in> set (ip_digits ip) \<Longrightarrow> x < 2 ^ ip_width ip"
    by (cases ip rule: ip_digits.cases) (auto simp del: unsigned_less)
qed

lemma in_range_digits:
  assumes "length ns = length (ip_digits ip)" "0 < len" "len \<le> ip_width ip * length ns" "\<forall>x \<in> set ns. x < 2 ^ ip_width ip"
  shows "in_range ip (ns, len) \<longleftrightarrow>
    (let w = ip_width ip; k = (len - 1) div w; low = w * Suc k - len
     in take k (ip_digits ip) = take k ns \<and> ip_digits ip ! k div 2 ^ low = ns ! k div 2 ^ low)"
proof -
  define w k where "w = ip_width ip" and "k = (len - 1) div w"
  have w: "0 < w" by (cases ip) (auto simp: w_def)
  have lo: "w * k \<le> len - 1" by (simp add: k_def)
  have hi: "len \<le> w * Suc k"
  proof -
    have "len - 1 < w * Suc k" using w by (simp add: k_def dividend_less_times_div)
    then show ?thesis by simp
  qed
  have k: "k < length ns"
  proof -
    have "w * k < w * length ns" using assms(2,3) lo unfolding w_def by linarith
    then show ?thesis by simp
  qed
  have d: "\<forall>x \<in> set (ip_digits ip). x < 2 ^ w" using ip_digits_small by (auto simp: w_def)
  have lw: "len - w * k \<le> w" using hi by simp
  have r: "w * k + (len - w * k) = len" "w - (len - w * k) = w * Suc k - len" using lo hi by auto
  show ?thesis
    using range_digits [of "ip_digits ip" "length ns" ns k "len - w * k" w, unfolded r]
      assms(1,4) k d lw
    unfolding in_range_def Let_def prod.case w_def [symmetric] k_def [symmetric] by simp
qed

definition ref_global :: "IpAddr \<Rightarrow> bool" where
  "ref_global ip \<longleftrightarrow> list_ex (in_range ip) (reachable ip) \<or> \<not> list_ex (in_range ip) (special ip)"

lemma digit_blocks:
  fixes x :: nat
  shows "x div 16 = 1 \<longleftrightarrow> 16 \<le> x \<and> x \<le> 31" "x div 4096 = 0 \<longleftrightarrow> x \<le> 4095" "x div 512 = 0 \<longleftrightarrow> x < 512"
    "x div 16 = 2 \<longleftrightarrow> 32 \<le> x \<and> x \<le> 47" "x div 16 = 3 \<longleftrightarrow> 48 \<le> x \<and> x \<le> 63" "x div 16 = 15 \<and> x = 255 \<longleftrightarrow> x = 255"
  by arith+

lemma is_global_v4: "is_global_hardcoded (V4 (Ipv4Addr a b c d)) \<longleftrightarrow> ref_global (V4 (Ipv4Addr a b c d))"
  unfolding is_global_hardcoded.simps v4_is_private_def v4_is_documentation_def v4_is_broadcast_def
  unfolding high_bits8
  unfolding word_unat_eq_iff word_le_nat_alt
  by (cases "unat a = 192"; cases "unat a = 255"; cases "unat a = 198"; cases "unat a = 172")
    (simp_all add: ref_global_def in_range_digits digit_blocks(1) [simplified], linarith+)

lemma is_global_v6: "is_global_hardcoded (V6 (Ipv6Addr a b c d e f g h)) \<longleftrightarrow> ref_global (V6 (Ipv6Addr a b c d e f g h))"
  unfolding is_global_hardcoded.simps
  unfolding high_bits16
  unfolding word_unat_eq_iff word_le_nat_alt word_less_nat_alt
  by (cases "unat a = 0x2001") (simp_all add: ref_global_def in_range_digits digit_blocks [simplified], linarith)

lemma is_global_ref: "is_global_hardcoded ip \<longleftrightarrow> ref_global ip"
  using is_global_v4 is_global_v6 by (cases ip rule: ip_digits.cases) simp_all

section \<open>The cache of the compiled regex\<close>

text \<open>What a fresh compilation of the configured regex answers, and the states of the cache that are
  consistent with the compiler.\<close>

definition regex_matches :: "http_env \<Rightarrow> string \<Rightarrow> bool" where
  "regex_matches H d = (case http_request_block_regex H of None \<Rightarrow> False
     | Some r \<Rightarrow> (case regex_new H r of None \<Rightarrow> False | Some m \<Rightarrow> m d))"

definition regex_valid :: "http_env \<Rightarrow> bool" where
  "regex_valid H \<longleftrightarrow> (case http_request_block_regex H of None \<Rightarrow> True | Some r \<Rightarrow> regex_new H r \<noteq> None)"

definition cache_ok :: "http_env \<Rightarrow> http_state \<Rightarrow> bool" where
  "cache_ok H s \<longleftrightarrow> \<not> poisoned s \<and> (case compiled_regex s of None \<Rightarrow> True | Some (v, m) \<Rightarrow> regex_new H v = Some m)"

lemma cache_ok_init [simp]: "cache_ok H http_init"
  by (simp add: cache_ok_def http_init_def)

lemma regex_cached:
  assumes "cache_ok H s" "regex_valid H"
  shows "\<exists>t. should_block_address_regex H d s = (Inr (regex_matches H d), t) \<and> cache_ok H t"
proof (cases "http_request_block_regex H")
  case None
  then show ?thesis using assms by (simp add: should_block_address_regex_def regex_matches_def act_defs)
next
  case (Some r)
  then obtain m where m: "regex_new H r = Some m" using assms(2) by (auto simp: regex_valid_def)
  show ?thesis
    using assms(1) Some m
    by (auto simp: should_block_address_regex_def recompile_def regex_matches_def cache_ok_def act_defs
        split: option.splits)
qed

text \<open>After a regex that does not compile every check panics, whatever the regex is changed to.\<close>

lemma regex_poisoned:
  assumes "\<not> poisoned s" "compiled_regex s = None" "http_request_block_regex H = Some r" "regex_new H r = None"
    and "http_request_block_regex K \<noteq> None"
  shows "\<exists>e f t. should_block_address_regex H d s = (Inl (Panic e), t) \<and> should_block_address_regex K d' t = (Inl (Panic f), t)"
  using assms by (auto simp: should_block_address_regex_def recompile_def act_defs)

section \<open>Blocked hosts\<close>

definition host_blocked :: "http_env \<Rightarrow> Host \<Rightarrow> bool" where
  "host_blocked H h \<longleftrightarrow> (case host_ip h of None \<Rightarrow> False | Some ip \<Rightarrow> should_block_ip H ip) \<or> regex_matches H (host_str H h)"

lemma should_block_host_iff:
  assumes "cache_ok H s" "regex_valid H"
  shows "\<exists>r t. should_block_host H h s = (Inr r, t) \<and> cache_ok H t \<and> (r = Inr () \<longleftrightarrow> \<not> host_blocked H h)"
proof -
  obtain t where "should_block_address_regex H (host_str H h) s = (Inr (regex_matches H (host_str H h)), t)" "cache_ok H t"
    using regex_cached [OF assms] by blast
  then show ?thesis
    using assms(1)
    by (auto simp: should_block_host_def host_blocked_def act_bind_def act_ret_def split: option.split)
qed

lemma post_resolve_all_iff: "post_resolve_all H name ips = Inr () \<longleftrightarrow> list_all (\<lambda>ip. \<not> should_block_ip H ip) ips"
  by (induction ips) (auto simp: post_resolve_def try_bind_def)

lemma get_valid_host_iff:
  "get_valid_host H name = Inr h \<longleftrightarrow> host_parse H name = Some h \<and>
     (case h of Domain d \<Rightarrow> length d \<le> 253 \<and> list_all valid_label (split_on CHR ''.'' d) | _ \<Rightarrow> True)"
  by (auto simp: get_valid_host_def split: option.splits Host.splits)

lemma resolve_domain_iff:
  assumes "cache_ok H s" "regex_valid H"
  shows "\<exists>r t. resolve_domain H name s = (r, t) \<and> cache_ok H t \<and>
    (\<forall>ips. r = Inr ips \<longleftrightarrow> (\<exists>h. get_valid_host H name = Inr h \<and> \<not> host_blocked H h) \<and>
       lookup_ip H name = Inr ips \<and> list_all (\<lambda>ip. \<not> should_block_ip H ip) ips)"
proof (cases "get_valid_host H name")
  case (Inl e)
  then show ?thesis using assms(1) by (auto simp: resolve_domain_def pre_resolve_def act_defs)
next
  case (Inr h)
  obtain r t where rt: "should_block_host H h s = (Inr r, t)" "cache_ok H t" "r = Inr () \<longleftrightarrow> \<not> host_blocked H h"
    using should_block_host_iff [OF assms] by blast
  show ?thesis
  proof (cases r)
    case (Inl e)
    then show ?thesis using Inr rt by (auto simp: resolve_domain_def pre_resolve_def act_defs)
  next
    case r: (Inr u)
    show ?thesis
      using Inr rt r
      by (auto simp: resolve_domain_def pre_resolve_def act_defs post_resolve_all_iff [of H name, symmetric] split: sum.splits)
  qed
qed

lemma redirect_policy_follow:
  assumes "cache_ok H s" "regex_valid H"
  shows "\<exists>a t. redirect_policy H previous host s = (Inr a, t) \<and> cache_ok H t \<and>
    (a = Follow \<longleftrightarrow> length previous < 5 \<and> (\<exists>h. host = Some h \<and> \<not> host_blocked H h))"
proof (cases host)
  case None
  then show ?thesis using assms(1) by (auto simp: redirect_policy_def act_defs)
next
  case (Some h)
  then show ?thesis
    using assms(1) should_block_host_iff [OF assms, of h]
    by (auto simp: redirect_policy_def act_defs split: sum.splits)
qed

lemma make_http_request_iff:
  assumes "cache_ok H s" "regex_valid H"
  shows "\<exists>r t. make_http_request H url s = (r, t) \<and> cache_ok H t \<and>
    (\<forall>v. r = Inr v \<longleftrightarrow> v = url \<and> (\<exists>h. url_parse_host H url = Some (Some h) \<and> \<not> host_blocked H h))"
proof (cases "url_parse_host H url")
  case None
  then show ?thesis using assms(1) by (auto simp: make_http_request_def act_defs)
next
  case (Some host)
  show ?thesis
  proof (cases host)
    case None
    then show ?thesis using assms(1) Some by (auto simp: make_http_request_def act_defs)
  next
    case (Some h)
    then show ?thesis
      using \<open>url_parse_host H url = Some host\<close> should_block_host_iff [OF assms, of h]
      by (auto simp: make_http_request_def act_defs split: sum.splits)
  qed
qed

text \<open>A sequence of checks, each under the configuration of its moment.\<close>

fun regex_checks :: "(http_env \<times> string) list \<Rightarrow> (http_state, bool list) act" where
  "regex_checks [] = act_ret []"
| "regex_checks ((H, d) # calls) =
     act_bind (should_block_address_regex H d) (\<lambda>b. act_bind (regex_checks calls) (\<lambda>bs. act_ret (b # bs)))"

lemma regex_checks_fresh:
  "cache_ok G s \<Longrightarrow> list_all (\<lambda>(H, d). regex_valid H \<and> regex_new H = regex_new G) calls \<Longrightarrow>
     fst (regex_checks calls s) = Inr (map (\<lambda>(H, d). regex_matches H d) calls)"
proof (induction calls arbitrary: s)
  case (Cons c calls)
  obtain H d where c: "c = (H, d)" by (cases c)
  have H: "regex_valid H" "regex_new H = regex_new G" using Cons.prems(2) c by auto
  then have "cache_ok H s" using Cons.prems(1) by (auto simp: cache_ok_def split: option.splits)
  then obtain t where t: "should_block_address_regex H d s = (Inr (regex_matches H d), t)" "cache_ok H t"
    using regex_cached H(1) by blast
  then have "cache_ok G t" using H(2) by (auto simp: cache_ok_def split: option.splits)
  then have "fst (regex_checks calls t) = Inr (map (\<lambda>(H, d). regex_matches H d) calls)"
    using Cons.IH Cons.prems(2) by simp
  then show ?case using t(1) c by (cases "regex_checks calls t") (simp add: act_bind_def act_ret_def)
qed (simp add: act_ret_def)

end
