(* ===== verification/HttpProps.thy ===== *)
theory HttpProps
  imports HttpFilter
begin

text \<open>Properties of the filter on outgoing requests.\<close>

text \<open>C37. \<open>is_global_hardcoded\<close> agrees with the registry of special-purpose address ranges for every
  IPv4 and IPv6 address: an address is refused exactly when it lies in a special range and in none of
  the reachable exceptions, ranges being compared as prefixes of the address as one number.\<close>

theorem is_global_correct:
  "\<not> is_global_hardcoded ip \<longleftrightarrow> list_ex (in_range ip) (special ip) \<and> \<not> list_ex (in_range ip) (reachable ip)"
  using is_global_ref [of ip] by (auto simp: ref_global_def)

text \<open>C38. Resolution of a name returns addresses exactly when the name is a syntactically valid host
  whose text the block regex does not match and which is no blocked address itself, and none of the
  resolved addresses is in a special range; with the filter on, a name that resolves to one internal
  address among public ones is refused as a whole.\<close>

theorem resolve_domain_safe:
  assumes "cache_ok H s" "regex_valid H" "http_request_block_non_global_ips H"
  shows "fst (resolve_domain H name s) = Inr ips \<longleftrightarrow>
    (\<exists>h. get_valid_host H name = Inr h \<and> \<not> regex_matches H (host_str H h) \<and> pred_option ref_global (host_ip h))
    \<and> lookup_ip H name = Inr ips \<and> list_all ref_global ips"
proof -
  have b: "(\<lambda>ip. \<not> should_block_ip H ip) = ref_global"
    using assms(3) by (auto simp: should_block_ip_def is_global_ref)
  have h: "\<not> host_blocked H h \<longleftrightarrow> \<not> regex_matches H (host_str H h) \<and> pred_option ref_global (host_ip h)" for h
    using b [THEN fun_cong] by (auto simp: host_blocked_def split: option.splits)
  obtain r t where "resolve_domain H name s = (r, t)"
      "r = Inr ips \<longleftrightarrow> (\<exists>h. get_valid_host H name = Inr h \<and> \<not> host_blocked H h) \<and>
         lookup_ip H name = Inr ips \<and> list_all ref_global ips"
    using resolve_domain_iff [OF assms(1,2)] unfolding b by metis
  then show ?thesis by (simp add: h)
qed

definition demo_http :: http_env where
  "demo_http = \<lparr>http_request_block_non_global_ips = True, http_request_block_regex = Some ''evil'',
     regex_new = (\<lambda>r. Some (\<lambda>d. d = r)), host_parse = (\<lambda>d. Some (Domain d)), host_to_string = (\<lambda>h. ''host''),
     ip_to_string = (\<lambda>ip. ''ip''), url_parse_host = (\<lambda>u. Some (Some (Domain u))),
     lookup_ip = (\<lambda>d. Inr [V4 (Ipv4Addr 1 1 1 1), V4 (Ipv4Addr 10 0 0 1)])\<rparr>"

lemma demo_http_ok: "regex_valid demo_http" "http_request_block_non_global_ips demo_http"
  by (simp_all add: regex_valid_def demo_http_def)

theorem resolve_domain_safe_witness:
  "fst (resolve_domain demo_http ''host'' http_init) \<noteq> Inr [V4 (Ipv4Addr 1 1 1 1), V4 (Ipv4Addr 10 0 0 1)]
   \<and> fst (resolve_domain (demo_http\<lparr>lookup_ip := (\<lambda>d. Inr [V4 (Ipv4Addr 1 1 1 1)])\<rparr>) ''host'' http_init) = Inr [V4 (Ipv4Addr 1 1 1 1)]"
proof
  have "\<not> ref_global (V4 (Ipv4Addr 10 0 0 1))" by (simp add: ref_global_def in_range_digits)
  then show "fst (resolve_domain demo_http ''host'' http_init) \<noteq> Inr [V4 (Ipv4Addr 1 1 1 1), V4 (Ipv4Addr 10 0 0 1)]"
    using resolve_domain_safe [of demo_http http_init "''host''" "[V4 (Ipv4Addr 1 1 1 1), V4 (Ipv4Addr 10 0 0 1)]"]
    by (simp add: demo_http_ok)
  let ?H = "demo_http\<lparr>lookup_ip := (\<lambda>d. Inr [V4 (Ipv4Addr 1 1 1 1)])\<rparr>"
  have "ref_global (V4 (Ipv4Addr 1 1 1 1))" by (simp add: ref_global_def in_range_digits)
  moreover have "get_valid_host ?H ''host'' = Inr (Domain ''host'')" "\<not> regex_matches ?H ''host''"
    by (simp_all add: get_valid_host_def regex_matches_def demo_http_def valid_label_def is_ascii_alphanumeric_def split_on.simps split_once_def)
  ultimately show "fst (resolve_domain ?H ''host'' http_init) = Inr [V4 (Ipv4Addr 1 1 1 1)]"
    using resolve_domain_safe [of ?H http_init "''host''" "[V4 (Ipv4Addr 1 1 1 1)]"]
    by (simp add: regex_valid_def demo_http_def host_ip_def host_str_def)
qed

text \<open>The cached regex is transparent: in every sequence of checks under changing configurations
  whose patterns compile, no check fails and each answers what a fresh compilation of the pattern of
  its moment would.\<close>

theorem regex_cache_transparent:
  assumes "list_all (\<lambda>(H, d). regex_valid H \<and> regex_new H = compiler) calls"
  shows "fst (regex_checks calls http_init) = Inr (map (\<lambda>(H, d). regex_matches H d) calls)"
proof (cases calls)
  case (Cons c cs)
  then have "list_all (\<lambda>(H, d). regex_valid H \<and> regex_new H = regex_new (fst c)) calls"
    using assms by (auto simp: list_all_iff)
  then show ?thesis by (intro regex_checks_fresh [of "fst c"]) simp_all
qed (simp add: act_ret_def)

theorem regex_cache_transparent_witness:
  "fst (regex_checks [(demo_http, ''evil''), (demo_http\<lparr>http_request_block_regex := Some ''good''\<rparr>, ''evil'')] http_init)
     = Inr [True, False]"
  using regex_cache_transparent [of "regex_new demo_http" "[(demo_http, ''evil''), (demo_http\<lparr>http_request_block_regex := Some ''good''\<rparr>, ''evil'')]"]
  by (simp add: regex_valid_def regex_matches_def demo_http_def)

end
