(* ===== verification/SendLaws.thy ===== *)
theory SendLaws
  imports Sends
begin

text \<open>
  Laws of sends: the table as a row store, when an access is granted, the use limit over a sequence of
  requests, the accounting of file sizes.
\<close>

section \<open>The table\<close>

lemma Send_revises: "revises s (Send_update_users_revision E sd s)"
  by (simp add: Send_update_users_revision_def revises_revision split: option.split)

lemmas send_revision_frame [simp] = revises_frame [OF Send_revises]

definition send_stamp :: "env \<Rightarrow> server \<Rightarrow> Send \<Rightarrow> Send" where
  "send_stamp E s sd = sd\<lparr>sd_revision_date := clock E (tick (Send_update_users_revision E sd s))\<rparr>"

lemma send_stamp_simps [simp]:
  "sd_uuid (send_stamp E s sd) = sd_uuid sd" "sd_max_access_count (send_stamp E s sd) = sd_max_access_count sd"
  "sd_access_count (send_stamp E s sd) = sd_access_count sd" "sd_atype (send_stamp E s sd) = sd_atype sd"
  "sd_data (send_stamp E s sd) = sd_data sd" "sd_user_uuid (send_stamp E s sd) = sd_user_uuid sd"
  by (simp_all add: send_stamp_def)

lemma Send_save_row: "fst (Send_save E sd s) = send_stamp E s sd"
  by (simp add: Send_save_def send_stamp_def Let_def split_beta)

lemma delete_send_files_frame [simp]:
  "sends (delete_send_files E u s) = sends s" "users (delete_send_files E u s) = users s"
  by (simp_all add: delete_send_files_def split: option.split)

interpretation send: row_store sends sd_uuid send_stamp "\<lambda>E sd s. snd (Send_save E sd s)" Send_delete
  by unfold_locales (simp_all add: Send_save_def Send_delete_def send_stamp_def Let_def split_beta)

lemma Send_find_eq: "Send_find_by_uuid u s = send.find u s"
  by (simp add: Send_find_by_uuid_def send.find_def)

lemma find_cong_sends: "sends t = sends s \<Longrightarrow> send.find u t = send.find u s"
  by (simp add: send.find_def)

text \<open>Storing and reporting a send.\<close>

definition notified :: "env \<Rightarrow> Send \<Rightarrow> server \<Rightarrow> server" where
  "notified E sd s = Send_update_users_revision E (send_stamp E s sd) (snd (Send_save E sd s))"

lemma save_and_notify_eq: "save_and_notify E sd s = (Inr (send_stamp E s sd), notified E sd s)"
  by (simp add: save_and_notify_def act_defs Send_save_row notified_def Let_def split_beta)

lemma notified_find:
  assumes "keyed sd_uuid (sends s)"
  shows "send.find u (notified E sd s) = (if u = sd_uuid sd then Some (send_stamp E s sd) else send.find u s)"
proof -
  have "send.find u (notified E sd s) = send.find u (snd (Send_save E sd s))"
    by (rule find_cong_sends) (simp add: notified_def)
  then show ?thesis by (simp add: send.find_put [OF assms])
qed

lemma notified_keyed: "keyed sd_uuid (sends s) \<Longrightarrow> keyed sd_uuid (sends (notified E sd s))"
  using send.keyed_put [of s E sd] by (simp add: notified_def)

section \<open>Access\<close>

text \<open>When a send is open for a request that starts at the given reading of the clock.\<close>

definition send_open :: "env \<Rightarrow> string option \<Rightarrow> Send \<Rightarrow> nat \<Rightarrow> bool" where
  "send_open E password sd n \<longleftrightarrow>
     (case sd_max_access_count sd of None \<Rightarrow> True | Some m \<Rightarrow> sd_access_count sd < m)
     \<and> (case sd_expiration_date sd of
          None \<Rightarrow> clock E n < sd_deletion_date sd
        | Some e \<Rightarrow> clock E n < e \<and> clock E (Suc n) < sd_deletion_date sd)
     \<and> \<not> sd_disabled sd
     \<and> (sd_password_hash sd = None \<or> (\<exists>p. password = Some p \<and> Send_check_password E p sd = Inr True))"

lemma later_tick [simp]: "(\<exists>k. s = s\<lparr>tick := tick s + k\<rparr>)" "(\<exists>k. s\<lparr>tick := Suc (tick s)\<rparr> = s\<lparr>tick := tick s + k\<rparr>)"
    "(\<exists>k. s\<lparr>tick := Suc (Suc (tick s))\<rparr> = s\<lparr>tick := tick s + k\<rparr>)"
  by (rule exI [of _ 0] exI [of _ 1] exI [of _ 2], simp)+

lemma wp_check_send_access:
  "wp (check_send_access E msg password sd)
     (\<lambda>_ t. send_open E password sd (tick s) \<and> (\<exists>k. t = s\<lparr>tick := tick s + k\<rparr>))
     (\<lambda>_ t. \<not> send_open E password sd (tick s) \<and> (\<exists>k. t = s\<lparr>tick := tick s + k\<rparr>)) s"
  unfolding check_send_access_def send_open_def
  by (auto simp: wp_simps opt_is_def not_less not_le split: option.splits sum.splits)

lemma check_send_access_eq:
  "\<exists>r k. check_send_access E msg password sd s = (r, s\<lparr>tick := tick s + k\<rparr>) \<and> (r = Inr () \<longleftrightarrow> send_open E password sd (tick s))"
  using wp_check_send_access [of E msg password sd s] unfolding wp_def by (auto split: prod.splits sum.splits)

text \<open>The row a successful access stores.\<close>

definition accessed :: "Send \<Rightarrow> Send" where
  "accessed sd = (if sd_atype sd = SendType_i32 SendText then count_access sd else sd)"

lemma count_access_simps [simp]:
  "sd_uuid (count_access sd) = sd_uuid sd" "sd_max_access_count (count_access sd) = sd_max_access_count sd"
  "sd_atype (count_access sd) = sd_atype sd"
  by (simp_all add: count_access_def)

lemma accessed_simps [simp]:
  "sd_uuid (accessed sd) = sd_uuid sd" "sd_max_access_count (accessed sd) = sd_max_access_count sd"
  "sd_atype (accessed sd) = sd_atype sd"
  by (simp_all add: accessed_def)

lemma post_access_eq:
  "\<exists>k. let s' = s\<lparr>tick := tick s + k\<rparr> in
     case find_by_access_id E access_id s of
       None \<Rightarrow> post_access E access_id password s = (Inl (Api SEND_INACCESSIBLE_MSG), s)
     | Some sd \<Rightarrow>
         if send_open E password sd (tick s)
         then post_access E access_id password s
           = (Inr (send_stamp E s' (accessed sd), creator_identifier (send_stamp E s' (accessed sd)) (notified E (accessed sd) s')),
              notified E (accessed sd) s')
         else \<exists>e. post_access E access_id password s = (Inl e, s')"
proof (cases "find_by_access_id E access_id s")
  case None
  then show ?thesis by (simp add: post_access_def act_defs)
next
  case (Some sd)
  obtain r k where r: "check_send_access E ''Invalid password'' password sd s = (r, s\<lparr>tick := tick s + k\<rparr>)"
      "r = Inr () \<longleftrightarrow> send_open E password sd (tick s)"
    using check_send_access_eq by blast
  show ?thesis
  proof (cases r)
    case (Inl e)
    then show ?thesis using Some r
      by (intro exI [of _ k]) (auto simp: post_access_def act_seq_def act_bind_def act_get_def some_or_def act_ret_def)
  next
    case (Inr u)
    then show ?thesis using Some r
      by (intro exI [of _ k]) (auto simp: post_access_def act_seq_def act_bind_def act_get_def some_or_def act_ret_def
          save_and_notify_eq accessed_def Let_def)
  qed
qed

lemma download_url_state: "\<exists>r k. download_url E IO host i f s = (r, s\<lparr>tick := tick s + k\<rparr>)"
  by (cases "is_fs_operator IO"; cases "presign_read IO (i @ ''/'' @ f)")
     (auto simp: download_url_def act_defs generate_send_claims_def utc_now_def Let_def intro: exI [of _ 0] exI [of _ 1]
      split: sum.splits)

lemma post_access_file_eq:
  "\<exists>r k j. let s' = s\<lparr>tick := tick s + k\<rparr> in
     case Send_find_by_uuid send_id s of
       None \<Rightarrow> post_access_file E IO send_id file_id password host s = (Inl (Api SEND_INACCESSIBLE_MSG), s)
     | Some sd \<Rightarrow>
         if send_open E password sd (tick s)
         then post_access_file E IO send_id file_id password host s
           = (r, (notified E (count_access sd) s')\<lparr>tick := tick (notified E (count_access sd) s') + j\<rparr>)
         else \<exists>e. post_access_file E IO send_id file_id password host s = (Inl e, s')"
proof (cases "Send_find_by_uuid send_id s")
  case None
  then show ?thesis by (simp add: post_access_file_def act_defs)
next
  case (Some sd)
  obtain r k where r: "check_send_access E ''Invalid password.'' password sd s = (r, s\<lparr>tick := tick s + k\<rparr>)"
      "r = Inr () \<longleftrightarrow> send_open E password sd (tick s)"
    using check_send_access_eq by blast
  let ?n = "notified E (count_access sd) (s\<lparr>tick := tick s + k\<rparr>)"
  obtain q j where q: "download_url E IO host send_id file_id ?n = (q, ?n\<lparr>tick := tick ?n + j\<rparr>)"
    using download_url_state by blast
  show ?thesis
  proof (cases r)
    case (Inl e)
    then show ?thesis using Some r
      by (intro exI [of _ q] exI [of _ k]) (auto simp: post_access_file_def act_seq_def act_bind_def act_get_def some_or_def act_ret_def)
  next
    case (Inr u)
    then show ?thesis using Some r q
      by (intro exI [of _ q] exI [of _ k] exI [of _ j])
        (auto simp: post_access_file_def act_seq_def act_bind_def act_get_def some_or_def act_ret_def save_and_notify_eq Let_def)
  qed
qed

section \<open>The use limit\<close>

text \<open>A sequence of requests from the outside, each with its outcome. A served request counts for a send
  when it delivers the text of a text send or the link to a file.\<close>

datatype send_request =
    ReadText string "string option"
  | ReadFile send_io SendId SendFileId "string option" string

fun send_step :: "env \<Rightarrow> send_request \<Rightarrow> server \<Rightarrow> bool \<times> server" where
  "send_step E (ReadText access_id password) s =
     (let (r, t) = post_access E access_id password s in (\<not> isl r, t))"
| "send_step E (ReadFile IO send_id file_id password host) s =
     (let (r, t) = post_access_file E IO send_id file_id password host s in (\<not> isl r, t))"

fun uses_send :: "env \<Rightarrow> SendId \<Rightarrow> send_request \<Rightarrow> server \<Rightarrow> bool" where
  "uses_send E u (ReadText access_id password) s \<longleftrightarrow> access_id_decode E access_id = Some u
     \<and> opt_is (Send_find_by_uuid u s) (\<lambda>sd. sd_atype sd = SendType_i32 SendText)"
| "uses_send E u (ReadFile IO send_id file_id password host) s \<longleftrightarrow> send_id = u"

fun served :: "env \<Rightarrow> SendId \<Rightarrow> send_request list \<Rightarrow> server \<Rightarrow> nat" where
  "served E u [] s = 0"
| "served E u (r # rs) s = (let (ok, t) = send_step E r s in (if ok \<and> uses_send E u r s then 1 else 0) + served E u rs t)"

text \<open>How one step moves the row of a limited send.\<close>

definition limit_step :: "Send \<Rightarrow> bool \<Rightarrow> Send \<Rightarrow> bool" where
  "limit_step a counted b \<longleftrightarrow> sd_max_access_count b = sd_max_access_count a
     \<and> (sd_access_count b = sd_access_count a \<and> \<not> counted
        \<or> sd_access_count b = sd_access_count a + 1 \<and> opt_is (sd_max_access_count a) (\<lambda>m. sd_access_count a < m))"

lemma i32_wrap_id: "fits 32 n \<Longrightarrow> i32_wrap n = n"
  by (simp add: i32_wrap_def fits_def)

lemma count_access_below:
  assumes "sd_access_count sd < m" "fits 32 m" "fits 32 (sd_access_count sd)"
  shows "sd_access_count (count_access sd) = sd_access_count sd + 1" "fits 32 (sd_access_count sd + 1)"
  using assms by (auto simp: count_access_def i32_wrap_id fits_def)

lemma stored_find:
  assumes "keyed sd_uuid (sends s)" "send.find v s = Some sd" "sd_uuid sd' = sd_uuid sd"
  shows "keyed sd_uuid (sends ((notified E sd' (s\<lparr>tick := n\<rparr>))\<lparr>tick := j\<rparr>))"
    "send.find u ((notified E sd' (s\<lparr>tick := n\<rparr>))\<lparr>tick := j\<rparr>) = (if u = v then Some (send_stamp E (s\<lparr>tick := n\<rparr>) sd') else send.find u s)"
proof -
  let ?s = "s\<lparr>tick := n\<rparr>"
  have s: "keyed sd_uuid (sends ?s)" "sd_uuid sd = v" using assms send.find_row [OF assms(1)] by auto
  show "keyed sd_uuid (sends ((notified E sd' ?s)\<lparr>tick := j\<rparr>))" using notified_keyed [OF s(1)] by simp
  have "send.find u ((notified E sd' ?s)\<lparr>tick := j\<rparr>) = send.find u (notified E sd' ?s)" "send.find u ?s = send.find u s"
    by (rule find_cong_sends; simp)+
  then show "send.find u ((notified E sd' ?s)\<lparr>tick := j\<rparr>) = (if u = v then Some (send_stamp E ?s sd') else send.find u s)"
    using notified_find [OF s(1)] s(2) assms(3) by simp
qed

text \<open>A step only reads the clock, or it stores the row of an open send.\<close>

lemma send_step_cases:
  obtains (closed) k where "send_step E r s = (False, s\<lparr>tick := tick s + k\<rparr>)"
  | (stored) ok v x y n j where "send_step E r s = (ok, (notified E y (s\<lparr>tick := n\<rparr>))\<lparr>tick := j\<rparr>)"
      "send.find v s = Some x" "\<And>m. sd_max_access_count x = Some m \<Longrightarrow> sd_access_count x < m"
      "y = count_access x \<or> y = x \<and> \<not> uses_send E v r s" "\<And>u. uses_send E u r s \<Longrightarrow> u = v"
proof (cases r)
  case (ReadText access_id password)
  obtain k where k: "let s' = s\<lparr>tick := tick s + k\<rparr> in
     case find_by_access_id E access_id s of
       None \<Rightarrow> post_access E access_id password s = (Inl (Api SEND_INACCESSIBLE_MSG), s)
     | Some sd \<Rightarrow>
         if send_open E password sd (tick s)
         then post_access E access_id password s
           = (Inr (send_stamp E s' (accessed sd), creator_identifier (send_stamp E s' (accessed sd)) (notified E (accessed sd) s')),
              notified E (accessed sd) s')
         else \<exists>e. post_access E access_id password s = (Inl e, s')"
    using post_access_eq by blast
  show ?thesis
  proof (cases "find_by_access_id E access_id s")
    case None
    then show ?thesis using k closed [of 0] ReadText by simp
  next
    case (Some x)
    then obtain v where v: "access_id_decode E access_id = Some v" "send.find v s = Some x"
      by (auto simp: find_by_access_id_def Send_find_eq split: option.splits)
    show ?thesis
    proof (cases "send_open E password x (tick s)")
      case True
      let ?t = "notified E (accessed x) (s\<lparr>tick := tick s + k\<rparr>)"
      show ?thesis
        by (rule stored [where ok = True and y = "accessed x" and n = "tick s + k" and j = "tick ?t" and v = v and x = x])
          (use True k Some v ReadText in \<open>auto simp: send_open_def accessed_def Let_def Send_find_eq\<close>)
    next
      case False
      then show ?thesis using k Some closed ReadText by auto
    qed
  qed
next
  case (ReadFile IO v file_id password host)
  obtain q k j where k: "let s' = s\<lparr>tick := tick s + k\<rparr> in
     case Send_find_by_uuid v s of
       None \<Rightarrow> post_access_file E IO v file_id password host s = (Inl (Api SEND_INACCESSIBLE_MSG), s)
     | Some sd \<Rightarrow>
         if send_open E password sd (tick s)
         then post_access_file E IO v file_id password host s
           = (q, (notified E (count_access sd) s')\<lparr>tick := tick (notified E (count_access sd) s') + j\<rparr>)
         else \<exists>e. post_access_file E IO v file_id password host s = (Inl e, s')"
    using post_access_file_eq by blast
  show ?thesis
  proof (cases "Send_find_by_uuid v s")
    case None
    then show ?thesis using k closed [of 0] ReadFile by simp
  next
    case (Some x)
    show ?thesis
    proof (cases "send_open E password x (tick s)")
      case True
      let ?t = "notified E (count_access x) (s\<lparr>tick := tick s + k\<rparr>)"
      show ?thesis
        by (rule stored [where ok = "\<not> isl q" and y = "count_access x" and n = "tick s + k" and j = "tick ?t + j" and v = v and x = x])
          (use True k Some ReadFile in \<open>auto simp: send_open_def Let_def Send_find_eq\<close>)
    next
      case False
      then show ?thesis using k Some closed ReadFile by auto
    qed
  qed
qed

lemma send_step_row:
  assumes k: "keyed sd_uuid (sends s)" and sd: "send.find u s = Some sd"
    and m: "sd_max_access_count sd = Some m" "fits 32 m" "fits 32 (sd_access_count sd)"
  shows "\<exists>sd'. keyed sd_uuid (sends (snd (send_step E r s))) \<and> send.find u (snd (send_step E r s)) = Some sd'
    \<and> limit_step sd (fst (send_step E r s) \<and> uses_send E u r s) sd'"
proof (cases rule: send_step_cases [where E = E and r = r and s = s])
  case (closed n)
  have "send.find u (s\<lparr>tick := tick s + n\<rparr>) = send.find u s" by (rule find_cong_sends) simp
  then show ?thesis using closed k sd by (auto simp: limit_step_def)
next
  case (stored ok v x y n j)
  have y: "sd_uuid y = sd_uuid x" using stored(4) by auto
  note find = stored_find [OF k stored(2) y, where E = E and n = n and j = j]
  show ?thesis
  proof (cases "u = v")
    case True
    then have "x = sd" using stored(2) sd by simp
    then have "limit_step sd (ok \<and> uses_send E u r s) (send_stamp E (s\<lparr>tick := n\<rparr>) y)"
      using stored(3,4) m count_access_below [OF _ m(2,3)] True by (auto simp: limit_step_def)
    then show ?thesis using find stored(1) True by simp
  next
    case False
    then have "\<not> uses_send E u r s" using stored(5) by blast
    then show ?thesis using find stored(1) False sd by (auto simp: limit_step_def)
  qed
qed

lemma served_bound:
  assumes "keyed sd_uuid (sends s)" "send.find u s = Some sd"
    and "sd_max_access_count sd = Some m" "fits 32 m" "fits 32 (sd_access_count sd)"
  shows "served E u rs s \<le> nat (m - sd_access_count sd)"
  using assms
proof (induction rs arbitrary: s sd)
  case (Cons r rs)
  obtain ok t where step: "send_step E r s = (ok, t)" by (cases "send_step E r s")
  obtain sd' where sd': "keyed sd_uuid (sends t)" "send.find u t = Some sd'" "limit_step sd (ok \<and> uses_send E u r s) sd'"
    using send_step_row [OF Cons.prems, of E r] step by auto
  then have "sd_max_access_count sd' = Some m" "fits 32 (sd_access_count sd')"
    using Cons.prems by (auto simp: limit_step_def fits_def)
  then have "served E u rs t \<le> nat (m - sd_access_count sd')" using Cons.IH sd' Cons.prems(4) by blast
  then show ?case using sd'(3) Cons.prems(3) step by (auto simp: limit_step_def)
qed simp

section \<open>Sizes\<close>

definition json_sorted :: "(string \<times> json) list \<Rightarrow> bool" where
  "json_sorted kvs \<longleftrightarrow> sorted_wrt str_less (map fst kvs)"

lemma str_less_irrefl [simp]: "\<not> str_less a a"
  by (simp add: str_less_def lexordp_irreflexive')

lemma str_less_trans: "str_less a b \<Longrightarrow> str_less b c \<Longrightarrow> str_less a c"
  unfolding str_less_def by (rule lexordp_trans)

lemma str_less_total: "a \<noteq> b \<Longrightarrow> \<not> str_less a b \<Longrightarrow> str_less b a"
proof -
  assume "a \<noteq> b" "\<not> str_less a b"
  moreover have "map (of_char :: char \<Rightarrow> nat) a = map of_char b \<longleftrightarrow> a = b"
    by (rule inj_map_eq_map) (simp add: inj_on_def)
  ultimately show "str_less b a" unfolding str_less_def using lexordp_linear by metis
qed

lemma json_insert_keys: "fst ` set (json_insert k v kvs) = insert k (fst ` set kvs)"
  by (induction k v kvs rule: json_insert.induct) auto

lemma json_insert_sorted: "json_sorted kvs \<Longrightarrow> json_sorted (json_insert k v kvs)"
proof (induction k v kvs rule: json_insert.induct)
  case (2 k v k' v' kvs)
  have tail: "json_sorted kvs" "\<forall>x \<in> fst ` set kvs. str_less k' x" using 2(2) by (auto simp: json_sorted_def)
  consider "k = k'" | "k \<noteq> k'" "str_less k k'" | "k \<noteq> k'" "\<not> str_less k k'" by blast
  then show ?case
  proof cases
    case 2
    then show ?thesis using tail by (auto simp: json_sorted_def intro: str_less_trans)
  next
    case 3
    then have "json_sorted (json_insert k v kvs)" "str_less k' k" using "2.IH" tail str_less_total by blast+
    then show ?thesis using 3 tail json_insert_keys [of k v kvs] by (auto simp: json_sorted_def)
  qed (use tail in \<open>auto simp: json_sorted_def\<close>)
qed (simp add: json_sorted_def)

lemma json_insert_other: "\<not> P k \<Longrightarrow> filter (\<lambda>(k, v). P k) (json_insert k v kvs) = filter (\<lambda>(k, v). P k) kvs"
  by (induction k v kvs rule: json_insert.induct) auto

lemma json_sorted_absent: "json_sorted ((k, v) # kvs) \<Longrightarrow> str_less j k \<or> j = k \<Longrightarrow> filter (\<lambda>(i, v). i = j) kvs = []"
  by (auto simp: json_sorted_def filter_empty_conv dest: str_less_trans)

lemma json_insert_same: "json_sorted kvs \<Longrightarrow> filter (\<lambda>(i, v). i = k) (json_insert k v kvs) = [(k, v)]"
proof (induction k v kvs rule: json_insert.induct)
  case (2 k v k' v' kvs)
  then show ?case using json_sorted_absent [of k' v' kvs k] by (auto simp: json_sorted_def)
qed simp

text \<open>The entry \<open>size\<close> that the server writes is the one that counts, unless the client supplied its
  alias \<open>Size\<close> too: then the data no longer reads as \<open>FileData\<close>.\<close>

definition described :: "env \<Rightarrow> SendFileId \<Rightarrow> int \<Rightarrow> (string \<times> json) list \<Rightarrow> (string \<times> json) list" where
  "described E file_id n kvs = json_insert ''sizeName'' (JStr (size_name E n)) (json_insert ''size'' (JInt n)
     (json_insert ''id'' (JStr file_id) kvs))"

definition json_roundtrip :: "env \<Rightarrow> json \<Rightarrow> bool" where
  "json_roundtrip E j \<longleftrightarrow> json_parse E (json_print E j) = Some j"

lemma struct_field_obj:
  assumes "filter (\<lambda>(k, v). k \<in> set names) kvs = xs"
  shows "struct_field names (JObj kvs) = (case xs of [(k, v)] \<Rightarrow> Some v | _ \<Rightarrow> None)"
  unfolding struct_field_def json.case assms by (rule refl)

lemma described_size:
  assumes "json_sorted kvs" "''Size'' \<notin> fst ` set kvs"
  shows "struct_field [''size'', ''Size''] (JObj (described E file_id n kvs)) = Some (JInt n)"
proof -
  let ?k = "json_insert ''id'' (JStr file_id) kvs"
  have "''Size'' \<notin> fst ` set (described E file_id n kvs)" using assms(2) by (simp add: described_def json_insert_keys)
  then have "filter (\<lambda>(k, v). k \<in> set [''size'', ''Size'']) (described E file_id n kvs)
      = filter (\<lambda>(k, v). k = ''size'') (described E file_id n kvs)"
    by (intro filter_cong) (auto intro: rev_image_eqI)
  also have "\<dots> = [(''size'', JInt n)]"
    using json_insert_same [OF json_insert_sorted [OF assms(1)], of "''size''" "JInt n" "''id''" "JStr file_id"]
    by (simp add: described_def json_insert_other)
  finally show ?thesis by (simp add: struct_field_obj)
qed

lemma described_alias:
  assumes "json_sorted kvs" "''Size'' \<in> fst ` set kvs"
  shows "struct_field [''size'', ''Size''] (JObj (described E file_id n kvs)) = None"
proof -
  let ?f = "filter (\<lambda>(k, v). k \<in> set [''size'', ''Size'']) (described E file_id n kvs)"
  have keys: "{''size'', ''Size''} \<subseteq> fst ` set (described E file_id n kvs)"
    using assms(2) by (simp add: described_def json_insert_keys)
  have "fst ` set ?f = fst ` set (described E file_id n kvs) \<inter> {''size'', ''Size''}" by force
  with keys have f: "fst ` set ?f = {''size'', ''Size''}" by blast
  show ?thesis
  proof (cases ?f)
    case (Cons x xs)
    moreover have "xs \<noteq> []"
    proof
      assume "xs = []"
      with Cons have "set ?f = {x}" by (simp only: list.set empty_iff)
      then have "{fst x} = {''size'', ''Size''}" using f by (simp only: image_insert image_empty)
      then have "''size'' = fst x" "''Size'' = fst x" by (metis insertI1 insertI2 singletonD)+
      then have "''size'' = ''Size''" by (rule trans [OF _ sym])
      then show False by simp
    qed
    ultimately obtain y ys where "?f = x # y # ys" by (cases xs) simp_all
    then show ?thesis by (simp only: struct_field_obj) simp
  qed (use f in simp)
qed

lemma FileData_described:
  assumes "json_sorted kvs" "json_roundtrip E (JObj (described E file_id n kvs))" "fits 64 n"
  shows "FileData_size E (json_print E (JObj (described E file_id n kvs))) =
    (if ''Size'' \<in> fst ` set kvs then None else Some n)"
  using assms described_size [OF assms(1), of E file_id n] described_alias [OF assms(1), of E file_id n]
  by (simp add: FileData_size_def json_roundtrip_def NumberOrString_from_json_def)

text \<open>Sizes add up along the table.\<close>

lemma add_sizes_snoc:
  "add_sizes E (xs @ [x]) n = (case add_sizes E xs n of None \<Rightarrow> None
     | Some k \<Rightarrow> if sd_atype x = SendType_i32 SendFile then
         (case FileData_size E (sd_data x) of None \<Rightarrow> Some k | Some j \<Rightarrow> checked (k + j)) else Some k)"
  by (induction xs arbitrary: n) (simp_all split: option.splits)

lemma Send_size_insert:
  assumes "sd_uuid sd \<notin> sd_uuid ` set (sends s)" "sd_user_uuid sd = Some user" "sends t = tbl_upsert sd_uuid sd (sends s)"
  shows "Send_size_by_user E user t = (case Send_size_by_user E user s of None \<Rightarrow> None
     | Some k \<Rightarrow> if sd_atype sd = SendType_i32 SendFile then
         (case FileData_size E (sd_data sd) of None \<Rightarrow> Some k | Some j \<Rightarrow> checked (k + j)) else Some k)"
proof -
  have "\<not> (\<exists>x \<in> set (sends s). sd_uuid x = sd_uuid sd)"
  proof
    assume "\<exists>x \<in> set (sends s). sd_uuid x = sd_uuid sd"
    then have "sd_uuid sd \<in> sd_uuid ` set (sends s)" by (metis imageI)
    with assms(1) show False ..
  qed
  then have "sends t = sends s @ [sd]" unfolding assms(3) tbl_upsert_def by simp
  then show ?thesis using assms(2) by (simp add: Send_size_by_user_def Send_find_by_user_def tbl_select_def add_sizes_snoc)
qed

section \<open>Creating\<close>

text \<open>Up to the write, a handler that creates a send only draws from the environment.\<close>

definition drawn :: "server \<Rightarrow> server \<Rightarrow> bool" where
  "drawn s t \<longleftrightarrow> (\<exists>k. t = s\<lparr>tick := tick s + k\<rparr>)"

lemma drawn_refl [simp]: "drawn s s"
  by (simp add: drawn_def)

lemma drawn_later: "drawn s t \<Longrightarrow> tick t \<le> n \<Longrightarrow> drawn s (t\<lparr>tick := n\<rparr>)"
  by (auto simp: drawn_def intro!: exI [of _ "n - tick s"])

lemma drawn_frame:
  assumes "drawn s t"
  shows "sends t = sends s" "users t = users s" "send_files t = send_files s" "org_policies t = org_policies s"
    "users_organizations t = users_organizations s"
  using assms by (auto simp: drawn_def)

definition created :: "env \<Rightarrow> SendData \<Rightarrow> UserId \<Rightarrow> Send \<Rightarrow> bool" where
  "created E data user sd \<longleftrightarrow> sd_user_uuid sd = Some user \<and> sd_atype sd = sn_type data \<and> sd_access_count sd = 0
     \<and> sd_uuid sd \<in> range (uuid_at E)
     \<and> (\<exists>d. (if sn_type data = SendType_i32 SendText then sn_text data else sn_file data) = Some d
        \<and> sd_data sd = json_print E (json_remove ''response'' d))"

lemma wp_check_deletion_date:
  "drawn s t \<Longrightarrow> wp (check_deletion_date E data) (\<lambda>_ t. drawn s t) (\<lambda>_ t. drawn s t) t"
  unfolding check_deletion_date_def naive_add_def by (simp add: wp_simps drawn_later)

lemma wp_set_password:
  "drawn s t \<Longrightarrow> wp (Send_set_password E pw sd) (\<lambda>sd' t. drawn s t \<and> sd_user_uuid sd' = sd_user_uuid sd \<and> sd_atype sd' = sd_atype sd
     \<and> sd_access_count sd' = sd_access_count sd \<and> sd_uuid sd' = sd_uuid sd \<and> sd_data sd' = sd_data sd) (\<lambda>_ t. drawn s t) t"
  unfolding Send_set_password_def get_random_bytes_def
  by (simp add: wp_simps drawn_later split: option.split sum.split)

lemma wp_read_max: "drawn s t \<Longrightarrow> wp (read_max_access_count data) (\<lambda>_ t. drawn s t) (\<lambda>_ t. drawn s t) t"
  unfolding read_max_access_count_def by (simp add: wp_simps split: option.split sum.split)

lemma wp_Send_new:
  "drawn s t \<Longrightarrow> wp (act_run (Send_new E atype name data key date)) (\<lambda>sd t. drawn s t \<and> sd_access_count sd = 0 \<and> sd_uuid sd \<in> range (uuid_at E) \<and> sd_data sd = data)
     (\<lambda>_ t. drawn s t) t"
  unfolding Send_new_def by (simp add: wp_simps Let_def split_beta drawn_later)

lemma wp_create_send:
  assumes "drawn s t"
  shows "wp (create_send E data user) (\<lambda>sd t. drawn s t \<and> created E data user sd) (\<lambda>_ t. drawn s t) t"
proof -
  let ?v = "if sn_type data = SendType_i32 SendText then sn_text data else sn_file data"
  have v: "wp (if sn_type data = SendType_i32 SendText then act_ret (sn_text data)
      else if sn_type data = SendType_i32 SendFile then act_ret (sn_file data)
      else act_err (Api ''Invalid Send type'')) (\<lambda>v t. drawn s t \<and> v = ?v) (\<lambda>_ t. drawn s t) t"
    using assms by (simp add: wp_simps)
  show ?thesis
    unfolding create_send_def Let_def
    apply (rule wp_after [OF v])
     apply (rule wp_after [where Q' = "\<lambda>d t. drawn s t \<and> ?v = Some d" and R' = "\<lambda>_ t. drawn s t"])
       apply (simp add: wp_simps split: option.split)
      apply (rule wp_then [OF wp_check_deletion_date [where s = s]], simp)
       apply (rule wp_after [OF wp_Send_new [where s = s]], assumption)
        apply (rule wp_after [OF wp_read_max [where s = s]], simp)
         apply (rule wp_mono [OF wp_set_password [where s = s]], assumption)
          apply (simp add: created_def)
    apply simp_all
    done
qed

text \<open>The policies and the quota are only read.\<close>

lemma wp_policies:
  "wp (enforce_disable_send_policy E hu) (\<lambda>_ t. t = s \<and> sends_allowed (conf E) \<and> \<not> is_applicable_to_user (u_uuid hu) DisableSend None s) (\<lambda>_ t. t = s) s"
  "wp (enforce_disable_hide_email_policy E data hu) (\<lambda>_ t. t = s) (\<lambda>_ t. t = s) s"
  by (simp_all add: enforce_disable_send_policy_def enforce_disable_hide_email_policy_def wp_simps)

definition within_limit :: "env \<Rightarrow> UserId \<Rightarrow> server \<Rightarrow> int \<Rightarrow> bool" where
  "within_limit E user s limit \<longleftrightarrow> limit \<le> SIZE_525_MB \<and> (case user_send_limit (conf E) of None \<Rightarrow> True
     | Some kb \<Rightarrow> \<exists>used. Send_size_by_user E user s = Some used \<and> limit \<le> kb * 1024 - used \<and> fits 64 (kb * 1024))"

lemma wp_send_size_limit:
  "wp (send_size_limit E hu) (\<lambda>limit t. t = s \<and> within_limit E (u_uuid hu) s limit) (\<lambda>_ t. t = s) s"
  by (auto simp: send_size_limit_def within_limit_def wp_simps checked_def SIZE_525_MB_def split: option.splits if_splits)

definition stored_file :: "env \<Rightarrow> SendData \<Rightarrow> UserId \<Rightarrow> server \<Rightarrow> int \<Rightarrow> Send \<times> SendFileId \<Rightarrow> server \<Rightarrow> bool" where
  "stored_file E data user s len r t \<longleftrightarrow> (\<exists>sd0 sd1 s1. drawn s s1 \<and> created E data user sd0
     \<and> describe_file E (snd r) len sd0 = Inr sd1 \<and> fst r = send_stamp E s1 sd1 \<and> t = snd (Send_save E sd1 s1))"

lemma wp_post_send_file_v2:
  "wp (post_send_file_v2 E data hu)
     (\<lambda>r t. sn_type data = SendType_i32 SendFile \<and> (\<exists>m len limit. sn_file_length data = Some m \<and> NumberOrString_into_i64 m = Inr len
        \<and> 0 \<le> len \<and> len \<le> limit \<and> within_limit E (u_uuid hu) s limit \<and> stored_file E data (u_uuid hu) s len r t))
     (\<lambda>_ t. drawn s t) s"
proof -
  have save: "wp (act_bind (act_sum (describe_file E file_id len sd)) (\<lambda>sd. act_bind (act_run (Send_save E sd)) (\<lambda>sd. act_ret (sd, file_id))))
      (\<lambda>r t. stored_file E data (u_uuid hu) s len r t) (\<lambda>_ t. drawn s t) t"
    if "drawn s t" "created E data (u_uuid hu) sd" for t sd file_id len
    using that by (auto simp: wp_simps Send_save_row stored_file_def split: sum.split)
  have tail: "wp (act_bind (create_send E data (u_uuid hu)) (\<lambda>sd. act_bind (act_run (generate_send_file_id E)) (\<lambda>file_id.
        act_bind (act_sum (describe_file E file_id len sd)) (\<lambda>sd. act_bind (act_run (Send_save E sd)) (\<lambda>sd. act_ret (sd, file_id))))))
      (\<lambda>r t. stored_file E data (u_uuid hu) s len r t) (\<lambda>_ t. drawn s t) t" if "t = s" for t len
    apply (rule wp_after [OF wp_create_send [where s = s]], simp add: that)
     apply (simp add: wp_bind [where m = "act_run f" for f] wp_run generate_send_file_id_def)
     apply (rule save)
      apply (simp_all add: drawn_later)
    done
  show ?thesis
    unfolding post_send_file_v2_def
    apply (rule wp_then [OF wp_policies(1)])
     apply (rule wp_guard, simp, rule wp_then [OF wp_policies(2)])
      apply (rule wp_need, simp, rule wp_try, simp, rule wp_guard, simp)
      apply (rule wp_after [OF wp_send_size_limit], rule wp_guard, simp)
        apply (rule wp_mono [OF tail])
          apply (auto simp: not_less)
    done
qed

text \<open>What a stored file send adds to the sizes of its owner.\<close>

definition plain_keys :: "(string \<times> json) list \<Rightarrow> (string \<times> json) list" where
  "plain_keys kvs = filter (\<lambda>(k, v). k \<noteq> ''response'') kvs"

lemma plain_sorted: "json_sorted kvs \<Longrightarrow> json_sorted (plain_keys kvs)"
  by (simp add: json_sorted_def plain_keys_def sorted_wrt_map sorted_wrt_filter)

lemma plain_alias: "''Size'' \<in> fst ` set (plain_keys kvs) \<longleftrightarrow> ''Size'' \<in> fst ` set kvs"
  by (force simp: plain_keys_def)

lemma stored_file_size:
  assumes st: "stored_file E data user s len (sd, file_id) t" and ty: "sn_type data = SendType_i32 SendFile"
    and obj: "sn_file data = Some (JObj kvs)" "json_sorted kvs" and fresh: "sd_uuid sd \<notin> sd_uuid ` set (sends s)"
    and rt: "json_roundtrip E (JObj (plain_keys kvs))" "json_roundtrip E (JObj (described E file_id len (plain_keys kvs)))"
    and len: "fits 64 len"
  shows "Send_size_by_user E user t = (case Send_size_by_user E user s of None \<Rightarrow> None
     | Some k \<Rightarrow> if ''Size'' \<in> fst ` set kvs then Some k else checked (k + len))"
proof -
  obtain sd0 sd1 s1 where 1: "drawn s s1" "created E data user sd0" "describe_file E file_id len sd0 = Inr sd1"
      "sd = send_stamp E s1 sd1" "t = snd (Send_save E sd1 s1)"
    using st by (auto simp: stored_file_def)
  have data0: "sd_data sd0 = json_print E (JObj (plain_keys kvs))"
    using 1(2) ty obj(1) by (auto simp: created_def json_remove_def plain_keys_def)
  then have sd1: "sd1 = sd0\<lparr>sd_data := json_print E (JObj (described E file_id len (plain_keys kvs)))\<rparr>"
    using 1(3) rt(1) by (auto simp: describe_file_def json_roundtrip_def described_def)
  have sends: "sends t = tbl_upsert sd_uuid sd (sends s)"
    using 1(1,4,5) send.rows_put [of E sd1 s1] by (auto simp: drawn_frame)
  have row: "sd_user_uuid sd = Some user" "sd_atype sd = SendType_i32 SendFile"
      "sd_data sd = json_print E (JObj (described E file_id len (plain_keys kvs)))"
    using 1(2,4) sd1 ty by (simp_all add: created_def)
  show ?thesis
    using Send_size_insert [OF fresh row(1) sends] row FileData_described [OF plain_sorted [OF obj(2)] rt(2) len]
    by (simp add: plain_alias split: option.split)
qed

end
