(* ===== verification/SendProps.thy ===== *)
theory SendProps
  imports SendLaws DemoServer
begin

text \<open>Properties of sends, and a send on which they are evaluated.\<close>

definition demo_send :: Send where
  "demo_send = \<lparr>sd_uuid = ''s1'', sd_user_uuid = Some ''alice'', sd_organization_uuid = None, sd_name = ''n'',
     sd_notes = None, sd_atype = 0, sd_data = '''', sd_akey = ''k'', sd_password_hash = None, sd_password_salt = None,
     sd_password_iter = None, sd_max_access_count = Some 1, sd_access_count = 0, sd_creation_date = 0,
     sd_revision_date = 0, sd_expiration_date = None, sd_deletion_date = 30 * 86400 * NANOS, sd_disabled = False,
     sd_hide_email = None\<rparr>"

definition demo_sends :: server where
  "demo_sends = demo_server\<lparr>sends := [demo_send, demo_send\<lparr>sd_uuid := ''s2'', sd_deletion_date := - 1\<rparr>]\<rparr>"

lemma demo_sends_simps [simp]:
  "sends demo_sends = [demo_send, demo_send\<lparr>sd_uuid := ''s2'', sd_deletion_date := - 1\<rparr>]" "tick demo_sends = 0"
  "access_id_decode demo_env u = Some u"
  by (simp_all add: demo_sends_def demo_server_def empty_server_def demo_env_def)

lemma demo_sends_keyed: "keyed sd_uuid (sends demo_sends)"
  by (simp add: keyed_def demo_send_def)

lemma demo_find: "find_by_access_id demo_env ''s1'' demo_sends = Some demo_send"
    "Send_find_by_uuid ''s1'' demo_sends = Some demo_send"
  by (simp_all add: find_by_access_id_def Send_find_by_uuid_def tbl_first_def demo_send_def)

lemma demo_open: "send_open demo_env p demo_send n \<longleftrightarrow> n < 30"
  by (simp add: send_open_def demo_send_def NANOS_def)

lemma find_tick [simp]: "Send_find_by_uuid u (s\<lparr>tick := n\<rparr>) = Send_find_by_uuid u s"
    "find_by_access_id E a (s\<lparr>tick := n\<rparr>) = find_by_access_id E a s"
  by (simp_all add: Send_find_by_uuid_def find_by_access_id_def split: option.split)

text \<open>C35. An access by link succeeds exactly when the send exists, has accesses left, is neither expired
  nor past its deletion date nor disabled, and the password fits. A success stores one more access of a
  text (none of a file, whose download is counted instead) and leaves every other send alone; a failure
  changes no table.\<close>

theorem send_access_exact:
  assumes "keyed sd_uuid (sends s)" "post_access E access_id password s = (r, t)"
  shows "((\<exists>a. r = Inr a) \<longleftrightarrow> (\<exists>sd. find_by_access_id E access_id s = Some sd \<and> send_open E password sd (tick s)))
    \<and> (case r of
       Inl e \<Rightarrow> \<exists>n. t = s\<lparr>tick := n\<rparr>
     | Inr (sd', creator) \<Rightarrow> \<exists>sd d. find_by_access_id E access_id s = Some sd
         \<and> sd' = (accessed sd)\<lparr>sd_revision_date := d\<rparr>
         \<and> (\<forall>u. Send_find_by_uuid u t = (if u = sd_uuid sd then Some sd' else Send_find_by_uuid u s)))"
proof (cases "\<exists>sd. find_by_access_id E access_id s = Some sd \<and> send_open E password sd (tick s)")
  case True
  then obtain sd where sd: "find_by_access_id E access_id s = Some sd" "send_open E password sd (tick s)" by blast
  then obtain k where k: "r = Inr (send_stamp E (s\<lparr>tick := tick s + k\<rparr>) (accessed sd), creator_identifier (send_stamp E (s\<lparr>tick := tick s + k\<rparr>) (accessed sd)) t)"
      "t = notified E (accessed sd) (s\<lparr>tick := tick s + k\<rparr>)"
    using post_access_eq [of s E access_id password] assms(2) by (auto simp: Let_def)
  have same: "send.find u (s\<lparr>tick := tick s + k\<rparr>) = send.find u s" for u by (rule find_cong_sends) simp
  have "Send_find_by_uuid u t = (if u = sd_uuid sd then Some (send_stamp E (s\<lparr>tick := tick s + k\<rparr>) (accessed sd)) else Send_find_by_uuid u s)" for u
    using notified_find [of "s\<lparr>tick := tick s + k\<rparr>" u E "accessed sd"] assms(1) k(2)
    by (simp add: Send_find_eq same)
  moreover have "send_stamp E (s\<lparr>tick := tick s + k\<rparr>) (accessed sd)
      = (accessed sd)\<lparr>sd_revision_date := clock E (tick (Send_update_users_revision E (accessed sd) (s\<lparr>tick := tick s + k\<rparr>)))\<rparr>"
    by (simp add: send_stamp_def)
  ultimately have "\<exists>sd d. find_by_access_id E access_id s = Some sd \<and> fst (projr r) = (accessed sd)\<lparr>sd_revision_date := d\<rparr>
         \<and> (\<forall>u. Send_find_by_uuid u t = (if u = sd_uuid sd then Some (fst (projr r)) else Send_find_by_uuid u s))"
    using sd(1) k(1) by (metis fst_conv sum.sel(2))
  then show ?thesis using sd k(1) by auto
next
  case False
  then obtain e k where "r = Inl e" "t = s\<lparr>tick := tick s + k\<rparr> \<or> t = s\<lparr>tick := tick s\<rparr>"
    using post_access_eq [of s E access_id password] assms(2) by (auto simp: Let_def split: option.splits if_splits)
  then have "\<exists>n. t = s\<lparr>tick := n\<rparr>" by blast
  then show ?thesis using False \<open>r = Inl e\<close> by simp
qed

theorem send_access_exact_witness:
  "\<exists>a. fst (post_access demo_env ''s1'' None demo_sends) = Inr a"
  using send_access_exact [OF demo_sends_keyed, of demo_env "''s1''" None "fst (post_access demo_env ''s1'' None demo_sends)"
      "snd (post_access demo_env ''s1'' None demo_sends)"]
  by (simp add: demo_find demo_open)

text \<open>C36. Over any sequence of requests for texts and files, a send with a limit on its accesses serves no
  more requests than the limit has left.\<close>

theorem send_use_limit:
  assumes "keyed sd_uuid (sends s)" "Send_find_by_uuid u s = Some sd"
    and "sd_max_access_count sd = Some m" "fits 32 m" "fits 32 (sd_access_count sd)"
  shows "int (served E u requests s) \<le> max 0 (m - sd_access_count sd)"
  using served_bound [of s u sd m E requests] assms by (simp add: Send_find_eq)

theorem send_use_limit_witness:
  "int (served demo_env ''s1'' [ReadText ''s1'' None, ReadText ''s1'' None, ReadText ''s1'' None] demo_sends) \<le> 1"
  using send_use_limit [OF demo_sends_keyed demo_find(2), of 1 demo_env "[ReadText ''s1'' None, ReadText ''s1'' None, ReadText ''s1'' None]"]
  by (simp add: demo_send_def fits_def)

text \<open>The handler of an access in two halves: the row is read and checked, then written back. No lock and
  no transaction spans them.\<close>

definition access_read :: "env \<Rightarrow> string \<Rightarrow> string option \<Rightarrow> (server, Send) act" where
  "access_read E access_id password =
     act_bind (act_get (find_by_access_id E access_id)) (\<lambda>x.
     act_bind (some_or SEND_INACCESSIBLE_MSG x) (\<lambda>sd.
     act_seq (check_send_access E ''Invalid password'' password sd) (act_ret (accessed sd))))"

definition access_write :: "env \<Rightarrow> Send \<Rightarrow> (server, Send \<times> string option) act" where
  "access_write E sd = act_bind (save_and_notify E sd) (\<lambda>sd.
     act_bind (act_get (creator_identifier sd)) (\<lambda>creator. act_ret (sd, creator)))"

lemma act_bind_assoc: "act_bind (act_bind m f) g = act_bind m (\<lambda>x. act_bind (f x) g)"
  by (rule ext) (auto simp: act_bind_def split: prod.splits sum.splits)

lemma act_bind_ret: "act_bind (act_ret a) f = f a"
  by (rule ext) (simp add: act_bind_def act_ret_def)

lemma post_access_halves: "post_access E access_id password = act_bind (access_read E access_id password) (access_write E)"
  by (simp add: post_access_def access_read_def access_write_def act_seq_def act_bind_assoc act_bind_ret accessed_def)

lemma access_read_open:
  assumes "find_by_access_id E access_id s = Some sd" "send_open E password sd (tick s)"
  shows "\<exists>n. access_read E access_id password s = (Inr (accessed sd), s\<lparr>tick := n\<rparr>)"
  using assms check_send_access_eq [of E "''Invalid password''" password sd s]
  by (auto simp: access_read_def act_seq_def act_bind_def act_get_def some_or_def act_ret_def)

lemma access_write_eq: "\<exists>a. access_write E sd s = (Inr a, notified E sd s)"
  by (simp add: access_write_def act_bind_def act_get_def act_ret_def save_and_notify_eq)

text \<open>The limit does not hold for concurrent requests: when two requests read a send with one access
  left before either writes it back, both are served, and the stored count shows one access.\<close>

theorem send_limit_race:
  assumes "keyed sd_uuid (sends s)" "find_by_access_id E access_id s = Some sd" "sd_atype sd = SendType_i32 SendText"
    and "\<And>n. send_open E password sd n" "sd_max_access_count sd = Some m" "sd_access_count sd = m - 1" "fits 32 m"
  shows "\<exists>a b s1 s2 s3 s4 v w. access_read E access_id password s = (Inr a, s1) \<and> access_read E access_id password s1 = (Inr b, s2)
    \<and> access_write E a s2 = (Inr v, s3) \<and> access_write E b s3 = (Inr w, s4)
    \<and> map_option sd_access_count (Send_find_by_uuid (sd_uuid sd) s4) = Some m"
proof -
  obtain n where n: "access_read E access_id password s = (Inr (accessed sd), s\<lparr>tick := n\<rparr>)"
    using access_read_open [OF assms(2,4)] by blast
  have "find_by_access_id E access_id (s\<lparr>tick := n\<rparr>) = Some sd" using assms(2) by simp
  then obtain j where j: "access_read E access_id password (s\<lparr>tick := n\<rparr>) = (Inr (accessed sd), s\<lparr>tick := j\<rparr>)"
    using access_read_open [of E access_id "s\<lparr>tick := n\<rparr>" sd password] assms(4) by auto
  let ?s3 = "notified E (accessed sd) (s\<lparr>tick := j\<rparr>)"
  let ?s4 = "notified E (accessed sd) ?s3"
  have "keyed sd_uuid (sends ?s3)" using notified_keyed assms(1) by simp
  then have "Send_find_by_uuid (sd_uuid sd) ?s4 = Some (send_stamp E ?s3 (accessed sd))"
    using notified_find [of ?s3 "sd_uuid sd" E "accessed sd"] by (simp add: Send_find_eq)
  moreover have "sd_access_count (accessed sd) = m"
    using assms(3,6,7) i32_wrap_id [of m] by (simp add: accessed_def count_access_def)
  moreover obtain v w where "access_write E (accessed sd) (s\<lparr>tick := j\<rparr>) = (Inr v, ?s3)" "access_write E (accessed sd) ?s3 = (Inr w, ?s4)"
    using access_write_eq by metis
  ultimately show ?thesis using n j by (metis option.map(2) send_stamp_simps(3))
qed

definition calm_env :: env where
  "calm_env = demo_env\<lparr>clock := (\<lambda>n. 0)\<rparr>"

theorem send_limit_race_witness:
  "\<exists>a b s1 s2 s3 s4 v w. access_read calm_env ''s1'' None demo_sends = (Inr a, s1) \<and> access_read calm_env ''s1'' None s1 = (Inr b, s2)
    \<and> access_write calm_env a s2 = (Inr v, s3) \<and> access_write calm_env b s3 = (Inr w, s4)
    \<and> map_option sd_access_count (Send_find_by_uuid ''s1'' s4) = Some 1"
proof -
  have 1: "find_by_access_id calm_env ''s1'' demo_sends = Some demo_send"
    using demo_find(1) by (simp add: find_by_access_id_def calm_env_def)
  have 2: "send_open calm_env None demo_send n" for n
    by (simp add: send_open_def demo_send_def calm_env_def NANOS_def)
  have "sd_uuid demo_send = ''s1''" by (simp add: demo_send_def)
  then show ?thesis using send_limit_race [OF demo_sends_keyed 1 _ 2, of 1] by (simp add: demo_send_def fits_def)
qed

text \<open>The purge job removes exactly the sends whose deletion date has passed.\<close>

theorem sends_purged:
  assumes "keyed sd_uuid (sends s)"
  shows "sends (Send_purge E s) = filter (\<lambda>sd. clock E (tick s) \<le> sd_deletion_date sd) (sends s)"
proof -
  let ?rows = "tbl_select (\<lambda>sd. sd_deletion_date sd < clock E (tick s)) (sends s)"
  have "sends (Send_purge E s) = tbl_delete (\<lambda>sd. sd_uuid sd \<in> sd_uuid ` set ?rows) (sends s)"
    by (simp add: Send_purge_def find_by_past_deletion_date_def utc_now_def send.del_all)
  also have "\<dots> = filter (\<lambda>sd. clock E (tick s) \<le> sd_deletion_date sd) (sends s)"
    using tbl_delete_selected [OF assms] by (simp add: not_less)
  finally show ?thesis .
qed

theorem sends_purged_witness: "sends (Send_purge demo_env demo_sends) = [demo_send]"
  using sends_purged [OF demo_sends_keyed, of demo_env] by (simp add: demo_send_def NANOS_def)

section \<open>The quota\<close>

lemma add_sizes_fits: "fits 64 n \<Longrightarrow> add_sizes E sds n = Some k \<Longrightarrow> fits 64 k"
  by (induction sds arbitrary: n) (auto simp: checked_def split: if_splits option.splits)

lemma Send_size_fits: "Send_size_by_user E user s = Some k \<Longrightarrow> fits 64 k"
  using add_sizes_fits [of 0] by (simp add: Send_size_by_user_def fits_def)

text \<open>Creating a file send keeps the owner within the configured limit: the announced length is added
  to the sizes in use and the sum is at most the limit, for a client that does not send the key \<open>Size\<close>.\<close>

theorem send_quota_kept:
  assumes "post_send_file_v2 E data hu s = (Inr (sd, file_id), t)" "user_send_limit (conf E) = Some kb"
    and "sn_file data = Some (JObj kvs)" "json_sorted kvs" "''Size'' \<notin> fst ` set kvs" "sd_uuid sd \<notin> sd_uuid ` set (sends s)"
    and "sn_file_length data = Some m" "NumberOrString_into_i64 m = Inr len"
    and "json_roundtrip E (JObj (plain_keys kvs))" "json_roundtrip E (JObj (described E file_id len (plain_keys kvs)))"
  shows "\<exists>used. Send_size_by_user E (u_uuid hu) s = Some used \<and> 0 \<le> len
    \<and> Send_size_by_user E (u_uuid hu) t = Some (used + len) \<and> used + len \<le> kb * 1024"
proof -
  obtain limit where l: "0 \<le> len" "len \<le> limit" "within_limit E (u_uuid hu) s limit" "sn_type data = SendType_i32 SendFile"
      "stored_file E data (u_uuid hu) s len (sd, file_id) t"
    using wp_post_send_file_v2 [of E data hu s] assms(1,7,8) by (auto simp: wp_def)
  then obtain used where u: "Send_size_by_user E (u_uuid hu) s = Some used" "len \<le> kb * 1024 - used" "fits 64 (kb * 1024)"
    using assms(2) by (auto simp: within_limit_def)
  have f: "fits 64 len" using l(1,2,3) by (auto simp: within_limit_def fits_def SIZE_525_MB_def)
  have "fits 64 (used + len)" using Send_size_fits [OF u(1)] u(2,3) l(1) by (auto simp: fits_def)
  then show ?thesis
    using stored_file_size [OF l(5,4) assms(3,4,6,9,10) f] assms(5) u l(1) by (simp add: checked_def)
qed

text \<open>A client that puts a key \<open>Size\<close> into the file description escapes the accounting: the stored data
  no longer reads as a file with a size, and the sizes in use stay what they were, whatever the length.\<close>

theorem send_quota_bypass:
  assumes "post_send_file_v2 E data hu s = (Inr (sd, file_id), t)" "user_send_limit (conf E) = Some kb"
    and "sn_file data = Some (JObj kvs)" "json_sorted kvs" "''Size'' \<in> fst ` set kvs" "sd_uuid sd \<notin> sd_uuid ` set (sends s)"
    and "sn_file_length data = Some m" "NumberOrString_into_i64 m = Inr len"
    and "json_roundtrip E (JObj (plain_keys kvs))" "json_roundtrip E (JObj (described E file_id len (plain_keys kvs)))"
  shows "Send_size_by_user E (u_uuid hu) t = Send_size_by_user E (u_uuid hu) s"
proof -
  obtain limit where l: "0 \<le> len" "len \<le> limit" "within_limit E (u_uuid hu) s limit" "sn_type data = SendType_i32 SendFile"
      "stored_file E data (u_uuid hu) s len (sd, file_id) t"
    using wp_post_send_file_v2 [of E data hu s] assms(1,7,8) by (auto simp: wp_def)
  have "fits 64 len" using l(1,2,3) by (auto simp: within_limit_def fits_def SIZE_525_MB_def)
  then show ?thesis
    using stored_file_size [OF l(5,4) assms(3,4,6,9,10)] assms(5) by (simp split: option.split)
qed

text \<open>An environment whose JSON reader and printer know the objects of the two examples.\<close>

definition plain_file :: "(string \<times> json) list" where
  "plain_file = [(''fileName'', JStr ''f'')]"

definition sized_file :: "(string \<times> json) list" where
  "sized_file = [(''Size'', JInt 0), (''fileName'', JStr ''f'')]"

definition quota_env :: "(string \<times> json) list \<Rightarrow> env" where
  "quota_env kvs = demo_env\<lparr>json_print := (\<lambda>j. case j of
       JObj xs \<Rightarrow> (case map_of xs ''id'' of Some (JStr i) \<Rightarrow> i | _ \<Rightarrow> ''a'') | _ \<Rightarrow> ''b''),
     json_parse := (\<lambda>text. if text = ''a'' then Some (JObj kvs) else Some (JObj (described demo_env text 100 kvs)))\<rparr>"

definition quota_data :: "(string \<times> json) list \<Rightarrow> SendData" where
  "quota_data kvs = \<lparr>sn_type = 1, sn_key = ''k'', sn_password = None, sn_max_access_count = None, sn_expiration_date = None,
     sn_deletion_date = 0, sn_disabled = False, sn_hide_email = None, sn_name = ''n'', sn_notes = None, sn_text = None,
     sn_file = Some (JObj kvs), sn_file_length = Some (Number 100), sn_id = None\<rparr>"

lemma quota_env_simps [simp]:
  "conf (quota_env kvs) = demo_conf" "clock (quota_env kvs) n = int n * 86400 * NANOS"
  "uuid_at (quota_env kvs) n = replicate n CHR ''x''" "random_token (quota_env kvs) n = CHR ''t'' # replicate n CHR ''x''"
  "size_name (quota_env kvs) i = ''size''" "size_name demo_env i = ''size''" "user_send_limit demo_conf = Some 1" "sends_allowed demo_conf"
  "map_of kvs ''id'' = None \<Longrightarrow> json_print (quota_env kvs) (JObj kvs) = ''a''"
  "json_parse (quota_env kvs) ''a'' = Some (JObj kvs)"
  by (simp_all add: quota_env_def demo_env_def demo_conf_def)

lemma described_quota: "described (quota_env kvs) i n = described demo_env i n"
  by (simp add: described_def fun_eq_iff)

lemma quota_policies:
  "enforce_disable_send_policy (quota_env kvs) hu demo_server = (Inr (), demo_server)"
  "enforce_disable_hide_email_policy (quota_env kvs) (quota_data kvs) hu demo_server = (Inr (), demo_server)"
  "send_size_limit (quota_env kvs) hu demo_server = (Inr 1024, demo_server)"
  by (simp_all add: enforce_disable_send_policy_def enforce_disable_hide_email_policy_def is_applicable_to_user_def
      find_accepted_and_confirmed_by_user_and_active_policy_def quota_data_def send_size_limit_def Send_size_by_user_def
      Send_find_by_user_def tbl_select_def checked_def fits_def SIZE_525_MB_def demo_server_def empty_server_def act_defs)

lemma quota_create:
  assumes "map_of kvs ''id'' = None" "json_remove ''response'' (JObj kvs) = JObj kvs"
  shows "\<exists>sd s. create_send (quota_env kvs) (quota_data kvs) (u_uuid alice) demo_server = (Inr sd, s) \<and> sd_data sd = ''a''
    \<and> sd_uuid sd = ''xx'' \<and> tick s = Suc (Suc (Suc 0))"
  using assms
  by (simp add: create_send_def quota_data_def check_deletion_date_def naive_add_def read_max_access_count_def Send_set_password_def
      Send_new_def utc_now_def get_uuid_def NANOS_def demo_server_def empty_server_def act_defs)

lemma quota_run:
  assumes "map_of kvs ''id'' = None" "json_remove ''response'' (JObj kvs) = JObj kvs"
  shows "\<exists>sd t. post_send_file_v2 (quota_env kvs) (quota_data kvs) alice demo_server = (Inr (sd, ''txxx''), t) \<and> sd_uuid sd = ''xx''"
proof -
  obtain sd s where c: "create_send (quota_env kvs) (quota_data kvs) (u_uuid alice) demo_server = (Inr sd, s)" "sd_data sd = ''a''"
      "sd_uuid sd = ''xx''" "tick s = Suc (Suc (Suc 0))"
    using quota_create [OF assms] by blast
  have "sn_type (quota_data kvs) = 1" "sn_file_length (quota_data kvs) = Some (Number 100)" by (simp_all add: quota_data_def)
  then show ?thesis
    using c by (simp add: post_send_file_v2_def act_seq_def act_bind_def quota_policies err_if_def some_or_def act_ret_def act_run_def
        generate_send_file_id_def describe_file_def Send_save_row split_beta)
qed

lemma quota_roundtrips:
  assumes "map_of kvs ''id'' = None" "map_of (described demo_env ''txxx'' 100 kvs) ''id'' = Some (JStr ''txxx'')"
  shows "json_roundtrip (quota_env kvs) (JObj kvs)" "json_roundtrip (quota_env kvs) (JObj (described (quota_env kvs) ''txxx'' 100 kvs))"
  using assms by (simp_all add: json_roundtrip_def described_quota) (simp add: quota_env_def)

theorem send_quota_kept_witness:
  "\<exists>sd t used. post_send_file_v2 (quota_env plain_file) (quota_data plain_file) alice demo_server = (Inr (sd, ''txxx''), t)
    \<and> Send_size_by_user (quota_env plain_file) (u_uuid alice) t = Some (used + 100) \<and> used + 100 \<le> 1024"
proof -
  have o: "plain_keys plain_file = plain_file" "json_sorted plain_file" "''Size'' \<notin> fst ` set plain_file"
      "json_remove ''response'' (JObj plain_file) = JObj plain_file" "map_of plain_file ''id'' = None"
      "map_of (described demo_env ''txxx'' 100 plain_file) ''id'' = Some (JStr ''txxx'')"
    by (simp_all add: plain_keys_def plain_file_def json_sorted_def json_remove_def described_def str_less_def)
  obtain sd t where r: "post_send_file_v2 (quota_env plain_file) (quota_data plain_file) alice demo_server = (Inr (sd, ''txxx''), t)"
    using quota_run [OF o(5,4)] by blast
  have d: "sn_file (quota_data plain_file) = Some (JObj plain_file)" "sn_file_length (quota_data plain_file) = Some (Number 100)"
      "sd_uuid sd \<notin> sd_uuid ` set (sends demo_server)"
    by (simp_all add: quota_data_def demo_server_def empty_server_def)
  show ?thesis
    using r send_quota_kept [OF r _ d(1) o(2,3) d(3,2), of 1 100] quota_roundtrips [OF o(5,6)] o(1) by auto
qed

theorem send_quota_bypass_witness:
  "\<exists>sd t. post_send_file_v2 (quota_env sized_file) (quota_data sized_file) alice demo_server = (Inr (sd, ''txxx''), t)
    \<and> Send_size_by_user (quota_env sized_file) (u_uuid alice) t = Send_size_by_user (quota_env sized_file) (u_uuid alice) demo_server"
proof -
  have o: "plain_keys sized_file = sized_file" "json_sorted sized_file" "''Size'' \<in> fst ` set sized_file"
      "json_remove ''response'' (JObj sized_file) = JObj sized_file" "map_of sized_file ''id'' = None"
      "map_of (described demo_env ''txxx'' 100 sized_file) ''id'' = Some (JStr ''txxx'')"
    by (simp_all add: plain_keys_def sized_file_def json_sorted_def json_remove_def described_def str_less_def)
  obtain sd t where r: "post_send_file_v2 (quota_env sized_file) (quota_data sized_file) alice demo_server = (Inr (sd, ''txxx''), t)"
    using quota_run [OF o(5,4)] by blast
  have d: "sn_file (quota_data sized_file) = Some (JObj sized_file)" "sn_file_length (quota_data sized_file) = Some (Number 100)"
      "sd_uuid sd \<notin> sd_uuid ` set (sends demo_server)"
    by (simp_all add: quota_data_def demo_server_def empty_server_def)
  show ?thesis
    using r send_quota_bypass [OF r _ d(1) o(2,3) d(3,2), of 1 100] quota_roundtrips [OF o(5,6)] o(1) by auto
qed

end
