(* ===== verification/OrgLaws.thy ===== *)
theory OrgLaws
  imports OrgApi
begin

text \<open>
  What the organization handlers keep. \<open>calm\<close> is a statement that leaves the memberships as they
  are, adds no account and only advances the reads of the environment; almost every write of the
  server is calm. \<open>roster\<close> is the invariant of the memberships: unique ids, one membership per user
  and organization, ids that the next identifiers cannot meet, and a confirmed owner in every
  organization of a given set.
\<close>

section \<open>Calm statements\<close>

definition calm :: "server \<Rightarrow> server \<Rightarrow> bool" where
  "calm s t \<longleftrightarrow> users_organizations t = users_organizations s \<and> u_uuid ` set (users t) \<subseteq> u_uuid ` set (users s)
     \<and> tick s \<le> tick t"

named_theorems calms

lemma calm_refl [simp]: "calm s s"
  by (simp add: calm_def)

lemma calm_trans: "calm s t \<Longrightarrow> calm t u \<Longrightarrow> calm s u"
  by (fastforce simp: calm_def)

lemma calm_fold: "(\<And>x s. calm s (f x s)) \<Longrightarrow> calm s (fold f xs s)"
  by (induction xs arbitrary: s) (auto intro: calm_trans)

lemma stable_calm_upd [calms]: "(\<And>s. calm s (f s)) \<Longrightarrow> stable (calm s0) (act_upd f)"
  by (rule stable_upd) (rule calm_trans)

lemma stable_calm_run [calms]: "(\<And>s. calm s (snd (f s))) \<Longrightarrow> stable (calm s0) (act_run f)"
  by (rule stable_run) (rule calm_trans)

lemma stable_calmD: "(\<And>s. stable (calm s) m) \<Longrightarrow> calm s (snd (m s))"
  by (simp add: stable_def)

lemma calm_revision [calms]: "calm s (update_uuid_revision E u s)"
  by (auto simp: calm_def update_uuid_revision_def update_revision_impl_def set_tbl_update utc_now_def)

lemma calm_bump [calms]: "calm s (bump s)" "calm s (snd (utc_now E s))" "calm s (snd (get_uuid E s))"
  by (simp_all add: calm_def)

text \<open>A write to the other tables.\<close>

lemma calm_write:
  "users_organizations t = users_organizations s \<Longrightarrow> users t = users s \<Longrightarrow> tick t = tick s \<Longrightarrow> calm s t"
  by (simp add: calm_def)

lemma calm_after: "calm s t \<Longrightarrow> users_organizations (f t) = users_organizations t \<Longrightarrow> users (f t) = users t
    \<Longrightarrow> tick (f t) = tick t \<Longrightarrow> calm s (f t)"
  by (simp add: calm_def)

lemma calm_log_event [calms]: "calm s (log_event E ty src org u dev ip s)"
proof (cases "org_events_enabled (conf E)")
  case True
  obtain e t where e: "Event_new E (EventType_i32 ty) None s = (e, t)" by fastforce
  then have "t = s\<lparr>tick := tick s + 2\<rparr>" using Event_new_simps(1) [of E "EventType_i32 ty" None s] by simp
  with True e show ?thesis by (simp add: log_event_def log_event_impl_def Event_save_def calm_def)
qed (simp add: log_event_def)

lemma calm_cu [calms]: "calm s (cu_save E u c ro hp mn s)" "calm s (cu_delete E cu s)"
  by (simp_all add: cu_save_def cu_delete_def Let_def calm_after [OF calm_revision])

lemma calm_user_revision [calms]: "calm s (update_user_revision E gu s)"
  by (simp add: update_user_revision_def calm_revision split: option.split)

lemma calm_gu [calms]: "calm s (gu_save E gu s)" "calm s (gu_delete_all_by_member E m s)"
  by (auto simp: gu_save_def gu_delete_all_by_member_def Let_def calm_after [OF calm_user_revision]
      calm_after [OF calm_revision] intro: calm_write split: option.split)

lemma calm_policy [calms]: "calm s (OrgPolicy_save p s)" "calm s (snd (OrgPolicy_new E org ty b d s))"
  by (simp_all add: OrgPolicy_save_def OrgPolicy_new_def calm_def Let_def get_uuid_def)

lemma calm_invitation [calms]: "calm s (snd (Invitation_take E email s))"
  by (simp add: Invitation_take_def Invitation_delete_def calm_def split: option.split)

lemma calm_collection [calms]: "calm s (Collection_save E c s)" "calm s (snd (Collection_new E org name ext s))"
proof -
  have "calm s (Collection_update_users_revision E c s)"
    unfolding Collection_update_users_revision_def by (rule calm_fold) (rule calm_revision)
  then show "calm s (Collection_save E c s)" by (simp add: Collection_save_def Let_def calm_def)
qed (simp add: Collection_new_def calm_def Let_def get_uuid_def)

lemma calm_touch [calms]: "calm s (touch_members E org s)"
  unfolding touch_members_def by (rule calm_fold) (rule calm_revision)

lemma calm_organization [calms]: "calm s (snd (Organization_new E name email a b s))"
  by (simp add: Organization_new_def get_uuid_def calm_def)

lemma calm_membership_new [calms]: "calm s (snd (Membership_new E u org by s))"
  by (simp add: Membership_new_def get_uuid_def calm_def)

lemma calm_twofactor [calms]: "calm s (TwoFactor_save tf s)" "calm s (snd (TwoFactor_new E u ty d s))"
  "calm s (snd (EmailTokenData_new E email tok s))" "calm s (TwoFactor_delete tf s)"
  by (simp_all add: TwoFactor_save_def TwoFactor_new_def EmailTokenData_new_def TwoFactor_delete_def calm_def Let_def
      get_uuid_def utc_now_def)

lemma stable_mail [stable_intros]: "stable (calm s0) (send_mail E m)"
  by (auto simp: stable_def send_mail_def calm_def split: option.split)

lemma stable_decode_invite [stable_intros]: "stable (calm s0) (decode_invite E token)"
  by (auto simp: stable_def decode_invite_def calm_def split: sum.split)

lemma calm_check_user_allowed [stable_intros]: "stable (calm s0) (check_user_allowed E m action)"
  unfolding check_user_allowed_def require_2fa_def find_and_activate_email_2fa_def activate_email_2fa_def
  by (intro stable_intros calms)

lemma calm_mail_invite [stable_intros]: "stable (calm s0) (mail_send_invite E user org m name by)"
  unfolding mail_send_invite_def generate_invite_claims_def by (intro stable_intros calms)

lemma calm_invitation_save [stable_intros]: "stable (calm s0) (Invitation_save E email)"
  unfolding Invitation_save_def by (intro stable_intros calms) (simp add: calm_def)

lemma calm_organization_save [stable_intros]: "stable (calm s0) (Organization_save E org)"
  unfolding Organization_save_def by (intro stable_intros calms) (simp_all add: calm_def)

lemma calm_save_collections [stable_intros]: "stable (calm s0) (save_collections E org u cols)"
  unfolding save_collections_def by (intro stable_intros calms)

lemma calm_save_groups [stable_intros]: "stable (calm s0) (save_groups E m gs)"
  unfolding save_groups_def by (intro stable_intros calms)

text \<open>The deletions of an account.\<close>

lemma calm_sends [calms]: "calm s (Send_delete_all_by_user E u s)"
proof -
  have "calm s (Send_update_users_revision E sd s)" for sd s
    by (simp add: Send_update_users_revision_def calm_revision split: option.split)
  moreover have "calm s (delete_send_files E i s)" for i s
    by (simp add: delete_send_files_def calm_def split: option.split)
  ultimately have "calm s (delete_send_files E i (Send_update_users_revision E sd s))"
      "calm s (Send_update_users_revision E sd s)" for i sd s
    using calm_trans by blast+
  then have "calm s (Send_delete E sd s)" for sd s
    by (simp add: Send_delete_def Let_def calm_def)
  then show ?thesis unfolding Send_delete_all_by_user_def by (rule calm_fold)
qed

lemma calm_emergency [calms]: "calm s (EmergencyAccess_delete_all_by_user E u s)"
  "calm s (EmergencyAccess_delete_all_by_grantee_email E email s)"
proof -
  have "calm s (EmergencyAccess_delete E ea s)" for ea s
    by (simp add: EmergencyAccess_delete_def Let_def calm_after [OF calm_revision])
  then have "calm s (fold (EmergencyAccess_delete E) eas s)" for eas s by (rule calm_fold)
  then show "calm s (EmergencyAccess_delete_all_by_user E u s)"
    "calm s (EmergencyAccess_delete_all_by_grantee_email E email s)"
    unfolding EmergencyAccess_delete_all_by_user_def EmergencyAccess_delete_all_by_grantee_email_def Let_def
    using calm_trans by blast+
qed

lemma calm_rows [calms]: "calm s (fav_delete_all_by_user u s)" "calm s (Device_delete_all_by_user u s)"
  "calm s (TwoFactor_delete_all_by_user u s)" "calm s (ti_delete_all_by_user u s)"
  "calm s (fc_delete_all_by_cipher i s)" "calm s (cc_delete_all_by_cipher i s)" "calm s (fav_delete_all_by_cipher i s)"
  "calm s (cipher_row_delete i s)"
  by (simp_all add: fav_delete_all_by_user_def Device_delete_all_by_user_def TwoFactor_delete_all_by_user_def
      ti_delete_all_by_user_def fc_delete_all_by_cipher_def cc_delete_all_by_cipher_def fav_delete_all_by_cipher_def
      cipher_row_delete_def calm_def)

lemma calm_folders [calms]: "calm s (Folder_delete_all_by_user E u s)"
  unfolding Folder_delete_all_by_user_def
  by (rule calm_fold) (use calm_revision in \<open>simp add: Folder_delete_def fc_delete_all_by_folder_def Let_def calm_def\<close>)

lemma calm_cipher_users [calms]: "calm s (snd (Cipher_update_users_revision E ci s))"
proof -
  have "calm s (fold (\<lambda>m. update_uuid_revision E (m_user_uuid m)) ms s)" for ms :: "Membership list"
    by (rule calm_fold) (rule calm_revision)
  then show ?thesis
    by (simp add: Cipher_update_users_revision_def Let_def calm_revision del: fold_append split: option.split)
qed

lemma calm_attachment [stable_intros]: "stable (calm s0) (Attachment_delete E a)"
  by (auto simp: stable_def Attachment_delete_def act_defs calm_def split: option.split)

lemma calm_ciphers [stable_intros]: "stable (calm s0) (Cipher_delete_all_by_user E u)"
  unfolding Cipher_delete_all_by_user_def Cipher_delete_def Attachment_delete_all_by_cipher_def
  by (intro stable_intros calms)

lemma calm_guard [stable_intros]: "stable (calm s0) (last_owner_guard u)"
  unfolding last_owner_guard_def by (intro stable_intros)

lemma calm_user_row [stable_intros]: "stable (calm s0) (user_row_delete u)"
  unfolding user_row_delete_def by (intro stable_intros calms) (auto simp: calm_def)

section \<open>The roster\<close>

definition confirmed_owner :: "OrganizationId \<Rightarrow> Membership \<Rightarrow> bool" where
  "confirmed_owner org m \<longleftrightarrow> m_org_uuid m = org \<and> has_type Owner m \<and> has_status Confirmed m"

definition has_owner :: "OrganizationId \<Rightarrow> server \<Rightarrow> bool" where
  "has_owner org s \<longleftrightarrow> (\<exists>m \<in> set (users_organizations s). confirmed_owner org m)"

definition unused :: "env \<Rightarrow> server \<Rightarrow> string \<Rightarrow> bool" where
  "unused E s i \<longleftrightarrow> (\<forall>n \<ge> tick s. uuid_at E n \<noteq> i)"

definition roster :: "env \<Rightarrow> OrganizationId set \<Rightarrow> server \<Rightarrow> bool" where
  "roster E orgs s \<longleftrightarrow> keyed m_uuid (users_organizations s) \<and> members_unique s
     \<and> (\<forall>m \<in> set (users_organizations s). unused E s (m_uuid m) \<and> unused E s (m_user_uuid m) \<and> unused E s (m_org_uuid m))
     \<and> (\<forall>u \<in> set (users s). unused E s (u_uuid u))
     \<and> (\<forall>org \<in> orgs. has_owner org s)"

lemma unused_mono: "unused E s i \<Longrightarrow> tick s \<le> tick t \<Longrightarrow> unused E t i"
  by (auto simp: unused_def)

lemma roster_calm: "roster E orgs s \<Longrightarrow> calm s t \<Longrightarrow> roster E orgs t"
proof -
  assume r: "roster E orgs s" and c: "calm s t"
  have U: "users_organizations t = users_organizations s" and k: "tick s \<le> tick t" using c by (simp_all add: calm_def)
  have "unused E t (u_uuid u)" if u: "u \<in> set (users t)" for u
  proof -
    have "u_uuid u \<in> u_uuid ` set (users s)" using c u by (auto simp: calm_def)
    then show ?thesis using r unused_mono [OF _ k] by (auto simp: roster_def)
  qed
  then show ?thesis using r unused_mono [OF _ k] by (simp add: roster_def members_unique_def has_owner_def U)
qed

lemma members_unique_keyed: "members_unique s \<longleftrightarrow> keyed (\<lambda>m. (m_user_uuid m, m_org_uuid m)) (users_organizations s)"
  by (simp add: members_unique_def keyed_def)

lemma count_owners: "count_confirmed_by_org_and_type org Owner s = length (filter (confirmed_owner org) (users_organizations s))"
  by (simp add: count_confirmed_by_org_and_type_def tbl_select_def confirmed_owner_def [abs_def] has_type_def
      has_status_def)

lemma wp_calm:
  assumes "\<And>t. stable (calm t) m" "roster E orgs s"
  shows "wp m (\<lambda>_. roster E orgs) (\<lambda>_. roster E orgs) s"
  by (rule wp_stable [OF assms(1), of s]) (use roster_calm [OF assms(2)] in auto)

text \<open>Two owners are two rows, so one more is left beside a given one.\<close>

lemma other_owner:
  assumes "keyed m_uuid (users_organizations s)" "\<not> count_confirmed_by_org_and_type org Owner s \<le> 1"
  obtains x where "x \<in> set (users_organizations s)" "confirmed_owner org x" "m_uuid x \<noteq> i"
proof -
  let ?l = "filter (confirmed_owner org) (users_organizations s)"
  obtain a b l where l: "?l = a # b # l"
    using assms(2) unfolding count_owners by (cases ?l; cases "tl ?l") auto
  have "distinct (map m_uuid ?l)" using assms(1) by (simp add: keyed_def distinct_map_filter)
  then have "m_uuid a \<noteq> m_uuid b" by (simp add: l)
  moreover have "a \<in> set ?l" "b \<in> set ?l" by (simp_all add: l)
  ultimately show thesis using that [of a] that [of b] by (cases "m_uuid a = i") auto
qed

lemma roster_like:
  assumes "roster E orgs s" "tick s \<le> tick t" "u_uuid ` set (users t) \<subseteq> u_uuid ` set (users s)"
    and "keyed m_uuid (users_organizations t)" "members_unique t" "\<forall>org \<in> orgs. has_owner org t"
    and "\<forall>x \<in> set (users_organizations t). \<exists>y \<in> set (users_organizations s).
      m_uuid x = m_uuid y \<and> m_user_uuid x = m_user_uuid y \<and> m_org_uuid x = m_org_uuid y"
  shows "roster E orgs t"
proof -
  have "unused E t (u_uuid u)" if u: "u \<in> set (users t)" for u
  proof -
    have "u_uuid u \<in> u_uuid ` set (users s)" using assms(3) u by auto
    then show ?thesis using assms(1) unused_mono [OF _ assms(2)] by (auto simp: roster_def)
  qed
  moreover have "unused E t (m_uuid x) \<and> unused E t (m_user_uuid x) \<and> unused E t (m_org_uuid x)"
    if "x \<in> set (users_organizations t)" for x
    using assms(1,7) that unused_mono [OF _ assms(2)] unfolding roster_def by metis
  ultimately show ?thesis using assms(4-6) by (simp add: roster_def)
qed

text \<open>A stored membership with another role, status or key.\<close>

lemma roster_save:
  assumes r: "roster E orgs s" and m: "m \<in> set (users_organizations s)"
    and k: "m_uuid m' = m_uuid m" "m_user_uuid m' = m_user_uuid m" "m_org_uuid m' = m_org_uuid m"
    and o: "confirmed_owner (m_org_uuid m) m \<Longrightarrow>
      confirmed_owner (m_org_uuid m) m' \<or> \<not> count_confirmed_by_org_and_type (m_org_uuid m) Owner s \<le> 1"
  shows "roster E orgs (Membership_save E m' s)"
proof -
  let ?t = "Membership_save E m' s" and ?U = "users_organizations s"
  have U: "users_organizations ?t = map (\<lambda>x. if m_uuid x = m_uuid m' then m' else x) ?U"
    using m k(1) by (auto simp: Membership_save_def Let_def tbl_upsert_def)
  have key: "keyed m_uuid ?U" and uniq: "members_unique s" using r by (simp_all add: roster_def)
  have only: "x = m" if "x \<in> set ?U" "m_uuid x = m_uuid m'" for x using keyed_unique [OF key that(1) m] that(2) k by simp
  have "map (\<lambda>x. (m_user_uuid x, m_org_uuid x)) (users_organizations ?t) = map (\<lambda>x. (m_user_uuid x, m_org_uuid x)) ?U"
    unfolding U using only k by auto
  then have "members_unique ?t" using uniq by (simp add: members_unique_def)
  moreover have "keyed m_uuid (users_organizations ?t)" using key by (rule member.keyed_put)
  moreover have "calm s (update_uuid_revision E (m_user_uuid m') s)" by (rule calm_revision)
  then have q: "tick s \<le> tick ?t" "u_uuid ` set (users ?t) \<subseteq> u_uuid ` set (users s)"
    by (simp_all add: calm_def Membership_save_def Let_def)
  moreover have "has_owner org ?t" if own: "has_owner org s" for org
  proof -
    obtain x where x: "x \<in> set ?U" "confirmed_owner org x" using own by (auto simp: has_owner_def)
    have keep: "has_owner org ?t" if "y \<in> set ?U" "confirmed_owner org y" "m_uuid y \<noteq> m_uuid m'" for y
      using that unfolding has_owner_def U by force
    have new: "m' \<in> set (users_organizations ?t)" using m k unfolding U by force
    show ?thesis
    proof (cases "m_uuid x = m_uuid m'")
      case True
      then have [simp]: "x = m" using only x by blast
      have org: "m_org_uuid m = org" using x(2) by (simp add: confirmed_owner_def)
      show ?thesis
      proof (cases "confirmed_owner org m'")
        case False
        then have "\<not> count_confirmed_by_org_and_type org Owner s \<le> 1" using o x(2) by (simp add: org)
        then show ?thesis using keep by (rule other_owner [OF key])
      qed (use new in \<open>auto simp: has_owner_def\<close>)
    qed (use keep x in blast)
  qed
  moreover have "\<forall>x \<in> set (users_organizations ?t). \<exists>y \<in> set ?U. m_uuid x = m_uuid y \<and> m_user_uuid x = m_user_uuid y
      \<and> m_org_uuid x = m_org_uuid y"
    using k m unfolding U by auto
  ultimately show ?thesis
    using r by (intro roster_like [OF r q]) (auto simp: roster_def)
qed

text \<open>Removed memberships.\<close>

lemma roster_delete:
  assumes r: "roster E orgs s" and U: "users_organizations t = tbl_delete P (users_organizations s)"
    and q: "tick s \<le> tick t" "u_uuid ` set (users t) \<subseteq> u_uuid ` set (users s)"
    and o: "\<And>org. org \<in> orgs \<Longrightarrow> \<exists>x \<in> set (users_organizations s). confirmed_owner org x \<and> \<not> P x"
  shows "roster E orgs t"
proof -
  have "keyed m_uuid (users_organizations t)" "members_unique t"
    using r unfolding roster_def members_unique_keyed U by auto
  moreover have "\<forall>org \<in> orgs. has_owner org t" using o unfolding has_owner_def U by auto
  ultimately show ?thesis by (intro roster_like [OF r q]) (auto simp: U)
qed

lemma Membership_delete_quiet: "tick s \<le> tick (Membership_delete E m s)"
  "u_uuid ` set (users (Membership_delete E m s)) \<subseteq> u_uuid ` set (users s)"
proof -
  let ?s1 = "cu_delete_all_by_user_and_org (m_user_uuid m) (m_org_uuid m) (update_uuid_revision E (m_user_uuid m) s)"
  have "calm s ?s1" using calm_revision [of s E "m_user_uuid m"] by (simp add: cu_delete_eq calm_def)
  then have "calm s (gu_delete_all_by_member E (m_uuid m) ?s1)" using calm_gu(2) by (rule calm_trans)
  then show "tick s \<le> tick (Membership_delete E m s)"
    "u_uuid ` set (users (Membership_delete E m s)) \<subseteq> u_uuid ` set (users s)"
    by (simp_all add: Membership_delete_def Let_def calm_def)
qed

lemma roster_delete_one:
  assumes "roster E orgs s" "m \<in> set (users_organizations s)"
    and "confirmed_owner (m_org_uuid m) m \<Longrightarrow> \<not> count_confirmed_by_org_and_type (m_org_uuid m) Owner s \<le> 1"
  shows "roster E orgs (Membership_delete E m s)"
proof (rule roster_delete [OF assms(1) Membership_delete_tables(1) Membership_delete_quiet])
  fix org
  assume "org \<in> orgs"
  then obtain x where x: "x \<in> set (users_organizations s)" "confirmed_owner org x"
    using assms(1) by (auto simp: roster_def has_owner_def)
  have key: "keyed m_uuid (users_organizations s)" using assms(1) by (simp add: roster_def)
  show "\<exists>x \<in> set (users_organizations s). confirmed_owner org x \<and> m_uuid x \<noteq> m_uuid m"
  proof (cases "m_uuid x = m_uuid m")
    case True
    then have "x = m" using keyed_unique [OF key x(1) assms(2)] by simp
    then have "\<not> count_confirmed_by_org_and_type org Owner s \<le> 1"
      using assms(3) x(2) by (auto simp: confirmed_owner_def)
    then show ?thesis by (rule other_owner [OF key, of org "m_uuid m"]) blast
  qed (use x in blast)
qed

text \<open>All memberships of an account removed, after the check on the last owner.\<close>

lemma delete_all_rows:
  assumes "keyed m_uuid (users_organizations s)"
  shows "users_organizations (Membership_delete_all_by_user E u s) = tbl_delete (\<lambda>m. m_user_uuid m = u) (users_organizations s)"
  using tbl_delete_selected [OF assms, of "\<lambda>m. m_user_uuid m = u"]
  by (simp add: Membership_delete_all_by_user_def Membership_find_any_state_by_user_def member.del_all tbl_delete_def)

lemma delete_org_rows:
  assumes "keyed m_uuid (users_organizations s)"
  shows "users_organizations (Membership_delete_all_by_organization E org s) =
    tbl_delete (\<lambda>m. m_org_uuid m = org) (users_organizations s)"
  using tbl_delete_selected [OF assms, of "\<lambda>m. m_org_uuid m = org"]
  by (simp add: Membership_delete_all_by_organization_def Membership_find_by_org_def member.del_all tbl_delete_def)

lemma fold_delete_quiet: "tick s \<le> tick (fold (Membership_delete E) ms s)
    \<and> u_uuid ` set (users (fold (Membership_delete E) ms s)) \<subseteq> u_uuid ` set (users s)"
  by (induction ms arbitrary: s) (simp_all, meson Membership_delete_quiet le_trans subset_trans)

lemma delete_all_quiet: "tick s \<le> tick (Membership_delete_all_by_user E u s)"
  "u_uuid ` set (users (Membership_delete_all_by_user E u s)) \<subseteq> u_uuid ` set (users s)"
  "tick s \<le> tick (Membership_delete_all_by_organization E org s)"
  "u_uuid ` set (users (Membership_delete_all_by_organization E org s)) \<subseteq> u_uuid ` set (users s)"
  using fold_delete_quiet by (simp_all add: Membership_delete_all_by_user_def Membership_delete_all_by_organization_def)

lemma last_owner_guard_wp:
  "wp (last_owner_guard u) (\<lambda>_ t. t = s \<and> (\<forall>m \<in> set (users_organizations s). m_user_uuid m = u
      \<longrightarrow> confirmed_owner (m_org_uuid m) m \<longrightarrow> \<not> count_confirmed_by_org_and_type (m_org_uuid m) Owner s \<le> 1))
    (\<lambda>_ t. t = s) s"
proof -
  have "wp (act_for ms (\<lambda>member. act_bind (act_get (count_confirmed_by_org_and_type (m_org_uuid member) Owner)) (\<lambda>n.
      err_if (has_type Owner member \<and> n \<le> 1) ''Can't delete last owner'')))
    (\<lambda>_ t. t = s \<and> (\<forall>m \<in> set ms. has_type Owner m \<longrightarrow> \<not> count_confirmed_by_org_and_type (m_org_uuid m) Owner s \<le> 1))
    (\<lambda>_ t. t = s) s" for ms
    by (induction ms) (auto simp: wp_simps elim: wp_mono)
  from wp_mono [OF this [of "Membership_find_confirmed_by_user u s"]] show ?thesis
    by (simp add: last_owner_guard_def wp_simps Membership_find_confirmed_by_user_def confirmed_owner_def has_status_def)
qed

lemma roster_delete_all:
  assumes r: "roster E orgs s"
    and g: "\<forall>m \<in> set (users_organizations s). m_user_uuid m = u \<longrightarrow> confirmed_owner (m_org_uuid m) m
      \<longrightarrow> \<not> count_confirmed_by_org_and_type (m_org_uuid m) Owner s \<le> 1"
  shows "roster E orgs (Membership_delete_all_by_user E u s)"
proof (rule roster_delete [OF r delete_all_rows delete_all_quiet(1,2)])
  show key: "keyed m_uuid (users_organizations s)" using r by (simp add: roster_def)
  fix org
  assume "org \<in> orgs"
  then obtain x where x: "x \<in> set (users_organizations s)" "confirmed_owner org x"
    using r by (auto simp: roster_def has_owner_def)
  show "\<exists>x \<in> set (users_organizations s). confirmed_owner org x \<and> m_user_uuid x \<noteq> u"
  proof (cases "m_user_uuid x = u")
    case True
    then have "\<not> count_confirmed_by_org_and_type org Owner s \<le> 1" using g x by (auto simp: confirmed_owner_def)
    then obtain y where y: "y \<in> set (users_organizations s)" "confirmed_owner org y" "m_uuid y \<noteq> m_uuid x"
      by (rule other_owner [OF key])
    have uniq: "keyed (\<lambda>m. (m_user_uuid m, m_org_uuid m)) (users_organizations s)"
      using r by (simp add: roster_def members_unique_keyed)
    have "x = y" if "m_user_uuid y = u"
      by (rule keyed_unique [OF uniq x(1) y(1)]) (use True that x(2) y(2) in \<open>simp add: confirmed_owner_def\<close>)
    with y show ?thesis by metis
  qed (use x in blast)
qed

lemma User_delete_roster: "roster E orgs s \<Longrightarrow> wp (User_delete E u) (\<lambda>_. roster E orgs) (\<lambda>_. roster E orgs) s"
proof -
  assume r: "roster E orgs s"
  let ?g = "\<lambda>t. \<forall>m \<in> set (users_organizations t). m_user_uuid m = u_uuid u \<longrightarrow> confirmed_owner (m_org_uuid m) m
      \<longrightarrow> \<not> count_confirmed_by_org_and_type (m_org_uuid m) Owner t \<le> 1"
  let ?s3 = "EmergencyAccess_delete_all_by_grantee_email E (u_email u) (EmergencyAccess_delete_all_by_user E (u_uuid u)
      (Send_delete_all_by_user E (u_uuid u) s))"
  have c: "calm s ?s3" using calm_sends calm_emergency calm_trans by meson
  have rest: "stable (calm t) (act_seq (Cipher_delete_all_by_user E (u_uuid u))
     (act_seq (act_upd (fav_delete_all_by_user (u_uuid u)))
     (act_seq (act_upd (Folder_delete_all_by_user E (u_uuid u)))
     (act_seq (act_upd (Device_delete_all_by_user (u_uuid u)))
     (act_seq (act_upd (TwoFactor_delete_all_by_user (u_uuid u)))
     (act_seq (act_upd (ti_delete_all_by_user (u_uuid u)))
     (act_seq (act_upd (\<lambda>s. snd (Invitation_take E (u_email u) s)))
     (user_row_delete (u_uuid u))))))))) " for t
    by (intro stable_intros calms)
  have "roster E orgs (Membership_delete_all_by_user E (u_uuid u) ?s3)" if g: "?g s"
    by (rule roster_delete_all [OF roster_calm [OF r c]])
      (use g c in \<open>simp add: calm_def count_confirmed_by_org_and_type_def\<close>)
  then have "wp (act_seq (act_upd (Membership_delete_all_by_user E (u_uuid u))) k) (\<lambda>_. roster E orgs) (\<lambda>_. roster E orgs) ?s3"
    if "?g s" "\<And>t. stable (calm t) k" for k :: "(server, unit) act"
    using that by (auto simp: wp_simps intro!: wp_calm)
  note members = this [OF _ rest]
  show ?thesis unfolding User_delete_def
    by (rule wp_then [OF last_owner_guard_wp]) (use members r in \<open>simp_all add: wp_simps\<close>)
qed

section \<open>The handlers\<close>

lemma find_member:
  assumes "Membership_find_by_uuid_and_org i org s = Some m"
  shows "m \<in> set (users_organizations s)" "m_org_uuid m = org" "m_uuid m = i"
  using assms by (auto simp: Membership_find_by_uuid_and_org_def dest!: tbl_first_Some)

text \<open>Going through the calm stretch of a handler, up to a write of the member read at its start.\<close>

lemma wp_calm_then:
  assumes "\<And>t. stable (calm t) m" "calm s0 s" "\<And>t. calm s0 t \<Longrightarrow> wp k Q R t" "\<And>e t. calm s0 t \<Longrightarrow> R e t"
  shows "wp (act_seq m k) Q R s"
  by (rule wp_then [OF wp_stable [OF assms(1,2), where Q = "\<lambda>_. calm s0" and R = "\<lambda>_. calm s0"]])
    (use assms(3,4) in auto)

lemma wp_calm_bind:
  assumes "\<And>t. stable (calm t) m" "calm s0 s" "\<And>a t. calm s0 t \<Longrightarrow> wp (f a) Q R t" "\<And>e t. calm s0 t \<Longrightarrow> R e t"
  shows "wp (act_bind m f) Q R s"
  by (rule wp_after [OF wp_stable [OF assms(1,2), where Q = "\<lambda>_. calm s0" and R = "\<lambda>_. calm s0"]])
    (use assms(3,4) in auto)

lemma wp_save:
  assumes "roster E orgs s" "calm s t" "x \<in> set (users_organizations s)"
    and "m_uuid x' = m_uuid x" "m_user_uuid x' = m_user_uuid x" "m_org_uuid x' = m_org_uuid x"
    and "confirmed_owner (m_org_uuid x) x \<Longrightarrow>
      confirmed_owner (m_org_uuid x) x' \<or> \<not> count_confirmed_by_org_and_type (m_org_uuid x) Owner s \<le> 1"
  shows "roster E orgs (Membership_save E x' t)"
  by (rule roster_save [OF roster_calm [OF assms(1,2)], of x])
    (use assms(2-7) in \<open>simp_all add: calm_def count_confirmed_by_org_and_type_def\<close>)

lemma delete_member_roster:
  assumes r: "roster E orgs s"
  shows "wp (delete_member_impl E org_id i headers) (\<lambda>_. roster E orgs) (\<lambda>_. roster E orgs) s"
  unfolding delete_member_impl_def
proof (intro wp_guard wp_read wp_need)
  fix m
  assume m: "Membership_find_by_uuid_and_org i org_id s = Some m"
    and last: "\<not> (has_type Owner m \<and> has_status Confirmed m \<and> count_confirmed_by_org_and_type org_id Owner s \<le> 1)"
  let ?l = "log_event E OrganizationUserRemoved (m_uuid m) org_id (u_uuid (ah_user headers))
      (d_atype (ah_device headers)) (ah_ip headers) s"
  have "roster E orgs (Membership_delete E m ?l)"
    by (rule roster_delete_one [OF roster_calm [OF r calm_log_event]])
      (use find_member [OF m] last in \<open>simp_all add: confirmed_owner_def count_confirmed_by_org_and_type_def\<close>)
  then show "wp (act_seq (act_upd (log_event E OrganizationUserRemoved (m_uuid m) org_id (u_uuid (ah_user headers))
      (d_atype (ah_device headers)) (ah_ip headers))) (act_upd (Membership_delete E m)))
      (\<lambda>_. roster E orgs) (\<lambda>_. roster E orgs) s"
    by (simp add: wp_simps)
qed (rule r)+

text \<open>The write of a member that the handler read at its start, followed by calm statements.\<close>

lemma wp_save_then:
  assumes r: "roster E orgs s" and c: "calm s t" and m: "Membership_find_by_uuid_and_org i org s = Some m"
    and k: "m_uuid m' = m_uuid m" "m_user_uuid m' = m_user_uuid m" "m_org_uuid m' = m_org_uuid m"
    and o: "confirmed_owner org m \<Longrightarrow> confirmed_owner org m' \<or> \<not> count_confirmed_by_org_and_type org Owner s \<le> 1"
  shows "wp (act_upd (Membership_save E m')) (\<lambda>_. roster E orgs) (\<lambda>_. roster E orgs) t"
    and "(\<And>u. stable (calm u) k) \<Longrightarrow>
      wp (act_seq (act_upd (Membership_save E m')) k) (\<lambda>_. roster E orgs) (\<lambda>_. roster E orgs) t"
proof -
  have w: "roster E orgs (Membership_save E m' t)"
    by (rule wp_save [OF r c find_member(1) [OF m] k]) (use o find_member(2) [OF m] in auto)
  then show "wp (act_upd (Membership_save E m')) (\<lambda>_. roster E orgs) (\<lambda>_. roster E orgs) t" by (simp add: wp_simps)
  show "wp (act_seq (act_upd (Membership_save E m')) k) (\<lambda>_. roster E orgs) (\<lambda>_. roster E orgs) t"
    if "\<And>u. stable (calm u) k" using wp_calm [OF that w] by (simp add: wp_simps)
qed

lemma edit_member_roster:
  assumes r: "roster E orgs s"
  shows "wp (edit_member E org_id i data headers) (\<lambda>_. roster E orgs) (\<lambda>_. roster E orgs) s"
  unfolding edit_member_def Let_def
  apply (intro wp_guard wp_read wp_need r)
  apply (rule wp_calm_then [of _ s], (intro stable_intros calms calm_refl)+)
   apply (rule wp_calm_bind [of _ s], (intro stable_intros calms)+, assumption)
    apply (rule wp_calm_then [of _ s], (intro stable_intros calms)+, assumption)+
         apply (erule wp_save_then(1) [OF r], assumption)
  by (auto simp: confirmed_owner_def has_type_def has_status_def intro: roster_calm [OF r])

lemma revoke_member_roster:
  assumes r: "roster E orgs s"
  shows "wp (revoke_member_impl E org_id i headers) (\<lambda>_. roster E orgs) (\<lambda>_. roster E orgs) s"
  unfolding revoke_member_impl_def
  apply (intro wp_guard wp_read wp_need wp_branch wp_fail r)
  apply (rule wp_save_then(2) [OF r calm_refl], assumption)
  by (auto simp: confirmed_owner_def Membership_revoke_def intro: stable_intros calms)

lemma restore_member_roster:
  assumes r: "roster E orgs s"
  shows "wp (restore_member_impl E org_id i headers) (\<lambda>_. roster E orgs) (\<lambda>_. roster E orgs) s"
  unfolding restore_member_impl_def Let_def
  apply (intro wp_guard wp_read wp_need wp_branch wp_fail r)
  apply (rule wp_calm_then [of _ s], (intro stable_intros calms calm_refl)+)
   apply (erule wp_save_then(2) [OF r], assumption)
  by (auto simp: confirmed_owner_def has_status_def Membership_restore_def intro: stable_intros calms roster_calm [OF r])

lemma confirm_invite_roster:
  assumes r: "roster E orgs s"
  shows "wp (confirm_invite_impl E org_id i key headers) (\<lambda>_. roster E orgs) (\<lambda>_. roster E orgs) s"
  unfolding confirm_invite_impl_def Let_def
  apply (intro wp_guard wp_read wp_need r)
  apply (rule wp_calm_then [of _ s], (intro stable_intros calms calm_refl)+)
   apply (rule wp_calm_then [of _ s], (intro stable_intros calms)+, assumption)+
     apply (erule wp_save_then(1) [OF r], assumption)
  by (auto simp: confirmed_owner_def has_status_def intro: roster_calm [OF r])

lemma reinvite_roster:
  assumes r: "roster E orgs s"
  shows "wp (reinvite_member_impl E org_id i by) (\<lambda>_. roster E orgs) (\<lambda>_. roster E orgs) s"
  unfolding reinvite_member_impl_def
  apply (intro wp_guard wp_read wp_need wp_branch r)
  subgoal by (rule wp_calm [OF _ r]) (intro stable_intros)
  subgoal by (rule wp_calm [OF _ r]) (intro stable_intros)
  apply (rule wp_calm_then [of _ s], (intro stable_intros calms calm_refl)+)
   apply (erule wp_save_then(1) [OF r], assumption)
  by (auto simp: confirmed_owner_def has_status_def intro: roster_calm [OF r])

lemma accept_org_invite_roster:
  assumes r: "roster E orgs s" and m: "m \<in> set (users_organizations s)"
    and k: "m_uuid m' = m_uuid m" "m_user_uuid m' = m_user_uuid m" "m_org_uuid m' = m_org_uuid m" "m_status m' = m_status m"
  shows "wp (accept_org_invite E user m' key) (\<lambda>_. roster E orgs) (\<lambda>_. roster E orgs) s"
  unfolding accept_org_invite_def Let_def
  apply (intro wp_guard r)
  apply (rule wp_calm_then [of _ s], (intro stable_intros calms calm_refl)+)
   apply (unfold wp_seq wp_upd)
   apply (rule wp_calm, (intro stable_intros calms)+)
   apply (erule wp_save [OF r _ m])
  by (use k in \<open>auto simp: confirmed_owner_def has_status_def intro: roster_calm [OF r]\<close>)

lemma accept_invite_roster:
  assumes r: "roster E orgs s"
  shows "wp (org_accept_invite E org_id i data headers) (\<lambda>_. roster E orgs) (\<lambda>_. roster E orgs) s"
proof -
  have main: "wp (act_seq (act_upd (\<lambda>s. snd (Invitation_take E (ic_email c) s)))
     (if ic_member_id c \<noteq> FAKE_ADMIN_UUID
      then act_bind (act_get (Membership_find_by_uuid_and_org (ic_member_id c) (ic_org_id c))) (\<lambda>m.
           act_bind (some_or ''Error accepting the invitation'' m) (\<lambda>membership.
           act_bind (act_get (org_is_reset_password_auto_enroll E (m_org_uuid membership))) (\<lambda>auto.
           act_seq (err_if (auto \<and> ac_reset_password_key data = None)
             ''Reset password key is required, but not provided.'')
           (accept_org_invite E (h_user headers)
              (membership\<lparr>m_invited_by_email := first_some (m_invited_by_email membership) (ic_invited_by_email c)\<rparr>)
              (if auto then ac_reset_password_key data else None)))))
      else act_when (mail_enabled (conf E))
        (send_mail E (OrgInviteConfirmed (ic_email c) (invitation_org_name (conf E))))))
     (\<lambda>_. roster E orgs) (\<lambda>_. roster E orgs) t" if t: "roster E orgs t" for c t
    unfolding wp_seq wp_upd
    by (intro wp_branch wp_read wp_need wp_guard wp_calm [OF _ roster_calm [OF t calm_invitation]] stable_intros
        roster_calm [OF t calm_invitation] accept_org_invite_roster [OF roster_calm [OF t calm_invitation] find_member(1)])
      simp_all
  show ?thesis unfolding org_accept_invite_def
    by (rule wp_calm_bind [of _ s]; (intro stable_intros calm_refl)?)
      (intro wp_guard main roster_calm [OF r]; assumption)+
qed

lemma leave_roster:
  assumes r: "roster E orgs s" and m: "om_membership headers \<in> set (users_organizations s)"
    "m_org_uuid (om_membership headers) = org_id"
  shows "wp (leave_organization E org_id headers) (\<lambda>_. roster E orgs) (\<lambda>_. roster E orgs) s"
  unfolding leave_organization_def Let_def
  apply (intro wp_guard wp_read r)
  apply (unfold wp_seq wp_upd)
  apply (rule roster_delete_one [OF roster_calm [OF r calm_log_event]])
  by (use m in \<open>auto simp: confirmed_owner_def count_confirmed_by_org_and_type_def\<close>)

text \<open>The policies revoke members below administrators, one after the other: the rows read at the
  start stay, with their roles.\<close>

definition still_there :: "Membership list \<Rightarrow> server \<Rightarrow> bool" where
  "still_there ms t \<longleftrightarrow> (\<forall>x \<in> set ms. \<exists>y \<in> set (users_organizations t). m_uuid y = m_uuid x
     \<and> m_user_uuid y = m_user_uuid x \<and> m_org_uuid y = m_org_uuid x \<and> m_atype y = m_atype x)"

lemma still_there_calm: "still_there ms s \<Longrightarrow> calm s t \<Longrightarrow> still_there ms t"
  by (simp add: still_there_def calm_def)

lemma revoke_keys: "m_uuid (snd (Membership_revoke x)) = m_uuid x" "m_user_uuid (snd (Membership_revoke x)) = m_user_uuid x"
  "m_org_uuid (snd (Membership_revoke x)) = m_org_uuid x" "m_atype (snd (Membership_revoke x)) = m_atype x"
  by (simp_all add: Membership_revoke_def)

lemma revoke_in_loop:
  assumes r: "roster E orgs t" and st: "still_there ms t" and x: "x \<in> set ms" and low: "i32_lt (m_atype x) Admin"
  shows "roster E orgs (Membership_save E (snd (Membership_revoke x)) t)
    \<and> still_there ms (Membership_save E (snd (Membership_revoke x)) t)"
proof
  obtain y where y: "y \<in> set (users_organizations t)" "m_uuid y = m_uuid x" "m_user_uuid y = m_user_uuid x"
      "m_org_uuid y = m_org_uuid x" "m_atype y = m_atype x" using st x by (auto simp: still_there_def)
  show "roster E orgs (Membership_save E (snd (Membership_revoke x)) t)"
    by (rule roster_save [OF r y(1)]) (use y low in \<open>auto simp: revoke_keys confirmed_owner_def has_type_def lt_Admin_iff\<close>)
  have key: "keyed m_uuid (users_organizations t)" using r by (simp add: roster_def)
  have "\<exists>v \<in> set (users_organizations (Membership_save E (snd (Membership_revoke x)) t)). m_uuid v = m_uuid z
     \<and> m_user_uuid v = m_user_uuid z \<and> m_org_uuid v = m_org_uuid z \<and> m_atype v = m_atype z" if z: "z \<in> set ms" for z
  proof -
    obtain w where w: "w \<in> set (users_organizations t)" "m_uuid w = m_uuid z" "m_user_uuid w = m_user_uuid z"
      "m_org_uuid w = m_org_uuid z" "m_atype w = m_atype z" using st z by (auto simp: still_there_def)
    show ?thesis
    proof (cases "m_uuid w = m_uuid x")
      case True
      then have "w = y" using keyed_unique [OF key w(1) y(1)] y(2) by simp
      then show ?thesis using w y by (auto simp: member.set_put revoke_keys)
    qed (use w in \<open>auto simp: member.set_put revoke_keys\<close>)
  qed
  then show "still_there ms (Membership_save E (snd (Membership_revoke x)) t)" by (simp add: still_there_def)
qed

text \<open>The body of such a loop: calm statements around the revocation.\<close>

lemma revoke_step:
  assumes "roster E orgs t \<and> still_there ms t" "x \<in> set ms" "i32_lt (m_atype x) Admin"
    and "\<And>u. stable (calm u) before" "\<And>u. stable (calm u) after"
  shows "wp (act_seq before (act_seq (act_upd (Membership_save E (snd (Membership_revoke x)))) after))
    (\<lambda>_ u. roster E orgs u \<and> still_there ms u) (\<lambda>_. roster E orgs) t"
    and "wp (act_seq before (act_upd (Membership_save E (snd (Membership_revoke x)))))
    (\<lambda>_ u. roster E orgs u \<and> still_there ms u) (\<lambda>_. roster E orgs) t"
proof -
  have ok: "roster E orgs u \<and> still_there ms u" if "calm t u" for u
    using assms(1) that roster_calm still_there_calm by blast
  have save: "roster E orgs (Membership_save E (snd (Membership_revoke x)) u)
      \<and> still_there ms (Membership_save E (snd (Membership_revoke x)) u)" if "calm t u" for u
    using ok [OF that] revoke_in_loop [OF _ _ assms(2,3)] by blast
  have "wp after (\<lambda>_ u. roster E orgs u \<and> still_there ms u) (\<lambda>_. roster E orgs) u"
    if "roster E orgs u \<and> still_there ms u" for u
    by (rule wp_stable [OF assms(5) calm_refl]) (use that roster_calm still_there_calm in blast)+
  with save ok assms(4) show
    "wp (act_seq before (act_seq (act_upd (Membership_save E (snd (Membership_revoke x)))) after))
      (\<lambda>_ u. roster E orgs u \<and> still_there ms u) (\<lambda>_. roster E orgs) t"
    "wp (act_seq before (act_upd (Membership_save E (snd (Membership_revoke x)))))
      (\<lambda>_ u. roster E orgs u \<and> still_there ms u) (\<lambda>_. roster E orgs) t"
    by (intro wp_calm_then [of before t t]; simp add: wp_simps)+
qed

lemma revoke_loop:
  assumes r: "roster E orgs s" and ms: "set ms \<subseteq> set (users_organizations s)"
    and body: "\<And>x t. x \<in> set ms \<Longrightarrow> roster E orgs t \<and> still_there ms t \<Longrightarrow>
      wp (f x) (\<lambda>_ u. roster E orgs u \<and> still_there ms u) (\<lambda>_. roster E orgs) t"
  shows "wp (act_for ms f) (\<lambda>_. roster E orgs) (\<lambda>_. roster E orgs) s"
proof -
  have "still_there ms s" using ms by (auto simp: still_there_def)
  with r have "wp (act_for ms f) (\<lambda>_ u. roster E orgs u \<and> still_there ms u) (\<lambda>_. roster E orgs) s"
    by (intro wp_for body) simp_all
  then show ?thesis by (rule wp_mono) simp_all
qed

lemma enforce_2fa_roster:
  assumes r: "roster E orgs s"
  shows "wp (enforce_2fa_policy_for_org E org_id u d ip) (\<lambda>_. roster E orgs) (\<lambda>_. roster E orgs) s"
    "wp (enforce_2fa_policy E user u d ip) (\<lambda>_. roster E orgs) (\<lambda>_. roster E orgs) s"
proof -
  have conf: "set (Membership_find_confirmed_by_org org_id s) \<subseteq> set (users_organizations s)"
    "set (Membership_find_by_user_and_policy (u_uuid user) p s) \<subseteq> set (users_organizations s)" for p
    by (auto simp: Membership_find_confirmed_by_org_def Membership_find_by_user_and_policy_def in_comp)
  show "wp (enforce_2fa_policy_for_org E org_id u d ip) (\<lambda>_. roster E orgs) (\<lambda>_. roster E orgs) s"
    unfolding enforce_2fa_policy_for_org_def Let_def
    apply (intro wp_read wp_unwrap r)
    apply (rule revoke_loop [OF r conf(1)])
    apply (intro wp_read wp_only_if)
     apply (rule revoke_step(1), assumption, assumption, simp, (intro stable_intros calms)+)
    by assumption
  show "wp (enforce_2fa_policy E user u d ip) (\<lambda>_. roster E orgs) (\<lambda>_. roster E orgs) s"
    unfolding enforce_2fa_policy_def Let_def
    apply (intro wp_read)
    apply (rule revoke_loop [OF r conf(2)])
    apply (intro wp_read wp_only_if)
     apply (rule revoke_step(1), assumption, assumption, simp, (intro stable_intros calms)+)
    by assumption
qed

lemma enforce_single_org_roster:
  assumes r: "roster E orgs s"
  shows "wp (enforce_single_org E org_id headers) (\<lambda>_. roster E orgs) (\<lambda>_. roster E orgs) s"
proof -
  have assoc: "wp (act_seq a (act_seq b c)) Q R t = wp (act_seq (act_seq a b) c) Q R t"
    for a b and c :: "(server, unit) act" and Q R t by (simp add: wp_seq)
  have ms: "set (Membership_find_by_org org_id s) \<subseteq> set (users_organizations s)"
    by (auto simp: Membership_find_by_org_def)
  show ?thesis unfolding enforce_single_org_def Let_def
    apply (intro wp_read)
    apply (rule revoke_loop [OF r ms])
    apply (intro wp_read wp_only_if)
     apply (unfold assoc)
     apply (rule revoke_step(2) [where after = "act_ret ()"], assumption, assumption, simp, (intro stable_intros calms)+)
    by assumption
qed

lemma put_policy_roster:
  assumes r: "roster E orgs s"
  shows "wp (put_policy E org_id pt data headers) (\<lambda>_. roster E orgs) (\<lambda>_. roster E orgs) s"
proof -
  have order: "stable (calm u) (check_policy_order E org_id ty b)" for u ty b
    unfolding check_policy_order_def by (intro stable_intros)
  have find: "calm u (snd (case OrgPolicy_find_by_org_and_type org_id ty u of
      Some p \<Rightarrow> (p, u) | None \<Rightarrow> OrgPolicy_new E org_id ty False d u))" for ty d u
    by (simp add: calm_policy split: option.split)
  show ?thesis unfolding put_policy_def Let_def
    apply (intro wp_guard wp_need r)
    apply (rule wp_then [OF wp_calm [OF order r]])
     apply (rule wp_then [where Q' = "\<lambda>_. roster E orgs" and R' = "\<lambda>_. roster E orgs"])
       apply (intro wp_only_if enforce_2fa_roster; assumption)
      apply (rule wp_then [where Q' = "\<lambda>_. roster E orgs" and R' = "\<lambda>_. roster E orgs"])
        apply (intro wp_only_if enforce_single_org_roster; assumption)
       apply (rule wp_calm, (intro stable_intros calms find)+)
    by assumption+
qed

lemma bulk_roster:
  assumes "\<And>x s. roster E orgs s \<Longrightarrow> wp (f x) (\<lambda>_. roster E orgs) (\<lambda>_. roster E orgs) s" "roster E orgs s"
  shows "wp (bulk f xs) (\<lambda>_. roster E orgs) (\<lambda>_. roster E orgs) s"
  using assms(2)
proof (induction xs arbitrary: s)
  case (Cons x xs)
  have "wp (act_catch (act_seq (f x) (act_ret [])) act_ret) (\<lambda>_. roster E orgs) (\<lambda>_. roster E orgs) s"
    unfolding wp_catch wp_seq wp_ret
    by (rule wp_mono [OF assms(1) [OF Cons.prems]]) (auto split: if_split)
  then show ?case by (auto simp: wp_bind wp_ret elim!: wp_mono dest!: Cons.IH)
qed (simp add: wp_simps)

lemma bulk_confirm_roster:
  assumes "roster E orgs s"
  shows "wp (bulk_confirm_loop E org_id headers ks) (\<lambda>_. roster E orgs) (\<lambda>_. roster E orgs) s"
  using assms
proof (induction ks arbitrary: s)
  case (Cons k ks)
  have one: "wp (act_catch (act_seq (confirm_invite_impl E org_id i key headers) (act_ret [])) act_ret)
      (\<lambda>_. roster E orgs) (\<lambda>_. roster E orgs) s" for i key
    unfolding wp_catch wp_seq wp_ret
    by (rule wp_mono [OF confirm_invite_roster [OF Cons.prems]]) (auto split: if_split)
  show ?case unfolding bulk_confirm_loop.simps
    by (intro wp_unwrap Cons.prems) (auto simp: wp_bind wp_ret intro!: wp_mono [OF one] dest!: Cons.IH)
qed (simp add: wp_simps)

section \<open>New members\<close>

lemma roster_add:
  assumes r: "roster E orgs s" and new: "m_uuid m \<notin> m_uuid ` set (users_organizations s)"
    and pair: "\<not> (\<exists>x \<in> set (users_organizations s). m_user_uuid x = m_user_uuid m \<and> m_org_uuid x = m_org_uuid m)"
    and un: "unused E s (m_uuid m)" "unused E s (m_user_uuid m)" "unused E s (m_org_uuid m)"
  shows "roster E orgs (Membership_save E m s)"
proof -
  let ?u = "update_uuid_revision E (m_user_uuid m) s"
  have r': "roster E orgs ?u" by (rule roster_calm [OF r calm_revision])
  have t: "Membership_save E m s = ?u\<lparr>users_organizations := users_organizations s @ [m]\<rparr>"
    using new by (simp add: Membership_save_def Let_def tbl_upsert_def image_iff eq_commute)
  have "unused E ?u i" if "unused E s i" for i
    using unused_mono [OF that] calm_revision [of s E "m_user_uuid m"] by (simp add: calm_def)
  then show ?thesis using r' new pair un unfolding t
    by (auto simp: roster_def keyed_def members_unique_def has_owner_def unused_def image_iff)
qed

lemma fresh_unused:
  assumes "inj (uuid_at E)" "n < tick t"
  shows "unused E t (uuid_at E n)"
  using assms by (auto simp: unused_def inj_eq)

definition stranger :: "OrganizationId \<Rightarrow> UserId \<Rightarrow> server \<Rightarrow> bool" where
  "stranger org u t \<longleftrightarrow> \<not> (\<exists>x \<in> set (users_organizations t). m_user_uuid x = u \<and> m_org_uuid x = org)"

lemma User_new_simps: "u_uuid (fst (User_new E email name s)) = uuid_at E (Suc (tick s))"
  "snd (User_new E email name s) = s\<lparr>tick := tick s + 4\<rparr>"
  by (simp_all add: User_new_def Let_def utc_now_def get_uuid_def get_random_bytes_def)

lemma User_save_new:
  assumes r: "roster E orgs s" and un: "unused E s (u_uuid u)"
  shows "wp (User_save E u) (\<lambda>v t. roster E orgs t \<and> u_uuid v = u_uuid u \<and> tick s \<le> tick t
      \<and> users_organizations t = users_organizations s) (\<lambda>_. roster E orgs) s"
proof -
  have "roster E orgs (s\<lparr>tick := Suc (tick s), users := tbl_upsert u_uuid (u\<lparr>u_updated_at := d\<rparr>) (users s)\<rparr>)" for d
    using r un by (auto simp: roster_def members_unique_def has_owner_def unused_def set_tbl_upsert)
  moreover have "roster E orgs (bump s)" by (rule roster_calm [OF r calm_bump(1)])
  ultimately show ?thesis using r by (auto simp: User_save_def wp_simps Let_def)
qed

lemma invited_user_wp:
  assumes inj: "inj (uuid_at E)" and r: "roster E orgs s"
  shows "wp (invited_user E org email) (\<lambda>(u, created, st) t. roster E orgs t \<and> unused E t (u_uuid u)
      \<and> stranger org (u_uuid u) t \<and> tick s \<le> tick t \<and> st \<noteq> MembershipStatus_i32 Confirmed) (\<lambda>_. roster E orgs) s"
proof (cases "User_find_by_mail E email s")
  case (Some u)
  then have "u \<in> set (users s)" by (auto simp: User_find_by_mail_def dest: tbl_first_Some)
  then have un: "unused E s (u_uuid u)" using r by (simp add: roster_def)
  have "stranger org (u_uuid u) s" if "Membership_find_by_user_and_org (u_uuid u) org s = None"
    using that by (auto simp: stranger_def Membership_find_by_user_and_org_def tbl_first_None)
  with Some un r show ?thesis by (auto simp: invited_user_def wp_simps)
next
  case None
  let ?rest = "act_bind (act_run (User_new E email None)) (\<lambda>new_user.
          act_bind (User_save E new_user) (\<lambda>new_user. act_ret (new_user, True, MembershipStatus_i32 Invited)))"
  have rest: "wp ?rest (\<lambda>(u, created, st) t. roster E orgs t \<and> unused E t (u_uuid u)
      \<and> stranger org (u_uuid u) t \<and> tick s \<le> tick t \<and> st \<noteq> MembershipStatus_i32 Confirmed) (\<lambda>_. roster E orgs) t"
    if c: "calm s t" for t
  proof -
    let ?u = "fst (User_new E email None t)" and ?t = "t\<lparr>tick := tick t + 4\<rparr>"
    have rt: "roster E orgs t" by (rule roster_calm [OF r c])
    have r4: "roster E orgs ?t" by (rule roster_calm [OF rt]) (simp add: calm_def)
    have un: "unused E ?t (u_uuid ?u)" by (simp add: User_new_simps fresh_unused [OF inj])
    have "stranger org (u_uuid ?u) t"
      using rt by (auto simp: stranger_def roster_def unused_def User_new_simps) (metis Suc_n_not_le_n nat_le_linear)
    then show ?thesis using c unused_mono [OF un]
      by (auto simp: wp_bind wp_run User_new_simps wp_ret stranger_def calm_def intro!: wp_mono [OF User_save_new [OF r4 un]])
  qed
  show ?thesis unfolding invited_user_def
    by (intro wp_read; simp only: None option.case)
      (intro wp_guard r wp_calm_then [of _ s s] stable_intros calm_refl rest roster_calm [OF r]; assumption)
qed

text \<open>The mail of an invitation: sent, or the account or the membership removed again.\<close>

lemma invite_mail_roster:
  assumes r: "roster E orgs s" and m: "m \<in> set (users_organizations s)" "\<not> has_status Confirmed m"
  shows "wp (invite_mail E org headers created u m) (\<lambda>_ t. calm s t) (\<lambda>_. roster E orgs) s"
proof -
  have undo: "wp (act_seq (if created then User_delete E u else act_upd (Membership_delete E m)) (act_err e))
      (\<lambda>_ t. calm s t) (\<lambda>_. roster E orgs) t" if c: "calm s t" for e t
  proof -
    have "roster E orgs (Membership_delete E m t)"
      by (rule roster_delete_one [OF roster_calm [OF r c]]) (use m c in \<open>auto simp: calm_def confirmed_owner_def\<close>)
    with User_delete_roster [OF roster_calm [OF r c], of u] show ?thesis by (simp add: wp_simps)
  qed
  show ?thesis unfolding invite_mail_def
    apply (intro wp_read wp_need r)
    apply (unfold wp_catch)
    apply (rule wp_stable [where I = "calm s"], (intro stable_intros calm_refl)+, assumption)
    by (use undo roster_calm [OF r] in \<open>auto split: if_split\<close>)
qed

lemma invite_one:
  assumes inj: "inj (uuid_at E)" and r: "roster E orgs s" and un: "unused E s (u_uuid u)" "unused E s org"
    and new: "stranger org (u_uuid u) s" and st: "st \<noteq> MembershipStatus_i32 Confirmed"
    and rest: "\<And>t. roster E orgs t \<Longrightarrow> unused E t org \<Longrightarrow> wp k (\<lambda>_. roster E orgs) (\<lambda>_. roster E orgs) t"
  shows "wp (act_bind (act_run (Membership_new E (u_uuid u) org (Some (u_email (ah_user headers))))) (\<lambda>m.
     act_seq (act_upd (Membership_save E (m\<lparr>m_access_all := access, m_atype := ty, m_status := st\<rparr>)))
     (act_seq (act_when (mail_enabled (conf E)) (invite_mail E org headers created u
        (m\<lparr>m_access_all := access, m_atype := ty, m_status := st\<rparr>)))
     (act_seq (act_upd (log_event E OrganizationUserInvited (m_uuid m)
        org (u_uuid (ah_user headers)) (d_atype (ah_device headers)) (ah_ip headers)))
     (act_seq (act_when (\<not> access) (save_collections E org (u_uuid u) cols))
     (act_seq (save_groups E (m_uuid m) gs) k))))))
     (\<lambda>_. roster E orgs) (\<lambda>_. roster E orgs) s"
proof -
  let ?n = "fst (Membership_new E (u_uuid u) org (Some (u_email (ah_user headers))) s)"
  let ?m = "?n\<lparr>m_access_all := access, m_atype := ty, m_status := st\<rparr>" and ?s = "bump s"
  let ?t = "Membership_save E ?m ?s"
  have m: "m_uuid ?m = uuid_at E (tick s)" "m_user_uuid ?m = u_uuid u" "m_org_uuid ?m = org" "m_status ?m = st"
    by (simp_all add: Membership_new_def get_uuid_def)
  have rs: "roster E orgs ?s" by (rule roster_calm [OF r calm_bump(1)])
  have t: "roster E orgs ?t"
  proof (rule roster_add [OF rs])
    show "m_uuid ?m \<notin> m_uuid ` set (users_organizations ?s)"
      using r unfolding m(1) by (auto simp: roster_def unused_def)
    show "unused E ?s (m_uuid ?m)" unfolding m(1) by (rule fresh_unused [OF inj]) simp
  qed (use un new m in \<open>auto simp: stranger_def unused_def\<close>)
  have mem: "?m \<in> set (users_organizations ?t)" by (simp add: member.set_put)
  have tick: "tick s \<le> tick ?t" using calm_revision [of ?s E "m_user_uuid ?m"] by (simp add: Membership_save_def Let_def calm_def)
  have snd: "snd (Membership_new E (u_uuid u) org (Some (u_email (ah_user headers))) s) = ?s"
    by (simp add: Membership_new_def get_uuid_def)
  have k: "wp k (\<lambda>_. roster E orgs) (\<lambda>_. roster E orgs) v" if c: "calm ?t v" for v
    by (rule rest [OF roster_calm [OF t c] unused_mono [OF un(2)]]) (use tick c in \<open>simp add: calm_def\<close>)
  show ?thesis unfolding wp_bind wp_run snd wp_seq wp_upd
    apply (rule wp_mono [where Q = "\<lambda>_ v. calm ?t v" and R = "\<lambda>_. roster E orgs"])
    subgoal using invite_mail_roster [OF t mem] st m(4) by (intro wp_only_if) (auto simp: has_status_def)
     apply (rule wp_stable [of "calm ?t"], (intro stable_intros calms)+, (rule calm_trans, assumption, rule calm_log_event)+)
      apply (rule wp_stable [of "calm ?t"], (intro stable_intros calms)+, assumption)
    by (use k roster_calm [OF t] in auto)
qed

lemma send_invites_roster:
  assumes inj: "inj (uuid_at E)" and "roster E orgs s" "unused E s org"
  shows "wp (send_invites E org data headers ty access created emails) (\<lambda>_. roster E orgs) (\<lambda>_. roster E orgs) s"
  using assms(2,3)
proof (induction emails arbitrary: s created)
  case (Cons email emails)
  show ?case unfolding send_invites.simps Let_def
    by (rule wp_after [OF invited_user_wp [OF inj Cons.prems(1)]])
      (auto split: prod.splits simp del: MembershipStatus_i32.simps intro!: invite_one [OF inj] Cons.IH unused_mono [OF Cons.prems(2)])
qed (simp add: wp_simps)

lemma send_invite_roster:
  assumes inj: "inj (uuid_at E)" and r: "roster E orgs s" "unused E s org"
  shows "wp (org_send_invite E org data headers) (\<lambda>_. roster E orgs) (\<lambda>_. roster E orgs) s"
proof -
  have val: "stable (calm t) (InviteData_validate data org)" for t
    unfolding InviteData_validate_def by (intro stable_intros)
  show ?thesis unfolding org_send_invite_def Let_def
    apply (intro wp_guard r(1))
    apply (rule wp_calm_then [of _ s], (intro val calm_refl)+)
     apply (intro wp_need wp_guard send_invites_roster [OF inj] roster_calm [OF r(1)], assumption+)
    by (use unused_mono [OF r(2)] roster_calm [OF r(1)] in \<open>auto simp: calm_def\<close>)
qed

lemma calm_seal:
  assumes "calm s t" "users_organizations u = users_organizations t" "users u = users t" "tick u = tick t"
  shows "calm s u"
  using assms by (simp add: calm_def)

lemma create_organization_roster:
  assumes inj: "inj (uuid_at E)" and r: "roster E orgs s" and u: "unused E s (u_uuid (h_user headers))"
  shows "wp (create_organization E data headers) (\<lambda>_. roster E orgs) (\<lambda>_. roster E orgs) s"
  unfolding create_organization_def Let_def
  apply (intro wp_guard wp_read r)
  subgoal premises _
  proof -
    let ?o = "fst (Organization_new E (od_name data) (od_billing_email data)
        (map_option okd_encrypted_private_key (od_keys data)) (map_option okd_public_key (od_keys data)) s)"
    let ?n = "fst (Membership_new E (u_uuid (h_user headers)) (o_uuid ?o) None (bump s))"
    let ?m = "?n\<lparr>m_akey := od_key data, m_access_all := True, m_atype := MembershipType_i32 Owner,
            m_status := MembershipStatus_i32 Confirmed\<rparr>"
    let ?c = "fst (Collection_new E (o_uuid ?o) (od_collection_name data) None (bump (bump s)))"
    have o: "o_uuid ?o = uuid_at E (tick s)" by (simp add: Organization_new_def get_uuid_def)
    have m: "m_uuid ?m = uuid_at E (Suc (tick s))" "m_user_uuid ?m = u_uuid (h_user headers)" "m_org_uuid ?m = o_uuid ?o"
      by (simp_all add: Membership_new_def get_uuid_def)
    have snds: "snd (Organization_new E n em a b s) = bump s" "snd (Membership_new E v w x (bump s)) = bump (bump s)"
      "snd (Collection_new E y z cc (bump (bump s))) = bump (bump (bump s))" for n em a b v w x y z cc
      by (simp_all add: Organization_new_def Membership_new_def Collection_new_def Let_def get_uuid_def)
    have c3: "calm s (bump (bump (bump s)))" by (simp add: calm_def)
    have save: "roster E orgs (Membership_save E ?m t)" if c: "calm (bump (bump (bump s))) t" for t
    proof (rule roster_add [OF roster_calm [OF r calm_trans [OF c3 c]]])
      have U: "users_organizations t = users_organizations s" using c by (simp add: calm_def)
      have k: "tick s \<le> tick t" "Suc (tick s) < tick t" using c by (simp_all add: calm_def)
      show "m_uuid ?m \<notin> m_uuid ` set (users_organizations t)" "\<not> (\<exists>x\<in>set (users_organizations t).
          m_user_uuid x = m_user_uuid ?m \<and> m_org_uuid x = m_org_uuid ?m)"
        using r unfolding m U unfolding o by (auto simp: roster_def unused_def) (metis order_refl)
      show "unused E t (m_uuid ?m)" "unused E t (m_user_uuid ?m)" "unused E t (m_org_uuid ?m)"
        unfolding m unfolding o by (rule fresh_unused [OF inj] unused_mono [OF u]; use k in simp)+
    qed
    show ?thesis unfolding wp_bind [of "act_run _"] wp_run snds
      apply (rule wp_calm_then [of _ "bump (bump (bump s))"], (intro stable_intros calm_refl)+)
       apply (unfold wp_seq wp_upd wp_ret)
       apply (rule roster_calm [OF save calm_collection(1)], assumption)
      by (rule roster_calm [OF r calm_trans [OF c3]])
  qed
  done

lemma calm_validate [stable_intros]: "stable (calm s0) (PasswordOrOtpData_validate E data u b)"
proof -
  have time: "calm s (snd (time_since_sent E d s))" for d s
    by (simp add: time_since_sent_def Let_def utc_now_def calm_def)
  have "stable (calm s0) (validate_protected_action_otp E otp i b)" for otp i
    unfolding validate_protected_action_otp_def Let_def by (intro stable_intros calms time)
  then show ?thesis unfolding PasswordOrOtpData_validate_def
    by (auto split: option.split intro!: stable_intros)
qed

lemma delete_account_roster:
  assumes r: "roster E orgs s"
  shows "wp (delete_account E data headers) (\<lambda>_. roster E orgs) (\<lambda>_. roster E orgs) s"
  unfolding delete_account_def
  by (rule wp_calm_then [of _ s], (intro stable_intros calm_refl)+)
    (use User_delete_roster roster_calm [OF r] in blast)+

lemma delete_organization_roster:
  assumes r: "roster E orgs s" and org: "org_id \<notin> orgs"
  shows "wp (delete_organization E org_id data headers) (\<lambda>_. roster E orgs) (\<lambda>_. roster E orgs) s"
proof -
  have cu: "calm t (Collection_update_users_revision E c t)" for c t
    unfolding Collection_update_users_revision_def by (rule calm_fold) (rule calm_revision)
  have gus: "calm t (fold (update_user_revision E) gus t)" for gus t by (rule calm_fold) (rule calm_user_revision)
  have d1: "calm t (cu_delete_all_by_collection E i t)" for i t
    unfolding cu_delete_all_by_collection_def Let_def
    by (rule calm_seal [OF calm_fold [of "\<lambda>cu. update_uuid_revision E (cu_user_uuid cu)"]]) (simp_all add: calm_revision)
  have d2: "calm t (cg_delete_all_by_collection E i o' t)" for i o' t
    unfolding cg_delete_all_by_collection_def Let_def
    by (rule calm_seal [OF calm_fold [of "\<lambda>cg s. fold (update_user_revision E) (gu_find_by_group (cg_groups_uuid cg) o' s) s"]])
      (simp_all add: gus)
  have d3: "calm t (cc_delete_all_by_collection i t)" for i t by (simp add: cc_delete_all_by_collection_def calm_def)
  have "calm t (Collection_delete E c t)" for c t
    unfolding Collection_delete_def Let_def
    by (rule calm_seal [OF calm_trans [OF calm_trans [OF calm_trans [OF cu d3] d1] d2]]) simp_all
  then have cols: "calm t (Collection_delete_all_by_organization E i t)" for i t
    unfolding Collection_delete_all_by_organization_def by (rule calm_fold)
  have g1: "calm t (cg_delete_all_by_group E i o' t)" "calm t (gu_delete_all_by_group E i o' t)" for i o' t
    unfolding cg_delete_all_by_group_def gu_delete_all_by_group_def Let_def by (rule calm_seal [OF gus]; simp)+
  have "calm t (Group_delete E g o' t)" for g o' t
    unfolding Group_delete_def Let_def by (rule calm_seal [OF calm_trans [OF g1(1) g1(2)]]) simp_all
  then have grps: "calm t (Group_delete_all_by_organization E i t)" for i t
    unfolding Group_delete_all_by_organization_def by (rule calm_fold)
  have small: "calm t (OrgPolicy_delete_all_by_organization i t)" "calm t (OrganizationApiKey_delete_all_by_organization i t)" for i t
    by (simp_all add: OrgPolicy_delete_all_by_organization_def OrganizationApiKey_delete_all_by_organization_def calm_def)
  have row: "stable (calm t) (org_row_delete i)" for i t
    unfolding org_row_delete_def by (intro stable_intros calms) (simp add: calm_def)
  have ci: "stable (calm t) (Cipher_delete_all_by_organization E i)" for i t
    unfolding Cipher_delete_all_by_organization_def Cipher_delete_def Attachment_delete_all_by_cipher_def
    by (intro stable_intros calms)
  have gone: "roster E orgs (Membership_delete_all_by_organization E org_id t)" if c: "roster E orgs t" for t
  proof (rule roster_delete [OF c delete_org_rows delete_all_quiet(3,4)])
    show "keyed m_uuid (users_organizations t)" using c by (simp add: roster_def)
    show "\<exists>x \<in> set (users_organizations t). confirmed_owner o' x \<and> m_org_uuid x \<noteq> org_id" if o': "o' \<in> orgs" for o'
      using c o' org by (auto simp: roster_def has_owner_def confirmed_owner_def)
  qed
  have after: "stable (calm u) (act_seq (act_upd (OrgPolicy_delete_all_by_organization i))
     (act_seq (act_upd (Group_delete_all_by_organization E i))
     (act_seq (act_upd (OrganizationApiKey_delete_all_by_organization i)) (org_row_delete i))))" for u i
    by (intro stable_intros calms small grps row)
  have del: "wp (Organization_delete E x) (\<lambda>_. roster E orgs) (\<lambda>_. roster E orgs) t"
    if t: "roster E orgs t" and x: "o_uuid x = org_id" for t x
    unfolding Organization_delete_def x
    apply (rule wp_calm_then [of _ t], (intro ci calm_refl)+)
     apply (rule wp_calm_then [of _ t], (intro calms cols)+, assumption)
      apply (rule wp_then [where Q' = "\<lambda>_. roster E orgs" and R' = "\<lambda>_. roster E orgs"])
        apply (simp add: wp_upd gone roster_calm [OF t])
       apply (rule wp_calm [OF after], assumption)
    by (use roster_calm [OF t] in auto)
  have found: "o_uuid x = org_id" if "Organization_find_by_uuid org_id t = Some x" for x t
    using that by (auto simp: Organization_find_by_uuid_def dest: tbl_first_Some)
  show ?thesis unfolding delete_organization_def
    apply (intro wp_guard r)
    apply (rule wp_calm_then [of _ s], (intro stable_intros calm_refl)+)
     apply (intro wp_read wp_need roster_calm [OF r] del found; assumption)
    by (rule roster_calm [OF r])
qed

end
