(* ===== verification/OrgProps.thy ===== *)
theory OrgProps
  imports OrgLaws DemoServer
begin

text \<open>
  Properties of the organization handlers behind their request guards: what a guard hands on, that
  no sequence of requests leaves an organization without a confirmed owner, what an administrator
  cannot do to owners and administrators, and two ways the handlers go wrong.
\<close>

section \<open>Guards\<close>

lemma touch_calm: "session_touch s t \<Longrightarrow> calm s t"
  by (auto simp: session_touch_def calm_def)

lemma find_user_org:
  assumes "Membership_find_by_user_and_org u org s = Some m"
  shows "m \<in> set (users_organizations s)" "m_user_uuid m = u" "m_org_uuid m = org"
  using tbl_first_Some [OF assms [unfolded Membership_find_by_user_and_org_def]] by auto

lemma session_user: "session_of E r s d u \<Longrightarrow> u \<in> set (users s)"
  by (auto simp: session_of_def User_find_by_uuid_def dest: tbl_first_Some)

lemma OrgHeaders_calm:
  "wp (OrgHeaders_from_request E r) (\<lambda>h t. calm s t \<and> oh_membership h \<in> set (users_organizations s)
      \<and> uuid_from_param E (get_org_id E r) = Some (m_org_uuid (oh_membership h)))
    (\<lambda>_. calm s) s"
  by (rule wp_mono [OF OrgHeaders_wp]) (auto dest: find_user_org touch_calm, simp add: calm_def)

text \<open>A handler behind a guard of an organization.\<close>

lemma guard_admin:
  assumes "\<And>h t. calm s t \<Longrightarrow> ah_org_id h \<in> m_org_uuid ` set (users_organizations t) \<Longrightarrow> wp (f h) Q R t"
    and "\<And>e t. calm s t \<Longrightarrow> R e t"
  shows "wp (act_bind (AdminHeaders_from_request E r) f) Q R s"
  unfolding AdminHeaders_from_request_def
  by (rule wp_after [of _ "\<lambda>h t. calm s t \<and> ah_org_id h \<in> m_org_uuid ` set (users_organizations t)" "\<lambda>_. calm s"],
      rule wp_after [OF OrgHeaders_calm]) (auto simp: wp_simps assms calm_def)

lemma guard_owner:
  assumes "\<And>h t. calm s t \<Longrightarrow> wp (f h) Q R t" "\<And>e t. calm s t \<Longrightarrow> R e t"
  shows "wp (act_bind (OwnerHeaders_from_request E r) f) Q R s"
  unfolding OwnerHeaders_from_request_def
  by (rule wp_after [of _ "\<lambda>_. calm s" "\<lambda>_. calm s"], rule wp_after [OF OrgHeaders_calm])
    (auto simp: wp_simps assms)

lemma guard_member:
  assumes "\<And>h t. calm s t \<Longrightarrow> om_membership h \<in> set (users_organizations t)
      \<Longrightarrow> uuid_from_param E (get_org_id E r) = Some (m_org_uuid (om_membership h)) \<Longrightarrow> wp (f h) Q R t"
    and "\<And>e t. calm s t \<Longrightarrow> R e t"
  shows "wp (act_bind (OrgMemberHeaders_from_request E r) f) Q R s"
  unfolding OrgMemberHeaders_from_request_def
  by (rule wp_after [of _ "\<lambda>h t. calm s t \<and> om_membership h \<in> set (users_organizations t)
      \<and> uuid_from_param E (get_org_id E r) = Some (m_org_uuid (om_membership h))" "\<lambda>_. calm s"],
      rule wp_after [OF OrgHeaders_calm]) (auto simp: wp_simps assms calm_def)

lemma guard_session:
  assumes "\<And>h t. calm s t \<Longrightarrow> h_user h \<in> set (users t) \<Longrightarrow> wp (f h) Q R t" "\<And>e t. calm s t \<Longrightarrow> R e t"
  shows "wp (act_bind (Headers_from_request E r) f) Q R s"
  by (rule wp_after [OF Headers_wp]) (auto simp: calm_def intro!: assms dest: session_user touch_calm)

section \<open>Requests to an organization\<close>

text \<open>The requests that change memberships; \<open>serve_org\<close> runs the handler behind the guard of its
  route, with the organization of the path.\<close>

datatype org_request =
    Create OrgData
  | DeleteOrg PasswordOrOtpData
  | Leave
  | Invite InviteData
  | Reinvite MembershipId
  | BulkReinvite "MembershipId list"
  | Accept MembershipId AcceptData
  | Confirm MembershipId ConfirmData
  | BulkConfirm "ConfirmData list option"
  | Edit MembershipId EditUserData
  | Remove MembershipId
  | BulkRemove "MembershipId list"
  | Revoke MembershipId
  | BulkRevoke "MembershipId list option"
  | Restore MembershipId
  | BulkRestore "MembershipId list"
  | PutPolicy int PolicyData
  | DeleteAccount PasswordOrOtpData

definition in_org :: "env \<Rightarrow> request \<Rightarrow> (OrganizationId \<Rightarrow> (server, unit) act) \<Rightarrow> (server, unit) act" where
  "in_org E r f = act_bind (some_or ''Not Found'' (uuid_from_param E (rq_param r 1))) f"

definition as_admin :: "env \<Rightarrow> request \<Rightarrow> (OrganizationId \<Rightarrow> AdminHeaders \<Rightarrow> (server, unit) act) \<Rightarrow> (server, unit) act" where
  "as_admin E r f = in_org E r (\<lambda>org. act_bind (AdminHeaders_from_request E r) (f org))"

fun serve_org :: "env \<Rightarrow> request \<Rightarrow> org_request \<Rightarrow> (server, unit) act" where
  "serve_org E r (Create d) = act_bind (Headers_from_request E r) (\<lambda>h. act_void (create_organization E d h))"
| "serve_org E r (DeleteOrg d) =
     in_org E r (\<lambda>org. act_bind (OwnerHeaders_from_request E r) (delete_organization E org d))"
| "serve_org E r Leave = in_org E r (\<lambda>org. act_bind (OrgMemberHeaders_from_request E r) (leave_organization E org))"
| "serve_org E r (Invite d) = as_admin E r (\<lambda>org. org_send_invite E org d)"
| "serve_org E r (Reinvite i) = as_admin E r (\<lambda>org. reinvite_member E org i)"
| "serve_org E r (BulkReinvite is) = as_admin E r (\<lambda>org h. act_void (bulk_reinvite_members E org is h))"
| "serve_org E r (Accept i d) = in_org E r (\<lambda>org. act_bind (Headers_from_request E r) (org_accept_invite E org i d))"
| "serve_org E r (Confirm i d) = as_admin E r (\<lambda>org. confirm_invite E org i d)"
| "serve_org E r (BulkConfirm ds) = as_admin E r (\<lambda>org h. act_void (bulk_confirm_invite E org ds h))"
| "serve_org E r (Edit i d) = as_admin E r (\<lambda>org. edit_member E org i d)"
| "serve_org E r (Remove i) = as_admin E r (\<lambda>org. delete_member_impl E org i)"
| "serve_org E r (BulkRemove is) = as_admin E r (\<lambda>org h. act_void (bulk_delete_member E org is h))"
| "serve_org E r (Revoke i) = as_admin E r (\<lambda>org. revoke_member_impl E org i)"
| "serve_org E r (BulkRevoke is) = as_admin E r (\<lambda>org h. act_void (bulk_revoke_members E org is h))"
| "serve_org E r (Restore i) = as_admin E r (\<lambda>org. restore_member_impl E org i)"
| "serve_org E r (BulkRestore is) = as_admin E r (\<lambda>org h. act_void (bulk_restore_members E org is h))"
| "serve_org E r (PutPolicy t d) = as_admin E r (\<lambda>org h. act_void (put_policy E org t d h))"
| "serve_org E r (DeleteAccount d) = act_bind (Headers_from_request E r) (delete_account E d)"

text \<open>One request of anyone, other than the deletion of the organization itself.\<close>

inductive org_step :: "env \<Rightarrow> OrganizationId \<Rightarrow> server \<Rightarrow> server \<Rightarrow> bool" for E org where
  serve: "(\<forall>d. q = DeleteOrg d \<longrightarrow> rq_param r 1 \<noteq> Some org) \<Longrightarrow> org_step E org s (snd (serve_org E r q s))"

lemma wp_in_org:
  assumes "R (Api ''Not Found'') s" "\<And>org. uuid_from_param E (rq_param r 1) = Some org \<Longrightarrow> wp (f org) Q R s"
  shows "wp (in_org E r f) Q R s"
  unfolding in_org_def using assms by (rule wp_need)

lemma wp_as_admin:
  assumes "\<And>org h t. calm s t \<Longrightarrow> ah_org_id h \<in> m_org_uuid ` set (users_organizations t) \<Longrightarrow> wp (f org h) Q R t"
    and "\<And>e t. calm s t \<Longrightarrow> R e t"
  shows "wp (as_admin E r f) Q R s"
  unfolding as_admin_def by (intro wp_in_org guard_admin assms calm_refl)

lemma serve_org_roster:
  assumes inj: "inj (uuid_at E)" and r: "roster E {org} s"
    and q: "\<forall>d. q = DeleteOrg d \<longrightarrow> rq_param r 1 \<noteq> Some org"
  shows "wp (serve_org E r q) (\<lambda>_. roster E {org}) (\<lambda>_. roster E {org}) s"
proof -
  let ?W = "\<lambda>m. wp m (\<lambda>_. roster E {org}) (\<lambda>_. roster E {org}) s"
  note still = roster_calm [OF r]
  have admin: "?W (as_admin E r f)" if "\<And>org' h t. roster E {org} t \<Longrightarrow> wp (f org' h) (\<lambda>_. roster E {org}) (\<lambda>_. roster E {org}) t"
    for f using that still by (intro wp_as_admin) auto
  show ?thesis
  proof (cases q)
    case (Create d)
    have "wp (create_organization E d h) (\<lambda>_. roster E {org}) (\<lambda>_. roster E {org}) t"
      if "calm s t" "h_user h \<in> set (users t)" for h t
      using still [OF that(1)] that(2) by (intro create_organization_roster inj) (auto simp: roster_def)
    then show ?thesis unfolding Create serve_org.simps by (intro guard_session) (auto simp: wp_void still)
  next
    case (DeleteOrg d)
    show ?thesis unfolding DeleteOrg serve_org.simps
      by (intro wp_in_org guard_owner delete_organization_roster still r calm_refl)
        (use q DeleteOrg in \<open>auto dest: uuid_from_param_Some\<close>)
  next
    case Leave
    show ?thesis unfolding Leave serve_org.simps
      by (intro wp_in_org guard_member leave_roster still r calm_refl)
        (auto simp: get_org_id_def first_some_def dest: uuid_from_param_Some)
  next
    case (Invite d)
    have "wp (org_send_invite E org' d h) (\<lambda>_. roster E {org}) (\<lambda>_. roster E {org}) t"
      if t: "calm s t" "ah_org_id h \<in> m_org_uuid ` set (users_organizations t)" for org' h t
    proof (cases "org' = ah_org_id h")
      case True
      then have "unused E t org'" using still [OF t(1)] t(2) by (auto simp: roster_def)
      then show ?thesis by (intro send_invite_roster inj still t)
    qed (use still [OF t(1)] in \<open>simp add: org_send_invite_def wp_simps\<close>)
    then show ?thesis unfolding Invite serve_org.simps by (intro wp_as_admin still)
  next
    case (Accept i d)
    show ?thesis unfolding Accept serve_org.simps
      by (intro wp_in_org guard_session accept_invite_roster still r)
  next
    case (DeleteAccount d)
    show ?thesis unfolding DeleteAccount serve_org.simps by (intro guard_session delete_account_roster still)
  qed (auto intro!: admin wp_guard reinvite_roster bulk_roster confirm_invite_roster bulk_confirm_roster
        edit_member_roster delete_member_roster revoke_member_roster restore_member_roster put_policy_roster
      simp: wp_void reinvite_member_def bulk_reinvite_members_def confirm_invite_def bulk_confirm_invite_def
        bulk_delete_member_def bulk_revoke_members_def bulk_restore_members_def wp_ret split: option.split)
qed

section \<open>What an administrator changes\<close>

text \<open>\<open>obeys s t\<close>: from \<open>s\<close> to \<open>t\<close> nobody got the role of an administrator or an owner, no owner
  became confirmed, and every confirmed owner still is one.\<close>

definition obeys :: "server \<Rightarrow> server \<Rightarrow> bool" where
  "obeys s t \<longleftrightarrow>
     (\<forall>x \<in> set (users_organizations t). i32_ge (m_atype x) Admin \<longrightarrow>
        (\<exists>y \<in> set (users_organizations s). m_uuid y = m_uuid x \<and> m_user_uuid y = m_user_uuid x
           \<and> m_org_uuid y = m_org_uuid x \<and> m_atype y = m_atype x
           \<and> (confirmed_owner (m_org_uuid x) x \<longrightarrow> confirmed_owner (m_org_uuid x) y)))
     \<and> (\<forall>y \<in> set (users_organizations s). confirmed_owner (m_org_uuid y) y \<longrightarrow> y \<in> set (users_organizations t))"

lemma obeys_refl: "obeys s s"
  by (auto simp: obeys_def)

lemma obeys_trans: "obeys s t \<Longrightarrow> obeys t u \<Longrightarrow> obeys s u"
  unfolding obeys_def by (metis (no_types, lifting))

lemma obeys_calm: "calm s t \<Longrightarrow> obeys s t"
  by (auto simp: obeys_def calm_def)

lemma has_type_ge: "has_type Owner m \<Longrightarrow> i32_ge (m_atype m) Admin"
  using lt_Admin_iff [of "m_atype m"] by (auto simp: i32_lt_iff has_type_def)

lemma obeys_save:
  assumes key: "keyed m_uuid (users_organizations s)" and m: "m \<in> set (users_organizations s)" and c: "calm s t"
    and k: "m_uuid m' = m_uuid m" "m_user_uuid m' = m_user_uuid m" "m_org_uuid m' = m_org_uuid m"
    and o: "\<not> has_type Owner m" and ty: "i32_ge (m_atype m') Admin \<Longrightarrow> m_atype m' = m_atype m"
  shows "obeys s (Membership_save E m' t)"
proof -
  let ?U = "users_organizations s"
  have [simp]: "users_organizations t = ?U" using c by (simp add: calm_def)
  have U: "users_organizations (Membership_save E m' t) = map (\<lambda>x. if m_uuid x = m_uuid m' then m' else x) ?U"
    using m k(1) by (auto simp: Membership_save_def Let_def tbl_upsert_def)
  have only: "x = m" if "x \<in> set ?U" "m_uuid x = m_uuid m'" for x using keyed_unique [OF key that(1) m] that(2) k by simp
  have no: "\<not> confirmed_owner org m'" for org using ty o has_type_ge [of m'] by (auto simp: confirmed_owner_def has_type_def)
  have old: "y \<in> set (users_organizations (Membership_save E m' t))" if "y \<in> set ?U" "confirmed_owner (m_org_uuid y) y" for y
    using that only o unfolding U by (force simp: confirmed_owner_def)
  have new: "\<exists>y \<in> set ?U. m_uuid y = m_uuid x \<and> m_user_uuid y = m_user_uuid x \<and> m_org_uuid y = m_org_uuid x
      \<and> m_atype y = m_atype x \<and> (confirmed_owner (m_org_uuid x) x \<longrightarrow> confirmed_owner (m_org_uuid x) y)"
    if "x \<in> set (users_organizations (Membership_save E m' t))" "i32_ge (m_atype x) Admin" for x
  proof (cases "x = m'")
    case True
    then show ?thesis using m k no ty that(2) by (intro bexI [of _ m]) auto
  next
    case False
    then have "x \<in> set ?U" using that(1) unfolding U by auto
    then show ?thesis by blast
  qed
  show ?thesis unfolding obeys_def using old new by blast
qed

lemma obeys_delete:
  assumes key: "keyed m_uuid (users_organizations s)" and m: "m \<in> set (users_organizations s)" and c: "calm s t"
    and o: "\<not> has_type Owner m"
  shows "obeys s (Membership_delete E m t)"
proof -
  have U: "users_organizations (Membership_delete E m t) = tbl_delete (\<lambda>x. m_uuid x = m_uuid m) (users_organizations s)"
    using c by (simp add: member.rows_del calm_def)
  have "x = m" if "x \<in> set (users_organizations s)" "m_uuid x = m_uuid m" for x using keyed_unique [OF key that(1) m] that(2) .
  then show ?thesis using o unfolding obeys_def U by (auto simp: confirmed_owner_def)
qed

text \<open>Requests of administrators that are not owners.\<close>

inductive admin_step :: "env \<Rightarrow> server \<Rightarrow> server \<Rightarrow> bool" for E where
  edit: "ah_membership_type h \<noteq> Owner \<Longrightarrow> admin_step E s (snd (edit_member E org i data h s))"
| remove: "ah_membership_type h \<noteq> Owner \<Longrightarrow> admin_step E s (snd (delete_member_impl E org i h s))"
| revoke: "ah_membership_type h \<noteq> Owner \<Longrightarrow> admin_step E s (snd (revoke_member_impl E org i h s))"
| restore: "ah_membership_type h \<noteq> Owner \<Longrightarrow> admin_step E s (snd (restore_member_impl E org i h s))"
| confirm: "ah_membership_type h \<noteq> Owner \<Longrightarrow> admin_step E s (snd (confirm_invite E org i cd h s))"

definition well_kept :: "server \<Rightarrow> server \<Rightarrow> bool" where
  "well_kept s t \<longleftrightarrow> keyed m_uuid (users_organizations t) \<and> obeys s t"

lemma well_kept_calm: "keyed m_uuid (users_organizations s) \<Longrightarrow> calm s t \<Longrightarrow> well_kept s t"
  by (simp add: well_kept_def obeys_calm) (simp add: calm_def)

lemma well_kept_save:
  assumes key: "keyed m_uuid (users_organizations s)" and m: "Membership_find_by_uuid_and_org i org s = Some m" and c: "calm s t"
    and k: "m_uuid m' = m_uuid m" "m_user_uuid m' = m_user_uuid m" "m_org_uuid m' = m_org_uuid m"
    and o: "\<not> has_type Owner m" and ty: "i32_ge (m_atype m') Admin \<Longrightarrow> m_atype m' = m_atype m"
  shows "wp (act_upd (Membership_save E m')) (\<lambda>_. well_kept s) R t"
    and "(\<And>u. stable (calm u) a) \<Longrightarrow> wp (act_seq (act_upd (Membership_save E m')) a) (\<lambda>_. well_kept s) (\<lambda>_. well_kept s) t"
proof -
  have w: "well_kept s (Membership_save E m' t)"
    using obeys_save [OF key find_member(1) [OF m] c k o ty] key c
    by (simp add: well_kept_def member.keyed_put calm_def)
  then show "wp (act_upd (Membership_save E m')) (\<lambda>_. well_kept s) R t" by (simp add: wp_simps)
  have w2: "well_kept s u" if "calm (Membership_save E m' t) u" for u
    using w that obeys_trans [OF _ obeys_calm [OF that]] by (simp add: well_kept_def) (simp add: calm_def)
  show "wp (act_seq (act_upd (Membership_save E m')) a) (\<lambda>_. well_kept s) (\<lambda>_. well_kept s) t"
    if "\<And>u. stable (calm u) a"
    unfolding wp_seq wp_upd by (rule wp_stable [OF that calm_refl]) (rule w2, assumption)+
qed

lemma i32_ge_i32: "i32_ge (MembershipType_i32 a) Admin \<longleftrightarrow> Admin \<le> a"
  by (simp add: i32_ge_def)

lemma edit_member_kept:
  assumes key: "keyed m_uuid (users_organizations s)" and h: "ah_membership_type headers \<noteq> Owner"
  shows "wp (edit_member E org_id i data headers) (\<lambda>_. well_kept s) (\<lambda>_. well_kept s) s"
  unfolding edit_member_def Let_def
  apply (intro wp_guard wp_read wp_need well_kept_calm [OF key calm_refl])
  apply (rule wp_calm_then [of _ s], (intro stable_intros calms calm_refl)+)
   apply (rule wp_calm_bind [of _ s], (intro stable_intros calms)+, assumption)
    apply (rule wp_calm_then [of _ s], (intro stable_intros calms)+, assumption)+
         apply (erule well_kept_save(1) [OF key], assumption)
  by (use h in \<open>auto simp: has_type_def i32_ge_i32 intro: well_kept_calm [OF key]\<close>)

lemma delete_member_kept:
  assumes key: "keyed m_uuid (users_organizations s)" and h: "ah_membership_type headers \<noteq> Owner"
  shows "wp (delete_member_impl E org_id i headers) (\<lambda>_. well_kept s) (\<lambda>_. well_kept s) s"
  unfolding delete_member_impl_def
  apply (intro wp_guard wp_read wp_need well_kept_calm [OF key calm_refl])
  apply (unfold wp_seq wp_upd)
  using h find_member(1) member.keyed_del [of "log_event E OrganizationUserRemoved _ org_id _ _ _ s"]
  by (auto simp: well_kept_def has_type_def key intro!: obeys_delete [OF key _ calm_log_event])

lemma revoke_member_kept:
  assumes key: "keyed m_uuid (users_organizations s)" and h: "ah_membership_type headers \<noteq> Owner"
  shows "wp (revoke_member_impl E org_id i headers) (\<lambda>_. well_kept s) (\<lambda>_. well_kept s) s"
  unfolding revoke_member_impl_def
  apply (intro wp_guard wp_read wp_need wp_branch wp_fail well_kept_calm [OF key calm_refl])
  apply (rule well_kept_save(2) [OF key _ calm_refl], assumption)
  by (use h in \<open>auto simp: Membership_revoke_def intro: stable_intros calms\<close>)

lemma restore_member_kept:
  assumes key: "keyed m_uuid (users_organizations s)" and h: "ah_membership_type headers \<noteq> Owner"
  shows "wp (restore_member_impl E org_id i headers) (\<lambda>_. well_kept s) (\<lambda>_. well_kept s) s"
  unfolding restore_member_impl_def Let_def
  apply (intro wp_guard wp_read wp_need wp_branch wp_fail well_kept_calm [OF key calm_refl])
  apply (rule wp_calm_then [of _ s], (intro stable_intros calms calm_refl)+)
   apply (erule well_kept_save(2) [OF key], assumption)
  by (use h in \<open>auto simp: Membership_restore_def intro: stable_intros calms well_kept_calm [OF key]\<close>)

lemma confirm_invite_kept:
  assumes key: "keyed m_uuid (users_organizations s)" and h: "ah_membership_type headers \<noteq> Owner"
  shows "wp (confirm_invite_impl E org_id i k headers) (\<lambda>_. well_kept s) (\<lambda>_. well_kept s) s"
  unfolding confirm_invite_impl_def Let_def
  apply (intro wp_guard wp_read wp_need well_kept_calm [OF key calm_refl])
  apply (rule wp_calm_then [of _ s], (intro stable_intros calms calm_refl)+)
   apply (rule wp_calm_then [of _ s], (intro stable_intros calms)+, assumption)+
     apply (erule well_kept_save(1) [OF key], assumption)
  by (use h in \<open>auto simp: has_type_def intro: well_kept_calm [OF key]\<close>)

section \<open>A server with sessions\<close>

text \<open>The demonstration environment with bearer tokens that name a user, whose device is the user's
  first one.\<close>

definition session_claims :: "string \<Rightarrow> LoginJwtClaims" where
  "session_claims user = \<lparr>lc_nbf = 0, lc_exp = 0, lc_iss = ''https://vault|login'', lc_sub = user, lc_premium = True,
     lc_name = user, lc_email = user, lc_email_verified = True, lc_sstamp = u_security_stamp alice,
     lc_device = (if user = ''alice'' then ''d1'' else ''d2''), lc_devicetype = ''laptop'', lc_client_id = ''web'',
     lc_scope = [''api''], lc_amr = [''Application'']\<rparr>"

definition session_env :: env where
  "session_env = demo_env\<lparr>jwt_login := (\<lambda>n t. Inr (session_claims t))\<rparr>"

definition session_request :: "string \<Rightarrow> OrganizationId \<Rightarrow> request" where
  "session_request user org = \<lparr>rq_header = (\<lambda>h. if h = ''Authorization'' then Some (''Bearer '' @ user) else None),
     rq_param = (\<lambda>i. if i = 1 then Some org else None), rq_query = (\<lambda>_. None), rq_route = None, rq_remote = None\<rparr>"

lemma session_env_simps [simp]: "conf session_env = demo_conf" "uuid_at session_env n = replicate n CHR ''x''"
  by (simp_all add: session_env_def)

lemma session_env_inj: "inj (uuid_at session_env)"
  by (rule injI) (metis length_replicate session_env_simps(2))

lemma not_demo_id: "(\<exists>c \<in> set i. c \<noteq> CHR ''x'') \<Longrightarrow> unused session_env s i"
  by (auto simp: unused_def)

lemma demo_members: "users_organizations demo_server = [demo_member ''m1'' ''alice'' 2 2, demo_member ''m2'' ''bob'' 2 0]"
    "users demo_server = [alice, bob]"
  by (simp_all add: demo_server_def)

lemma demo_member_simps [simp]: "m_uuid (demo_member i u st ty) = i" "m_user_uuid (demo_member i u st ty) = u"
    "m_org_uuid (demo_member i u st ty) = ''org''" "m_status (demo_member i u st ty) = st" "m_atype (demo_member i u st ty) = ty"
    "u_uuid (demo_user i email h) = i"
  by (simp_all add: demo_member_def Membership_new_def get_uuid_def demo_user_def)

lemma demo_roster: "roster session_env {''org''} demo_server"
  unfolding roster_def members_unique_def has_owner_def confirmed_owner_def has_type_def has_status_def demo_members
  by (simp add: keyed_def not_demo_id)

section \<open>Properties\<close>

text \<open>C19. No sequence of requests leaves an organization without a confirmed owner, other than its own
  deletion: creation, invitations, acceptance, confirmation, changes of roles, removals, revocations and
  restorations with their bulk forms, policies that revoke members, leaving and deleting an account, each
  behind the guard of its route and whether it succeeds or fails. The same requests keep one membership
  per user and organization.\<close>

theorem org_keeps_owner:
  assumes "inj (uuid_at E)" "roster E {org} s" "(org_step E org)\<^sup>*\<^sup>* s t"
  shows "has_owner org t \<and> members_unique t"
proof -
  have "roster E {org} t" using assms(3)
  proof (induction rule: rtranclp_induct)
    case (step y z)
    from step(2,3) show ?case by cases (use serve_org_roster [OF assms(1)] in \<open>simp add: wp_snd\<close>)
  qed (rule assms(2))
  then show ?thesis by (simp add: roster_def)
qed

lemma demo_leaves:
  "map m_uuid (users_organizations (snd (serve_org session_env (session_request ''alice'' ''org'') Leave demo_server))) = [''m2'']"
  by code_simp

theorem org_keeps_owner_witness:
  "has_owner ''org'' (snd (serve_org session_env (session_request ''alice'' ''org'') Leave demo_server))
   \<and> map m_uuid (users_organizations (snd (serve_org session_env (session_request ''alice'' ''org'') Leave demo_server))) = [''m2'']"
  using org_keeps_owner [OF session_env_inj demo_roster r_into_rtranclp,
      OF org_step.serve [of Leave "session_request ''alice'' ''org''"]] demo_leaves by blast


text \<open>C21. The guard of the administrator routes is exact: it accepts a request exactly when the request
  carries a valid session and the session's user is a confirmed administrator or owner of the requested
  organization, it hands on that role and organization, and it changes no table. A refusal changes at
  most the row of a user.\<close>

theorem admin_guard_exact:
  "case AdminHeaders_from_request E r s of
     (Inr h, t) \<Rightarrow> (\<exists>n. t = s\<lparr>tick := n\<rparr>) \<and> (\<exists>m. acts_as E r s m (ah_membership_type h) Confirmed
        \<and> Admin \<le> ah_membership_type h \<and> ah_org_id h = m_org_uuid m \<and> u_uuid (ah_user h) = m_user_uuid m)
   | (Inl e, t) \<Rightarrow> (\<exists>us n. t = s\<lparr>users := us, tick := n\<rparr>) \<and> \<not> (\<exists>m ty. acts_as E r s m ty Confirmed \<and> Admin \<le> ty)"
proof -
  have uniq: "m' = m \<and> ty' = ty \<and> st' = st" if "acts_as E r s m ty st" "acts_as E r s m' ty' st'" for m ty st m' ty' st'
    using that unfolding acts_as_def by (metis option.inject session_of_unique)
  have "wp (AdminHeaders_from_request E r)
      (\<lambda>h t. (\<exists>n. t = s\<lparr>tick := n\<rparr>) \<and> (\<exists>m. acts_as E r s m (ah_membership_type h) Confirmed
        \<and> Admin \<le> ah_membership_type h \<and> ah_org_id h = m_org_uuid m \<and> u_uuid (ah_user h) = m_user_uuid m))
      (\<lambda>e t. (\<exists>us n. t = s\<lparr>users := us, tick := n\<rparr>) \<and> \<not> (\<exists>m ty. acts_as E r s m ty Confirmed \<and> Admin \<le> ty)) s"
    unfolding AdminHeaders_from_request_def
  proof (rule wp_after [OF OrgHeaders_wp], intro wp_guard)
    fix h :: OrgHeaders and t
    assume h: "(\<exists>n \<ge> tick s. t = s\<lparr>tick := n\<rparr>) \<and> session_of E r s (oh_device h) (oh_user h)
        \<and> uuid_from_param E (get_org_id E r) = Some (m_org_uuid (oh_membership h))
        \<and> Membership_find_by_user_and_org (u_uuid (oh_user h)) (m_org_uuid (oh_membership h)) s = Some (oh_membership h)
        \<and> MembershipType_from_i32 (m_atype (oh_membership h)) = Some (oh_membership_type h)
        \<and> MembershipStatus_from_i32 (m_status (oh_membership h)) = Some (oh_membership_status h)"
    then have as: "acts_as E r s (oh_membership h) (oh_membership_type h) (oh_membership_status h)"
      unfolding acts_as_def by blast
    from h obtain n where n: "t = s\<lparr>tick := n\<rparr>" by blast
    then have n': "t = s\<lparr>users := users s, tick := n\<rparr>" by simp
    show "(\<exists>us n. t = s\<lparr>users := us, tick := n\<rparr>) \<and> \<not> (\<exists>m ty. acts_as E r s m ty Confirmed \<and> Admin \<le> ty)"
      if "\<not> is_confirmed_and_admin h"
      using that uniq [OF as] n' unfolding is_confirmed_and_admin_def by metis
    show "wp (act_ret \<lparr>ah_host = oh_host h, ah_device = oh_device h, ah_user = oh_user h,
        ah_membership_type = oh_membership_type h, ah_ip = oh_ip h, ah_org_id = m_org_uuid (oh_membership h)\<rparr>)
      (\<lambda>h t. (\<exists>n. t = s\<lparr>tick := n\<rparr>) \<and> (\<exists>m. acts_as E r s m (ah_membership_type h) Confirmed
        \<and> Admin \<le> ah_membership_type h \<and> ah_org_id h = m_org_uuid m \<and> u_uuid (ah_user h) = m_user_uuid m))
      (\<lambda>e t. (\<exists>us n. t = s\<lparr>users := us, tick := n\<rparr>) \<and> \<not> (\<exists>m ty. acts_as E r s m ty Confirmed \<and> Admin \<le> ty)) t"
      if "\<not> \<not> is_confirmed_and_admin h"
    proof -
      have st: "oh_membership_status h = Confirmed" "Admin \<le> oh_membership_type h"
        using that by (simp_all add: is_confirmed_and_admin_def)
      have "u_uuid (oh_user h) = m_user_uuid (oh_membership h)" using h find_user_org(2) by metis
      with as n st show ?thesis unfolding wp_ret by (intro conjI exI [of _ n] exI [of _ "oh_membership h"]) simp_all
    qed
  qed (auto simp: session_touch_def)
  then show ?thesis by (simp add: wp_def split: prod.splits sum.splits)
qed

text \<open>C20. Whatever requests administrators that are not owners send to edit, remove, revoke, restore or
  confirm members, in any number and order: nobody becomes an administrator or an owner, no owner is
  confirmed by them, and every confirmed owner keeps the membership unchanged.\<close>

theorem admins_cannot_escalate:
  assumes "keyed m_uuid (users_organizations s)" "(admin_step E)\<^sup>*\<^sup>* s t"
  shows "obeys s t"
proof -
  have "well_kept s t" using assms(2)
  proof (induction rule: rtranclp_induct)
    case base
    show ?case by (rule well_kept_calm [OF assms(1) calm_refl])
  next
    case (step y z)
    then have key: "keyed m_uuid (users_organizations y)" by (simp add: well_kept_def)
    have "well_kept y z" using step(2)
      by cases (use edit_member_kept [OF key] delete_member_kept [OF key] revoke_member_kept [OF key]
          restore_member_kept [OF key] confirm_invite_kept [OF key] in \<open>simp_all add: wp_snd confirm_invite_def\<close>)
    then show ?case using step(3) obeys_trans by (auto simp: well_kept_def)
  qed
  then show ?thesis by (simp add: well_kept_def)
qed

definition demo_admin :: AdminHeaders where
  "demo_admin = \<lparr>ah_host = ''https://vault'', ah_device = demo_device ''d1'' ''alice'' ''old'', ah_user = alice,
     ah_membership_type = Admin, ah_ip = ''1.2.3.4'', ah_org_id = ''org''\<rparr>"

theorem admins_cannot_escalate_witness:
  "obeys demo_server (snd (delete_member_impl demo_env ''org'' ''m2'' demo_admin demo_server))
   \<and> fst (delete_member_impl demo_env ''org'' ''m2'' demo_admin demo_server) = Inl (Api ''Only Owners can delete Admins or Owners'')"
proof
  have "keyed m_uuid (users_organizations demo_server)" by (simp add: keyed_def demo_members)
  moreover have "ah_membership_type demo_admin \<noteq> Owner" by (simp add: demo_admin_def)
  ultimately show "obeys demo_server (snd (delete_member_impl demo_env ''org'' ''m2'' demo_admin demo_server))"
    using admins_cannot_escalate r_into_rtranclp admin_step.remove by meson
qed code_simp


definition join_group :: "GroupId \<Rightarrow> EditUserData" where
  "join_group g = \<lparr>ed_type = String ''0'', ed_collections = None, ed_groups = Some [g], ed_permissions = (\<lambda>_. None)\<rparr>"

lemma full_access_group:
  assumes "g \<in> set (groups s)" "g_access_all g" "GroupUser_new (g_uuid g) (m_uuid m) \<in> set (groups_users s)"
    "m \<in> set (users_organizations s)"
  shows "Group_is_in_full_access_group (m_user_uuid m) (g_organizations_uuid g) s"
proof -
  let ?l = "[g_access_all g'. g' \<leftarrow> groups s, gu \<leftarrow> groups_users s, gu_groups_uuid gu = g_uuid g',
              m' \<leftarrow> users_organizations s, m_uuid m' = gu_users_organizations_uuid gu,
              m_user_uuid m' = m_user_uuid m, g_organizations_uuid g' = g_organizations_uuid g, g_access_all g']"
  have "True \<in> set ?l" using assms by (force simp: GroupUser_new_def in_comp)
  moreover have "set ?l \<subseteq> {True}" by auto
  ultimately show ?thesis unfolding Group_is_in_full_access_group_def by (cases ?l) auto
qed

text \<open>C22. The groups of an edited member are not checked to belong to the organization: an owner of any
  organization can put a member, the owner's own membership included, into a group of another
  organization. When that group has access to everything, the member can then write every item of the
  other organization.\<close>

theorem foreign_group_access:
  assumes "ah_membership_type h = Owner" "ah_org_id h = org" "Membership_find_by_uuid_and_org i org s = Some m"
    and "g \<in> set (groups s)" "g_access_all g" "org_groups_enabled (conf E)"
    and "ci_organization_uuid ci = Some (g_organizations_uuid g)"
  shows "\<exists>t. edit_member E org i (join_group (g_uuid g)) h s = (Inr (), t)
    \<and> is_write_accessible_to_user E ci (m_user_uuid m) t"
proof -
  note m = find_member [OF assms(3)]
  let ?m = "m\<lparr>m_access_all := True, m_atype := 0\<rparr>"
  let ?I = "\<lambda>t. groups t = groups s \<and> users_organizations t = users_organizations s"
  have save: "Group_is_in_full_access_group (m_user_uuid m) (g_organizations_uuid g) (Membership_save E ?m t)"
    if t: "?I t" "GroupUser_new (g_uuid g) (m_uuid m) \<in> set (groups_users t)" for t
  proof -
    have "?m \<in> set (users_organizations (Membership_save E ?m t))" by (auto simp: member.set_put)
    moreover have "groups (Membership_save E ?m t) = groups s" "groups_users (Membership_save E ?m t) = groups_users t"
      using t by (simp_all add: Membership_save_def Let_def)
    ultimately show ?thesis using full_access_group [of g "Membership_save E ?m t" ?m] assms(4,5) t(2) by simp
  qed
  have top: "Admin \<le> Owner" by code_simp
  have free: "check_user_allowed E ?m action = act_ret ()" for action
    by (simp add: check_user_allowed_def lt_Admin_iff)
  have rows: "?I (cu_delete E c t) \<longleftrightarrow> ?I t" "?I (gu_delete_all_by_member E i' t) \<longleftrightarrow> ?I t" "?I (gu_save E gu t) \<longleftrightarrow> ?I t"
    for c t i' gu
    by (simp_all add: cu_delete_def gu_delete_all_by_member_def gu_save_def Let_def split: option.split)
  have inserted [simp]: "gu \<in> set (groups_users (gu_save E gu t))" for gu t
    by (simp add: gu_save_def Let_def set_tbl_upsert)
  have loop: "wp (act_for cus (\<lambda>c. act_upd (cu_delete E c))) (\<lambda>_. ?I) (\<lambda>_ _. False) s" for cus
    by (rule wp_for) (simp_all add: wp_upd rows)
  have "wp (edit_member E org i (join_group (g_uuid g)) h)
      (\<lambda>_ t. Group_is_in_full_access_group (m_user_uuid m) (g_organizations_uuid g) t) (\<lambda>_ _. False) s"
    using assms(1-3)
    by (simp add: edit_member_def join_group_def MembershipType_from_str_def top free save_groups_def flatten_opt_def Let_def wp_simps)
      (rule wp_mono [OF loop], simp_all add: save rows inserted)
  then have "\<exists>t. edit_member E org i (join_group (g_uuid g)) h s = (Inr (), t)
      \<and> Group_is_in_full_access_group (m_user_uuid m) (g_organizations_uuid g) t"
    by (auto simp: wp_def split: prod.splits sum.splits)
  then show ?thesis using assms(6,7)
    by (auto simp: is_write_accessible_to_user_def get_access_restrictions_def is_in_full_access_group_def)
qed


definition demo_owner :: AdminHeaders where
  "demo_owner = \<lparr>ah_host = ''https://vault'', ah_device = demo_device ''d2'' ''bob'' ''other'', ah_user = bob,
     ah_membership_type = Owner, ah_ip = ''1.2.3.4'', ah_org_id = ''org''\<rparr>"

definition other_group :: Group where
  "other_group = \<lparr>g_uuid = ''g'', g_organizations_uuid = ''other'', g_name = ''all'', g_access_all = True,
     g_external_id = None, g_creation_date = 0, g_revision_date = 0\<rparr>"

definition other_item :: Cipher where
  "other_item = (fst (Cipher_new demo_env 1 ''item'' empty_server))\<lparr>ci_organization_uuid := Some ''other''\<rparr>"

theorem foreign_group_access_witness:
  "\<not> is_write_accessible_to_user demo_env other_item ''bob'' (demo_server\<lparr>groups := [other_group]\<rparr>)
   \<and> (\<exists>t. edit_member demo_env ''org'' ''m2'' (join_group ''g'') demo_owner (demo_server\<lparr>groups := [other_group]\<rparr>) = (Inr (), t)
      \<and> is_write_accessible_to_user demo_env other_item ''bob'' t)"
proof
  let ?m = "demo_member ''m2'' ''bob'' 2 0" and ?s = "demo_server\<lparr>groups := [other_group]\<rparr>"
  have m: "Membership_find_by_uuid_and_org ''m2'' ''org'' ?s = Some ?m"
    by (simp add: Membership_find_by_uuid_and_org_def tbl_first_def demo_members)
  show "\<exists>t. edit_member demo_env ''org'' ''m2'' (join_group ''g'') demo_owner ?s = (Inr (), t)
      \<and> is_write_accessible_to_user demo_env other_item ''bob'' t"
    using foreign_group_access [OF _ _ m, of demo_owner other_group demo_env other_item]
    by (simp add: demo_owner_def other_group_def other_item_def demo_conf_def)
qed code_simp

section \<open>An invitation that deletes an account\<close>

definition invite_error :: "api_err \<Rightarrow> bool" where
  "invite_error e \<longleftrightarrow> (\<exists>m. e = Api (''Error sending invite: '' @ m))"

lemma loop_quiet:
  assumes "\<And>x t. wp (f x) (\<lambda>_ _. True) (\<lambda>e _. R e) t"
  shows "wp (act_for xs f) (\<lambda>_ _. True) (\<lambda>e _. R e) s"
  by (rule wp_for [where I = "\<lambda>_. True"]) (simp_all add: assms)

text \<open>The deletion of an account fails with other messages, and when it succeeds the row is gone.\<close>

lemma delete_gone:
  assumes "\<forall>n p. storage_delete E n p = None"
  shows "wp (User_delete E u) (\<lambda>_ t. u_uuid u \<notin> u_uuid ` set (users t)) (\<lambda>e _. \<not> invite_error e) s"
proof -
  have guard: "wp (last_owner_guard i) (\<lambda>_ _. True) (\<lambda>e _. \<not> invite_error e) s" for i s
    unfolding last_owner_guard_def by (intro wp_read loop_quiet) (simp add: wp_simps invite_error_def)
  have att: "wp (Attachment_delete E a) (\<lambda>_ _. True) (\<lambda>e _. \<not> invite_error e) s" for a s
    using assms by (simp add: Attachment_delete_def wp_simps) (simp add: wp_def)
  have one: "wp (Cipher_delete E ci) (\<lambda>_ _. True) (\<lambda>e _. \<not> invite_error e) s" for ci s
    unfolding Cipher_delete_def Attachment_delete_all_by_cipher_def
    by (simp add: wp_simps) (rule wp_mono [OF loop_quiet [OF att]]; simp)
  have all: "wp (Cipher_delete_all_by_user E i) (\<lambda>_ _. True) (\<lambda>e _. \<not> invite_error e) s" for i s
    unfolding Cipher_delete_all_by_user_def by (intro wp_read loop_quiet one)
  have row: "wp (user_row_delete i) (\<lambda>_ t. i \<notin> u_uuid ` set (users t)) (\<lambda>e _. \<not> invite_error e) s" for i s
    by (auto simp: user_row_delete_def wp_simps invite_error_def)
  show ?thesis unfolding User_delete_def
    by (rule wp_then [OF guard], simp_all add: wp_upd wp_seq)
      (rule wp_mono [OF all], simp_all add: row)
qed

text \<open>The account of an address is found under its id as long as only revision dates change.\<close>

definition account_at :: "string \<Rightarrow> UserId \<Rightarrow> server \<Rightarrow> bool" where
  "account_at a i t \<longleftrightarrow> (\<exists>v. tbl_first (\<lambda>x. u_email x = a) (users t) = Some v \<and> u_uuid v = i)"

lemma account_touched: "touched (users s) (users t) \<Longrightarrow> account_at a i s \<Longrightarrow> account_at a i t"
proof -
  have "\<exists>d. tbl_first (\<lambda>x. u_email x = a) vs = Some (v\<lparr>u_updated_at := d\<rparr>)"
    if "touched us vs" "tbl_first (\<lambda>x. u_email x = a) us = Some v" for us vs v
    using that unfolding touched_def tbl_first_def by (induction us vs rule: list_all2_induct) (auto split: if_splits)
  then show "touched (users s) (users t) \<Longrightarrow> account_at a i s \<Longrightarrow> account_at a i t" by (fastforce simp: account_at_def)
qed

lemma account_frames:
  "account_at a i s \<Longrightarrow> account_at a i (Membership_save E m s)"
  "account_at a i s \<Longrightarrow> account_at a i (snd (Membership_new E u org by_mail s))"
  "account_at a i s \<Longrightarrow> account_at a i (log_event E ty src org u dev ip s)"
  "account_at a i s \<Longrightarrow> account_at a i (cu_save E u c ro hp mn s)"
  "account_at a i s \<Longrightarrow> account_at a i (gu_save E gu s)"
  "account_at a i s \<Longrightarrow> account_at a i (s\<lparr>outbox := mails, tick := n\<rparr>)"
  by (erule account_touched [rotated], simp add: Membership_save_def Membership_new_def cu_save_def gu_save_def
      update_user_revision_def touched_revision get_uuid_def Let_def split: option.split)+

text \<open>The mail of an invitation to an address that the transport refuses, after an account was created.\<close>

lemma refused_mail:
  assumes "\<forall>n p. storage_delete E n p = None" "\<And>n c o'. smtp E n (OrgInvite (u_email v) c o') \<noteq> None"
  shows "wp (invite_mail E org h True v m) (\<lambda>_ _. False) (\<lambda>e t. invite_error e \<longrightarrow> u_uuid v \<notin> u_uuid ` set (users t)) s"
proof -
  have del: "wp (User_delete E v) (\<lambda>_ t. u_uuid v \<notin> u_uuid ` set (users t)) (\<lambda>e t. invite_error e \<longrightarrow> u_uuid v \<notin> u_uuid ` set (users t)) t" for t
    by (rule wp_mono [OF delete_gone [OF assms(1)]]) simp_all
  have no: "\<And>n c o'. smtp E n (OrgInvite (u_email v) c o') = None \<Longrightarrow> False" using assms(2) by blast
  show ?thesis
    unfolding invite_mail_def mail_send_invite_def generate_invite_claims_def
    by (auto simp: wp_simps invite_error_def [of "Panic _"] invite_error_def [of "Api ''Error looking up organization''"]
        intro!: wp_mono [OF del] dest: no split: option.split)
qed

lemma later_invite:
  assumes "\<forall>n p. storage_delete E n p = None" "\<And>n c o'. smtp E n (OrgInvite (lowercase_of E address) c o') \<noteq> None"
    and "mail_enabled (conf E)" "account_at (lowercase_of E address) i t"
  shows "wp (send_invites E org data h ty aa True (address # rest)) (\<lambda>_ _. True)
    (\<lambda>e t. invite_error e \<longrightarrow> i \<notin> u_uuid ` set (users t)) t"
proof -
  from assms(4) obtain v where v: "User_find_by_mail E address t = Some v" "u_uuid v = i" "u_email v = lowercase_of E address"
    by (auto simp: account_at_def User_find_by_mail_def dest: tbl_first_Some)
  have "wp (invite_mail E org h True v m) Q (\<lambda>e t. invite_error e \<longrightarrow> i \<notin> u_uuid ` set (users t)) s" for m s Q
    by (rule wp_mono [OF refused_mail [OF assms(1)]]) (use assms(2) v in auto)
  then show ?thesis
    using v(1) assms(3) by (auto simp: invited_user_def wp_simps Let_def invite_error_def)
qed

text \<open>The first address of the request is new: its account is created and its invitation mailed, or the request
  ends with another error; the account of the second address is still there.\<close>

lemma account_upsert:
  assumes "account_at a i s" "u_uuid x \<noteq> i" "u_email x \<noteq> a" "users t = tbl_upsert u_uuid x (users s)"
  shows "account_at a i t"
proof -
  from assms(1) obtain v where v: "tbl_first (\<lambda>x. u_email x = a) (users s) = Some v" "u_uuid v = i" by (auto simp: account_at_def)
  have "tbl_first (\<lambda>x. u_email x = a) (map (\<lambda>y. if u_uuid y = u_uuid x then x else y) us) = Some v"
      "tbl_first (\<lambda>x. u_email x = a) (us @ [x]) = Some v"
    if "tbl_first (\<lambda>x. u_email x = a) us = Some v" for us
    using that assms(2,3) v(2) by (induction us) (auto simp: tbl_first_def split: if_splits)
  then show ?thesis using v unfolding account_at_def assms(4) tbl_upsert_def by simp
qed

lemma new_account:
  assumes "mail_enabled (conf E)" "User_find_by_mail E first s = None" "account_at a i s" "\<forall>n \<ge> tick s. uuid_at E n \<noteq> i"
  shows "wp (invited_user E org first) (\<lambda>(v, created, _) t. created \<and> u_email v \<noteq> a \<and> account_at a i t) (\<lambda>e _. \<not> invite_error e) s"
proof -
  let ?v = "fst (User_new E first None s)" and ?s = "snd (User_new E first None s)"
  have "lowercase_of E first \<noteq> a" using assms(2,3) by (auto simp: User_find_by_mail_def account_at_def)
  then have v: "u_email ?v \<noteq> a" "u_uuid ?v \<noteq> i" "users ?s = users s"
    using assms(4) by (simp_all add: User_new_def utc_now_def get_uuid_def get_random_bytes_def Let_def)
  have "account_at a i ((bump ?s)\<lparr>users := tbl_upsert u_uuid (?v\<lparr>u_updated_at := d\<rparr>) (users ?s)\<rparr>)" for d
    using assms(3) by (rule account_upsert [where x = "?v\<lparr>u_updated_at := d\<rparr>"]) (simp_all add: v)
  then show ?thesis
    using assms(1,2) v(1) by (auto simp: invited_user_def wp_simps User_save_def Let_def invite_error_def)
qed

lemma first_invite:
  assumes "mail_enabled (conf E)" "User_find_by_mail E first s = None" "account_at a i s" "\<forall>n \<ge> tick s. uuid_at E n \<noteq> i"
    and smtp: "\<And>n b c o'. b \<noteq> a \<Longrightarrow> smtp E n (OrgInvite b c o') = None"
    and later: "\<And>aa t. account_at a i t \<Longrightarrow> wp (send_invites E org data h ty aa True rest) (\<lambda>_ _. True) R t"
    and other: "\<And>e t. \<not> invite_error e \<Longrightarrow> R e t"
  shows "wp (send_invites E org data h ty aa False (first # rest)) (\<lambda>_ _. True) R s"
proof -
  have cols: "wp (save_collections E org u cs) (\<lambda>_. account_at a i) R t" if "account_at a i t" for u cs t
    unfolding save_collections_def
    by (rule wp_for, rule that) (auto simp: wp_simps invite_error_def intro!: account_frames other split: option.split)
  have groups: "wp (save_groups E m gs) (\<lambda>_. account_at a i) R t" if "account_at a i t" for m gs t
    unfolding save_groups_def by (rule wp_for, rule that) (simp add: wp_upd account_frames)
  have mail: "wp (invite_mail E org h True v m) (\<lambda>_. account_at a i) R t" if "account_at a i t" "u_email v \<noteq> a" for v m t
    unfolding invite_mail_def mail_send_invite_def generate_invite_claims_def
    using that smtp by (auto simp: wp_simps invite_error_def intro!: account_frames other split: option.split)
  show ?thesis
    unfolding send_invites.simps Let_def
    by (rule wp_after [OF new_account [OF assms(1-4)]])
      (auto simp: wp_simps assms(1) other intro!: account_frames
        wp_mono [OF mail] wp_mono [OF cols] wp_mono [OF groups] later)
qed

definition carol :: User where
  "carol = demo_user ''carol'' ''carol@vault'' [3]"

definition invite_env :: env where
  "invite_env = session_env\<lparr>conf := demo_conf\<lparr>mail_enabled := True\<rparr>,
     smtp := (\<lambda>n m. case m of OrgInvite address _ _ \<Rightarrow> if address = ''carol@vault'' then Some ''mailbox unavailable'' else None
        | _ \<Rightarrow> None)\<rparr>"

definition invite_server :: server where
  "invite_server = demo_server\<lparr>users := [alice, bob, carol], organizations := [\<lparr>o_uuid = ''org'', o_name = ''org'',
     o_billing_email = ''bob@vault'', o_private_key = None, o_public_key = None\<rparr>]\<rparr>"

definition invite_of :: "string list \<Rightarrow> InviteData" where
  "invite_of emails = \<lparr>iv_emails = emails, iv_groups = [], iv_type = String ''2'', iv_collections = None,
     iv_permissions = (\<lambda>_. None)\<rparr>"

text \<open>C23. An invitation that cannot be mailed may delete an account that existed before: \<open>user_created\<close> is set for
  the whole list of addresses once an account was created for one of them. When the first address of a request
  is new and the mail transport refuses exactly the mail to the second one, which has an account, a request
  that ends with the error of a failed invitation has deleted that account (files can be deleted from the
  storage, and the id of the new account is another one). In the witness the account has a password, and with
  the addresses in the other order it survives.\<close>

theorem invite_deletes_account:
  assumes "mail_enabled (conf E)" "\<forall>n p. storage_delete E n p = None"
    and "iv_emails data = first # address # rest" "User_find_by_mail E first s = None" "User_find_by_mail E address s = Some u"
    and "\<forall>n a c o'. smtp E n (OrgInvite a c o') = None \<longleftrightarrow> a \<noteq> u_email u"
    and "\<forall>n \<ge> tick s. uuid_at E n \<noteq> u_uuid u"
    and "org_send_invite E org data h s = (Inl (Api (''Error sending invite: '' @ e)), t)"
  shows "u_uuid u \<notin> u_uuid ` set (users t)"
proof -
  let ?R = "\<lambda>e t. invite_error e \<longrightarrow> u_uuid u \<notin> u_uuid ` set (users t)"
  have u: "u_email u = lowercase_of E address" using assms(5) by (auto simp: User_find_by_mail_def dest: tbl_first_Some)
  then have here: "account_at (u_email u) (u_uuid u) s" using assms(5) by (simp add: User_find_by_mail_def account_at_def)
  have no: "smtp E n (OrgInvite (u_email u) c o') \<noteq> None" for n c o' using assms(6) by blast
  have later: "wp (send_invites E org data h ty aa True (address # rest)) (\<lambda>_ _. True) ?R t" if "account_at (u_email u) (u_uuid u) t" for ty aa t
    by (rule later_invite [OF assms(2) no [unfolded u] assms(1) that [unfolded u]])
  have "wp (send_invites E org data h ty aa False (iv_emails data)) (\<lambda>_ _. True) ?R s" for ty aa
    unfolding assms(3)
    by (rule first_invite [OF assms(1,4) here assms(7) _ later]) (use assms(6) in auto)
  then have "wp (org_send_invite E org data h) (\<lambda>_ _. True) ?R s"
    by (auto simp: org_send_invite_def InviteData_validate_def ORG_MISMATCH_def wp_simps Let_def invite_error_def split: option.split)
  from wp_Inl [OF this assms(8)] show ?thesis by (simp add: invite_error_def)
qed

theorem invite_deletes_account_witness:
  "u_password_hash carol \<noteq> [] \<and> ''carol'' \<in> u_uuid ` set (users invite_server)
   \<and> (\<exists>e t. org_send_invite invite_env ''org'' (invite_of [''dave@vault'', ''carol@vault'']) demo_owner invite_server
        = (Inl (Api (''Error sending invite: '' @ e)), t) \<and> ''carol'' \<notin> u_uuid ` set (users t))
   \<and> ''carol'' \<in> u_uuid ` set (users (snd
       (org_send_invite invite_env ''org'' (invite_of [''carol@vault'', ''dave@vault'']) demo_owner invite_server)))"
proof (intro conjI)
  let ?r = "org_send_invite invite_env ''org'' (invite_of [''dave@vault'', ''carol@vault'']) demo_owner invite_server"
  have "fst ?r = Inl (Api (''Error sending invite: '' @ ''mailbox unavailable ''))" by code_simp
  then have r: "?r = (Inl (Api (''Error sending invite: '' @ ''mailbox unavailable '')), snd ?r)" by (metis prod.collapse)
  have me: "u_uuid carol = ''carol''" "u_email carol = ''carol@vault''" by code_simp+
  have env: "mail_enabled (conf invite_env)" "\<forall>n p. storage_delete invite_env n p = None"
      "\<forall>n a c o'. smtp invite_env n (OrgInvite a c o') = None \<longleftrightarrow> a \<noteq> u_email carol"
    by (simp_all add: invite_env_def session_env_def demo_env_def me)
  have "uuid_at invite_env n = replicate n CHR ''x''" for n by (simp add: invite_env_def session_env_def demo_env_def)
  moreover have "CHR ''c'' \<in> set ''carol''" "CHR ''c'' \<noteq> CHR ''x''" by simp_all
  ultimately have fresh: "\<forall>n \<ge> tick invite_server. uuid_at invite_env n \<noteq> u_uuid carol" unfolding me by (metis in_set_replicate)
  have finds: "User_find_by_mail invite_env ''dave@vault'' invite_server = None"
      "User_find_by_mail invite_env ''carol@vault'' invite_server = Some carol" by code_simp+
  have "iv_emails (invite_of [''dave@vault'', ''carol@vault'']) = ''dave@vault'' # ''carol@vault'' # []" by (simp add: invite_of_def)
  from invite_deletes_account [OF env(1,2) this finds env(3) fresh r]
  show "\<exists>e t. ?r = (Inl (Api (''Error sending invite: '' @ e)), t) \<and> ''carol'' \<notin> u_uuid ` set (users t)" using r me by metis
qed code_simp+

definition carols_request :: AuthRequest where
  "carols_request = \<lparr>aq_uuid = ''q'', aq_user_uuid = ''carol'', aq_organization_uuid = None, aq_request_device_identifier = ''d9'',
     aq_device_type = 8, aq_request_ip = ''1.2.3.4'', aq_response_device_id = None, aq_access_code = ''code'',
     aq_public_key = ''key'', aq_enc_key = None, aq_master_password_hash = None, aq_approved = None,
     aq_creation_date = 0, aq_response_date = None, aq_authentication_date = None\<rparr>"

definition carols_server :: server where
  "carols_server = invite_server\<lparr>ciphers := [other_item\<lparr>ci_organization_uuid := None, ci_user_uuid := Some ''carol''\<rparr>],
     devices := [demo_device ''d3'' ''carol'' ''old''], auth_requests := [carols_request]\<rparr>"

text \<open>Deleting an account is neither refused nor complete while a request to sign in with another device
  is stored for it: the rows of the account are deleted one table after the other, the row of the user
  last, and the stored request makes that last statement fail. The answer is an error, the vault, the
  memberships and the devices are gone and the user is still there.\<close>

theorem user_delete_partial:
  "fst (User_delete demo_env carol carols_server) = Inl (Api ''Error deleting user'')
   \<and> ''carol'' \<in> u_uuid ` set (users (snd (User_delete demo_env carol carols_server)))
   \<and> ciphers (snd (User_delete demo_env carol carols_server)) = []
   \<and> devices (snd (User_delete demo_env carol carols_server)) = []"
  by (intro conjI) code_simp+

end
