(* ===== verification/CipherLaws.thy ===== *)
theory CipherLaws
  imports CipherApi
begin

text \<open>
  What a request on one cipher leaves alone. \<open>around c s\<close> holds the rows of the other ciphers, the
  collections they are in and the tables that decide who has access to them; every statement of the
  handlers keeps it (\<open>aside\<close>). The attachments, folders, favorites and archive marks are not part of it.
\<close>

section \<open>The rest of the vault\<close>

definition around :: "CipherId \<Rightarrow> server \<Rightarrow> server" where
  "around c s = empty_server\<lparr>ciphers := tbl_delete (\<lambda>x. ci_uuid x = c) (ciphers s),
     ciphers_collections := tbl_delete (\<lambda>x. cc_cipher_uuid x = c) (ciphers_collections s),
     collections := collections s, users_collections := users_collections s, groups := groups s,
     groups_users := groups_users s, collections_groups := collections_groups s,
     users_organizations := users_organizations s\<rparr>"

lemma around_eqI:
  assumes "ciphers t = ciphers s" "ciphers_collections t = ciphers_collections s" "collections t = collections s"
    "users_collections t = users_collections s" "groups t = groups s" "groups_users t = groups_users s"
    "collections_groups t = collections_groups s" "users_organizations t = users_organizations s"
  shows "around c t = around c s"
  using assms by (simp add: around_def)

lemma around_revises: "revises s t \<Longrightarrow> around c t = around c s"
  by (rule around_eqI) (simp_all add: revises_frame)

text \<open>A comprehension over the rows with one id does not see the rows with another.\<close>

lemma comp_filter:
  assumes "\<And>x. P x \<Longrightarrow> Q x"
  shows "concat (map (\<lambda>x. if P x then f x else []) (filter Q xs)) = concat (map (\<lambda>x. if P x then f x else []) xs)"
  by (induction xs) (use assms in auto)

lemma comp_same: "concat (map (\<lambda>x. if k x = i then f (k x) else []) xs) = concat (map (\<lambda>x. if k x = i then f i else []) xs)"
  by (induction xs) auto

lemma around_rows:
  assumes "i \<noteq> c"
  shows "concat (map (\<lambda>x. if ci_uuid x = i then concat (map (\<lambda>cc. if ci_uuid x = cc_cipher_uuid cc then f cc else [])
           (ciphers_collections (around c s))) else []) (ciphers (around c s)))
    = concat (map (\<lambda>x. if ci_uuid x = i then concat (map (\<lambda>cc. if ci_uuid x = cc_cipher_uuid cc then f cc else [])
           (ciphers_collections s)) else []) (ciphers s))"
proof -
  have inner: "concat (map (\<lambda>cc. if i = cc_cipher_uuid cc then f cc else []) (ciphers_collections (around c s)))
      = concat (map (\<lambda>cc. if i = cc_cipher_uuid cc then f cc else []) (ciphers_collections s))"
    unfolding around_def tbl_delete_def by (simp, rule comp_filter) (use assms in auto)
  have "concat (map (\<lambda>x. if ci_uuid x = i then g else []) (ciphers (around c s)))
      = concat (map (\<lambda>x. if ci_uuid x = i then g else []) (ciphers s))" for g :: "'a list"
    unfolding around_def tbl_delete_def by (simp, rule comp_filter) (use assms in auto)
  then show ?thesis
    unfolding comp_same [of ci_uuid i "\<lambda>j. concat (map (\<lambda>cc. if j = cc_cipher_uuid cc then f cc else []) _)"] inner by simp
qed

lemma around_same [simp]: "collections (around c s) = collections s" "users_collections (around c s) = users_collections s"
  "groups (around c s) = groups s" "groups_users (around c s) = groups_users s"
  "collections_groups (around c s) = collections_groups s" "users_organizations (around c s) = users_organizations s"
  by (simp_all add: around_def)

lemma access_around:
  assumes "ci_uuid x \<noteq> c"
  shows "get_access_restrictions E x u None (around c s) = get_access_restrictions E x u None s"
proof -
  have "get_user_collections_access_flags x u (around c s) = get_user_collections_access_flags x u s"
    unfolding get_user_collections_access_flags_def by (simp only: around_rows [OF assms] around_same)
  moreover have "get_group_collections_access_flags E x u (around c s) = get_group_collections_access_flags E x u s"
    unfolding get_group_collections_access_flags_def by (simp only: around_rows [OF assms] around_same)
  moreover have "Membership_find_confirmed_by_user_and_org u org (around c s) = Membership_find_confirmed_by_user_and_org u org s"
      "Group_is_in_full_access_group u org (around c s) = Group_is_in_full_access_group u org s" for org
    by (simp_all only: Membership_find_confirmed_by_user_and_org_def Group_is_in_full_access_group_def around_same)
  then have "is_in_full_access_org x u None (around c s) = is_in_full_access_org x u None s"
      "is_in_full_access_group E x u None (around c s) = is_in_full_access_group E x u None s"
    by (simp_all only: is_in_full_access_org_def is_in_full_access_group_def)
  ultimately show ?thesis unfolding get_access_restrictions_def Let_def by simp
qed

section \<open>Statements that leave the rest alone\<close>

definition aside :: "CipherId \<Rightarrow> server \<Rightarrow> server \<Rightarrow> bool" where
  "aside c s t \<longleftrightarrow> around c t = around c s"

named_theorems asides

lemma aside_refl [simp]: "aside c s s"
  by (simp add: aside_def)

lemma aside_upd [asides]: "(\<And>s. aside c s (f s)) \<Longrightarrow> stable (aside c s0) (act_upd f)"
  by (rule stable_upd) (simp add: aside_def)

lemma aside_run [asides]: "(\<And>s. aside c s (snd (f s))) \<Longrightarrow> stable (aside c s0) (act_run f)"
  by (rule stable_run) (simp add: aside_def)

lemma aside_revises: "revises s t \<Longrightarrow> aside c s t"
  by (simp add: aside_def around_revises)

lemma aside_revision [asides]: "aside c s (update_uuid_revision E u s)" "aside c s (snd (Cipher_update_users_revision E ci s))"
  "aside c s (snd (utc_now E s))" "aside c s (snd (generate_attachment_id E s))" "aside c s (snd (Cipher_new E ty n s))"
  by (auto intro!: aside_revises simp: revises_revision revises_cipher_users utc_now_def generate_attachment_id_def
      Cipher_new_def get_uuid_def revises_tick Let_def)

lemma aside_rows:
  assumes "ciphers t = ciphers s" "ciphers_collections t = ciphers_collections s" "collections t = collections s"
    "users_collections t = users_collections s" "groups t = groups s" "groups_users t = groups_users s"
    "collections_groups t = collections_groups s" "users_organizations t = users_organizations s"
  shows "aside c s t"
  using around_eqI [OF assms] by (simp add: aside_def)

lemma aside_log [asides]: "aside c s (log_event E ty src org u dev ip s)"
  by (rule aside_rows) simp_all

lemma tbl_delete_upsert:
  assumes "P r" "\<And>x. key x = key r \<Longrightarrow> P x"
  shows "tbl_delete P (tbl_upsert key r t) = tbl_delete P t"
proof -
  have "filter (\<lambda>x. \<not> P x) (map (\<lambda>x. if key x = key r then r else x) t) = filter (\<lambda>x. \<not> P x) t"
    by (induction t) (use assms in auto)
  then show ?thesis using assms(1) by (simp add: tbl_delete_def tbl_upsert_def)
qed

lemma tbl_delete_twice: "(\<And>x. Q x \<Longrightarrow> P x) \<Longrightarrow> tbl_delete P (tbl_delete Q t) = tbl_delete P t"
  by (induction t) (auto simp: tbl_delete_def)

lemma aside_after:
  assumes "revises s t" "u = t\<lparr>tick := n, ciphers := cs, archives := as, ciphers_collections := ccs\<rparr>"
    and "tbl_delete (\<lambda>x. ci_uuid x = c) cs = tbl_delete (\<lambda>x. ci_uuid x = c) (ciphers s)"
    and "tbl_delete (\<lambda>x. cc_cipher_uuid x = c) ccs = tbl_delete (\<lambda>x. cc_cipher_uuid x = c) (ciphers_collections s)"
  shows "aside c s u"
  using assms revises_frame [OF assms(1)] by (simp add: aside_def around_def)

lemma aside_save:
  assumes "ci_uuid ci = c"
  shows "aside c s (snd (Cipher_save E ci s))"
proof -
  let ?t = "snd (Cipher_update_users_revision E ci s)"
  note r = revises_cipher_users [of s E ci]
  show ?thesis
    by (rule aside_after [OF r, where n = "Suc (tick ?t)" and ccs = "ciphers_collections s"
          and as = "archives_after_save E (ci_uuid ci) (?t\<lparr>tick := Suc (tick ?t)\<rparr>)"
          and cs = "tbl_upsert ci_uuid (ci\<lparr>ci_updated_at := clock E (tick ?t)\<rparr>) (ciphers s)"])
      (use assms revises_frame(9,13) [OF r] in \<open>auto simp: Cipher_save_def Let_def utc_now_def intro!: tbl_delete_upsert\<close>)
qed

lemma aside_cc [asides]: "aside c s (cc_save E c col s)" "aside c s (cc_delete E c col s)"
proof -
  let ?t = "cc_update_users_revision E col s"
  have r: "revises s ?t" by (rule revises_cc)
  show "aside c s (cc_save E c col s)"
    by (rule aside_after [OF r, where n = "tick ?t" and cs = "ciphers s" and as = "archives ?t"
          and ccs = "tbl_upsert cc_key \<lparr>cc_cipher_uuid = c, cc_collection_uuid = col\<rparr> (ciphers_collections s)"])
      (use revises_frame(9,13) [OF r] in \<open>auto simp: cc_save_def Let_def cc_key_def intro!: tbl_delete_upsert\<close>)
  show "aside c s (cc_delete E c col s)"
    by (rule aside_after [OF r, where n = "tick ?t" and cs = "ciphers s" and as = "archives ?t"
          and ccs = "tbl_delete (\<lambda>cc. cc_cipher_uuid cc = c \<and> cc_collection_uuid cc = col) (ciphers_collections s)"])
      (use revises_frame(9,13) [OF r] in \<open>auto simp: cc_delete_def Let_def intro!: tbl_delete_twice\<close>)
qed

lemma aside_favorite [asides]: "aside c s (Cipher_set_favorite E f u ci s)"
  by (cases f; cases "is_favorite (ci_uuid ci) u s"; cases "the f")
    (auto intro!: aside_rows simp: Cipher_set_favorite_def set_favorite_def Let_def)

lemma aside_items [asides]: "aside c s (Cipher_set_archived_at E d u ci s)" "aside c s (Cipher_unarchive E u ci s)"
    "aside c s (fc_save fc s)" "aside c s (fc_delete fc s)" "aside c s (Attachment_save a s)"
  by (auto intro!: aside_rows simp: Cipher_set_archived_at_def Archive_save_def
      Cipher_unarchive_def Archive_delete_by_cipher_def fc_save_def fc_delete_def Attachment_save_def Let_def split: option.split)

lemma aside_trans: "aside c s t \<Longrightarrow> aside c t u \<Longrightarrow> aside c s u"
  by (simp add: aside_def)

lemma aside_update_attachments [asides]: "aside c s (update_attachments E i as s)"
  by (induction E i as s rule: update_attachments.induct)
    (auto split: option.split intro: aside_trans aside_items(5))

lemma aside_attachments [stable_intros]: "stable (aside c s0) (Attachment_delete E a)"
    "stable (aside c s0) (save_attachment_file E i f)"
  by (auto simp: stable_def Attachment_delete_def save_attachment_file_def act_defs aside_def around_def split: option.split)

lemma aside_move [stable_intros]: "stable (aside c s0) (move_to_folder E f u ci)"
  unfolding move_to_folder_def by (auto intro!: stable_intros asides split: option.split)

lemma aside_log_cipher [stable_intros]: "stable (aside c s0) (log_cipher E ty ci h)" "stable (aside c s0) (notify_cipher E ci)"
  unfolding log_cipher_def notify_cipher_def by (intro stable_intros asides)+

lemma aside_reads [stable_intros]: "stable (aside c s0) (type_data d)" "stable (aside c s0) (check_folder f h)"
    "stable (aside c s0) (enforce_personal_ownership_policy d' h)" "stable (aside c s0) (writable_cipher E i h msg)"
    "stable (aside c s0) (accessible_cipher E i h)" "stable (aside c s0) (limit_left l u a)"
    "stable (aside c s0) (attachment_limit E ci k)" "stable (aside c s0) (assign_owner E ci org h b)"
  unfolding type_data_def check_folder_def enforce_personal_ownership_policy_def writable_cipher_def accessible_cipher_def
    attachment_limit_def limit_left_def assign_owner_def Let_def
  by (intro stable_intros asides)+

text \<open>The identity of the row: the cipher of a handler is the one that was asked for.\<close>

lemma Cipher_save_uuid: "ci_uuid (fst (Cipher_save E ci s)) = ci_uuid ci"
  by (simp add: Cipher_save_def Let_def utc_now_def)

lemma yields_uuid:
  "yields (\<lambda>ci. ci_uuid ci = c) (writable_cipher E c h msg)" "yields (\<lambda>ci. ci_uuid ci = c) (accessible_cipher E c h)"
  "ci_uuid ci = c \<Longrightarrow> yields (\<lambda>ci. ci_uuid ci = c) (assign_owner E ci org h b)"
  "ci_uuid ci = c \<Longrightarrow> yields (\<lambda>ci. ci_uuid ci = c) (act_run (Cipher_save E ci))"
  unfolding yields_def writable_cipher_def accessible_cipher_def assign_owner_def Let_def Cipher_find_by_uuid_def
  by (auto simp: wp_simps Cipher_save_uuid split: option.split dest: tbl_first_Some)

lemmas bind_uuid = stable_bind_yields [OF yields_uuid(1)] stable_bind_yields [OF yields_uuid(2)]
  stable_bind_yields [OF yields_uuid(3)] stable_bind_yields [OF yields_uuid(4)]

lemma aside_saving [stable_intros]: "ci_uuid ci = c \<Longrightarrow> stable (aside c s0) (act_run (Cipher_save E ci))"
  by (intro asides aside_save)

lemma writable_cipher_wp:
  "wp (writable_cipher E i h msg) (\<lambda>ci t. t = s \<and> Cipher_find_by_uuid i s = Some ci \<and> ci_uuid ci = i
      \<and> is_write_accessible_to_user E ci (u_uuid (h_user h)) s)
    (\<lambda>e t. t = s \<and> \<not> (\<exists>ci. Cipher_find_by_uuid i s = Some ci \<and> is_write_accessible_to_user E ci (u_uuid (h_user h)) s)) s"
  unfolding writable_cipher_def
  by (intro wp_read wp_need wp_guard) (auto simp: wp_ret Cipher_find_by_uuid_def dest: tbl_first_Some)

lemma update_cipher_aside [stable_intros]:
  assumes "ci_uuid ci = c"
  shows "stable (aside c s0) (update_cipher_from_data E ci data h shared ut)"
  unfolding update_cipher_from_data_def Let_def
  by (intro stable_seq bind_uuid(3,4) [where c = c] stable_intros asides assms)
    (auto intro!: asides split: option.split)

section \<open>Requests on one cipher\<close>

lemma share_to_aside [stable_intros]: "stable (aside c s0) (share_to E c org u cols)"
  by (induction cols) (auto intro!: stable_intros asides)

lemma share_aside [stable_intros]: "stable (aside c s0) (share_cipher_by_uuid E c data h ov)"
  unfolding share_cipher_by_uuid_def Let_def
  by (intro bind_uuid(1) stable_intros) (simp_all add: share_to_aside)

lemma aside_handlers:
  "stable (aside c s0) (put_cipher E c data h)"
  "stable (aside c s0) (put_cipher_partial E c folder fav h)"
  "stable (aside c s0) (archive_cipher E c h multi)"
  "stable (aside c s0) (unarchive_cipher E c h multi)"
  "stable (aside c s0) (restore_cipher_by_uuid E c h multi)"
  "stable (aside c s0) (post_attachment_v2 E c ard h)"
  "stable (aside c s0) (save_attachment E att c up h)"
  "stable (aside c s0) (delete_cipher_attachment_by_id E c i h)"
  unfolding put_cipher_def put_cipher_partial_def Let_def archive_cipher_def unarchive_cipher_def restore_cipher_by_uuid_def
    post_attachment_v2_def save_attachment_def delete_cipher_attachment_by_id_def upload_v2_def upload_legacy_def
  by (intro bind_uuid(1,4) [where c = c] stable_intros asides; simp add: aside_refl)+

text \<open>Two handlers find the cipher on their own terms.\<close>

lemma bind_found:
  assumes "\<And>ci. ci_uuid ci = c \<Longrightarrow> stable I (f ci)"
  shows "stable I (act_bind (act_get (Cipher_find_by_uuid c)) (\<lambda>x. act_bind (some_or msg x) f))"
  using assms unfolding stable_def
  by (auto simp: act_defs Cipher_find_by_uuid_def split: option.split dest: tbl_first_Some)

lemma aside_change [stable_intros]: "stable (aside c s0) (change_collections E order cur c posted h)"
  unfolding change_collections_def Let_def
  by (intro bind_found stable_intros asides) (simp_all add: aside_cc)

lemma aside_gone [asides]: "aside (ci_uuid ci) s (cc_delete_all_by_cipher (ci_uuid ci) s)"
  "aside c s (fc_delete_all_by_cipher i s)" "aside c s (fav_delete_all_by_cipher i s)"
  "aside c s (cipher_row_delete c s)"
  by (simp_all add: aside_def around_def cc_delete_all_by_cipher_def fc_delete_all_by_cipher_def fav_delete_all_by_cipher_def
      cipher_row_delete_def tbl_delete_twice)

lemma aside_delete [stable_intros]:
  assumes "ci_uuid ci = c"
  shows "stable (aside c s0) (Cipher_delete E ci)"
  unfolding Cipher_delete_def Attachment_delete_all_by_cipher_def assms [symmetric] by (intro stable_intros asides)

lemma aside_trash [stable_intros]: "stable (aside c s0) (delete_cipher_by_uuid E c h opt)"
  unfolding delete_cipher_by_uuid_def
  by (intro bind_uuid(1,4) [where c = c] stable_intros asides) simp_all

end
