(* ===== verification/CipherOwner.thy ===== *)
theory CipherOwner
  imports CipherLaws
begin

text \<open>
  The table of ciphers stays well-formed: ids are unique, and a cipher belongs either to one user or to
  one organization. \<open>Cipher_new\<close> makes a row with no owner; every handler assigns one before it saves.
\<close>

definition one_owner :: "Cipher \<Rightarrow> bool" where
  "one_owner ci \<longleftrightarrow> (ci_user_uuid ci = None) \<noteq> (ci_organization_uuid ci = None)"

definition ciphers_wf :: "server \<Rightarrow> bool" where
  "ciphers_wf s \<longleftrightarrow> keyed ci_uuid (ciphers s) \<and> list_all one_owner (ciphers s)"

named_theorems same_ciphers

lemma wf_upd: "(\<And>s. ciphers (f s) = ciphers s) \<Longrightarrow> stable ciphers_wf (act_upd f)"
  by (rule stable_upd) (simp add: ciphers_wf_def)

lemma wf_run: "(\<And>s. ciphers (snd (f s)) = ciphers s) \<Longrightarrow> stable ciphers_wf (act_run f)"
  by (rule stable_run) (simp add: ciphers_wf_def)

lemma same_revision [same_ciphers]: "ciphers (snd (Cipher_update_users_revision E ci s)) = ciphers s"
    "ciphers (cc_save E c col s) = ciphers s" "ciphers (cc_delete E c col s) = ciphers s"
  using revises_frame(13) [OF revises_cipher_users] revises_frame(13) [OF revises_cc]
  by (simp_all add: cc_save_def cc_delete_def Let_def)

lemma same_items [same_ciphers]: "ciphers (fc_save fc s) = ciphers s" "ciphers (fc_delete fc s) = ciphers s"
    "ciphers (Cipher_set_archived_at E d u ci s) = ciphers s" "ciphers (Cipher_unarchive E u ci s) = ciphers s"
    "ciphers (Attachment_save a s) = ciphers s" "ciphers (snd (utc_now E s)) = ciphers s"
    "ciphers (snd (generate_attachment_id E s)) = ciphers s" "ciphers (snd (Cipher_new E ty n s)) = ciphers s"
    "ciphers (snd (update_revision E u' s)) = ciphers s" "ciphers (Folder_delete E f s) = ciphers s"
    "ciphers (fc_delete_all_by_cipher i s) = ciphers s" "ciphers (fav_delete_all_by_cipher i s) = ciphers s"
    "ciphers (cc_delete_all_by_cipher i s) = ciphers s" "ciphers (log_event E ty' src org us dev ip s) = ciphers s"
  by (simp_all add: fc_save_def fc_delete_def Cipher_set_archived_at_def Archive_save_def utc_now_def
      Cipher_unarchive_def Archive_delete_by_cipher_def Attachment_save_def generate_attachment_id_def Cipher_new_def get_uuid_def
      update_revision_def update_revision_impl_def Folder_delete_def fc_delete_all_by_folder_def
      fc_delete_all_by_cipher_def fav_delete_all_by_cipher_def cc_delete_all_by_cipher_def Let_def)

lemma same_favorite [same_ciphers]: "ciphers (Cipher_set_favorite E f u ci s) = ciphers s"
  by (cases f; cases "is_favorite (ci_uuid ci) u s"; cases "the f") (auto simp: Cipher_set_favorite_def set_favorite_def Let_def)

lemma same_attachments [same_ciphers]: "ciphers (update_attachments E i as s) = ciphers s"
  by (induction E i as s rule: update_attachments.induct) (auto split: option.split simp: same_items)

lemma wf_attachments [stable_intros]: "stable ciphers_wf (Attachment_delete E a)" "stable ciphers_wf (save_attachment_file E i f)"
  by (auto simp: stable_def Attachment_delete_def save_attachment_file_def act_defs ciphers_wf_def split: option.split)

lemma wf_small [stable_intros]: "stable ciphers_wf (move_to_folder E f u ci)" "stable ciphers_wf (log_cipher E ty ci h)"
    "stable ciphers_wf (notify_cipher E ci)" "stable ciphers_wf (type_data d)" "stable ciphers_wf (check_folder f h)"
    "stable ciphers_wf (enforce_personal_ownership_policy d' h)" "stable ciphers_wf (writable_cipher E i h msg)"
    "stable ciphers_wf (accessible_cipher E i h)" "stable ciphers_wf (limit_left l n a)"
    "stable ciphers_wf (attachment_limit E ci k)" "stable ciphers_wf (assign_owner E ci org h b)"
  unfolding move_to_folder_def log_cipher_def notify_cipher_def type_data_def check_folder_def enforce_personal_ownership_policy_def
    writable_cipher_def accessible_cipher_def limit_left_def attachment_limit_def assign_owner_def Let_def
  by (intro stable_intros wf_upd same_ciphers | auto intro!: stable_intros wf_upd same_ciphers split: option.split)+

section \<open>Saving\<close>

lemma wf_save [stable_intros]:
  assumes "one_owner ci"
  shows "stable ciphers_wf (act_run (Cipher_save E ci))"
proof (rule stable_run)
  fix s assume s: "ciphers_wf s"
  let ?r = "ci\<lparr>ci_updated_at := clock E (tick (snd (Cipher_update_users_revision E ci s)))\<rparr>"
  have "ciphers (snd (Cipher_save E ci s)) = tbl_upsert ci_uuid ?r (ciphers s)"
    by (simp add: Cipher_save_def Let_def utc_now_def same_ciphers)
  moreover have "one_owner ?r" using assms by (simp add: one_owner_def)
  then have "list_all one_owner (tbl_upsert ci_uuid ?r (ciphers s))"
    using s by (auto simp: ciphers_wf_def list_all_iff tbl_upsert_def)
  ultimately show "ciphers_wf (snd (Cipher_save E ci s))" using s by (auto simp: ciphers_wf_def)
qed

lemma wf_guard: "(\<not> b \<Longrightarrow> stable I k) \<Longrightarrow> stable I (act_seq (err_if b msg) k)"
  by (cases b) (auto simp: stable_def act_defs)

lemma assign_owner_owner:
  "ci_organization_uuid ci = None \<or> ci_organization_uuid ci = org \<Longrightarrow> yields one_owner (assign_owner E ci org h b)"
  unfolding yields_def assign_owner_def Let_def by (auto simp: wp_simps one_owner_def split: option.split)

text \<open>Whatever the cipher was, the row that an update saves has one owner.\<close>

lemma update_cipher_wf [stable_intros]: "stable ciphers_wf (update_cipher_from_data E ci data h shared ut)"
  unfolding update_cipher_from_data_def Let_def
  by (intro wf_guard stable_bind_yields [OF assign_owner_owner] stable_intros wf_upd)
    (auto simp: same_ciphers one_owner_def split: option.split)

section \<open>Handlers\<close>

lemma wf_writable:
  assumes "\<And>ci. one_owner ci \<Longrightarrow> stable ciphers_wf (f ci)"
  shows "stable ciphers_wf (act_bind (writable_cipher E c h msg) f)"
  unfolding stable_def
proof (intro allI impI)
  fix s assume s: "ciphers_wf s"
  have "one_owner ci" if "Cipher_find_by_uuid c s = Some ci" for ci
    using that s by (auto simp: Cipher_find_by_uuid_def ciphers_wf_def list_all_iff dest: tbl_first_Some)
  then have "wp (act_bind (writable_cipher E c h msg) f) (\<lambda>_. ciphers_wf) (\<lambda>_. ciphers_wf) s"
    by (intro wp_after [OF writable_cipher_wp]) (use assms s in \<open>auto simp: wp_snd stable_def\<close>)
  then show "ciphers_wf (snd (act_bind (writable_cipher E c h msg) f s))" by (simp add: wp_snd)
qed

lemma wf_delete [stable_intros]: "stable ciphers_wf (Cipher_delete E ci)"
proof -
  have row: "stable ciphers_wf (act_upd (cipher_row_delete c))" for c
    by (rule stable_upd) (auto simp: ciphers_wf_def cipher_row_delete_def list_all_iff set_tbl_delete intro: keyed_delete)
  show ?thesis unfolding Cipher_delete_def Attachment_delete_all_by_cipher_def
    by (intro row stable_intros wf_upd same_ciphers)
qed

lemma wf_handlers:
  "stable ciphers_wf (put_cipher E c data h)"
  "stable ciphers_wf (put_cipher_partial E c folder fav h)"
  "stable ciphers_wf (archive_cipher E c h multi)"
  "stable ciphers_wf (unarchive_cipher E c h multi)"
  "stable ciphers_wf (post_attachment_v2 E c ard h)"
  "stable ciphers_wf (save_attachment E att c up h)"
  "stable ciphers_wf (delete_cipher_attachment_by_id E c i h)"
  "stable ciphers_wf (change_collections E ord cur c cols h)"
  "stable ciphers_wf (move_cipher_selected E folder cs h)"
  unfolding put_cipher_def put_cipher_partial_def Let_def archive_cipher_def unarchive_cipher_def change_collections_def
    post_attachment_v2_def save_attachment_def delete_cipher_attachment_by_id_def upload_v2_def upload_legacy_def move_cipher_selected_def
  by (intro stable_intros wf_upd wf_run same_ciphers)+

lemma wf_trash: "stable ciphers_wf (delete_cipher_by_uuid E c h opt)" "stable ciphers_wf (restore_cipher_by_uuid E c h multi)"
  unfolding delete_cipher_by_uuid_def restore_cipher_by_uuid_def
  by (intro wf_writable stable_intros wf_run same_ciphers; simp add: one_owner_def)+

lemma wf_share_to [stable_intros]: "stable ciphers_wf (share_to E c org u cols)"
  by (induction cols) (auto intro!: stable_intros wf_upd same_ciphers)

lemma wf_share [stable_intros]: "stable ciphers_wf (share_cipher_by_uuid E c data h ov)"
  unfolding share_cipher_by_uuid_def Let_def by (intro stable_intros)

lemma Cipher_new_owner: "yields (\<lambda>ci. ci_organization_uuid ci = None) (act_run (Cipher_new E ty n))"
  by (simp add: yields_def wp_run Cipher_new_def Let_def utc_now_def get_uuid_def)

lemma wf_create: "stable ciphers_wf (post_ciphers E d h)" "stable ciphers_wf (post_ciphers_create E sd h)"
  unfolding post_ciphers_def post_ciphers_create_def
  by (intro stable_bind_yields [OF Cipher_new_owner] stable_intros wf_run same_ciphers; simp add: one_owner_def)+

lemma wf_import: "stable ciphers_wf (post_ciphers_import E data h)"
proof -
  have "ciphers (snd (import_folders E u ex fs s)) = ciphers s" for u ex fs s
    by (induction fs arbitrary: s)
      (auto simp: Folder_new_def Folder_save_def utc_now_def get_uuid_def Let_def split_beta split: option.split)
  moreover have "stable ciphers_wf (import_ciphers E ids rel h n cs)" for ids rel n cs
    by (induction cs arbitrary: n) (auto intro!: stable_intros wf_run same_ciphers)
  ultimately show ?thesis unfolding post_ciphers_import_def validate_cipher_data_def Let_def
    by (intro stable_intros wf_run wf_upd same_ciphers)
qed

lemma wf_validate [stable_intros]: "stable ciphers_wf (PasswordOrOtpData_validate E data u b)"
proof -
  have "stable ciphers_wf (validate_protected_action_otp E otp i b)" for otp i
    unfolding validate_protected_action_otp_def Let_def
    by (intro stable_intros wf_upd wf_run)
      (simp_all add: TwoFactor_delete_def TwoFactor_save_def time_since_sent_def utc_now_def Let_def)
  then show ?thesis unfolding PasswordOrOtpData_validate_def
    by (cases "po_master_password_hash data"; cases "po_otp data") (auto intro!: stable_intros)
qed

lemma wf_purge: "stable ciphers_wf (purge_org_vault E org data oh)" "stable ciphers_wf (purge_personal_vault E data h)"
  unfolding purge_org_vault_def purge_personal_vault_def Cipher_delete_all_by_organization_def Let_def
  by (intro stable_intros wf_upd same_ciphers)+

end
