(* ===== verification/CipherProps.thy ===== *)
theory CipherProps
  imports CipherOwner DemoVault
begin

text \<open>
  Properties of the cipher handlers: requests on some ciphers leave every other cipher alone, a user
  without write access changes no cipher, every stored cipher has exactly one owner, the trash gives a
  cipher back, and what a save does to archive marks.
\<close>

section \<open>Requests\<close>

text \<open>The requests on existing and new ciphers; the handlers run for the signed-in user of the headers.\<close>

datatype cipher_request =
    ReqCreate CipherData
  | ReqCreateShared ShareCipherData
  | ReqPut CipherId CipherData
  | ReqPartial CipherId "FolderId option" bool
  | ReqShare CipherId ShareCipherData
  | ReqShareSelected "CipherData list" "CollectionId list"
  | ReqCollections CipherId "CollectionId list"
  | ReqCollectionsAdmin CipherId "CollectionId list"
  | ReqDelete CipherId CipherDeleteOptions
  | ReqDeleteSelected "CipherId list" CipherDeleteOptions
  | ReqRestore CipherId
  | ReqRestoreSelected "CipherId list"
  | ReqMove "FolderId option" "CipherId list"
  | ReqArchive CipherId
  | ReqArchiveSelected "CipherId list"
  | ReqUnarchive CipherId
  | ReqUnarchiveSelected "CipherId list"
  | ReqAttach CipherId AttachmentRequestData
  | ReqUploadV2 CipherId AttachmentId UploadData
  | ReqUpload CipherId UploadData
  | ReqDetach CipherId AttachmentId
  | ReqReplaceUpload CipherId AttachmentId UploadData

fun serve_cipher ::
  "env \<Rightarrow> (CollectionId list \<Rightarrow> CollectionId list) \<Rightarrow> Headers \<Rightarrow> cipher_request \<Rightarrow> (server, unit) act" where
  "serve_cipher E ord h (ReqCreate d) = act_void (post_ciphers E d h)"
| "serve_cipher E ord h (ReqCreateShared d) = act_void (post_ciphers_create E d h)"
| "serve_cipher E ord h (ReqPut c d) = act_void (put_cipher E c d h)"
| "serve_cipher E ord h (ReqPartial c f fav) = act_void (put_cipher_partial E c f fav h)"
| "serve_cipher E ord h (ReqShare c d) = act_void (share_cipher_by_uuid E c d h None)"
| "serve_cipher E ord h (ReqShareSelected cs cols) = put_cipher_share_selected E cs cols h"
| "serve_cipher E ord h (ReqCollections c cols) = act_void (post_collections_update E ord c cols h)"
| "serve_cipher E ord h (ReqCollectionsAdmin c cols) = post_collections_admin E ord c cols h"
| "serve_cipher E ord h (ReqDelete c opt) = delete_cipher_by_uuid E c h opt"
| "serve_cipher E ord h (ReqDeleteSelected cs opt) = delete_multiple_ciphers E cs h opt"
| "serve_cipher E ord h (ReqRestore c) = act_void (restore_cipher_by_uuid E c h False)"
| "serve_cipher E ord h (ReqRestoreSelected cs) = act_void (restore_multiple_ciphers E cs h)"
| "serve_cipher E ord h (ReqMove f cs) = move_cipher_selected E f cs h"
| "serve_cipher E ord h (ReqArchive c) = act_void (archive_cipher E c h False)"
| "serve_cipher E ord h (ReqArchiveSelected cs) = act_void (archive_multiple_ciphers E cs h)"
| "serve_cipher E ord h (ReqUnarchive c) = act_void (unarchive_cipher E c h False)"
| "serve_cipher E ord h (ReqUnarchiveSelected cs) = act_void (unarchive_multiple_ciphers E cs h)"
| "serve_cipher E ord h (ReqAttach c d) = act_void (post_attachment_v2 E c d h)"
| "serve_cipher E ord h (ReqUploadV2 c a d) = post_attachment_v2_data E c a d h"
| "serve_cipher E ord h (ReqUpload c d) = act_void (post_attachment E c d h)"
| "serve_cipher E ord h (ReqDetach c a) = act_void (delete_cipher_attachment_by_id E c a h)"
| "serve_cipher E ord h (ReqReplaceUpload c a d) = act_void (post_attachment_share E c a d h)"

text \<open>The ciphers a request names.\<close>

fun targets :: "cipher_request \<Rightarrow> CipherId set" where
  "targets (ReqCreate d) = {}"
| "targets (ReqCreateShared d) = {}"
| "targets (ReqPut c d) = {c}"
| "targets (ReqPartial c f fav) = {c}"
| "targets (ReqShare c d) = {c}"
| "targets (ReqShareSelected cs cols) = {c. Some c \<in> cp_id ` set cs}"
| "targets (ReqCollections c cols) = {c}"
| "targets (ReqCollectionsAdmin c cols) = {c}"
| "targets (ReqDelete c opt) = {c}"
| "targets (ReqDeleteSelected cs opt) = set cs"
| "targets (ReqRestore c) = {c}"
| "targets (ReqRestoreSelected cs) = set cs"
| "targets (ReqMove f cs) = set cs"
| "targets (ReqArchive c) = {c}"
| "targets (ReqArchiveSelected cs) = set cs"
| "targets (ReqUnarchive c) = {c}"
| "targets (ReqUnarchiveSelected cs) = set cs"
| "targets (ReqAttach c d) = {c}"
| "targets (ReqUploadV2 c a d) = {c}"
| "targets (ReqUpload c d) = {c}"
| "targets (ReqDetach c a) = {c}"
| "targets (ReqReplaceUpload c a d) = {c}"

text \<open>Requests of anybody that do not name the cipher \<open>x\<close>, imports, and purges of vaults that \<open>x\<close> is not in; the
  ids drawn from then on are other ids.\<close>

inductive elsewhere :: "env \<Rightarrow> CipherId \<Rightarrow> server \<Rightarrow> server \<Rightarrow> bool" for E x where
  start: "elsewhere E x s s"
| serve: "elsewhere E x s t \<Longrightarrow> x \<notin> targets q \<Longrightarrow> (\<forall>n\<ge>tick t. uuid_at E n \<noteq> x)
    \<Longrightarrow> elsewhere E x s (snd (serve_cipher E ord h q t))"
| import: "elsewhere E x s t \<Longrightarrow> (\<forall>n\<ge>tick t. uuid_at E n \<noteq> x) \<Longrightarrow> elsewhere E x s (snd (post_ciphers_import E im h t))"
| purge_org: "elsewhere E x s t \<Longrightarrow> x \<notin> ci_uuid ` set (Cipher_find_by_org org t)
    \<Longrightarrow> elsewhere E x s (snd (purge_org_vault E org data oh t))"
| purge: "elsewhere E x s t \<Longrightarrow> x \<notin> ci_uuid ` set (find_owned_by_user (u_uuid (h_user h)) t)
    \<Longrightarrow> elsewhere E x s (snd (purge_personal_vault E data h t))"

section \<open>Other ciphers\<close>

text \<open>The row of \<open>x\<close>, its collections, and everybody's access to it.\<close>

definition unharmed :: "CipherId \<Rightarrow> server \<Rightarrow> server \<Rightarrow> bool" where
  "unharmed x s t \<longleftrightarrow> Cipher_find_by_uuid x t = Cipher_find_by_uuid x s
     \<and> tbl_select (\<lambda>cc. cc_cipher_uuid cc = x) (ciphers_collections t) = tbl_select (\<lambda>cc. cc_cipher_uuid cc = x) (ciphers_collections s)
     \<and> (\<forall>E ci u. ci_uuid ci = x \<longrightarrow> get_access_restrictions E ci u None t = get_access_restrictions E ci u None s)"

lemma unharmed_refl [simp]: "unharmed x s s"
  by (simp add: unharmed_def)

lemma unharmed_trans: "unharmed x s t \<Longrightarrow> unharmed x t u \<Longrightarrow> unharmed x s u"
  by (simp add: unharmed_def)

lemma find_around: "x \<noteq> c \<Longrightarrow> Cipher_find_by_uuid x (around c s) = Cipher_find_by_uuid x s"
proof -
  assume "x \<noteq> c"
  then have "tbl_first (\<lambda>ci. ci_uuid ci = x) (tbl_delete (\<lambda>ci. ci_uuid ci = c) cs) = tbl_first (\<lambda>ci. ci_uuid ci = x) cs" for cs
    by (induction cs) (auto simp: tbl_delete_def tbl_first_def)
  then show ?thesis by (simp add: Cipher_find_by_uuid_def around_def)
qed

lemma select_around:
  "x \<noteq> c \<Longrightarrow> tbl_select (\<lambda>cc. cc_cipher_uuid cc = x) (ciphers_collections (around c s))
     = tbl_select (\<lambda>cc. cc_cipher_uuid cc = x) (ciphers_collections s)"
  by (simp add: around_def tbl_delete_def tbl_select_def) (rule filter_cong; auto)

lemma aside_unharmed:
  assumes "aside c s t" "x \<noteq> c"
  shows "unharmed x s t"
  using assms(1) find_around [OF assms(2)] select_around [OF assms(2)] access_around assms(2)
  unfolding aside_def unharmed_def by metis

lemma stable_unharmed:
  assumes "\<And>s. stable (aside c s) m" "x \<noteq> c"
  shows "stable (unharmed x s0) m"
  using assms(1) aside_unharmed [OF _ assms(2)] unharmed_trans unfolding stable_def by (metis aside_refl)

lemma Cipher_new_uuid: "ci_uuid (fst (Cipher_new E ty n s)) = uuid_at E (Suc (tick s))"
  by (simp add: Cipher_new_def utc_now_def get_uuid_def bump_def Let_def)

lemma create_unharmed:
  assumes "\<forall>n\<ge>tick s. uuid_at E n \<noteq> x" "\<And>ci. ci_uuid ci \<noteq> x \<Longrightarrow> stable (unharmed x s) (f ci)"
  shows "unharmed x s (snd (act_bind (act_run (Cipher_new E ty n)) f s))"
proof -
  let ?ci = "fst (Cipher_new E ty n s)" and ?t = "snd (Cipher_new E ty n s)"
  have "unharmed x s ?t" by (rule aside_unharmed [where c = "x @ ''-''"]) (simp_all add: asides)
  moreover have "ci_uuid ?ci \<noteq> x" using assms(1) by (simp add: Cipher_new_uuid)
  ultimately have "unharmed x s (snd (f ?ci ?t))" using assms(2) by (simp add: stable_def)
  then show ?thesis by (simp add: act_defs split_beta)
qed

lemma create_handlers_unharmed:
  assumes "\<forall>n\<ge>tick s. uuid_at E n \<noteq> x"
  shows "unharmed x s (snd (post_ciphers E d h s))" "unharmed x s (snd (post_ciphers_create E sd h s))"
proof -
  show "unharmed x s (snd (post_ciphers E d h s))" unfolding post_ciphers_def
    by (intro create_unharmed assms stable_unharmed [OF update_cipher_aside]) auto
  let ?rest = "\<lambda>ci. act_bind (act_run (Cipher_save E (ci\<lparr>ci_user_uuid := Some (u_uuid (h_user h))\<rparr>))) (\<lambda>cipher.
      act_catch (share_cipher_by_uuid E (ci_uuid cipher) (sd\<lparr>sh_cipher := (sh_cipher sd)\<lparr>cp_last_known_revision_date := None\<rparr>\<rparr>) h None)
        (\<lambda>e. act_seq (Cipher_delete E cipher) (act_err (Api e))))"
  have "stable (unharmed x s) (?rest ci)" if "ci_uuid ci \<noteq> x" for ci
    by (rule stable_unharmed [of "ci_uuid ci"], intro bind_uuid(4) [where c = "ci_uuid ci"] stable_intros)
      (use that in \<open>auto intro: share_aside\<close>)
  then have "unharmed x s (snd (act_bind (act_run (Cipher_new E (cp_type (sh_cipher sd)) (cp_name (sh_cipher sd)))) ?rest s))"
    by (intro create_unharmed assms)
  then show "unharmed x s (snd (post_ciphers_create E sd h s))"
    unfolding post_ciphers_create_def enforce_personal_ownership_policy_def by (simp add: act_defs)
qed

lemma unharmed_loops [stable_intros]:
  "(\<And>i. i \<in> set is \<Longrightarrow> stable I (f i)) \<Longrightarrow> stable I (collect_ciphers f is)"
  by (induction "is") (auto intro!: stable_intros)

lemma move_unharmed: "stable (aside c s0) (move_cipher_selected E f cs h)"
  unfolding move_cipher_selected_def Let_def by (intro stable_intros asides)

lemma upload_aside: "stable (aside c s0) (post_attachment_v2_data E c i up h)" "stable (aside c s0) (post_attachment_share E c i up h)"
    "stable (aside c s0) (post_attachment E c up h)"
  unfolding post_attachment_v2_data_def post_attachment_share_def post_attachment_def by (intro stable_intros aside_handlers)+

lemma collections_aside: "stable (aside c s0) (post_collections_update E ord c cols h)"
    "stable (aside c s0) (post_collections_admin E ord c cols h)"
  unfolding post_collections_update_def post_collections_admin_def by (intro stable_intros)+

lemmas asides_unharmed = aside_handlers [THEN stable_unharmed] upload_aside [THEN stable_unharmed]
  collections_aside [THEN stable_unharmed] share_aside [THEN stable_unharmed] aside_trash [THEN stable_unharmed]
  move_unharmed [THEN stable_unharmed]

lemma serve_existing_unharmed:
  assumes "x \<notin> targets q" "\<And>d. q \<noteq> ReqCreate d" "\<And>d. q \<noteq> ReqCreateShared d"
  shows "stable (unharmed x s) (serve_cipher E ord h q)"
proof (cases q)
  case (ReqShareSelected cs cols)
  have "stable (unharmed x s) (act_bind (some_or m (cp_id c)) (\<lambda>i. act_bind (share_cipher_by_uuid E i d h o') (\<lambda>_. act_ret ())))"
    if "c \<in> set cs" for c d m o'
    by (intro bind_known stable_bind stable_ret share_aside [THEN stable_unharmed])
      (use that assms(1) ReqShareSelected in \<open>auto simp: image_iff\<close>)
  then show ?thesis using ReqShareSelected by (auto simp: put_cipher_share_selected_def intro!: stable_seq stable_err_if stable_for)
next
  case (ReqMove f cs)
  then show ?thesis by (auto intro: asides_unharmed(16) [where c = "x @ ''-''"])
qed (use assms in \<open>auto simp: delete_multiple_ciphers_def restore_multiple_ciphers_def archive_multiple_ciphers_def
    unarchive_multiple_ciphers_def intro!: stable_intros intro: asides_unharmed\<close>)

lemma serve_unharmed:
  assumes "x \<notin> targets q" "\<forall>n\<ge>tick s. uuid_at E n \<noteq> x"
  shows "unharmed x s (snd (serve_cipher E ord h q s))"
proof -
  have void: "unharmed x s (snd (act_void m s)) \<longleftrightarrow> unharmed x s (snd (m s))" for m :: "(server, Cipher) act"
    by (auto simp: act_void_def act_defs split: prod.split sum.split)
  show ?thesis
  proof (cases "(\<exists>d. q = ReqCreate d) \<or> (\<exists>d. q = ReqCreateShared d)")
    case True
    then show ?thesis using create_handlers_unharmed [OF assms(2)] by (auto simp: void)
  next
    case False
    then show ?thesis using serve_existing_unharmed [OF assms(1), of s E ord h] by (auto simp: stable_def)
  qed
qed

section \<open>Imports and purges\<close>

text \<open>An import draws the ids of its ciphers one after the other; no statement of it turns the counter back.\<close>

abbreviation past :: "nat \<Rightarrow> server \<Rightarrow> bool" where
  "past n t \<equiv> n \<le> tick t"

named_theorems pasts

lemma past_upd [pasts]: "(\<And>s. tick s \<le> tick (f s)) \<Longrightarrow> stable (past n) (act_upd f)"
  by (rule stable_upd) (rule le_trans)

lemma past_run [pasts]: "(\<And>s. tick s \<le> tick (snd (f s))) \<Longrightarrow> stable (past n) (act_run f)"
  by (rule stable_run) (rule le_trans)

lemma past_revision [pasts]: "tick s \<le> tick (update_uuid_revision E u s)"
  by (simp add: update_uuid_revision_def update_revision_impl_def utc_now_def)

lemma past_users [pasts]: "tick s \<le> tick (snd (Cipher_update_users_revision E ci s))"
proof -
  have "tick s \<le> tick (fold (\<lambda>m. update_uuid_revision E (m_user_uuid m)) ms s)" for ms :: "Membership list"
    by (induction ms arbitrary: s) (auto intro: le_trans [OF past_revision])
  then show ?thesis by (simp add: Cipher_update_users_revision_def Let_def past_revision del: fold_append split: option.split)
qed

lemma past_rows [pasts]: "tick s \<le> tick (snd (Cipher_save E ci s))" "tick s \<le> tick (fc_save fc s)" "tick s \<le> tick (fc_delete fc s)"
    "tick s \<le> tick (Cipher_set_archived_at E d u ci s)" "tick s \<le> tick (Attachment_save a s)" "tick s \<le> tick (snd (Cipher_new E ty nm s))"
    "tick s \<le> tick (snd (Folder_save E fo s))" "tick s \<le> tick (snd (Folder_new E u nm s))"
  using past_users [of s E ci] past_revision [of s E u] past_revision [of s E "f_user_uuid fo"]
  by (simp_all add: Cipher_save_def fc_save_def fc_delete_def Cipher_set_archived_at_def Archive_save_def Attachment_save_def Cipher_new_def
      Folder_save_def Folder_new_def utc_now_def get_uuid_def Let_def)

lemma past_favorite [pasts]: "tick s \<le> tick (Cipher_set_favorite E f u ci s)"
  using past_revision [of s E u]
  by (cases f; cases "is_favorite (ci_uuid ci) u s"; cases "the f") (auto simp: Cipher_set_favorite_def set_favorite_def Let_def)

lemma past_attachments [pasts]: "tick s \<le> tick (update_attachments E i as s)"
  by (induction E i as s rule: update_attachments.induct) (auto split: option.split intro: le_trans [OF past_rows(5)])

lemma past_parts [stable_intros]: "stable (past n) (move_to_folder E f u ci)" "stable (past n) (type_data d)" "stable (past n) (check_folder f h)"
    "stable (past n) (enforce_personal_ownership_policy d' h)" "stable (past n) (assign_owner E ci org h b)"
  unfolding move_to_folder_def type_data_def check_folder_def enforce_personal_ownership_policy_def assign_owner_def Let_def
  by (intro stable_intros pasts | auto intro!: stable_intros pasts split: option.split)+

lemma past_update [stable_intros]: "stable (past n) (update_cipher_from_data E ci data h shared UpdateNone)"
  unfolding update_cipher_from_data_def Let_def
  by (intro stable_intros pasts) (auto intro!: pasts split: option.split)

lemma past_folders [pasts]: "tick s \<le> tick (snd (import_folders E u ex fs s))"
proof (induction fs arbitrary: s)
  case (Cons f fs)
  have new: "tick s \<le> tick (snd (Folder_save E g (snd (Folder_new E u nm s))))" for g nm
    by (rule le_trans [OF past_rows(8) past_rows(7)])
  show ?case
    using Cons.IH new by (auto simp: Let_def split_beta split: option.split intro: le_trans)
qed simp

lemma aside_folders [asides]: "aside c s (snd (import_folders E u ex fs s))"
proof (induction fs arbitrary: s)
  case (Cons f fs)
  have new: "aside c s (snd (Folder_save E g (snd (Folder_new E u nm s))))" for g nm s
    by (rule aside_rows) (simp_all add: Folder_save_def Folder_new_def utc_now_def get_uuid_def Let_def)
  show ?case
    using Cons.IH aside_trans [OF new Cons.IH] by (simp add: Let_def split_beta split: option.split)
qed simp

lemma aside_own_revision [asides]: "aside c s (snd (update_revision E u s))" "tick s \<le> tick (snd (update_revision E u s))"
  by (rule aside_rows) (simp_all add: update_revision_def update_revision_impl_def utc_now_def Let_def)

lemma stable_conj: "stable I m \<Longrightarrow> stable J m \<Longrightarrow> stable (\<lambda>s. I s \<and> J s) m"
  by (simp add: stable_def)

lemma import_unharmed:
  assumes "\<forall>n\<ge>tick s. uuid_at E n \<noteq> x"
  shows "unharmed x s (snd (post_ciphers_import E im h s))"
proof -
  let ?I = "\<lambda>t. unharmed x s t \<and> past (tick s) t"
  have x: "x @ ''-'' \<noteq> x" by simp
  have both: "stable ?I m" if "\<And>s0. stable (aside (x @ ''-'') s0) m" "stable (past (tick s)) m" for m :: "(server, 'a) act"
    using stable_unharmed [OF that(1)] that(2) by (simp add: stable_conj)
  have new: "stable ?I (act_bind (act_run (Cipher_new E ty nm)) f)" if "\<And>ci. ci_uuid ci \<noteq> x \<Longrightarrow> stable ?I (f ci)" for ty nm
      and f :: "Cipher \<Rightarrow> (server, unit) act"
    unfolding stable_def
  proof (intro allI impI)
    fix t assume t: "?I t"
    let ?ci = "fst (Cipher_new E ty nm t)" and ?t = "snd (Cipher_new E ty nm t)"
    have "unharmed x t ?t" by (rule aside_unharmed [OF _ x [symmetric]]) (simp add: asides)
    then have "?I ?t" using t past_rows(6) [of t E ty nm] unharmed_trans by fastforce
    moreover have "ci_uuid ?ci \<noteq> x" using assms t by (simp add: Cipher_new_uuid)
    ultimately have "?I (snd (f ?ci ?t))" using that by (simp add: stable_def)
    then show "?I (snd (act_bind (act_run (Cipher_new E ty nm)) f t))" by (simp add: act_defs split_beta)
  qed
  have upd: "stable ?I (update_cipher_from_data E ci d h None UpdateNone)" if "ci_uuid ci \<noteq> x" for ci d
    using stable_unharmed [OF update_cipher_aside [OF refl]] that past_update by (intro stable_conj) auto
  have loop: "stable ?I (import_ciphers E ids rel h n cs)" for ids rel n cs
    by (induction cs arbitrary: n) (auto intro!: stable_bind stable_ret stable_option stable_if stable_err new upd)
  have "stable ?I (post_ciphers_import E im h)"
    unfolding post_ciphers_import_def validate_cipher_data_def Let_def
    by (intro stable_seq stable_bind stable_get stable_err_if loop both asides past_parts aside_reads pasts aside_own_revision)
  then show ?thesis by (simp add: stable_def)
qed

text \<open>A purge deletes the ciphers it finds, each of them without touching another.\<close>

lemma deletes_unharmed:
  assumes "x \<notin> ci_uuid ` set cs"
  shows "stable (unharmed x s) (act_for cs (Cipher_delete E))"
  by (intro stable_for stable_unharmed [OF aside_delete [OF refl]]) (use assms in auto)

lemma validate_unharmed:
  "stable (\<lambda>t. unharmed x s t \<and> ciphers t = ciphers s) (PasswordOrOtpData_validate E data u b)"
proof -
  have tf: "stable (aside c s0) (validate_protected_action_otp E otp i b)" "stable (\<lambda>t. ciphers t = ciphers s) (validate_protected_action_otp E otp i b)"
    for c s0 otp i
    unfolding validate_protected_action_otp_def Let_def
    by (intro stable_intros asides aside_rows stable_upd stable_run;
        simp add: TwoFactor_delete_def TwoFactor_save_def time_since_sent_def utc_now_def Let_def)+
  have "stable (unharmed x s) (PasswordOrOtpData_validate E data u b)" "stable (\<lambda>t. ciphers t = ciphers s) (PasswordOrOtpData_validate E data u b)"
    using tf(2) stable_unharmed [OF tf(1), of x "x @ ''-''" s] unfolding PasswordOrOtpData_validate_def
    by (cases "po_master_password_hash data"; cases "po_otp data"; auto intro!: stable_intros)+
  then show ?thesis by (rule stable_conj)
qed

lemma purge_unharmed:
  "x \<notin> ci_uuid ` set (Cipher_find_by_org org s) \<Longrightarrow> unharmed x s (snd (purge_org_vault E org data oh s))"
  "x \<notin> ci_uuid ` set (find_owned_by_user (u_uuid (h_user h)) s) \<Longrightarrow> unharmed x s (snd (purge_personal_vault E data h s))"
proof -
  have valid: "wp (PasswordOrOtpData_validate E data u b) (\<lambda>_ t. unharmed x s t \<and> ciphers t = ciphers s) (\<lambda>_. unharmed x s) s" for u b
    by (rule wp_stable [OF validate_unharmed]) auto
  have del: "wp (act_for cs (Cipher_delete E)) (\<lambda>_. unharmed x s) (\<lambda>_. unharmed x s) t" if "x \<notin> ci_uuid ` set cs" "unharmed x s t" for cs t
    using deletes_unharmed [OF that(1)] that(2) by (rule wp_stable)
  have rest: "unharmed x s (log_event E ty src o' u dev ip t)" "unharmed x s (snd (update_revision E u' t))" "unharmed x s (Folder_delete E f t)"
    if "unharmed x s t" for ty src o' u dev ip u' f t
  proof -
    have "aside c t (Folder_delete E f t)" for c
      by (rule aside_rows) (simp_all add: Folder_delete_def fc_delete_all_by_folder_def Let_def)
    note one = aside_unharmed [where c = "x @ ''-''", THEN unharmed_trans [OF that]]
    show "unharmed x s (log_event E ty src o' u dev ip t)" "unharmed x s (snd (update_revision E u' t))" "unharmed x s (Folder_delete E f t)"
      by (rule one; simp add: asides \<open>\<And>c. aside c t (Folder_delete E f t)\<close>)+
  qed
  show "unharmed x s (snd (purge_org_vault E org data oh s))" if "x \<notin> ci_uuid ` set (Cipher_find_by_org org s)"
    unfolding wp_snd [symmetric] purge_org_vault_def Cipher_delete_all_by_organization_def
    by (rule wp_guard, simp, rule wp_then [OF valid])
      (use that in \<open>auto simp: wp_simps Cipher_find_by_org_def intro!: wp_mono [OF del] rest\<close>)
  have folders: "wp (act_for fs (\<lambda>f. act_upd (Folder_delete E f))) (\<lambda>_. unharmed x s) (\<lambda>_. unharmed x s) t" if "unharmed x s t" for fs t
    using that by (intro wp_for) (simp_all add: wp_upd rest)
  show "unharmed x s (snd (purge_personal_vault E data h s))" if "x \<notin> ci_uuid ` set (find_owned_by_user (u_uuid (h_user h)) s)"
    unfolding wp_snd [symmetric] purge_personal_vault_def Let_def
    by (rule wp_then [OF valid])
      (use that in \<open>auto simp: wp_simps find_owned_by_user_def intro!: wp_mono [OF del] wp_mono [OF folders] rest\<close>)
qed

text \<open>C24. No sequence of requests, by whichever users, that do not name a cipher changes that cipher, the
  collections it is in or anybody's access to it: creating, updating, sharing, trashing, restoring,
  deleting, archiving and moving ciphers, changing collections and uploading or removing attachments
  touch only the ciphers they name. The same holds of imports, and of purges of an organization or of a
  personal vault that does not contain the cipher.\<close>

theorem cipher_requests_isolated:
  assumes "elsewhere E x s t"
  shows "unharmed x s t"
  using assms
proof induction
  case (serve s t q ord h)
  then show ?case using serve_unharmed unharmed_trans by blast
next
  case (import s t im h)
  then show ?case using import_unharmed unharmed_trans by blast
next
  case (purge_org s t org data oh)
  then show ?case using purge_unharmed(1) unharmed_trans by blast
next
  case (purge s t h data)
  then show ?case using purge_unharmed(2) unharmed_trans by blast
qed simp

definition alice_note :: CipherData where
  "alice_note = \<lparr>cp_id = None, cp_folder_id = None, cp_organization_id = None, cp_key = None, cp_type = 2,
     cp_name = ''2.note'', cp_notes = Some ''text'', cp_fields = None, cp_login = None, cp_secure_note = Some (JObj []),
     cp_card = None, cp_identity = None, cp_ssh_key = None, cp_favorite = Some True, cp_reprompt = Some 1,
     cp_password_history = None, cp_attachments2 = None, cp_last_known_revision_date = None, cp_archived_date = None\<rparr>"

theorem cipher_requests_isolated_witness:
  "fst (serve_cipher demo_env id (demo_headers alice) (ReqPut ''note'' alice_note) demo_vault) = Inr ()
   \<and> ciphers (snd (serve_cipher demo_env id (demo_headers alice) (ReqPut ''note'' alice_note) demo_vault)) \<noteq> ciphers demo_vault
   \<and> unharmed ''item'' demo_vault (snd (serve_cipher demo_env id (demo_headers alice) (ReqPut ''note'' alice_note) demo_vault))"
proof (intro conjI)
  have "replicate n CHR ''x'' \<noteq> ''item''" for n by (cases n) auto
  then have "elsewhere demo_env ''item'' demo_vault
      (snd (serve_cipher demo_env id (demo_headers alice) (ReqPut ''note'' alice_note) demo_vault))"
    by (intro elsewhere.intros) simp_all
  then show "unharmed ''item'' demo_vault (snd (serve_cipher demo_env id (demo_headers alice) (ReqPut ''note'' alice_note) demo_vault))"
    by (rule cipher_requests_isolated)
qed code_simp+

section \<open>Without write access\<close>

text \<open>The user may not write the cipher, or there is none.\<close>

definition locked :: "env \<Rightarrow> Headers \<Rightarrow> server \<Rightarrow> CipherId \<Rightarrow> bool" where
  "locked E h s c \<longleftrightarrow> (case Cipher_find_by_uuid c s of None \<Rightarrow> True
     | Some ci \<Rightarrow> \<not> is_write_accessible_to_user E ci (u_uuid (h_user h)) s)"

definition tables_kept :: "server \<Rightarrow> server \<Rightarrow> bool" where
  "tables_kept s t \<longleftrightarrow> ciphers t = ciphers s \<and> ciphers_collections t = ciphers_collections s \<and> attachments t = attachments s"

lemma tables_kept_refl [simp]: "tables_kept s s"
  by (simp add: tables_kept_def)

text \<open>A handler that answers an error and has changed nothing.\<close>

abbreviation refused :: "server \<Rightarrow> (server, 'a) act \<Rightarrow> bool" where
  "refused s m \<equiv> wp m (\<lambda>_ _. False) (\<lambda>_ t. t = s) s"

lemma locked_bind: "locked E h s c \<Longrightarrow> refused s (act_bind (writable_cipher E c h msg) f)"
  by (rule wp_after [OF writable_cipher_wp]) (auto simp: locked_def)

lemma locked_handlers:
  assumes "locked E h s c"
  shows "refused s (put_cipher E c d h)" "refused s (share_cipher_by_uuid E c sd h ov)"
    "refused s (delete_cipher_by_uuid E c h opt)" "refused s (restore_cipher_by_uuid E c h multi)"
    "refused s (post_attachment_v2 E c ard h)" "refused s (save_attachment E att c up h)"
    "refused s (delete_cipher_attachment_by_id E c i h)" "refused s (change_collections E ord cur c cols h)"
proof -
  show "refused s (put_cipher E c d h)" "refused s (share_cipher_by_uuid E c sd h ov)"
      "refused s (delete_cipher_by_uuid E c h opt)" "refused s (restore_cipher_by_uuid E c h multi)"
      "refused s (post_attachment_v2 E c ard h)" "refused s (save_attachment E att c up h)"
      "refused s (delete_cipher_attachment_by_id E c i h)"
    unfolding put_cipher_def share_cipher_by_uuid_def delete_cipher_by_uuid_def restore_cipher_by_uuid_def post_attachment_v2_def
      save_attachment_def delete_cipher_attachment_by_id_def
    by (intro locked_bind assms wp_read wp_need wp_guard; simp)+
  show "refused s (change_collections E ord cur c cols h)"
    using assms by (auto simp: change_collections_def locked_def is_in_editable_collection_by_user_def
        is_write_accessible_to_user_def wp_simps Let_def split: option.splits)
qed

lemma refused_bind: "refused s m \<Longrightarrow> refused s (act_bind m f)" "refused s m' \<Longrightarrow> refused s (act_seq m' k)"
  by (auto simp: wp_bind wp_seq elim: wp_mono)

text \<open>The requests that need no write access change other tables only.\<close>

named_theorems keeps_tables

lemma tables_upd [keeps_tables]: "(\<And>s. tables_kept s (f s)) \<Longrightarrow> stable (tables_kept s0) (act_upd f)"
  by (rule stable_upd) (simp add: tables_kept_def)

lemma tables_run [keeps_tables]: "(\<And>s. tables_kept s (snd (f s))) \<Longrightarrow> stable (tables_kept s0) (act_run f)"
  by (rule stable_run) (simp add: tables_kept_def)

lemma tables_rows [keeps_tables]: "tables_kept s (fc_save fc s)" "tables_kept s (fc_delete fc s)"
    "tables_kept s (update_uuid_revision E u s)"
    "tables_kept s (Cipher_set_archived_at E d u ci s)" "tables_kept s (Cipher_unarchive E u ci s)"
    "tables_kept s (snd (Cipher_update_users_revision E ci s))" "tables_kept s (snd (utc_now E s))"
  using revises_cipher_users [of s E ci]
  by (auto simp: tables_kept_def fc_save_def fc_delete_def Cipher_set_archived_at_def Archive_save_def utc_now_def
      Cipher_unarchive_def Archive_delete_by_cipher_def Let_def dest: revises_frame)

lemma tables_favorite [keeps_tables]: "tables_kept s (Cipher_set_favorite E f u ci s)"
  by (cases f; cases "is_favorite (ci_uuid ci) u s"; cases "the f")
    (auto simp: tables_kept_def Cipher_set_favorite_def set_favorite_def Let_def)

lemma tables_reading: "stable (tables_kept s0) (move_to_folder E f u ci)" "stable (tables_kept s0) (put_cipher_partial E c f fav h)"
    "stable (tables_kept s0) (archive_cipher E c h multi)" "stable (tables_kept s0) (unarchive_cipher E c h multi)"
    "stable (tables_kept s0) (move_cipher_selected E f cs h)"
  unfolding put_cipher_partial_def archive_cipher_def unarchive_cipher_def move_cipher_selected_def move_to_folder_def
    accessible_cipher_def notify_cipher_def check_folder_def Let_def
  by (intro stable_intros keeps_tables | auto intro!: stable_intros keeps_tables split: option.split)+

fun reading :: "cipher_request \<Rightarrow> bool" where
  "reading (ReqPartial c f fav) = True"
| "reading (ReqMove f cs) = True"
| "reading (ReqArchive c) = True"
| "reading (ReqArchiveSelected cs) = True"
| "reading (ReqUnarchive c) = True"
| "reading (ReqUnarchiveSelected cs) = True"
| "reading _ = False"

lemma reading_kept: "reading q \<Longrightarrow> stable (tables_kept s0) (serve_cipher E ord h q)"
  by (cases q rule: reading.cases)
    (auto simp: archive_multiple_ciphers_def unarchive_multiple_ciphers_def intro!: stable_intros tables_reading)

lemma refused_void: "refused s m \<Longrightarrow> refused s (act_void m)"
  unfolding act_void_def by (rule refused_bind)

lemma refused_for: "is \<noteq> [] \<Longrightarrow> (\<And>i. i \<in> set is \<Longrightarrow> refused s (f i)) \<Longrightarrow> refused s (act_for is f)"
  by (cases "is") (auto intro: refused_bind)

lemma refused_collect: "is \<noteq> [] \<Longrightarrow> (\<And>i. i \<in> set is \<Longrightarrow> refused s (f i)) \<Longrightarrow> refused s (collect_ciphers f is)"
  by (cases "is") (auto intro: refused_bind)

lemma writing_refused:
  assumes "\<not> reading q" "targets q \<noteq> {}" "\<And>c. c \<in> targets q \<Longrightarrow> locked E h s c"
  shows "refused s (serve_cipher E ord h q)"
proof (cases q)
  case (ReqShareSelected cs cols)
  have "refused s (act_bind (some_or m (cp_id c)) (\<lambda>i. act_bind (share_cipher_by_uuid E i d h o') (\<lambda>_. act_ret ())))"
    if "c \<in> set cs" for c d m o'
    by (intro wp_need refused_bind locked_handlers assms(3)) (use that ReqShareSelected in \<open>auto simp: image_iff intro!: bexI [of _ c]\<close>)
  then show ?thesis using ReqShareSelected assms(2)
    by (auto simp: put_cipher_share_selected_def intro!: wp_guard refused_for)
next
  case (ReqUploadV2 c a d)
  then have "refused s (save_attachment E (Some x) c d h)" for x using locked_handlers(6) [OF assms(3)] by simp
  then show ?thesis using ReqUploadV2
    by (simp add: post_attachment_v2_data_def) (intro wp_read wp_need wp_guard refused_bind; simp)
qed (use assms(1,2) locked_handlers [OF assms(3)] in \<open>auto simp: delete_multiple_ciphers_def restore_multiple_ciphers_def
    post_collections_update_def post_collections_admin_def post_attachment_def post_attachment_share_def
    intro!: refused_void refused_for refused_collect refused_bind\<close>)

text \<open>C25. A request that names only ciphers its user may not write leaves the ciphers, their collections and
  their attachments as they are. Unless it is one of the requests that only need read access (folder and
  favorite, archive marks), it is answered by an error and changes nothing at all.\<close>

theorem read_only_users:
  assumes "targets q \<noteq> {}" "\<forall>c \<in> targets q. locked E h s c"
  shows "tables_kept s (snd (serve_cipher E ord h q s))
    \<and> (\<not> reading q \<longrightarrow> (\<exists>e. serve_cipher E ord h q s = (Inl e, s)))"
proof (cases "reading q")
  case True
  then show ?thesis using reading_kept [of q s E ord h] by (simp add: stable_def)
next
  case False
  then have "refused s (serve_cipher E ord h q)" using assms by (intro writing_refused) auto
  then show ?thesis by (auto simp: wp_def split: prod.splits sum.splits)
qed

theorem read_only_users_witness:
  "tables_kept demo_vault (snd (serve_cipher demo_env id (demo_headers alice) (ReqDelete ''item'' HardSingle) demo_vault))
    \<and> (\<exists>e. serve_cipher demo_env id (demo_headers alice) (ReqDelete ''item'' HardSingle) demo_vault = (Inl e, demo_vault))"
proof -
  have "locked demo_env (demo_headers alice) demo_vault ''item''" by code_simp
  then show ?thesis using read_only_users [of "ReqDelete ''item'' HardSingle" demo_env "demo_headers alice" demo_vault id] by simp
qed

section \<open>Owners\<close>

text \<open>Requests of anybody, with the import and the two purges.\<close>

inductive cipher_run :: "env \<Rightarrow> server \<Rightarrow> server \<Rightarrow> bool" for E where
  start: "cipher_run E s s"
| serve: "cipher_run E s t \<Longrightarrow> cipher_run E s (snd (serve_cipher E ord h q t))"
| import: "cipher_run E s t \<Longrightarrow> cipher_run E s (snd (post_ciphers_import E im h t))"
| purge_org: "cipher_run E s t \<Longrightarrow> cipher_run E s (snd (purge_org_vault E org data oh t))"
| purge: "cipher_run E s t \<Longrightarrow> cipher_run E s (snd (purge_personal_vault E data h t))"

lemma serve_wf: "stable ciphers_wf (serve_cipher E ord h q)"
proof (cases q)
  case (ReqShareSelected cs cols)
  then show ?thesis by (auto simp: put_cipher_share_selected_def intro!: stable_intros)
qed (auto simp: delete_multiple_ciphers_def restore_multiple_ciphers_def archive_multiple_ciphers_def
    unarchive_multiple_ciphers_def post_collections_update_def post_collections_admin_def post_attachment_def
    post_attachment_share_def post_attachment_v2_data_def intro!: stable_intros wf_handlers wf_create wf_trash)

text \<open>C26. In every run of cipher requests, imports and purges the table of ciphers keeps unique ids, and
  every stored cipher belongs either to one user or to one organization, never to both or to none.\<close>

theorem ciphers_stay_wf:
  assumes "cipher_run E s t" "ciphers_wf s"
  shows "ciphers_wf t"
  using assms
proof induction
  case (serve s t ord h q)
  then show ?case using serve_wf [of E ord h q] by (simp add: stable_def)
next
  case (import s t im h)
  then show ?case using wf_import [of E im h] by (simp add: stable_def)
qed (simp_all add: wf_purge [unfolded stable_def, rule_format])

theorem ciphers_stay_wf_witness:
  "ciphers_wf (snd (serve_cipher demo_env id (demo_headers bob) (ReqCreate alice_note) demo_vault))
   \<and> length (ciphers (snd (serve_cipher demo_env id (demo_headers bob) (ReqCreate alice_note) demo_vault))) = 3"
proof (intro conjI)
  show "ciphers_wf (snd (serve_cipher demo_env id (demo_headers bob) (ReqCreate alice_note) demo_vault))"
    by (rule ciphers_stay_wf [OF cipher_run.serve [OF cipher_run.start]]) code_simp
qed code_simp

section \<open>Trash\<close>






text \<open>Besides the writes that are meant, the requests touch revision dates of users and the log of events.\<close>

definition touches :: "server \<Rightarrow> server \<Rightarrow> bool" where
  "touches s t \<longleftrightarrow> (\<exists>us es n. t = s\<lparr>users := us, events := es, tick := n\<rparr> \<and> touched (users s) us)"


lemma touches_revises: "revises s t \<Longrightarrow> touches s t"
proof -
  assume "revises s t"
  then obtain us n where "t = s\<lparr>users := us, tick := n\<rparr>" "touched (users s) us" by (auto simp: revises_def)
  then show ?thesis unfolding touches_def by (intro exI [of _ us] exI [of _ "events s"] exI [of _ n]) simp
qed

lemma touches_refl [simp]: "touches s s"
  by (simp add: touches_revises)


text \<open>The server with one cipher saved.\<close>

definition saved :: "env \<Rightarrow> Cipher \<Rightarrow> server \<Rightarrow> server" where
  "saved E ci s = s\<lparr>ciphers := tbl_upsert ci_uuid ci (ciphers s), archives := archives_after_save E (ci_uuid ci) s\<rparr>"

lemma archives_after_cong:
  assumes "folders_ciphers t = folders_ciphers s" "ciphers_collections t = ciphers_collections s"
    "attachments t = attachments s" "favorites t = favorites s" "map ci_uuid (ciphers t) = map ci_uuid (ciphers s)"
  shows "save_replaces E c t = save_replaces E c s"
proof -
  have "list_ex (\<lambda>x. ci_uuid x = c) (ciphers t) \<longleftrightarrow> list_ex (\<lambda>x. ci_uuid x = c) (ciphers s)"
    using arg_cong [OF assms(5), of "\<lambda>xs. c \<in> set xs"] by (auto simp: list_ex_iff)
  moreover have "cipher_referenced c t = cipher_referenced c s" by (simp add: cipher_referenced_def assms(1-4))
  ultimately show ?thesis by (simp add: save_replaces_def split: Backend.split)
qed

lemma saved_touches: "touches s t \<Longrightarrow> touches (saved E ci s) (saved E ci t)"
proof -
  assume "touches s t"
  then obtain us es n where t: "t = s\<lparr>users := us, events := es, tick := n\<rparr>" "touched (users s) us" by (auto simp: touches_def)
  have "archives_after_save E (ci_uuid ci) t = archives_after_save E (ci_uuid ci) s" 
    unfolding t(1) by (simp add: archives_after_save_def archives_after_cong [of "s\<lparr>users := us, events := es, tick := n\<rparr>" s])
  then show ?thesis unfolding touches_def saved_def
    by (intro exI [of _ us] exI [of _ es] exI [of _ n]) (simp add: t)
qed





lemma Cipher_save_saves:
  obtains d t where "Cipher_save E ci s = (ci\<lparr>ci_updated_at := d\<rparr>, t)" "touches (saved E (ci\<lparr>ci_updated_at := d\<rparr>) s) t"
proof -
  let ?r = "snd (Cipher_update_users_revision E ci s)"
  let ?ci = "ci\<lparr>ci_updated_at := clock E (tick ?r)\<rparr>" and ?s = "?r\<lparr>tick := Suc (tick ?r)\<rparr>"
  have "touches s ?s"
    by (rule touches_revises [OF revises_trans [OF revises_cipher_users revises_tick]])
  then have "touches (saved E ?ci s) (saved E ?ci ?s)" by (rule saved_touches)
  moreover have "Cipher_save E ci s = (?ci, saved E ?ci ?s)"
    by (simp add: Cipher_save_def saved_def Let_def utc_now_def)
  ultimately show ?thesis by (rule that [rotated])
qed








text \<open>On SQLite and MySQL a save forgets that anybody archived a cipher that is in no folder and no
  collection, has no attachment and is nobody's favorite.\<close>

theorem save_loses_archive_marks:
  assumes "save_replaces E (ci_uuid ci) s"
  shows "Archive_find_by_user u (snd (Cipher_save E ci s))
    = filter (\<lambda>(c, d). c \<noteq> ci_uuid ci) (Archive_find_by_user u s)"
proof -
  obtain d t where t: "Cipher_save E ci s = (ci\<lparr>ci_updated_at := d\<rparr>, t)" "touches (saved E (ci\<lparr>ci_updated_at := d\<rparr>) s) t"
    by (rule Cipher_save_saves)
  have "archives t = tbl_delete (\<lambda>a. ar_cipher_uuid a = ci_uuid ci) (archives s)"
    using t(2) assms by (auto simp: touches_def saved_def archives_after_save_def)
  moreover have "map f (filter P (filter Q xs)) = filter R (map f (filter P xs))" if "\<And>x. R (f x) \<longleftrightarrow> Q x"
    for f :: "Archive \<Rightarrow> CipherId \<times> time" and P Q R xs
    by (induction xs) (use that in auto)
  ultimately show ?thesis using t(1) by (simp add: Archive_find_by_user_def tbl_delete_def tbl_select_def split_beta)
qed

end
