(* ===== verification/CipherLimits.thy ===== *)
theory CipherLimits
  imports CipherOwner DemoVault
begin

text \<open>
  Attachments against the storage limits, and the ways in which a share and an import go wrong.
\<close>

section \<open>The accounting of sizes\<close>

text \<open>The attachments of the ciphers that satisfy \<open>P\<close>, without the join.\<close>

definition counted :: "(Cipher \<Rightarrow> bool) \<Rightarrow> Cipher list \<Rightarrow> Attachment \<Rightarrow> bool" where
  "counted P cs a \<longleftrightarrow> opt_is (tbl_first (\<lambda>ci. ci_uuid ci = at_cipher_uuid a) cs) P"

lemma filter_keyed:
  assumes "keyed key t"
  shows "filter (\<lambda>x. key x = k) t = (case tbl_first (\<lambda>x. key x = k) t of None \<Rightarrow> [] | Some r \<Rightarrow> [r])"
  using assms
proof (induction t)
  case (Cons x t)
  have "filter (\<lambda>x. key x = k) t = []" if "key x = k"
    using that Cons.prems by (auto simp: keyed_def filter_empty_conv image_iff)
  with Cons show ?case by (cases "key x = k") (simp_all add: keyed_def tbl_first_def)
qed (simp add: tbl_first_def)

lemma attachments_counted:
  assumes "keyed ci_uuid (ciphers s)"
  shows "attachments_where P s = filter (counted P (ciphers s)) (attachments s)"
proof -
  have "concat (map (\<lambda>ci. if opt_is ci P then [a] else []) (left_join (\<lambda>ci. ci_uuid ci = at_cipher_uuid a) (ciphers s)))
      = (if counted P (ciphers s) a then [a] else [])" for a
    unfolding left_join_def filter_keyed [OF assms] counted_def by (auto simp: opt_is_def split: option.split)
  then have "concat (map (\<lambda>a. concat (map (\<lambda>ci. if opt_is ci P then [a] else [])
      (left_join (\<lambda>ci. ci_uuid ci = at_cipher_uuid a) (ciphers s)))) as) = filter (counted P (ciphers s)) as" for as
    by (induction as) simp_all
  then show ?thesis unfolding attachments_where_def by simp
qed

lemma sum_insert:
  assumes "key r \<notin> key ` set t"
  shows "sum_list (map f (filter Q (tbl_upsert key r t))) = sum_list (map f (filter Q t)) + (if Q r then f r else (0::int))"
proof -
  have "\<forall>x\<in>set t. key x \<noteq> key r" using assms by (metis image_eqI)
  then show ?thesis by (simp add: tbl_upsert_def)
qed

lemma sum_upsert:
  assumes "keyed key t" "r \<in> set t" "key r' = key r" "Q r = Q r'"
  shows "sum_list (map f (filter Q (tbl_upsert key r' t))) = sum_list (map f (filter Q t)) + (if Q r then f r' - f r else (0::int))"
proof -
  have id: "map (\<lambda>x. if key x = k then r' else x) u = u" if "k \<notin> key ` set u" for k u
    using that by (induction u) auto
  have "sum_list (map f (filter Q (map (\<lambda>x. if key x = key r then r' else x) t)))
      = sum_list (map f (filter Q t)) + (if Q r then f r' - f r else (0::int))"
    using assms(1,2)
  proof (induction t)
    case (Cons x t)
    show ?case
    proof (cases "key x = key r")
      case True
      then have "x = r" "key r \<notin> key ` set t" using Cons.prems by (auto simp: keyed_def)
      then show ?thesis using id [of "key r" t] assms(4) by simp
    next
      case False
      then show ?thesis using Cons by (auto simp: keyed_def)
    qed
  qed simp
  moreover have "\<exists>x\<in>set t. key x = key r'" using assms(2,3) by auto
  ultimately show ?thesis using assms(3) by (simp add: tbl_upsert_def)
qed

section \<open>Uploads\<close>

lemma wp_limit_left:
  "wp (limit_left l used adj) (\<lambda>r t. t = s \<and> (case l of None \<Rightarrow> r = None | Some kb \<Rightarrow> r = Some (kb * 1024 - used + adj)))
    (\<lambda>_ _. True) s"
  unfolding limit_left_def by (auto simp: wp_simps checked_def split: option.split if_splits)

text \<open>The row that an upload stores.\<close>

definition stored_upload :: "env \<Rightarrow> Attachment option \<Rightarrow> CipherId \<Rightarrow> UploadData \<Rightarrow> server \<Rightarrow> Attachment \<Rightarrow> bool" where
  "stored_upload E att c up s a \<longleftrightarrow> at_file_size a = int (up_len up) \<and>
     (case att of Some x \<Rightarrow> a = x\<lparr>at_file_size := int (up_len up)\<rparr>
      | None \<Rightarrow> at_cipher_uuid a = c \<and> at_id a = random_token E (tick s))"

lemma attachment_limit_wp:
  "wp (attachment_limit E ci adj) (\<lambda>r t. t = s \<and> (\<forall>u kb. ci_user_uuid ci = Some u \<longrightarrow> user_attachment_limit (conf E) = Some kb
      \<longrightarrow> r = Some (kb * 1024 - size_by_user u s + adj))) (\<lambda>_ _. True) s"
  unfolding attachment_limit_def
  by (auto simp: wp_simps split: option.split intro!: wp_mono [OF wp_limit_left])

lemma wp_save_file:
  "wp (save_attachment_file E c f) Q R s
     = (case storage_write E (tick s) (c @ ''/'' @ f) of Some e \<Rightarrow> R (Api e) (bump s) | None \<Rightarrow> Q () (bump s))"
  by (simp add: wp_def save_attachment_file_def split: option.split)

lemma log_event_attachments: "attachments (log_event E ty src org u dev ip s) = attachments s"
  using log_event_eq [of E ty src org u dev ip s] by auto

lemma upload_ends:
  assumes "\<And>t'. ciphers t' = ciphers t \<Longrightarrow> attachments t' = attachments t \<Longrightarrow> Q ci t'"
  shows "wp (act_seq (save_attachment_file E c f) (act_seq (notify_cipher E ci) (act_seq (log_cipher E ty ci h) (act_ret ci))))
    Q (\<lambda>_ _. True) t"
  unfolding notify_cipher_def log_cipher_def
  by (auto simp: wp_simps wp_save_file revises_frame [OF revises_cipher_users] log_event_attachments split: option.split intro!: assms)

lemma upload_v2_wp:
  assumes "\<And>t'. ciphers t' = ciphers t \<Longrightarrow> attachments t' = tbl_upsert at_id (a\<lparr>at_file_size := n\<rparr>) (attachments t) \<Longrightarrow> Q () t'"
    and "\<And>t'. ciphers t' = ciphers t \<Longrightarrow> attachments t' = attachments t \<Longrightarrow> at_file_size a = n \<Longrightarrow> Q () t'"
  shows "wp (upload_v2 E a n) Q (\<lambda>_ _. True) t"
  unfolding upload_v2_def
proof (intro wp_need wp_branch wp_only_if)
  show "wp (act_upd (Attachment_save (a\<lparr>at_file_size := n\<rparr>))) Q (\<lambda>_ _. True) t"
    by (auto simp: wp_upd Attachment_save_def intro: assms(1))
  show "wp (act_seq (act_ignore (Attachment_delete E a)) (act_err e)) Q (\<lambda>_ _. True) t" for e
    by (rule wp_then [where Q' = "\<lambda>_ _. True" and R' = "\<lambda>_ _. True"])
      (auto simp: wp_err, simp add: wp_def split: prod.split sum.split)
qed (auto intro: assms(2))

text \<open>What a successful upload has checked and stored.\<close>

definition uploaded :: "env \<Rightarrow> Attachment option \<Rightarrow> CipherId \<Rightarrow> UploadData \<Rightarrow> server \<Rightarrow> Cipher \<Rightarrow> server \<Rightarrow> bool" where
  "uploaded E att c up s ci t \<longleftrightarrow> Cipher_find_by_uuid c s = Some ci \<and> ciphers t = ciphers s
     \<and> (\<exists>a. stored_upload E att c up s a \<and> (attachments t = tbl_upsert at_id a (attachments s) \<or> attachments t = attachments s \<and> att = Some a))
     \<and> (\<forall>u kb. ci_user_uuid ci = Some u \<longrightarrow> user_attachment_limit (conf E) = Some kb
         \<longrightarrow> int (up_len up) \<le> kb * 1024 - size_by_user u s + (case att of None \<Rightarrow> 0 | Some a \<Rightarrow> at_file_size a))"

lemma upload_rest:
  assumes "checked (int (up_len up)) = Some n" and ci: "Cipher_find_by_uuid c s = Some ci" and lim: "\<not> opt_is limit (\<lambda>l. l < n)"
    and l: "\<forall>u kb. ci_user_uuid ci = Some u \<longrightarrow> user_attachment_limit (conf E) = Some kb
      \<longrightarrow> limit = Some (kb * 1024 - size_by_user u s + (case att of None \<Rightarrow> 0 | Some a \<Rightarrow> at_file_size a))"
  shows "wp (act_bind (case att of Some a \<Rightarrow> act_ret (at_id a) | None \<Rightarrow> act_run (generate_attachment_id E)) (\<lambda>file_id.
       act_seq (case att of Some a \<Rightarrow> upload_v2 E a n | None \<Rightarrow> upload_legacy c file_id up n)
       (act_seq (save_attachment_file E c file_id)
       (act_seq (notify_cipher E ci)
       (act_seq (log_cipher E CipherAttachmentCreated ci h)
       (act_ret ci)))))) (uploaded E att c up s) (\<lambda>_ _. True) s"
proof -
  have n: "n = int (up_len up)" using assms(1) by (simp add: checked_def split: if_splits)
  have Q: "uploaded E att c up s ci t'" if "ciphers t' = ciphers s" "stored_upload E att c up s a"
      "attachments t' = tbl_upsert at_id a (attachments s) \<or> attachments t' = attachments s \<and> att = Some a" for a t'
    using that ci lim l n by (auto simp: opt_is_def uploaded_def)
  have ends: "wp (act_seq (save_attachment_file E c i) (act_seq (notify_cipher E ci)
        (act_seq (log_cipher E CipherAttachmentCreated ci h) (act_ret ci)))) (uploaded E att c up s) (\<lambda>_ _. True) t"
    if "ciphers t = ciphers s" "stored_upload E att c up s a"
      "attachments t = tbl_upsert at_id a (attachments s) \<or> attachments t = attachments s \<and> att = Some a" for a t i
    by (rule upload_ends, rule Q [where a = a]) (use that in simp_all)
  show ?thesis
  proof (cases att)
    case None
    let ?i = "random_token E (tick s)"
    have "stored_upload E att c up s (Attachment_new ?i c name n key)" for name key
      by (simp add: Attachment_new_def stored_upload_def None n)
    then have "wp (act_seq (save_attachment_file E c ?i) (act_seq (notify_cipher E ci)
        (act_seq (log_cipher E CipherAttachmentCreated ci h) (act_ret ci)))) (uploaded E att c up s) (\<lambda>_ _. True)
        (Attachment_save (Attachment_new ?i c name n key) (s\<lparr>tick := Suc (tick s)\<rparr>))" for name key
      by (intro ends) (auto simp: Attachment_save_def)
    then show ?thesis unfolding None upload_legacy_def option.case wp_bind wp_run wp_seq [of "act_bind _ _"] generate_attachment_id_def
      by (auto simp: wp_some_or wp_err_if wp_upd wp_seq [of "err_if _ _"] split: option.split)
  next
    case (Some a)
    then have "stored_upload E att c up s (a\<lparr>at_file_size := n\<rparr>)" by (simp add: stored_upload_def n)
    from ends [OF _ this, where i = "at_id a"] show ?thesis unfolding Some option.case wp_bind wp_ret wp_seq [of "upload_v2 _ _ _"]
      by (intro upload_v2_wp) auto
  qed
qed

lemma save_attachment_wp: "wp (save_attachment E att c up h) (uploaded E att c up s) (\<lambda>_ _. True) s"
  unfolding save_attachment_def
  by (rule wp_need, simp, rule wp_guard, simp, rule wp_after [OF writable_cipher_wp], clarify,
      rule wp_after [OF attachment_limit_wp], clarify, rule wp_guard, simp, rule upload_rest) auto

text \<open>Identifiers drawn from now on are not those of stored attachments; the row of the v2 API is stored.\<close>

definition upload_ready :: "env \<Rightarrow> Attachment option \<Rightarrow> CipherId \<Rightarrow> server \<Rightarrow> bool" where
  "upload_ready E att c s \<longleftrightarrow> keyed ci_uuid (ciphers s) \<and> keyed at_id (attachments s) \<and>
     (case att of None \<Rightarrow> random_token E (tick s) \<notin> at_id ` set (attachments s)
      | Some a \<Rightarrow> a \<in> set (attachments s) \<and> at_cipher_uuid a = c)"

definition user_total :: "UserId \<Rightarrow> server \<Rightarrow> int" where
  "user_total u s = sum_list (map at_file_size (attachments_where (\<lambda>ci. ci_user_uuid ci = Some u) s))"

lemma size_total: "fits 64 (user_total u s) \<Longrightarrow> size_by_user u s = user_total u s"
  by (auto simp: size_by_user_def user_total_def sum_i64_def fits_def Let_def)

lemma upload_total:
  assumes "upload_ready E att c s" "stored_upload E att c up s a" "Cipher_find_by_uuid c s = Some ci" "ci_user_uuid ci = Some u"
    and "ciphers t = ciphers s" "attachments t = tbl_upsert at_id a (attachments s) \<or> attachments t = attachments s \<and> att = Some a"
  shows "user_total u t = user_total u s - (case att of None \<Rightarrow> 0 | Some x \<Rightarrow> at_file_size x) + int (up_len up)"
proof -
  let ?P = "\<lambda>ci. ci_user_uuid ci = Some u"
  note r = assms(1) [unfolded upload_ready_def]
  have total: "user_total u x = sum_list (map at_file_size (filter (counted ?P (ciphers s)) (attachments x)))" if "ciphers x = ciphers s" for x
    using attachments_counted [of x ?P] r that by (simp add: user_total_def)
  have c: "counted ?P (ciphers s) x" if "at_cipher_uuid x = c" for x
    using that assms(3,4) by (simp add: counted_def Cipher_find_by_uuid_def opt_is_def)
  show ?thesis
  proof (cases att)
    case None
    then have "at_id a \<notin> at_id ` set (attachments s)" "counted ?P (ciphers s) a" "attachments t = tbl_upsert at_id a (attachments s)"
        "at_file_size a = int (up_len up)"
      using r assms(2,6) c by (auto simp: stored_upload_def)
    then show ?thesis using total [OF assms(5)] total [of s] None by (simp add: sum_insert)
  next
    case (Some x)
    then have "a = x\<lparr>at_file_size := int (up_len up)\<rparr>" "x \<in> set (attachments s)" "counted ?P (ciphers s) x" "counted ?P (ciphers s) a"
      using r assms(2) c by (auto simp: stored_upload_def)
    moreover have "att = Some a \<Longrightarrow> at_file_size x = int (up_len up)" using Some assms(2) by (simp add: stored_upload_def)
    moreover from calculation have "sum_list (map at_file_size (filter (counted ?P (ciphers s)) (tbl_upsert at_id a (attachments s))))
        = user_total u s + (int (up_len up) - at_file_size x)"
      using sum_upsert [of at_id "attachments s" x a "counted ?P (ciphers s)" at_file_size] r total [of s] by simp
    ultimately show ?thesis using total [OF assms(5)] total [of s] Some assms(6) by auto
  qed
qed

text \<open>C28. After a successful upload to a cipher of a user, through the current or the legacy interface, the
  sizes of all attachments of the user stay within the configured limit, whatever the client had
  announced before, as long as the total was a 64-bit number.\<close>

theorem upload_within_limit:
  assumes "save_attachment E att c up h s = (Inr ci, t)" "ci_user_uuid ci = Some u" "user_attachment_limit (conf E) = Some kb"
    and "upload_ready E att c s" "fits 64 (user_total u s)"
  shows "user_total u t \<le> kb * 1024"
proof -
  obtain a where a: "Cipher_find_by_uuid c s = Some ci" "ciphers t = ciphers s" "stored_upload E att c up s a"
      "attachments t = tbl_upsert at_id a (attachments s) \<or> attachments t = attachments s \<and> att = Some a"
      "int (up_len up) \<le> kb * 1024 - size_by_user u s + (case att of None \<Rightarrow> 0 | Some a \<Rightarrow> at_file_size a)"
    using wp_Inr [OF save_attachment_wp assms(1)] assms(2,3) unfolding uploaded_def by blast
  then show ?thesis using upload_total [OF assms(4) a(3,1) assms(2) a(2,4)] size_total [OF assms(5)] by simp
qed

definition small_upload :: UploadData where
  "small_upload = \<lparr>up_key = Some ''key'', up_raw_name = Some ''2.name'', up_len = 5\<rparr>"

theorem upload_within_limit_witness:
  "\<exists>t. save_attachment demo_env None ''note'' small_upload (demo_headers alice) demo_vault = (Inr demo_note, t)
     \<and> user_total ''alice'' t \<le> 1 * 1024"
proof -
  let ?r = "save_attachment demo_env None ''note'' small_upload (demo_headers alice) demo_vault"
  have "fst ?r = Inr demo_note" by code_simp
  then have r: "?r = (Inr demo_note, snd ?r)" by (metis prod.collapse)
  have "user_attachment_limit (conf demo_env) = Some 1" "ci_user_uuid demo_note = Some ''alice''"
      "upload_ready demo_env None ''note'' demo_vault" "fits 64 (user_total ''alice'' demo_vault)"
    by code_simp+
  from upload_within_limit [OF r this(2,1,3,4)] show ?thesis using r by blast
qed

section \<open>A share that fails\<close>

text \<open>The loop over the collections when every one of them may be written: the entries are all made, and
  nothing else is written but revision dates.\<close>

lemma writable_cong:
  assumes "revises (s\<lparr>ciphers_collections := ccs\<rparr>) t"
  shows "is_writable_by_user E col u t = is_writable_by_user E col u s"
    "Collection_find_by_uuid_and_org x org t = Collection_find_by_uuid_and_org x org s"
proof -
  have tab: "collections t = collections s" "users_organizations t = users_organizations s" "users_collections t = users_collections s"
      "groups_users t = groups_users s" "groups t = groups s" "collections_groups t = collections_groups s"
    using revises_frame [OF assms] by simp_all
  show "is_writable_by_user E col u t = is_writable_by_user E col u s" unfolding is_writable_by_user_def tab ..
  show "Collection_find_by_uuid_and_org x org t = Collection_find_by_uuid_and_org x org s"
    unfolding Collection_find_by_uuid_and_org_def tab ..
qed

lemma cc_save_revises:
  obtains ccs where "revises (s\<lparr>ciphers_collections := ccs\<rparr>) (cc_save E c x s)"
    "set (ciphers_collections s) \<union> {\<lparr>cc_cipher_uuid = c, cc_collection_uuid = x\<rparr>} = set ccs"
proof
  let ?f = "\<lambda>s. s\<lparr>ciphers_collections := tbl_upsert cc_key \<lparr>cc_cipher_uuid = c, cc_collection_uuid = x\<rparr> (ciphers_collections s)\<rparr>"
  show "revises (?f s) (cc_save E c x s)"
    using revises_lift [OF revises_cc [of s E x], of ?f] by (simp add: cc_save_def Let_def)
  show "set (ciphers_collections s) \<union> {\<lparr>cc_cipher_uuid = c, cc_collection_uuid = x\<rparr>}
      = set (tbl_upsert cc_key \<lparr>cc_cipher_uuid = c, cc_collection_uuid = x\<rparr> (ciphers_collections s))"
    by (auto simp: set_tbl_upsert cc_key_def)
qed

lemma share_to_shares:
  assumes "\<forall>x \<in> set cols. \<exists>k. Collection_find_by_uuid_and_org x org s = Some k \<and> is_writable_by_user E k u s"
  shows "\<exists>ks ccs t. share_to E c org u cols s = (Inr ks, t) \<and> revises (s\<lparr>ciphers_collections := ccs\<rparr>) t
    \<and> set ccs = set (ciphers_collections s) \<union> (\<lambda>x. \<lparr>cc_cipher_uuid = c, cc_collection_uuid = x\<rparr>) ` set cols"
  using assms
proof (induction cols arbitrary: s)
  case Nil
  then show ?case by (auto simp: act_ret_def intro!: exI [of _ "ciphers_collections s"])
next
  case (Cons x cols)
  then obtain k where k: "Collection_find_by_uuid_and_org x org s = Some k" "is_writable_by_user E k u s" by auto
  then have x: "c_uuid k = x" by (auto simp: Collection_find_by_uuid_and_org_def dest: tbl_first_Some)
  obtain ccs where ccs: "revises (s\<lparr>ciphers_collections := ccs\<rparr>) (cc_save E c x s)"
    "set (ciphers_collections s) \<union> {\<lparr>cc_cipher_uuid = c, cc_collection_uuid = x\<rparr>} = set ccs" by (rule cc_save_revises)
  have "\<forall>y \<in> set cols. \<exists>k. Collection_find_by_uuid_and_org y org (cc_save E c x s) = Some k \<and> is_writable_by_user E k u (cc_save E c x s)"
    using Cons.prems by (simp add: writable_cong [OF ccs(1)])
  from Cons.IH [OF this] obtain ks ccs' t where t: "share_to E c org u cols (cc_save E c x s) = (Inr ks, t)"
    "revises ((cc_save E c x s)\<lparr>ciphers_collections := ccs'\<rparr>) t"
    "set ccs' = set (ciphers_collections (cc_save E c x s)) \<union> (\<lambda>x. \<lparr>cc_cipher_uuid = c, cc_collection_uuid = x\<rparr>) ` set cols" by blast
  have "revises (s\<lparr>ciphers_collections := ccs'\<rparr>) ((cc_save E c x s)\<lparr>ciphers_collections := ccs'\<rparr>)"
    using revises_lift [OF ccs(1), of "\<lambda>s. s\<lparr>ciphers_collections := ccs'\<rparr>"] by simp
  then have "revises (s\<lparr>ciphers_collections := ccs'\<rparr>) t" using t(2) by (rule revises_trans)
  moreover have "share_to E c org u (x # cols) s = (Inr (x # ks), t)"
    using k x t(1) by (simp add: act_defs)
  moreover have "set ccs' = set (ciphers_collections s) \<union> (\<lambda>x. \<lparr>cc_cipher_uuid = c, cc_collection_uuid = x\<rparr>) ` set (x # cols)"
    using t(3) ccs(2) revises_frame [OF ccs(1)] by auto
  ultimately show ?case by blast
qed

text \<open>C29. Sharing a cipher that already belongs to an organization with collections of another organization that
  the sharing user may write is answered by \<open>Organization mismatch\<close> (unless the client copy is out of date, which is
  another error at the same place), but the cipher has been added to the collections of the other organization
  before that check: every user with an assignment to one of them that is not read-only passes the check that
  guards writing the cipher after the failed request. The witness is a member of the other organization without
  any access before, who can delete the cipher after it.\<close>

theorem failed_share_leaks:
  assumes "Cipher_find_by_uuid c s = Some ci" "is_write_accessible_to_user E ci (u_uuid (h_user h)) s"
    and "ci_organization_uuid ci = Some org" "cp_organization_id (sh_cipher data) = Some other" "other \<noteq> org"
    and "\<not> stale_copy E ci (cp_last_known_revision_date (sh_cipher data))"
    and "\<forall>x \<in> set (sh_collection_ids data). \<exists>k. Collection_find_by_uuid_and_org x other s = Some k
      \<and> is_writable_by_user E k (u_uuid (h_user h)) s"
    and "cu \<in> set (users_collections s)" "cu_collection_uuid cu \<in> set (sh_collection_ids data)" "\<not> cu_read_only cu"
  shows "\<exists>t. share_cipher_by_uuid E c data h None s
        = (Inl (Api ''Organization mismatch. Please resync the client before updating the cipher''), t)
    \<and> Cipher_find_by_uuid c t = Some ci \<and> is_write_accessible_to_user E ci (cu_user_uuid cu) t"
proof -
  have ci: "ci \<in> set (ciphers s)" "ci_uuid ci = c" using assms(1) by (auto simp: Cipher_find_by_uuid_def dest: tbl_first_Some)
  obtain ks ccs t where t: "share_to E c other (u_uuid (h_user h)) (sh_collection_ids data) s = (Inr ks, t)"
      "revises (s\<lparr>ciphers_collections := ccs\<rparr>) t"
      "set ccs = set (ciphers_collections s) \<union> (\<lambda>x. \<lparr>cc_cipher_uuid = c, cc_collection_uuid = x\<rparr>) ` set (sh_collection_ids data)"
    using share_to_shares [OF assms(7)] by blast
  note fr = revises_frame [OF t(2)]
  have "in_collection t ci (cu_collection_uuid cu)"
    using assms(9) t(3) fr ci(2) by (auto simp: in_collection_def intro: bexI [of _ "\<lparr>cc_cipher_uuid = c, cc_collection_uuid = cu_collection_uuid cu\<rparr>"])
  then have "user_grant t (cu_user_uuid cu) ci cu" using assms(8) fr by (simp add: user_grant_def)
  then have "is_write_accessible_to_user E ci (cu_user_uuid cu) t"
    using user_grant_access(2) ci(1) fr assms(10) by simp
  moreover have "Cipher_find_by_uuid c t = Some ci" using assms(1) fr by (simp add: Cipher_find_by_uuid_def)
  moreover have "update_cipher_from_data E ci (sh_cipher data) h (Some ks) ut t
      = (Inl (Api ''Organization mismatch. Please resync the client before updating the cipher''), t)" for ut
    using assms(3-6) by (simp add: update_cipher_from_data_def enforce_personal_ownership_policy_def act_defs Let_def)
  ultimately show ?thesis
    using assms(1,2,4) t(1) ci(2) by (simp add: share_cipher_by_uuid_def writable_cipher_def act_defs Let_def)
qed

text \<open>Bob owns two organizations; Dave is a plain member of the second one with a collection of his own.\<close>

definition dave_grant :: CollectionUser where
  "dave_grant = \<lparr>cu_user_uuid = ''dave'', cu_collection_uuid = ''c9'', cu_read_only = False, cu_hide_passwords = False, cu_manage = True\<rparr>"

definition two_orgs :: server where
  "two_orgs = demo_vault\<lparr>
     users_organizations := users_organizations demo_vault @
       [(demo_member ''m4'' ''bob'' 2 0)\<lparr>m_org_uuid := ''org2''\<rparr>, (demo_member ''m5'' ''dave'' 2 2)\<lparr>m_org_uuid := ''org2''\<rparr>],
     collections := collections demo_vault @ [(demo_collection ''c9'')\<lparr>c_org_uuid := ''org2''\<rparr>],
     users_collections := users_collections demo_vault @ [dave_grant]\<rparr>"

definition share_data :: ShareCipherData where
  "share_data = \<lparr>sh_cipher = \<lparr>cp_id = None, cp_folder_id = None, cp_organization_id = Some ''org2'', cp_key = None, cp_type = 1,
     cp_name = ''2.login'', cp_notes = None, cp_fields = None, cp_login = Some (JObj []), cp_secure_note = None,
     cp_card = None, cp_identity = None, cp_ssh_key = None, cp_favorite = None, cp_reprompt = None,
     cp_password_history = None, cp_attachments2 = None, cp_last_known_revision_date = None, cp_archived_date = None\<rparr>,
     sh_collection_ids = [''c9'']\<rparr>"

theorem failed_share_leaks_witness:
  "access_wf two_orgs
   \<and> get_access_restrictions demo_env demo_item ''dave'' None two_orgs = None
   \<and> (\<exists>t. share_cipher_by_uuid demo_env ''item'' share_data (demo_headers bob) None two_orgs
          = (Inl (Api ''Organization mismatch. Please resync the client before updating the cipher''), t)
        \<and> Cipher_find_by_uuid ''item'' t = Some demo_item \<and> is_write_accessible_to_user demo_env demo_item ''dave'' t)
   \<and> fst (delete_cipher_by_uuid demo_env ''item'' (demo_headers (demo_user ''dave'' ''dave@vault'' [3])) HardSingle
       (snd (share_cipher_by_uuid demo_env ''item'' share_data (demo_headers bob) None two_orgs))) = Inr ()"
proof (intro conjI)
  show "access_wf two_orgs"
    by (simp add: access_wf_def keyed_def cu_key_def two_orgs_def dave_grant_def demo_vault_defs MembershipType_from_i32_def)
  let ?col = "(demo_collection ''c9'')\<lparr>c_org_uuid := ''org2''\<rparr>"
  have "Collection_find_by_uuid_and_org ''c9'' ''org2'' two_orgs = Some ?col" by code_simp
  moreover have "is_writable_by_user demo_env ?col (u_uuid (h_user (demo_headers bob))) two_orgs" by code_simp
  ultimately have cols: "\<forall>x \<in> set (sh_collection_ids share_data). \<exists>k. Collection_find_by_uuid_and_org x ''org2'' two_orgs = Some k
        \<and> is_writable_by_user demo_env k (u_uuid (h_user (demo_headers bob))) two_orgs" by (simp add: share_data_def)
  have found: "Cipher_find_by_uuid ''item'' two_orgs = Some demo_item" by code_simp
  have may: "is_write_accessible_to_user demo_env demo_item (u_uuid (h_user (demo_headers bob))) two_orgs" by code_simp
  have orgs: "ci_organization_uuid demo_item = Some ''org''" "cp_organization_id (sh_cipher share_data) = Some ''org2''" "''org2'' \<noteq> ''org''"
    by code_simp+
  have fresh: "\<not> stale_copy demo_env demo_item (cp_last_known_revision_date (sh_cipher share_data))" by code_simp
  have grant: "dave_grant \<in> set (users_collections two_orgs)" "cu_collection_uuid dave_grant \<in> set (sh_collection_ids share_data)"
      "\<not> cu_read_only dave_grant" "cu_user_uuid dave_grant = ''dave''"
    by (simp_all add: two_orgs_def dave_grant_def share_data_def)
  from failed_share_leaks [OF found may orgs fresh cols grant(1-3)] grant(4)
  show "\<exists>t. share_cipher_by_uuid demo_env ''item'' share_data (demo_headers bob) None two_orgs
          = (Inl (Api ''Organization mismatch. Please resync the client before updating the cipher''), t)
        \<and> Cipher_find_by_uuid ''item'' t = Some demo_item \<and> is_write_accessible_to_user demo_env demo_item ''dave'' t" by simp
qed code_simp+

section \<open>Imports\<close>

lemma import_folders_length: "length (fst (import_folders E u ex fs s)) = length fs"
  by (induction fs arbitrary: s) (simp_all add: Let_def split_beta)

lemma import_ciphers_range:
  assumes "import_ciphers E ids rel h n cs s = (Inr (), t)" "k < length cs" "rel (n + k) = Some i"
  shows "i < length ids"
  using assms
proof (induction cs arbitrary: n k s)
  case (Cons c cs)
  show ?case
  proof (cases k)
    case 0
    then show ?thesis using Cons.prems by (auto simp: act_bind_def act_err_def split: if_splits)
  next
    case (Suc k')
    obtain s' where "import_ciphers E ids rel h (Suc n) cs s' = (Inr (), t)"
      using Cons.prems(1) by (auto simp: act_bind_def split: prod.splits sum.splits)
    then show ?thesis using Cons.IH [of "Suc n" s' k'] Cons.prems(2,3) Suc by simp
  qed
qed simp

text \<open>An import that relates a cipher to a folder that is not in the request never succeeds: the index is
  used unchecked, so the handler panics, and the folders and ciphers stored up to then stay.\<close>

theorem import_out_of_range:
  assumes "k < length (im_ciphers data)" "collect_map (im_folder_relationships data) k = Some i" "length (im_folders data) \<le> i"
  shows "\<exists>e t. post_ciphers_import E data h s = (Inl e, t)"
proof (rule ccontr)
  assume "\<not> ?thesis"
  then obtain t where "post_ciphers_import E data h s = (Inr (), t)"
    by (cases "post_ciphers_import E data h s"; cases "fst (post_ciphers_import E data h s)") auto
  then obtain ids s1 s2 t' where "act_run (import_folders E (u_uuid (h_user h)) s2 (im_folders data)) s1 = (Inr ids, t')"
      "\<exists>t''. import_ciphers E ids (collect_map (im_folder_relationships data)) h 0 (im_ciphers data) t' = (Inr (), t'')"
    unfolding post_ciphers_import_def Let_def
    by (auto simp: act_bind_def act_seq_def act_get_def split: prod.splits sum.splits)
  then show False
    using import_ciphers_range [of E ids _ h 0 _ t' _ k i] import_folders_length [of E "u_uuid (h_user h)" s2 "im_folders data" s1] assms
    by (auto simp: act_run_def split: prod.splits)
qed

definition bad_import :: ImportData where
  "bad_import = (let c = (sh_cipher share_data)\<lparr>cp_organization_id := None\<rparr> in
     \<lparr>im_ciphers = [c, c], im_folders = [\<lparr>fd_id = None, fd_name = ''work''\<rparr>], im_folder_relationships = [(0, 0), (1, 1)]\<rparr>)"

theorem import_out_of_range_witness:
  "(\<exists>e t. post_ciphers_import demo_env bad_import (demo_headers alice) demo_vault = (Inl e, t))
   \<and> fst (post_ciphers_import demo_env bad_import (demo_headers alice) demo_vault) = Inl (Panic ''index out of bounds'')
   \<and> length (folders (snd (post_ciphers_import demo_env bad_import (demo_headers alice) demo_vault))) = 3
   \<and> length (ciphers (snd (post_ciphers_import demo_env bad_import (demo_headers alice) demo_vault))) = 3"
proof (intro conjI)
  show "\<exists>e t. post_ciphers_import demo_env bad_import (demo_headers alice) demo_vault = (Inl e, t)"
    by (rule import_out_of_range [of 1 _ 1]) code_simp+
qed code_simp+

end
