(* ===== verification/LoginLaws.thy ===== *)
theory LoginLaws
  imports Login
begin

text \<open>
  What a login requires: a login by password succeeds only with the credentials of the user and, when
  the user has second factors, with one of them (\<open>factor_shown\<close>). The lemmas follow the handler
  statement by statement.
\<close>

section \<open>Running a part of a login\<close>

lemma wp_on_db [wp_simps]:
  "wp (on_db m) Q R s = wp m (\<lambda>a t. Q a (s\<lparr>ls_db := t\<rparr>)) (\<lambda>e t. R e (s\<lparr>ls_db := t\<rparr>)) (ls_db s)"
  by (simp add: wp_def on_db_def split: prod.split sum.split)

lemma wp_set_user_id [wp_simps]: "wp (set_user_id u) Q R s = Q () (s\<lparr>ls_user := Some u\<rparr>)"
  by (simp add: set_user_id_def wp_simps)

lemma wp_err_event_if [wp_simps]:
  "wp (err_event_if b msg ev) Q R s = (if b then R (ApiEvent msg ev) s else Q () s)"
  by (simp add: err_event_if_def wp_simps)

lemma wp_some_or_event [wp_simps]:
  "wp (some_or_event msg ev x) Q R s = (case x of None \<Rightarrow> R (ApiEvent msg ev) s | Some a \<Rightarrow> Q a s)"
  by (simp add: some_or_event_def wp_simps split: option.split)

lemma wp_encoded [wp_simps]:
  "wp (encoded x) Q R s = (case x of None \<Rightarrow> R (Api ''JWT encoding failed'') s | Some a \<Rightarrow> Q a s)"
  by (simp add: encoded_def wp_simps)

lemma wp_check_is_some [wp_simps]: "wp (check_is_some x msg) Q R s = (if x = None then R (Api msg) s else Q () s)"
  by (simp add: check_is_some_def wp_simps)

lemma wp_User_save:
  "wp (User_save E u) Q R s =
     (if \<not> is_valid_email E (u_email u) then R (Api (''User email '' @ u_email u @ '' is not a valid email address'')) s
      else if \<exists>x \<in> set (users s). u_email x = u_email u \<and> u_uuid x \<noteq> u_uuid u then R (Api ''Error saving user'') (bump s)
      else let v = u\<lparr>u_updated_at := clock E (tick s)\<rparr> in
        Q v ((bump s)\<lparr>users := tbl_upsert u_uuid v (users s)\<rparr>))"
  by (auto simp: User_save_def wp_simps Let_def)

section \<open>A second factor\<close>

definition has_factor :: "server \<Rightarrow> UserId \<Rightarrow> TwoFactorType \<Rightarrow> TwoFactor \<Rightarrow> bool" where
  "has_factor s u ty tf \<longleftrightarrow> tf \<in> set (twofactors s) \<and> tf_user_uuid tf = u \<and> tf_atype tf = TwoFactorType_i32 ty \<and> tf_enabled tf"

definition totp_shown :: "env \<Rightarrow> server \<Rightarrow> UserId \<Rightarrow> string \<Rightarrow> bool" where
  "totp_shown E s u code \<longleftrightarrow> (\<exists>tf key n step. has_factor s u Authenticator tf \<and> base32_bytes E (tf_data tf) = Some key
     \<and> \<bar>step\<bar> \<le> 1 \<and> totp_sha1 E key (of_int (timestamp (clock E n) + step * 30)) = code
     \<and> tf_last_used tf < timestamp (clock E n) sdiv 30 + step)"

definition email_code_shown :: "env \<Rightarrow> server \<Rightarrow> UserId \<Rightarrow> string \<Rightarrow> bool" where
  "email_code_shown E s u code \<longleftrightarrow> (\<exists>tf d token n. has_factor s u Email tf
     \<and> EmailTokenData_from_json E (tf_data tf) = Inr d \<and> et_last_token d = Some token \<and> ct_equal E token code
     \<and> clock E n \<le> (et_token_sent d + sint (email_expiration_time (conf E))) * NANOS)"

definition remembered :: "env \<Rightarrow> server \<Rightarrow> UserId \<Rightarrow> string \<Rightarrow> bool" where
  "remembered E s u code \<longleftrightarrow> \<not> disable_2fa_remember (conf E) \<and> (\<exists>d token n c. d \<in> set (devices s) \<and> d_user_uuid d = u
     \<and> d_twofactor_remember d = Some token \<and> ct_equal E token code \<and> jwt_remember E n code = Inr c
     \<and> tr_sub c = d_uuid d \<and> tr_user_uuid c = u)"

definition external_shown :: "env \<Rightarrow> server \<Rightarrow> UserId \<Rightarrow> ConnectData \<Rightarrow> string \<Rightarrow> bool" where
  "external_shown E s u data code \<longleftrightarrow> (\<exists>ty \<in> {Webauthn, YubiKey, Duo}. \<exists>tf v d t t'. has_factor s u ty tf \<and> u_uuid v = u
     \<and> other_factor E (TwoFactorType_i32 ty) v code d (cd_client_id data) (cd_device_identifier data) t = (Inr (), t'))"

definition factor_shown :: "env \<Rightarrow> server \<Rightarrow> User \<Rightarrow> ConnectData \<Rightarrow> string \<Rightarrow> bool" where
  "factor_shown E s u data code \<longleftrightarrow> totp_shown E s (u_uuid u) code \<or> email_code_shown E s (u_uuid u) code
     \<or> remembered E s (u_uuid u) code \<or> check_valid_recovery_code E code u \<or> external_shown E s (u_uuid u) data code"

lemma TwoFactorType_from_i32_Some: "TwoFactorType_from_i32 n = Some ty \<Longrightarrow> TwoFactorType_i32 ty = n"
  by (auto simp: TwoFactorType_from_i32_def dest: find_Some_iff [THEN iffD1] split: if_splits)

lemma email_code_expiry_wp:
  "wp (email_code_expiry E d) (\<lambda>x t. x = (et_token_sent d + sint (email_expiration_time (conf E))) * NANOS \<and> t = s) (\<lambda>_ _. True) s"
  unfolding email_code_expiry_def
  by (auto simp: wp_simps distrib_right dest!: naive_add_Some try_seconds_Some split: option.split)

lemma validate_email_code_wp:
  assumes "has_factor s u Email tf"
  shows "wp (validate_email_code_str E u code (tf_data tf) ip) (\<lambda>_ _. email_code_shown E s u code) (\<lambda>_ _. True) s"
proof (cases "EmailTokenData_from_json E (tf_data tf)")
  case (Inr d)
  have shown: "email_code_shown E s u code" if "et_last_token d = Some token" "ct_equal E token code"
      "\<not> (et_token_sent d + sint (email_expiration_time (conf E))) * NANOS < clock E n" for token n
    using assms Inr that unfolding email_code_shown_def by (meson not_less)
  have "wp (act_bind (email_code_expiry E (EmailTokenData_reset_token d)) (\<lambda>expiry.
      act_bind (act_run (utc_now E)) (\<lambda>now.
      if expiry < now then act_err (ApiEvent ''Token has expired'' FAILED_2FA) else act_ret ())))
      (\<lambda>_ _. email_code_shown E s u code) (\<lambda>_ _. True) t"
    if "et_last_token d = Some token" "ct_equal E token code" for token t
    by (rule wp_after [OF email_code_expiry_wp])
      (use shown [OF that] in \<open>auto simp: wp_simps utc_now_def EmailTokenData_reset_token_def\<close>)
  then show ?thesis
    by (simp add: validate_email_code_str_def wp_simps Inr Let_def split: option.split)
qed (simp add: validate_email_code_str_def wp_simps)

lemma validate_totp_wp:
  assumes "twofactors_wf (twofactors s)" "has_factor s u Authenticator tf"
  shows "wp (validate_totp_code_str E u code (tf_data tf) ip) (\<lambda>_ _. totp_shown E s u code) (\<lambda>_ _. True) s"
proof -
  have found: "TwoFactor_find_by_user_and_type u 0 s = Some tf"
    using assms by (simp add: find_slot has_factor_def tf_slot_def)
  have "wp (validate_totp_code E u code (tf_data tf) ip) (\<lambda>_ _. totp_shown E s u code) (\<lambda>_ _. True) s"
    by (insert assms(2) found, rule wp_mono [OF validate_totp_code_wp [OF assms(1)]],
      auto simp: totp_shown_def totp_now_def simp del: of_int_add of_int_mult intro!: exI [of _ tf], blast)
  then show ?thesis by (simp add: validate_totp_code_str_def wp_simps)
qed

lemma remember_ok_wp:
  assumes "d_twofactor_remember d \<noteq> None \<Longrightarrow> d \<in> set (devices s) \<and> d_user_uuid d = u_uuid u"
  shows "wp (remember_ok E u d code) (\<lambda>ok _. ok \<longrightarrow> remembered E s (u_uuid u) code) (\<lambda>_ _. True) s'"
  using assms unfolding remember_ok_def decode_2fa_remember_def
  by (auto simp: wp_simps remembered_def split: option.split sum.split)

section \<open>The factor of a login\<close>

lemma prompt_fails [wp_simps]: "wp (prompt_twofactor E ids u data cv msg) Q (\<lambda>_ _. True) s"
  by (simp add: prompt_twofactor_def wp_simps) (simp add: wp_def split: prod.split sum.split)

definition same_person :: "User \<Rightarrow> User \<Rightarrow> bool" where
  "same_person u v \<longleftrightarrow> u_uuid v = u_uuid u \<and> u_security_stamp v = u_security_stamp u"

lemma check_factor_wp:
  assumes wf: "twofactors_wf (twofactors s)"
    and sel: "\<And>tf. selected = Some tf \<Longrightarrow> tf \<in> set (twofactors s) \<and> tf_user_uuid tf = u_uuid u
      \<and> tf_atype tf = sel_id \<and> tf_enabled tf"
    and ids: "sel_id \<in> {TwoFactorType_i32 Remember, TwoFactorType_i32 RecoveryCode} \<or> selected \<noteq> None"
    and dev: "d_twofactor_remember d \<noteq> None \<Longrightarrow> d \<in> set (devices s) \<and> d_user_uuid d = u_uuid u"
  shows "wp (check_factor E ids selected sel_id code u data d ip cv)
    (\<lambda>v _. same_person u v \<and> factor_shown E s u data code) (\<lambda>_ _. True) s"
proof (cases "TwoFactorType_from_i32 sel_id")
  case (Some ty)
  then have ty: "TwoFactorType_i32 ty = sel_id" by (rule TwoFactorType_from_i32_Some)
  have has: "\<exists>tf. selected = Some tf \<and> has_factor s (u_uuid u) ty tf" if "ty \<noteq> Remember" "ty \<noteq> RecoveryCode"
  proof -
    have "sel_id \<notin> {TwoFactorType_i32 Remember, TwoFactorType_i32 RecoveryCode}"
      using that ty by (cases ty) auto
    with ids obtain tf where "selected = Some tf" by auto
    with sel [OF this] ty show ?thesis by (auto simp: has_factor_def)
  qed
  have ext: "wp (other_factor E sel_id u code x (cd_client_id data) (cd_device_identifier data))
      (\<lambda>_ _. external_shown E s (u_uuid u) data code) (\<lambda>_ _. True) s" if "ty \<in> {Webauthn, YubiKey, Duo}" for x
    using that has ty unfolding wp_def external_shown_def by (fastforce split: prod.split sum.split)
  have me: "same_person u u" by (simp add: same_person_def)
  show ?thesis
  proof (cases ty)
    case Authenticator
    with has obtain tf where tf: "selected = Some tf" "has_factor s (u_uuid u) Authenticator tf" by auto
    show ?thesis using me wp_mono [OF validate_totp_wp [OF wf tf(2)]]
      by (auto simp: check_factor_def Some Authenticator tf wp_simps factor_shown_def intro!: wp_mono [OF validate_totp_wp [OF wf tf(2)]])
  next
    case Email
    with has obtain tf where tf: "selected = Some tf" "has_factor s (u_uuid u) Email tf" by auto
    show ?thesis using me
      by (auto simp: check_factor_def Some Email tf wp_simps factor_shown_def intro!: wp_mono [OF validate_email_code_wp [OF tf(2)]])
  next
    case Remember
    then show ?thesis using me
      by (auto simp: check_factor_def Some wp_simps factor_shown_def wp_void intro!: wp_mono [OF remember_ok_wp [OF dev]])
  next
    case RecoveryCode
    have "wp (enforce_2fa_policy E u (u_uuid u) (d_atype d) ip) (\<lambda>_ _. True) (\<lambda>_ _. True) t" for t
      by (simp add: wp_def split: prod.split sum.split)
    then show ?thesis using RecoveryCode
      by (auto simp: check_factor_def Some wp_simps factor_shown_def same_person_def wp_User_save Let_def elim!: wp_mono)
  next
    case Webauthn
    then show ?thesis using me
      by (auto simp: check_factor_def Some wp_simps factor_shown_def intro!: wp_mono [OF ext])
  next
    case Duo
    then show ?thesis using me
      by (auto simp: check_factor_def Some wp_simps factor_shown_def intro!: wp_mono [OF ext])
  next
    case YubiKey
    with has obtain tf where tf: "selected = Some tf" by auto
    with YubiKey show ?thesis using me
      by (auto simp: check_factor_def Some wp_simps factor_shown_def intro!: wp_mono [OF ext])
  qed (simp_all add: check_factor_def Some wp_simps)
qed (simp add: check_factor_def wp_simps)

lemma factor_shown_mono:
  assumes "factor_shown E t v data code" "twofactors t = twofactors s"
    and "\<And>d. d \<in> set (devices t) \<Longrightarrow> d_twofactor_remember d \<noteq> None \<Longrightarrow> d \<in> set (devices s)"
    and "u_uuid v = u_uuid u" "u_totp_recover v = u_totp_recover u"
  shows "factor_shown E s u data code"
proof -
  have "has_factor t = has_factor s" using assms(2) by (simp add: has_factor_def fun_eq_iff)
  moreover have "remembered E t x code \<Longrightarrow> remembered E s x code" for x
    unfolding remembered_def using assms(3) by blast
  moreover have "check_valid_recovery_code E code v = check_valid_recovery_code E code u"
    using assms(5) by (simp add: check_valid_recovery_code_def)
  ultimately show ?thesis using assms(1,4)
    by (auto simp: factor_shown_def totp_shown_def email_code_shown_def external_shown_def)
qed

lemma mark_frame [simp]:
  "twofactors (ti_mark_incomplete E u d name ty ip s) = twofactors s"
  "devices (ti_mark_incomplete E u d name ty ip s) = devices s"
  by (simp_all add: ti_mark_incomplete_def utc_now_def)

definition second_factor_passed :: "env \<Rightarrow> server \<Rightarrow> User \<Rightarrow> ConnectData \<Rightarrow> bool" where
  "second_factor_passed E s u data \<longleftrightarrow> TwoFactor_find_by_user (u_uuid u) s = []
     \<or> (\<exists>code. cd_two_factor_token data = Some code \<and> factor_shown E s u data code)"

lemma twofactor_auth_wp:
  assumes wf: "twofactors_wf (twofactors s)"
    and dev: "d_twofactor_remember d \<noteq> None \<Longrightarrow> d \<in> set (devices s) \<and> d_user_uuid d = u_uuid u"
  shows "wp (twofactor_auth E u data d ip cv) (\<lambda>r _. same_person u (fst r) \<and> second_factor_passed E s u data)
    (\<lambda>_ _. True) s"
proof (cases "TwoFactor_find_by_user (u_uuid u) s")
  case Nil
  have "wp (enforce_2fa_policy E u (u_uuid u) (d_atype d) ip) (\<lambda>_ _. True) (\<lambda>_ _. True) s"
    by (simp add: wp_def split: prod.split sum.split)
  then show ?thesis using Nil
    by (auto simp: twofactor_auth_def wp_simps second_factor_passed_def same_person_def elim!: wp_mono)
next
  case (Cons tf0 tfs0)
  let ?tfs = "TwoFactor_find_by_user (u_uuid u) s"
  let ?s1 = "ti_mark_incomplete E (u_uuid u) (d_uuid d) (d_name d) (d_atype d) ip s"
  define ids where "ids = map tf_atype (filter (\<lambda>tf. tf_enabled tf \<and> usable_row E tf) ?tfs)"
  define sel_id where "sel_id = (case cd_two_factor_provider data of Some p \<Rightarrow> p | None \<Rightarrow> List.hd ids)"
  define selected where "selected = List.find (\<lambda>tf. tf_atype tf = sel_id \<and> tf_enabled tf) ?tfs"
  have sel: "tf \<in> set (twofactors ?s1) \<and> tf_user_uuid tf = u_uuid u \<and> tf_atype tf = sel_id \<and> tf_enabled tf"
    if "selected = Some tf" for tf
    using that unfolding selected_def
    by (auto simp: TwoFactor_find_by_user_def find_Some_iff in_set_conv_nth tbl_select_def dest!: nth_mem)
  have there: "selected \<noteq> None" if "sel_id \<in> set ids"
  proof
    assume "selected = None"
    then have "\<not> (\<exists>tf \<in> set ?tfs. tf_atype tf = sel_id \<and> tf_enabled tf)"
      unfolding selected_def by (auto simp: find_None_iff)
    with that show False by (auto simp: ids_def)
  qed
  have main: "wp (check_factor E ids selected sel_id code u data d ip cv)
      (\<lambda>v _. same_person u v \<and> factor_shown E ?s1 u data code) (\<lambda>_ _. True) ?s1"
    if "sel_id \<in> {TwoFactorType_i32 Remember, TwoFactorType_i32 RecoveryCode} \<or> sel_id \<in> set ids" for code
    by (rule check_factor_wp) (use wf sel there dev that in auto)
  have passed: "second_factor_passed E s u data"
    if "cd_two_factor_token data = Some code" "factor_shown E ?s1 u data code" for code
    using that factor_shown_mono [OF that(2), of s u] by (auto simp: second_factor_passed_def)
  have rest: "wp (act_bind (check_factor E ids selected sel_id code u data d ip cv) (\<lambda>user.
        act_seq (act_upd (ti_mark_complete E (u_uuid user) (d_uuid d)))
        (if \<not> disable_2fa_remember (conf E) \<and> cd_two_factor_remember data = Some 1
         then act_bind (refresh_twofactor_remember E d) (\<lambda>(device, token). act_ret (user, device, Some token))
         else act_ret (user, d, None))))
      (\<lambda>r _. same_person u (fst r) \<and> second_factor_passed E s u data) (\<lambda>_ _. True) ?s1"
    if "sel_id \<in> {TwoFactorType_i32 Remember, TwoFactorType_i32 RecoveryCode} \<or> sel_id \<in> set ids"
      "cd_two_factor_token data = Some code" for code
    by (rule wp_after [OF main [OF that(1)]])
      (use passed [OF that(2)] in \<open>auto simp: wp_simps refresh_twofactor_remember_def split: option.split\<close>)
  have chosen: "wp (act_bind (case cd_two_factor_token data of
            Some code \<Rightarrow> act_ret code
          | None \<Rightarrow> prompt_twofactor E ids (u_uuid u) data cv ''2FA token not provided'') (\<lambda>code.
        act_bind (check_factor E ids selected sel_id code u data d ip cv) (\<lambda>user.
        act_seq (act_upd (ti_mark_complete E (u_uuid user) (d_uuid d)))
        (if \<not> disable_2fa_remember (conf E) \<and> cd_two_factor_remember data = Some 1
         then act_bind (refresh_twofactor_remember E d) (\<lambda>(device, token). act_ret (user, device, Some token))
         else act_ret (user, d, None)))))
      (\<lambda>r _. same_person u (fst r) \<and> second_factor_passed E s u data) (\<lambda>_ _. True) ?s1"
    if "sel_id \<in> {TwoFactorType_i32 Remember, TwoFactorType_i32 RecoveryCode} \<or> sel_id \<in> set ids"
    using rest [OF that] by (cases "cd_two_factor_token data") (simp_all add: wp_bind wp_ret prompt_fails)
  show ?thesis
    unfolding twofactor_auth_def Let_def
    apply (rule wp_read)
    apply (fold ids_def)
    apply (fold sel_id_def)
    apply (fold selected_def)
    apply (rule wp_branch)
     apply (use Cons in simp)
    apply (subst wp_seq, subst wp_upd)
    apply (rule wp_guard, simp)
    apply (subst wp_seq, subst wp_when)
    using chosen by (simp only: prompt_fails split: if_split) blast
qed

section \<open>The whole login\<close>

definition credentials_ok :: "env \<Rightarrow> ConnectData \<Rightarrow> User \<Rightarrow> string \<Rightarrow> server \<Rightarrow> bool" where
  "credentials_ok E data u ip s \<longleftrightarrow> (\<exists>pw. cd_password data = Some pw \<and> (case cd_auth_request data of
     None \<Rightarrow> check_valid_password E pw u = Inr True
   | Some rid \<Rightarrow> \<exists>a n. a \<in> set (auth_requests s) \<and> aq_uuid a = rid \<and> aq_user_uuid a = u_uuid u
       \<and> aq_approved a = Some True \<and> aq_request_ip a = ip \<and> check_access_code E pw a
       \<and> clock E n < aq_creation_date a + 5 * 60 * NANOS))"

lemma check_credentials_wp:
  assumes "cd_password data = Some pw"
  shows "wp (check_credentials E data u pw ip)
    (\<lambda>_ t. credentials_ok E data u ip s \<and> twofactors t = twofactors s \<and> devices t = devices s) (\<lambda>_ _. True) s"
proof (cases "cd_auth_request data")
  case None
  then show ?thesis using assms by (auto simp: check_credentials_def wp_simps credentials_ok_def split: sum.split)
next
  case (Some rid)
  then show ?thesis using assms
    by (auto simp: check_credentials_def wp_simps credentials_ok_def request_refused_def utc_now_def
        AuthRequest_find_by_uuid_and_user_def not_le split: option.split dest!: tbl_first_Some naive_add_Some)
qed

lemma kdf_upgrade_wp:
  "wp (kdf_upgrade E u pw) (\<lambda>v t. same_person u v \<and> u_totp_recover v = u_totp_recover u \<and> u_verified_at v = u_verified_at u
     \<and> twofactors t = twofactors s \<and> devices t = devices s) (\<lambda>_ _. True) s"
  by (auto simp: kdf_upgrade_def set_password_def hash_password_def wp_simps try_save_def wp_User_save Let_def same_person_def
      split: option.split sum.split)

lemma refuse_unverified_wp:
  "wp (refuse_unverified E u now) (\<lambda>_ t. t = s \<and> (u_verified_at u \<noteq> None \<or> \<not> mail_enabled (conf E) \<or> \<not> signups_verify (conf E)))
     (\<lambda>_ _. True) s"
proof -
  have any: "wp m (\<lambda>_ _. True) (\<lambda>_ _. True) t" for m :: "(server, 'a) act" and t
    by (simp add: wp_def split: prod.split sum.split)
  show ?thesis unfolding refuse_unverified_def
    by (rule wp_only_if) (auto simp: wp_seq wp_when wp_err Let_def any)
qed

lemma get_device_wp:
  "wp (get_device E data u) (\<lambda>d t. twofactors t = twofactors s
       \<and> (d_twofactor_remember d \<noteq> None \<longrightarrow> d \<in> set (devices t) \<and> d_user_uuid d = u_uuid u)
       \<and> (\<forall>x \<in> set (devices t). d_twofactor_remember x \<noteq> None \<longrightarrow> x \<in> set (devices s))) (\<lambda>_ _. True) s"
  by (auto simp: get_device_def wp_simps Let_def Device_find_by_uuid_and_user_def Device_new_def Device_save_def
      utc_now_def get_uuid_def generate_refresh_token_def set_tbl_upsert split: option.split dest!: tbl_first_Some)

lemma authenticated_response_wp:
  "wp (authenticated_response E u d tokens tt ip)
     (\<lambda>j _. \<exists>tok. json_index ''access_token'' j = JStr tok \<and> encode_login E (tok_access_claims tokens) = Some tok)
     (\<lambda>_ _. True) s"
proof -
  have any: "wp m (\<lambda>_ _. True) (\<lambda>_ _. True) t" for m :: "(server, 'a) act" and t
    by (simp add: wp_def split: prod.split sum.split)
  show ?thesis unfolding authenticated_response_def
    by (rule wp_then [OF any], rule wp_after [OF any], rule wp_after [OF any], rule wp_after [OF any])
      (auto simp: wp_simps json_index_def split: option.split)
qed

text \<open>What a successful login by password shows, in terms of the state it started from.\<close>

definition login_justified :: "env \<Rightarrow> ConnectData \<Rightarrow> string \<Rightarrow> server \<Rightarrow> json \<Rightarrow> bool" where
  "login_justified E data ip s j \<longleftrightarrow> (\<exists>name u claims tok. cd_username data = Some name
     \<and> User_find_by_mail E (trim_of E name) s = Some u \<and> u_enabled u \<and> credentials_ok E data u ip s
     \<and> (u_verified_at u \<noteq> None \<or> \<not> mail_enabled (conf E) \<or> \<not> signups_verify (conf E))
     \<and> second_factor_passed E s u data
     \<and> json_index ''access_token'' j = JStr tok \<and> encode_login E claims = Some tok
     \<and> lc_sub claims = u_uuid u \<and> lc_sstamp claims = u_security_stamp u)"

lemma tokens_for [simp]:
  "lc_sub (tok_access_claims (fst (AuthTokens_new E d u m c s))) = u_uuid u"
  "lc_sstamp (tok_access_claims (fst (AuthTokens_new E d u m c s))) = u_security_stamp u"
  by (simp_all add: AuthTokens_new_def LoginJwtClaims_default_def LoginJwtClaims_new_def utc_now_def Let_def)

lemma second_factor_passed_mono:
  assumes "second_factor_passed E t v data" "twofactors t = twofactors s"
    and "\<And>d. d \<in> set (devices t) \<Longrightarrow> d_twofactor_remember d \<noteq> None \<Longrightarrow> d \<in> set (devices s)"
    and "u_uuid v = u_uuid u" "u_totp_recover v = u_totp_recover u"
  shows "second_factor_passed E s u data"
  using assms factor_shown_mono [of E t v data _ s u] by (auto simp: second_factor_passed_def TwoFactor_find_by_user_def)

lemma signed_in_wp:
  assumes wf: "twofactors_wf (twofactors s)"
  shows "wp (act_bind (get_device E data v) (\<lambda>device.
       act_bind (twofactor_auth E v data device ip cv) (\<lambda>(user, device, twofactor_token).
       act_bind (act_run (AuthTokens_new E device user Password (cd_client_id data))) (\<lambda>auth_tokens.
       authenticated_response E user device auth_tokens twofactor_token ip))))
     (\<lambda>j _. second_factor_passed E s v data \<and> (\<exists>claims tok. json_index ''access_token'' j = JStr tok
        \<and> encode_login E claims = Some tok \<and> lc_sub claims = u_uuid v \<and> lc_sstamp claims = u_security_stamp v))
     (\<lambda>_ _. True) s"
proof (rule wp_after [OF get_device_wp]; (elim conjE)?)
  fix d and t :: server
  assume t: "twofactors t = twofactors s"
    and d: "d_twofactor_remember d \<noteq> None \<longrightarrow> d \<in> set (devices t) \<and> d_user_uuid d = u_uuid v"
    and old: "\<forall>x \<in> set (devices t). d_twofactor_remember x \<noteq> None \<longrightarrow> x \<in> set (devices s)"
  have answer: "wp (act_bind (act_run (AuthTokens_new E device user Password (cd_client_id data))) (\<lambda>auth_tokens.
       authenticated_response E user device auth_tokens tt ip))
     (\<lambda>j _. \<exists>claims tok. json_index ''access_token'' j = JStr tok
        \<and> encode_login E claims = Some tok \<and> lc_sub claims = u_uuid user \<and> lc_sstamp claims = u_security_stamp user)
     (\<lambda>_ _. True) x" for device user tt x
    unfolding wp_bind wp_run
    by (rule wp_mono [OF authenticated_response_wp]) (metis tokens_for)
  show "wp (act_bind (twofactor_auth E v data d ip cv) (\<lambda>(user, device, twofactor_token).
       act_bind (act_run (AuthTokens_new E device user Password (cd_client_id data))) (\<lambda>auth_tokens.
       authenticated_response E user device auth_tokens twofactor_token ip)))
     (\<lambda>j _. second_factor_passed E s v data \<and> (\<exists>claims tok. json_index ''access_token'' j = JStr tok
        \<and> encode_login E claims = Some tok \<and> lc_sub claims = u_uuid v \<and> lc_sstamp claims = u_security_stamp v))
     (\<lambda>_ _. True) t"
  proof (rule wp_after [OF twofactor_auth_wp])
    show "twofactors_wf (twofactors t)" using wf t by simp
    show "d_twofactor_remember d \<noteq> None \<Longrightarrow> d \<in> set (devices t) \<and> d_user_uuid d = u_uuid v" using d by blast
  next
    fix r :: "User \<times> Device \<times> string option" and x :: server
    assume r: "same_person v (fst r) \<and> second_factor_passed E t v data"
    then have "second_factor_passed E s v data"
      using second_factor_passed_mono [of E t v data s v] t old by (auto split: prod.splits)
    with r show "wp (case r of (user, device, twofactor_token) \<Rightarrow>
         act_bind (act_run (AuthTokens_new E device user Password (cd_client_id data))) (\<lambda>auth_tokens.
         authenticated_response E user device auth_tokens twofactor_token ip))
       (\<lambda>j _. second_factor_passed E s v data \<and> (\<exists>claims tok. json_index ''access_token'' j = JStr tok
          \<and> encode_login E claims = Some tok \<and> lc_sub claims = u_uuid v \<and> lc_sstamp claims = u_security_stamp v))
       (\<lambda>_ _. True) x"
      by (auto simp: same_person_def split: prod.splits intro!: wp_mono [OF answer])
  qed simp
qed simp

lemma password_login_wp:
  assumes wf: "twofactors_wf (twofactors s)"
  shows "wp (password_login E data ip cv) (\<lambda>j _. login_justified E data ip s j) (\<lambda>_ _. True) \<lparr>ls_db = s, ls_user = x\<rparr>"
proof -
  have inner: "wp (act_seq (check_credentials E data u pw ip)
       (act_bind (if cd_auth_request data = None then kdf_upgrade E u pw else act_ret u) (\<lambda>user.
        act_bind (act_run (utc_now E)) (\<lambda>now.
        act_seq (refuse_unverified E user now)
        (act_bind (get_device E data user) (\<lambda>device.
         act_bind (twofactor_auth E user data device ip cv) (\<lambda>(user, device, twofactor_token).
         act_bind (act_run (AuthTokens_new E device user Password (cd_client_id data))) (\<lambda>auth_tokens.
         authenticated_response E user device auth_tokens twofactor_token ip))))))))
      (\<lambda>j _. login_justified E data ip s j) (\<lambda>_ _. True) (bump s)"
    if u: "cd_username data = Some name" "User_find_by_mail E (trim_of E name) s = Some u" "u_enabled u"
      "cd_password data = Some pw" for name u pw
  proof (rule wp_then [OF check_credentials_wp [OF u(4)]]; (elim conjE)?)
    fix t :: server
    assume c: "credentials_ok E data u ip (bump s)" "twofactors t = twofactors (bump s)" "devices t = devices (bump s)"
    have cred: "credentials_ok E data u ip s" using c(1) by (simp add: credentials_ok_def cong: option.case_cong)
    have same: "wp (if cd_auth_request data = None then kdf_upgrade E u pw else act_ret u)
        (\<lambda>v t'. same_person u v \<and> u_totp_recover v = u_totp_recover u \<and> u_verified_at v = u_verified_at u
           \<and> twofactors t' = twofactors s \<and> devices t' = devices s) (\<lambda>_ _. True) t"
      using kdf_upgrade_wp [of E u pw t] c by (simp add: wp_ret same_person_def)
    show "wp (act_bind (if cd_auth_request data = None then kdf_upgrade E u pw else act_ret u) (\<lambda>user.
        act_bind (act_run (utc_now E)) (\<lambda>now.
        act_seq (refuse_unverified E user now)
        (act_bind (get_device E data user) (\<lambda>device.
         act_bind (twofactor_auth E user data device ip cv) (\<lambda>(user, device, twofactor_token).
         act_bind (act_run (AuthTokens_new E device user Password (cd_client_id data))) (\<lambda>auth_tokens.
         authenticated_response E user device auth_tokens twofactor_token ip)))))))
      (\<lambda>j _. login_justified E data ip s j) (\<lambda>_ _. True) t"
    proof (rule wp_after [OF same]; (elim conjE)?)
      fix v and t' :: server
      assume v: "same_person u v" "u_totp_recover v = u_totp_recover u" "u_verified_at v = u_verified_at u"
        and t': "twofactors t' = twofactors s" "devices t' = devices s"
      have just: "login_justified E data ip s j"
        if "u_verified_at v \<noteq> None \<or> \<not> mail_enabled (conf E) \<or> \<not> signups_verify (conf E)"
          "second_factor_passed E (bump t') v data"
          "\<exists>claims tok. json_index ''access_token'' j = JStr tok \<and> encode_login E claims = Some tok
             \<and> lc_sub claims = u_uuid v \<and> lc_sstamp claims = u_security_stamp v" for j
        using that u v cred second_factor_passed_mono [OF that(2), of s u] t'
        unfolding login_justified_def by (auto simp: same_person_def)
      show "wp (act_bind (act_run (utc_now E)) (\<lambda>now.
          act_seq (refuse_unverified E v now)
          (act_bind (get_device E data v) (\<lambda>device.
           act_bind (twofactor_auth E v data device ip cv) (\<lambda>(user, device, twofactor_token).
           act_bind (act_run (AuthTokens_new E device user Password (cd_client_id data))) (\<lambda>auth_tokens.
           authenticated_response E user device auth_tokens twofactor_token ip))))))
        (\<lambda>j _. login_justified E data ip s j) (\<lambda>_ _. True) t'"
        unfolding wp_bind [of "act_run (utc_now E)"] wp_run utc_now_simps
        by (rule wp_then [OF refuse_unverified_wp]; (elim conjE)?)
          (use wf t' just in \<open>auto intro!: wp_mono [OF signed_in_wp]\<close>)
    qed simp
  qed simp
  have found: "User_find_by_mail E a (bump s) = User_find_by_mail E a s" for a
    by (simp add: User_find_by_mail_def)
  show ?thesis
    unfolding password_login_def check_limit_login_def
    using inner by (auto simp: wp_bind wp_seq wp_sum wp_on_db wp_run wp_err_if wp_get wp_set_user_id wp_err_event_if
        wp_some_or wp_expect found simp del: bump_def split: sum.split option.split)
qed

lemma login_password_wp:
  assumes "twofactors_wf (twofactors s)" "cd_grant_type data = ''password''"
  shows "wp (login_result E sso data ch cv) (\<lambda>j _. login_justified E data (ch_ip ch) s j) (\<lambda>_ _. True)
    \<lparr>ls_db = s, ls_user = None\<rparr>"
  using password_login_wp [OF assms(1), of E data "ch_ip ch" cv None] assms(2)
  by (simp add: login_result_def check_device_fields_def wp_simps)

end
