(* ===== verification/EmailCodes.thy ===== *)
theory EmailCodes
  imports LoginLaws
begin

text \<open>
  The codes sent by e-mail: how many guesses one code stands, and what the automatic activation of the
  factor stores. The text of a row is read back as it was written (\<open>email_json_ok\<close>), as the derived
  serializer of \<open>serde\<close> promises.
\<close>

definition email_json_ok :: "env \<Rightarrow> bool" where
  "email_json_ok E \<longleftrightarrow> (\<forall>d. et_attempts d < 2 ^ 64 \<longrightarrow> fits 64 (et_token_sent d) \<longrightarrow>
     EmailTokenData_from_json E (EmailTokenData_to_json E d) = Inr d)"

text \<open>A guess as a login makes it, with the data of the stored row.\<close>

definition guess_code :: "env \<Rightarrow> UserId \<Rightarrow> string \<Rightarrow> string \<Rightarrow> server \<Rightarrow> bool \<times> server" where
  "guess_code E u ip code s =
     (case TwoFactor_find_by_user_and_type u (TwoFactorType_i32 Email) s of
        None \<Rightarrow> (False, s)
      | Some tf \<Rightarrow> (case validate_email_code_str E u code (tf_data tf) ip s of
          (Inr _, t) \<Rightarrow> (True, t) | (Inl _, t) \<Rightarrow> (False, t)))"

primrec guess_codes :: "env \<Rightarrow> UserId \<Rightarrow> string \<Rightarrow> string list \<Rightarrow> server \<Rightarrow> server" where
  "guess_codes E u ip [] s = s"
| "guess_codes E u ip (c # cs) s = guess_codes E u ip cs (snd (guess_code E u ip c s))"

definition email_row :: "env \<Rightarrow> UserId \<Rightarrow> EmailTokenData \<Rightarrow> server \<Rightarrow> bool" where
  "email_row E u d s \<longleftrightarrow> twofactors_wf (twofactors s) \<and> et_attempts d < 2 ^ 64 \<and> fits 64 (et_token_sent d)
     \<and> (\<exists>tf. TwoFactor_find_by_user_and_type u (TwoFactorType_i32 Email) s = Some tf
         \<and> EmailTokenData_from_json E (tf_data tf) = Inr d)"

lemma email_row_save:
  assumes "email_json_ok E" "email_row E u d s" "TwoFactor_find_by_user_and_type u (TwoFactorType_i32 Email) s = Some tf"
    "et_attempts d' < 2 ^ 64" "fits 64 (et_token_sent d')"
  shows "email_row E u d' (TwoFactor_save (tf\<lparr>tf_data := EmailTokenData_to_json E d'\<rparr>) s)"
proof -
  have wf: "twofactors_wf (twofactors s)" using assms(2) by (simp add: email_row_def)
  have tf: "tf_user_uuid tf = u" "tf_atype tf = 1" using find_slot [OF wf, of u 1 tf] assms(3) by (auto simp: tf_slot_def)
  then show ?thesis
    using find_saved [OF wf, of "tf\<lparr>tf_data := EmailTokenData_to_json E d'\<rparr>"] twofactors_wf_save [OF wf] assms
    by (simp add: email_row_def email_json_ok_def)
qed

text \<open>A wrong guess counts, and the last one allowed drops the code.\<close>

definition after_wrong :: "env \<Rightarrow> EmailTokenData \<Rightarrow> EmailTokenData" where
  "after_wrong E d = (let d = EmailTokenData_add_attempt d in
     if email_attempts_limit (conf E) \<le> et_attempts d then EmailTokenData_reset_token d else d)"

lemma wrong_guess:
  assumes "email_json_ok E" "email_row E u d s" "et_last_token d = Some tok" "\<not> ct_equal E tok code"
  shows "\<not> fst (guess_code E u ip code s)" "email_row E u (after_wrong E d) (snd (guess_code E u ip code s))"
proof -
  obtain tf where tf: "TwoFactor_find_by_user_and_type u 1 s = Some tf" "EmailTokenData_from_json E (tf_data tf) = Inr d"
    using assms(2) by (auto simp: email_row_def)
  let ?t = "TwoFactor_save (tf\<lparr>tf_data := EmailTokenData_to_json E (after_wrong E d)\<rparr>) s"
  have run: "validate_email_code_str E u code (tf_data tf) ip s
      = (Inl (ApiEvent (''Token is invalid! IP: '' @ ip) FAILED_2FA), ?t)"
    using assms(3,4) tf
    by (simp add: validate_email_code_str_def act_defs act_sum_def after_wrong_def Let_def)
  have "et_attempts (after_wrong E d) < 2 ^ 64" "fits 64 (et_token_sent (after_wrong E d))"
    using assms(2) by (auto simp: after_wrong_def Let_def EmailTokenData_add_attempt_def EmailTokenData_reset_token_def email_row_def)
  with email_row_save [OF assms(1,2)] tf have "email_row E u (after_wrong E d) ?t" by simp
  then show "\<not> fst (guess_code E u ip code s)" "email_row E u (after_wrong E d) (snd (guess_code E u ip code s))"
    using tf run by (simp_all add: guess_code_def)
qed

lemma no_code_no_guess:
  assumes "email_row E u d s" "et_last_token d = None"
  shows "guess_code E u ip code s = (False, s)"
  using assms by (auto simp: email_row_def guess_code_def validate_email_code_str_def act_defs act_sum_def)

lemma no_code_no_guesses:
  assumes "email_row E u d s" "et_last_token d = None"
  shows "guess_codes E u ip cs s = s"
  by (induction cs) (simp_all add: no_code_no_guess [OF assms])

lemma guesses_use_up:
  assumes "email_json_ok E" "email_row E u d s" "et_last_token d = Some tok" "\<forall>c \<in> set cs. \<not> ct_equal E tok c"
    "email_attempts_limit (conf E) \<le> et_attempts d + length cs" "et_attempts d < email_attempts_limit (conf E)"
    "email_attempts_limit (conf E) < 2 ^ 64"
  shows "\<exists>d'. email_row E u d' (guess_codes E u ip cs s) \<and> et_last_token d' = None"
  using assms
proof (induction cs arbitrary: d s)
  case (Cons c cs)
  let ?d = "after_wrong E d" and ?s = "snd (guess_code E u ip c s)"
  have row: "email_row E u ?d ?s" using wrong_guess(2) [OF Cons.prems(1-3)] Cons.prems(4) by simp
  show ?case
  proof (cases "et_last_token ?d")
    case None
    with row no_code_no_guesses [OF row None] show ?thesis by auto
  next
    case (Some x)
    then have "et_last_token ?d = Some tok" "et_attempts ?d = Suc (et_attempts d)" "Suc (et_attempts d) < email_attempts_limit (conf E)"
      using Cons.prems by (auto simp: after_wrong_def Let_def EmailTokenData_add_attempt_def EmailTokenData_reset_token_def split: if_splits)
    with Cons.IH [OF Cons.prems(1) row] Cons.prems show ?thesis by simp
  qed
qed simp

end
