(* ===== verification/DemoLogin.thy ===== *)
theory DemoLogin
  imports EmailCodes KeyRotation DemoServer
begin

text \<open>
  The concrete environment of the witnesses about logins: a clock in seconds and a printer and parser
  for the data of an e-mail factor, which spell a string character by character and a number in unary.
\<close>

definition enc_str :: "string \<Rightarrow> string" where
  "enc_str s = concat (map (\<lambda>c. [CHR ''c'', c]) s) @ ''.''"

fun dec_str :: "string \<Rightarrow> (string \<times> string) option" where
  "dec_str (a # c # s) = (if a = CHR ''.'' then Some ([], c # s)
     else case dec_str s of None \<Rightarrow> None | Some (x, r) \<Rightarrow> Some (c # x, r))"
| "dec_str [a] = (if a = CHR ''.'' then Some ([], []) else None)"
| "dec_str [] = None"

lemma dec_enc_str: "dec_str (enc_str s @ r) = Some (s, r)"
proof (induction s)
  case Nil
  then show ?case by (cases r) (simp_all add: enc_str_def)
qed (simp add: enc_str_def)

definition enc_nat :: "nat \<Rightarrow> string" where
  "enc_nat n = replicate n CHR ''i'' @ ''.''"

fun dec_nat :: "string \<Rightarrow> (nat \<times> string) option" where
  "dec_nat (a # s) = (if a = CHR ''.'' then Some (0, s)
     else case dec_nat s of None \<Rightarrow> None | Some (n, r) \<Rightarrow> Some (Suc n, r))"
| "dec_nat [] = None"

lemma dec_enc_nat: "dec_nat (enc_nat n @ r) = Some (n, r)"
  by (induction n) (simp_all add: enc_nat_def)

definition enc_int :: "int \<Rightarrow> string" where
  "enc_int n = (if n < 0 then CHR ''-'' else CHR ''+'') # enc_nat (nat \<bar>n\<bar>)"

definition dec_int :: "string \<Rightarrow> (int \<times> string) option" where
  "dec_int s = (case s of [] \<Rightarrow> None
     | a # s \<Rightarrow> (case dec_nat s of None \<Rightarrow> None
         | Some (n, r) \<Rightarrow> Some (if a = CHR ''-'' then - int n else int n, r)))"

lemma dec_enc_int: "dec_int (enc_int n @ r) = Some (n, r)"
  by (simp add: enc_int_def dec_int_def dec_enc_nat)

definition demo_print :: "json \<Rightarrow> string" where
  "demo_print j = (case j of
     JObj [(_, JStr e), (_, t), (_, JInt n), (_, JInt a)] \<Rightarrow>
       enc_str e @ (case t of JStr x \<Rightarrow> CHR ''s'' # enc_str x | _ \<Rightarrow> ''n'') @ enc_int n @ enc_int a
   | _ \<Rightarrow> [])"

definition dec_opt :: "string \<Rightarrow> (json \<times> string) option" where
  "dec_opt s = (case s of [] \<Rightarrow> None
     | a # s \<Rightarrow> if a = CHR ''n'' then Some (JNull, s)
         else (case dec_str s of None \<Rightarrow> None | Some (x, r) \<Rightarrow> Some (JStr x, r)))"

lemma dec_enc_opt: "dec_opt (CHR ''n'' # r) = Some (JNull, r)" "dec_opt (CHR ''s'' # enc_str x @ r) = Some (JStr x, r)"
  by (simp_all add: dec_opt_def dec_enc_str)

definition demo_parse :: "string \<Rightarrow> json option" where
  "demo_parse s =
     (case dec_str s of None \<Rightarrow> None | Some (e, s) \<Rightarrow>
     (case dec_opt s of None \<Rightarrow> None | Some (t, s) \<Rightarrow>
     (case dec_int s of None \<Rightarrow> None | Some (n, s) \<Rightarrow>
     (case dec_int s of None \<Rightarrow> None | Some (a, s) \<Rightarrow>
        Some (JObj [(''email'', JStr e), (''last_token'', t), (''token_sent'', JInt n), (''attempts'', JInt a)])))))"

definition login_env :: env where
  "login_env = demo_env\<lparr>json_print := demo_print, json_parse := demo_parse, clock := (\<lambda>n. int n * NANOS)\<rparr>"

lemma login_json: "email_json_ok login_env"
proof -
  have "demo_parse (demo_print (JObj [(''email'', JStr e), (''last_token'', json_opt t), (''token_sent'', JInt n), (''attempts'', JInt a)]))
      = Some (JObj [(''email'', JStr e), (''last_token'', json_opt t), (''token_sent'', JInt n), (''attempts'', JInt a)])" for e t n a
    using dec_enc_int [of a "[]"]
    by (cases t) (simp_all add: demo_print_def demo_parse_def json_opt_def dec_enc_str dec_enc_opt dec_enc_int)
  then show ?thesis
    by (auto simp: email_json_ok_def EmailTokenData_from_json_def EmailTokenData_to_json_def login_env_def)
qed

end
