(* ===== verification/RequestLaws.thy ===== *)
theory RequestLaws
  imports LoginRequests
begin

text \<open>
  A login request from the question to the key: the operations on login requests as a step relation, and
  what holds of every row of the table after any run of them (\<open>vouched\<close>).
\<close>

section \<open>Runs of the operations on login requests\<close>

datatype request_op =
    Ask AuthRequestRequest ClientHeaders
  | Answer AuthRequestId AuthResponseRequest Headers
  | Fetch AuthRequestId string ClientHeaders
  | ListPending Headers
  | Purge

inductive request_step :: "env \<Rightarrow> request_op \<Rightarrow> server \<Rightarrow> server \<Rightarrow> bool" for E where
  Ask: "post_auth_request E data ch s = (r, t) \<Longrightarrow> request_step E (Ask data ch) s t"
| Answer: "put_auth_request E uuid data h s = (r, t) \<Longrightarrow> request_step E (Answer uuid data h) s t"
| Fetch: "get_auth_request_response E uuid code ch s = (r, t) \<Longrightarrow> request_step E (Fetch uuid code ch) s t"
| ListPending: "get_auth_requests E h s = (r, t) \<Longrightarrow> request_step E (ListPending h) s t"
| Purge: "purge_auth_requests E s = (r, t) \<Longrightarrow> request_step E Purge s t"

inductive request_run :: "env \<Rightarrow> request_op list \<Rightarrow> server \<Rightarrow> server \<Rightarrow> bool" for E where
  Nil: "request_run E [] s s"
| Snoc: "request_run E ops s t \<Longrightarrow> request_step E op t u \<Longrightarrow> request_run E (ops @ [op]) s u"

inductive_cases request_stepE: "request_step E op s t"

section \<open>Where a row comes from\<close>

text \<open>A client asked for the row with its code and key, and a decision with an encrypted key was made by a
  session of the row's own user on the device that the answer names.\<close>

definition asked_in :: "request_op list \<Rightarrow> AuthRequest \<Rightarrow> bool" where
  "asked_in ops a \<longleftrightarrow> (\<exists>data ch. Ask data ch \<in> set ops \<and> aq_access_code a = arr_access_code data
     \<and> aq_public_key a = arr_public_key data \<and> aq_device_type a = ch_device_type ch \<and> aq_request_ip a = ch_ip ch)"

definition answered_in :: "request_op list \<Rightarrow> AuthRequest \<Rightarrow> bool" where
  "answered_in ops a \<longleftrightarrow> (\<exists>data h. Answer (aq_uuid a) data h \<in> set ops \<and> u_uuid (h_user h) = aq_user_uuid a
     \<and> ars_request_approved data \<and> d_uuid (h_device h) = ars_device_identifier data
     \<and> aq_enc_key a = Some (ars_key data) \<and> aq_master_password_hash a = ars_master_password_hash data)"

definition undecided :: "AuthRequest \<Rightarrow> bool" where
  "undecided a \<longleftrightarrow> aq_approved a = None \<and> aq_enc_key a = None \<and> aq_master_password_hash a = None"

definition vouched :: "request_op list \<Rightarrow> server \<Rightarrow> bool" where
  "vouched ops s \<longleftrightarrow> (\<forall>a \<in> set (auth_requests s). asked_in ops a
     \<and> (undecided a \<or> aq_approved a = Some True \<and> answered_in ops a))"

lemmas vouched_defs = vouched_def asked_in_def answered_in_def undecided_def

lemma asked_inI:
  "Ask data ch \<in> set ops \<Longrightarrow> aq_access_code a = arr_access_code data \<Longrightarrow> aq_public_key a = arr_public_key data
    \<Longrightarrow> aq_device_type a = ch_device_type ch \<Longrightarrow> aq_request_ip a = ch_ip ch \<Longrightarrow> asked_in ops a"
  unfolding asked_in_def by blast

lemma vouched_mono: "vouched ops s \<Longrightarrow> set ops \<subseteq> set ops' \<Longrightarrow> vouched ops' s"
  unfolding vouched_defs by blast

lemma vouched_cong: "auth_requests t = auth_requests s \<Longrightarrow> vouched ops t \<longleftrightarrow> vouched ops s"
  by (simp add: vouched_def)

lemma vouched_delete: "vouched ops s \<Longrightarrow> vouched ops (AuthRequest_delete a s)"
  by (auto simp: vouched_def AuthRequest_delete_def)

lemma vouched_save:
  "vouched ops s \<Longrightarrow> asked_in ops a \<Longrightarrow> undecided a \<or> aq_approved a = Some True \<and> answered_in ops a
    \<Longrightarrow> vouched ops (AuthRequest_save a s)"
  by (auto simp: vouched_def AuthRequest_save_def set_tbl_upsert)

lemma vouched_quiet [simp]:
  "vouched ops (log_user_event E ty u dev ip s) \<longleftrightarrow> vouched ops s"
  "vouched ops (s\<lparr>tick := n\<rparr>) \<longleftrightarrow> vouched ops s"
  by (simp_all add: vouched_def)

lemma vouched_ask: "vouched ops s \<Longrightarrow> Ask data ch \<in> set ops \<Longrightarrow> vouched ops (snd (post_auth_request E data ch s))"
  by (rule wp_snd [THEN iffD1], unfold post_auth_request_def)
    (auto simp: wp_simps AuthRequest_new_def utc_now_def get_uuid_def undecided_def intro!: vouched_save
      intro: asked_inI split: option.split)

lemma vouched_answer:
  assumes "vouched ops s" "Answer uuid data h \<in> set ops"
  shows "vouched ops (snd (put_auth_request E uuid data h s))"
proof -
  have row: "asked_in ops (a\<lparr>aq_approved := Some True, aq_enc_key := Some (ars_key data),
        aq_master_password_hash := ars_master_password_hash data, aq_response_device_id := dev, aq_response_date := d\<rparr>)
      \<and> answered_in ops (a\<lparr>aq_approved := Some True, aq_enc_key := Some (ars_key data),
        aq_master_password_hash := ars_master_password_hash data, aq_response_device_id := dev, aq_response_date := d\<rparr>)"
    if "a \<in> set (auth_requests s)" "aq_uuid a = uuid" "aq_user_uuid a = u_uuid (h_user h)" "ars_request_approved data"
      "d_uuid (h_device h) = ars_device_identifier data" for a dev d
    using assms that unfolding vouched_def asked_in_def answered_in_def by force
  show ?thesis
    by (insert assms(1), rule wp_snd [THEN iffD1], unfold put_auth_request_def)
      (auto simp: wp_simps Let_def AuthRequest_find_by_uuid_and_user_def row
        intro!: vouched_save vouched_delete dest!: tbl_first_Some split: option.split)
qed

lemma vouched_purge:
  assumes "vouched ops s"
  shows "vouched ops (snd (purge_auth_requests E s))"
proof -
  have "stable (vouched ops) (purge_auth_requests E)"
    unfolding purge_auth_requests_def purge_expired_auth_requests_def
    by (intro stable_intros stable_upd stable_run) (simp_all add: vouched_delete)
  with assms show ?thesis by (simp add: stable_def)
qed

lemma vouched_fetch: "snd (get_auth_request_response E uuid code ch s) = s"
  by (simp add: get_auth_request_response_def act_defs split: option.split)

lemma vouched_step:
  assumes "request_step E op s t" "vouched ops s"
  shows "vouched (ops @ [op]) t"
proof -
  have old: "vouched (ops @ [op]) s" using assms(2) by (rule vouched_mono) auto
  from assms(1) show ?thesis
  proof (cases rule: request_step.cases)
    case (Ask data ch r)
    then show ?thesis using vouched_ask [OF old, of data ch E] by simp
  next
    case (Answer uuid data h r)
    then show ?thesis using vouched_answer [OF old, of uuid data h E] by simp
  next
    case (Fetch uuid code ch r)
    then show ?thesis using old vouched_fetch [of E uuid code ch s] by simp
  next
    case (ListPending h r)
    then show ?thesis using old by (simp add: get_auth_requests_def get_auth_requests_pending_def act_defs)
  next
    case (Purge r)
    then show ?thesis using vouched_purge [OF old, of E] by simp
  qed
qed

lemma run_vouched: "request_run E ops s t \<Longrightarrow> auth_requests s = [] \<Longrightarrow> vouched ops t"
proof (induction rule: request_run.induct)
  case (Nil s)
  then show ?case by (simp add: vouched_def)
qed (auto intro: vouched_step)

end
