(* ===== verification/AccountLaws.thy ===== *)
theory AccountLaws
  imports AccountApi LoginLaws
begin

text \<open>
  What the account handlers leave alone: a registration keeps every account that has a password
  (\<open>kept\<close>), whatever it answers, and a change of the address keeps the row under its identifier.
\<close>

lemma stable_wp: "stable I m \<longleftrightarrow> (\<forall>s. I s \<longrightarrow> wp m (\<lambda>_. I) (\<lambda>_. I) s)"
  by (simp add: stable_def wp_snd)

lemma wp_any: "wp m (\<lambda>_ _. True) (\<lambda>_ _. True) s"
  by (simp add: wp_def split: prod.split sum.split)

lemma yields_mono: "yields P m \<Longrightarrow> (\<And>a. P a \<Longrightarrow> Q a) \<Longrightarrow> yields Q m"
  unfolding yields_def by (blast intro: wp_mono)

section \<open>Accounts that a registration keeps\<close>

text \<open>An account up to the date of its revision, which every change of a shared row touches.\<close>

definition same_account :: "User \<Rightarrow> User \<Rightarrow> bool" where
  "same_account u v \<longleftrightarrow> v\<lparr>u_updated_at := u_updated_at u\<rparr> = u"

definition kept :: "User \<Rightarrow> server \<Rightarrow> bool" where
  "kept u s \<longleftrightarrow> (\<exists>v \<in> set (users s). same_account u v)"

lemma same_account_uuid: "same_account u v \<Longrightarrow> u_uuid v = u_uuid u \<and> u_password_hash v = u_password_hash u"
  unfolding same_account_def by (metis User.select_convs User.surjective User.update_convs(4))

lemma same_account_date [simp]: "same_account u (v\<lparr>u_updated_at := d\<rparr>) \<longleftrightarrow> same_account u v"
  by (simp add: same_account_def)

lemma kept_cong: "users t = users s \<Longrightarrow> kept u s \<Longrightarrow> kept u t"
  by (simp add: kept_def)

lemma kept_upsert:
  assumes "kept u s" "u_uuid x \<noteq> u_uuid u" "users t = tbl_upsert u_uuid x (users s)"
  shows "kept u t"
proof -
  from assms(1) obtain v where v: "v \<in> set (users s)" "same_account u v" by (auto simp: kept_def)
  with same_account_uuid assms(2) have "v \<in> set (users t)" unfolding assms(3) set_tbl_upsert by force
  with v(2) show ?thesis by (auto simp: kept_def)
qed

lemma kept_revision:
  assumes "kept u s"
  shows "kept u (update_uuid_revision E i s)"
proof -
  from assms obtain v where v: "v \<in> set (users s)" "same_account u v" by (auto simp: kept_def)
  let ?v = "if u_uuid v = i then v\<lparr>u_updated_at := clock E (tick s)\<rparr> else v"
  have "?v \<in> set (users (update_uuid_revision E i s))"
    using v(1) by (auto simp: update_uuid_revision_def update_revision_impl_def utc_now_def set_tbl_update)
  moreover have "same_account u ?v" using v(2) by simp
  ultimately show ?thesis unfolding kept_def by blast
qed

lemma kept_User_save:
  assumes "u_uuid x \<noteq> u_uuid u"
  shows "stable (kept u) (User_save E x)"
proof -
  have tick: "kept u (s\<lparr>tick := n\<rparr>)" if "kept u s" for s n
    using that by (rule kept_cong [rotated]) simp
  have "kept u (s\<lparr>tick := n, users := tbl_upsert u_uuid (x\<lparr>u_updated_at := d\<rparr>) (users s)\<rparr>)" if "kept u s" for s n d
    using that assms by (intro kept_upsert [OF that, of "x\<lparr>u_updated_at := d\<rparr>"]) simp_all
  with tick show ?thesis by (simp add: stable_wp wp_User_save Let_def)
qed

lemma User_save_uuid: "yields (\<lambda>v. u_uuid v = u_uuid x) (User_save E x)"
  by (auto simp: yields_def wp_User_save Let_def)

lemma set_password_uuid: "yields (\<lambda>v. u_uuid v = u_uuid x) (set_password E pw k reset routes x)"
  by (auto simp: yields_def set_password_def wp_simps Let_def reset_security_stamp_def set_stamp_exception_def
      split: sum.split option.split prod.split)

lemma users_set_password: "stable (\<lambda>t. users t = U) (set_password E pw k reset routes x)"
  by (auto simp: stable_wp set_password_def wp_simps Let_def reset_security_stamp_def set_stamp_exception_def
      utc_now_def get_uuid_def split: sum.split option.split prod.split)

text \<open>The statements before the account is looked up change no account and only advance the counter of draws.\<close>

definition before :: "server \<Rightarrow> server \<Rightarrow> bool" where
  "before s t \<longleftrightarrow> users t = users s \<and> tick s \<le> tick t"

lemma before_decode:
  "stable (before s) (decode_register_verify E token)"
  "stable (before s) (decode_invite E token)"
  "stable (before s) (decode_emergency_access_invite E token)"
  by (auto simp: stable_def before_def decode_register_verify_def decode_invite_def decode_emergency_access_invite_def split: sum.split)

lemma before_tokens: "stable (before s) (check_register_tokens E data)"
  unfolding check_register_tokens_def prod.case by (intro stable_intros before_decode)

lemma users_invitation [simp]: "users (snd (Invitation_take E a s)) = users s" "tick (snd (Invitation_take E a s)) = tick s"
  by (simp_all add: Invitation_take_def Invitation_delete_def split: option.split)

lemma stable_users_kept: "(\<And>U. stable (\<lambda>t. users t = U) m) \<Longrightarrow> stable (kept u) m"
  unfolding stable_def using kept_cong by blast

lemma register_user_wp:
  assumes "kept u s" "keyed u_uuid (users s)" "u_password_hash u \<noteq> []" "\<And>n. tick s \<le> n \<Longrightarrow> uuid_at E n \<noteq> u_uuid u"
  shows "wp (register_user E data a b c) (\<lambda>(x, _) t. kept u t \<and> u_uuid x \<noteq> u_uuid u) (\<lambda>_. kept u) s"
proof -
  have new: False if "x \<in> set (users s)" "u_password_hash x = []" and eq: "u_uuid x = u_uuid u" for x
  proof -
    from assms(1) obtain v where v: "v \<in> set (users s)" "same_account u v" by (auto simp: kept_def)
    with eq assms(2) that(1) have "x = v" using same_account_uuid [OF v(2)] by (metis keyed_unique)
    with that(2) assms(3) same_account_uuid [OF v(2)] show False by simp
  qed
  have k: "kept u t" if "users t = users s" for t using assms(1) that by (rule kept_cong [rotated])
  have inv: "wp (decode_invite E token) Q R s \<longleftrightarrow> (case jwt_invite E (tick s) token of
      Inl e \<Rightarrow> R (Api e) (bump s) | Inr cl \<Rightarrow> Q cl (bump s))" for token Q R
    by (simp add: decode_invite_def wp_def split: sum.split)
  have un: "tick s \<le> tick t \<Longrightarrow> u_uuid (fst (User_new E a None t)) \<noteq> u_uuid u" "users (snd (User_new E a None t)) = users t" for t
    using assms(4) by (simp_all add: User_new_def utc_now_def get_uuid_def get_random_bytes_def Let_def)
  show ?thesis
    unfolding register_user_def
    by (auto simp: wp_simps inv un User_find_by_mail_def accept_user_invitations_def
        intro!: k dest!: tbl_first_Some dest: new split: option.split sum.split)
qed

lemma users_register_mails: "stable (\<lambda>t. users t = U) (register_mails E x v m)"
proof -
  have mail: "stable (\<lambda>t. users t = U) (send_mail E x)" for x by (auto simp: stable_wp wp_simps split: option.split)
  have factor: "stable (\<lambda>t. users t = U) (activate_email_2fa E x)" for x
    unfolding activate_email_2fa_def
    by (intro stable_intros stable_upd stable_run)
      (auto simp: EmailTokenData_new_def TwoFactor_new_def TwoFactor_save_def utc_now_def get_uuid_def)
  show ?thesis
    unfolding register_mails_def send_welcome_must_verify_def generate_verify_email_claims_def
    by (intro stable_intros stable_run mail factor) (auto simp: utc_now_def)
qed

lemma register_mails_uuid: "yields (\<lambda>y. u_uuid y = u_uuid x) (register_mails E x v m)"
  by (simp add: yields_def register_mails_def wp_simps wp_any split: option.split)

lemma kept_accept: "stable (kept u) (EmergencyAccess_accept_invite E g a ea)"
  unfolding EmergencyAccess_accept_invite_def EmergencyAccess_save_def
  by (intro stable_intros stable_run)
    (auto simp: Let_def utc_now_def intro: kept_cong [of _ "update_uuid_revision E i s" for i s] kept_revision)

lemma register_rest:
  assumes "u_uuid x \<noteq> u_uuid u"
  shows "stable (kept u)
    (act_bind (register_mails E x v m) (\<lambda>user.
     act_bind (User_save E user) (\<lambda>user.
     act_seq (act_when b (act_bind (act_get (find_all_invited_by_grantee_email (u_email user))) (\<lambda>invites.
       act_for invites (\<lambda>ea. act_ignore (EmergencyAccess_accept_invite E (u_uuid user) (u_email user) ea)))))
     (act_ret j))))"
  by (rule stable_bind_yields [OF register_mails_uuid stable_users_kept [OF users_register_mails]])
    (intro stable_bind stable_seq stable_intros kept_accept kept_User_save, simp add: assms)

lemma register_tail:
  assumes "u_uuid x \<noteq> u_uuid u" and f: "\<And>user. u_uuid (f user) = u_uuid user"
  shows "stable (kept u)
    (act_bind (act_run (Invitation_take E a)) (\<lambda>_.
     act_bind (act_sum (set_kdf_data x k)) (\<lambda>user.
     act_bind (set_password E pw key True None user) (\<lambda>user.
     act_bind (if v then act_bind (act_run (utc_now E)) (\<lambda>now. act_ret ((with_keys ks (f user))\<lparr>u_verified_at := Some now\<rparr>))
               else act_ret (with_keys ks (f user))) (\<lambda>user.
     act_bind (register_mails E user v m) (\<lambda>user.
     act_bind (User_save E user) (\<lambda>user.
     act_seq (act_when b (act_bind (act_get (find_all_invited_by_grantee_email (u_email user))) (\<lambda>invites.
       act_for invites (\<lambda>ea. act_ignore (EmergencyAccess_accept_invite E (u_uuid user) (u_email user) ea)))))
     (act_ret j))))))))"
proof -
  have kdf: "yields (\<lambda>y. u_uuid y \<noteq> u_uuid u) (act_sum (set_kdf_data x k))"
    using assms(1) by (auto simp: yields_def wp_simps set_kdf_data_def Let_def split: option.split)
  have pw: "yields (\<lambda>z. u_uuid z \<noteq> u_uuid u) (set_password E pw key True None y)" if "u_uuid y \<noteq> u_uuid u" for y
    by (rule yields_mono [OF set_password_uuid]) (use that in simp)
  have date: "yields (\<lambda>y. u_uuid y \<noteq> u_uuid u)
      (if v then act_bind (act_run (utc_now E)) (\<lambda>now. act_ret ((with_keys ks (f z))\<lparr>u_verified_at := Some now\<rparr>))
       else act_ret (with_keys ks (f z)))" if "u_uuid z \<noteq> u_uuid u" for z
    using that by (auto simp: yields_def wp_simps with_keys_def f split: option.split)
  have run: "stable (kept u) (act_run (Invitation_take E a))" "stable (kept u) (act_run (utc_now E))"
    by (auto intro!: stable_run simp: kept_def utc_now_def)
  show ?thesis
    by (intro stable_bind [OF run(1)] stable_bind_yields [OF kdf stable_sum]
        stable_bind_yields [OF pw stable_users_kept [OF users_set_password]]
        stable_bind_yields [OF date] register_rest stable_intros run(2))
qed

lemma register_kept:
  assumes u: "u \<in> set (users s)" "u_password_hash u \<noteq> []" and keyed: "keyed u_uuid (users s)"
    and fresh: "\<And>n. tick s \<le> n \<Longrightarrow> uuid_at E n \<noteq> u_uuid u"
  shows "kept u (snd (register E data verification s))"
proof -
  have here: "kept u t" if "before s t" for t
    using u(1) that unfolding kept_def same_account_def before_def by (metis User.surjective User.update_convs(4))
  have tokens: "stable (before s)
      (if verification then check_register_tokens E data else act_ret (rg_name data, False, False))"
    by (simp add: before_tokens stable_ret)
  have guards: "stable (before s) (err_if b msg)" "stable (before s) (enforce_password_hint_setting E h)" for b msg h
    unfolding enforce_password_hint_setting_def by (intro stable_intros)+
  have user: "wp (register_user E data a b c) (\<lambda>(x, _) t. kept u t \<and> u_uuid x \<noteq> u_uuid u) (\<lambda>_. kept u) t"
    if "before s t" for a b c t
    using register_user_wp [OF here [OF that]] that keyed u(2) fresh by (auto simp: before_def)
  have quiet: "wp m (\<lambda>_ t. before s t) (\<lambda>_. kept u) t" if "stable (before s) m" "before s t" for t and m :: "(server, 'a) act"
    using that here by (intro wp_stable)
  have start: "before s s" by (simp add: before_def)
  show ?thesis
    unfolding register_def Let_def wp_snd [symmetric] case_prod_unfold
    by (rule wp_after [OF wp_stable [OF tokens start]], assumption, erule here,
        rule wp_then [OF quiet [OF guards(1)]], assumption+, rule wp_then [OF quiet [OF guards(2)]], assumption+,
        rule wp_after [OF user], assumption)
      (auto simp: case_prod_unfold intro!: wp_stable [OF register_tail] split: option.split)
qed

section \<open>Changing the address\<close>

lemma set_password_address:
  "wp (set_password E pw k reset routes x) (\<lambda>v _. u_uuid v = u_uuid x \<and> u_email v = u_email x) (\<lambda>_ _. True) s"
  by (auto simp: set_password_def wp_simps Let_def reset_security_stamp_def set_stamp_exception_def
      split: sum.split option.split prod.split)

lemma post_email_rows:
  "wp (post_email E data h) (\<lambda>_ t. (\<exists>x \<in> set (users t). u_uuid x = u_uuid (h_user h))
      \<and> (\<forall>x \<in> set (users t). u_uuid x = u_uuid (h_user h) \<longrightarrow> u_email x = ce_new_email data)) (\<lambda>_ _. True) s"
proof -
  have save: "wp (User_save E v) (\<lambda>_ t. (\<exists>x \<in> set (users t). u_uuid x = u_uuid v)
      \<and> (\<forall>x \<in> set (users t). u_uuid x = u_uuid v \<longrightarrow> u_email x = u_email v)) (\<lambda>_ _. True) t" for v t
    by (auto simp: wp_User_save Let_def set_tbl_upsert)
  have token: "wp (check_email_token E data x) (\<lambda>y _. u_uuid y = u_uuid x) (\<lambda>_ _. True) t" for x t
    by (auto simp: check_email_token_def wp_simps split: option.split)
  show ?thesis
    unfolding post_email_def check_password_def Let_def
    by (auto simp: wp_simps wp_void split: option.split sum.split
        intro!: wp_mono [OF token] wp_mono [OF set_password_address] wp_mono [OF save])
qed

end
