(* ===== verification/LoginProps.thy ===== *)
theory LoginProps
  imports DemoLogin RequestLaws AccountLaws
begin

text \<open>
  The properties of logging in, of second factors by e-mail, of login requests and of accounts, with
  their witnesses on the environment of \<open>DemoLogin\<close>.
\<close>

section \<open>Logging in\<close>

definition login_data :: ConnectData where
  "login_data = \<lparr>cd_grant_type = ''password'', cd_refresh_token = None, cd_client_id = Some ''web'', cd_client_secret = None,
     cd_password = Some ''pw'', cd_scope = Some ''api offline_access'', cd_username = Some ''alice@vault'',
     cd_device_identifier = Some ''phone'', cd_device_name = Some ''Phone'', cd_device_type = Some ''9'',
     cd_two_factor_provider = None, cd_two_factor_token = Some ''000000'', cd_two_factor_remember = None,
     cd_auth_request = None, cd_code = None, cd_code_verifier = None\<rparr>"

definition no_sso :: sso_params where
  "no_sso = (\<lambda>d u c r. act_err (Api ''no provider''), \<lambda>d ip v. act_err (Api ''no provider''))"

definition web_client :: ClientHeaders where
  "web_client = \<lparr>ch_device_type = 9, ch_ip = ''::1''\<rparr>"

definition login_alice :: User where
  "login_alice = alice\<lparr>u_password_hash := [1, 2, 3] @ str_bytes ''pw''\<rparr>"

definition login_server :: server where
  "login_server = empty_server\<lparr>users := [login_alice],
     twofactors := [\<lparr>tf_uuid = ''a'', tf_user_uuid = ''alice'', tf_atype = 0, tf_enabled = True, tf_data = ''KEY'', tf_last_used = -5\<rparr>]\<rparr>"

text \<open>C13. A login by password answers with tokens only for an enabled user with a verified address (where
  the server asks for one), with the master password or an approved login request of at most five
  minutes from the same address with its access code, and, when the user has second factors, with a
  fresh code of the authenticator, the last code sent by e-mail, the remembered token of the device, the
  recovery code, or a code that the external service of a registered key accepts. The access token is
  for that user and the user's current security stamp.\<close>

theorem login_sound:
  assumes "twofactors_wf (twofactors s)" "cd_grant_type data = ''password''"
    and "login E sso data ch cv s = (Inr j, t)"
  shows "login_justified E data (ch_ip ch) s j"
proof -
  obtain t' where "login_result E sso data ch cv \<lparr>ls_db = s, ls_user = None\<rparr> = (Inr j, t')"
    using assms(3) by (auto simp: login_def Let_def split: prod.splits)
  from wp_Inr [OF login_password_wp [OF assms(1,2)] this] show ?thesis .
qed

theorem login_sound_witness:
  "\<exists>j. fst (login login_env no_sso login_data web_client None login_server) = Inr j
    \<and> login_justified login_env login_data ''::1'' login_server j"
proof -
  have wf: "twofactors_wf (twofactors login_server)" by code_simp
  have "cd_grant_type login_data = ''password''" by code_simp
  moreover have "\<not> isl (fst (login login_env no_sso login_data web_client None login_server))" by code_simp
  moreover have "ch_ip web_client = ''::1''" by code_simp
  ultimately show ?thesis
    using login_sound [OF wf, of login_data login_env no_sso web_client None]
    by (cases "login login_env no_sso login_data web_client None login_server";
        cases "fst (login login_env no_sso login_data web_client None login_server)") auto
qed

section \<open>Codes by e-mail\<close>

text \<open>C15. A code sent by e-mail stands no more guesses than \<open>email_attempts_limit\<close>: after as many wrong
  guesses as the limit leaves, no guess is accepted, not even the code itself, until a new one is sent.\<close>

theorem email_guesses_bounded:
  assumes "email_json_ok E" "email_row E u d s" "et_last_token d = Some token" "et_attempts d < email_attempts_limit (conf E)"
    and "email_attempts_limit (conf E) < 2 ^ 64" "\<forall>c \<in> set cs. \<not> ct_equal E token c"
    and "email_attempts_limit (conf E) \<le> et_attempts d + length cs"
  shows "guess_code E u ip code (guess_codes E u ip cs s) = (False, guess_codes E u ip cs s)"
  using guesses_use_up [OF assms(1-3,6,7,4,5)] no_code_no_guess by blast

definition sent_code :: EmailTokenData where
  "sent_code = \<lparr>et_email = ''alice@vault'', et_last_token = Some ''777'', et_token_sent = 1, et_attempts = 0\<rparr>"

definition code_server :: server where
  "code_server = empty_server\<lparr>users := [login_alice], twofactors := [\<lparr>tf_uuid = ''e'', tf_user_uuid = ''alice'', tf_atype = 1,
     tf_enabled = True, tf_data = EmailTokenData_to_json login_env sent_code, tf_last_used = 0\<rparr>]\<rparr>"

theorem email_guesses_bounded_witness:
  "fst (guess_code login_env ''alice'' ''::1'' ''777'' code_server)
    \<and> \<not> fst (guess_code login_env ''alice'' ''::1'' ''777'' (guess_codes login_env ''alice'' ''::1'' [''1'', ''2'', ''3''] code_server))"
proof -
  have "EmailTokenData_from_json login_env (EmailTokenData_to_json login_env sent_code) = Inr sent_code"
    using login_json by (simp add: email_json_ok_def sent_code_def fits_def)
  then have row: "email_row login_env ''alice'' sent_code code_server"
    by (simp add: email_row_def code_server_def TwoFactor_find_by_user_and_type_def tbl_first_def twofactors_wf_def
        keyed_def sent_code_def fits_def)
  have lim: "email_attempts_limit (conf login_env) = 3" by code_simp
  have eq: "ct_equal login_env = (=)" by (simp add: login_env_def demo_env_def)
  have "et_last_token sent_code = Some ''777''" "et_attempts sent_code = 0" by (simp_all add: sent_code_def)
  from email_guesses_bounded [OF login_json row this(1), of "[''1'', ''2'', ''3'']" "''::1''" "''777''"] this lim eq
  have "\<not> fst (guess_code login_env ''alice'' ''::1'' ''777'' (guess_codes login_env ''alice'' ''::1'' [''1'', ''2'', ''3''] code_server))"
    by simp
  moreover have "fst (guess_code login_env ''alice'' ''::1'' ''777'' code_server)" by code_simp
  ultimately show ?thesis by simp
qed

text \<open>C16. The factor that an organization's policy or a verified invitation turns on automatically is stored
  with the empty string as its current code: until that code expires, the check of the factor accepts an
  empty code, so that the password alone is enough to log in.\<close>

theorem auto_factor_empty_code:
  assumes "twofactors_wf (twofactors s)" "email_json_ok E" "ct_equal E [] []" "u_verified_at u \<noteq> None"
    and "fits 64 (timestamp (clock E (tick s)))"
    and "naive_add 0 (timestamp (clock E (tick s)) * NANOS) = Some sent"
    and "try_seconds (sint (email_expiration_time (conf E))) = Some valid" "naive_add sent valid = Some expiry"
  shows "\<exists>t tf. activate_email_2fa E u s = (Inr (), t)
    \<and> TwoFactor_find_by_user_and_type (u_uuid u) (TwoFactorType_i32 Email) t = Some tf
    \<and> (\<forall>t'. twofactors t' = twofactors t \<longrightarrow> clock E (tick t') \<le> expiry \<longrightarrow>
         fst (validate_email_code_str E (u_uuid u) [] (tf_data tf) ip t') = Inr ())"
proof -
  define d where "d = \<lparr>et_email = u_email u, et_last_token = Some [], et_token_sent = timestamp (clock E (tick s)), et_attempts = 0\<rparr>"
  define tf where "tf = \<lparr>tf_uuid = uuid_at E (Suc (tick s)), tf_user_uuid = u_uuid u, tf_atype = 1, tf_enabled = True,
    tf_data = EmailTokenData_to_json E d, tf_last_used = 0\<rparr>"
  define t where "t = TwoFactor_save tf (s\<lparr>tick := Suc (Suc (tick s))\<rparr>)"
  have run: "activate_email_2fa E u s = (Inr (), t)"
    using assms(4) by (simp add: activate_email_2fa_def act_defs EmailTokenData_new_def TwoFactor_new_def utc_now_def get_uuid_def
        d_def tf_def t_def)
  have row: "TwoFactor_find_by_user_and_type (u_uuid u) 1 t = Some tf"
    using find_saved [of "s\<lparr>tick := Suc (Suc (tick s))\<rparr>" tf] assms(1) by (simp add: t_def tf_def)
  have data: "EmailTokenData_from_json E (tf_data tf) = Inr d"
    using assms(2,5) by (simp add: email_json_ok_def tf_def d_def)
  have "fst (validate_email_code_str E (u_uuid u) [] (tf_data tf) ip t') = Inr ()"
    if t': "twofactors t' = twofactors t" "clock E (tick t') \<le> expiry" for t'
  proof -
    have "TwoFactor_find_by_user_and_type (u_uuid u) 1 t' = Some tf"
      using row t'(1) by (simp add: TwoFactor_find_by_user_and_type_def)
    moreover have "tick (TwoFactor_save x t') = tick t'" for x by (simp add: TwoFactor_save_def)
    ultimately show ?thesis using data assms(3,6-8) t'(2)
      by (simp add: validate_email_code_str_def act_defs act_sum_def email_code_expiry_def utc_now_def
          EmailTokenData_reset_token_def d_def Let_def)
  qed
  with run row show ?thesis by auto
qed

theorem auto_factor_empty_code_witness:
  "\<exists>t tf. activate_email_2fa login_env (login_alice\<lparr>u_verified_at := Some 0\<rparr>) empty_server = (Inr (), t)
    \<and> TwoFactor_find_by_user_and_type ''alice'' 1 t = Some tf
    \<and> fst (validate_email_code_str login_env ''alice'' [] (tf_data tf) ''::1'' t) = Inr ()"
proof -
  let ?u = "login_alice\<lparr>u_verified_at := Some 0\<rparr>"
  have wf: "twofactors_wf (twofactors empty_server)" by code_simp
  have ct: "ct_equal login_env [] []" by code_simp
  have u: "u_uuid ?u = ''alice''" by code_simp
  have v: "u_verified_at ?u \<noteq> None" by simp
  have c: "fits 64 (timestamp (clock login_env (tick empty_server)))"
    "naive_add 0 (timestamp (clock login_env (tick empty_server)) * NANOS) = Some 0"
    "try_seconds (sint (email_expiration_time (conf login_env))) = Some (600 * NANOS)"
    "naive_add 0 (600 * NANOS) = Some (600 * NANOS)" by code_simp+
  from auto_factor_empty_code [OF wf login_json ct v c, of "''::1''"] obtain t tf where
    t: "activate_email_2fa login_env ?u empty_server = (Inr (), t)"
      "TwoFactor_find_by_user_and_type (u_uuid ?u) (TwoFactorType_i32 Email) t = Some tf"
      "\<forall>t'. twofactors t' = twofactors t \<longrightarrow> clock login_env (tick t') \<le> 600 * NANOS \<longrightarrow>
         fst (validate_email_code_str login_env (u_uuid ?u) [] (tf_data tf) ''::1'' t') = Inr ()"
    by blast
  have "clock login_env (tick (snd (activate_email_2fa login_env ?u empty_server))) \<le> 600 * NANOS" by code_simp
  then have "clock login_env (tick t) \<le> 600 * NANOS" using t(1) by simp
  with t u show ?thesis by auto
qed

section \<open>Login requests\<close>

text \<open>C14. The key of an account reaches a new device only through its owner: after any run of the
  operations on login requests, whoever fetches a request shows the access code, the device type and
  the address of a client that asked for it with this public key, and the answer holds a key only if a
  session of the request's own user approved the request with that key on the device it names.\<close>

theorem login_key_vouched:
  assumes "request_run E ops s t" "auth_requests s = []"
    and "get_auth_request_response E uuid code ch t = (Inr j, t')"
  shows "\<exists>a \<in> set (auth_requests t). aq_uuid a = uuid \<and> j = stored_request_json E a
    \<and> (\<exists>data ch'. Ask data ch' \<in> set ops \<and> ct_equal E (arr_access_code data) code
         \<and> arr_public_key data = aq_public_key a \<and> ch_device_type ch' = ch_device_type ch \<and> ch_ip ch' = ch_ip ch)
    \<and> (undecided a \<or> answered_in ops a)"
proof -
  have "wp (get_auth_request_response E uuid code ch)
    (\<lambda>j _. \<exists>a \<in> set (auth_requests t). aq_uuid a = uuid \<and> j = stored_request_json E a \<and> \<not> foreign_client E ch code a)
    (\<lambda>_ _. True) t"
    by (auto simp: get_auth_request_response_def wp_simps AuthRequest_find_by_uuid_def dest!: tbl_first_Some split: option.split)
  from wp_Inr [OF this assms(3)] obtain a where
    a: "a \<in> set (auth_requests t)" "aq_uuid a = uuid" "j = stored_request_json E a" "\<not> foreign_client E ch code a" by blast
  then have "asked_in ops a \<and> (undecided a \<or> answered_in ops a)"
    using run_vouched [OF assms(1,2)] by (auto simp: vouched_def)
  moreover from this a(4) have "\<exists>data ch'. Ask data ch' \<in> set ops \<and> ct_equal E (arr_access_code data) code
      \<and> arr_public_key data = aq_public_key a \<and> ch_device_type ch' = ch_device_type ch \<and> ch_ip ch' = ch_ip ch"
    unfolding asked_in_def foreign_client_def check_access_code_def by metis
  ultimately show ?thesis using a(1-3) by blast
qed

definition phone :: Device where
  "phone = \<lparr>d_uuid = ''phone'', d_created_at = 0, d_updated_at = 0, d_user_uuid = ''alice'', d_name = ''Phone'', d_atype = 9,
     d_push_uuid = None, d_push_token = None, d_refresh_token = ''r'', d_twofactor_remember = None\<rparr>"

definition asking :: AuthRequestRequest where
  "asking = \<lparr>arr_access_code = ''code'', arr_device_identifier = ''phone'', arr_email = ''alice@vault'', arr_public_key = ''pk''\<rparr>"

definition approving :: AuthResponseRequest where
  "approving = \<lparr>ars_device_identifier = ''phone'', ars_key = ''wrapped'', ars_master_password_hash = None, ars_request_approved = True\<rparr>"

definition phone_session :: Headers where
  "phone_session = \<lparr>h_host = '''', h_device = phone, h_user = login_alice, h_ip = ''::1''\<rparr>"

definition phone_server :: server where
  "phone_server = login_server\<lparr>devices := [phone]\<rparr>"

definition asked_server :: server where
  "asked_server = snd (post_auth_request login_env asking web_client phone_server)"

definition approved_server :: server where
  "approved_server = snd (put_auth_request login_env (aq_uuid (hd (auth_requests asked_server))) approving phone_session asked_server)"

theorem login_key_vouched_witness:
  "let ops = [Ask asking web_client, Answer (aq_uuid (hd (auth_requests asked_server))) approving phone_session] in
    \<exists>a \<in> set (auth_requests approved_server). aq_enc_key a = Some ''wrapped'' \<and> answered_in ops a"
proof -
  let ?id = "aq_uuid (hd (auth_requests asked_server))"
  let ?ops = "[] @ [Ask asking web_client] @ [Answer ?id approving phone_session]"
  have "request_run login_env ([] @ [Ask asking web_client]) phone_server asked_server"
    unfolding asked_server_def by (rule request_run.Snoc [OF request_run.Nil request_step.Ask]) (rule prod.collapse [symmetric])
  then have run: "request_run login_env (([] @ [Ask asking web_client]) @ [Answer ?id approving phone_session]) phone_server approved_server"
    unfolding approved_server_def by (rule request_run.Snoc [OF _ request_step.Answer]) (rule prod.collapse [symmetric])
  have empty: "auth_requests phone_server = []" by code_simp
  have "\<not> isl (fst (get_auth_request_response login_env ?id ''code'' web_client approved_server))" by code_simp
  then obtain j t' where "get_auth_request_response login_env ?id ''code'' web_client approved_server = (Inr j, t')"
    by (cases "get_auth_request_response login_env ?id ''code'' web_client approved_server";
        cases "fst (get_auth_request_response login_env ?id ''code'' web_client approved_server)") auto
  from login_key_vouched [OF run empty this] obtain a where
    a: "a \<in> set (auth_requests approved_server)" "undecided a \<or> answered_in ?ops a" by auto
  have "\<forall>a \<in> set (auth_requests approved_server). aq_enc_key a = Some ''wrapped''" by code_simp
  with a show ?thesis by (auto simp: undecided_def)
qed

section \<open>Accounts\<close>

text \<open>C17. A registration never touches an account that has a password: whatever it is sent and whatever it
  answers, every such account is still stored afterwards, equal up to the date of its revision, provided
  that the ids drawn from then on are not the id of the account. The witness keeps an account that an earlier
  registration created.\<close>

theorem register_keeps_accounts:
  assumes "keyed u_uuid (users s)" "u \<in> set (users s)" "u_password_hash u \<noteq> []" "\<forall>n \<ge> tick s. uuid_at E n \<noteq> u_uuid u"
  shows "\<exists>v \<in> set (users (snd (register E data verification s))). same_account u v"
  using register_kept [OF assms(2,3,1)] assms(4) unfolding kept_def by blast

definition registration :: RegisterData where
  "registration = \<lparr>rg_email = ''bob@vault'', rg_kdf = \<lparr>kd_kdf = 0, kd_kdf_iterations = 600000, kd_kdf_memory = None,
     kd_kdf_parallelism = None\<rparr>, rg_key = ''k'', rg_keys = None, rg_master_password_hash = ''h'',
     rg_master_password_hint = None, rg_name = None, rg_organization_user_id = None, rg_email_verification_token = None,
     rg_accept_emergency_access_id = None, rg_accept_emergency_access_invite_token = None, rg_org_invite_token = None\<rparr>"

definition ann_server :: server where
  "ann_server = snd (register login_env (registration\<lparr>rg_email := ''ann@vault''\<rparr>) False login_server)"

definition ann :: User where
  "ann = last (users ann_server)"

theorem register_keeps_accounts_witness:
  "u_email ann = ''ann@vault'' \<and> \<not> isl (fst (register login_env registration False ann_server))
    \<and> (\<exists>v \<in> set (users (snd (register login_env registration False ann_server))). same_account ann v)"
proof (intro conjI register_keeps_accounts)
  show "ann \<in> set (users ann_server)" unfolding ann_def by (rule last_in_set) code_simp
  have "length (u_uuid ann) < tick ann_server" by code_simp
  moreover have "uuid_at login_env n = replicate n CHR ''x''" for n by (simp add: login_env_def demo_env_def)
  ultimately show "\<forall>n \<ge> tick ann_server. uuid_at login_env n \<noteq> u_uuid ann" by (auto dest: arg_cong [of _ _ length])
qed code_simp+

text \<open>C18. A change of the address to one with capital letters locks the account: \<open>post_email\<close> stores the
  address as sent, the lookup compares with the lower-case form, so that no address finds the account
  any more, neither for a login nor for a reminder.\<close>

theorem email_change_locks_out:
  assumes "fst (post_email E data h s) = Inr ()" "lowercase_of E (ce_new_email data) \<noteq> ce_new_email data"
    and "\<forall>x. lowercase_of E (lowercase_of E x) = lowercase_of E x"
  shows "(\<exists>v \<in> set (users (snd (post_email E data h s))). u_uuid v = u_uuid (h_user h))
    \<and> (\<forall>address v. User_find_by_mail E address (snd (post_email E data h s)) = Some v \<longrightarrow> u_uuid v \<noteq> u_uuid (h_user h))"
proof -
  obtain t where t: "post_email E data h s = (Inr (), t)" using assms(1) by (cases "post_email E data h s") auto
  from wp_Inr [OF post_email_rows t] have rows: "\<exists>x \<in> set (users t). u_uuid x = u_uuid (h_user h)"
    "\<And>x. x \<in> set (users t) \<Longrightarrow> u_uuid x = u_uuid (h_user h) \<Longrightarrow> u_email x = ce_new_email data" by auto
  have "u_uuid v \<noteq> u_uuid (h_user h)" if "User_find_by_mail E address t = Some v" for address v
  proof
    assume "u_uuid v = u_uuid (h_user h)"
    with that rows(2) have "ce_new_email data = lowercase_of E address"
      by (auto simp: User_find_by_mail_def dest!: tbl_first_Some)
    with assms(2,3) show False by metis
  qed
  with rows(1) t show ?thesis by simp
qed

definition ascii_lower :: "char \<Rightarrow> char" where
  "ascii_lower c = (if c \<in> set ''ABCDEFGHIJKLMNOPQRSTUVWXYZ'' then char_of (of_char c + 32 :: nat) else c)"

definition lower_env :: env where
  "lower_env = login_env\<lparr>lowercase_of := map ascii_lower\<rparr>"

definition new_address :: ChangeEmailData where
  "new_address = \<lparr>ce_master_password_hash = ''pw'', ce_new_email = ''Alice@new'', ce_key = ''k'',
     ce_new_master_password_hash = ''pw2'', ce_token = NumberOrString.String ''123456''\<rparr>"

definition changing :: Headers where
  "changing = phone_session\<lparr>h_user := login_alice\<lparr>u_email_new := Some ''Alice@new'', u_email_new_token := Some ''123456''\<rparr>\<rparr>"

lemma ascii_lower_twice: "ascii_lower (ascii_lower c) = ascii_lower c"
proof (cases "c \<in> set ''ABCDEFGHIJKLMNOPQRSTUVWXYZ''")
  case True
  have "\<forall>c \<in> set ''ABCDEFGHIJKLMNOPQRSTUVWXYZ''. ascii_lower (ascii_lower c) = ascii_lower c" by code_simp
  with True show ?thesis by blast
qed (simp add: ascii_lower_def)

theorem email_change_locks_out_witness:
  "fst (post_email lower_env new_address changing phone_server) = Inr ()
    \<and> \<not> (\<exists>address v. User_find_by_mail lower_env address (snd (post_email lower_env new_address changing phone_server)) = Some v
         \<and> u_uuid v = ''alice'')"
proof -
  have ok: "fst (post_email lower_env new_address changing phone_server) = Inr ()" by code_simp
  have cap: "lowercase_of lower_env (ce_new_email new_address) \<noteq> ce_new_email new_address" by code_simp
  have idem: "\<forall>x. lowercase_of lower_env (lowercase_of lower_env x) = lowercase_of lower_env x"
    by (simp add: lower_env_def ascii_lower_twice)
  have "u_uuid (h_user changing) = ''alice''" by code_simp
  with email_change_locks_out [OF ok cap idem] ok show ?thesis by auto
qed

end
