(* ===== verification/Spec2Isabelle.thy ===== *)
theory Spec2Isabelle
  imports CryptoProps ServerProps AccountProps VaultProps HttpProps SendProps OrgProps CipherProps CipherLimits LoginProps
begin

text \<open>
  NadSafe: a password manager made of a cryptographic crate (\<open>crates/crypto-core\<close>), desktop commands
  that call it (\<open>clients/desktop/src-tauri\<close>) and a server (\<open>server\<close>, derived from Vaultwarden). The
  clients encrypt every secret with keys derived from a master password; the server stores the
  encrypted rows and decides who may read and write them.

  \<^bold>\<open>How the code is modelled.\<close> A pure Rust function is a HOL function; \<open>Result\<close> is a sum with the
  error on the left, \<open>Option\<close> is \<open>option\<close>; machine words of the crypto crate are words, the \<open>i32\<close> and
  \<open>i64\<close> columns of the database integers with the wrap-around or the check written out where the code
  computes with them. A request handler or job is an \<open>act\<close> (theory Act): a state transformer that ends
  with a value or an error and keeps what it wrote before the error, since the code runs no
  transaction around a request. \<open>Api\<close> is the \<open>err!\<close> macro, \<open>ApiEvent\<close> and \<open>ApiJson\<close> its forms with an
  event for the log and with a JSON answer, \<open>Panic\<close> an \<open>expect\<close> or \<open>unwrap\<close> that fails. The state \<open>server\<close> (theory Schema) is the tables of \<open>db/schema.rs\<close> as lists of records, the
  mails sent, the stored files of sends and \<open>tick\<close>, the number of reads from outside so far. The record
  \<open>env\<close> carries the configuration, the answers of clock, random generator, mail transport and storage
  backend (indexed by \<open>tick\<close>) and the third-party functions. Queries built with Diesel are list
  functions (theory SqlTable); where the statements of SQLite, MySQL and PostgreSQL differ in effect, the
  configuration says which one runs. Third-party code is always such a parameter; where a property relies on
  it, the documented behaviour is a named hypothesis, and a witness instantiates it.

  \<^bold>\<open>Theories and sources.\<close>
  \<^item> Prelude: bytes, hexadecimal, decimal and string functions shared by all.
  \<^item> EncString, Keys, Recovery, Totp, PasswordGen (DemoLib: a toy cipher for the witnesses):
    \<open>enc_string.rs\<close>, \<open>error.rs\<close>, \<open>kdf.rs\<close>, \<open>keys.rs\<close>, \<open>recovery.rs\<close>, \<open>totp.rs\<close>, \<open>password_gen.rs\<close> and
    the three desktop commands of \<open>commands/vault.rs\<close> that call them. CryptoProps: payloads round trip
    and are authenticated, the accepted formats, key transport, base32 against its reference, codes and
    generated passwords.
  \<^item> SqlTable, Act, Schema: statements, handlers and the weakest preconditions through which claims about
    whole handlers are computed, and the data. The locales \<open>keyed_rows\<close> and \<open>row_store\<close> are the contract
    of a table with a primary key; devices, memberships, emergency accesses and sends interpret them.
  \<^item> Devices, Users, TwoFactors, Members: \<open>device.rs\<close>, \<open>user.rs\<close>, \<open>two_factor.rs\<close>,
    \<open>two_factor_incomplete.rs\<close>, \<open>authenticator.rs\<close>, the memberships of \<open>organization.rs\<close>. AccountProps:
    no replay of a code, sign-out by a password change, unique users, revocation and restoration.
  \<^item> Emergency, EmergencyApi, EmergencyLife, EmergencySafe, EmergencyJob: \<open>emergency_access.rs\<close> of the
    models and of the API, with both jobs. The life cycle of a row is an abstract step relation that every
    handler refines. EmergencyOutside: what registrations and key rotations do to the table. The states
    reachable through all of them satisfy the table's invariant. ServerProps: a takeover needs an
    approval or an elapsed waiting time, its effect, its refusals, and the jobs.
  \<^item> OrgGroups, Collections, VaultItems, Ciphers: \<open>group.rs\<close>, \<open>collection.rs\<close>, \<open>folder.rs\<close>,
    \<open>favorite.rs\<close>, \<open>archive.rs\<close>, \<open>attachment.rs\<close>, \<open>cipher.rs\<close>, the folder handlers and the data of a
    synchronisation. Access and VaultLaws relate the queries to a declarative reading of the tables.
    VaultProps: who sees what, agreement of the three access checks, deletion and its interruption.
  \<^item> HttpFilter: \<open>http_client.rs\<close> and \<open>is_global_hardcoded\<close>. HttpProps: agreement with the registry of
    address ranges, the resolver's guarantee, transparency of the regex cache.
  \<^item> OrgPolicies, Sends, SendLaws: \<open>org_policy.rs\<close>, \<open>send.rs\<close>, \<open>sends.rs\<close>. SendProps: when a send can be
    read, its limit over sequences of requests and its failure under interleaving, the storage quota.
  \<^item> Sessions: the request guards and tokens of \<open>auth.rs\<close>. Events: \<open>event.rs\<close>, \<open>events.rs\<close>. ProtectedActions:
    \<open>protected_actions.rs\<close> and \<open>PasswordOrOtpData\<close>. Organizations: the organizations of \<open>organization.rs\<close> and
    \<open>User::delete\<close>. OrgApi: the handlers of \<open>organizations.rs\<close> on organizations, members and policies.
    OrgLaws: what each of them keeps of the memberships. OrgProps: a confirmed owner remains through every
    sequence of requests, administrators cannot raise a role, exactness of the guard, and three defects.
  \<^item> CipherApi: every handler and route of \<open>ciphers.rs\<close>. CipherLaws: a request on one cipher leaves the rest of
    the vault alone (\<open>aside\<close>); CipherOwner: the table of ciphers stays well-formed. CipherProps: isolation of
    ciphers over sequences of requests, imports and purges, refusal without write access, one owner per cipher,
    trash and restoration with the archive marks that a save loses. CipherLimits: the storage limit of uploads, what a failed share leaks, an import that panics.
  \<^item> LoginRequests: \<open>auth_request.rs\<close> and its handlers in \<open>accounts.rs\<close>. SecondFactors: \<open>two_factor/mod.rs\<close>,
    \<open>email.rs\<close> and the handlers of \<open>authenticator.rs\<close>. Login: the token endpoint of \<open>identity.rs\<close> with the
    password, refresh and API key grants, where single sign-on and the factors of external services are
    parameters. AccountApi: registration and the handlers of \<open>accounts.rs\<close>; KeyRotation: \<open>post_rotatekey\<close>.
    LoginLaws: what a login requires, statement by statement; EmailCodes: what a wrong guess leaves of a code;
    RequestLaws: the operations on login requests as a step relation and where each row comes from;
    AccountLaws: what a registration and a change of the address leave in the table of users. LoginProps: a
    login is justified by its credentials and a second factor, the key of a login request comes from its
    owner, guesses are bounded, a registration keeps accounts, and two defects.
  \<^item> DemoServer, DemoVault, DemoLogin: the concrete environment, server and vault of the witnesses.

  \<^bold>\<open>Bounds and termination.\<close> Every definition is total: loops over rows are structural, the retry and
  fill loops of the password generator recurse on a stream of random words with the measure given
  there. A reading of the clock never repeats, and nothing is assumed of its order. Dates are bounded
  as chrono bounds them (\<open>naive_add\<close>), so that an overflow is the panic it is in the code.

  \<^bold>\<open>Not modelled.\<close> Rendering of rows as JSON beyond the small structures (handlers of sends answer with
  the row); mail templates and web pages; websocket and push messages, of which only the revision dates
  they touch are kept; TLS and the signing of tokens; failures of the database connection and constraint
  violations other than the uniqueness of an e-mail and the foreign keys of users, organizations and ciphers. Single
  sign-on, Duo, WebAuthn and YubiKey are dialogues with external services, of which a login uses only the
  outcome. The handlers of \<open>organizations.rs\<close> for collections, groups, import, account recovery and
  directory synchronisation call the operations of Collections, OrgGroups and Members and are not composed
  here. Icons (download and parsing of web pages), the administration page, start-up, migrations, the
  parsing of the configuration and the TypeScript clients have no model.
\<close>

end
